(* ===== verification/Prelude.thy ===== *)
theory Prelude
  imports Complex_Main "HOL-Library.Monad_Syntax" "HOL-Library.AList" "HOL-Library.Word"
begin

text \<open>
  The shared prelude of the development: machine types, checked C arithmetic, C strings, the
  typed object stores through which the C++ heap is modelled, and the lemma collections that
  carry the component proofs.

  A computation that the C++ standard gives no meaning (a null or dangling pointer dereferenced,
  a signed overflow, an object freed twice) or that V8 ends by aborting the process
  (\<open>ToLocalChecked\<close> of an empty handle) is \<open>None\<close>; everything else is \<open>Some\<close> of the result and
  the next state. JavaScript exceptions are ordinary values, never \<open>None\<close>.
\<close>

section \<open>Lemma collections\<close>

named_theorems run_simps \<open>unfolding rules of the executable operations\<close>
named_theorems world_simps \<open>how the world accessors see each update\<close>
named_theorems ok_rules \<open>invariant preservation: the equation of the step first, then the invariant before it\<close>
named_theorems bits_simps \<open>rules of the tagging and compression arithmetic\<close>

declare One_nat_def [simp del]    \<comment> \<open>keep the numeral \<open>1\<close>\<close>

section \<open>Machine types\<close>

type_synonym addr = nat     \<comment> \<open>a C++ object address; 0 is \<open>nullptr\<close>\<close>
type_synonym slot = nat     \<comment> \<open>\<open>internal::Address*\<close>, the storage cell of a persistent handle; 0 is empty\<close>
type_synonym obj = nat      \<comment> \<open>an opaque V8 heap object\<close>
type_synonym byte = "8 word"
type_synonym u16 = "16 word"
type_synonym u32 = "32 word"
type_synonym u64 = "64 word"

abbreviation (input) nullptr :: nat where
  "nullptr \<equiv> 0"

definition LONG_MAX :: int where
  "LONG_MAX = 2 ^ 63 - 1"

definition INT_MAX :: int where
  "INT_MAX = 2 ^ 31 - 1"

definition INT_MIN :: int where
  "INT_MIN = - (2 ^ 31)"

text \<open>\<open>++x\<close> on a C \<open>long\<close> (64 bits on every platform of the build): signed overflow is undefined.\<close>

definition incr_long :: "int \<Rightarrow> int option" where
  "incr_long n = (if n < LONG_MAX then Some (n + 1) else None)"

text \<open>Signed addition on a C \<open>int\<close>.\<close>

definition add_int :: "int \<Rightarrow> int \<Rightarrow> int option" where
  "add_int a b = (if INT_MIN \<le> a + b \<and> a + b \<le> INT_MAX then Some (a + b) else None)"

text \<open>\<open>static_cast<int>\<close> and \<open>static_cast<uint32_t>\<close> of a \<open>size_t\<close>: the low 32 bits, read as signed
  and as unsigned.\<close>

definition cast_int :: "nat \<Rightarrow> int" where
  "cast_int n = sint (of_nat n :: u32)"

definition cast_u32 :: "nat \<Rightarrow> u32" where
  "cast_u32 n = of_nat n"

lemma incr_long_Some [simp]: "incr_long n = Some m \<longleftrightarrow> m = n + 1 \<and> n < LONG_MAX"
  by (auto simp: incr_long_def)

lemma cast_int_small: "n < 2 ^ 31 \<Longrightarrow> cast_int n = int n"
  by (simp add: cast_int_def signed_of_nat signed_take_bit_int_eq_self)

text \<open>Reading a \<open>uint32_t\<close> as an \<open>int\<close>.\<close>

lemma int_shift_mod:
  assumes "n < (4294967296 :: int)" "0 \<le> n"
  shows "(n + 2147483648) mod 4294967296 - 2147483648 = (if n < 2147483648 then n else n - 4294967296)"
proof (cases "n < 2147483648")
  case True
  with assms have "(n + 2147483648) mod 4294967296 = n + 2147483648"
    by (intro mod_pos_pos_trivial) linarith+
  with True show ?thesis by simp
next
  case False
  with assms have "(n + 2147483648 - 4294967296) mod 4294967296 = n + 2147483648 - 4294967296"
    by (intro mod_pos_pos_trivial) linarith+
  with False show ?thesis by (simp only: minus_mod_self2) simp
qed

lemma sint_u32: "sint (x :: u32) = (if unat x < 2 ^ 31 then int (unat x) else int (unat x) - 2 ^ 32)"
proof -
  have u: "uint x = int (unat x)" by simp
  have "sint x = (uint x + 2147483648) mod 4294967296 - 2147483648"
    by (simp add: sint_uint signed_take_bit_eq_take_bit_shift take_bit_eq_mod)
  also have "\<dots> = (if uint x < 2147483648 then uint x else uint x - 4294967296)"
    by (rule int_shift_mod) (use unsigned_less [of x, where 'a = int] in simp_all)
  finally have s: "sint x = (if uint x < 2147483648 then uint x else uint x - 4294967296)" .
  have "unat x < 2 ^ 31 \<longleftrightarrow> int (unat x) < int (2 ^ 31)"
    by (simp only: of_nat_less_iff)
  then have "uint x < 2147483648 \<longleftrightarrow> unat x < 2 ^ 31" by (simp flip: u)
  with s show ?thesis by (simp only: u) simp
qed

section \<open>C strings\<close>

text \<open>What a \<open>const char*\<close> reader sees of a byte string: the bytes before the first NUL.\<close>

definition c_str :: "string \<Rightarrow> string" where
  "c_str s = takeWhile (\<lambda>c. c \<noteq> CHR 0x00) s"

lemma c_str_no_nul [simp]: "CHR 0x00 \<notin> set s \<Longrightarrow> c_str s = s"
  by (auto simp: c_str_def)

lemma c_str_idem [simp]: "c_str (c_str s) = c_str s"
  by (simp add: c_str_def)

section \<open>Typed stores\<close>

text \<open>
  The C++ heap is kept as one partial map per kind of object. Every kind has the same reading and
  writing laws; the lemmas about \<open>new\<close>, \<open>delete\<close> and field updates are proved once from them.
\<close>

locale typed_store =
  fixes rd :: "'w \<Rightarrow> addr \<Rightarrow> 'a option"
    and wr :: "addr \<Rightarrow> 'a option \<Rightarrow> 'w \<Rightarrow> 'w"
  assumes rd_wr: "rd (wr a x w) = (rd w)(a := x)"
begin

lemma read_written: "rd (wr a (Some x) w) a = Some x"
  by (simp add: rd_wr)

lemma read_deleted: "rd (wr a None w) a = None"
  by (simp add: rd_wr)

lemma read_other: "b \<noteq> a \<Longrightarrow> rd (wr a x w) b = rd w b"
  by (simp add: rd_wr)

lemma dom_written: "dom (rd (wr a (Some x) w)) = insert a (dom (rd w))"
  by (simp add: rd_wr)

lemma dom_deleted: "dom (rd (wr a None w)) = dom (rd w) - {a}"
  by (simp add: rd_wr)

end

section \<open>Generic lemmas\<close>

lemma map_of_update_key: "map_of (AList.update k v xs) = (map_of xs)(k \<mapsto> v)"
  by (rule update_conv')

lemma map_of_delete_key: "map_of (AList.delete k xs) = (map_of xs)(k := None)"
  by (rule AList.delete_conv')

lemma distinct_fst_update: "distinct (map fst xs) \<Longrightarrow> distinct (map fst (AList.update k v xs))"
  by (rule distinct_update)

lemma distinct_fst_delete: "distinct (map fst xs) \<Longrightarrow> distinct (map fst (AList.delete k xs))"
  by (rule distinct_delete)

lemma map_of_in_set: "distinct (map fst xs) \<Longrightarrow> (k, v) \<in> set xs \<longleftrightarrow> map_of xs k = Some v"
  by simp

text \<open>How a result \<open>Some y\<close> of a branching operation arises.\<close>

lemma case_option_eq_Some [run_simps]:
  "(case m of None \<Rightarrow> n | Some x \<Rightarrow> f x) = Some y \<longleftrightarrow>
     (m = None \<and> n = Some y) \<or> (\<exists>x. m = Some x \<and> f x = Some y)"
  by (cases m) auto

lemma case_prod_eq_Some [run_simps]:
  "(case p of (a, b) \<Rightarrow> f a b) = Some y \<longleftrightarrow> (\<exists>a b. p = (a, b) \<and> f a b = Some y)"
  by (cases p) auto

lemma if_eq_Some [run_simps]:
  "(if b then m else n) = Some y \<longleftrightarrow> (b \<and> m = Some y) \<or> (\<not> b \<and> n = Some y)"
  by auto

lemma let_eq_Some [run_simps]: "(let x = a in f x) = Some y \<longleftrightarrow> f a = Some y"
  by simp

lemma option_bind_Some [simp]: "Option.bind m f = Some y \<longleftrightarrow> (\<exists>x. m = Some x \<and> f x = Some y)"
  by (cases m) auto

section \<open>More defined results\<close>

text \<open>\<open>le m m'\<close>: wherever \<open>m\<close> has a result, \<open>m'\<close> has the same.\<close>

definition le :: "'a option \<Rightarrow> 'a option \<Rightarrow> bool" where
  "le m m' \<longleftrightarrow> (\<forall>r. m = Some r \<longrightarrow> m' = Some r)"

named_theorems le_rules \<open>congruence of \<open>le\<close> along the control structure of an operation\<close>

lemma leD: "le m m' \<Longrightarrow> m = Some r \<Longrightarrow> m' = Some r"
  by (simp add: le_def)

lemma le_refl [le_rules]: "le m m"
  by (simp add: le_def)

lemma le_None [le_rules]: "le None m"
  by (simp add: le_def)

lemma le_bind [le_rules]:
  "le m m' \<Longrightarrow> (\<And>x. le (f x) (g x)) \<Longrightarrow> le (Option.bind m f) (Option.bind m' g)"
  by (auto simp: le_def)

lemma le_if [le_rules]: "le a a' \<Longrightarrow> le b b' \<Longrightarrow> le (if c then a else b) (if c then a' else b')"
  by simp

lemma le_case_option [le_rules]:
  "le n n' \<Longrightarrow> (\<And>x. le (f x) (g x)) \<Longrightarrow>
     le (case m of None \<Rightarrow> n | Some x \<Rightarrow> f x) (case m of None \<Rightarrow> n' | Some x \<Rightarrow> g x)"
  by (cases m) simp_all

lemma le_case_prod [le_rules]:
  "(\<And>a b. le (f a b) (g a b)) \<Longrightarrow> le (case p of (a, b) \<Rightarrow> f a b) (case p of (a, b) \<Rightarrow> g a b)"
  by (cases p) simp

section \<open>Handles that are released\<close>

text \<open>A loop that releases one handle after the other.\<close>

primrec release_each :: "(addr \<Rightarrow> 'w \<Rightarrow> 'w option) \<Rightarrow> addr list \<Rightarrow> 'w \<Rightarrow> 'w option" where
  "release_each rel [] w = Some w"
| "release_each rel (a # as) w = do { w1 \<leftarrow> rel a w; release_each rel as w1 }"

text \<open>
  What disposing of an object promises: given a live one it succeeds, keeps the invariant \<open>ok\<close>, frees
  exactly that object and the storage cell it owns, and leaves the rest of the state, \<open>fr\<close>, alone.
\<close>

locale disposable =
  fixes ok :: "'w \<Rightarrow> bool"
    and st :: "'w \<Rightarrow> addr \<Rightarrow> 'a option"
    and cl :: "'w \<Rightarrow> slot \<Rightarrow> obj option"
    and sl :: "'a \<Rightarrow> slot"
    and fr :: "'w \<Rightarrow> 'f"
    and rel :: "addr \<Rightarrow> 'w \<Rightarrow> 'w option"
  assumes rel_live: "ok w \<Longrightarrow> st w a = Some x \<Longrightarrow>
      \<exists>w'. rel a w = Some w' \<and> ok w' \<and> st w' = (st w)(a := None) \<and> cl w' = (cl w)(sl x := None) \<and>
        fr w' = fr w"
begin

lemma rel_someD:
  assumes "ok w" "st w a = Some x" "rel a w = Some w'"
  shows "ok w'" "st w' = (st w)(a := None)" "cl w' = (cl w)(sl x := None)" "fr w' = fr w"
  using rel_live [OF assms(1,2)] assms(3) by auto

lemma release_each_live:
  assumes "ok w" "distinct as" "set as \<subseteq> dom (st w)"
  shows "\<exists>w'. release_each rel as w = Some w' \<and> ok w' \<and> st w' = st w |` (- set as) \<and>
    cl w' = cl w |` (- (\<lambda>a. sl (the (st w a))) ` set as) \<and> fr w' = fr w"
  using assms
proof (induction as arbitrary: w)
  case Nil
  then show ?case by simp
next
  case (Cons a as)
  then obtain x where x: "st w a = Some x" by auto
  obtain w1 where w1: "rel a w = Some w1" "ok w1" "st w1 = (st w)(a := None)"
    "cl w1 = (cl w)(sl x := None)" "fr w1 = fr w"
    using rel_live [OF Cons.prems(1) x] by auto
  have "set as \<subseteq> dom (st w1)" using Cons.prems(2,3) by (auto simp: w1(3))
  with Cons.IH [OF w1(2)] Cons.prems(2) obtain w' where w': "release_each rel as w1 = Some w'" "ok w'"
    "st w' = st w1 |` (- set as)" "cl w' = cl w1 |` (- (\<lambda>a. sl (the (st w1 a))) ` set as)"
    "fr w' = fr w1"
    by auto
  have "(\<lambda>b. sl (the (st w1 b))) ` set as = (\<lambda>b. sl (the (st w b))) ` set as"
    using Cons.prems(2) by (intro image_cong) (auto simp: w1(3))
  then have "cl w' = cl w |` (- (\<lambda>b. sl (the (st w b))) ` set (a # as))"
    by (auto simp: w'(4) w1(4) x restrict_map_def fun_eq_iff)
  moreover have "st w' = st w |` (- set (a # as))"
    by (auto simp: w'(3) w1(3) restrict_map_def fun_eq_iff)
  ultimately show ?case using w1(1,5) w'(1,2,5) by (intro exI [of _ w']) simp
qed

end

text \<open>The exported release functions also ignore null, and releasing a dead handle is an error.\<close>

locale releasable = disposable +
  assumes rel_null: "rel nullptr w = Some w"
    and rel_dead: "a \<noteq> nullptr \<Longrightarrow> st w a = None \<Longrightarrow> rel a w = None"
    and null_dead: "ok w \<Longrightarrow> st w nullptr = None"
begin

lemma not_null: "ok w \<Longrightarrow> st w a = Some x \<Longrightarrow> a \<noteq> nullptr"
  by (metis null_dead option.distinct(1))

lemma rel_twice:
  assumes "ok w" "st w a = Some x" "rel a w = Some w'"
  shows "rel a w' = None"
  using rel_someD(2) [OF assms] not_null [OF assms(1,2)] rel_dead by simp

lemma rel_ok:
  assumes "rel a w = Some w'" "ok w"
  shows "ok w'"
proof (cases "st w a")
  case None
  with assms rel_dead have "a = nullptr" by fastforce
  with assms rel_null show ?thesis by simp
next
  case (Some x)
  from rel_someD(1) [OF assms(2) Some assms(1)] show ?thesis .
qed

text \<open>Releasing succeeds exactly on null and on live handles.\<close>

lemma rel_defined: "ok w \<Longrightarrow> rel a w \<noteq> None \<longleftrightarrow> a = nullptr \<or> st w a \<noteq> None"
  using rel_null rel_dead rel_live by (cases "st w a") fastforce+

end

end
