(* ===== verification/V8_Maybe.thy ===== *)
theory V8_Maybe
  imports Prelude
begin

text \<open>
  \<open>v8::Maybe\<close> of \<open>v8-maybe.h\<close>: the result of an API call that may have failed because an exception
  is pending. \<open>Just v\<close> is \<open>has_value_ = true, value_ = v\<close>; \<open>FromJust\<close>, \<open>ToChecked\<close> and \<open>Check\<close> of
  \<open>Nothing\<close> call \<open>FromJustIsNothing\<close>, which aborts the process (\<open>None\<close>).
\<close>

datatype 'a Maybe = Nothing | Just 'a

fun Maybe_IsJust :: "'a Maybe \<Rightarrow> bool" where
  "Maybe_IsJust Nothing = False"
| "Maybe_IsJust (Just _) = True"

fun Maybe_IsNothing :: "'a Maybe \<Rightarrow> bool" where
  "Maybe_IsNothing Nothing = True"
| "Maybe_IsNothing (Just _) = False"

definition Maybe_IsEmpty :: "'a Maybe \<Rightarrow> bool" where
  "Maybe_IsEmpty m = Maybe_IsNothing m"

fun Maybe_FromJust :: "'a Maybe \<Rightarrow> 'a option" where
  "Maybe_FromJust Nothing = None"
| "Maybe_FromJust (Just v) = Some v"

definition Maybe_ToChecked :: "'a Maybe \<Rightarrow> 'a option" where
  "Maybe_ToChecked m = Maybe_FromJust m"

definition Maybe_Check :: "'a Maybe \<Rightarrow> unit option" where
  "Maybe_Check m = (if \<not> Maybe_IsJust m then None else Some ())"

text \<open>\<open>To(&out)\<close>: the flag, and what \<open>out\<close> holds afterwards.\<close>

fun Maybe_To :: "'a Maybe \<Rightarrow> 'a \<Rightarrow> bool \<times> 'a" where
  "Maybe_To Nothing out = (False, out)"
| "Maybe_To (Just v) out = (True, v)"

fun Maybe_FromMaybe :: "'a Maybe \<Rightarrow> 'a \<Rightarrow> 'a" where
  "Maybe_FromMaybe Nothing d = d"
| "Maybe_FromMaybe (Just v) d = v"

text \<open>\<open>operator==\<close>, with its short-circuit order: \<open>FromJust\<close> runs only when both hold a value.\<close>

definition Maybe_equal :: "'a Maybe \<Rightarrow> 'a Maybe \<Rightarrow> bool option" where
  "Maybe_equal m n =
     (if Maybe_IsJust m \<noteq> Maybe_IsJust n then Some False
      else if \<not> Maybe_IsJust m then Some True
      else do { x \<leftarrow> Maybe_FromJust m; y \<leftarrow> Maybe_FromJust n; Some (x = y) })"

lemma Maybe_IsNothing_not_IsJust: "Maybe_IsNothing m \<longleftrightarrow> \<not> Maybe_IsJust m"
  by (cases m) auto

lemma Maybe_IsJust_iff: "Maybe_IsJust m \<longleftrightarrow> (\<exists>v. m = Just v)"
  by (cases m) auto

lemma Maybe_IsNothing_iff [simp]: "Maybe_IsNothing m \<longleftrightarrow> m = Nothing"
  by (cases m) auto

lemma Maybe_equal_total: "Maybe_equal m n = Some (m = n)"
  by (cases m; cases n) (auto simp: Maybe_equal_def)

end
