(* ===== verification/V8_Handles.thy ===== *)
theory V8_Handles
  imports V8_Maybe
begin

text \<open>
  The persistent handle classes of \<open>v8-persistent-handle.h\<close> over \<open>IndirectHandleBase\<close> of
  \<open>v8-handle-base.h\<close>. A handle is its \<open>location_\<close>, the storage cell it refers to, 0 when empty.
  The table of storage cells belongs to the V8 library, which is not part of the sources: its state
  \<open>'g\<close> and the functions exported by \<open>api_internal\<close> are parameters, and \<open>handles_ok\<close> states what
  the header's comments promise of them.
\<close>

section \<open>The exported functions\<close>

record 'g handles_api =
  GlobalizeReference :: "obj \<Rightarrow> 'g \<Rightarrow> slot \<times> 'g"
  DisposeGlobal :: "slot \<Rightarrow> 'g \<Rightarrow> 'g"
  CopyGlobalReference :: "slot \<Rightarrow> 'g \<Rightarrow> slot \<times> 'g"
  cell :: "'g \<Rightarrow> slot \<Rightarrow> obj option"    \<comment> \<open>reading \<open>*location_\<close>; \<open>None\<close>: no such cell\<close>

text \<open>
  "A new storage cell can be created using the constructor or PersistentBase::Reset and existing
  handles can be disposed using PersistentBase::Reset": creating makes a cell that was not there,
  disposing removes exactly that cell, copying makes a new cell with the same contents.
\<close>

definition handles_ok :: "'g handles_api \<Rightarrow> bool" where
  "handles_ok H \<longleftrightarrow>
     (\<forall>x g s g'. GlobalizeReference H x g = (s, g') \<longrightarrow>
        s \<noteq> 0 \<and> cell H g s = None \<and> cell H g' = (cell H g)(s \<mapsto> x)) \<and>
     (\<forall>s g. cell H g s \<noteq> None \<longrightarrow> cell H (DisposeGlobal H s g) = (cell H g)(s := None)) \<and>
     (\<forall>s g x t g'. cell H g s = Some x \<longrightarrow> CopyGlobalReference H s g = (t, g') \<longrightarrow>
        t \<noteq> 0 \<and> cell H g t = None \<and> cell H g' = (cell H g)(t \<mapsto> x)) \<and>
     (\<forall>g. cell H g 0 = None)"

text \<open>The live storage cells.\<close>

definition live_cells :: "'g handles_api \<Rightarrow> 'g \<Rightarrow> slot set" where
  "live_cells H g = {s. cell H g s \<noteq> None}"

section \<open>IndirectHandleBase, PersistentBase, Persistent, Global\<close>

definition handle_IsEmpty :: "slot \<Rightarrow> bool" where
  "handle_IsEmpty location \<longleftrightarrow> location = nullptr"

definition handle_Clear :: "slot \<Rightarrow> slot" where
  "handle_Clear location = nullptr"

text \<open>\<open>PersistentBase::New\<close>: an empty local gives the empty handle.\<close>

definition persistent_New :: "'g handles_api \<Rightarrow> obj option \<Rightarrow> 'g \<Rightarrow> slot \<times> 'g" where
  "persistent_New H that g =
     (case that of None \<Rightarrow> (nullptr, g) | Some x \<Rightarrow> GlobalizeReference H x g)"

definition persistent_Reset :: "'g handles_api \<Rightarrow> slot \<Rightarrow> 'g \<Rightarrow> slot \<times> 'g" where
  "persistent_Reset H this g =
     (if handle_IsEmpty this then (this, g)
      else (handle_Clear this, DisposeGlobal H this g))"

definition persistent_Reset_local ::
    "'g handles_api \<Rightarrow> slot \<Rightarrow> obj option \<Rightarrow> 'g \<Rightarrow> slot \<times> 'g" where
  "persistent_Reset_local H this other g =
     (let (this1, g1) = persistent_Reset H this g in
      if other = None then (this1, g1) else persistent_New H other g1)"

text \<open>\<open>Reset(isolate, other)\<close> from another persistent: \<open>other.value<S>()\<close> reads its cell.\<close>

definition persistent_Reset_persistent ::
    "'g handles_api \<Rightarrow> slot \<Rightarrow> slot \<Rightarrow> 'g \<Rightarrow> (slot \<times> 'g) option" where
  "persistent_Reset_persistent H this other g =
     (let (this1, g1) = persistent_Reset H this g in
      if handle_IsEmpty other then Some (this1, g1)
      else do { x \<leftarrow> cell H g1 other; Some (persistent_New H (Some x) g1) })"

definition persistent_Copy :: "'g handles_api \<Rightarrow> slot \<Rightarrow> slot \<Rightarrow> 'g \<Rightarrow> slot \<times> 'g" where
  "persistent_Copy H this that g =
     (let (this1, g1) = persistent_Reset H this g in
      if handle_IsEmpty that then (this1, g1) else CopyGlobalReference H that g1)"

text \<open>The destructor is governed by the traits' \<open>kResetInDestructor\<close>, which the default
  \<open>NonCopyablePersistentTraits\<close> leaves false.\<close>

definition NonCopyable_kResetInDestructor :: bool where
  "NonCopyable_kResetInDestructor = False"

definition persistent_destructor :: "'g handles_api \<Rightarrow> bool \<Rightarrow> slot \<Rightarrow> 'g \<Rightarrow> 'g" where
  "persistent_destructor H kResetInDestructor this g =
     (if kResetInDestructor then snd (persistent_Reset H this g) else g)"

definition global_destructor :: "'g handles_api \<Rightarrow> slot \<Rightarrow> 'g \<Rightarrow> 'g" where
  "global_destructor H this g = snd (persistent_Reset H this g)"

text \<open>\<open>Get\<close> is \<open>Local::New(isolate, *this)\<close>: the empty local for an empty handle, otherwise what the
  cell holds. The outer \<open>None\<close> is a read through a cell that is gone.\<close>

definition persistent_Get :: "'g handles_api \<Rightarrow> slot \<Rightarrow> 'g \<Rightarrow> obj option option" where
  "persistent_Get H this g =
     (if handle_IsEmpty this then Some None else map_option Some (cell H g this))"

section \<open>Laws\<close>

lemma handles_ok_globalize:
  assumes "handles_ok H" "GlobalizeReference H x g = (s, g')"
  shows "s \<noteq> 0" "cell H g s = None" "cell H g' = (cell H g)(s \<mapsto> x)"
proof -
  note law = assms(1)[unfolded handles_ok_def, THEN conjunct1, rule_format, OF assms(2)]
  from law show "s \<noteq> 0" "cell H g s = None" "cell H g' = (cell H g)(s \<mapsto> x)" by simp_all
qed

lemma handles_ok_dispose:
  assumes "handles_ok H" "cell H g s = Some x"
  shows "cell H (DisposeGlobal H s g) = (cell H g)(s := None)"
  using assms(1)[unfolded handles_ok_def, THEN conjunct2, THEN conjunct1, rule_format, of g s]
    assms(2) by simp

lemma handles_ok_copy:
  assumes "handles_ok H" "cell H g s = Some x" "CopyGlobalReference H s g = (t, g')"
  shows "t \<noteq> 0" "cell H g t = None" "cell H g' = (cell H g)(t \<mapsto> x)"
proof -
  note law = assms(1)[unfolded handles_ok_def, THEN conjunct2, THEN conjunct2, THEN conjunct1,
      rule_format, OF assms(2,3)]
  from law show "t \<noteq> 0" "cell H g t = None" "cell H g' = (cell H g)(t \<mapsto> x)" by simp_all
qed

lemma handles_ok_null [simp]:
  assumes "handles_ok H"
  shows "cell H g 0 = None"
  using assms[unfolded handles_ok_def, THEN conjunct2, THEN conjunct2, THEN conjunct2] by simp

lemma persistent_Reset_empty [simp]: "persistent_Reset H 0 g = (0, g)"
  by (simp add: persistent_Reset_def handle_IsEmpty_def)

lemma persistent_Reset_fst [simp]: "fst (persistent_Reset H s g) = 0"
  by (simp add: persistent_Reset_def handle_IsEmpty_def handle_Clear_def)

lemma persistent_Reset_local_fresh:
  "persistent_Reset_local H 0 (Some x) g = GlobalizeReference H x g"
  by (simp add: persistent_Reset_local_def persistent_New_def)

lemma persistent_Reset_local_none [simp]: "persistent_Reset_local H 0 None g = (0, g)"
  by (simp add: persistent_Reset_local_def)

lemma persistent_Get_live [simp]: "s \<noteq> 0 \<Longrightarrow> cell H g s = Some x \<Longrightarrow> persistent_Get H s g = Some (Some x)"
  by (simp add: persistent_Get_def handle_IsEmpty_def)

lemma persistent_Get_Some:
  "persistent_Get H s g = Some (Some x) \<longleftrightarrow> s \<noteq> 0 \<and> cell H g s = Some x"
  by (auto simp: persistent_Get_def handle_IsEmpty_def)

text \<open>A concrete table of cells, a list of their contents with the number of the last cell made:
  the witnesses run on it.\<close>

type_synonym cell_table = "slot \<times> (slot \<times> obj) list"

definition list_handles :: "cell_table handles_api" where
  "list_handles =
     \<lparr>GlobalizeReference = (\<lambda>x (n, t). (Suc n, (Suc n, (Suc n, x) # filter (\<lambda>(s, _). s < Suc n) t))),
      DisposeGlobal = (\<lambda>s (n, t). (n, AList.delete s t)),
      CopyGlobalReference = (\<lambda>s (n, t).
         (Suc n, (Suc n, (Suc n, the (map_of t s)) # filter (\<lambda>(s, _). s < Suc n) t))),
      cell = (\<lambda>(n, t) s. if s = 0 \<or> n < s then None else map_of t s)\<rparr>"

lemma map_of_filter_key: "map_of (filter (\<lambda>(k, _). P k) t) k = (if P k then map_of t k else None)"
  by (induction t) auto

text \<open>Keys above the counter are never stored: that makes the next number fresh.\<close>

lemma list_handles_simps [simp]:
  "GlobalizeReference list_handles x (n, t) =
     (Suc n, (Suc n, (Suc n, x) # filter (\<lambda>(s, _). s < Suc n) t))"
  "DisposeGlobal list_handles s (n, t) = (n, AList.delete s t)"
  "CopyGlobalReference list_handles s (n, t) =
     (Suc n, (Suc n, (Suc n, the (map_of t s)) # filter (\<lambda>(s, _). s < Suc n) t))"
  "cell list_handles (n, t) s = (if s = 0 \<or> n < s then None else map_of t s)"
  by (simp_all add: list_handles_def)

lemma list_handles_ok: "handles_ok list_handles"
proof (unfold handles_ok_def, intro conjI allI impI)
  fix x s and g g' :: cell_table
  assume "GlobalizeReference list_handles x g = (s, g')"
  then show "s \<noteq> 0" "cell list_handles g s = None"
    "cell list_handles g' = (cell list_handles g)(s \<mapsto> x)"
    by (cases g; force simp: map_of_filter_key fun_eq_iff)+
next
  fix s and g :: cell_table
  assume "cell list_handles g s \<noteq> None"
  then show "cell list_handles (DisposeGlobal list_handles s g) = (cell list_handles g)(s := None)"
    by (cases g; simp add: map_of_delete_key fun_eq_iff)
next
  fix s x t and g g' :: cell_table
  assume "cell list_handles g s = Some x" "CopyGlobalReference list_handles s g = (t, g')"
  then show "t \<noteq> 0" "cell list_handles g t = None"
    "cell list_handles g' = (cell list_handles g)(t \<mapsto> x)"
    by (cases g; force simp: map_of_filter_key fun_eq_iff split: if_splits)+
next
  fix g :: cell_table
  show "cell list_handles g 0 = None" by (cases g) simp
qed

end
