(* ===== verification/V8_Origin.thy ===== *)
theory V8_Origin
  imports Prelude
begin

text \<open>
  \<open>ScriptOriginOptions\<close> and \<open>ScriptOrigin\<close> of \<open>v8-message.h\<close>: the origin gv8 attaches to every script
  and module it compiles. The options are four bits of an \<open>int\<close>; locals are objects, \<open>None\<close> when
  empty.
\<close>

unbundle bit_operations_syntax

definition kIsSharedCrossOrigin :: int where "kIsSharedCrossOrigin = 1"
definition kIsOpaque :: int where "kIsOpaque = push_bit 1 1"
definition kIsWasm :: int where "kIsWasm = push_bit 2 1"
definition kIsModule :: int where "kIsModule = push_bit 3 1"

lemmas origin_flag_defs = kIsSharedCrossOrigin_def kIsOpaque_def kIsWasm_def kIsModule_def

definition ScriptOriginOptions_of_bools :: "bool \<Rightarrow> bool \<Rightarrow> bool \<Rightarrow> bool \<Rightarrow> int" where
  "ScriptOriginOptions_of_bools is_shared_cross_origin is_opaque is_wasm is_module =
     ((if is_shared_cross_origin then kIsSharedCrossOrigin else 0) OR
      (if is_wasm then kIsWasm else 0) OR (if is_opaque then kIsOpaque else 0) OR
      (if is_module then kIsModule else 0))"

definition ScriptOriginOptions_of_flags :: "int \<Rightarrow> int" where
  "ScriptOriginOptions_of_flags flags =
     flags AND (kIsSharedCrossOrigin OR kIsOpaque OR kIsWasm OR kIsModule)"

definition options_IsSharedCrossOrigin :: "int \<Rightarrow> bool" where
  "options_IsSharedCrossOrigin flags \<longleftrightarrow> flags AND kIsSharedCrossOrigin \<noteq> 0"

definition options_IsOpaque :: "int \<Rightarrow> bool" where
  "options_IsOpaque flags \<longleftrightarrow> flags AND kIsOpaque \<noteq> 0"

definition options_IsWasm :: "int \<Rightarrow> bool" where
  "options_IsWasm flags \<longleftrightarrow> flags AND kIsWasm \<noteq> 0"

definition options_IsModule :: "int \<Rightarrow> bool" where
  "options_IsModule flags \<longleftrightarrow> flags AND kIsModule \<noteq> 0"

record script_origin =
  resource_name :: "obj option"
  resource_line_offset :: int
  resource_column_offset :: int
  options :: int
  script_id :: int
  source_map_url :: "obj option"
  host_defined_options :: "obj option"

definition ScriptOrigin_new ::
    "obj option \<Rightarrow> int \<Rightarrow> int \<Rightarrow> bool \<Rightarrow> int \<Rightarrow> obj option \<Rightarrow> bool \<Rightarrow> bool \<Rightarrow> bool \<Rightarrow> obj option
       \<Rightarrow> script_origin" where
  "ScriptOrigin_new name line col shared sid url is_opaque is_wasm is_module host =
     \<lparr>resource_name = name, resource_line_offset = line, resource_column_offset = col,
      options = ScriptOriginOptions_of_bools shared is_opaque is_wasm is_module,
      script_id = sid, source_map_url = url, host_defined_options = host\<rparr>"

lemma options_of_bools_decode:
  defines "f s p w m \<equiv> ScriptOriginOptions_of_bools s p w m"
  shows "options_IsSharedCrossOrigin (f s p w m) = s" "options_IsOpaque (f s p w m) = p"
    "options_IsWasm (f s p w m) = w" "options_IsModule (f s p w m) = m"
  unfolding f_def
  by (cases s; cases p; cases w; cases m;
      simp add: options_IsSharedCrossOrigin_def options_IsOpaque_def options_IsWasm_def
        options_IsModule_def ScriptOriginOptions_of_bools_def origin_flag_defs)+

lemma options_of_flags_of_bools:
  "ScriptOriginOptions_of_flags (ScriptOriginOptions_of_bools s p w m) =
     ScriptOriginOptions_of_bools s p w m"
  by (cases s; cases p; cases w; cases m;
      simp add: ScriptOriginOptions_of_flags_def ScriptOriginOptions_of_bools_def origin_flag_defs)

end
