(* ===== verification/V8_Api.thy ===== *)
theory V8_Api
  imports V8_Handles V8_Origin
begin

text \<open>
  What gv8 calls of the V8 library. The library itself is not part of the sources, so each exported
  function gv8 calls is a field of the parameter record \<open>v8\<close>, over an opaque engine state \<open>'e\<close> and
  the state \<open>'g\<close> of the table of storage cells.

  A call that can run JavaScript can call back into gv8 before it returns. It is a tree: either it
  returns (\<open>Ret\<close>), or it suspends in a callback (\<open>Yield\<close>) with the engine state at that moment and
  goes on with the reply and the engine state the callback leaves. A tree is well founded, so a
  call is one that returns; scripts that never return are outside the model.
\<close>

section \<open>Callbacks\<close>

text \<open>The callbacks gv8 installs, with the arguments V8 passes: the current isolate, the current context
  (for a rejection the entered or microtask context), and the rest as the code reads it.\<close>

datatype request =
    FunctionCall (rq_isolate: addr) (rq_context: obj) (rq_this: obj) (rq_args: "obj list") (rq_data: int)
  | ResolveModule (rq_isolate: addr) (rq_context: obj) (rq_specifier: "string option") (rq_referrer: obj)
  | DynamicImport (rq_isolate: addr) (rq_context: obj) (rq_specifier: "string option")
      (rq_resource: "string option")
  | PromiseReject (rq_isolate: addr) (rq_context: obj) (rq_event: int) (rq_value: "obj option")

text \<open>How a callback ends: with \<open>ReturnValue::Set\<close> or without, by scheduling an exception with
  \<open>ThrowException\<close> and returning, with a \<open>MaybeLocal\<close> holding a module or promise, or empty.\<close>

datatype reply =
    Returned "obj option"
  | Threw "obj option"
  | Resolved obj
  | Unresolved
  | Noted

datatype ('e, 'a) js =
    Ret 'a 'e
  | Yield 'e request "reply \<times> 'e \<Rightarrow> ('e, 'a) js"

section \<open>What a TryCatch holds\<close>

record message =
  msg_origin :: "obj option"
  msg_line :: "int Maybe"
  msg_start_column :: "int Maybe"
  msg_text :: "obj option"

record caught =
  tc_exception :: "obj option"
  tc_message :: "message option"
  tc_stack :: "obj option"

text \<open>A \<open>MaybeLocal\<close> or \<open>Maybe<bool>\<close> that is empty because an exception was thrown, together with
  what the enclosing \<open>TryCatch\<close> has caught by then.\<close>

datatype 'a result = Ok 'a | Exn caught

lemma case_result_eq_Some [run_simps]:
  "(case r of Ok x \<Rightarrow> f x | Exn t \<Rightarrow> g t) = Some y \<longleftrightarrow>
     (\<exists>x. r = Ok x \<and> f x = Some y) \<or> (\<exists>t. r = Exn t \<and> g t = Some y)"
  by (cases r) auto

lemma le_case_result [le_rules]:
  "(\<And>x. le (f x) (f' x)) \<Longrightarrow> (\<And>t. le (g t) (g' t)) \<Longrightarrow>
     le (case r of Ok x \<Rightarrow> f x | Exn t \<Rightarrow> g t) (case r of Ok x \<Rightarrow> f' x | Exn t \<Rightarrow> g' t)"
  by (cases r) simp_all

section \<open>The exported functions\<close>

datatype value_kind =
    KObject | KString | KBoolean | KUndefined | KNull | KPromise | KFunction | KArray
  | KArrayBuffer | KArrayBufferView | KUint8Array | KInt8Array | KUint8ClampedArray

datatype MemoryPressureLevel = kNone | kModerate | kCritical

record startup_data =
  sd_data :: addr
  sd_raw_size :: int

record create_params =
  cp_heap_sizes :: "(u64 \<times> u64) option"
  cp_snapshot_blob :: addr

record heap_statistics =
  total_heap_size :: nat
  total_heap_size_executable :: nat
  total_physical_size :: nat
  total_available_size :: nat
  total_global_handles_size :: nat
  used_global_handles_size :: nat
  used_heap_size :: nat
  heap_size_limit :: nat
  malloced_memory :: nat
  external_memory :: nat
  peak_malloced_memory :: nat
  number_of_native_contexts :: nat
  number_of_detached_contexts :: nat
  total_allocated_bytes :: nat

record ('e, 'g) v8 =
  handles :: "'g handles_api"
  \<comment> \<open>strings and errors\<close>
  NewFromUtf8 :: "string \<Rightarrow> 'e \<Rightarrow> obj option \<times> 'e"
  Utf8Value :: "obj option \<Rightarrow> 'e \<Rightarrow> ('e, string option) js"
  TryCatch_now :: "'e \<Rightarrow> caught"
    \<comment> \<open>what the enclosing \<open>TryCatch\<close> holds when a call reports failure without an exception value\<close>
  Exception_Error :: "obj \<Rightarrow> 'e \<Rightarrow> obj \<times> 'e"
  CreateMessage :: "obj option \<Rightarrow> 'e \<Rightarrow> message option \<times> 'e"
  \<comment> \<open>isolates\<close>
  Isolate_New :: "create_params \<Rightarrow> byte list option \<Rightarrow> 'e \<Rightarrow> addr \<times> 'e"
    \<comment> \<open>the second argument: the bytes the snapshot blob refers to\<close>
  Isolate_Dispose :: "addr \<Rightarrow> 'e \<Rightarrow> 'e"
  PerformMicrotaskCheckpoint :: "addr \<Rightarrow> 'e \<Rightarrow> ('e, unit) js"
  TerminateExecution :: "addr \<Rightarrow> 'e \<Rightarrow> 'e"
  IsExecutionTerminating :: "addr \<Rightarrow> 'e \<Rightarrow> bool"
  CancelTerminateExecution :: "addr \<Rightarrow> 'e \<Rightarrow> 'e"
  LowMemoryNotification :: "addr \<Rightarrow> 'e \<Rightarrow> ('e, unit) js"
  MemoryPressureNotification :: "addr \<Rightarrow> MemoryPressureLevel \<Rightarrow> 'e \<Rightarrow> ('e, unit) js"
  GetHeapStatistics :: "addr \<Rightarrow> 'e \<Rightarrow> heap_statistics"
  Context_New :: "addr \<Rightarrow> 'e \<Rightarrow> obj option \<times> 'e"
  Context_Global :: "obj \<Rightarrow> 'e \<Rightarrow> obj \<times> 'e"
  \<comment> \<open>making values\<close>
  Object_New :: "'e \<Rightarrow> obj \<times> 'e"
  Array_New :: "int \<Rightarrow> 'e \<Rightarrow> obj \<times> 'e"
  Function_New :: "obj \<Rightarrow> int \<Rightarrow> 'e \<Rightarrow> obj result \<times> 'e"
  Resolver_New :: "obj \<Rightarrow> 'e \<Rightarrow> obj result \<times> 'e"
  Boolean_New :: "bool \<Rightarrow> 'e \<Rightarrow> obj \<times> 'e"
  Number_New :: "u64 \<Rightarrow> 'e \<Rightarrow> obj \<times> 'e"
  Null_New :: "'e \<Rightarrow> obj \<times> 'e"
  Undefined_New :: "'e \<Rightarrow> obj \<times> 'e"
  ArrayBuffer_New :: "byte list \<Rightarrow> 'e \<Rightarrow> obj \<times> 'e"
  Uint8Array_New :: "obj \<Rightarrow> nat \<Rightarrow> nat \<Rightarrow> 'e \<Rightarrow> obj \<times> 'e"
  \<comment> \<open>reading values\<close>
  value_is :: "value_kind \<Rightarrow> obj \<Rightarrow> 'e \<Rightarrow> bool"
  IntegerValue :: "obj \<Rightarrow> obj \<Rightarrow> 'e \<Rightarrow> ('e, int Maybe) js"
  Uint32Value :: "obj \<Rightarrow> obj \<Rightarrow> 'e \<Rightarrow> ('e, u32 Maybe) js"
  BooleanValue :: "obj \<Rightarrow> 'e \<Rightarrow> bool"
  BackingStore :: "obj \<Rightarrow> 'e \<Rightarrow> byte list"
  View_Buffer :: "obj \<Rightarrow> 'e \<Rightarrow> obj \<times> 'e"
  View_ByteOffset :: "obj \<Rightarrow> 'e \<Rightarrow> nat"
  View_ByteLength :: "obj \<Rightarrow> 'e \<Rightarrow> nat"
  Array_Length :: "obj \<Rightarrow> 'e \<Rightarrow> u32"
  String_Length :: "obj \<Rightarrow> 'e \<Rightarrow> nat"
  \<comment> \<open>objects, functions, promises, JSON\<close>
  Object_Get :: "obj \<Rightarrow> obj \<Rightarrow> obj \<Rightarrow> 'e \<Rightarrow> ('e, obj result) js"
  Object_GetIdx :: "obj \<Rightarrow> obj \<Rightarrow> u32 \<Rightarrow> 'e \<Rightarrow> ('e, obj result) js"
  Object_Has :: "obj \<Rightarrow> obj \<Rightarrow> obj \<Rightarrow> 'e \<Rightarrow> ('e, bool Maybe) js"
  Object_Set :: "obj \<Rightarrow> obj \<Rightarrow> obj \<Rightarrow> obj option \<Rightarrow> 'e \<Rightarrow> ('e, bool result) js"
  Object_SetIdx :: "obj \<Rightarrow> obj \<Rightarrow> u32 \<Rightarrow> obj option \<Rightarrow> 'e \<Rightarrow> ('e, bool result) js"
  Function_Call :: "obj \<Rightarrow> obj \<Rightarrow> obj option \<Rightarrow> obj option list \<Rightarrow> 'e \<Rightarrow> ('e, obj result) js"
  Promise_State :: "obj \<Rightarrow> 'e \<Rightarrow> int"
  Promise_Result :: "obj \<Rightarrow> 'e \<Rightarrow> obj \<times> 'e"
  Resolver_GetPromise :: "obj \<Rightarrow> 'e \<Rightarrow> obj \<times> 'e"
  Resolver_Resolve :: "obj \<Rightarrow> obj \<Rightarrow> obj option \<Rightarrow> 'e \<Rightarrow> ('e, bool result) js"
  Resolver_Reject :: "obj \<Rightarrow> obj \<Rightarrow> obj option \<Rightarrow> 'e \<Rightarrow> ('e, bool result) js"
  JSON_Stringify :: "obj \<Rightarrow> obj option \<Rightarrow> 'e \<Rightarrow> ('e, obj result) js"
  JSON_Parse :: "obj \<Rightarrow> obj \<Rightarrow> 'e \<Rightarrow> ('e, obj result) js"
  \<comment> \<open>scripts and modules\<close>
  Script_Compile :: "obj \<Rightarrow> obj \<Rightarrow> script_origin \<Rightarrow> 'e \<Rightarrow> obj result \<times> 'e"
  Script_Run :: "obj \<Rightarrow> obj \<Rightarrow> 'e \<Rightarrow> ('e, obj result) js"
  CompileUnbound :: "addr \<Rightarrow> obj \<Rightarrow> script_origin \<Rightarrow> 'e \<Rightarrow> obj result \<times> 'e"
  BindToCurrentContext :: "obj \<Rightarrow> obj \<Rightarrow> 'e \<Rightarrow> obj \<times> 'e"
  Module_Compile :: "addr \<Rightarrow> obj \<Rightarrow> script_origin \<Rightarrow> 'e \<Rightarrow> obj result \<times> 'e"
  Module_Instantiate :: "obj \<Rightarrow> obj \<Rightarrow> 'e \<Rightarrow> ('e, bool result) js"
  Module_Evaluate :: "obj \<Rightarrow> obj \<Rightarrow> 'e \<Rightarrow> ('e, obj result) js"
  Module_Namespace :: "obj \<Rightarrow> 'e \<Rightarrow> obj \<times> 'e"
  Module_Status :: "obj \<Rightarrow> 'e \<Rightarrow> int"
  Module_ScriptId :: "obj \<Rightarrow> 'e \<Rightarrow> int"
  \<comment> \<open>snapshots\<close>
  SnapshotCreator_New :: "'e \<Rightarrow> addr \<times> 'e"
  Creator_GetIsolate :: "addr \<Rightarrow> 'e \<Rightarrow> addr"
  SetDefaultContext :: "addr \<Rightarrow> obj \<Rightarrow> 'e \<Rightarrow> 'e"
  CreateBlob :: "addr \<Rightarrow> 'e \<Rightarrow> (byte list option \<times> int) \<times> 'e"
  SnapshotCreator_Delete :: "addr \<Rightarrow> 'e \<Rightarrow> 'e"
  StartupData_IsValid :: "byte list \<Rightarrow> 'e \<Rightarrow> bool"

end
