(* ===== verification/Gv8_State.thy ===== *)
theory Gv8_State
  imports V8_Api
begin

text \<open>
  The state of the native binding \<open>internal/gv8.cc\<close>: its structs, the C++ heap that holds them, the
  result structs of \<open>gv8.h\<close>, and the invariant every exported operation keeps.

  Addresses are never reused by the model's allocator, so a dangling pointer is always seen as one:
  reading it is \<open>None\<close>.
\<close>

section \<open>The structs of gv8.cc\<close>

record gv8_ctx =
  ctx_iso :: addr
  ctx_ptr :: slot
  ctx_ref :: int
  ctx_values :: "(int \<times> addr) list"    \<comment> \<open>the \<open>unordered_map\<close>, in its iteration order\<close>
  ctx_next_value_id :: int
  ctx_snapshot_blob :: addr
  ctx_snapshot_data :: addr

record gv8_value =
  val_id :: int
  val_ctx :: addr
  val_iso :: addr
  val_ptr :: slot

record gv8_unbound_script =
  scr_iso :: addr
  scr_ptr :: slot

record gv8_module =
  mod_iso :: addr
  mod_ptr :: slot

record gv8_snapshot_builder =
  sb_creator :: addr
  sb_iso :: addr
  sb_ctx :: slot
  sb_built :: bool

section \<open>The result structs of gv8.h\<close>

text \<open>A \<open>const char*\<close> result is the bytes it points to, \<open>None\<close> when it is null.\<close>

record GV8RtnError =
  err_msg :: "string option"
  err_location :: "string option"
  err_stack :: "string option"

record GV8RtnValue =
  rv_value :: addr
  rv_error :: GV8RtnError

record GV8ResolvedModule =
  rm_module :: addr
  rm_error_value :: addr

record GV8CallbackResult =
  cr_value :: addr
  cr_error_value :: addr

record GV8DynamicImportResult =
  di_promise :: addr
  di_error_value :: addr

record GV8RtnUnboundScript =
  rs_ptr :: addr
  rs_error :: GV8RtnError

record GV8RtnModule =
  rmod_ptr :: addr
  rmod_error :: GV8RtnError

record GV8RtnString =
  rstr_data :: "string option"
  rstr_length :: int
  rstr_error :: GV8RtnError

record GV8RtnBytes =
  rb_data :: "byte list option"
  rb_length :: int
  rb_error :: GV8RtnError

section \<open>The world\<close>

text \<open>What a gv8 isolate keeps in \<open>v8::Isolate\<close>: the two embedder data slots and the callbacks set.\<close>

record isolate_data =
  iso_data0 :: addr          \<comment> \<open>slot 0: the internal context\<close>
  iso_data1 :: int           \<comment> \<open>slot 1: the observer reference, 0 when unset\<close>
  iso_import_callback :: bool
  iso_reject_callback :: bool

datatype embedder_datum = EInteger int | EExternal addr

record ('e, 'g) world =
  engine :: 'e
  globals :: 'g
  isolates :: "addr \<Rightarrow> isolate_data option"
  contexts :: "addr \<Rightarrow> gv8_ctx option"
  wrappers :: "addr \<Rightarrow> gv8_value option"
  scripts :: "addr \<Rightarrow> gv8_unbound_script option"
  modules :: "addr \<Rightarrow> gv8_module option"
  builders :: "addr \<Rightarrow> gv8_snapshot_builder option"
  arrays :: "addr \<Rightarrow> byte list option"
  blobs :: "addr \<Rightarrow> startup_data option"
  embedder :: "obj \<Rightarrow> int \<Rightarrow> embedder_datum option"
  next_addr :: addr

text \<open>The part of the world that releasing a handle leaves alone.\<close>

definition machine :: "('e, 'g) world \<Rightarrow>
    'e \<times> (addr \<Rightarrow> isolate_data option) \<times> (addr \<Rightarrow> byte list option) \<times> (addr \<Rightarrow> startup_data option) \<times>
    (obj \<Rightarrow> int \<Rightarrow> embedder_datum option) \<times> addr" where
  "machine w = (engine w, isolates w, arrays w, blobs w, embedder w, next_addr w)"

text \<open>The handler of the callbacks V8 makes while it runs.\<close>

type_synonym ('e, 'g) dispatcher = "request \<Rightarrow> ('e, 'g) world \<Rightarrow> (reply \<times> ('e, 'g) world) option"

definition new_addr :: "('e, 'g) world \<Rightarrow> addr \<times> ('e, 'g) world" where
  "new_addr w = (Suc (next_addr w), w\<lparr>next_addr := Suc (next_addr w)\<rparr>)"

definition put_context :: "addr \<Rightarrow> gv8_ctx option \<Rightarrow> ('e, 'g) world \<Rightarrow> ('e, 'g) world" where
  "put_context a x w = w\<lparr>contexts := (contexts w)(a := x)\<rparr>"

definition put_wrapper :: "addr \<Rightarrow> gv8_value option \<Rightarrow> ('e, 'g) world \<Rightarrow> ('e, 'g) world" where
  "put_wrapper a x w = w\<lparr>wrappers := (wrappers w)(a := x)\<rparr>"

definition put_script :: "addr \<Rightarrow> gv8_unbound_script option \<Rightarrow> ('e, 'g) world \<Rightarrow> ('e, 'g) world" where
  "put_script a x w = w\<lparr>scripts := (scripts w)(a := x)\<rparr>"

definition put_module :: "addr \<Rightarrow> gv8_module option \<Rightarrow> ('e, 'g) world \<Rightarrow> ('e, 'g) world" where
  "put_module a x w = w\<lparr>modules := (modules w)(a := x)\<rparr>"

definition put_builder ::
    "addr \<Rightarrow> gv8_snapshot_builder option \<Rightarrow> ('e, 'g) world \<Rightarrow> ('e, 'g) world" where
  "put_builder a x w = w\<lparr>builders := (builders w)(a := x)\<rparr>"

definition put_array :: "addr \<Rightarrow> byte list option \<Rightarrow> ('e, 'g) world \<Rightarrow> ('e, 'g) world" where
  "put_array a x w = w\<lparr>arrays := (arrays w)(a := x)\<rparr>"

definition put_blob :: "addr \<Rightarrow> startup_data option \<Rightarrow> ('e, 'g) world \<Rightarrow> ('e, 'g) world" where
  "put_blob a x w = w\<lparr>blobs := (blobs w)(a := x)\<rparr>"

definition put_isolate :: "addr \<Rightarrow> isolate_data option \<Rightarrow> ('e, 'g) world \<Rightarrow> ('e, 'g) world" where
  "put_isolate a x w = w\<lparr>isolates := (isolates w)(a := x)\<rparr>"

lemmas put_defs = put_context_def put_wrapper_def put_script_def put_module_def put_builder_def
  put_array_def put_blob_def put_isolate_def

interpretation ctx_store: typed_store contexts put_context
  by unfold_locales (simp add: put_context_def)

interpretation val_store: typed_store wrappers put_wrapper
  by unfold_locales (simp add: put_wrapper_def)

interpretation scr_store: typed_store scripts put_script
  by unfold_locales (simp add: put_script_def)

interpretation mod_store: typed_store modules put_module
  by unfold_locales (simp add: put_module_def)

interpretation sb_store: typed_store builders put_builder
  by unfold_locales (simp add: put_builder_def)

interpretation array_store: typed_store arrays put_array
  by unfold_locales (simp add: put_array_def)

interpretation blob_store: typed_store blobs put_blob
  by unfold_locales (simp add: put_blob_def)

interpretation iso_store: typed_store isolates put_isolate
  by unfold_locales (simp add: put_isolate_def)

section \<open>What the stores see of each other\<close>

lemma put_context_sel [simp]:
  "engine (put_context a x w) = engine w"
  "globals (put_context a x w) = globals w"
  "isolates (put_context a x w) = isolates w"
  "contexts (put_context a x w) = (contexts w)(a := x)"
  "wrappers (put_context a x w) = wrappers w"
  "scripts (put_context a x w) = scripts w"
  "modules (put_context a x w) = modules w"
  "builders (put_context a x w) = builders w"
  "arrays (put_context a x w) = arrays w"
  "blobs (put_context a x w) = blobs w"
  "embedder (put_context a x w) = embedder w"
  "next_addr (put_context a x w) = next_addr w"
  by (simp_all add: put_context_def)

lemma put_wrapper_sel [simp]:
  "engine (put_wrapper a x w) = engine w"
  "globals (put_wrapper a x w) = globals w"
  "isolates (put_wrapper a x w) = isolates w"
  "contexts (put_wrapper a x w) = contexts w"
  "wrappers (put_wrapper a x w) = (wrappers w)(a := x)"
  "scripts (put_wrapper a x w) = scripts w"
  "modules (put_wrapper a x w) = modules w"
  "builders (put_wrapper a x w) = builders w"
  "arrays (put_wrapper a x w) = arrays w"
  "blobs (put_wrapper a x w) = blobs w"
  "embedder (put_wrapper a x w) = embedder w"
  "next_addr (put_wrapper a x w) = next_addr w"
  by (simp_all add: put_wrapper_def)

lemma put_script_sel [simp]:
  "engine (put_script a x w) = engine w"
  "globals (put_script a x w) = globals w"
  "isolates (put_script a x w) = isolates w"
  "contexts (put_script a x w) = contexts w"
  "wrappers (put_script a x w) = wrappers w"
  "scripts (put_script a x w) = (scripts w)(a := x)"
  "modules (put_script a x w) = modules w"
  "builders (put_script a x w) = builders w"
  "arrays (put_script a x w) = arrays w"
  "blobs (put_script a x w) = blobs w"
  "embedder (put_script a x w) = embedder w"
  "next_addr (put_script a x w) = next_addr w"
  by (simp_all add: put_script_def)

lemma put_module_sel [simp]:
  "engine (put_module a x w) = engine w"
  "globals (put_module a x w) = globals w"
  "isolates (put_module a x w) = isolates w"
  "contexts (put_module a x w) = contexts w"
  "wrappers (put_module a x w) = wrappers w"
  "scripts (put_module a x w) = scripts w"
  "modules (put_module a x w) = (modules w)(a := x)"
  "builders (put_module a x w) = builders w"
  "arrays (put_module a x w) = arrays w"
  "blobs (put_module a x w) = blobs w"
  "embedder (put_module a x w) = embedder w"
  "next_addr (put_module a x w) = next_addr w"
  by (simp_all add: put_module_def)

lemma put_builder_sel [simp]:
  "engine (put_builder a x w) = engine w"
  "globals (put_builder a x w) = globals w"
  "isolates (put_builder a x w) = isolates w"
  "contexts (put_builder a x w) = contexts w"
  "wrappers (put_builder a x w) = wrappers w"
  "scripts (put_builder a x w) = scripts w"
  "modules (put_builder a x w) = modules w"
  "builders (put_builder a x w) = (builders w)(a := x)"
  "arrays (put_builder a x w) = arrays w"
  "blobs (put_builder a x w) = blobs w"
  "embedder (put_builder a x w) = embedder w"
  "next_addr (put_builder a x w) = next_addr w"
  by (simp_all add: put_builder_def)

lemma put_array_sel [simp]:
  "engine (put_array a x w) = engine w"
  "globals (put_array a x w) = globals w"
  "isolates (put_array a x w) = isolates w"
  "contexts (put_array a x w) = contexts w"
  "wrappers (put_array a x w) = wrappers w"
  "scripts (put_array a x w) = scripts w"
  "modules (put_array a x w) = modules w"
  "builders (put_array a x w) = builders w"
  "arrays (put_array a x w) = (arrays w)(a := x)"
  "blobs (put_array a x w) = blobs w"
  "embedder (put_array a x w) = embedder w"
  "next_addr (put_array a x w) = next_addr w"
  by (simp_all add: put_array_def)

lemma put_blob_sel [simp]:
  "engine (put_blob a x w) = engine w"
  "globals (put_blob a x w) = globals w"
  "isolates (put_blob a x w) = isolates w"
  "contexts (put_blob a x w) = contexts w"
  "wrappers (put_blob a x w) = wrappers w"
  "scripts (put_blob a x w) = scripts w"
  "modules (put_blob a x w) = modules w"
  "builders (put_blob a x w) = builders w"
  "arrays (put_blob a x w) = arrays w"
  "blobs (put_blob a x w) = (blobs w)(a := x)"
  "embedder (put_blob a x w) = embedder w"
  "next_addr (put_blob a x w) = next_addr w"
  by (simp_all add: put_blob_def)

lemma put_isolate_sel [simp]:
  "engine (put_isolate a x w) = engine w"
  "globals (put_isolate a x w) = globals w"
  "isolates (put_isolate a x w) = (isolates w)(a := x)"
  "contexts (put_isolate a x w) = contexts w"
  "wrappers (put_isolate a x w) = wrappers w"
  "scripts (put_isolate a x w) = scripts w"
  "modules (put_isolate a x w) = modules w"
  "builders (put_isolate a x w) = builders w"
  "arrays (put_isolate a x w) = arrays w"
  "blobs (put_isolate a x w) = blobs w"
  "embedder (put_isolate a x w) = embedder w"
  "next_addr (put_isolate a x w) = next_addr w"
  by (simp_all add: put_isolate_def)

text \<open>\<open>delete p\<close>: freeing an object that is not there is undefined, \<open>delete nullptr\<close> does nothing.\<close>

definition delete_array :: "addr \<Rightarrow> ('e, 'g) world \<Rightarrow> ('e, 'g) world option" where
  "delete_array a w =
     (if a = nullptr then Some w
      else case arrays w a of None \<Rightarrow> None | Some _ \<Rightarrow> Some (put_array a None w))"

definition delete_blob :: "addr \<Rightarrow> ('e, 'g) world \<Rightarrow> ('e, 'g) world option" where
  "delete_blob a w =
     (if a = nullptr then Some w
      else case blobs w a of None \<Rightarrow> None | Some _ \<Rightarrow> Some (put_blob a None w))"

section \<open>Calling the engine and the handle table\<close>

definition engine_step :: "('e \<Rightarrow> 'a \<times> 'e) \<Rightarrow> ('e, 'g) world \<Rightarrow> 'a \<times> ('e, 'g) world" where
  "engine_step f w = (case f (engine w) of (a, e) \<Rightarrow> (a, w\<lparr>engine := e\<rparr>))"

definition engine_do :: "('e \<Rightarrow> 'e) \<Rightarrow> ('e, 'g) world \<Rightarrow> ('e, 'g) world" where
  "engine_do f w = w\<lparr>engine := f (engine w)\<rparr>"

text \<open>\<open>handle.Reset(iso, local)\<close> and \<open>handle.Reset()\<close> on a handle whose location is \<open>this\<close>.\<close>

definition reset_to ::
    "('e, 'g) v8 \<Rightarrow> slot \<Rightarrow> obj option \<Rightarrow> ('e, 'g) world \<Rightarrow> slot \<times> ('e, 'g) world" where
  "reset_to V this local w =
     (case persistent_Reset_local (handles V) this local (globals w) of
        (s, g) \<Rightarrow> (s, w\<lparr>globals := g\<rparr>))"

definition reset :: "('e, 'g) v8 \<Rightarrow> slot \<Rightarrow> ('e, 'g) world \<Rightarrow> ('e, 'g) world" where
  "reset V this w = w\<lparr>globals := snd (persistent_Reset (handles V) this (globals w))\<rparr>"

text \<open>\<open>handle.Get(iso)\<close>, and the object of a handle that is used at once.\<close>

definition get_local :: "('e, 'g) v8 \<Rightarrow> slot \<Rightarrow> ('e, 'g) world \<Rightarrow> obj option option" where
  "get_local V this w = persistent_Get (handles V) this (globals w)"

definition get_obj :: "('e, 'g) v8 \<Rightarrow> slot \<Rightarrow> ('e, 'g) world \<Rightarrow> obj option" where
  "get_obj V this w = Option.bind (get_local V this w) (\<lambda>x. x)"

text \<open>Running a call that may call back: every \<open>Yield\<close> goes to the dispatcher.\<close>

primrec exec_tree ::
    "('e, 'g) dispatcher \<Rightarrow> ('e, 'a) js \<Rightarrow> ('e, 'g) world \<Rightarrow> ('a \<times> ('e, 'g) world) option" where
  "exec_tree h (Ret a e) w = Some (a, w\<lparr>engine := e\<rparr>)"
| "exec_tree h (Yield e rq k) w =
     do { (rp, w1) \<leftarrow> h rq (w\<lparr>engine := e\<rparr>); exec_tree h (k (rp, engine w1)) w1 }"

definition run ::
    "('e, 'g) dispatcher \<Rightarrow> ('e \<Rightarrow> ('e, 'a) js) \<Rightarrow> ('e, 'g) world \<Rightarrow> ('a \<times> ('e, 'g) world) option" where
  "run h f w = exec_tree h (f (engine w)) w"

end
