(* ===== verification/Gv8_Inv.thy ===== *)
theory Gv8_Inv
  imports Gv8_State
begin

text \<open>
  The invariant of the native heap: every persistent handle held by a struct has a live storage cell
  of its own, every context's registry and its tracked values agree, and every object lies below
  the allocator's mark. It is the conjunction of three parts with one preservation lemma per way
  the operations change the world.
\<close>

section \<open>Who owns which storage cell\<close>

datatype owner =
    OwnContext addr | OwnValue addr | OwnScript addr | OwnModule addr | OwnBuilder addr

fun slot_of :: "('e, 'g) world \<Rightarrow> owner \<Rightarrow> slot" where
  "slot_of w (OwnContext a) = (case contexts w a of None \<Rightarrow> 0 | Some x \<Rightarrow> ctx_ptr x)"
| "slot_of w (OwnValue a) = (case wrappers w a of None \<Rightarrow> 0 | Some y \<Rightarrow> val_ptr y)"
| "slot_of w (OwnScript a) = (case scripts w a of None \<Rightarrow> 0 | Some x \<Rightarrow> scr_ptr x)"
| "slot_of w (OwnModule a) = (case modules w a of None \<Rightarrow> 0 | Some x \<Rightarrow> mod_ptr x)"
| "slot_of w (OwnBuilder a) = (case builders w a of None \<Rightarrow> 0 | Some x \<Rightarrow> sb_ctx x)"

definition slots_ok :: "'g handles_api \<Rightarrow> ('e, 'g) world \<Rightarrow> bool" where
  "slots_ok H w \<longleftrightarrow>
     (\<forall>p. slot_of w p \<noteq> 0 \<longrightarrow> cell H (globals w) (slot_of w p) \<noteq> None) \<and>
     (\<forall>p q. slot_of w p \<noteq> 0 \<longrightarrow> slot_of w p = slot_of w q \<longrightarrow> p = q)"

text \<open>A context's registry: its ids are positive, below the counter, and each names a live value of
  that context which carries the id.\<close>

definition ctx_registry_ok :: "('e, 'g) world \<Rightarrow> addr \<Rightarrow> gv8_ctx \<Rightarrow> bool" where
  "ctx_registry_ok w c x \<longleftrightarrow>
     distinct (map fst (ctx_values x)) \<and> 0 \<le> ctx_next_value_id x \<and>
     (\<forall>i v. map_of (ctx_values x) i = Some v \<longrightarrow>
        0 < i \<and> i \<le> ctx_next_value_id x \<and>
        (\<exists>y. wrappers w v = Some y \<and> val_id y = i \<and> val_ctx y = c))"

declare map_of_eq_Some_iff [simp del]

definition registry_ok :: "('e, 'g) world \<Rightarrow> bool" where
  "registry_ok w \<longleftrightarrow>
     (\<forall>c x. contexts w c = Some x \<longrightarrow> ctx_registry_ok w c x) \<and>
     (\<forall>v y. wrappers w v = Some y \<longrightarrow> val_ptr y \<noteq> 0 \<and>
        (val_id y \<noteq> 0 \<longrightarrow>
          (\<exists>x. contexts w (val_ctx y) = Some x \<and> map_of (ctx_values x) (val_id y) = Some v)))"

text \<open>A registered value is live and carries its id and context.\<close>

lemma registry_live:
  assumes "registry_ok w" "contexts w c = Some x" "map_of (ctx_values x) i = Some v"
  obtains y where "wrappers w v = Some y" "val_id y = i" "val_ctx y = c"
    "0 < i" "i \<le> ctx_next_value_id x"
  using assms unfolding registry_ok_def ctx_registry_ok_def by blast

lemma registry_live_id:
  assumes "registry_ok w" "contexts w c = Some x" "map_of (ctx_values x) i = Some v"
    "wrappers w v = Some y"
  shows "val_id y = i" "val_ctx y = c" "0 < i" "i \<le> ctx_next_value_id x"
  using registry_live [OF assms(1-3)] assms(4) by auto

lemma registry_not_dead:
  "registry_ok w \<Longrightarrow> contexts w c = Some x \<Longrightarrow> wrappers w v = None \<Longrightarrow> map_of (ctx_values x) i \<noteq> Some v"
  by (metis registry_live option.distinct(1))

definition below :: "(addr \<Rightarrow> 'a option) \<Rightarrow> addr \<Rightarrow> bool" where
  "below m n \<longleftrightarrow> (\<forall>a. m a \<noteq> None \<longrightarrow> 0 < a \<and> a \<le> n)"

text \<open>Every object of a store holds a storage cell.\<close>

definition holds :: "(addr \<Rightarrow> 'a option) \<Rightarrow> ('a \<Rightarrow> slot) \<Rightarrow> bool" where
  "holds m sl \<longleftrightarrow> (\<forall>a z. m a = Some z \<longrightarrow> 0 < sl z)"

definition fresh_ok :: "('e, 'g) world \<Rightarrow> bool" where
  "fresh_ok w \<longleftrightarrow>
     below (contexts w) (next_addr w) \<and> below (wrappers w) (next_addr w) \<and>
     below (scripts w) (next_addr w) \<and> below (modules w) (next_addr w) \<and>
     below (builders w) (next_addr w) \<and> below (arrays w) (next_addr w) \<and>
     below (blobs w) (next_addr w) \<and> holds (scripts w) scr_ptr \<and> holds (modules w) mod_ptr"

definition world_ok :: "'g handles_api \<Rightarrow> ('e, 'g) world \<Rightarrow> bool" where
  "world_ok H w \<longleftrightarrow> slots_ok H w \<and> registry_ok w \<and> fresh_ok w"

section \<open>How slots move\<close>

lemma slot_of_put [simp]:
  "slot_of (put_context a x w) =
     (slot_of w)(OwnContext a := (case x of None \<Rightarrow> 0 | Some y \<Rightarrow> ctx_ptr y))"
  "slot_of (put_wrapper a z w) =
     (slot_of w)(OwnValue a := (case z of None \<Rightarrow> 0 | Some y \<Rightarrow> val_ptr y))"
  "slot_of (put_script a s w) =
     (slot_of w)(OwnScript a := (case s of None \<Rightarrow> 0 | Some y \<Rightarrow> scr_ptr y))"
  "slot_of (put_module a m w) =
     (slot_of w)(OwnModule a := (case m of None \<Rightarrow> 0 | Some y \<Rightarrow> mod_ptr y))"
  "slot_of (put_builder a b w) =
     (slot_of w)(OwnBuilder a := (case b of None \<Rightarrow> 0 | Some y \<Rightarrow> sb_ctx y))"
  "slot_of (put_array a l w) = slot_of w"
  "slot_of (put_blob a d w) = slot_of w"
  "slot_of (put_isolate a i w) = slot_of w"
  by (rule ext, rename_tac p, case_tac p; simp add: put_defs; fail)+

lemma slot_of_fields [simp]:
  "slot_of (w\<lparr>engine := e\<rparr>) = slot_of w"
  "slot_of (w\<lparr>globals := g\<rparr>) = slot_of w"
  "slot_of (w\<lparr>next_addr := n\<rparr>) = slot_of w"
  "slot_of (w\<lparr>embedder := f\<rparr>) = slot_of w"
  by (rule ext, rename_tac p, case_tac p; simp; fail)+

lemma slots_ok_same:
  "slots_ok H w \<Longrightarrow> globals w' = globals w \<Longrightarrow> slot_of w' = slot_of w \<Longrightarrow> slots_ok H w'"
  by (simp add: slots_ok_def)

lemma slots_ok_gain:
  assumes ok: "slots_ok H w" and H: "handles_ok H"
    and gl: "GlobalizeReference H x (globals w) = (s, g)"
    and w': "globals w' = g" "slot_of w' = (slot_of w)(p := s)" and free: "slot_of w p = 0"
  shows "slots_ok H w'"
proof -
  note fresh = handles_ok_globalize [OF H gl]
  from ok have "slot_of w q \<noteq> s" for q
    using fresh(1,2) by (metis slots_ok_def)
  with ok fresh w' show ?thesis
    unfolding slots_ok_def by auto
qed

lemma slots_ok_lose:
  assumes ok: "slots_ok H w" and H: "handles_ok H"
    and w': "globals w' = snd (persistent_Reset H (slot_of w p) (globals w))"
      "slot_of w' = (slot_of w)(p := 0)"
  shows "slots_ok H w'"
proof (cases "slot_of w p = 0")
  case True
  then have "slot_of w' = slot_of w" "globals w' = globals w" using w' by auto
  with ok show ?thesis by (simp add: slots_ok_def)
next
  case False
  with ok obtain x where "cell H (globals w) (slot_of w p) = Some x"
    unfolding slots_ok_def by blast
  then have "cell H (globals w') = (cell H (globals w))(slot_of w p := None)"
    using False w'(1) handles_ok_dispose [OF H]
    by (simp add: persistent_Reset_def handle_IsEmpty_def)
  moreover have "q = p" if "slot_of w q = slot_of w p" for q
    using ok False that unfolding slots_ok_def by metis
  ultimately show ?thesis using ok w'(2) unfolding slots_ok_def by auto
qed

lemma slots_ok_cell:
  "slots_ok H w \<Longrightarrow> slot_of w p \<noteq> 0 \<Longrightarrow> \<exists>x. cell H (globals w) (slot_of w p) = Some x"
  by (auto simp: slots_ok_def)

section \<open>Allocation\<close>

lemma below_mono: "below m n \<Longrightarrow> n \<le> k \<Longrightarrow> below m k"
  by (force simp: below_def)

lemma below_None [simp]: "below m n \<Longrightarrow> below (m(a := None)) n"
  by (auto simp: below_def)

lemma below_put [simp]: "below m n \<Longrightarrow> 0 < a \<Longrightarrow> a \<le> n \<Longrightarrow> below (m(a := x)) n"
  by (auto simp: below_def)

lemma below_Suc [simp]: "below m n \<Longrightarrow> below m (Suc n)"
  by (force simp: below_def)

lemma below_new [simp]: "below m n \<Longrightarrow> below (m(Suc n := x)) (Suc n)"
  by (auto simp: below_def le_Suc_eq)

lemma below_over [simp]: "below m n \<Longrightarrow> m a = Some b \<Longrightarrow> below (m(a := x)) n"
  by (auto simp: below_def)

lemma holds_put [simp]: "holds m sl \<Longrightarrow> 0 < sl z \<Longrightarrow> holds (m(a \<mapsto> z)) sl"
  by (auto simp: holds_def)

lemma holds_None [simp]: "holds m sl \<Longrightarrow> holds (m(a := None)) sl"
  by (auto simp: holds_def)

lemma below_fresh: "below m n \<Longrightarrow> m (Suc n) = None"
  by (metis below_def not_less_eq_eq order_refl)

lemma below_null: "below m n \<Longrightarrow> m 0 = None"
  by (metis below_def less_irrefl)

lemma fresh_ok_new: "fresh_ok w \<Longrightarrow> fresh_ok (w\<lparr>next_addr := Suc (next_addr w)\<rparr>)"
  by (auto simp: fresh_ok_def intro: below_mono)

lemma fresh_ok_fresh:
  assumes "fresh_ok w"
  shows "contexts w (Suc (next_addr w)) = None" "wrappers w (Suc (next_addr w)) = None"
    "scripts w (Suc (next_addr w)) = None" "modules w (Suc (next_addr w)) = None"
    "builders w (Suc (next_addr w)) = None" "arrays w (Suc (next_addr w)) = None"
    "blobs w (Suc (next_addr w)) = None"
  using assms by (auto simp: fresh_ok_def below_fresh)

section \<open>Changes the invariant does not see\<close>

lemma world_ok_cong:
  assumes "globals w' = globals w" "contexts w' = contexts w" "wrappers w' = wrappers w"
    "scripts w' = scripts w" "modules w' = modules w" "builders w' = builders w"
    "arrays w' = arrays w" "blobs w' = blobs w" "next_addr w' = next_addr w"
  shows "world_ok H w' = world_ok H w"
proof -
  have "slot_of w' = slot_of w"
    by (rule ext, rename_tac p, case_tac p; simp add: assms)
  then show ?thesis
    using assms by (simp add: world_ok_def slots_ok_def registry_ok_def ctx_registry_ok_def fresh_ok_def)
qed

lemma world_ok_engine [simp]: "world_ok H (w\<lparr>engine := e\<rparr>) = world_ok H w"
  by (rule world_ok_cong) simp_all

lemma world_ok_embedder [simp]: "world_ok H (w\<lparr>embedder := f\<rparr>) = world_ok H w"
  by (rule world_ok_cong) simp_all

lemma world_ok_isolate [simp]: "world_ok H (put_isolate a x w) = world_ok H w"
  by (rule world_ok_cong) (simp_all add: put_isolate_def)

lemma world_ok_engine_do [simp]: "world_ok H (engine_do f w) = world_ok H w"
  by (simp add: engine_do_def)

lemma world_ok_engine_step [ok_rules]:
  "engine_step f w = (a, w') \<Longrightarrow> world_ok H w \<Longrightarrow> world_ok H w'"
  by (auto simp: engine_step_def split: prod.splits)

lemma world_ok_new_addr [ok_rules]: "new_addr w = (a, w') \<Longrightarrow> world_ok H w \<Longrightarrow> world_ok H w'"
  by (auto simp: new_addr_def world_ok_def slots_ok_def registry_ok_def ctx_registry_ok_def
      intro: fresh_ok_new)

text \<open>A new cell for an owner that had none, a cell disposed with its owner's handle, and an owner that
  disappears without disposing its cell; contexts and values stay as they are.\<close>

lemma registry_ok_cong:
  "contexts w' = contexts w \<Longrightarrow> wrappers w' = wrappers w \<Longrightarrow> registry_ok w' = registry_ok w"
  by (simp add: registry_ok_def ctx_registry_ok_def)

lemma world_ok_gain:
  assumes "world_ok H w" "handles_ok H" "GlobalizeReference H x (globals w) = (s, g)"
    "globals w' = g" "slot_of w' = (slot_of w)(p := s)" "slot_of w p = 0"
    "contexts w' = contexts w" "wrappers w' = wrappers w" "fresh_ok w'"
  shows "world_ok H w'"
  using assms slots_ok_gain [of H w x s g w' p] registry_ok_cong [of w' w] by (simp add: world_ok_def)

lemma world_ok_lose:
  assumes "world_ok H w" "handles_ok H"
    "globals w' = snd (persistent_Reset H (slot_of w p) (globals w))"
    "slot_of w' = (slot_of w)(p := 0)"
    "contexts w' = contexts w" "wrappers w' = wrappers w" "fresh_ok w'"
  shows "world_ok H w'"
  using assms slots_ok_lose [of H w w' p] registry_ok_cong [of w' w] by (simp add: world_ok_def)

lemma world_ok_drop:
  assumes "world_ok H w" "globals w' = globals w" "slot_of w' = (slot_of w)(p := 0)"
    "contexts w' = contexts w" "wrappers w' = wrappers w" "fresh_ok w'"
  shows "world_ok H w'"
proof -
  from assms have "slots_ok H w'" by (auto simp: world_ok_def slots_ok_def)
  then show ?thesis using assms registry_ok_cong [of w' w] by (simp add: world_ok_def)
qed

text \<open>Running the engine keeps any predicate that the engine state does not enter and that every
  callback keeps.\<close>

lemma exec_tree_invariant:
  assumes step: "\<And>rq v rp v'. P v \<Longrightarrow> h rq v = Some (rp, v') \<Longrightarrow> P v'"
    and engine: "\<And>v e. P v \<Longrightarrow> P (v\<lparr>engine := e\<rparr>)"
  shows "P w \<Longrightarrow> exec_tree h t w = Some (a, w') \<Longrightarrow> P w'"
proof (induction t arbitrary: w)
  case (Ret x e)
  then show ?case by (auto intro: engine)
next
  case (Yield e rq k)
  from Yield.prems(2) obtain rp v where "h rq (w\<lparr>engine := e\<rparr>) = Some (rp, v)"
    and rest: "exec_tree h (k (rp, engine v)) v = Some (a, w')"
    by (auto split: prod.splits)
  then have "P v" using step engine Yield.prems(1) by blast
  then show ?case using Yield.IH [of "k (rp, engine v)"] rest by blast
qed

end
