(* ===== verification/V8_Demo.thy ===== *)
theory V8_Demo
  imports Gv8_Inv
begin

text \<open>
  A concrete engine on which the witnesses run: objects are positions of a list of tagged values,
  scripts return their own source text or, when it starts with \<open>!\<close>, throw the rest of it, and
  calling a host function calls back. It instantiates the parameter record, nothing is proved about
  it but that its handle table keeps the documented laws.
\<close>

datatype demo_val =
    DUndefined | DNull | DBool bool | DNumber u64 | DString string | DObject | DArray u32
  | DFunction int | DResolver obj | DPromise int obj | DBuffer "byte list" | DView obj nat nat
  | DError obj | DContext | DScript string | DModule string

definition demo_alloc :: "demo_val \<Rightarrow> demo_val list \<Rightarrow> obj \<times> demo_val list" where
  "demo_alloc v e = (Suc (length e), e @ [v])"

definition demo_get :: "demo_val list \<Rightarrow> obj \<Rightarrow> demo_val" where
  "demo_get e n = (if 0 < n \<and> n \<le> length e then e ! (n - 1) else DUndefined)"

definition demo_ret :: "demo_val \<Rightarrow> demo_val list \<Rightarrow> (demo_val list, obj result) js" where
  "demo_ret v e = (case demo_alloc v e of (n, e') \<Rightarrow> Ret (Ok n) e')"

text \<open>The text of a value; \<open>None\<close> where the conversion fails.\<close>

fun demo_text :: "demo_val list \<Rightarrow> demo_val \<Rightarrow> string option" where
  "demo_text e DUndefined = Some ''undefined''"
| "demo_text e DNull = Some ''null''"
| "demo_text e (DBool b) = Some (if b then ''true'' else ''false'')"
| "demo_text e (DString s) = Some s"
| "demo_text e (DError t) = (case demo_get e t of DString s \<Rightarrow> Some s | _ \<Rightarrow> None)"
| "demo_text e (DScript s) = Some s"
| "demo_text e (DModule s) = Some s"
| "demo_text e _ = Some ''[object Object]''"

definition demo_throw :: "string \<Rightarrow> demo_val list \<Rightarrow> obj result \<times> demo_val list" where
  "demo_throw s e =
     (case demo_alloc (DString s) e of (x, e1) \<Rightarrow>
      case demo_alloc (DString ''main.js'') e1 of (o1, e2) \<Rightarrow>
        (Exn \<lparr>tc_exception = Some x,
              tc_message = Some \<lparr>msg_origin = Some o1, msg_line = Just 1,
                                 msg_start_column = Just 0, msg_text = Some x\<rparr>,
              tc_stack = None\<rparr>, e2))"

definition demo_source :: "demo_val list \<Rightarrow> obj \<Rightarrow> string" where
  "demo_source e n =
     (case demo_get e n of DString s \<Rightarrow> s | DScript s \<Rightarrow> s | DModule s \<Rightarrow> s | _ \<Rightarrow> [])"

definition demo_run :: "obj \<Rightarrow> demo_val list \<Rightarrow> (demo_val list, obj result) js" where
  "demo_run scr e =
     (case demo_source e scr of
        [] \<Rightarrow> demo_ret (DString []) e
      | c # s \<Rightarrow> (if c = CHR ''!'' then (case demo_throw s e of (r, e') \<Rightarrow> Ret r e')
                else demo_ret (DString (c # s)) e))"

definition demo_call ::
    "obj \<Rightarrow> obj \<Rightarrow> obj option \<Rightarrow> obj option list \<Rightarrow> demo_val list \<Rightarrow> (demo_val list, obj result) js" where
  "demo_call ctx fn recv args e =
     (case demo_get e fn of
        DFunction i \<Rightarrow>
          (if i = 0 then demo_ret DUndefined e
           else Yield e (FunctionCall 100 ctx (case recv of None \<Rightarrow> 0 | Some r \<Rightarrow> r)
                  (map (\<lambda>a. case a of None \<Rightarrow> 0 | Some x \<Rightarrow> x) args) i)
             (\<lambda>(rp, e'). case rp of
                Returned (Some x) \<Rightarrow> Ret (Ok x) e'
              | Threw x \<Rightarrow>
                  Ret (Exn \<lparr>tc_exception = x, tc_message = None, tc_stack = None\<rparr>) e'
              | _ \<Rightarrow> demo_ret DUndefined e'))
      | _ \<Rightarrow> (case demo_throw ''not a function'' e of (r, e') \<Rightarrow> Ret r e'))"

definition demo_is :: "value_kind \<Rightarrow> demo_val \<Rightarrow> bool" where
  "demo_is k v =
     (case v of
        DString _ \<Rightarrow> k = KString
      | DBool _ \<Rightarrow> k = KBoolean
      | DUndefined \<Rightarrow> k = KUndefined
      | DNull \<Rightarrow> k = KNull
      | DNumber _ \<Rightarrow> False
      | DPromise _ _ \<Rightarrow> k = KPromise \<or> k = KObject
      | DFunction _ \<Rightarrow> k = KFunction \<or> k = KObject
      | DArray _ \<Rightarrow> k = KArray \<or> k = KObject
      | DBuffer _ \<Rightarrow> k = KArrayBuffer \<or> k = KObject
      | DView _ _ _ \<Rightarrow> k = KArrayBufferView \<or> k = KUint8Array \<or> k = KObject
      | _ \<Rightarrow> k = KObject)"

definition demo_bytes :: "demo_val list \<Rightarrow> obj \<Rightarrow> byte list" where
  "demo_bytes e n = (case demo_get e n of DBuffer bs \<Rightarrow> bs | _ \<Rightarrow> [])"

definition demo_stats :: heap_statistics where
  "demo_stats =
     \<lparr>total_heap_size = 1, total_heap_size_executable = 2, total_physical_size = 3,
      total_available_size = 4, total_global_handles_size = 5, used_global_handles_size = 6,
      used_heap_size = 7, heap_size_limit = 8, malloced_memory = 9, external_memory = 10,
      peak_malloced_memory = 11, number_of_native_contexts = 12,
      number_of_detached_contexts = 13, total_allocated_bytes = 14\<rparr>"

definition demo_v8 :: "(demo_val list, cell_table) v8" where
  "demo_v8 = \<lparr>
     handles = list_handles,
     NewFromUtf8 = (\<lambda>s e. case demo_alloc (DString s) e of (n, e') \<Rightarrow> (Some n, e')),
     Utf8Value = (\<lambda>v e. Ret (case v of None \<Rightarrow> None | Some n \<Rightarrow> demo_text e (demo_get e n)) e),
     TryCatch_now = (\<lambda>e. \<lparr>tc_exception = None, tc_message = None, tc_stack = None\<rparr>),
     Exception_Error = (\<lambda>t e. demo_alloc (DError t) e),
     CreateMessage = (\<lambda>v e. (None, e)),
     Isolate_New = (\<lambda>p bs e. (300, e)),
     Isolate_Dispose = (\<lambda>i e. e),
     PerformMicrotaskCheckpoint = (\<lambda>i e. Ret () e),
     TerminateExecution = (\<lambda>i e. e),
     IsExecutionTerminating = (\<lambda>i e. False),
     CancelTerminateExecution = (\<lambda>i e. e),
     LowMemoryNotification = (\<lambda>i e. Ret () e),
     MemoryPressureNotification = (\<lambda>i l e. Ret () e),
     GetHeapStatistics = (\<lambda>i e. demo_stats),
     Context_New = (\<lambda>i e. (Some (Suc (length e)), e @ [DContext])),
     Context_Global = (\<lambda>c e. demo_alloc DObject e),
     Object_New = demo_alloc DObject,
     Array_New = (\<lambda>n. demo_alloc (DArray (if n < 0 then 0 else of_int n))),
     Function_New = (\<lambda>c i e. case demo_alloc (DFunction i) e of (n, e') \<Rightarrow> (Ok n, e')),
     Resolver_New = (\<lambda>c e. case demo_alloc (DPromise 0 0) e of (p, e1) \<Rightarrow>
        case demo_alloc (DResolver p) e1 of (n, e2) \<Rightarrow> (Ok n, e2)),
     Boolean_New = (\<lambda>b. demo_alloc (DBool b)),
     Number_New = (\<lambda>d. demo_alloc (DNumber d)),
     Null_New = demo_alloc DNull,
     Undefined_New = demo_alloc DUndefined,
     ArrayBuffer_New = (\<lambda>bs. demo_alloc (DBuffer bs)),
     Uint8Array_New = (\<lambda>b off len. demo_alloc (DView b off len)),
     value_is = (\<lambda>k n e. demo_is k (demo_get e n)),
     IntegerValue = (\<lambda>c n e. Ret (Just 0) e),
     Uint32Value = (\<lambda>c n e. Ret (case demo_get e n of DNumber d \<Rightarrow> Just (ucast d) | _ \<Rightarrow> Nothing) e),
     BooleanValue = (\<lambda>n e. demo_get e n = DBool True),
     BackingStore = (\<lambda>n e. demo_bytes e n),
     View_Buffer = (\<lambda>n e. (case demo_get e n of DView b _ _ \<Rightarrow> b | _ \<Rightarrow> n, e)),
     View_ByteOffset = (\<lambda>n e. case demo_get e n of DView _ off _ \<Rightarrow> off | _ \<Rightarrow> 0),
     View_ByteLength = (\<lambda>n e. case demo_get e n of DView _ _ len \<Rightarrow> len | _ \<Rightarrow> 0),
     Array_Length = (\<lambda>n e. case demo_get e n of DArray len \<Rightarrow> len | _ \<Rightarrow> 0),
     String_Length = (\<lambda>n e. length (demo_source e n)),
     Object_Get = (\<lambda>c ob k e. demo_ret (DFunction 0) e),
     Object_GetIdx = (\<lambda>c ob i e. demo_ret DUndefined e),
     Object_Has = (\<lambda>c ob k e. Ret (Just True) e),
     Object_Set = (\<lambda>c ob k v e. if demo_source e k = ''!'' then
        (case demo_throw [] e of (r, e') \<Rightarrow> Ret (case r of Ok _ \<Rightarrow> Ok True | Exn t \<Rightarrow> Exn t) e')
        else Ret (Ok True) e),
     Object_SetIdx = (\<lambda>c ob i v e. Ret (Ok True) e),
     Function_Call = demo_call,
     Promise_State = (\<lambda>n e. case demo_get e n of DPromise s _ \<Rightarrow> s | _ \<Rightarrow> 0),
     Promise_Result = (\<lambda>n e. (case demo_get e n of DPromise _ r \<Rightarrow> r | _ \<Rightarrow> n, e)),
     Resolver_GetPromise = (\<lambda>n e. (case demo_get e n of DResolver p \<Rightarrow> p | _ \<Rightarrow> n, e)),
     Resolver_Resolve = (\<lambda>c n v e. Ret (Ok True) e),
     Resolver_Reject = (\<lambda>c n v e. Ret (Ok True) e),
     JSON_Stringify = (\<lambda>c v e. demo_ret (DString ''{}'') e),
     JSON_Parse = (\<lambda>c s e. demo_ret DObject e),
     Script_Compile = (\<lambda>c s og e. case demo_alloc (DScript (demo_source e s)) e of (n, e') \<Rightarrow> (Ok n, e')),
     Script_Run = (\<lambda>c s e. demo_run s e),
     CompileUnbound = (\<lambda>i s og e. case demo_alloc (DScript (demo_source e s)) e of (n, e') \<Rightarrow> (Ok n, e')),
     BindToCurrentContext = (\<lambda>c s e. (s, e)),
     Module_Compile = (\<lambda>i s og e. case demo_alloc (DModule (demo_source e s)) e of (n, e') \<Rightarrow> (Ok n, e')),
     Module_Instantiate = (\<lambda>c m e. Yield e (ResolveModule 100 c (Some (demo_source e m)) m)
        (\<lambda>(rp, e'). case rp of Resolved _ \<Rightarrow> Ret (Ok True) e'
          | _ \<Rightarrow> Ret (Exn \<lparr>tc_exception = None, tc_message = None, tc_stack = None\<rparr>) e')),
     Module_Evaluate = (\<lambda>c m e. demo_run m e),
     Module_Namespace = (\<lambda>m e. demo_alloc DObject e),
     Module_Status = (\<lambda>m e. 0),
     Module_ScriptId = (\<lambda>m e. int m),
     SnapshotCreator_New = (\<lambda>e. (200, e)),
     Creator_GetIsolate = (\<lambda>i e. 201),
     SetDefaultContext = (\<lambda>i c e. e),
     CreateBlob = (\<lambda>i e. ((Some [1, 2, 3, 4, 0, 0, 0, 0, 5], 9), e)),
     SnapshotCreator_Delete = (\<lambda>i e. e),
     StartupData_IsValid = (\<lambda>bs e. True)\<rparr>"

lemma demo_handles [simp]: "handles demo_v8 = list_handles"
  by (simp add: demo_v8_def)

lemma demo_handles_ok [simp]: "handles_ok (handles demo_v8)"
  by (simp add: list_handles_ok)

text \<open>One isolate with one context (address 1, storage cell 1, host reference 7) and one string
  object in the engine.\<close>

definition demo_ctx :: gv8_ctx where
  "demo_ctx = \<lparr>ctx_iso = 100, ctx_ptr = 1, ctx_ref = 7, ctx_values = [], ctx_next_value_id = 0,
     ctx_snapshot_blob = 0, ctx_snapshot_data = 0\<rparr>"

definition demo_iso :: isolate_data where
  "demo_iso = \<lparr>iso_data0 = 0, iso_data1 = 0, iso_import_callback = True, iso_reject_callback = True\<rparr>"

definition demo_world :: "(demo_val list, cell_table) world" where
  "demo_world = \<lparr>
     engine = [DContext, DString ''hi''], globals = (1, [(1, 1)]),
     isolates = [100 \<mapsto> demo_iso],
     contexts = [1 \<mapsto> demo_ctx], wrappers = Map.empty, scripts = Map.empty, modules = Map.empty,
     builders = Map.empty, arrays = Map.empty, blobs = Map.empty,
     embedder = (\<lambda>c. if c = 1 then [1 \<mapsto> EInteger 7, 2 \<mapsto> EExternal 1] else Map.empty),
     next_addr = 1\<rparr>"

lemma demo_world_sel [simp]:
  "isolates demo_world = [100 \<mapsto> demo_iso]"
  "engine demo_world = [DContext, DString ''hi'']"
  "globals demo_world = (1, [(1, 1)])"
  "contexts demo_world = [1 \<mapsto> demo_ctx]"
  "wrappers demo_world = Map.empty" "scripts demo_world = Map.empty"
  "modules demo_world = Map.empty" "builders demo_world = Map.empty"
  "arrays demo_world = Map.empty" "blobs demo_world = Map.empty"
  "next_addr demo_world = 1"
  by (simp_all add: demo_world_def)

lemma demo_ctx_sel [simp]:
  "ctx_iso demo_ctx = 100" "ctx_ptr demo_ctx = 1" "ctx_ref demo_ctx = 7"
  "ctx_values demo_ctx = []" "ctx_next_value_id demo_ctx = 0"
  "ctx_snapshot_blob demo_ctx = 0" "ctx_snapshot_data demo_ctx = 0"
  by (simp_all add: demo_ctx_def)

lemma demo_world_ok: "world_ok (handles demo_v8) demo_world"
proof -
  have "slot_of demo_world p = (if p = OwnContext 1 then 1 else 0)" for p
    by (cases p) auto
  then have "slots_ok list_handles demo_world"
    by (auto simp: slots_ok_def)
  then show ?thesis
    by (auto simp: world_ok_def registry_ok_def ctx_registry_ok_def fresh_ok_def below_def holds_def
        split: if_splits)
qed

end
