(* ===== verification/Gv8_Values.thy ===== *)
theory Gv8_Values
  imports V8_Demo
begin

text \<open>
  Value handles: \<open>trackValue\<close>, \<open>wrapValue\<close>, \<open>wrapBorrowedValue\<close>, \<open>GV8ValueRelease\<close> and
  \<open>GV8ValueRetain\<close>. A wrapped value is registered in its context and dies with it; a borrowed one
  (id 0) is known to no registry and lives until it is released.
\<close>

section \<open>Operations\<close>

definition trackValue ::
    "addr \<Rightarrow> addr \<Rightarrow> ('e, 'g) world \<Rightarrow> (addr \<times> ('e, 'g) world) option" where
  "trackValue ctx value w =
     do { y \<leftarrow> wrappers w value;
          if val_id y = 0 then
            do { x \<leftarrow> contexts w ctx;
                 i \<leftarrow> incr_long (ctx_next_value_id x);
                 let w1 = put_wrapper value (Some (y\<lparr>val_id := i\<rparr>)) w;
                 Some (value, put_context ctx
                   (Some (x\<lparr>ctx_next_value_id := i,
                            ctx_values := AList.update i value (ctx_values x)\<rparr>)) w1) }
          else Some (value, w) }"

definition wrapBorrowedValue ::
    "('e, 'g) v8 \<Rightarrow> addr \<Rightarrow> addr \<Rightarrow> obj option \<Rightarrow> ('e, 'g) world \<Rightarrow> addr \<times> ('e, 'g) world" where
  "wrapBorrowedValue V ctx isolate value w =
     (let (wrap, w1) = new_addr w;
          (s, w2) = reset_to V nullptr value w1
      in (wrap, put_wrapper wrap
            (Some \<lparr>val_id = 0, val_ctx = ctx, val_iso = isolate, val_ptr = s\<rparr>) w2))"

definition wrapValue ::
    "('e, 'g) v8 \<Rightarrow> addr \<Rightarrow> addr \<Rightarrow> obj option \<Rightarrow> ('e, 'g) world \<Rightarrow>
       (addr \<times> ('e, 'g) world) option" where
  "wrapValue V ctx isolate value w =
     (let (wrap, w1) = new_addr w;
          (s, w2) = reset_to V nullptr value w1;
          w3 = put_wrapper wrap
            (Some \<lparr>val_id = 0, val_ctx = ctx, val_iso = isolate, val_ptr = s\<rparr>) w2
      in trackValue ctx wrap w3)"

definition GV8ValueRelease ::
    "('e, 'g) v8 \<Rightarrow> addr \<Rightarrow> ('e, 'g) world \<Rightarrow> ('e, 'g) world option" where
  "GV8ValueRelease V value w =
     (if value = nullptr then Some w
      else do {
        y \<leftarrow> wrappers w value;
        let ctx = val_ctx y;
        w1 \<leftarrow> (if ctx \<noteq> nullptr \<and> val_id y \<noteq> 0 then
                do { x \<leftarrow> contexts w ctx;
                     Some (put_context ctx
                       (Some (x\<lparr>ctx_values := AList.delete (val_id y) (ctx_values x)\<rparr>)) w) }
              else Some w);
        let w2 = reset V (val_ptr y) w1;
        Some (put_wrapper value None w2) })"

text \<open>\<open>CTX_SCOPE\<close>: the isolate and the context entered for an operation on a context. A context of a
  disposed isolate is a dangling pointer, entering an empty context a null dereference.\<close>

definition iso_scope :: "addr \<Rightarrow> ('e, 'g) world \<Rightarrow> isolate_data option" where
  "iso_scope isolate w = isolates w isolate"

definition ctx_scope :: "('e, 'g) v8 \<Rightarrow> addr \<Rightarrow> ('e, 'g) world \<Rightarrow> (addr \<times> obj) option" where
  "ctx_scope V ctx w =
     do { x \<leftarrow> contexts w ctx;
          _ \<leftarrow> iso_scope (ctx_iso x) w;
          local_ctx \<leftarrow> get_obj V (ctx_ptr x) w;
          Some (ctx_iso x, local_ctx) }"

text \<open>The opening lines of the operations on a value: its isolate is entered, then its context.\<close>

definition value_scope ::
    "('e, 'g) v8 \<Rightarrow> gv8_value \<Rightarrow> ('e, 'g) world \<Rightarrow> (addr \<times> obj) option" where
  "value_scope V y w =
     do { _ \<leftarrow> iso_scope (val_iso y) w;
          x \<leftarrow> contexts w (val_ctx y);
          local_ctx \<leftarrow> get_obj V (ctx_ptr x) w;
          Some (val_iso y, local_ctx) }"

definition GV8ValueRetain ::
    "('e, 'g) v8 \<Rightarrow> addr \<Rightarrow> ('e, 'g) world \<Rightarrow> (addr \<times> ('e, 'g) world) option" where
  "GV8ValueRetain V value w =
     (if value = nullptr then Some (nullptr, w)
      else do {
        y \<leftarrow> wrappers w value;
        (isolate, local_ctx) \<leftarrow> value_scope V y w;
        local \<leftarrow> get_local V (val_ptr y) w;
        wrapValue V (val_ctx y) isolate local w })"

section \<open>What each operation does\<close>

lemma reset_to_null:
  "reset_to V 0 (Some x) w =
     (fst (GlobalizeReference (handles V) x (globals w)),
      w\<lparr>globals := snd (GlobalizeReference (handles V) x (globals w))\<rparr>)"
  by (simp add: reset_to_def persistent_Reset_local_fresh split: prod.splits)

lemma wrapBorrowedValue_eq:
  assumes "GlobalizeReference (handles V) ob (globals w) = (s, g)"
  shows "wrapBorrowedValue V c isolate (Some ob) w =
    (Suc (next_addr w),
     put_wrapper (Suc (next_addr w)) (Some \<lparr>val_id = 0, val_ctx = c, val_iso = isolate, val_ptr = s\<rparr>)
       (w\<lparr>next_addr := Suc (next_addr w), globals := g\<rparr>))"
  using assms by (simp add: wrapBorrowedValue_def new_addr_def reset_to_null)

lemma wrapValue_eq:
  assumes "GlobalizeReference (handles V) ob (globals w) = (s, g)"
    and "contexts w c = Some x" "ctx_next_value_id x < LONG_MAX"
  shows "wrapValue V c isolate (Some ob) w =
    Some (Suc (next_addr w),
      put_context c
        (Some (x\<lparr>ctx_next_value_id := ctx_next_value_id x + 1,
                 ctx_values := AList.update (ctx_next_value_id x + 1) (Suc (next_addr w))
                   (ctx_values x)\<rparr>))
        (put_wrapper (Suc (next_addr w))
          (Some \<lparr>val_id = ctx_next_value_id x + 1, val_ctx = c, val_iso = isolate, val_ptr = s\<rparr>)
          (w\<lparr>next_addr := Suc (next_addr w), globals := g\<rparr>)))"
  using assms
  by (simp add: wrapValue_def new_addr_def reset_to_null trackValue_def put_defs incr_long_def)

lemma wrapValue_SomeD:
  assumes "wrapValue V c isolate local w = Some (a, w')"
  shows "a = Suc (next_addr w)" "\<exists>x. contexts w c = Some x \<and> ctx_next_value_id x < LONG_MAX"
  using assms
  by (auto simp: wrapValue_def new_addr_def reset_to_def trackValue_def put_defs Let_def
      split: prod.splits if_splits)

lemma get_obj_Some:
  "get_obj V s w = Some x \<longleftrightarrow> s \<noteq> 0 \<and> cell (handles V) (globals w) s = Some x"
  by (auto simp: get_obj_def get_local_def persistent_Get_def handle_IsEmpty_def split: if_splits)

lemma get_local_Some:
  "s \<noteq> 0 \<Longrightarrow> get_local V s w = Some l \<longleftrightarrow> (\<exists>x. l = Some x \<and> cell (handles V) (globals w) s = Some x)"
  by (auto simp: get_local_def persistent_Get_def handle_IsEmpty_def)

section \<open>The invariant\<close>

lemma registry_ok_ctx:
  "registry_ok w \<Longrightarrow> contexts w c = Some x \<Longrightarrow> ctx_registry_ok w c x"
  by (simp add: registry_ok_def)

lemma registry_ok_val:
  "registry_ok w \<Longrightarrow> wrappers w v = Some y \<Longrightarrow> val_ptr y \<noteq> 0"
  "registry_ok w \<Longrightarrow> wrappers w v = Some y \<Longrightarrow> val_id y \<noteq> 0 \<Longrightarrow>
     \<exists>x. contexts w (val_ctx y) = Some x \<and> map_of (ctx_values x) (val_id y) = Some v"
  by (simp_all add: registry_ok_def)

text \<open>A new borrowed wrapper.\<close>

lemma wrapBorrowedValue_ok [ok_rules]:
  assumes eq: "wrapBorrowedValue V c isolate (Some ob) w = (a, w')"
    and ok: "world_ok (handles V) w" and H: "handles_ok (handles V)"
  shows "world_ok (handles V) w'"
proof -
  obtain s g where gl: "GlobalizeReference (handles V) ob (globals w) = (s, g)"
    by (cases "GlobalizeReference (handles V) ob (globals w)")
  note fresh = handles_ok_globalize [OF H gl]
  have a: "a = Suc (next_addr w)" and w': "w' = put_wrapper a
      (Some \<lparr>val_id = 0, val_ctx = c, val_iso = isolate, val_ptr = s\<rparr>)
      (w\<lparr>next_addr := a, globals := g\<rparr>)"
    using eq by (auto simp: wrapBorrowedValue_eq [OF gl])
  from ok have new: "wrappers w a = None" by (simp add: a world_ok_def fresh_ok_fresh)
  have "slots_ok (handles V) w'"
    by (rule slots_ok_gain [OF _ H gl, where p = "OwnValue a"])
      (use ok new in \<open>simp_all add: w' world_ok_def\<close>)
  moreover have "registry_ok w'"
  proof -
    from ok have reg: "registry_ok w" by (simp add: world_ok_def)
    have "ctx_registry_ok w' d x" if "contexts w d = Some x" for d x
      using registry_ok_ctx [OF reg that] registry_not_dead [OF reg that new]
      unfolding ctx_registry_ok_def w' by auto
    then show ?thesis
      using reg fresh(1) unfolding registry_ok_def w' by auto
  qed
  moreover have "fresh_ok w'"
    using ok by (simp add: world_ok_def fresh_ok_def w' a)
  ultimately show ?thesis by (simp add: world_ok_def)
qed

text \<open>Registering a live wrapper of the context.\<close>

lemma trackValue_cases:
  assumes "trackValue c v w = Some (v', w')"
  obtains y where "wrappers w v = Some y" "val_id y \<noteq> 0" "v' = v" "w' = w"
  | y x where "wrappers w v = Some y" "val_id y = 0" "contexts w c = Some x" "v' = v"
      "ctx_next_value_id x < LONG_MAX"
      "w' = put_context c
         (Some (x\<lparr>ctx_next_value_id := ctx_next_value_id x + 1,
                  ctx_values := AList.update (ctx_next_value_id x + 1) v (ctx_values x)\<rparr>))
         (put_wrapper v (Some (y\<lparr>val_id := ctx_next_value_id x + 1\<rparr>)) w)"
proof -
  from assms obtain y where y: "wrappers w v = Some y" by (auto simp: trackValue_def)
  show thesis
  proof (cases "val_id y = 0")
    case True
    with y assms show thesis
      by (intro that(2) [of y "the (contexts w c)"]) (auto simp: trackValue_def Let_def)
  next
    case False
    with y assms show thesis by (intro that(1) [of y]) (auto simp: trackValue_def)
  qed
qed

lemma trackValue_ok:
  assumes ok: "world_ok H w" and eq: "trackValue c v w = Some (v', w')"
    and mine: "\<And>y. wrappers w v = Some y \<Longrightarrow> val_ctx y = c"
  shows "world_ok H w'"
  using eq
proof (cases rule: trackValue_cases)
  case 1
  with ok show ?thesis by simp
next
  case (2 y x)
  note w' = 2(6)
  let ?i = "ctx_next_value_id x + 1"
  from ok have reg: "registry_ok w" by (simp add: world_ok_def)
  note rx = registry_ok_ctx [OF reg 2(3)]
  have "slot_of w' = slot_of w"
    by (rule ext, rename_tac p, case_tac p) (auto simp: w' 2)
  then have "slots_ok H w'"
    using ok by (auto simp: world_ok_def w' intro: slots_ok_same)
  moreover have "ctx_registry_ok w' d z" if d: "contexts w' d = Some z" for d z
  proof (cases "d = c")
    case True
    with d have z: "z = x\<lparr>ctx_next_value_id := ?i,
        ctx_values := AList.update ?i v (ctx_values x)\<rparr>"
      by (simp add: w')
    have "j \<le> ctx_next_value_id x \<and> 0 < j \<and>
        (\<exists>y'. wrappers w u = Some y' \<and> val_id y' = j \<and> val_ctx y' = c)"
      if "map_of (ctx_values x) j = Some u" for j u
      using registry_live [OF reg 2(3) that] by metis
    moreover from this have "map_of (ctx_values x) j \<noteq> Some v" for j
      using 2(1,2) by force
    ultimately show ?thesis
      using rx mine [OF 2(1)] True
      by (auto simp: ctx_registry_ok_def w' z map_of_update_key distinct_fst_update
          split: if_splits) force+
  next
    case False
    with d have "contexts w d = Some z" by (simp add: w')
    moreover have "map_of (ctx_values z) j \<noteq> Some v" for j
      using registry_live [OF reg \<open>contexts w d = Some z\<close>, of j v] 2(1,2) by force
    ultimately show ?thesis
      using registry_ok_ctx [OF reg] by (fastforce simp: ctx_registry_ok_def w')
  qed
  moreover have "val_ptr z \<noteq> 0 \<and> (val_id z \<noteq> 0 \<longrightarrow> (\<exists>x. contexts w' (val_ctx z) = Some x \<and>
      map_of (ctx_values x) (val_id z) = Some u))" if u: "wrappers w' u = Some z" for u z
  proof (cases "u = v")
    case True
    with u mine [OF 2(1)] show ?thesis
      using registry_ok_val(1) [OF reg 2(1)] by (auto simp: w' map_of_update_key)
  next
    case False
    with u have "wrappers w u = Some z" by (simp add: w')
    note uz = registry_ok_val [OF reg this]
    have "val_id z \<noteq> ?i" if "val_ctx z = c" "val_id z \<noteq> 0"
      using uz(2) that registry_live [OF reg 2(3)] 2(3) by force
    with uz show ?thesis
      by (cases "val_ctx z = c") (auto simp: w' map_of_update_key 2(3))
  qed
  ultimately have "registry_ok w'" unfolding registry_ok_def by blast
  moreover have "fresh_ok w'"
    using ok by (auto simp: world_ok_def fresh_ok_def w' 2 )
  ultimately show ?thesis using \<open>slots_ok H w'\<close> by (simp add: world_ok_def)
qed

lemma wrapValue_borrow_track:
  "wrapValue V c isolate l w =
     (case wrapBorrowedValue V c isolate l w of (a, w1) \<Rightarrow> trackValue c a w1)"
  by (simp add: wrapValue_def wrapBorrowedValue_def Let_def split: prod.splits)

lemma wrapValue_ok [ok_rules]:
  assumes eq: "wrapValue V c isolate (Some ob) w = Some (a, w')"
    and ok: "world_ok (handles V) w" and H: "handles_ok (handles V)"
  shows "world_ok (handles V) w'"
proof -
  obtain b w1 where b: "wrapBorrowedValue V c isolate (Some ob) w = (b, w1)"
    by (cases "wrapBorrowedValue V c isolate (Some ob) w")
  then have "world_ok (handles V) w1" by (rule wrapBorrowedValue_ok [OF _ ok H])
  moreover have "trackValue c b w1 = Some (a, w')"
    using eq b by (simp add: wrapValue_borrow_track)
  moreover have "val_ctx y = c" if "wrappers w1 b = Some y" for y
    using b that by (auto simp: wrapBorrowedValue_def Let_def split: prod.splits)
  ultimately show ?thesis by (rule trackValue_ok)
qed

text \<open>Releasing: the two shapes of the result.\<close>

lemma GV8ValueRelease_cases:
  assumes "GV8ValueRelease V v w = Some w'"
  obtains "v = 0" "w' = w"
  | y where "v \<noteq> 0" "wrappers w v = Some y" "val_ctx y = 0 \<or> val_id y = 0"
      "w' = put_wrapper v None (reset V (val_ptr y) w)"
  | y x where "v \<noteq> 0" "wrappers w v = Some y" "val_ctx y \<noteq> 0" "val_id y \<noteq> 0"
      "contexts w (val_ctx y) = Some x"
      "w' = put_wrapper v None (reset V (val_ptr y) (put_context (val_ctx y)
         (Some (x\<lparr>ctx_values := AList.delete (val_id y) (ctx_values x)\<rparr>)) w))"
proof -
  consider "v = 0" | y where "v \<noteq> 0" "wrappers w v = Some y"
    using assms by (auto simp: GV8ValueRelease_def split: if_splits)
  then show thesis
  proof cases
    case 1
    with assms show thesis by (intro that(1)) (auto simp: GV8ValueRelease_def)
  next
    case (2 y)
    show thesis
    proof (cases "val_ctx y = 0 \<or> val_id y = 0")
      case True
      with 2 assms show thesis
        by (intro that(2) [of y]) (auto simp: GV8ValueRelease_def Let_def)
    next
      case False
      with 2 assms show thesis
        by (intro that(3) [of y "the (contexts w (val_ctx y))"])
          (auto simp: GV8ValueRelease_def Let_def)
    qed
  qed
qed

lemma reset_sel [simp]:
  "engine (reset V s w) = engine w" "isolates (reset V s w) = isolates w"
  "contexts (reset V s w) = contexts w" "wrappers (reset V s w) = wrappers w"
  "scripts (reset V s w) = scripts w" "modules (reset V s w) = modules w"
  "builders (reset V s w) = builders w" "arrays (reset V s w) = arrays w"
  "blobs (reset V s w) = blobs w" "embedder (reset V s w) = embedder w"
  "next_addr (reset V s w) = next_addr w" "slot_of (reset V s w) = slot_of w"
  by (simp_all add: reset_def)

lemma globals_reset [simp]:
  "globals (reset V s w) = snd (persistent_Reset (handles V) s (globals w))"
  by (simp add: reset_def)

text \<open>Dropping a value that is in no registry any more keeps the invariant.\<close>

lemma drop_wrapper_ok:
  assumes ok: "world_ok (handles V) w" and H: "handles_ok (handles V)"
    and y: "wrappers w v = Some y"
    and u: "contexts u = contexts w \<or> (\<exists>x. contexts w (val_ctx y) = Some x \<and>
        contexts u = (contexts w)(val_ctx y \<mapsto> x\<lparr>ctx_values := AList.delete (val_id y) (ctx_values x)\<rparr>))"
    and gone: "\<And>x i. contexts u (val_ctx y) = Some x \<Longrightarrow> map_of (ctx_values x) i \<noteq> Some v"
    and same: "globals u = globals w" "wrappers u = wrappers w" "slot_of u = slot_of w"
      "scripts u = scripts w" "modules u = modules w" "builders u = builders w"
      "arrays u = arrays w" "blobs u = blobs w" "next_addr u = next_addr w"
  shows "world_ok (handles V) (put_wrapper v None (reset V (val_ptr y) u))" (is "world_ok _ ?w'")
proof -
  from ok have reg: "registry_ok w" and sl: "slots_ok (handles V) w" by (simp_all add: world_ok_def)
  have slot: "slot_of w (OwnValue v) = val_ptr y" by (simp add: y)
  have "slots_ok (handles V) ?w'"
    by (rule slots_ok_lose [OF sl H, where p = "OwnValue v"]) (simp_all add: same slot y)
  moreover have "ctx_registry_ok ?w' d z" if d: "contexts u d = Some z" for d z
  proof -
    have nv: "map_of (ctx_values z) i \<noteq> Some v" for i
    proof
      assume v: "map_of (ctx_values z) i = Some v"
      with gone d have ne: "d \<noteq> val_ctx y" by blast
      with d u have "contexts w d = Some z" by auto
      from registry_live [OF reg this v] y ne show False by force
    qed
    obtain z0 where z0: "contexts w d = Some z0" "ctx_next_value_id z = ctx_next_value_id z0"
      "distinct (map fst (ctx_values z))"
      "\<And>i a. map_of (ctx_values z) i = Some a \<Longrightarrow> map_of (ctx_values z0) i = Some a"
    proof (cases "contexts w d = Some z")
      case True
      then show thesis using that [of z] registry_ok_ctx [OF reg True] by (auto simp: ctx_registry_ok_def)
    next
      case False
      with u d obtain x where "contexts w d = Some x" "d = val_ctx y"
        "z = x\<lparr>ctx_values := AList.delete (val_id y) (ctx_values x)\<rparr>"
        by (auto split: if_splits)
      then show thesis
        using registry_ok_ctx [OF reg, of d x]
        by (intro that [of x])
          (auto simp: ctx_registry_ok_def distinct_fst_delete map_of_delete_key split: if_splits)
    qed
    show ?thesis
      using z0 nv registry_ok_ctx [OF reg z0(1)] unfolding ctx_registry_ok_def by (fastforce simp: same)
  qed
  moreover have "val_ptr z \<noteq> 0 \<and> (val_id z \<noteq> 0 \<longrightarrow> (\<exists>x. contexts u (val_ctx z) = Some x \<and>
      map_of (ctx_values x) (val_id z) = Some a))" if "wrappers w a = Some z" "a \<noteq> v" for a z
  proof -
    have "map_of (ctx_values x) (val_id z) \<noteq> Some a"
      if "contexts w (val_ctx y) = Some x" "val_ctx z = val_ctx y" "val_id z = val_id y"
        "map_of (ctx_values x) (val_id y) = Some v" for x
      using that \<open>a \<noteq> v\<close> by simp
    then show ?thesis
      using registry_ok_val [OF reg that(1)] registry_ok_val(2) [OF reg y] u
      by (cases "val_ctx z = val_ctx y") (auto simp: map_of_delete_key)
  qed
  ultimately have "registry_ok ?w'"
    unfolding registry_ok_def by (auto simp: same split: if_splits)
  moreover have "fresh_ok ?w'"
    using ok u by (auto simp: world_ok_def fresh_ok_def same)
  ultimately show ?thesis using \<open>slots_ok (handles V) ?w'\<close> by (simp add: world_ok_def)
qed

lemma GV8ValueRelease_ok [ok_rules]:
  assumes eq: "GV8ValueRelease V v w = Some w'"
    and ok: "world_ok (handles V) w" and H: "handles_ok (handles V)"
  shows "world_ok (handles V) w'"
  using eq
proof (cases rule: GV8ValueRelease_cases)
  case 1
  with ok show ?thesis by simp
next
  case (2 y)
  from ok have reg: "registry_ok w" and "contexts w 0 = None"
    using below_null [of "contexts w" "next_addr w"] by (simp_all add: world_ok_def fresh_ok_def)
  have "val_id y = 0"
  proof (rule ccontr)
    assume "val_id y \<noteq> 0"
    with 2(3) registry_ok_val(2) [OF reg 2(2)] obtain x where "contexts w 0 = Some x" by auto
    then show False by (simp add: \<open>contexts w 0 = None\<close>)
  qed
  have gone: "map_of (ctx_values x) i \<noteq> Some v" if x: "contexts w (val_ctx y) = Some x" for x i
  proof
    assume "map_of (ctx_values x) i = Some v"
    from registry_live_id(1,3) [OF reg x this 2(2)] \<open>val_id y = 0\<close> show False by simp
  qed
  show ?thesis unfolding 2(4)
    by (rule drop_wrapper_ok [OF ok H 2(2), where u = w]) (simp_all add: gone)
next
  case (3 y x)
  from ok have reg: "registry_ok w" by (simp add: world_ok_def)
  have "map_of (AList.delete (val_id y) (ctx_values x)) i \<noteq> Some v" for i
    using registry_live_id(1) [OF reg 3(5) _ 3(2)] by (auto simp: map_of_delete_key)
  then have gone: "contexts u (val_ctx y) = Some z \<Longrightarrow> map_of (ctx_values z) i \<noteq> Some v"
    if "u = put_context (val_ctx y)
      (Some (x\<lparr>ctx_values := AList.delete (val_id y) (ctx_values x)\<rparr>)) w" for u z i
    using that by auto
  define u where "u = put_context (val_ctx y)
      (Some (x\<lparr>ctx_values := AList.delete (val_id y) (ctx_values x)\<rparr>)) w"
  have "slot_of u = slot_of w"
    using 3(5) by (simp add: u_def fun_upd_idem)
  then show ?thesis unfolding 3(6) u_def [symmetric]
    by (intro drop_wrapper_ok [OF ok H 3(2), where u = u] gone [OF u_def])
      (simp_all add: u_def 3(5))
qed

lemma world_ok_val_ptr:
  "world_ok H w \<Longrightarrow> wrappers w v = Some y \<Longrightarrow> 0 < val_ptr y"
  by (auto simp: world_ok_def registry_ok_def)

lemma GV8ValueRetain_cases:
  assumes "GV8ValueRetain V v w = Some (a, w')"
  obtains "v = 0" "a = 0" "w' = w"
  | y l where "v \<noteq> 0" "wrappers w v = Some y" "get_local V (val_ptr y) w = Some l"
      "wrapValue V (val_ctx y) (val_iso y) l w = Some (a, w')"
  using assms by (auto simp: GV8ValueRetain_def value_scope_def split: if_splits)

lemma GV8ValueRetain_ok [ok_rules]:
  assumes eq: "GV8ValueRetain V v w = Some (a, w')"
    and ok: "world_ok (handles V) w" and H: "handles_ok (handles V)"
  shows "world_ok (handles V) w'"
  using eq
proof (cases rule: GV8ValueRetain_cases)
  case 1
  with ok show ?thesis by simp
next
  case (2 y l)
  from ok have "val_ptr y \<noteq> 0" using 2(2) by (simp add: world_ok_val_ptr)
  with 2(3) obtain x where "l = Some x" by (auto simp: get_local_Some)
  with 2(4) show ?thesis using wrapValue_ok ok H by blast
qed

section \<open>Storage cells\<close>

lemma live_wrapper_cell:
  assumes "world_ok H w" "wrappers w v = Some y"
  shows "\<exists>x. cell H (globals w) (val_ptr y) = Some x"
proof -
  from assms have "slot_of w (OwnValue v) \<noteq> 0" by (simp add: world_ok_val_ptr)
  with assms slots_ok_cell [of H w "OwnValue v"] show ?thesis by (simp add: world_ok_def)
qed

lemma live_context_cell:
  assumes "world_ok H w" "contexts w c = Some x" "ctx_ptr x \<noteq> 0"
  shows "\<exists>y. cell H (globals w) (ctx_ptr x) = Some y"
  using assms slots_ok_cell [of H w "OwnContext c"] by (simp add: world_ok_def)

lemma world_ok_null [simp]:
  assumes "world_ok H w"
  shows "wrappers w 0 = None" "contexts w 0 = None"
  using assms below_null unfolding world_ok_def fresh_ok_def by metis+

lemma reset_cell:
  assumes "handles_ok (handles V)" "cell (handles V) (globals w) s = Some x"
  shows "cell (handles V) (globals (reset V s w)) = (cell (handles V) (globals w))(s := None)"
proof -
  from assms have "s \<noteq> 0" by (metis handles_ok_null option.distinct(1))
  with assms show ?thesis
    by (simp add: persistent_Reset_def handle_IsEmpty_def handles_ok_dispose)
qed

text \<open>What releasing a live value does, on both branches.\<close>

lemma GV8ValueRelease_live:
  assumes ok: "world_ok (handles V) w" and H: "handles_ok (handles V)"
    and y: "wrappers w v = Some y"
  obtains w' where "GV8ValueRelease V v w = Some w'"
    "wrappers w' = (wrappers w)(v := None)"
    "cell (handles V) (globals w') = (cell (handles V) (globals w))(val_ptr y := None)"
    "contexts w' = (if val_id y = 0 then contexts w else (contexts w)(val_ctx y :=
       map_option (\<lambda>x. x\<lparr>ctx_values := AList.delete (val_id y) (ctx_values x)\<rparr>)
         (contexts w (val_ctx y))))"
    "machine w' = machine w" "scripts w' = scripts w" "modules w' = modules w" "builders w' = builders w"
proof -
  from ok y have v: "v \<noteq> 0" by (metis world_ok_null(1) option.distinct(1))
  from ok have reg: "registry_ok w" by (simp add: world_ok_def)
  obtain ob where ob: "cell (handles V) (globals w) (val_ptr y) = Some ob"
    using live_wrapper_cell [OF ok y] by blast
  note res = reset_cell [OF H, of w "val_ptr y", OF ob, unfolded globals_reset]
  show thesis
  proof (cases "val_id y = 0")
    case True
    then show thesis
      by (intro that [of "put_wrapper v None (reset V (val_ptr y) w)"])
        (simp_all add: GV8ValueRelease_def Let_def v y res machine_def)
  next
    case False
    with registry_ok_val(2) [OF reg y] obtain x where x: "contexts w (val_ctx y) = Some x" by blast
    then have c: "val_ctx y \<noteq> 0" using ok by (metis world_ok_null(2) option.distinct(1))
    show thesis
      by (rule that [of "put_wrapper v None (reset V (val_ptr y) (put_context (val_ctx y)
            (Some (x\<lparr>ctx_values := AList.delete (val_id y) (ctx_values x)\<rparr>)) w))"])
        (simp_all add: GV8ValueRelease_def Let_def v y x c False res machine_def)
  qed
qed

text \<open>Values are releasable handles.\<close>

definition good :: "('e, 'g) v8 \<Rightarrow> ('e, 'g) world \<Rightarrow> bool" where
  "good V w \<longleftrightarrow> handles_ok (handles V) \<and> world_ok (handles V) w"

interpretation val_handle:
    releasable "good V" wrappers "\<lambda>w. cell (handles V) (globals w)" val_ptr
      "\<lambda>w. (machine w, scripts w, modules w, builders w)" "GV8ValueRelease V"
  for V :: "('e, 'g) v8"
proof unfold_locales
  fix w :: "('e, 'g) world" and a y
  assume w: "good V w" and y: "wrappers w a = Some y"
  then have ok: "world_ok (handles V) w" and H: "handles_ok (handles V)" by (simp_all add: good_def)
  obtain w' where w': "GV8ValueRelease V a w = Some w'" "wrappers w' = (wrappers w)(a := None)"
    "cell (handles V) (globals w') = (cell (handles V) (globals w))(val_ptr y := None)"
    "machine w' = machine w" "scripts w' = scripts w" "modules w' = modules w" "builders w' = builders w"
    by (rule GV8ValueRelease_live [OF ok H y]) (rule that; assumption)
  with GV8ValueRelease_ok [OF w'(1) ok H] H
  show "\<exists>w'. GV8ValueRelease V a w = Some w' \<and> good V w' \<and> wrappers w' = (wrappers w)(a := None) \<and>
      cell (handles V) (globals w') = (cell (handles V) (globals w))(val_ptr y := None) \<and>
      (machine w', scripts w', modules w', builders w') = (machine w, scripts w, modules w, builders w)"
    by (auto simp: good_def)
qed (auto simp: GV8ValueRelease_def good_def)

text \<open>What wrapping an object does.\<close>

lemma wrapValue_new:
  assumes ok: "world_ok (handles V) w" and H: "handles_ok (handles V)"
    and c: "contexts w c = Some x" and room: "ctx_next_value_id x < LONG_MAX"
  shows "\<exists>a w' y x'. wrapValue V c isolate (Some ob) w = Some (a, w') \<and> world_ok (handles V) w' \<and>
    wrappers w a = None \<and> wrappers w' = (wrappers w)(a \<mapsto> y) \<and>
    val_id y = ctx_next_value_id x + 1 \<and> val_ctx y = c \<and> get_obj V (val_ptr y) w' = Some ob \<and>
    contexts w' = (contexts w)(c \<mapsto> x') \<and> ctx_next_value_id x' = ctx_next_value_id x + 1 \<and>
    map_of (ctx_values x) (val_id y) = None \<and>
    map_of (ctx_values x') = (map_of (ctx_values x))(val_id y \<mapsto> a) \<and>
    (\<forall>s. s \<noteq> val_ptr y \<longrightarrow>
       cell (handles V) (globals w') s = cell (handles V) (globals w) s)"
proof -
  obtain s g where gl: "GlobalizeReference (handles V) ob (globals w) = (s, g)"
    by (cases "GlobalizeReference (handles V) ob (globals w)")
  note fresh = handles_ok_globalize [OF H gl] and eq = wrapValue_eq [OF gl c room, of isolate]
  from ok have reg: "registry_ok w" and "wrappers w (Suc (next_addr w)) = None"
    by (simp_all add: world_ok_def fresh_ok_fresh)
  moreover have "map_of (ctx_values x) (ctx_next_value_id x + 1) = None"
    using registry_ok_ctx [OF reg c] unfolding ctx_registry_ok_def
    by (metis add_le_same_cancel1 not_None_eq not_one_le_zero)
  moreover define y where "y = \<lparr>val_id = ctx_next_value_id x + 1, val_ctx = c,
    val_iso = isolate, val_ptr = s\<rparr>"
  moreover define x' where "x' = x\<lparr>ctx_next_value_id := ctx_next_value_id x + 1,
    ctx_values := AList.update (ctx_next_value_id x + 1) (Suc (next_addr w)) (ctx_values x)\<rparr>"
  ultimately show ?thesis
    using wrapValue_ok [OF eq ok H] fresh unfolding eq
    by (intro exI [of _ "Suc (next_addr w)"] exI [of _ y] exI [of _ x'] exI conjI)
      (auto simp: get_obj_Some map_of_update_key)
qed

section \<open>The demonstration world with one wrapped value\<close>

definition demo_value_world :: "(demo_val list, cell_table) world" where
  "demo_value_world = snd (the (wrapValue demo_v8 1 100 (Some 2) demo_world))"

lemma demo_wrapValue_eq:
  "wrapValue demo_v8 1 100 (Some 2) demo_world =
    Some (2, put_context 1 (Some (demo_ctx\<lparr>ctx_next_value_id := 1, ctx_values := [(1, 2)]\<rparr>))
      (put_wrapper 2 (Some \<lparr>val_id = 1, val_ctx = 1, val_iso = 100, val_ptr = 2\<rparr>)
        (demo_world\<lparr>next_addr := 2, globals := (2, [(2, 2), (1, 1)])\<rparr>)))"
proof -
  have "GlobalizeReference (handles demo_v8) 2 (globals demo_world) = (2, (2, [(2, 2), (1, 1)]))"
    by simp
  moreover have "contexts demo_world 1 = Some demo_ctx" "ctx_next_value_id demo_ctx < LONG_MAX"
    by (simp_all add: LONG_MAX_def)
  ultimately show ?thesis
    using wrapValue_eq [of demo_v8 2 demo_world _ _ 1 demo_ctx 100] by (simp add: numeral_2_eq_2)
qed

lemma demo_wrapValue:
  "wrapValue demo_v8 1 100 (Some 2) demo_world = Some (2, demo_value_world)"
  unfolding demo_value_world_def demo_wrapValue_eq by simp

lemma demo_value_world_ok: "world_ok (handles demo_v8) demo_value_world"
  by (rule wrapValue_ok [OF demo_wrapValue demo_world_ok demo_handles_ok])

lemma demo_value_world_sel:
  "wrappers demo_value_world = [2 \<mapsto> \<lparr>val_id = 1, val_ctx = 1, val_iso = 100, val_ptr = 2\<rparr>]"
  "contexts demo_value_world = [1 \<mapsto> demo_ctx\<lparr>ctx_next_value_id := 1, ctx_values := [(1, 2)]\<rparr>]"
  "globals demo_value_world = (2, [(2, 2), (1, 1)])"
  "engine demo_value_world = [DContext, DString ''hi'']"
  "embedder demo_value_world = embedder demo_world"
  "isolates demo_value_world = isolates demo_world"
  "next_addr demo_value_world = 2"
  unfolding demo_value_world_def demo_wrapValue_eq by simp_all

section \<open>Properties\<close>

text \<open>Wrapping an object in a live context succeeds as long as the id counter has not reached the
  end of a \<open>long\<close>: it makes one new wrapper, registered under an id the context has never used and
  one above the last, whose handle reads back the object, and touches no other wrapper, no other
  registry entry and no other storage cell.\<close>

lemma wrapValue_registers:
  assumes ok: "world_ok (handles V) w" and H: "handles_ok (handles V)"
    and c: "contexts w c = Some x" and room: "ctx_next_value_id x < LONG_MAX"
  shows "\<exists>a w' y x'. wrapValue V c isolate (Some ob) w = Some (a, w') \<and> world_ok (handles V) w' \<and>
    wrappers w a = None \<and> wrappers w' = (wrappers w)(a \<mapsto> y) \<and>
    val_id y = ctx_next_value_id x + 1 \<and> val_ctx y = c \<and> get_obj V (val_ptr y) w' = Some ob \<and>
    contexts w' = (contexts w)(c \<mapsto> x') \<and> ctx_next_value_id x' = ctx_next_value_id x + 1 \<and>
    map_of (ctx_values x) (val_id y) = None \<and>
    map_of (ctx_values x') = (map_of (ctx_values x))(val_id y \<mapsto> a) \<and>
    (\<forall>s. s \<noteq> val_ptr y \<longrightarrow>
       cell (handles V) (globals w') s = cell (handles V) (globals w) s)"
  by (rule wrapValue_new [OF assms])

text \<open>Releasing a live value always succeeds; it frees that wrapper and its storage cell and
  nothing else, takes the value out of the one registry that can name it, and leaves a well formed
  world.\<close>

lemma GV8ValueRelease_exact:
  assumes ok: "world_ok (handles V) w" and H: "handles_ok (handles V)"
    and y: "wrappers w v = Some y"
  shows "\<exists>w'. GV8ValueRelease V v w = Some w' \<and> world_ok (handles V) w' \<and>
    wrappers w' = (wrappers w)(v := None) \<and>
    live_cells (handles V) (globals w') = live_cells (handles V) (globals w) - {val_ptr y} \<and>
    dom (contexts w') = dom (contexts w) \<and>
    (\<forall>c x x'. contexts w c = Some x \<longrightarrow> contexts w' c = Some x' \<longrightarrow>
       map_of (ctx_values x') =
         (\<lambda>i. if map_of (ctx_values x) i = Some v then None else map_of (ctx_values x) i))"
proof -
  obtain w' where w': "GV8ValueRelease V v w = Some w'" "wrappers w' = (wrappers w)(v := None)"
    "cell (handles V) (globals w') = (cell (handles V) (globals w))(val_ptr y := None)"
    "contexts w' = (if val_id y = 0 then contexts w else (contexts w)(val_ctx y :=
       map_option (\<lambda>x. x\<lparr>ctx_values := AList.delete (val_id y) (ctx_values x)\<rparr>)
         (contexts w (val_ctx y))))"
    by (rule GV8ValueRelease_live [OF ok H y]) (rule that; assumption)
  from ok have reg: "registry_ok w" by (simp add: world_ok_def)
  have "map_of (ctx_values x') i =
      (if map_of (ctx_values x) i = Some v then None else map_of (ctx_values x) i)"
    if x: "contexts w c = Some x" and x': "contexts w' c = Some x'" for c x x' i
  proof (cases "map_of (ctx_values x) i = Some v")
    case True
    note live = registry_live_id(1-3) [OF reg x True y]
    with x x' show ?thesis by (auto simp: w'(4) True map_of_delete_key)
  next
    case False
    then have other: "i \<noteq> val_id y" if "c = val_ctx y" "val_id y \<noteq> 0"
      using registry_ok_val(2) [OF reg y that(2)] that x by auto
    have "x' = x \<or> (c = val_ctx y \<and> val_id y \<noteq> 0 \<and>
        x' = x\<lparr>ctx_values := AList.delete (val_id y) (ctx_values x)\<rparr>)"
      using x x' by (auto simp: w'(4) split: if_splits)
    with other False show ?thesis by (auto simp: map_of_delete_key)
  qed
  moreover have "dom (contexts w') = dom (contexts w)"
  proof (cases "val_id y = 0")
    case False
    from registry_ok_val(2) [OF reg y this] obtain x where "contexts w (val_ctx y) = Some x" by blast
    with False show ?thesis by (auto simp: w'(4))
  qed (simp add: w'(4))
  ultimately show ?thesis
    using w'(1,2) GV8ValueRelease_ok [OF w'(1) ok H]
    by (intro exI [of _ w'] conjI allI impI) (auto simp: live_cells_def w'(3) fun_eq_iff)
qed

text \<open>A handle can be released once: after a successful release of a non-null value, releasing the
  same pointer again has no defined behaviour.\<close>

lemma GV8ValueRelease_twice:
  assumes "v \<noteq> nullptr" "GV8ValueRelease V v w = Some w'"
  shows "GV8ValueRelease V v w' = None"
  using assms(2,1)
  by (cases rule: GV8ValueRelease_cases) (simp_all add: GV8ValueRelease_def)

text \<open>C4: a retained handle is independent of the one it came from: it is a different wrapper with a
  different storage cell, and after the original has been released it still reads the same
  object.\<close>

theorem GV8ValueRetain_outlives:
  assumes ok: "world_ok (handles V) w" and H: "handles_ok (handles V)"
    and y: "wrappers w v = Some y" and ob: "get_obj V (val_ptr y) w = Some ob"
    and c: "contexts w (val_ctx y) = Some x" "ctx_ptr x \<noteq> nullptr"
    and room: "ctx_next_value_id x < LONG_MAX" and i: "iso_scope (val_iso y) w = Some d"
  shows "\<exists>a w1 w2 z. GV8ValueRetain V v w = Some (a, w1) \<and> a \<noteq> v \<and>
    GV8ValueRelease V v w1 = Some w2 \<and> wrappers w2 a = Some z \<and> val_ptr z \<noteq> val_ptr y \<and>
    get_obj V (val_ptr z) w2 = Some ob"
proof -
  have v: "v \<noteq> 0" using y ok by (metis world_ok_null(1) option.distinct(1))
  obtain a w1 z x' where w1: "wrapValue V (val_ctx y) (val_iso y) (Some ob) w = Some (a, w1)"
    "wrappers w a = None" "wrappers w1 = (wrappers w)(a \<mapsto> z)" "get_obj V (val_ptr z) w1 = Some ob"
    and ok1: "world_ok (handles V) w1"
    using wrapValue_new [OF ok H c(1) room, of "val_iso y" ob] by (elim exE conjE) (rule that; assumption)
  obtain lc where lc: "get_obj V (ctx_ptr x) w = Some lc"
    using live_context_cell [OF ok c(1)] c(2) by (auto simp: get_obj_Some)
  from ob have "get_local V (val_ptr y) w = Some (Some ob)"
    by (auto simp: get_obj_Some get_local_Some)
  then have ret: "GV8ValueRetain V v w = Some (a, w1)"
    using w1(1) lc c(1) y v i by (simp add: GV8ValueRetain_def value_scope_def)
  from y w1(2) have av: "a \<noteq> v" by auto
  with y w1(3) have y1: "wrappers w1 v = Some y" by simp
  obtain w2 where w2: "GV8ValueRelease V v w1 = Some w2" "wrappers w2 = (wrappers w1)(v := None)"
    "cell (handles V) (globals w2) = (cell (handles V) (globals w1))(val_ptr y := None)"
    by (rule GV8ValueRelease_live [OF ok1 H y1]) (rule that; assumption)
  have "slot_of w1 (OwnValue v) = val_ptr y" "slot_of w1 (OwnValue a) = val_ptr z"
    using w1(3) y1 by simp_all
  moreover have "val_ptr y \<noteq> 0" using world_ok_val_ptr [OF ok y] by simp
  ultimately have "val_ptr z \<noteq> val_ptr y"
    using ok1 av unfolding world_ok_def slots_ok_def by (metis owner.inject(2))
  then show ?thesis
    using ret av w2 w1(3,4) by (fastforce simp: get_obj_Some)
qed

theorem GV8ValueRetain_outlives_witness:
  "\<exists>a w1 w2 z. GV8ValueRetain demo_v8 2 demo_value_world = Some (a, w1) \<and>
    GV8ValueRelease demo_v8 2 w1 = Some w2 \<and> wrappers w2 a = Some z \<and>
    get_obj demo_v8 (val_ptr z) w2 = Some 2"
proof -
  let ?y = "\<lparr>val_id = 1, val_ctx = 1, val_iso = 100, val_ptr = 2\<rparr>"
  have "wrappers demo_value_world 2 = Some ?y"
    "get_obj demo_v8 (val_ptr ?y) demo_value_world = Some 2"
    "contexts demo_value_world (val_ctx ?y) =
       Some (demo_ctx\<lparr>ctx_next_value_id := 1, ctx_values := [(1, 2)]\<rparr>)"
    "ctx_ptr (demo_ctx\<lparr>ctx_next_value_id := 1, ctx_values := [(1, 2)]\<rparr>) \<noteq> nullptr"
    "ctx_next_value_id (demo_ctx\<lparr>ctx_next_value_id := 1, ctx_values := [(1, 2)]\<rparr>) < LONG_MAX"
    "iso_scope (val_iso ?y) demo_value_world = Some demo_iso"
    by (simp_all add: demo_value_world_sel get_obj_Some LONG_MAX_def iso_scope_def)
  from GV8ValueRetain_outlives [OF demo_value_world_ok demo_handles_ok this]
  show ?thesis by (elim exE conjE, intro exI conjI) simp_all
qed

end
