(* ===== verification/Gv8_Text.thy ===== *)
theory Gv8_Text
  imports Gv8_Values
begin

text \<open>
  Strings and errors: the \<open>CopyString\<close> overloads, the error structs built from a caught exception
  (\<open>ExceptionError\<close>) and from a rejected promise (\<open>ErrorFromMessage\<close>), \<open>NewError\<close>, \<open>MakeOrigin\<close>,
  the library directory and \<open>SnapshotDataIsValid\<close>.
\<close>

section \<open>Decimal output\<close>

definition digit :: "nat \<Rightarrow> char" where
  "digit n = char_of (48 + n)"

fun dec_nat :: "nat \<Rightarrow> string" where
  "dec_nat n = (if n < 10 then [digit n] else dec_nat (n div 10) @ [digit (n mod 10)])"

declare dec_nat.simps [simp del]

text \<open>\<open>ostream << int\<close>.\<close>

definition dec_int :: "int \<Rightarrow> string" where
  "dec_int n = (if n < 0 then CHR ''-'' # dec_nat (nat (- n)) else dec_nat (nat n))"

lemma dec_nat_no_colon: "CHR '':'' \<notin> set (dec_nat n)"
proof (induction n rule: dec_nat.induct)
  case (1 n)
  have "digit k \<noteq> CHR '':''" if "k < 10" for k
  proof
    assume "digit k = CHR '':''"
    then have "of_char (char_of (48 + k) :: char) = (of_char (CHR '':'') :: nat)" by (simp add: digit_def)
    with that show False by simp
  qed
  then show ?case
    using 1 by (subst dec_nat.simps) (auto simp: eq_commute [of "CHR '':''"])
qed

lemma dec_int_no_colon: "CHR '':'' \<notin> set (dec_int n)"
  by (simp add: dec_int_def dec_nat_no_colon)

section \<open>Strings\<close>

text \<open>\<open>CopyString(const std::string&)\<close> always returns a buffer; \<open>CopyString(Utf8Value&)\<close> returns null
  for an empty conversion.\<close>

definition CopyString :: "string \<Rightarrow> string option" where
  "CopyString str = Some str"

definition CopyString_utf8 :: "string option \<Rightarrow> string option" where
  "CopyString_utf8 value =
     (case value of None \<Rightarrow> None | Some s \<Rightarrow> if length s = 0 then None else CopyString s)"

definition EmptyError :: GV8RtnError where
  "EmptyError = \<lparr>err_msg = None, err_location = None, err_stack = None\<rparr>"

definition EmptyValueResult :: GV8RtnValue where
  "EmptyValueResult = \<lparr>rv_value = nullptr, rv_error = EmptyError\<rparr>"

text \<open>\<open>String::NewFromUtf8(...).ToLocalChecked()\<close> on a NUL-terminated string.\<close>

definition new_string_checked ::
    "('e, 'g) v8 \<Rightarrow> string \<Rightarrow> ('e, 'g) world \<Rightarrow> (obj \<times> ('e, 'g) world) option" where
  "new_string_checked V s w =
     (case engine_step (NewFromUtf8 V (c_str s)) w of
        (None, w1) \<Rightarrow> None
      | (Some x, w1) \<Rightarrow> Some (x, w1))"

text \<open>The message is passed on as \<open>msg.c_str()\<close>, so it ends at its first NUL.\<close>

definition NewError ::
    "('e, 'g) v8 \<Rightarrow> string \<Rightarrow> ('e, 'g) world \<Rightarrow> (obj \<times> ('e, 'g) world) option" where
  "NewError V msg w =
     do { (t, w1) \<leftarrow> new_string_checked V msg w; Some (engine_step (Exception_Error V t) w1) }"

definition MakeOrigin ::
    "('e, 'g) v8 \<Rightarrow> string \<Rightarrow> int \<Rightarrow> int \<Rightarrow> bool \<Rightarrow> ('e, 'g) world \<Rightarrow>
       (script_origin \<times> ('e, 'g) world) option" where
  "MakeOrigin V resource line_offset column_offset is_module w =
     do { (name, w1) \<leftarrow> new_string_checked V resource w;
          Some (ScriptOrigin_new (Some name) line_offset column_offset False (- 1) None
                  False False is_module None, w1) }"

section \<open>Errors\<close>

text \<open>\<open>sb << *origin << ":" << line << ":" << (col + 1)\<close>: streaming a null \<open>char*\<close> is undefined, and so
  is the overflow of \<open>col + 1\<close>.\<close>

definition format_location ::
    "string option \<Rightarrow> int Maybe \<Rightarrow> int Maybe \<Rightarrow> string option" where
  "format_location origin line col =
     do { o1 \<leftarrow> origin;
          c \<leftarrow> (case col of Nothing \<Rightarrow> Some []
                | Just n \<Rightarrow> do { k \<leftarrow> add_int n 1; Some (CHR '':'' # dec_int k) });
          Some (c_str o1 @ (case line of Nothing \<Rightarrow> [] | Just n \<Rightarrow> CHR '':'' # dec_int n) @ c) }"

definition message_location ::
    "('e, 'g) v8 \<Rightarrow> ('e, 'g) dispatcher \<Rightarrow> message \<Rightarrow> ('e, 'g) world \<Rightarrow>
       (string option \<times> ('e, 'g) world) option" where
  "message_location V h m w =
     do { (origin, w1) \<leftarrow> run h (Utf8Value V (msg_origin m)) w;
          loc \<leftarrow> format_location origin (msg_line m) (msg_start_column m);
          Some (CopyString loc, w1) }"

definition ExceptionError ::
    "('e, 'g) v8 \<Rightarrow> ('e, 'g) dispatcher \<Rightarrow> caught \<Rightarrow> ('e, 'g) world \<Rightarrow>
       (GV8RtnError \<times> ('e, 'g) world) option" where
  "ExceptionError V h try_catch w =
     do { (exn, w1) \<leftarrow> run h (Utf8Value V (tc_exception try_catch)) w;
          (loc, w2) \<leftarrow> (case tc_message try_catch of
               None \<Rightarrow> Some (None, w1)
             | Some m \<Rightarrow> message_location V h m w1);
          (stk, w3) \<leftarrow> (case tc_stack try_catch of
               None \<Rightarrow> Some (None, w2)
             | Some st \<Rightarrow> do { (s, w3) \<leftarrow> run h (Utf8Value V (Some st)) w2; Some (CopyString_utf8 s, w3) });
          Some (\<lparr>err_msg = CopyString_utf8 exn, err_location = loc, err_stack = stk\<rparr>, w3) }"

text \<open>The part of \<open>ErrorFromMessage\<close> that reads the rejection value: its text and, for an object,
  its \<open>stack\<close> property.\<close>

definition value_error ::
    "('e, 'g) v8 \<Rightarrow> ('e, 'g) dispatcher \<Rightarrow> obj \<Rightarrow> obj \<Rightarrow> ('e, 'g) world \<Rightarrow>
       (GV8RtnError \<times> ('e, 'g) world) option" where
  "value_error V h ctx value w =
     do { (exn, w1) \<leftarrow> run h (Utf8Value V (Some value)) w;
          let r = EmptyError\<lparr>err_msg := CopyString_utf8 exn\<rparr>;
          if value_is V KObject value (engine w1) then
            do { (key, w2) \<leftarrow> new_string_checked V ''stack'' w1;
                 (got, w3) \<leftarrow> run h (Object_Get V ctx value key) w2;
                 case got of
                   Exn _ \<Rightarrow> Some (r, w3)
                 | Ok st \<Rightarrow>
                     do { (s, w4) \<leftarrow> run h (Utf8Value V (Some st)) w3;
                          Some (r\<lparr>err_stack := CopyString_utf8 s\<rparr>, w4) } }
          else Some (r, w1) }"

definition ErrorFromMessage ::
    "('e, 'g) v8 \<Rightarrow> ('e, 'g) dispatcher \<Rightarrow> obj \<Rightarrow> message option \<Rightarrow> obj option \<Rightarrow> ('e, 'g) world \<Rightarrow>
       (GV8RtnError \<times> ('e, 'g) world) option" where
  "ErrorFromMessage V h ctx msg value w =
     do { (r, w1) \<leftarrow> (case value of
               None \<Rightarrow> Some (EmptyError, w)
             | Some v \<Rightarrow> value_error V h ctx v w);
          case msg of
            None \<Rightarrow> Some (r, w1)
          | Some m \<Rightarrow>
              do { (loc, w2) \<leftarrow> message_location V h m w1;
                   let r1 = r\<lparr>err_location := loc\<rparr>;
                   if err_msg r1 = None then
                     do { (t, w3) \<leftarrow> run h (Utf8Value V (msg_text m)) w2;
                          Some (r1\<lparr>err_msg := CopyString_utf8 t\<rparr>, w3) }
                   else Some (r1, w2) } }"

section \<open>Start-up\<close>

text \<open>The directory of the shared library; \<open>None\<close> is a failed \<open>dladdr\<close> or a null file name.\<close>

fun rfind :: "char \<Rightarrow> string \<Rightarrow> nat option" where
  "rfind c [] = None"
| "rfind c (x # xs) =
     (case rfind c xs of Some i \<Rightarrow> Some (Suc i) | None \<Rightarrow> if x = c then Some 0 else None)"

definition SharedLibraryDir :: "string option \<Rightarrow> string" where
  "SharedLibraryDir dli_fname =
     (case dli_fname of
        None \<Rightarrow> ''.''
      | Some path \<Rightarrow> (case rfind (CHR ''/'') path of None \<Rightarrow> ''.'' | Some slash \<Rightarrow> take slash path))"

datatype init_call = InitializeICU string | InitializePlatform | InitializeV8 | NewDefaultAllocator

definition GV8Init :: "string option \<Rightarrow> init_call list" where
  "GV8Init dli_fname =
     [InitializeICU (SharedLibraryDir dli_fname @ ''/icudtl.dat''), InitializePlatform,
      InitializeV8, NewDefaultAllocator]"

section \<open>Snapshot data\<close>

text \<open>\<open>memcpy\<close> of four bytes into a \<open>uint32_t\<close> on the little-endian targets of the build.\<close>

definition le_u32 :: "byte list \<Rightarrow> u32" where
  "le_u32 bs = of_nat (horner_sum unat 256 (take 4 bs))"

text \<open>The buffer is the memory \<open>data\<close> points to; a \<open>length\<close> beyond it is read out of bounds.\<close>

definition SnapshotDataIsValid ::
    "('e, 'g) v8 \<Rightarrow> byte list option \<Rightarrow> int \<Rightarrow> ('e, 'g) world \<Rightarrow> bool option" where
  "SnapshotDataIsValid V data len w =
     (case data of
        None \<Rightarrow> Some False
      | Some bs \<Rightarrow>
          (if len < 8 then Some False
           else if int (length bs) < len then None
           else let rehashability = le_u32 (drop 4 bs) in
             if rehashability \<noteq> 0 \<and> rehashability \<noteq> 1 then Some False
             else Some (StartupData_IsValid V (take (nat len) bs) (engine w))))"

section \<open>The invariant\<close>

text \<open>A dispatcher that keeps the invariant: what the callbacks of the host must do.\<close>

definition dispatcher_ok :: "('e, 'g) v8 \<Rightarrow> ('e, 'g) dispatcher \<Rightarrow> bool" where
  "dispatcher_ok V h \<longleftrightarrow>
     (\<forall>rq v rp v'. world_ok (handles V) v \<longrightarrow> h rq v = Some (rp, v') \<longrightarrow> world_ok (handles V) v')"

lemma run_ok [ok_rules]:
  assumes "run h f w = Some (a, w')" "world_ok (handles V) w" "dispatcher_ok V h"
  shows "world_ok (handles V) w'"
  using assms(2,1) unfolding run_def
  by (rule exec_tree_invariant [where P = "world_ok (handles V)" and h = h, rotated 2])
    (use assms(3) in \<open>auto simp: dispatcher_ok_def\<close>)

lemma new_string_checked_ok [ok_rules]:
  "new_string_checked V s w = Some (x, w') \<Longrightarrow> world_ok (handles V) w \<Longrightarrow> world_ok (handles V) w'"
  by (auto simp: new_string_checked_def intro: ok_rules split: prod.splits option.splits)

lemma NewError_ok [ok_rules]:
  "NewError V s w = Some (x, w') \<Longrightarrow> world_ok (handles V) w \<Longrightarrow> world_ok (handles V) w'"
  by (auto simp: NewError_def intro: ok_rules)

lemma MakeOrigin_ok [ok_rules]:
  "MakeOrigin V s l c m w = Some (x, w') \<Longrightarrow> world_ok (handles V) w \<Longrightarrow> world_ok (handles V) w'"
  by (auto simp: MakeOrigin_def intro: ok_rules)

lemma message_location_ok [ok_rules]:
  "message_location V h m w = Some (x, w') \<Longrightarrow> world_ok (handles V) w \<Longrightarrow> dispatcher_ok V h \<Longrightarrow>
     world_ok (handles V) w'"
  by (auto simp: message_location_def intro: ok_rules)

lemma ExceptionError_ok [ok_rules]:
  "ExceptionError V h t w = Some (r, w') \<Longrightarrow> world_ok (handles V) w \<Longrightarrow> dispatcher_ok V h \<Longrightarrow>
     world_ok (handles V) w'"
  by (auto simp: ExceptionError_def run_simps) (assumption | rule ok_rules, assumption)+

lemma value_error_ok [ok_rules]:
  "value_error V h c v w = Some (r, w') \<Longrightarrow> world_ok (handles V) w \<Longrightarrow> dispatcher_ok V h \<Longrightarrow>
     world_ok (handles V) w'"
  by (auto simp: value_error_def run_simps) (assumption | rule ok_rules, assumption)+

lemma ErrorFromMessage_ok [ok_rules]:
  "ErrorFromMessage V h c m v w = Some (r, w') \<Longrightarrow> world_ok (handles V) w \<Longrightarrow> dispatcher_ok V h \<Longrightarrow>
     world_ok (handles V) w'"
  by (auto simp: ErrorFromMessage_def run_simps) (assumption | rule ok_rules, assumption)+

section \<open>Decimal output is injective\<close>

lemma digit_inj: "i < 10 \<Longrightarrow> j < 10 \<Longrightarrow> digit i = digit j \<Longrightarrow> i = j"
proof -
  assume "i < 10" "j < 10" "digit i = digit j"
  then have "(of_char (char_of (48 + i) :: char) :: nat) = of_char (char_of (48 + j) :: char)"
    by (simp add: digit_def)
  with \<open>i < 10\<close> \<open>j < 10\<close> show ?thesis by simp
qed

lemma dec_nat_nonempty [simp]: "dec_nat n \<noteq> []"
  by (subst dec_nat.simps) simp

lemma dec_nat_inj: "dec_nat m = dec_nat n \<Longrightarrow> m = n"
proof (induction m arbitrary: n rule: dec_nat.induct)
  case (1 m)
  note eq = "1.prems"
  show ?case
  proof (cases "m < 10"; cases "n < 10")
    assume "m < 10" "n < 10"
    with eq show ?thesis by (simp add: dec_nat.simps [of m] dec_nat.simps [of n] digit_inj)
  next
    assume a: "\<not> m < 10" "\<not> n < 10"
    with eq have "dec_nat (m div 10) = dec_nat (n div 10)" "digit (m mod 10) = digit (n mod 10)"
      by (simp_all add: dec_nat.simps [of m] dec_nat.simps [of n])
    then have "m div 10 = n div 10" "m mod 10 = n mod 10"
      using "1.IH" a(1) by (auto intro: digit_inj)
    then show ?thesis by (metis div_mult_mod_eq)
  qed (use eq in \<open>simp_all add: dec_nat.simps [of m] dec_nat.simps [of n]
      append_eq_Cons_conv Cons_eq_append_conv\<close>)
qed

lemma dec_nat_no_minus: "CHR ''-'' \<notin> set (dec_nat n)"
proof (induction n rule: dec_nat.induct)
  case (1 n)
  have "digit k \<noteq> CHR ''-''" if "k < 10" for k
  proof
    assume "digit k = CHR ''-''"
    then have "of_char (char_of (48 + k) :: char) = (of_char (CHR ''-'') :: nat)" by (simp add: digit_def)
    with that show False by simp
  qed
  then show ?case
    using 1 by (subst dec_nat.simps) (auto simp: eq_commute [of "CHR ''-''"])
qed

lemma dec_int_inj: "dec_int m = dec_int n \<Longrightarrow> m = n"
proof -
  assume eq: "dec_int m = dec_int n"
  have no: "CHR ''-'' # u \<noteq> dec_nat k" for u k
    using dec_nat_no_minus [of k] by (metis list.set_intros(1))
  show ?thesis
  proof (cases "m < 0"; cases "n < 0")
    assume "m < 0" "n < 0"
    with eq have "nat (- m) = nat (- n)" by (simp add: dec_int_def dec_nat_inj)
    with \<open>m < 0\<close> \<open>n < 0\<close> show ?thesis by simp
  next
    assume "\<not> m < 0" "\<not> n < 0"
    with eq have "nat m = nat n" by (simp add: dec_int_def dec_nat_inj)
    with \<open>\<not> m < 0\<close> \<open>\<not> n < 0\<close> show ?thesis by simp
  next
    assume "m < 0" "\<not> n < 0"
    with eq no [of "dec_nat (nat (- m))" "nat n"] show ?thesis by (simp add: dec_int_def)
  next
    assume "\<not> m < 0" "n < 0"
    with eq no [of "dec_nat (nat (- n))" "nat m"] show ?thesis by (simp add: dec_int_def)
  qed
qed

text \<open>The part after the last separator is determined.\<close>

lemma append_sep_inj:
  assumes "a @ c # x = b @ c # y" "c \<notin> set x" "c \<notin> set y"
  shows "a = b \<and> x = y"
proof -
  from assms(1) have "rev x @ c # rev a = rev y @ c # rev b"
    by (metis append.assoc append_Cons append_Nil rev.simps(2) rev_append)
  moreover have "takeWhile (\<lambda>d. d \<noteq> c) (rev z @ c # u) = rev z" if "c \<notin> set z" for z u
    using that by (subst takeWhile_append2) auto
  ultimately have "rev x = rev y" using assms(2,3) by metis
  with assms(1) show ?thesis by simp
qed

section \<open>Facts about the text operations\<close>

lemma rfind_None: "rfind c xs = None \<longleftrightarrow> c \<notin> set xs"
  by (induction xs) (auto split: option.splits)

lemma rfind_Some:
  "rfind c xs = Some i \<Longrightarrow> i < length xs \<and> xs ! i = c \<and> c \<notin> set (drop (Suc i) xs)"
proof (induction xs arbitrary: i)
  case (Cons x xs)
  show ?case
  proof (cases "rfind c xs")
    case None
    with Cons.prems have "x = c" "i = 0" by (simp_all split: if_splits)
    with None show ?thesis by (simp add: rfind_None)
  next
    case (Some j)
    with Cons.prems have "i = Suc j" by simp
    with Cons.IH [OF Some] show ?thesis by simp
  qed
qed simp

lemma format_location_eq:
  "format_location (Some o1) (Just l) (Just c) =
     (if INT_MIN \<le> c + 1 \<and> c + 1 \<le> INT_MAX
      then Some ((c_str o1 @ CHR '':'' # dec_int l) @ CHR '':'' # dec_int (c + 1)) else None)"
  by (simp add: format_location_def add_int_def)

text \<open>The four bytes are the base 256 digits of the word.\<close>

lemma le_u32_digits:
  assumes "length bs = 4 + n"
  obtains a b c d where "take 4 bs = [a, b, c, d]"
    "unat (le_u32 bs) = unat a + 256 * unat b + 65536 * unat c + 16777216 * unat d"
proof -
  from assms obtain a b c d r where bs: "bs = a # b # c # d # r"
    by (auto simp: length_Suc_conv numeral_eq_Suc)
  have "unat x < 256" for x :: byte
    using unsigned_less [of x] by simp
  from this [of a] this [of b] this [of c] this [of d]
  have "unat a + 256 * unat b + 65536 * unat c + 16777216 * unat d < 2 ^ 32" by simp
  moreover have "horner_sum unat 256 (take 4 bs) =
      unat a + 256 * unat b + 65536 * unat c + 16777216 * unat d"
    by (simp add: bs)
  ultimately have "unat (le_u32 bs) = unat a + 256 * unat b + 65536 * unat c + 16777216 * unat d"
    unfolding le_u32_def by (simp only: unat_of_nat) simp
  then show thesis
    by (intro that [of a b c d]) (simp_all add: bs)
qed

lemma digits_eq_1:
  fixes a b c d :: nat
  shows "a + 256 * b + 65536 * c + 16777216 * d = 1 \<longleftrightarrow> a = 1 \<and> b = 0 \<and> c = 0 \<and> d = 0"
  by (cases "b = 0"; cases "c = 0"; cases "d = 0") linarith+

lemma unat_is_1: "unat (x :: 'a :: len word) = 1 \<longleftrightarrow> x = 1"
proof
  assume "unat x = 1"
  then show "x = 1" by (metis unsigned_1 unsigned_word_eqI)
qed simp

lemma le_u32_small:
  assumes "length bs = 4 + n" "k = 0 \<or> k = 1"
  shows "le_u32 bs = k \<longleftrightarrow> take 4 bs = [ucast k, 0, 0, 0]"
proof -
  obtain a b c d where t: "take 4 bs = [a, b, c, d]"
    "unat (le_u32 bs) = unat a + 256 * unat b + 65536 * unat c + 16777216 * unat d"
    by (rule le_u32_digits [OF assms(1)]) (rule that; assumption)
  from assms(2) show ?thesis
  proof
    assume k: "k = 0"
    have "le_u32 bs = 0 \<longleftrightarrow> unat (le_u32 bs) = 0" by (simp add: unat_eq_zero)
    also have "\<dots> \<longleftrightarrow> take 4 bs = [0, 0, 0, 0]" by (auto simp: t unat_eq_zero)
    finally show ?thesis by (simp add: k)
  next
    assume k: "k = 1"
    have "le_u32 bs = 1 \<longleftrightarrow> unat (le_u32 bs) = 1" by (simp only: unat_is_1)
    also have "\<dots> \<longleftrightarrow> unat a = 1 \<and> unat b = 0 \<and> unat c = 0 \<and> unat d = 0"
      unfolding t(2) by (rule digits_eq_1)
    also have "\<dots> \<longleftrightarrow> take 4 bs = [1, 0, 0, 0]" unfolding t(1) unat_is_1 by (simp add: unat_eq_zero)
    finally show ?thesis by (simp add: k)
  qed
qed

lemma SharedLibraryDir_slash:
  assumes "rfind (CHR ''/'') path = Some i"
  shows "path = SharedLibraryDir (Some path) @ CHR ''/'' # drop (Suc i) path"
  using rfind_Some [OF assms] id_take_nth_drop [of i path]
  by (simp add: SharedLibraryDir_def assms)

section \<open>Properties\<close>



text \<open>The location text \<open>origin:line:column\<close> can be parsed back: two positions with the same text
  have the same line, the same column and the same script name (as a C string), even if the name
  itself contains colons.\<close>

lemma format_location_injective:
  assumes "format_location (Some o1) (Just l1) (Just c1) = Some s"
    and "format_location (Some o2) (Just l2) (Just c2) = Some s"
  shows "c_str o1 = c_str o2 \<and> l1 = l2 \<and> c1 = c2"
proof -
  from assms have eq: "(c_str o1 @ CHR '':'' # dec_int l1) @ CHR '':'' # dec_int (c1 + 1) =
      (c_str o2 @ CHR '':'' # dec_int l2) @ CHR '':'' # dec_int (c2 + 1)"
    by (simp add: format_location_eq split: if_splits)
  from append_sep_inj [OF eq dec_int_no_colon dec_int_no_colon]
  have "c1 + 1 = c2 + 1" and eq': "c_str o1 @ CHR '':'' # dec_int l1 = c_str o2 @ CHR '':'' # dec_int l2"
    by (auto dest: dec_int_inj)
  from append_sep_inj [OF eq' dec_int_no_colon dec_int_no_colon]
  have "l1 = l2" "c_str o1 = c_str o2" by (auto dest: dec_int_inj)
  with \<open>c1 + 1 = c2 + 1\<close> show ?thesis by simp
qed

text \<open>The directory searched for \<open>icudtl.dat\<close> is the path of the library up to its last slash,
  and the current directory when the path has none.\<close>

lemma SharedLibraryDir_spec:
  "if CHR ''/'' \<in> set path
   then \<exists>file. path = SharedLibraryDir (Some path) @ CHR ''/'' # file \<and> CHR ''/'' \<notin> set file
   else SharedLibraryDir (Some path) = ''.''"
proof (cases "rfind (CHR ''/'') path")
  case None
  then have "CHR ''/'' \<notin> set path" by (simp add: rfind_None)
  with None show ?thesis by (simp add: SharedLibraryDir_def)
next
  case (Some i)
  then have "CHR ''/'' \<in> set path" by (metis rfind_None option.distinct(1))
  then show ?thesis using SharedLibraryDir_slash [OF Some] rfind_Some [OF Some] by auto
qed

end
