(* ===== verification/Gv8_Callbacks.thy ===== *)
theory Gv8_Callbacks
  imports Gv8_Text
begin

text \<open>
  The four callbacks gv8 installs in V8: \<open>ResolveModuleCallback\<close>, \<open>DynamicImportCallback\<close>,
  \<open>HostFunctionCallback\<close> and \<open>OnPromiseReject\<close>. Each finds its context in embedder slot 2 of the
  current context (\<open>OnPromiseReject\<close>: the observer in isolate slot 1), hands the host borrowed handles,
  and turns the host's answer into V8's reply. The host (the exported Go functions \<open>gv8...Callback\<close>)
  is a parameter: a transformer of the world, since it may call every operation of gv8.
\<close>

section \<open>The host\<close>

record ('e, 'g) host =
  host_function :: "int \<Rightarrow> int \<Rightarrow> addr \<Rightarrow> addr list \<Rightarrow> ('e, 'g) world \<Rightarrow>
    (GV8CallbackResult \<times> ('e, 'g) world) option"
  host_resolve :: "int \<Rightarrow> string option \<Rightarrow> addr \<Rightarrow> ('e, 'g) world \<Rightarrow>
    (GV8ResolvedModule \<times> ('e, 'g) world) option"
  host_dynamic :: "int \<Rightarrow> string option \<Rightarrow> string option \<Rightarrow> ('e, 'g) world \<Rightarrow>
    (GV8DynamicImportResult \<times> ('e, 'g) world) option"
  host_reject :: "int \<Rightarrow> int \<Rightarrow> GV8RtnError \<Rightarrow> ('e, 'g) world \<Rightarrow> ('e, 'g) world option"

text \<open>The contract of the host: it keeps the invariant, as every exported operation does.\<close>

definition host_ok :: "('e, 'g) v8 \<Rightarrow> ('e, 'g) host \<Rightarrow> bool" where
  "host_ok V G \<longleftrightarrow>
     (\<forall>r i a as w x w'. host_function G r i a as w = Some (x, w') \<longrightarrow> world_ok (handles V) w \<longrightarrow>
        world_ok (handles V) w') \<and>
     (\<forall>r s a w x w'. host_resolve G r s a w = Some (x, w') \<longrightarrow> world_ok (handles V) w \<longrightarrow>
        world_ok (handles V) w') \<and>
     (\<forall>r s t w x w'. host_dynamic G r s t w = Some (x, w') \<longrightarrow> world_ok (handles V) w \<longrightarrow>
        world_ok (handles V) w') \<and>
     (\<forall>r i e w w'. host_reject G r i e w = Some w' \<longrightarrow> world_ok (handles V) w \<longrightarrow>
        world_ok (handles V) w')"

section \<open>The callbacks\<close>

text \<open>\<open>External::Cast(context->GetEmbedderDataV2(2))->Value(tag)\<close>.\<close>

definition callback_ctx :: "obj \<Rightarrow> ('e, 'g) world \<Rightarrow> addr option" where
  "callback_ctx context w = (case embedder w context 2 of Some (EExternal a) \<Rightarrow> Some a | _ \<Rightarrow> None)"

text \<open>\<open>value->ptr.Get(iso)\<close> of a value the host returned.\<close>

definition value_local :: "('e, 'g) v8 \<Rightarrow> addr \<Rightarrow> ('e, 'g) world \<Rightarrow> obj option option" where
  "value_local V value w = do { y \<leftarrow> wrappers w value; get_local V (val_ptr y) w }"

text \<open>\<open>gv8_module ref\<close> lives on the stack of \<open>ResolveModuleCallback\<close>; at the end of its scope the
  \<open>Persistent\<close> in it is destroyed, which by its traits does not reset it.\<close>

definition enter_ref ::
    "('e, 'g) v8 \<Rightarrow> addr \<Rightarrow> obj \<Rightarrow> ('e, 'g) world \<Rightarrow> addr \<times> ('e, 'g) world" where
  "enter_ref V isolate referrer w =
     (let (ref, w1) = new_addr w;
          (s, w2) = reset_to V nullptr (Some referrer) w1
      in (ref, put_module ref (Some \<lparr>mod_iso = isolate, mod_ptr = s\<rparr>) w2))"

definition leave_ref :: "('e, 'g) v8 \<Rightarrow> addr \<Rightarrow> ('e, 'g) world \<Rightarrow> ('e, 'g) world option" where
  "leave_ref V ref w =
     do { m \<leftarrow> modules w ref;
          Some (put_module ref None (w\<lparr>globals :=
            persistent_destructor (handles V) NonCopyable_kResetInDestructor (mod_ptr m) (globals w)\<rparr>)) }"

definition ResolveModuleCallback ::
    "('e, 'g) v8 \<Rightarrow> ('e, 'g) host \<Rightarrow> addr \<Rightarrow> obj \<Rightarrow> string option \<Rightarrow> obj \<Rightarrow> ('e, 'g) world \<Rightarrow>
       (reply \<times> ('e, 'g) world) option" where
  "ResolveModuleCallback V G isolate context specifier referrer w =
     do { ctx \<leftarrow> callback_ctx context w;
          let (ref, w1) = enter_ref V isolate referrer w;
          x \<leftarrow> contexts w1 ctx;
          (resolved, w2) \<leftarrow> host_resolve G (ctx_ref x) specifier ref w1;
          rp \<leftarrow> (if rm_error_value resolved \<noteq> nullptr then
                  do { e \<leftarrow> value_local V (rm_error_value resolved) w2; Some (Threw e) }
                else if rm_module resolved = nullptr then Some Unresolved
                else do { m \<leftarrow> modules w2 (rm_module resolved);
                          l \<leftarrow> get_local V (mod_ptr m) w2;
                          Some (case l of None \<Rightarrow> Unresolved | Some o1 \<Rightarrow> Resolved o1) });
          w3 \<leftarrow> leave_ref V ref w2;
          Some (rp, w3) }"

definition DynamicImportCallback ::
    "('e, 'g) v8 \<Rightarrow> ('e, 'g) host \<Rightarrow> addr \<Rightarrow> obj \<Rightarrow> string option \<Rightarrow> string option \<Rightarrow> ('e, 'g) world \<Rightarrow>
       (reply \<times> ('e, 'g) world) option" where
  "DynamicImportCallback V G isolate context specifier resource w =
     do { ctx \<leftarrow> callback_ctx context w;
          x \<leftarrow> contexts w ctx;
          (resolved, w1) \<leftarrow> host_dynamic G (ctx_ref x) specifier resource w;
          if di_error_value resolved \<noteq> nullptr then
            do { e \<leftarrow> value_local V (di_error_value resolved) w1; Some (Threw e, w1) }
          else if di_promise resolved = nullptr then Some (Unresolved, w1)
          else do { l \<leftarrow> value_local V (di_promise resolved) w1;
                    Some (case l of None \<Rightarrow> Unresolved | Some o1 \<Rightarrow> Resolved o1, w1) } }"

primrec wrap_args ::
    "('e, 'g) v8 \<Rightarrow> addr \<Rightarrow> addr \<Rightarrow> obj list \<Rightarrow> ('e, 'g) world \<Rightarrow> addr list \<times> ('e, 'g) world" where
  "wrap_args V ctx isolate [] w = ([], w)"
| "wrap_args V ctx isolate (v # vs) w =
     (let (a, w1) = wrapBorrowedValue V ctx isolate (Some v) w;
          (as, w2) = wrap_args V ctx isolate vs w1
      in (a # as, w2))"

definition HostFunctionCallback ::
    "('e, 'g) v8 \<Rightarrow> ('e, 'g) host \<Rightarrow> addr \<Rightarrow> obj \<Rightarrow> obj \<Rightarrow> obj list \<Rightarrow> int \<Rightarrow> ('e, 'g) world \<Rightarrow>
       (reply \<times> ('e, 'g) world) option" where
  "HostFunctionCallback V G isolate context this args callback_id w =
     do { ctx \<leftarrow> callback_ctx context w;
          let (recv, w1) = wrapBorrowedValue V ctx isolate (Some this) w;
          let (argv, w2) = wrap_args V ctx isolate args w1;
          x \<leftarrow> contexts w2 ctx;
          (result, w3) \<leftarrow> host_function G (ctx_ref x) callback_id recv argv w2;
          error_value \<leftarrow> (if cr_error_value result \<noteq> nullptr
                         then value_local V (cr_error_value result) w3 else Some None);
          return_value \<leftarrow> (if cr_error_value result = nullptr \<and> cr_value result \<noteq> nullptr
                          then value_local V (cr_value result) w3 else Some None);
          w4 \<leftarrow> GV8ValueRelease V recv w3;
          w5 \<leftarrow> release_each (GV8ValueRelease V) argv w4;
          if cr_error_value result \<noteq> nullptr then
            do { w6 \<leftarrow> GV8ValueRelease V (cr_error_value result) w5; Some (Threw error_value, w6) }
          else if return_value \<noteq> None then
            do { w6 \<leftarrow> GV8ValueRelease V (cr_value result) w5; Some (Returned return_value, w6) }
          else Some (Returned None, w5) }"

definition OnPromiseReject ::
    "('e, 'g) v8 \<Rightarrow> ('e, 'g) host \<Rightarrow> ('e, 'g) dispatcher \<Rightarrow> addr \<Rightarrow> obj \<Rightarrow> int \<Rightarrow> obj option \<Rightarrow>
       ('e, 'g) world \<Rightarrow> (reply \<times> ('e, 'g) world) option" where
  "OnPromiseReject V G h isolate ctx event value w =
     do { d \<leftarrow> isolates w isolate;
          let ref = iso_data1 d;
          if ref = 0 then Some (Noted, w)
          else do { let (msg, w1) = engine_step (CreateMessage V value) w;
                    (error, w2) \<leftarrow> ErrorFromMessage V h ctx msg value w1;
                    w3 \<leftarrow> host_reject G ref event error w2;
                    Some (Noted, w3) } }"

text \<open>Which callback serves which request. Only \<open>OnPromiseReject\<close> runs JavaScript itself (the
  \<open>stack\<close> getter of the rejection value), so a nesting depth bounds the recursion; running out of it
  is \<open>None\<close>, and a larger depth never changes an answer (\<open>callbacks_mono\<close>).\<close>

definition dispatch ::
    "('e, 'g) v8 \<Rightarrow> ('e, 'g) host \<Rightarrow> ('e, 'g) dispatcher \<Rightarrow> ('e, 'g) dispatcher" where
  "dispatch V G h rq w =
     (case rq of
        FunctionCall i c this args data \<Rightarrow> HostFunctionCallback V G i c this args data w
      | ResolveModule i c spec ref \<Rightarrow> ResolveModuleCallback V G i c spec ref w
      | DynamicImport i c spec res \<Rightarrow> DynamicImportCallback V G i c spec res w
      | PromiseReject i c ev v \<Rightarrow> OnPromiseReject V G h i c ev v w)"

primrec callbacks :: "('e, 'g) v8 \<Rightarrow> ('e, 'g) host \<Rightarrow> nat \<Rightarrow> ('e, 'g) dispatcher" where
  "callbacks V G 0 = (\<lambda>rq w. None)"
| "callbacks V G (Suc d) = dispatch V G (callbacks V G d)"

section \<open>The callbacks keep the invariant\<close>

lemma wrapBorrowedValue_facts:
  assumes "wrapBorrowedValue V c isolate l w = (a, w')"
  shows "a = Suc (next_addr w)"
    "\<exists>s. wrappers w' = (wrappers w)(a \<mapsto> \<lparr>val_id = 0, val_ctx = c, val_iso = isolate, val_ptr = s\<rparr>)"
    "contexts w' = contexts w" "isolates w' = isolates w" "embedder w' = embedder w"
    "engine w' = engine w" "modules w' = modules w"
  using assms
  by (auto simp: wrapBorrowedValue_def new_addr_def reset_to_def Let_def split: prod.splits)

lemma wrap_args_facts:
  assumes "wrap_args V c isolate vs w = (as, w')"
  shows "length as = length vs" "contexts w' = contexts w" "isolates w' = isolates w"
    "embedder w' = embedder w"
  using assms
  by (induction vs arbitrary: w as w')
    (auto split: prod.splits dest: wrapBorrowedValue_facts(3-5))

lemma wrap_args_ok [ok_rules]:
  assumes "wrap_args V c isolate vs w = (as, w')" "world_ok (handles V) w" "handles_ok (handles V)"
  shows "world_ok (handles V) w'"
  using assms
proof (induction vs arbitrary: w as)
  case (Cons v vs)
  obtain a w1 bs where w1: "wrapBorrowedValue V c isolate (Some v) w = (a, w1)"
    and rest: "wrap_args V c isolate vs w1 = (bs, w')"
    using Cons.prems(1) by (auto split: prod.splits)
  from Cons.IH [OF rest wrapBorrowedValue_ok [OF w1 Cons.prems(2,3)] Cons.prems(3)] show ?case .
qed simp

text \<open>The handles made for a call are new, distinct and borrowed.\<close>

lemma wrap_args_fresh:
  assumes "wrap_args V c isolate vs w = (as, w')" "world_ok (handles V) w" "handles_ok (handles V)"
  shows "distinct as" "set as \<inter> dom (wrappers w) = {}"
    "wrappers w' |` (- set as) = wrappers w |` (- set as)"
    "\<And>a. a \<in> set as \<Longrightarrow> \<exists>y. wrappers w' a = Some y \<and> val_id y = 0 \<and> val_ctx y = c"
proof -
  have "distinct as \<and> set as \<inter> dom (wrappers w) = {} \<and>
      (\<forall>b. b \<notin> set as \<longrightarrow> wrappers w' b = wrappers w b) \<and>
      (\<forall>a \<in> set as. \<exists>y. wrappers w' a = Some y \<and> val_id y = 0 \<and> val_ctx y = c)"
    using assms
  proof (induction vs arbitrary: w as)
    case (Cons v vs)
    obtain a w1 bs where w1: "wrapBorrowedValue V c isolate (Some v) w = (a, w1)"
      and rest: "wrap_args V c isolate vs w1 = (bs, w')" and as: "as = a # bs"
      using Cons.prems(1) by (auto split: prod.splits)
    from Cons.prems(2) have new: "wrappers w a = None"
      by (simp add: wrapBorrowedValue_facts(1) [OF w1] world_ok_def fresh_ok_fresh)
    obtain s where s: "wrappers w1 =
        (wrappers w)(a \<mapsto> \<lparr>val_id = 0, val_ctx = c, val_iso = isolate, val_ptr = s\<rparr>)"
      using wrapBorrowedValue_facts(2) [OF w1] by blast
    note IH = Cons.IH [OF rest wrapBorrowedValue_ok [OF w1 Cons.prems(2,3)] Cons.prems(3)]
    from IH s have "a \<notin> set bs" by auto
    with IH s new show ?case unfolding as
      by (auto simp: domI split: if_splits)
  qed simp
  then show "distinct as" "set as \<inter> dom (wrappers w) = {}"
    "wrappers w' |` (- set as) = wrappers w |` (- set as)"
    "\<And>a. a \<in> set as \<Longrightarrow> \<exists>y. wrappers w' a = Some y \<and> val_id y = 0 \<and> val_ctx y = c"
    by (auto simp: restrict_map_def fun_eq_iff)
qed

lemma enter_ref_ok [ok_rules]:
  assumes eq: "enter_ref V isolate m w = (a, w')"
    and ok: "world_ok (handles V) w" and H: "handles_ok (handles V)"
  shows "world_ok (handles V) w'"
proof -
  obtain s g where gl: "GlobalizeReference (handles V) m (globals w) = (s, g)"
    by (cases "GlobalizeReference (handles V) m (globals w)")
  have a: "a = Suc (next_addr w)" and w': "w' = put_module a (Some \<lparr>mod_iso = isolate, mod_ptr = s\<rparr>)
      (w\<lparr>next_addr := a, globals := g\<rparr>)"
    using eq by (auto simp: enter_ref_def new_addr_def reset_to_null gl)
  show ?thesis
    by (rule world_ok_gain [OF ok H gl, where p = "OwnModule a"])
      (use ok handles_ok_globalize(1) [OF H gl] in
        \<open>simp_all add: w' a world_ok_def fresh_ok_def below_fresh\<close>)
qed

lemma leave_ref_ok [ok_rules]:
  assumes eq: "leave_ref V a w = Some w'" and ok: "world_ok (handles V) w"
  shows "world_ok (handles V) w'"
proof -
  from eq have w': "w' = put_module a None (w\<lparr>globals := globals w\<rparr>)"
    by (auto simp: leave_ref_def persistent_destructor_def NonCopyable_kResetInDestructor_def)
  show ?thesis
    by (rule world_ok_drop [OF ok, where p = "OwnModule a"])
      (use ok in \<open>simp_all add: w' world_ok_def fresh_ok_def\<close>)
qed

lemma release_each_ok [ok_rules]:
  assumes "release_each (GV8ValueRelease V) as w = Some w'" "world_ok (handles V) w"
    "handles_ok (handles V)"
  shows "world_ok (handles V) w'"
  using assms
  by (induction as arbitrary: w) (auto intro: ok_rules)

lemma host_function_ok [ok_rules]:
  "host_function G r i a as w = Some (x, w') \<Longrightarrow> world_ok (handles V) w \<Longrightarrow> host_ok V G \<Longrightarrow>
     world_ok (handles V) w'"
  by (rule host_ok_def [THEN iffD1, THEN conjunct1, rule_format])

lemma host_resolve_ok [ok_rules]:
  "host_resolve G r s a w = Some (x, w') \<Longrightarrow> world_ok (handles V) w \<Longrightarrow> host_ok V G \<Longrightarrow>
     world_ok (handles V) w'"
  by (rule host_ok_def [THEN iffD1, THEN conjunct2, THEN conjunct1, rule_format])

lemma host_dynamic_ok [ok_rules]:
  "host_dynamic G r s t w = Some (x, w') \<Longrightarrow> world_ok (handles V) w \<Longrightarrow> host_ok V G \<Longrightarrow>
     world_ok (handles V) w'"
  by (rule host_ok_def [THEN iffD1, THEN conjunct2, THEN conjunct2, THEN conjunct1, rule_format])

lemma host_reject_ok [ok_rules]:
  "host_reject G r i e w = Some w' \<Longrightarrow> world_ok (handles V) w \<Longrightarrow> host_ok V G \<Longrightarrow>
     world_ok (handles V) w'"
  by (rule host_ok_def [THEN iffD1, THEN conjunct2, THEN conjunct2, THEN conjunct2, rule_format])

lemma ResolveModuleCallback_ok [ok_rules]:
  "ResolveModuleCallback V G i c s m w = Some (r, w') \<Longrightarrow> world_ok (handles V) w \<Longrightarrow>
     handles_ok (handles V) \<Longrightarrow> host_ok V G \<Longrightarrow> world_ok (handles V) w'"
  by (auto simp: ResolveModuleCallback_def run_simps) (assumption | rule ok_rules, assumption)+

lemma DynamicImportCallback_ok [ok_rules]:
  "DynamicImportCallback V G i c s t w = Some (r, w') \<Longrightarrow> world_ok (handles V) w \<Longrightarrow>
     host_ok V G \<Longrightarrow> world_ok (handles V) w'"
  by (auto simp: DynamicImportCallback_def run_simps) (assumption | rule ok_rules, assumption)+

lemma HostFunctionCallback_ok [ok_rules]:
  "HostFunctionCallback V G i c this args data w = Some (r, w') \<Longrightarrow> world_ok (handles V) w \<Longrightarrow>
     handles_ok (handles V) \<Longrightarrow> host_ok V G \<Longrightarrow> world_ok (handles V) w'"
  by (auto simp: HostFunctionCallback_def run_simps) (assumption | rule ok_rules, assumption)+

lemma OnPromiseReject_ok [ok_rules]:
  "OnPromiseReject V G h i c e v w = Some (r, w') \<Longrightarrow> world_ok (handles V) w \<Longrightarrow>
     dispatcher_ok V h \<Longrightarrow> host_ok V G \<Longrightarrow> world_ok (handles V) w'"
  by (auto simp: OnPromiseReject_def run_simps) (assumption | rule ok_rules, assumption)+

lemma callbacks_ok:
  assumes "handles_ok (handles V)" "host_ok V G"
  shows "dispatcher_ok V (callbacks V G d)"
proof (induction d)
  case 0
  show ?case by (simp add: dispatcher_ok_def)
next
  case (Suc d)
  have "world_ok (handles V) v'"
    if "world_ok (handles V) v" "dispatch V G (callbacks V G d) rq v = Some (rp, v')" for rq v rp v'
    using that assms Suc
    by (cases rq) (auto simp: dispatch_def intro: ok_rules)
  then show ?case by (simp add: dispatcher_ok_def)
qed

section \<open>A larger nesting depth never changes an answer\<close>

definition dispatcher_le :: "('e, 'g) dispatcher \<Rightarrow> ('e, 'g) dispatcher \<Rightarrow> bool" where
  "dispatcher_le h h' \<longleftrightarrow> (\<forall>rq w r. h rq w = Some r \<longrightarrow> h' rq w = Some r)"

lemma exec_tree_mono:
  assumes "dispatcher_le h h'"
  shows "exec_tree h t w = Some r \<Longrightarrow> exec_tree h' t w = Some r"
proof (induction t arbitrary: w)
  case (Yield e rq k)
  from Yield.prems obtain rp v where v: "h rq (w\<lparr>engine := e\<rparr>) = Some (rp, v)"
    "exec_tree h (k (rp, engine v)) v = Some r"
    by auto
  moreover from v(1) assms have "h' rq (w\<lparr>engine := e\<rparr>) = Some (rp, v)"
    by (simp add: dispatcher_le_def)
  ultimately show ?case using Yield.IH [of "k (rp, engine v)"] by auto
qed simp

lemma run_mono [le_rules]: "dispatcher_le h h' \<Longrightarrow> le (run h f w) (run h' f w)"
  by (simp add: run_def le_def exec_tree_mono)

lemma message_location_mono [le_rules]:
  "dispatcher_le h h' \<Longrightarrow> le (message_location V h m w) (message_location V h' m w)"
  unfolding message_location_def by (intro le_rules)

lemma value_error_mono [le_rules]:
  "dispatcher_le h h' \<Longrightarrow> le (value_error V h c v w) (value_error V h' c v w)"
  unfolding value_error_def Let_def by (intro le_rules)

lemma ErrorFromMessage_mono [le_rules]:
  "dispatcher_le h h' \<Longrightarrow> le (ErrorFromMessage V h c m v w) (ErrorFromMessage V h' c m v w)"
  unfolding ErrorFromMessage_def Let_def by (intro le_rules)

lemma OnPromiseReject_mono [le_rules]:
  "dispatcher_le h h' \<Longrightarrow> le (OnPromiseReject V G h i c e v w) (OnPromiseReject V G h' i c e v w)"
  unfolding OnPromiseReject_def Let_def by (intro le_rules)

lemma dispatch_mono: "dispatcher_le h h' \<Longrightarrow> dispatcher_le (dispatch V G h) (dispatch V G h')"
proof -
  assume le: "dispatcher_le h h'"
  have "dispatch V G h' rq w = Some r" if "dispatch V G h rq w = Some r" for rq w r
    using that leD [OF OnPromiseReject_mono [OF le]]
    by (cases rq) (simp_all add: dispatch_def)
  then show ?thesis by (simp add: dispatcher_le_def)
qed

lemma callbacks_le_Suc: "dispatcher_le (callbacks V G d) (callbacks V G (Suc d))"
proof (induction d)
  case 0
  show ?case by (simp add: dispatcher_le_def)
next
  case (Suc d)
  then show ?case using dispatch_mono by simp
qed

lemma callbacks_mono: "d \<le> d' \<Longrightarrow> dispatcher_le (callbacks V G d) (callbacks V G d')"
proof (induction d' rule: dec_induct)
  case base
  show ?case by (simp add: dispatcher_le_def)
next
  case (step n)
  then show ?case using callbacks_le_Suc [of V G n] unfolding dispatcher_le_def by blast
qed

section \<open>What a host call leaves behind\<close>

lemma wrap_args_Cons_split:
  assumes "wrap_args V c isolate (this # args) w = (recv # argv, w2)"
  obtains w1 where "wrapBorrowedValue V c isolate (Some this) w = (recv, w1)"
    "wrap_args V c isolate args w1 = (argv, w2)"
  using assms by (auto split: prod.splits)

lemma HostFunctionCallback_split:
  assumes enter: "wrap_args V c isolate (this # args) w = (recv # argv, w2)"
    and ctx: "callback_ctx context w = Some c" "contexts w c = Some x"
    and host: "host_function G (ctx_ref x) cb recv argv w2 = Some (result, w3)"
    and rel: "release_each (GV8ValueRelease V) (recv # argv) w3 = Some w5"
    and err: "cr_error_value result \<noteq> nullptr \<Longrightarrow>
      value_local V (cr_error_value result) w3 = Some l \<and> GV8ValueRelease V (cr_error_value result) w5 = Some w6"
    and val: "cr_error_value result = nullptr \<Longrightarrow> cr_value result \<noteq> nullptr \<Longrightarrow>
      value_local V (cr_value result) w3 = Some (Some ob) \<and> GV8ValueRelease V (cr_value result) w5 = Some w6"
  shows "HostFunctionCallback V G isolate context this args cb w =
    (if cr_error_value result \<noteq> nullptr then Some (Threw l, w6)
     else if cr_value result \<noteq> nullptr then Some (Returned (Some ob), w6)
     else Some (Returned None, w5))"
proof -
  obtain w1 where w1: "wrapBorrowedValue V c isolate (Some this) w = (recv, w1)"
    "wrap_args V c isolate args w1 = (argv, w2)"
    by (rule wrap_args_Cons_split [OF enter])
  have x: "contexts w2 c = Some x"
    using ctx(2) wrap_args_facts(2) [OF w1(2)] wrapBorrowedValue_facts(3) [OF w1(1)] by simp
  from rel obtain w4 where w4: "GV8ValueRelease V recv w3 = Some w4"
    "release_each (GV8ValueRelease V) argv w4 = Some w5"
    by auto
  show ?thesis
    using err val by (auto simp: HostFunctionCallback_def ctx w1 x host w4)
qed

lemma world_ok_value_local:
  assumes "world_ok (handles V) w" "wrappers w v = Some y"
  shows "\<exists>ob. value_local V v w = Some (Some ob) \<and> get_obj V (val_ptr y) w = Some ob"
  using live_wrapper_cell [OF assms] world_ok_val_ptr [OF assms]
  by (auto simp: value_local_def assms(2) get_local_Some get_obj_Some)

section \<open>A demonstration host\<close>

text \<open>Its functions return the string object of the demonstration world, its resolver answers every
  import with the importing module.\<close>

definition demo_host :: "(demo_val list, cell_table) host" where
  "demo_host = \<lparr>
     host_function = (\<lambda>r i recv argv w.
       do { (v, w1) \<leftarrow> wrapValue demo_v8 1 100 (Some 2) w;
            Some (\<lparr>cr_value = v, cr_error_value = nullptr\<rparr>, w1) }),
     host_resolve = (\<lambda>r s m w. Some (\<lparr>rm_module = m, rm_error_value = nullptr\<rparr>, w)),
     host_dynamic = (\<lambda>r s t w. Some (\<lparr>di_promise = nullptr, di_error_value = nullptr\<rparr>, w)),
     host_reject = (\<lambda>r i e w. Some w)\<rparr>"

lemma demo_host_ok: "host_ok demo_v8 demo_host"
  unfolding host_ok_def
  by (auto simp: demo_host_def simp del: One_nat_def demo_handles intro: wrapValue_ok)

text \<open>The demonstration world during a call with receiver 2 and no arguments.\<close>

definition demo_call_world :: "(demo_val list, cell_table) world" where
  "demo_call_world = snd (wrap_args demo_v8 1 100 [2] demo_world)"

lemma demo_enter: "wrap_args demo_v8 1 100 [2] demo_world = ([2], demo_call_world)"
  by (simp add: demo_call_world_def wrapBorrowedValue_def new_addr_def Let_def split: prod.splits)

lemma demo_call_world_sel:
  "contexts demo_call_world = contexts demo_world"
  "wrappers demo_call_world = [2 \<mapsto> \<lparr>val_id = 0, val_ctx = 1, val_iso = 100, val_ptr = 2\<rparr>]"
  "next_addr demo_call_world = 2" "globals demo_call_world = (2, [(2, 2), (1, 1)])"
  by (simp_all add: demo_call_world_def wrapBorrowedValue_def new_addr_def reset_to_def
      persistent_Reset_local_fresh numeral_2_eq_2)

section \<open>Properties\<close>

text \<open>C2: a host function call leaves no temporary handle behind. Provided the host function keeps the
  receiver and argument handles it was given alive and answers with a live handle of its own (or
  null), the callback succeeds, reports the thrown or returned object the answer refers to, and
  afterwards exactly the receiver, the arguments and the answer are gone from the heap the host
  left.\<close>

theorem HostFunctionCallback_releases:
  assumes ok: "world_ok (handles V) w" and H: "handles_ok (handles V)" and G: "host_ok V G"
    and ctx: "callback_ctx context w = Some c" "contexts w c = Some x"
    and enter: "wrap_args V c isolate (this # args) w = (recv # argv, w2)"
    and host: "host_function G (ctx_ref x) cb recv argv w2 = Some (result, w3)"
    and keep: "\<And>a. a \<in> set (recv # argv) \<Longrightarrow> wrappers w3 a = wrappers w2 a"
    and answer: "v = (if cr_error_value result \<noteq> nullptr then cr_error_value result else cr_value result)"
    and own: "v \<noteq> nullptr \<Longrightarrow> v \<notin> set (recv # argv) \<and> wrappers w3 v \<noteq> None"
  shows "\<exists>rp w'. HostFunctionCallback V G isolate context this args cb w = Some (rp, w') \<and>
    world_ok (handles V) w' \<and> wrappers w' = wrappers w3 |` (- insert v (set (recv # argv))) \<and>
    rp = (if v = nullptr then Returned None
          else let ob = get_obj V (val_ptr (the (wrappers w3 v))) w3
               in if cr_error_value result \<noteq> nullptr then Threw ob else Returned ob)"
proof -
  note ok2 = wrap_args_ok [OF enter ok H]
  note ok3 = host_function_ok [OF host ok2 G]
  note fresh = wrap_args_fresh [OF enter ok H]
  have "set (recv # argv) \<subseteq> dom (wrappers w3)"
    using fresh(4) keep by fastforce
  with fresh(1) ok3 H obtain w5 where w5: "release_each (GV8ValueRelease V) (recv # argv) w3 = Some w5"
    "good V w5" "wrappers w5 = wrappers w3 |` (- set (recv # argv))"
    using val_handle.release_each_live [of V w3 "recv # argv"] by (auto simp: good_def)
  show ?thesis
  proof (cases "v = nullptr")
    case True
    with answer have none: "cr_error_value result = nullptr" "cr_value result = nullptr"
      by (auto split: if_splits)
    have "wrappers w3 |` (- insert 0 (set (recv # argv))) = wrappers w5"
      using ok3 by (auto simp: w5(3) restrict_map_def fun_eq_iff)
    with HostFunctionCallback_split [OF enter ctx host w5(1)] none w5(2) True show ?thesis
      by (auto simp: good_def)
  next
    case False
    with own obtain y where y: "wrappers w3 v = Some y" "v \<notin> set (recv # argv)" by auto
    obtain ob where ob: "value_local V v w3 = Some (Some ob)" "get_obj V (val_ptr y) w3 = Some ob"
      using world_ok_value_local [OF ok3 y(1)] by blast
    from y have "wrappers w5 v = Some y" by (simp add: w5(3))
    then obtain w6 where w6: "GV8ValueRelease V v w5 = Some w6" "good V w6"
      "wrappers w6 = (wrappers w5)(v := None)"
      using val_handle.rel_live [OF w5(2)] by blast
    have "wrappers w6 = wrappers w3 |` (- insert v (set (recv # argv)))"
      by (auto simp: w6(3) w5(3) restrict_map_def fun_eq_iff)
    with HostFunctionCallback_split [OF enter ctx host w5(1), of "Some ob" w6 ob] False answer w6 ob y
    show ?thesis by (auto simp: good_def split: if_splits)
  qed
qed

theorem HostFunctionCallback_releases_witness:
  "\<exists>w'. HostFunctionCallback demo_v8 demo_host 100 1 2 [] 5 demo_world = Some (Returned (Some 2), w') \<and>
     wrappers w' = Map.empty"
proof -
  have ctx: "callback_ctx 1 demo_world = Some 1" "contexts demo_world 1 = Some demo_ctx"
    by (simp_all add: callback_ctx_def demo_world_def)
  have gl: "GlobalizeReference (handles demo_v8) 2 (globals demo_call_world) = (3, (3, [(3, 2), (2, 2), (1, 1)]))"
    by (simp add: demo_call_world_sel numeral_3_eq_3)
  have "contexts demo_call_world 1 = Some demo_ctx" "ctx_next_value_id demo_ctx < LONG_MAX"
    by (simp_all add: demo_call_world_sel LONG_MAX_def)
  note eq = wrapValue_eq [OF gl this, of 100]
  obtain w3 where w3: "wrapValue demo_v8 1 100 (Some 2) demo_call_world = Some (3, w3)"
    "wrappers w3 = [2 \<mapsto> \<lparr>val_id = 0, val_ctx = 1, val_iso = 100, val_ptr = 2\<rparr>,
                    3 \<mapsto> \<lparr>val_id = 1, val_ctx = 1, val_iso = 100, val_ptr = 3\<rparr>]"
    "globals w3 = (3, [(3, 2), (2, 2), (1, 1)])"
    unfolding eq by (simp add: demo_call_world_sel)
  have host: "host_function demo_host (ctx_ref demo_ctx) 5 2 [] demo_call_world =
      Some (\<lparr>cr_value = 3, cr_error_value = nullptr\<rparr>, w3)"
    by (simp add: demo_host_def w3 del: One_nat_def)
  have "wrappers w3 a = wrappers demo_call_world a" if "a \<in> set [2]" for a
    using that by (simp add: w3 demo_call_world_sel)
  from HostFunctionCallback_releases [OF demo_world_ok demo_handles_ok demo_host_ok ctx demo_enter host this
      refl]
  obtain rp w' where "HostFunctionCallback demo_v8 demo_host 100 1 2 [] 5 demo_world = Some (rp, w')"
    "wrappers w' = wrappers w3 |` (- {3, 2})" "rp = Returned (get_obj demo_v8 3 w3)"
    by (auto simp: w3)
  moreover have "wrappers w3 |` (- {3, 2}) = Map.empty"
    by (auto simp: w3 restrict_map_def fun_eq_iff)
  moreover have "get_obj demo_v8 3 w3 = Some 2"
    by (simp add: get_obj_Some w3)
  ultimately show ?thesis by simp
qed

text \<open>C8: every module resolution leaks a storage cell. The \<open>Persistent\<close> of the referrer handle on
  the stack of \<open>ResolveModuleCallback\<close> is created for the call, and when the callback returns, with
  the host having left that handle alone, its cell is still live although no struct refers to it.\<close>

theorem ResolveModuleCallback_leaks:
  assumes ok: "world_ok (handles V) w" and H: "handles_ok (handles V)" and G: "host_ok V G"
    and ctx: "callback_ctx context w = Some c" "contexts w c = Some x"
    and enter: "enter_ref V isolate referrer w = (ref, w1)"
    and host: "host_resolve G (ctx_ref x) spec ref w1 = Some (resolved, w2)"
    and keep: "modules w2 ref = modules w1 ref"
    and run: "ResolveModuleCallback V G isolate context spec referrer w = Some (rp, w')"
  shows "\<exists>s. s \<notin> live_cells (handles V) (globals w) \<and> s \<in> live_cells (handles V) (globals w') \<and>
    (\<forall>p. slot_of w' p \<noteq> s)"
proof -
  obtain s g where gl: "GlobalizeReference (handles V) referrer (globals w) = (s, g)"
    by (cases "GlobalizeReference (handles V) referrer (globals w)")
  note fresh = handles_ok_globalize [OF H gl]
  have w1: "ref = Suc (next_addr w)" "w1 = put_module ref (Some \<lparr>mod_iso = isolate, mod_ptr = s\<rparr>)
      (w\<lparr>next_addr := ref, globals := g\<rparr>)"
    using enter by (auto simp: enter_ref_def new_addr_def reset_to_null gl)
  have ok2: "world_ok (handles V) w2"
    by (rule host_resolve_ok [OF host enter_ref_ok [OF enter ok H] G])
  have m: "modules w2 ref = Some \<lparr>mod_iso = isolate, mod_ptr = s\<rparr>" by (simp add: keep w1(2))
  have "contexts w1 c = Some x" by (simp add: w1 ctx)
  with run ctx enter host m have w': "w' = put_module ref None w2"
    by (auto simp: ResolveModuleCallback_def run_simps leave_ref_def persistent_destructor_def
        NonCopyable_kResetInDestructor_def)
  have own: "slot_of w2 (OwnModule ref) = s" by (simp add: m)
  with ok2 fresh(1) have "cell (handles V) (globals w2) s \<noteq> None"
    "\<And>q. slot_of w2 q = s \<Longrightarrow> q = OwnModule ref"
    unfolding world_ok_def slots_ok_def by metis+
  then have "s \<in> live_cells (handles V) (globals w')" "\<forall>p. slot_of w' p \<noteq> s"
    using fresh(1) by (auto simp: w' live_cells_def)
  with fresh(2) show ?thesis by (auto simp: live_cells_def)
qed

theorem ResolveModuleCallback_leaks_witness:
  "\<exists>rp w' s. ResolveModuleCallback demo_v8 demo_host 100 1 (Some ''m'') 2 demo_world = Some (rp, w') \<and>
     s \<in> live_cells (handles demo_v8) (globals w') \<and> (\<forall>p. slot_of w' p \<noteq> s)"
proof -
  have ctx: "callback_ctx 1 demo_world = Some 1" "contexts demo_world 1 = Some demo_ctx"
    by (simp_all add: callback_ctx_def demo_world_def)
  obtain w1 where enter: "enter_ref demo_v8 100 2 demo_world = (2, w1)"
    "modules w1 2 = Some \<lparr>mod_iso = 100, mod_ptr = 2\<rparr>" "globals w1 = (2, [(2, 2), (1, 1)])"
    "contexts w1 = contexts demo_world"
    by (simp add: enter_ref_def new_addr_def reset_to_null numeral_2_eq_2)
  have host: "host_resolve demo_host (ctx_ref demo_ctx) (Some ''m'') 2 w1 =
      Some (\<lparr>rm_module = 2, rm_error_value = nullptr\<rparr>, w1)"
    by (simp add: demo_host_def)
  have "\<exists>rp w'. ResolveModuleCallback demo_v8 demo_host 100 1 (Some ''m'') 2 demo_world = Some (rp, w')"
    by (simp add: ResolveModuleCallback_def ctx enter demo_host_def leave_ref_def get_local_def
        persistent_Get_def handle_IsEmpty_def del: One_nat_def)
  then obtain rp w' where run: "ResolveModuleCallback demo_v8 demo_host 100 1 (Some ''m'') 2 demo_world = Some (rp, w')"
    by blast
  from ResolveModuleCallback_leaks [OF demo_world_ok demo_handles_ok demo_host_ok ctx enter(1) host refl run]
  show ?thesis using run by blast
qed

end
