(* ===== verification/Gv8_Context.thy ===== *)
theory Gv8_Context
  imports Gv8_Callbacks
begin

text \<open>
  Contexts: \<open>GV8NewContext\<close>, \<open>GV8ContextDispose\<close>, and the operations that make an object in a context
  and wrap it. A context owns the values registered in it and frees them when it is disposed.
\<close>

section \<open>Returning a value or an error\<close>

text \<open>\<open>rtn.value = wrapValue(ctx, iso, local); return rtn;\<close> and
  \<open>rtn.error = ExceptionError(try_catch, iso, local_ctx); return rtn;\<close>.\<close>

definition value_result ::
    "('e, 'g) v8 \<Rightarrow> addr \<Rightarrow> addr \<Rightarrow> obj \<Rightarrow> ('e, 'g) world \<Rightarrow> (GV8RtnValue \<times> ('e, 'g) world) option" where
  "value_result V ctx isolate local w =
     do { (a, w1) \<leftarrow> wrapValue V ctx isolate (Some local) w;
          Some (EmptyValueResult\<lparr>rv_value := a\<rparr>, w1) }"

definition error_result ::
    "('e, 'g) v8 \<Rightarrow> ('e, 'g) dispatcher \<Rightarrow> caught \<Rightarrow> ('e, 'g) world \<Rightarrow>
       (GV8RtnValue \<times> ('e, 'g) world) option" where
  "error_result V h try_catch w =
     do { (e, w1) \<leftarrow> ExceptionError V h try_catch w;
          Some (EmptyValueResult\<lparr>rv_error := e\<rparr>, w1) }"

definition return_local ::
    "('e, 'g) v8 \<Rightarrow> ('e, 'g) dispatcher \<Rightarrow> addr \<Rightarrow> addr \<Rightarrow> obj result \<Rightarrow> ('e, 'g) world \<Rightarrow>
       (GV8RtnValue \<times> ('e, 'g) world) option" where
  "return_local V h ctx isolate r w =
     (case r of Ok local \<Rightarrow> value_result V ctx isolate local w | Exn t \<Rightarrow> error_result V h t w)"

section \<open>Creating and disposing contexts\<close>

definition SetEmbedderDataV2 ::
    "obj \<Rightarrow> int \<Rightarrow> embedder_datum \<Rightarrow> ('e, 'g) world \<Rightarrow> ('e, 'g) world" where
  "SetEmbedderDataV2 c i d w = w\<lparr>embedder := (embedder w)(c := (embedder w c)(i \<mapsto> d))\<rparr>"

definition GV8NewContext ::
    "('e, 'g) v8 \<Rightarrow> addr \<Rightarrow> int \<Rightarrow> ('e, 'g) world \<Rightarrow> (addr \<times> ('e, 'g) world) option" where
  "GV8NewContext V isolate ref w =
     do { _ \<leftarrow> iso_scope isolate w;
          let (local, w1) = engine_step (Context_New V isolate) w;
          ctx \<leftarrow> local;
          let w2 = SetEmbedderDataV2 ctx 1 (EInteger ref) w1;
          let (wrap, w3) = new_addr w2;
          let (s, w4) = reset_to V nullptr (Some ctx) w3;
          let w5 = put_context wrap (Some
                \<lparr>ctx_iso = isolate, ctx_ptr = s, ctx_ref = ref, ctx_values = [], ctx_next_value_id = 0,
                 ctx_snapshot_blob = nullptr, ctx_snapshot_data = nullptr\<rparr>) w4;
          Some (wrap, SetEmbedderDataV2 ctx 2 (EExternal wrap) w5) }"

text \<open>One round of the loop of \<open>GV8ContextDispose\<close>: \<open>it->second->ptr.Reset(); delete it->second;\<close>.\<close>

definition dispose_value :: "('e, 'g) v8 \<Rightarrow> addr \<Rightarrow> ('e, 'g) world \<Rightarrow> ('e, 'g) world option" where
  "dispose_value V v w =
     do { y \<leftarrow> wrappers w v; Some (put_wrapper v None (reset V (val_ptr y) w)) }"

definition GV8ContextDispose ::
    "('e, 'g) v8 \<Rightarrow> addr \<Rightarrow> ('e, 'g) world \<Rightarrow> ('e, 'g) world option" where
  "GV8ContextDispose V ctx w =
     (if ctx = nullptr then Some w
      else do { x \<leftarrow> contexts w ctx;
                let w1 = put_context ctx (Some (x\<lparr>ctx_ptr := nullptr\<rparr>)) (reset V (ctx_ptr x) w);
                w2 \<leftarrow> release_each (dispose_value V) (map snd (ctx_values x)) w1;
                Some (put_context ctx None w2) })"

section \<open>Making values in a context\<close>

definition GV8ContextGlobal ::
    "('e, 'g) v8 \<Rightarrow> addr \<Rightarrow> ('e, 'g) world \<Rightarrow> (addr \<times> ('e, 'g) world) option" where
  "GV8ContextGlobal V ctx w =
     do { (isolate, local_ctx) \<leftarrow> ctx_scope V ctx w;
          let (g, w1) = engine_step (Context_Global V local_ctx) w;
          wrapValue V ctx isolate (Some g) w1 }"

definition GV8ContextNewObject ::
    "('e, 'g) v8 \<Rightarrow> addr \<Rightarrow> ('e, 'g) world \<Rightarrow> (GV8RtnValue \<times> ('e, 'g) world) option" where
  "GV8ContextNewObject V ctx w =
     do { (isolate, local_ctx) \<leftarrow> ctx_scope V ctx w;
          let (ob, w1) = engine_step (Object_New V) w;
          value_result V ctx isolate ob w1 }"

text \<open>\<open>static_cast<int>(length)\<close> reads the 32 bits as a signed number.\<close>

definition GV8ContextNewArray ::
    "('e, 'g) v8 \<Rightarrow> addr \<Rightarrow> u32 \<Rightarrow> ('e, 'g) world \<Rightarrow> (GV8RtnValue \<times> ('e, 'g) world) option" where
  "GV8ContextNewArray V ctx len w =
     do { (isolate, local_ctx) \<leftarrow> ctx_scope V ctx w;
          let (ob, w1) = engine_step (Array_New V (sint len)) w;
          value_result V ctx isolate ob w1 }"

definition GV8ContextNewFunction ::
    "('e, 'g) v8 \<Rightarrow> ('e, 'g) dispatcher \<Rightarrow> addr \<Rightarrow> int \<Rightarrow> ('e, 'g) world \<Rightarrow>
       (GV8RtnValue \<times> ('e, 'g) world) option" where
  "GV8ContextNewFunction V h ctx callback_id w =
     do { (isolate, local_ctx) \<leftarrow> ctx_scope V ctx w;
          let (fn, w1) = engine_step (Function_New V local_ctx callback_id) w;
          return_local V h ctx isolate fn w1 }"

definition GV8ContextNewPromiseResolver ::
    "('e, 'g) v8 \<Rightarrow> ('e, 'g) dispatcher \<Rightarrow> addr \<Rightarrow> ('e, 'g) world \<Rightarrow>
       (GV8RtnValue \<times> ('e, 'g) world) option" where
  "GV8ContextNewPromiseResolver V h ctx w =
     do { (isolate, local_ctx) \<leftarrow> ctx_scope V ctx w;
          let (resolver, w1) = engine_step (Resolver_New V local_ctx) w;
          return_local V h ctx isolate resolver w1 }"

section \<open>The invariant\<close>

lemma value_result_ok [ok_rules]:
  "value_result V c i l w = Some (r, w') \<Longrightarrow> world_ok (handles V) w \<Longrightarrow> handles_ok (handles V) \<Longrightarrow>
     world_ok (handles V) w'"
  by (auto simp: value_result_def run_simps) (assumption | rule ok_rules, assumption)+

lemma error_result_ok [ok_rules]:
  "error_result V h t w = Some (r, w') \<Longrightarrow> world_ok (handles V) w \<Longrightarrow> dispatcher_ok V h \<Longrightarrow>
     world_ok (handles V) w'"
  by (auto simp: error_result_def run_simps) (assumption | rule ok_rules, assumption)+

lemma return_local_ok [ok_rules]:
  "return_local V h c i l w = Some (r, w') \<Longrightarrow> world_ok (handles V) w \<Longrightarrow> handles_ok (handles V) \<Longrightarrow>
     dispatcher_ok V h \<Longrightarrow> world_ok (handles V) w'"
  by (auto simp: return_local_def run_simps) (assumption | rule ok_rules, assumption)+

lemma SetEmbedderDataV2_sel [simp]:
  "engine (SetEmbedderDataV2 c i d w) = engine w" "globals (SetEmbedderDataV2 c i d w) = globals w"
  "isolates (SetEmbedderDataV2 c i d w) = isolates w" "contexts (SetEmbedderDataV2 c i d w) = contexts w"
  "wrappers (SetEmbedderDataV2 c i d w) = wrappers w" "scripts (SetEmbedderDataV2 c i d w) = scripts w"
  "modules (SetEmbedderDataV2 c i d w) = modules w" "builders (SetEmbedderDataV2 c i d w) = builders w"
  "arrays (SetEmbedderDataV2 c i d w) = arrays w" "blobs (SetEmbedderDataV2 c i d w) = blobs w"
  "next_addr (SetEmbedderDataV2 c i d w) = next_addr w"
  "slot_of (SetEmbedderDataV2 c i d w) = slot_of w"
  "world_ok H (SetEmbedderDataV2 c i d w) = world_ok H w"
  by (simp_all add: SetEmbedderDataV2_def)

lemma GV8ContextGlobal_ok [ok_rules]:
  "GV8ContextGlobal V c w = Some (r, w') \<Longrightarrow> world_ok (handles V) w \<Longrightarrow> handles_ok (handles V) \<Longrightarrow>
     world_ok (handles V) w'"
  by (auto simp: GV8ContextGlobal_def run_simps) (assumption | rule ok_rules, assumption)+

lemma GV8ContextNewObject_ok [ok_rules]:
  "GV8ContextNewObject V c w = Some (r, w') \<Longrightarrow> world_ok (handles V) w \<Longrightarrow> handles_ok (handles V) \<Longrightarrow>
     world_ok (handles V) w'"
  by (auto simp: GV8ContextNewObject_def run_simps) (assumption | rule ok_rules, assumption)+

lemma GV8ContextNewArray_ok [ok_rules]:
  "GV8ContextNewArray V c n w = Some (r, w') \<Longrightarrow> world_ok (handles V) w \<Longrightarrow> handles_ok (handles V) \<Longrightarrow>
     world_ok (handles V) w'"
  by (auto simp: GV8ContextNewArray_def run_simps) (assumption | rule ok_rules, assumption)+

lemma GV8ContextNewFunction_ok [ok_rules]:
  "GV8ContextNewFunction V h c i w = Some (r, w') \<Longrightarrow> world_ok (handles V) w \<Longrightarrow>
     handles_ok (handles V) \<Longrightarrow> dispatcher_ok V h \<Longrightarrow> world_ok (handles V) w'"
  by (auto simp: GV8ContextNewFunction_def run_simps) (assumption | rule ok_rules, assumption)+

lemma GV8ContextNewPromiseResolver_ok [ok_rules]:
  "GV8ContextNewPromiseResolver V h c w = Some (r, w') \<Longrightarrow> world_ok (handles V) w \<Longrightarrow>
     handles_ok (handles V) \<Longrightarrow> dispatcher_ok V h \<Longrightarrow> world_ok (handles V) w'"
  by (auto simp: GV8ContextNewPromiseResolver_def run_simps) (assumption | rule ok_rules, assumption)+

text \<open>A context with an empty registry joins the world; a context changes in fields the registry does
  not mention.\<close>

lemma registry_okI:
  assumes "\<And>c x. contexts w c = Some x \<Longrightarrow> ctx_registry_ok w c x"
    and "\<And>v y. wrappers w v = Some y \<Longrightarrow> val_ptr y \<noteq> 0"
    and "\<And>v y. wrappers w v = Some y \<Longrightarrow> val_id y \<noteq> 0 \<Longrightarrow>
      \<exists>x. contexts w (val_ctx y) = Some x \<and> map_of (ctx_values x) (val_id y) = Some v"
  shows "registry_ok w"
  using assms by (simp add: registry_ok_def)

lemma ctx_registry_ok_cong: "wrappers w' = wrappers w \<Longrightarrow> ctx_registry_ok w' c x = ctx_registry_ok w c x"
  by (simp add: ctx_registry_ok_def)

lemma registry_ok_new_context:
  assumes reg: "registry_ok w" and new: "contexts w c = None"
    and x: "ctx_values x = []" "ctx_next_value_id x = 0"
    and w': "contexts w' = (contexts w)(c \<mapsto> x)" "wrappers w' = wrappers w"
  shows "registry_ok w'"
proof (rule registry_okI)
  fix d z assume "contexts w' d = Some z"
  then have "d = c \<and> z = x \<or> contexts w d = Some z" by (auto simp: w' split: if_splits)
  then have "ctx_registry_ok w d z"
    using registry_ok_ctx [OF reg] by (auto simp: ctx_registry_ok_def x)
  then show "ctx_registry_ok w' d z" by (simp add: ctx_registry_ok_cong [OF w'(2)])
next
  fix v y assume y: "wrappers w' v = Some y"
  then show "val_ptr y \<noteq> 0" using registry_ok_val(1) [OF reg] by (simp add: w')
  assume "val_id y \<noteq> 0"
  with y registry_ok_val(2) [OF reg, of v y] new
  show "\<exists>x. contexts w' (val_ctx y) = Some x \<and> map_of (ctx_values x) (val_id y) = Some v"
    by (auto simp: w')
qed

lemma registry_ok_same_values:
  assumes reg: "registry_ok w" and c: "contexts w c = Some x"
    and x: "ctx_values x' = ctx_values x" "ctx_next_value_id x' = ctx_next_value_id x"
    and w': "contexts w' = (contexts w)(c \<mapsto> x')" "wrappers w' = wrappers w"
  shows "registry_ok w'"
proof (rule registry_okI)
  fix d z assume "contexts w' d = Some z"
  then have "d = c \<and> z = x' \<or> contexts w d = Some z" by (auto simp: w' split: if_splits)
  then have "ctx_registry_ok w d z"
    using registry_ok_ctx [OF reg] registry_ok_ctx [OF reg c] by (auto simp: ctx_registry_ok_def x)
  then show "ctx_registry_ok w' d z" by (simp add: ctx_registry_ok_cong [OF w'(2)])
next
  fix v y assume y: "wrappers w' v = Some y"
  then show "val_ptr y \<noteq> 0" using registry_ok_val(1) [OF reg] by (simp add: w')
  assume "val_id y \<noteq> 0"
  with y registry_ok_val(2) [OF reg, of v y] c x
  show "\<exists>x. contexts w' (val_ctx y) = Some x \<and> map_of (ctx_values x) (val_id y) = Some v"
    by (auto simp: w')
qed

lemma new_context_ok:
  assumes ok: "world_ok H w" and H: "handles_ok H"
    and gl: "GlobalizeReference H ob (globals w) = (s, g)"
    and x: "ctx_ptr x = s" "ctx_values x = []" "ctx_next_value_id x = 0"
    and w': "w' = put_context a (Some x) (w\<lparr>next_addr := a, globals := g\<rparr>)" "a = Suc (next_addr w)"
  shows "world_ok H w'"
proof -
  from ok have new: "contexts w a = None" and reg: "registry_ok w" and sl: "slots_ok H w"
    by (simp_all add: w'(2) world_ok_def fresh_ok_fresh)
  have "slots_ok H w'"
    by (rule slots_ok_gain [OF sl H gl, where p = "OwnContext a"]) (simp_all add: w'(1) x new)
  moreover have "registry_ok w'"
    by (rule registry_ok_new_context [OF reg new x(2,3)]) (simp_all add: w'(1))
  moreover have "fresh_ok w'"
    using ok by (simp add: w' world_ok_def fresh_ok_def)
  ultimately show ?thesis by (simp add: world_ok_def)
qed

lemma GV8NewContext_ok [ok_rules]:
  assumes eq: "GV8NewContext V isolate ref w = Some (a, w')"
    and ok: "world_ok (handles V) w" and H: "handles_ok (handles V)"
  shows "world_ok (handles V) w'"
proof -
  obtain c w1 where w1: "engine_step (Context_New V isolate) w = (Some c, w1)"
    and rest: "w' = SetEmbedderDataV2 c 2 (EExternal a) (put_context a (Some
      \<lparr>ctx_iso = isolate, ctx_ptr = fst (GlobalizeReference (handles V) c (globals w1)), ctx_ref = ref,
       ctx_values = [], ctx_next_value_id = 0, ctx_snapshot_blob = nullptr, ctx_snapshot_data = nullptr\<rparr>)
      ((SetEmbedderDataV2 c 1 (EInteger ref) w1)\<lparr>next_addr := a,
         globals := snd (GlobalizeReference (handles V) c (globals w1))\<rparr>))"
    "a = Suc (next_addr w1)"
    using eq by (auto simp: GV8NewContext_def run_simps new_addr_def reset_to_null)
  let ?w2 = "SetEmbedderDataV2 c 1 (EInteger ref) w1"
  from world_ok_engine_step [OF w1 ok] have ok2: "world_ok (handles V) ?w2" by simp
  have gl: "GlobalizeReference (handles V) c (globals ?w2) =
      (fst (GlobalizeReference (handles V) c (globals w1)), snd (GlobalizeReference (handles V) c (globals w1)))"
    by simp
  show ?thesis unfolding rest(1)
    by (subst SetEmbedderDataV2_sel(13), rule new_context_ok [OF ok2 H gl _ _ _ refl])
      (simp_all add: rest(2))
qed

section \<open>Disposing a context\<close>

text \<open>The loop keeps less than the full invariant: while it runs the registry names values that are
  gone.\<close>

definition loop_ok :: "('e, 'g) v8 \<Rightarrow> ('e, 'g) world \<Rightarrow> bool" where
  "loop_ok V w \<longleftrightarrow> handles_ok (handles V) \<and> slots_ok (handles V) w \<and>
     (\<forall>v y. wrappers w v = Some y \<longrightarrow> val_ptr y \<noteq> 0)"

interpretation dispose_loop:
    disposable "loop_ok V" wrappers "\<lambda>w. cell (handles V) (globals w)" val_ptr
      "\<lambda>w. (machine w, contexts w, scripts w, modules w, builders w)" "dispose_value V"
  for V :: "('e, 'g) v8"
proof unfold_locales
  fix w :: "('e, 'g) world" and a y
  assume w: "loop_ok V w" and y: "wrappers w a = Some y"
  let ?w' = "put_wrapper a None (reset V (val_ptr y) w)"
  from w y have H: "handles_ok (handles V)" and sl: "slots_ok (handles V) w"
    and slot: "slot_of w (OwnValue a) = val_ptr y" "val_ptr y \<noteq> 0"
    by (auto simp: loop_ok_def)
  obtain ob where ob: "cell (handles V) (globals w) (val_ptr y) = Some ob"
    using slots_ok_cell [OF sl, of "OwnValue a"] slot by auto
  have "slots_ok (handles V) ?w'"
    by (rule slots_ok_lose [OF sl H, where p = "OwnValue a"]) (simp_all add: y)
  then have "loop_ok V ?w'" using w by (auto simp: loop_ok_def split: if_splits)
  then show "\<exists>w'. dispose_value V a w = Some w' \<and> loop_ok V w' \<and> wrappers w' = (wrappers w)(a := None) \<and>
      cell (handles V) (globals w') = (cell (handles V) (globals w))(val_ptr y := None) \<and>
      (machine w', contexts w', scripts w', modules w', builders w') =
        (machine w, contexts w, scripts w, modules w, builders w)"
    using reset_cell [OF H ob] by (simp add: dispose_value_def y machine_def)
qed

text \<open>The values a context tracks, and what a registry says about them.\<close>

definition tracked :: "('e, 'g) world \<Rightarrow> addr \<Rightarrow> addr set" where
  "tracked w c = {v. \<exists>y. wrappers w v = Some y \<and> val_ctx y = c \<and> val_id y \<noteq> 0}"

lemma registry_tracked:
  assumes reg: "registry_ok w" and x: "contexts w c = Some x"
  shows "set (map snd (ctx_values x)) = tracked w c" "distinct (map snd (ctx_values x))"
proof -
  note rx = registry_ok_ctx [OF reg x]
  then have d: "distinct (map fst (ctx_values x))" by (simp add: ctx_registry_ok_def)
  note mem = map_of_in_set [OF d]
  have inj: "i = j" if "(i, v) \<in> set (ctx_values x)" "(j, v) \<in> set (ctx_values x)" for i j v
  proof -
    from that mem have "map_of (ctx_values x) i = Some v" "map_of (ctx_values x) j = Some v" by blast+
    then obtain y y' where "wrappers w v = Some y" "val_id y = i" "wrappers w v = Some y'" "val_id y' = j"
      using registry_live [OF reg x] by metis
    then show ?thesis by simp
  qed
  show "set (map snd (ctx_values x)) = tracked w c"
  proof (intro equalityI subsetI)
    fix v assume "v \<in> set (map snd (ctx_values x))"
    then obtain i where "map_of (ctx_values x) i = Some v" using mem by auto
    then show "v \<in> tracked w c"
      by (rule registry_live [OF reg x]) (auto simp: tracked_def)
  next
    fix v assume "v \<in> tracked w c"
    then obtain y where y: "wrappers w v = Some y" "val_ctx y = c" "val_id y \<noteq> 0"
      by (auto simp: tracked_def)
    with registry_ok_val(2) [OF reg y(1)] x mem show "v \<in> set (map snd (ctx_values x))" by force
  qed
  have "distinct (ctx_values x)" using d by (simp add: distinct_map)
  moreover have "inj_on snd (set (ctx_values x))"
    using inj by (auto simp: inj_on_def)
  ultimately show "distinct (map snd (ctx_values x))" by (simp add: distinct_map)
qed

lemma below_restrict: "below m n \<Longrightarrow> below (m |` A) n"
  by (auto simp: below_def restrict_map_def split: if_splits)

text \<open>The context's handle is reset first.\<close>

lemma dispose_start:
  assumes ok: "world_ok (handles V) w" and H: "handles_ok (handles V)" and x: "contexts w c = Some x"
    and w1: "w1 = put_context c (Some (x\<lparr>ctx_ptr := nullptr\<rparr>)) (reset V (ctx_ptr x) w)"
  shows "loop_ok V w1"
    "cell (handles V) (globals w1) = (cell (handles V) (globals w))(ctx_ptr x := None)"
    "wrappers w1 = wrappers w" "contexts w1 = (contexts w)(c \<mapsto> x\<lparr>ctx_ptr := nullptr\<rparr>)"
    "(machine w1, scripts w1, modules w1, builders w1) = (machine w, scripts w, modules w, builders w)"
proof -
  from ok have sl: "slots_ok (handles V) w" and reg: "registry_ok w" by (simp_all add: world_ok_def)
  have "slots_ok (handles V) w1"
    by (rule slots_ok_lose [OF sl H, where p = "OwnContext c"]) (simp_all add: w1 x)
  with H reg show "loop_ok V w1" by (auto simp: loop_ok_def w1 registry_ok_def)
  show "cell (handles V) (globals w1) = (cell (handles V) (globals w))(ctx_ptr x := None)"
  proof (cases "ctx_ptr x = 0")
    case True
    then show ?thesis using handles_ok_null [OF H] by (simp add: w1 fun_eq_iff)
  next
    case False
    with live_context_cell [OF ok x] obtain l where "cell (handles V) (globals w) (ctx_ptr x) = Some l"
      by blast
    from reset_cell [OF H this] show ?thesis by (simp add: w1)
  qed
qed (simp_all add: w1 machine_def)

lemma dispose_registry:
  assumes ok: "world_ok H w" and x: "contexts w c = Some x"
    and w': "wrappers w' = wrappers w |` (- tracked w c)" "contexts w' = (contexts w)(c := None)"
  shows "registry_ok w'"
proof (rule registry_okI)
  from ok have reg: "registry_ok w" by (simp add: world_ok_def)
  {
    fix d z assume "contexts w' d = Some z"
    then have d: "contexts w d = Some z" "d \<noteq> c" by (auto simp: w' split: if_splits)
    have "wrappers w' v = wrappers w v" if "map_of (ctx_values z) i = Some v" for i v
    proof -
      have "v \<notin> tracked w c"
        by (rule registry_live [OF reg d(1) that]) (use d(2) in \<open>auto simp: tracked_def\<close>)
      then show ?thesis by (simp add: w')
    qed
    then show "ctx_registry_ok w' d z"
      using registry_ok_ctx [OF reg d(1)] by (simp add: ctx_registry_ok_def)
  next
    fix v y assume "wrappers w' v = Some y"
    then have y: "wrappers w v = Some y" "v \<notin> tracked w c"
      by (auto simp: w' restrict_map_def split: if_splits)
    then show "val_ptr y \<noteq> 0" using registry_ok_val(1) [OF reg] by blast
    assume id: "val_id y \<noteq> 0"
    with y have "val_ctx y \<noteq> c" by (auto simp: tracked_def)
    with registry_ok_val(2) [OF reg y(1) id]
    show "\<exists>x. contexts w' (val_ctx y) = Some x \<and> map_of (ctx_values x) (val_id y) = Some v"
      by (simp add: w')
  }
qed

lemma GV8ContextDispose_live:
  assumes ok: "world_ok (handles V) w" and H: "handles_ok (handles V)" and x: "contexts w c = Some x"
  obtains w' where "GV8ContextDispose V c w = Some w'" "world_ok (handles V) w'"
    "contexts w' = (contexts w)(c := None)" "wrappers w' = wrappers w |` (- tracked w c)"
    "cell (handles V) (globals w') = (cell (handles V) (globals w))(ctx_ptr x := None) |`
       (- (\<lambda>v. val_ptr (the (wrappers w v))) ` tracked w c)"
    "(machine w', scripts w', modules w', builders w') = (machine w, scripts w, modules w, builders w)"
proof -
  define w1 where w1: "w1 = put_context c (Some (x\<lparr>ctx_ptr := nullptr\<rparr>)) (reset V (ctx_ptr x) w)"
  note start = dispose_start [OF ok H x w1]
  from ok have reg: "registry_ok w" by (simp add: world_ok_def)
  note tr = registry_tracked [OF reg x]
  have "tracked w c \<subseteq> dom (wrappers w1)" by (auto simp: tracked_def start(3))
  with dispose_loop.release_each_live [OF start(1) tr(2)] tr(1) start(3)
  obtain w2 where w2: "release_each (dispose_value V) (map snd (ctx_values x)) w1 = Some w2" "loop_ok V w2"
    "wrappers w2 = wrappers w |` (- tracked w c)"
    "cell (handles V) (globals w2) = cell (handles V) (globals w1) |`
       (- (\<lambda>v. val_ptr (the (wrappers w v))) ` tracked w c)"
    "machine w2 = machine w1" "contexts w2 = contexts w1" "scripts w2 = scripts w1"
    "modules w2 = modules w1" "builders w2 = builders w1"
    by auto
  define w' where w': "w' = put_context c None w2"
  have ctxs: "contexts w' = (contexts w)(c := None)" by (simp add: w' w2 start(4))
  have "slots_ok (handles V) w'"
    by (rule slots_ok_same [of _ w2])
      (use w2(2) in \<open>auto simp: w' loop_ok_def fun_eq_iff w2(6) start(4)\<close>)
  moreover have "registry_ok w'"
    by (rule dispose_registry [OF ok x _ ctxs]) (simp add: w' w2)
  moreover have "fresh_ok w'"
    using ok w2(5,7-) start(5)
    by (simp add: world_ok_def fresh_ok_def ctxs machine_def) (simp add: w' w2(3,7-) below_restrict)
  ultimately have ok': "world_ok (handles V) w'" by (simp add: world_ok_def)
  have "c \<noteq> 0" using x ok by (metis world_ok_null(2) option.distinct(1))
  then have "GV8ContextDispose V c w = Some w'"
    by (simp add: GV8ContextDispose_def x Let_def w1 [symmetric] w2(1) w')
  moreover have "wrappers w' = wrappers w |` (- tracked w c)" by (simp add: w' w2)
  moreover have "cell (handles V) (globals w') = (cell (handles V) (globals w))(ctx_ptr x := None) |`
       (- (\<lambda>v. val_ptr (the (wrappers w v))) ` tracked w c)"
    by (simp add: w' w2 start(2))
  moreover have "(machine w', scripts w', modules w', builders w') = (machine w, scripts w, modules w, builders w)"
    using start(5) w2(5,7-) by (simp add: w' machine_def)
  ultimately show thesis by (rule that [OF _ ok' ctxs])
qed

lemma GV8ContextDispose_ok [ok_rules]:
  assumes eq: "GV8ContextDispose V c w = Some w'"
    and ok: "world_ok (handles V) w" and H: "handles_ok (handles V)"
  shows "world_ok (handles V) w'"
proof (cases "c = 0")
  case True
  with eq ok show ?thesis by (simp add: GV8ContextDispose_def)
next
  case False
  with eq obtain x where x: "contexts w c = Some x" by (auto simp: GV8ContextDispose_def)
  show ?thesis by (rule GV8ContextDispose_live [OF ok H x]) (use eq in simp)
qed

section \<open>Results\<close>

text \<open>In a live context with room for another id, returning a local gives one new handle that reads it.\<close>

lemma value_result_live:
  assumes ok: "world_ok (handles V) w" and H: "handles_ok (handles V)"
    and c: "contexts w c = Some x" "ctx_next_value_id x < LONG_MAX"
  obtains a w' y where "value_result V c isolate ob w = Some (EmptyValueResult\<lparr>rv_value := a\<rparr>, w')"
    "a \<noteq> nullptr" "wrappers w' a = Some y" "get_obj V (val_ptr y) w' = Some ob" "val_ctx y = c"
    "val_iso y = isolate" "machine w' = machine (w\<lparr>next_addr := Suc (next_addr w)\<rparr>)"
proof -
  obtain s g where gl: "GlobalizeReference (handles V) ob (globals w) = (s, g)"
    by (cases "GlobalizeReference (handles V) ob (globals w)")
  note eq = wrapValue_eq [OF gl c, of isolate] and fresh = handles_ok_globalize [OF H gl]
  show thesis
    by (rule that [of "Suc (next_addr w)" "snd (the (value_result V c isolate ob w))"
          "\<lparr>val_id = ctx_next_value_id x + 1, val_ctx = c, val_iso = isolate, val_ptr = s\<rparr>"])
      (use fresh in \<open>simp_all add: value_result_def eq get_obj_Some machine_def\<close>)
qed

lemma EmptyValueResult_sel [simp]:
  "rv_value EmptyValueResult = nullptr" "rv_error EmptyValueResult = EmptyError"
  by (simp_all add: EmptyValueResult_def)

lemma EmptyError_sel [simp]:
  "err_msg EmptyError = None" "err_location EmptyError = None" "err_stack EmptyError = None"
  by (simp_all add: EmptyError_def)

text \<open>Every operation that ends in \<open>return_local\<close> answers with a value or with an error.\<close>

lemma return_local_value:
  assumes "return_local V h c isolate r w = Some (res, w')"
  shows "rv_value res \<noteq> nullptr \<longleftrightarrow> (\<exists>ob. r = Ok ob)"
  using assms wrapValue_SomeD(1)
  by (cases r) (fastforce simp: return_local_def value_result_def error_result_def)+

lemma engine_step_sel:
  "engine_step f w = (x, w1) \<Longrightarrow> contexts w1 = contexts w \<and> wrappers w1 = wrappers w \<and>
     globals w1 = globals w \<and> isolates w1 = isolates w \<and> embedder w1 = embedder w \<and>
     scripts w1 = scripts w \<and> modules w1 = modules w \<and> builders w1 = builders w \<and>
     next_addr w1 = next_addr w \<and> f (engine w) = (x, engine w1)"
  by (auto simp: engine_step_def split: prod.splits)

lemma ctx_scope_SomeD:
  "ctx_scope V c w = Some (i, l) \<Longrightarrow> \<exists>x. contexts w c = Some x \<and> ctx_iso x = i \<and> get_obj V (ctx_ptr x) w = Some l"
  by (auto simp: ctx_scope_def)

section \<open>Properties\<close>

text \<open>Disposing a live context always succeeds; it frees the context, exactly the values it tracks,
  and exactly the storage cells of these, and leaves every other context, borrowed value, script and
  module as it was.\<close>

lemma GV8ContextDispose_exact:
  assumes ok: "world_ok (handles V) w" and H: "handles_ok (handles V)" and x: "contexts w c = Some x"
  shows "\<exists>w'. GV8ContextDispose V c w = Some w' \<and> world_ok (handles V) w' \<and>
    contexts w' = (contexts w)(c := None) \<and> wrappers w' = wrappers w |` (- tracked w c) \<and>
    live_cells (handles V) (globals w') = live_cells (handles V) (globals w) - {ctx_ptr x} -
      (\<lambda>v. val_ptr (the (wrappers w v))) ` tracked w c \<and>
    scripts w' = scripts w \<and> modules w' = modules w \<and> builders w' = builders w"
proof -
  obtain w' where w': "GV8ContextDispose V c w = Some w'" "world_ok (handles V) w'"
    "contexts w' = (contexts w)(c := None)" "wrappers w' = wrappers w |` (- tracked w c)"
    "cell (handles V) (globals w') = (cell (handles V) (globals w))(ctx_ptr x := None) |`
       (- (\<lambda>v. val_ptr (the (wrappers w v))) ` tracked w c)"
    "scripts w' = scripts w" "modules w' = modules w" "builders w' = builders w"
    by (rule GV8ContextDispose_live [OF ok H x]) (use that in blast)
  then show ?thesis
    by (intro exI [of _ w']) (auto simp: live_cells_def restrict_map_def split: if_splits)
qed

text \<open>A new context is found again by the callbacks: the V8 context it wraps carries the address of
  the new \<open>gv8_ctx\<close> in embedder slot 2 and the host's reference in slot 1, its registry is empty, and
  entering it enters the given isolate and that V8 context.\<close>

lemma GV8NewContext_found:
  assumes ok: "world_ok (handles V) w" and H: "handles_ok (handles V)"
    and new: "GV8NewContext V isolate ref w = Some (a, w')"
  shows "\<exists>c x. ctx_scope V a w' = Some (isolate, c) \<and> callback_ctx c w' = Some a \<and>
    embedder w' c 1 = Some (EInteger ref) \<and> contexts w a = None \<and> contexts w' = (contexts w)(a \<mapsto> x) \<and>
    ctx_ref x = ref \<and> ctx_values x = [] \<and> world_ok (handles V) w'"
proof -
  obtain c w1 s g d where w1: "engine_step (Context_New V isolate) w = (Some c, w1)"
    and gl: "GlobalizeReference (handles V) c (globals w1) = (s, g)" and d: "isolates w isolate = Some d"
    and w': "w' = SetEmbedderDataV2 c 2 (EExternal a) (put_context a (Some
      \<lparr>ctx_iso = isolate, ctx_ptr = s, ctx_ref = ref, ctx_values = [], ctx_next_value_id = 0,
       ctx_snapshot_blob = nullptr, ctx_snapshot_data = nullptr\<rparr>)
      ((SetEmbedderDataV2 c 1 (EInteger ref) w1)\<lparr>next_addr := a, globals := g\<rparr>))"
    and a: "a = Suc (next_addr w1)"
    using new
    by (auto simp: GV8NewContext_def run_simps new_addr_def reset_to_null iso_scope_def
        intro!: that [OF _ surjective_pairing])
  from w1 have same: "contexts w1 = contexts w" "isolates w1 = isolates w"
    by (auto simp: engine_step_def split: prod.splits)
  from world_ok_engine_step [OF w1 ok] have "contexts w1 a = None"
    by (simp add: a world_ok_def fresh_ok_fresh)
  moreover note fresh = handles_ok_globalize [OF H gl]
  ultimately show ?thesis
    using GV8NewContext_ok [OF new ok H] d
    by (intro exI [of _ c] exI [of _ "the (contexts w' a)"])
      (simp add: w' same ctx_scope_def iso_scope_def get_obj_Some callback_ctx_def SetEmbedderDataV2_def)
qed

text \<open>C7: disposing a context does not clear the embedder slot its V8 context keeps, so a callback that
  V8 makes later in that context, for instance from a queued promise job, has no defined behaviour:
  host functions, static imports and dynamic imports all read the freed \<open>gv8_ctx\<close>.\<close>

theorem callback_after_dispose:
  assumes ok: "world_ok (handles V) w" and H: "handles_ok (handles V)"
    and ctx: "callback_ctx context w = Some c" "contexts w c \<noteq> None"
    and dead: "GV8ContextDispose V c w = Some w'"
  shows "callback_ctx context w' = Some c \<and>
    HostFunctionCallback V G isolate context this args cb w' = None \<and>
    ResolveModuleCallback V G isolate context spec referrer w' = None \<and>
    DynamicImportCallback V G isolate context spec resource w' = None"
proof -
  from ctx obtain x where x: "contexts w c = Some x" by blast
  have w': "contexts w' c = None" "machine w' = machine w"
    by (rule GV8ContextDispose_live [OF ok H x]; use dead in simp)+
  then have e: "callback_ctx context w' = Some c"
    using ctx(1) by (simp add: callback_ctx_def machine_def)
  have "contexts w2 c = None" if "wrap_args V c isolate args w1 = (argv, w2)"
    "wrapBorrowedValue V c isolate (Some this) w' = (recv, w1)" for w1 w2 argv recv
    using wrap_args_facts(2) [OF that(1)] wrapBorrowedValue_facts(3) [OF that(2)] w'(1) by simp
  then have "HostFunctionCallback V G isolate context this args cb w' = None"
    by (simp add: HostFunctionCallback_def e split: prod.splits)
  moreover have "ResolveModuleCallback V G isolate context spec referrer w' = None"
    using w'(1) by (simp add: ResolveModuleCallback_def e enter_ref_def new_addr_def reset_to_null)
  moreover have "DynamicImportCallback V G isolate context spec resource w' = None"
    using w'(1) by (simp add: DynamicImportCallback_def e)
  ultimately show ?thesis using e by simp
qed

theorem callback_after_dispose_witness:
  "\<exists>w'. GV8ContextDispose demo_v8 1 demo_world = Some w' \<and>
     HostFunctionCallback demo_v8 demo_host 100 1 2 [] 5 w' = None"
proof -
  have c: "callback_ctx 1 demo_world = Some 1" "contexts demo_world 1 \<noteq> None"
    by (simp_all add: callback_ctx_def demo_world_def)
  have "contexts demo_world 1 = Some demo_ctx" by simp
  then obtain w' where w': "GV8ContextDispose demo_v8 1 demo_world = Some w'"
    by (rule GV8ContextDispose_live [OF demo_world_ok demo_handles_ok]) (rule that; assumption)
  from callback_after_dispose [OF demo_world_ok demo_handles_ok c w'] w' show ?thesis by blast
qed

text \<open>C10: \<open>GV8ContextNewArray\<close> passes its unsigned length through \<open>int\<close>. With the documented behaviour
  of \<open>Array::New\<close> ("if the length is negative the returned array will have length 0") the array has
  the requested length below 2^31, and length 0 for every request of 2^31 or more.\<close>

theorem GV8ContextNewArray_length:
  assumes doc: "\<forall>n e ob e'. Array_New V n e = (ob, e') \<longrightarrow>
      Array_Length V ob e' = (if n < 0 then 0 else of_int n)"
    and ok: "world_ok (handles V) w" and H: "handles_ok (handles V)"
    and scope: "ctx_scope V c w \<noteq> None"
    and c: "contexts w c = Some x" "ctx_next_value_id x < LONG_MAX"
  shows "\<exists>res w' y ob. GV8ContextNewArray V c len w = Some (res, w') \<and>
    wrappers w' (rv_value res) = Some y \<and> get_obj V (val_ptr y) w' = Some ob \<and>
    Array_Length V ob (engine w') = (if unat len < 2 ^ 31 then len else 0)"
proof -
  from scope obtain i l where s: "ctx_scope V c w = Some (i, l)" by auto
  obtain ob w1 where w1: "engine_step (Array_New V (sint len)) w = (ob, w1)"
    by (cases "engine_step (Array_New V (sint len)) w")
  note sel = engine_step_sel [OF w1]
  have c1: "contexts w1 c = Some x" using sel c by simp
  obtain a w' y where r: "value_result V c i ob w1 = Some (EmptyValueResult\<lparr>rv_value := a\<rparr>, w')"
    "wrappers w' a = Some y" "get_obj V (val_ptr y) w' = Some ob"
    "machine w' = machine (w1\<lparr>next_addr := Suc (next_addr w1)\<rparr>)"
    by (rule value_result_live [OF world_ok_engine_step [OF w1 ok] H c1 c(2)]) (rule that; assumption)
  have "engine w' = engine w1" using r(4) by (simp add: machine_def)
  moreover have "Array_Length V ob (engine w1) = (if sint len < 0 then 0 else of_int (sint len))"
    using sel doc by blast
  moreover have "sint len < 0 \<longleftrightarrow> \<not> unat len < 2 ^ 31"
    using unsigned_less [of len, where 'a = int] by (simp add: sint_u32)
  ultimately show ?thesis
    using r by (auto simp: GV8ContextNewArray_def s w1)
qed

theorem GV8ContextNewArray_length_witness:
  "\<exists>res w' y ob. GV8ContextNewArray demo_v8 1 2147483649 demo_world = Some (res, w') \<and>
    wrappers w' (rv_value res) = Some y \<and> get_obj demo_v8 (val_ptr y) w' = Some ob \<and>
    Array_Length demo_v8 ob (engine w') = 0"
proof -
  have doc: "\<forall>n e ob e'. Array_New demo_v8 n e = (ob, e') \<longrightarrow>
      Array_Length demo_v8 ob e' = (if n < 0 then 0 else of_int n)"
    by (auto simp: demo_v8_def demo_alloc_def demo_get_def)
  have "ctx_scope demo_v8 1 demo_world \<noteq> None" "contexts demo_world 1 = Some demo_ctx"
    "ctx_next_value_id demo_ctx < LONG_MAX"
    by (simp_all add: ctx_scope_def iso_scope_def get_obj_def get_local_def persistent_Get_def
        handle_IsEmpty_def LONG_MAX_def)
  from GV8ContextNewArray_length [OF doc demo_world_ok demo_handles_ok this, where len = 2147483649]
  show ?thesis by (simp add: One_nat_def)
qed

end
