(* ===== verification/Gv8_Script.thy ===== *)
theory Gv8_Script
  imports Gv8_Context
begin

text \<open>
  Scripts and modules: running a script in a context, compiling unbound scripts and modules in the
  isolate's internal context (made on demand for an isolate from a snapshot), and running,
  instantiating, evaluating and releasing them.
\<close>

section \<open>The internal context\<close>

definition internalContext :: "addr \<Rightarrow> ('e, 'g) world \<Rightarrow> addr option" where
  "internalContext isolate w = do { d \<leftarrow> isolates w isolate; Some (iso_data0 d) }"

definition InternalCompileContext ::
    "('e, 'g) v8 \<Rightarrow> addr \<Rightarrow> ('e, 'g) world \<Rightarrow> (obj option \<times> ('e, 'g) world) option" where
  "InternalCompileContext V isolate w =
     do { internal \<leftarrow> internalContext isolate w;
          x \<leftarrow> contexts w internal;
          let w1 = (if handle_IsEmpty (ctx_ptr x) then
                      (let (local, v1) = engine_step (Context_New V isolate) w;
                           (s, v2) = reset_to V (ctx_ptr x) local v1
                       in put_context internal (Some (x\<lparr>ctx_ptr := s\<rparr>)) v2)
                    else w);
          x1 \<leftarrow> contexts w1 internal;
          l \<leftarrow> get_local V (ctx_ptr x1) w1;
          Some (l, w1) }"

section \<open>Scripts\<close>

text \<open>Source string and origin are made in this order by every compiling operation.\<close>

definition script_source ::
    "('e, 'g) v8 \<Rightarrow> string \<Rightarrow> string \<Rightarrow> int \<Rightarrow> int \<Rightarrow> bool \<Rightarrow> ('e, 'g) world \<Rightarrow>
       ((obj \<times> script_origin) \<times> ('e, 'g) world) option" where
  "script_source V source resource line col is_module w =
     do { (src, w1) \<leftarrow> new_string_checked V source w;
          (origin, w2) \<leftarrow> MakeOrigin V resource line col is_module w1;
          Some ((src, origin), w2) }"

definition GV8ContextRunScript ::
    "('e, 'g) v8 \<Rightarrow> ('e, 'g) dispatcher \<Rightarrow> addr \<Rightarrow> string \<Rightarrow> string \<Rightarrow> int \<Rightarrow> int \<Rightarrow> ('e, 'g) world \<Rightarrow>
       (GV8RtnValue \<times> ('e, 'g) world) option" where
  "GV8ContextRunScript V h ctx source resource line col w =
     do { (isolate, local_ctx) \<leftarrow> ctx_scope V ctx w;
          ((src, origin), w1) \<leftarrow> script_source V source resource line col False w;
          let (compiled, w2) = engine_step (Script_Compile V local_ctx src origin) w1;
          case compiled of
            Exn t \<Rightarrow> error_result V h t w2
          | Ok script \<Rightarrow>
              do { (r, w3) \<leftarrow> run h (Script_Run V local_ctx script) w2;
                   return_local V h ctx isolate r w3 } }"

definition GV8CompileUnboundScript ::
    "('e, 'g) v8 \<Rightarrow> ('e, 'g) dispatcher \<Rightarrow> addr \<Rightarrow> string \<Rightarrow> string \<Rightarrow> int \<Rightarrow> int \<Rightarrow> ('e, 'g) world \<Rightarrow>
       (GV8RtnUnboundScript \<times> ('e, 'g) world) option" where
  "GV8CompileUnboundScript V h isolate source resource line col w =
     do { _ \<leftarrow> iso_scope isolate w;
          (l, w1) \<leftarrow> InternalCompileContext V isolate w;
          local_ctx \<leftarrow> l;
          ((src, origin), w2) \<leftarrow> script_source V source resource line col False w1;
          let (compiled, w3) = engine_step (CompileUnbound V isolate src origin) w2;
          case compiled of
            Exn t \<Rightarrow> do { (e, w4) \<leftarrow> ExceptionError V h t w3; Some (\<lparr>rs_ptr = nullptr, rs_error = e\<rparr>, w4) }
          | Ok script \<Rightarrow>
              (let (wrap, w4) = new_addr w3;
                   (s, w5) = reset_to V nullptr (Some script) w4
               in Some (\<lparr>rs_ptr = wrap, rs_error = EmptyError\<rparr>,
                        put_script wrap (Some \<lparr>scr_iso = isolate, scr_ptr = s\<rparr>) w5)) }"

definition GV8UnboundScriptRun ::
    "('e, 'g) v8 \<Rightarrow> ('e, 'g) dispatcher \<Rightarrow> addr \<Rightarrow> addr \<Rightarrow> ('e, 'g) world \<Rightarrow>
       (GV8RtnValue \<times> ('e, 'g) world) option" where
  "GV8UnboundScriptRun V h ctx script_ptr w =
     do { (isolate, local_ctx) \<leftarrow> ctx_scope V ctx w;
          z \<leftarrow> scripts w script_ptr;
          script \<leftarrow> get_obj V (scr_ptr z) w;
          let (bound, w1) = engine_step (BindToCurrentContext V local_ctx script) w;
          (r, w2) \<leftarrow> run h (Script_Run V local_ctx bound) w1;
          return_local V h ctx isolate r w2 }"

definition GV8UnboundScriptRelease ::
    "('e, 'g) v8 \<Rightarrow> addr \<Rightarrow> ('e, 'g) world \<Rightarrow> ('e, 'g) world option" where
  "GV8UnboundScriptRelease V script_ptr w =
     (if script_ptr = nullptr then Some w
      else do { z \<leftarrow> scripts w script_ptr;
                Some (put_script script_ptr None (reset V (scr_ptr z) w)) })"

section \<open>Modules\<close>

definition GV8CompileModule ::
    "('e, 'g) v8 \<Rightarrow> ('e, 'g) dispatcher \<Rightarrow> addr \<Rightarrow> string \<Rightarrow> string \<Rightarrow> int \<Rightarrow> int \<Rightarrow> ('e, 'g) world \<Rightarrow>
       (GV8RtnModule \<times> ('e, 'g) world) option" where
  "GV8CompileModule V h isolate source resource line col w =
     do { _ \<leftarrow> iso_scope isolate w;
          (l, w1) \<leftarrow> InternalCompileContext V isolate w;
          local_ctx \<leftarrow> l;
          ((src, origin), w2) \<leftarrow> script_source V source resource line col True w1;
          let (compiled, w3) = engine_step (Module_Compile V isolate src origin) w2;
          case compiled of
            Exn t \<Rightarrow> do { (e, w4) \<leftarrow> ExceptionError V h t w3; Some (\<lparr>rmod_ptr = nullptr, rmod_error = e\<rparr>, w4) }
          | Ok m \<Rightarrow>
              (let (wrap, w4) = new_addr w3;
                   (s, w5) = reset_to V nullptr (Some m) w4
               in Some (\<lparr>rmod_ptr = wrap, rmod_error = EmptyError\<rparr>,
                        put_module wrap (Some \<lparr>mod_iso = isolate, mod_ptr = s\<rparr>) w5)) }"

definition GV8ModuleRelease ::
    "('e, 'g) v8 \<Rightarrow> addr \<Rightarrow> ('e, 'g) world \<Rightarrow> ('e, 'g) world option" where
  "GV8ModuleRelease V module_ptr w =
     (if module_ptr = nullptr then Some w
      else do { z \<leftarrow> modules w module_ptr;
                Some (put_module module_ptr None (reset V (mod_ptr z) w)) })"

text \<open>\<open>module_ptr->ptr.Get(iso)\<close>, used at once.\<close>

definition module_obj :: "('e, 'g) v8 \<Rightarrow> addr \<Rightarrow> ('e, 'g) world \<Rightarrow> obj option" where
  "module_obj V module_ptr w = do { z \<leftarrow> modules w module_ptr; get_obj V (mod_ptr z) w }"

text \<open>\<open>if (x.IsNothing()) return ExceptionError(...); return EmptyError();\<close>\<close>

definition status_result ::
    "('e, 'g) v8 \<Rightarrow> ('e, 'g) dispatcher \<Rightarrow> bool result \<Rightarrow> ('e, 'g) world \<Rightarrow>
       (GV8RtnError \<times> ('e, 'g) world) option" where
  "status_result V h r w =
     (case r of Ok _ \<Rightarrow> Some (EmptyError, w) | Exn t \<Rightarrow> ExceptionError V h t w)"

definition GV8ModuleInstantiate ::
    "('e, 'g) v8 \<Rightarrow> ('e, 'g) dispatcher \<Rightarrow> addr \<Rightarrow> addr \<Rightarrow> ('e, 'g) world \<Rightarrow>
       (GV8RtnError \<times> ('e, 'g) world) option" where
  "GV8ModuleInstantiate V h ctx module_ptr w =
     do { (isolate, local_ctx) \<leftarrow> ctx_scope V ctx w;
          m \<leftarrow> module_obj V module_ptr w;
          (ok, w1) \<leftarrow> run h (Module_Instantiate V local_ctx m) w;
          status_result V h ok w1 }"

definition GV8ModuleEvaluate ::
    "('e, 'g) v8 \<Rightarrow> ('e, 'g) dispatcher \<Rightarrow> addr \<Rightarrow> addr \<Rightarrow> ('e, 'g) world \<Rightarrow>
       (GV8RtnValue \<times> ('e, 'g) world) option" where
  "GV8ModuleEvaluate V h ctx module_ptr w =
     do { (isolate, local_ctx) \<leftarrow> ctx_scope V ctx w;
          m \<leftarrow> module_obj V module_ptr w;
          (r, w1) \<leftarrow> run h (Module_Evaluate V local_ctx m) w;
          return_local V h ctx isolate r w1 }"

definition GV8ModuleGetNamespace ::
    "('e, 'g) v8 \<Rightarrow> addr \<Rightarrow> addr \<Rightarrow> ('e, 'g) world \<Rightarrow> (addr \<times> ('e, 'g) world) option" where
  "GV8ModuleGetNamespace V ctx module_ptr w =
     do { (isolate, local_ctx) \<leftarrow> ctx_scope V ctx w;
          m \<leftarrow> module_obj V module_ptr w;
          let (result, w1) = engine_step (Module_Namespace V m) w;
          wrapValue V ctx isolate (Some result) w1 }"

definition GV8ModuleGetStatus :: "('e, 'g) v8 \<Rightarrow> addr \<Rightarrow> ('e, 'g) world \<Rightarrow> int option" where
  "GV8ModuleGetStatus V module_ptr w =
     do { z \<leftarrow> modules w module_ptr;
          _ \<leftarrow> iso_scope (mod_iso z) w;
          m \<leftarrow> get_obj V (mod_ptr z) w;
          Some (Module_Status V m (engine w)) }"

definition GV8ModuleGetScriptID :: "('e, 'g) v8 \<Rightarrow> addr \<Rightarrow> ('e, 'g) world \<Rightarrow> int option" where
  "GV8ModuleGetScriptID V module_ptr w =
     do { z \<leftarrow> modules w module_ptr;
          _ \<leftarrow> iso_scope (mod_iso z) w;
          m \<leftarrow> get_obj V (mod_ptr z) w;
          Some (Module_ScriptId V m (engine w)) }"

section \<open>The invariant\<close>

lemma InternalCompileContext_ok [ok_rules]:
  assumes eq: "InternalCompileContext V isolate w = Some (l, w')"
    and ok: "world_ok (handles V) w" and H: "handles_ok (handles V)"
  shows "world_ok (handles V) w'"
proof -
  obtain a x where x: "contexts w a = Some x" and
    w': "w' = (if handle_IsEmpty (ctx_ptr x) then
                      (let (local, v1) = engine_step (Context_New V isolate) w;
                           (s, v2) = reset_to V (ctx_ptr x) local v1
                       in put_context a (Some (x\<lparr>ctx_ptr := s\<rparr>)) v2)
                    else w)"
    using eq by (auto simp: InternalCompileContext_def let_eq_Some simp del: case_prod_conv split_paired_Ex)
  show ?thesis
  proof (cases "ctx_ptr x = 0")
    case False
    with w' ok show ?thesis by (simp add: handle_IsEmpty_def)
  next
    case True
    obtain local v1 where v1: "engine_step (Context_New V isolate) w = (local, v1)"
      by (cases "engine_step (Context_New V isolate) w")
    from world_ok_engine_step [OF v1 ok] have ok1: "world_ok (handles V) v1" .
    from engine_step_sel [OF v1] x have x1: "contexts v1 a = Some x" by simp
    show ?thesis
    proof (cases local)
      case None
      have upd: "x\<lparr>ctx_ptr := 0\<rparr> = x" using True by (cases x) simp
      then have "w' = put_context a (Some x) v1"
        by (simp add: w' handle_IsEmpty_def reset_to_def v1 None True upd)
      then have "w' = v1" using x1 by (simp add: put_context_def fun_upd_idem)
      with ok1 show ?thesis by simp
    next
      case (Some c)
      obtain s g where gl: "GlobalizeReference (handles V) c (globals v1) = (s, g)"
        by (cases "GlobalizeReference (handles V) c (globals v1)")
      have w2: "w' = put_context a (Some (x\<lparr>ctx_ptr := s\<rparr>)) (v1\<lparr>globals := g\<rparr>)"
        using Some v1 True by (simp add: w' handle_IsEmpty_def reset_to_null gl)
      from ok1 have sl: "slots_ok (handles V) v1" and reg: "registry_ok v1" by (simp_all add: world_ok_def)
      have "slots_ok (handles V) w'"
        by (rule slots_ok_gain [OF sl H gl, where p = "OwnContext a"]) (simp_all add: w2 x1 True)
      moreover have "registry_ok w'"
        by (rule registry_ok_same_values [OF reg x1]) (auto simp: w2)
      moreover have "fresh_ok w'"
        using ok1 x1 by (auto simp: w2 world_ok_def fresh_ok_def)
      ultimately show ?thesis by (simp add: world_ok_def)
    qed
  qed
qed

lemma script_source_ok [ok_rules]:
  "script_source V s r l c m w = Some (x, w') \<Longrightarrow> world_ok (handles V) w \<Longrightarrow> world_ok (handles V) w'"
  by (auto simp: script_source_def run_simps) (assumption | rule ok_rules, assumption)+

lemma status_result_ok [ok_rules]:
  "status_result V h r w = Some (e, w') \<Longrightarrow> world_ok (handles V) w \<Longrightarrow> dispatcher_ok V h \<Longrightarrow>
     world_ok (handles V) w'"
  by (auto simp: status_result_def run_simps) (assumption | rule ok_rules, assumption)+

lemma GV8ContextRunScript_ok [ok_rules]:
  "GV8ContextRunScript V h c s r l k w = Some (x, w') \<Longrightarrow> world_ok (handles V) w \<Longrightarrow>
     handles_ok (handles V) \<Longrightarrow> dispatcher_ok V h \<Longrightarrow> world_ok (handles V) w'"
  by (auto simp: GV8ContextRunScript_def run_simps) (assumption | rule ok_rules, assumption)+

text \<open>A new script or module object around a new storage cell.\<close>

lemma new_script_ok:
  assumes ok: "world_ok (handles V) w" and H: "handles_ok (handles V)"
  shows "world_ok (handles V) (put_script (Suc (next_addr w))
    (Some \<lparr>scr_iso = i, scr_ptr = fst (GlobalizeReference (handles V) ob (globals w))\<rparr>)
    (w\<lparr>next_addr := Suc (next_addr w), globals := snd (GlobalizeReference (handles V) ob (globals w))\<rparr>))"
  by (rule world_ok_gain [OF ok H surjective_pairing, where p = "OwnScript (Suc (next_addr w))"])
    (use ok handles_ok_globalize(1) [OF H surjective_pairing, of ob "globals w"] in
      \<open>simp_all add: world_ok_def fresh_ok_def below_fresh\<close>)

lemma new_module_ok:
  assumes ok: "world_ok (handles V) w" and H: "handles_ok (handles V)"
  shows "world_ok (handles V) (put_module (Suc (next_addr w))
    (Some \<lparr>mod_iso = i, mod_ptr = fst (GlobalizeReference (handles V) ob (globals w))\<rparr>)
    (w\<lparr>next_addr := Suc (next_addr w), globals := snd (GlobalizeReference (handles V) ob (globals w))\<rparr>))"
  by (rule world_ok_gain [OF ok H surjective_pairing, where p = "OwnModule (Suc (next_addr w))"])
    (use ok handles_ok_globalize(1) [OF H surjective_pairing, of ob "globals w"] in
      \<open>simp_all add: world_ok_def fresh_ok_def below_fresh\<close>)

lemma GV8CompileUnboundScript_ok [ok_rules]:
  "GV8CompileUnboundScript V h i s r l k w = Some (x, w') \<Longrightarrow> world_ok (handles V) w \<Longrightarrow>
     handles_ok (handles V) \<Longrightarrow> dispatcher_ok V h \<Longrightarrow> world_ok (handles V) w'"
  by (auto simp: GV8CompileUnboundScript_def run_simps new_addr_def reset_to_null intro!: new_script_ok)
    (assumption | rule ok_rules, assumption)+

lemma GV8CompileModule_ok [ok_rules]:
  "GV8CompileModule V h i s r l k w = Some (x, w') \<Longrightarrow> world_ok (handles V) w \<Longrightarrow>
     handles_ok (handles V) \<Longrightarrow> dispatcher_ok V h \<Longrightarrow> world_ok (handles V) w'"
  by (auto simp: GV8CompileModule_def run_simps new_addr_def reset_to_null intro!: new_module_ok)
    (assumption | rule ok_rules, assumption)+

lemma GV8UnboundScriptRun_ok [ok_rules]:
  "GV8UnboundScriptRun V h c s w = Some (x, w') \<Longrightarrow> world_ok (handles V) w \<Longrightarrow>
     handles_ok (handles V) \<Longrightarrow> dispatcher_ok V h \<Longrightarrow> world_ok (handles V) w'"
  by (auto simp: GV8UnboundScriptRun_def run_simps) (assumption | rule ok_rules, assumption)+

lemma GV8ModuleInstantiate_ok [ok_rules]:
  "GV8ModuleInstantiate V h c m w = Some (x, w') \<Longrightarrow> world_ok (handles V) w \<Longrightarrow>
     dispatcher_ok V h \<Longrightarrow> world_ok (handles V) w'"
  by (auto simp: GV8ModuleInstantiate_def run_simps) (assumption | rule ok_rules, assumption)+

lemma GV8ModuleEvaluate_ok [ok_rules]:
  "GV8ModuleEvaluate V h c m w = Some (x, w') \<Longrightarrow> world_ok (handles V) w \<Longrightarrow>
     handles_ok (handles V) \<Longrightarrow> dispatcher_ok V h \<Longrightarrow> world_ok (handles V) w'"
  by (auto simp: GV8ModuleEvaluate_def run_simps) (assumption | rule ok_rules, assumption)+

lemma GV8ModuleGetNamespace_ok [ok_rules]:
  "GV8ModuleGetNamespace V c m w = Some (x, w') \<Longrightarrow> world_ok (handles V) w \<Longrightarrow>
     handles_ok (handles V) \<Longrightarrow> world_ok (handles V) w'"
  by (auto simp: GV8ModuleGetNamespace_def run_simps) (assumption | rule ok_rules, assumption)+

section \<open>Scripts and modules are releasable handles\<close>

interpretation script_handle:
    releasable "good V" scripts "\<lambda>w. cell (handles V) (globals w)" scr_ptr
      "\<lambda>w. (machine w, contexts w, wrappers w, modules w, builders w)" "GV8UnboundScriptRelease V"
  for V :: "('e, 'g) v8"
proof unfold_locales
  fix w :: "('e, 'g) world" and a z
  assume w: "good V w" and z: "scripts w a = Some z"
  let ?w' = "put_script a None (reset V (scr_ptr z) w)"
  from w have ok: "world_ok (handles V) w" and H: "handles_ok (handles V)" by (simp_all add: good_def)
  from ok have "scripts w 0 = None" unfolding world_ok_def fresh_ok_def by (metis below_null)
  with z have a: "a \<noteq> 0" by (metis option.distinct(1))
  obtain ob where ob: "cell (handles V) (globals w) (scr_ptr z) = Some ob"
    using w z slots_ok_cell [of "handles V" w "OwnScript a"] ok by (auto simp: world_ok_def fresh_ok_def holds_def)
  have "world_ok (handles V) ?w'"
    by (rule world_ok_lose [OF ok H, where p = "OwnScript a"])
      (use ok in \<open>simp_all add: z world_ok_def fresh_ok_def\<close>)
  with w reset_cell [OF H ob] a
  show "\<exists>w'. GV8UnboundScriptRelease V a w = Some w' \<and> good V w' \<and>
      scripts w' = (scripts w)(a := None) \<and>
      cell (handles V) (globals w') = (cell (handles V) (globals w))(scr_ptr z := None) \<and>
      (machine w', contexts w', wrappers w', modules w', builders w') =
        (machine w, contexts w, wrappers w, modules w, builders w)"
    by (auto simp: GV8UnboundScriptRelease_def z good_def machine_def)
next
  fix w :: "('e, 'g) world"
  assume "good V w"
  then show "scripts w nullptr = None"
    unfolding good_def world_ok_def fresh_ok_def by (metis below_null)
qed (auto simp: GV8UnboundScriptRelease_def)

interpretation module_handle:
    releasable "good V" modules "\<lambda>w. cell (handles V) (globals w)" mod_ptr
      "\<lambda>w. (machine w, contexts w, wrappers w, scripts w, builders w)" "GV8ModuleRelease V"
  for V :: "('e, 'g) v8"
proof unfold_locales
  fix w :: "('e, 'g) world" and a z
  assume w: "good V w" and z: "modules w a = Some z"
  let ?w' = "put_module a None (reset V (mod_ptr z) w)"
  from w have ok: "world_ok (handles V) w" and H: "handles_ok (handles V)" by (simp_all add: good_def)
  from ok have "modules w 0 = None" unfolding world_ok_def fresh_ok_def by (metis below_null)
  with z have a: "a \<noteq> 0" by (metis option.distinct(1))
  obtain ob where ob: "cell (handles V) (globals w) (mod_ptr z) = Some ob"
    using w z slots_ok_cell [of "handles V" w "OwnModule a"] ok by (auto simp: world_ok_def fresh_ok_def holds_def)
  have "world_ok (handles V) ?w'"
    by (rule world_ok_lose [OF ok H, where p = "OwnModule a"])
      (use ok in \<open>simp_all add: z world_ok_def fresh_ok_def\<close>)
  with w reset_cell [OF H ob] a
  show "\<exists>w'. GV8ModuleRelease V a w = Some w' \<and> good V w' \<and>
      modules w' = (modules w)(a := None) \<and>
      cell (handles V) (globals w') = (cell (handles V) (globals w))(mod_ptr z := None) \<and>
      (machine w', contexts w', wrappers w', scripts w', builders w') =
        (machine w, contexts w, wrappers w, scripts w, builders w)"
    by (auto simp: GV8ModuleRelease_def z good_def machine_def)
next
  fix w :: "('e, 'g) world"
  assume "good V w"
  then show "modules w nullptr = None"
    unfolding good_def world_ok_def fresh_ok_def by (metis below_null)
qed (auto simp: GV8ModuleRelease_def)

lemma release_ok [ok_rules]:
  "GV8UnboundScriptRelease V a w = Some w' \<Longrightarrow> world_ok (handles V) w \<Longrightarrow> handles_ok (handles V) \<Longrightarrow>
     world_ok (handles V) w'"
  "GV8ModuleRelease V a w = Some w' \<Longrightarrow> world_ok (handles V) w \<Longrightarrow> handles_ok (handles V) \<Longrightarrow>
     world_ok (handles V) w'"
proof -
  assume "GV8UnboundScriptRelease V a w = Some w'" "world_ok (handles V) w" "handles_ok (handles V)"
  with script_handle.rel_ok [of V a w w'] show "world_ok (handles V) w'" by (simp add: good_def)
next
  assume "GV8ModuleRelease V a w = Some w'" "world_ok (handles V) w" "handles_ok (handles V)"
  with module_handle.rel_ok [of V a w w'] show "world_ok (handles V) w'" by (simp add: good_def)
qed

end
