(* ===== verification/Gv8_Isolate.thy ===== *)
theory Gv8_Isolate
  imports Gv8_Script
begin

text \<open>
  Isolates: creation with default heap, heap limits or a snapshot, the internal context in data slot
  0 and the observer in slot 1, disposal, and the notifications and statistics. An isolate made from
  a snapshot owns a private copy of the snapshot bytes until it is disposed.
\<close>

section \<open>Creating isolates\<close>

definition default_params :: create_params where
  "default_params = \<lparr>cp_heap_sizes = None, cp_snapshot_blob = nullptr\<rparr>"

text \<open>\<open>size_t\<close> and \<open>uint64_t\<close> have the same width on the targets of the build.\<close>

definition ConfigureHeap :: "create_params \<Rightarrow> u64 \<Rightarrow> u64 \<Rightarrow> create_params" where
  "ConfigureHeap params initial_heap_size max_heap_size =
     (if initial_heap_size > 0 \<or> max_heap_size > 0
      then params\<lparr>cp_heap_sizes := Some (initial_heap_size, max_heap_size)\<rparr> else params)"

text \<open>\<open>Isolate::New(params)\<close>: a new isolate has null data slots and no callbacks.\<close>

definition new_isolate ::
    "('e, 'g) v8 \<Rightarrow> create_params \<Rightarrow> ('e, 'g) world \<Rightarrow> addr \<times> ('e, 'g) world" where
  "new_isolate V params w =
     (let bytes = Option.bind (blobs w (cp_snapshot_blob params)) (\<lambda>d. arrays w (sd_data d));
          (isolate, w1) = engine_step (Isolate_New V params bytes) w
      in (isolate, if isolate = nullptr then w1 else put_isolate isolate (Some
            \<lparr>iso_data0 = nullptr, iso_data1 = 0, iso_import_callback = False,
             iso_reject_callback = False\<rparr>) w1))"

definition InitializeGV8Isolate ::
    "('e, 'g) v8 \<Rightarrow> addr \<Rightarrow> bool \<Rightarrow> ('e, 'g) world \<Rightarrow> ('e, 'g) world option" where
  "InitializeGV8Isolate V isolate create_internal_context w =
     do { d \<leftarrow> isolates w isolate;
          let w1 = put_isolate isolate (Some (d\<lparr>iso_import_callback := True\<rparr>)) w;
          let (internal, w2) = new_addr w1;
          let (s, w3) = (if create_internal_context then
                           (let (local, v) = engine_step (Context_New V isolate) w2
                            in reset_to V nullptr local v)
                         else (nullptr, w2));
          let w4 = put_context internal (Some
                \<lparr>ctx_iso = isolate, ctx_ptr = s, ctx_ref = 0, ctx_values = [], ctx_next_value_id = 0,
                 ctx_snapshot_blob = nullptr, ctx_snapshot_data = nullptr\<rparr>) w3;
          Some (put_isolate isolate (Some (d\<lparr>iso_data0 := internal, iso_import_callback := True,
                iso_reject_callback := True\<rparr>)) w4) }"

definition GV8NewIsolateWithHeapLimit ::
    "('e, 'g) v8 \<Rightarrow> u64 \<Rightarrow> u64 \<Rightarrow> ('e, 'g) world \<Rightarrow> (addr \<times> ('e, 'g) world) option" where
  "GV8NewIsolateWithHeapLimit V initial_heap_size max_heap_size w =
     do { let (isolate, w1) = new_isolate V (ConfigureHeap default_params initial_heap_size max_heap_size) w;
          w2 \<leftarrow> InitializeGV8Isolate V isolate True w1;
          Some (isolate, w2) }"

definition GV8NewIsolate :: "('e, 'g) v8 \<Rightarrow> ('e, 'g) world \<Rightarrow> (addr \<times> ('e, 'g) world) option" where
  "GV8NewIsolate V w =
     do { let (isolate, w1) = new_isolate V default_params w;
          w2 \<leftarrow> InitializeGV8Isolate V isolate True w1;
          Some (isolate, w2) }"

text \<open>The private copy of the snapshot: \<open>new char[length]\<close> and \<open>new StartupData\<close>.\<close>

definition copy_snapshot ::
    "byte list \<Rightarrow> int \<Rightarrow> ('e, 'g) world \<Rightarrow> (addr \<times> addr) \<times> ('e, 'g) world" where
  "copy_snapshot bs len w =
     (let (sdata, w1) = new_addr w;
          w2 = put_array sdata (Some (take (nat len) bs)) w1;
          (snap, w3) = new_addr w2
      in ((snap, sdata), put_blob snap (Some \<lparr>sd_data = sdata, sd_raw_size = len\<rparr>) w3))"

definition start_with_snapshot ::
    "('e, 'g) v8 \<Rightarrow> create_params \<Rightarrow> addr \<Rightarrow> addr \<Rightarrow> ('e, 'g) world \<Rightarrow>
       (addr \<times> ('e, 'g) world) option" where
  "start_with_snapshot V params snapshot sdata w =
     do { let (isolate, w1) = new_isolate V (params\<lparr>cp_snapshot_blob := snapshot\<rparr>) w;
          if isolate = nullptr then
            do { w2 \<leftarrow> delete_blob snapshot w1; w3 \<leftarrow> delete_array sdata w2; Some (nullptr, w3) }
          else
            do { w2 \<leftarrow> InitializeGV8Isolate V isolate False w1;
                 internal \<leftarrow> internalContext isolate w2;
                 x \<leftarrow> contexts w2 internal;
                 Some (isolate, put_context internal
                   (Some (x\<lparr>ctx_snapshot_blob := snapshot, ctx_snapshot_data := sdata\<rparr>)) w2) } }"

definition GV8NewIsolateWithSnapshot ::
    "('e, 'g) v8 \<Rightarrow> byte list option \<Rightarrow> int \<Rightarrow> u64 \<Rightarrow> u64 \<Rightarrow> ('e, 'g) world \<Rightarrow>
       (addr \<times> ('e, 'g) world) option" where
  "GV8NewIsolateWithSnapshot V data len initial_heap_size max_heap_size w =
     (let params = ConfigureHeap default_params initial_heap_size max_heap_size
      in if data \<noteq> None \<and> 0 < len then
           do { valid \<leftarrow> SnapshotDataIsValid V data len w;
                if \<not> valid then Some (nullptr, w)
                else (let ((snapshot, sdata), w1) = copy_snapshot (the data) len w
                      in start_with_snapshot V params snapshot sdata w1) }
         else start_with_snapshot V params nullptr nullptr w)"

section \<open>Disposal and the observer\<close>

definition GV8IsolateSetObserverRef :: "addr \<Rightarrow> int \<Rightarrow> ('e, 'g) world \<Rightarrow> ('e, 'g) world option" where
  "GV8IsolateSetObserverRef isolate ref w =
     (if isolate = nullptr then Some w
      else do { d \<leftarrow> isolates w isolate; Some (put_isolate isolate (Some (d\<lparr>iso_data1 := ref\<rparr>)) w) })"

definition GV8IsolateDispose ::
    "('e, 'g) v8 \<Rightarrow> addr \<Rightarrow> ('e, 'g) world \<Rightarrow> ('e, 'g) world option" where
  "GV8IsolateDispose V isolate w =
     (if isolate = nullptr then Some w
      else do { internal \<leftarrow> internalContext isolate w;
                x \<leftarrow> contexts w internal;
                w1 \<leftarrow> GV8ContextDispose V internal w;
                let w2 = put_isolate isolate None (engine_do (Isolate_Dispose V isolate) w1);
                w3 \<leftarrow> delete_blob (ctx_snapshot_blob x) w2;
                delete_array (ctx_snapshot_data x) w3 })"

section \<open>Notifications and statistics\<close>

definition GV8IsolatePerformMicrotaskCheckpoint ::
    "('e, 'g) v8 \<Rightarrow> ('e, 'g) dispatcher \<Rightarrow> addr \<Rightarrow> ('e, 'g) world \<Rightarrow> ('e, 'g) world option" where
  "GV8IsolatePerformMicrotaskCheckpoint V h isolate w =
     do { _ \<leftarrow> iso_scope isolate w;
          (u, w1) \<leftarrow> run h (PerformMicrotaskCheckpoint V isolate) w;
          Some w1 }"

definition GV8IsolateTerminateExecution ::
    "('e, 'g) v8 \<Rightarrow> addr \<Rightarrow> ('e, 'g) world \<Rightarrow> ('e, 'g) world option" where
  "GV8IsolateTerminateExecution V isolate w =
     (if isolate = nullptr then Some w
      else do { _ \<leftarrow> iso_scope isolate w; Some (engine_do (TerminateExecution V isolate) w) })"

definition GV8IsolateIsExecutionTerminating ::
    "('e, 'g) v8 \<Rightarrow> addr \<Rightarrow> ('e, 'g) world \<Rightarrow> int option" where
  "GV8IsolateIsExecutionTerminating V isolate w =
     (if isolate = nullptr then Some 0
      else do { _ \<leftarrow> iso_scope isolate w;
                Some (if IsExecutionTerminating V isolate (engine w) then 1 else 0) })"

definition GV8IsolateCancelTerminateExecution ::
    "('e, 'g) v8 \<Rightarrow> addr \<Rightarrow> ('e, 'g) world \<Rightarrow> ('e, 'g) world option" where
  "GV8IsolateCancelTerminateExecution V isolate w =
     (if isolate = nullptr then Some w
      else do { _ \<leftarrow> iso_scope isolate w; Some (engine_do (CancelTerminateExecution V isolate) w) })"

definition GV8IsolateLowMemoryNotification ::
    "('e, 'g) v8 \<Rightarrow> ('e, 'g) dispatcher \<Rightarrow> addr \<Rightarrow> ('e, 'g) world \<Rightarrow> ('e, 'g) world option" where
  "GV8IsolateLowMemoryNotification V h isolate w =
     (if isolate = nullptr then Some w
      else do { _ \<leftarrow> iso_scope isolate w;
                (u, w1) \<leftarrow> run h (LowMemoryNotification V isolate) w;
                Some w1 })"

definition pressure_of_level :: "int \<Rightarrow> MemoryPressureLevel" where
  "pressure_of_level level = (if level = 1 then kModerate else if level = 2 then kCritical else kNone)"

definition GV8IsolateMemoryPressureNotification ::
    "('e, 'g) v8 \<Rightarrow> ('e, 'g) dispatcher \<Rightarrow> addr \<Rightarrow> int \<Rightarrow> ('e, 'g) world \<Rightarrow> ('e, 'g) world option" where
  "GV8IsolateMemoryPressureNotification V h isolate level w =
     (if isolate = nullptr then Some w
      else do { _ \<leftarrow> iso_scope isolate w;
                (u, w1) \<leftarrow> run h (MemoryPressureNotification V isolate (pressure_of_level level)) w;
                Some w1 })"

record GV8HeapStatistics =
  hs_total_heap_size :: u64
  hs_total_heap_size_executable :: u64
  hs_total_physical_size :: u64
  hs_total_available_size :: u64
  hs_total_global_handles_size :: u64
  hs_used_global_handles_size :: u64
  hs_used_heap_size :: u64
  hs_heap_size_limit :: u64
  hs_malloced_memory :: u64
  hs_external_memory :: u64
  hs_peak_malloced_memory :: u64
  hs_number_of_native_contexts :: u64
  hs_number_of_detached_contexts :: u64
  hs_total_allocated_bytes :: u64

definition heap_statistics_of :: "heap_statistics \<Rightarrow> GV8HeapStatistics" where
  "heap_statistics_of stats =
     \<lparr>hs_total_heap_size = of_nat (total_heap_size stats),
      hs_total_heap_size_executable = of_nat (total_heap_size_executable stats),
      hs_total_physical_size = of_nat (total_physical_size stats),
      hs_total_available_size = of_nat (total_available_size stats),
      hs_total_global_handles_size = of_nat (total_global_handles_size stats),
      hs_used_global_handles_size = of_nat (used_global_handles_size stats),
      hs_used_heap_size = of_nat (used_heap_size stats),
      hs_heap_size_limit = of_nat (heap_size_limit stats),
      hs_malloced_memory = of_nat (malloced_memory stats),
      hs_external_memory = of_nat (external_memory stats),
      hs_peak_malloced_memory = of_nat (peak_malloced_memory stats),
      hs_number_of_native_contexts = of_nat (number_of_native_contexts stats),
      hs_number_of_detached_contexts = of_nat (number_of_detached_contexts stats),
      hs_total_allocated_bytes = of_nat (total_allocated_bytes stats)\<rparr>"

definition zero_heap_statistics :: GV8HeapStatistics where
  "zero_heap_statistics =
     \<lparr>hs_total_heap_size = 0, hs_total_heap_size_executable = 0, hs_total_physical_size = 0,
      hs_total_available_size = 0, hs_total_global_handles_size = 0,
      hs_used_global_handles_size = 0, hs_used_heap_size = 0, hs_heap_size_limit = 0,
      hs_malloced_memory = 0, hs_external_memory = 0, hs_peak_malloced_memory = 0,
      hs_number_of_native_contexts = 0, hs_number_of_detached_contexts = 0,
      hs_total_allocated_bytes = 0\<rparr>"

definition GV8IsolateGetHeapStatistics ::
    "('e, 'g) v8 \<Rightarrow> addr \<Rightarrow> ('e, 'g) world \<Rightarrow> GV8HeapStatistics option" where
  "GV8IsolateGetHeapStatistics V isolate w =
     (if isolate = nullptr then Some zero_heap_statistics
      else do { _ \<leftarrow> iso_scope isolate w;
                Some (heap_statistics_of (GetHeapStatistics V isolate (engine w))) })"

section \<open>The invariant\<close>

lemma new_isolate_facts:
  assumes "new_isolate V params w = (i, w')"
  shows "contexts w' = contexts w" "wrappers w' = wrappers w" "arrays w' = arrays w"
    "blobs w' = blobs w" "next_addr w' = next_addr w" "globals w' = globals w"
    "i \<noteq> nullptr \<Longrightarrow> isolates w' = (isolates w)(i \<mapsto> \<lparr>iso_data0 = nullptr, iso_data1 = 0,
       iso_import_callback = False, iso_reject_callback = False\<rparr>)"
    "i = nullptr \<Longrightarrow> isolates w' = isolates w"
  using assms engine_step_sel
  by (auto simp: new_isolate_def engine_step_def Let_def split: prod.splits if_splits)

lemma new_isolate_ok [ok_rules]:
  "new_isolate V params w = (i, w') \<Longrightarrow> world_ok H w \<Longrightarrow> world_ok H w'"
  by (auto simp: new_isolate_def Let_def split: prod.splits if_splits intro: ok_rules)

lemma put_fresh_context_ok:
  assumes ok: "world_ok (handles V) v" and H: "handles_ok (handles V)"
    and new: "contexts v a = None" "0 < a" "a \<le> next_addr v"
    and r: "reset_to V nullptr local v = (s, v')"
    and x: "ctx_ptr x = s" "ctx_values x = []" "ctx_next_value_id x = 0"
  shows "world_ok (handles V) (put_context a (Some x) v')" (is "world_ok _ ?w'")
proof -
  from ok have reg: "registry_ok v" and sl: "slots_ok (handles V) v" by (simp_all add: world_ok_def)
  define g where "g = globals v'"
  with r have v': "v' = v\<lparr>globals := g\<rparr>"
    by (auto simp: reset_to_def split: prod.splits)
  have "slots_ok (handles V) ?w'"
  proof (cases local)
    case None
    with r have "s = 0" "v' = v" by (simp_all add: reset_to_def)
    then show ?thesis
      by (intro slots_ok_same [OF sl]) (auto simp: x new fun_eq_iff)
  next
    case (Some c)
    with r have "GlobalizeReference (handles V) c (globals v) = (s, g)"
      by (auto simp: reset_to_null g_def)
    then show ?thesis
      by (rule slots_ok_gain [OF sl H, where p = "OwnContext a"]) (simp_all add: v' x new)
  qed
  moreover have "registry_ok ?w'"
    by (rule registry_ok_new_context [OF reg new(1) x(2,3)]) (simp_all add: v')
  moreover have "fresh_ok ?w'"
    using ok new by (simp add: v' world_ok_def fresh_ok_def)
  ultimately show ?thesis by (simp add: world_ok_def)
qed

text \<open>What initialisation does for an isolate from a snapshot, which has no V8 context yet.\<close>

lemma InitializeGV8Isolate_empty:
  assumes "InitializeGV8Isolate V i False w = Some w'"
  obtains d where "isolates w i = Some d"
    "w' = put_isolate i (Some (d\<lparr>iso_data0 := Suc (next_addr w), iso_import_callback := True,
       iso_reject_callback := True\<rparr>)) (put_context (Suc (next_addr w)) (Some
         \<lparr>ctx_iso = i, ctx_ptr = nullptr, ctx_ref = 0, ctx_values = [], ctx_next_value_id = 0,
          ctx_snapshot_blob = nullptr, ctx_snapshot_data = nullptr\<rparr>)
         ((put_isolate i (Some (d\<lparr>iso_import_callback := True\<rparr>)) w)\<lparr>next_addr := Suc (next_addr w)\<rparr>))"
  using assms by (auto simp: InitializeGV8Isolate_def run_simps new_addr_def)

lemma InitializeGV8Isolate_ok [ok_rules]:
  assumes eq: "InitializeGV8Isolate V i create w = Some w'"
    and ok: "world_ok (handles V) w" and H: "handles_ok (handles V)"
  shows "world_ok (handles V) w'"
proof -
  from eq obtain d where d: "isolates w i = Some d" by (auto simp: InitializeGV8Isolate_def)
  define w1 where "w1 = put_isolate i (Some (d\<lparr>iso_import_callback := True\<rparr>)) w"
  obtain a w2 where w2: "new_addr w1 = (a, w2)" by (cases "new_addr w1")
  have ok1: "world_ok (handles V) w1" using ok by (simp add: w1_def)
  from w2 have a: "a = Suc (next_addr w1)" "next_addr w2 = a" "contexts w2 = contexts w1"
    by (auto simp: new_addr_def)
  from ok1 have new: "contexts w2 a = None" "0 < a" "a \<le> next_addr w2"
    by (simp_all add: a world_ok_def fresh_ok_fresh)
  have ok2: "world_ok (handles V) w2" by (rule world_ok_new_addr [OF w2 ok1])
  obtain local v where v: "(if create then engine_step (Context_New V i) w2 else (None, w2)) = (local, v)"
    by (cases "if create then engine_step (Context_New V i) w2 else (None, w2)")
  then have okv: "world_ok (handles V) v" and newv: "contexts v a = None" "a \<le> next_addr v"
    using ok2 new by (auto split: if_splits dest: world_ok_engine_step engine_step_sel)
  obtain s v' where sv: "reset_to V nullptr local v = (s, v')" by (cases "reset_to V nullptr local v")
  have "world_ok (handles V) w' = world_ok (handles V) (put_context a (Some
      \<lparr>ctx_iso = i, ctx_ptr = s, ctx_ref = 0, ctx_values = [], ctx_next_value_id = 0,
       ctx_snapshot_blob = nullptr, ctx_snapshot_data = nullptr\<rparr>) v')"
    using eq v sv
    by (auto simp: InitializeGV8Isolate_def d w1_def [symmetric] w2 reset_to_def split: prod.splits if_splits)
  with put_fresh_context_ok [OF okv H newv(1) new(2) newv(2) sv] show ?thesis by simp
qed

lemma delete_array_ok [ok_rules]: "delete_array a w = Some w' \<Longrightarrow> world_ok H w \<Longrightarrow> world_ok H w'"
proof -
  have "world_ok H (put_array a None u)" if "world_ok H u" for u :: "('a, 'b) world"
  proof -
    have "slots_ok H (put_array a None u)"
      by (rule slots_ok_same [of _ u]) (use that in \<open>simp_all add: world_ok_def\<close>)
    then show ?thesis
      using that registry_ok_cong [of "put_array a None u" u] by (simp add: world_ok_def fresh_ok_def)
  qed
  then show "delete_array a w = Some w' \<Longrightarrow> world_ok H w \<Longrightarrow> world_ok H w'"
    by (auto simp: delete_array_def split: if_splits option.splits)
qed

lemma delete_blob_ok [ok_rules]: "delete_blob a w = Some w' \<Longrightarrow> world_ok H w \<Longrightarrow> world_ok H w'"
proof -
  have "world_ok H (put_blob a None u)" if "world_ok H u" for u :: "('a, 'b) world"
  proof -
    have "slots_ok H (put_blob a None u)"
      by (rule slots_ok_same [of _ u]) (use that in \<open>simp_all add: world_ok_def\<close>)
    then show ?thesis
      using that registry_ok_cong [of "put_blob a None u" u] by (simp add: world_ok_def fresh_ok_def)
  qed
  then show "delete_blob a w = Some w' \<Longrightarrow> world_ok H w \<Longrightarrow> world_ok H w'"
    by (auto simp: delete_blob_def split: if_splits option.splits)
qed

lemma copy_snapshot_eq:
  "copy_snapshot bs len w = ((Suc (Suc (next_addr w)), Suc (next_addr w)),
     put_blob (Suc (Suc (next_addr w))) (Some \<lparr>sd_data = Suc (next_addr w), sd_raw_size = len\<rparr>)
       ((put_array (Suc (next_addr w)) (Some (take (nat len) bs)) (w\<lparr>next_addr := Suc (next_addr w)\<rparr>))
          \<lparr>next_addr := Suc (Suc (next_addr w))\<rparr>))"
  by (simp add: copy_snapshot_def new_addr_def)

lemma copy_snapshot_ok [ok_rules]:
  assumes "copy_snapshot bs len w = (p, w')" "world_ok H w"
  shows "world_ok H w'"
proof -
  from assms(1) have w': "w' = put_blob (Suc (Suc (next_addr w)))
       (Some \<lparr>sd_data = Suc (next_addr w), sd_raw_size = len\<rparr>)
       ((put_array (Suc (next_addr w)) (Some (take (nat len) bs)) (w\<lparr>next_addr := Suc (next_addr w)\<rparr>))
          \<lparr>next_addr := Suc (Suc (next_addr w))\<rparr>)"
    by (simp add: copy_snapshot_eq)
  have "slots_ok H w'"
    by (rule slots_ok_same [of _ w]) (use assms(2) in \<open>simp_all add: world_ok_def w'\<close>)
  then show ?thesis
    using assms(2) registry_ok_cong [of w' w] by (simp add: world_ok_def fresh_ok_def w')
qed

text \<open>Remembering the snapshot in the internal context.\<close>

lemma set_snapshot_ok:
  assumes ok: "world_ok H w" and x: "contexts w c = Some x"
  shows "world_ok H (put_context c (Some (x\<lparr>ctx_snapshot_blob := b, ctx_snapshot_data := d\<rparr>)) w)" (is "world_ok H ?w'")
proof -
  from ok have reg: "registry_ok w" by (simp add: world_ok_def)
  have "slots_ok H ?w'"
    by (rule slots_ok_same [of _ w]) (use ok x in \<open>auto simp: world_ok_def fun_eq_iff\<close>)
  moreover have "registry_ok ?w'" by (rule registry_ok_same_values [OF reg x]) auto
  ultimately show ?thesis using ok x by (auto simp: world_ok_def fresh_ok_def)
qed

lemma GV8NewIsolate_ok [ok_rules]:
  "GV8NewIsolate V w = Some (i, w') \<Longrightarrow> world_ok (handles V) w \<Longrightarrow> handles_ok (handles V) \<Longrightarrow>
     world_ok (handles V) w'"
  by (auto simp: GV8NewIsolate_def run_simps) (assumption | rule ok_rules, assumption)+

lemma GV8NewIsolateWithHeapLimit_ok [ok_rules]:
  "GV8NewIsolateWithHeapLimit V a b w = Some (i, w') \<Longrightarrow> world_ok (handles V) w \<Longrightarrow>
     handles_ok (handles V) \<Longrightarrow> world_ok (handles V) w'"
  by (auto simp: GV8NewIsolateWithHeapLimit_def run_simps) (assumption | rule ok_rules, assumption)+

lemma start_with_snapshot_ok [ok_rules]:
  "start_with_snapshot V p b d w = Some (i, w') \<Longrightarrow> world_ok (handles V) w \<Longrightarrow> handles_ok (handles V) \<Longrightarrow>
     world_ok (handles V) w'"
  by (auto simp: start_with_snapshot_def run_simps intro!: set_snapshot_ok)
    (assumption | rule ok_rules, assumption)+

lemma GV8NewIsolateWithSnapshot_ok [ok_rules]:
  "GV8NewIsolateWithSnapshot V data len a b w = Some (i, w') \<Longrightarrow> world_ok (handles V) w \<Longrightarrow>
     handles_ok (handles V) \<Longrightarrow> world_ok (handles V) w'"
  by (auto simp: GV8NewIsolateWithSnapshot_def run_simps) (assumption | rule ok_rules, assumption)+

lemma GV8IsolateDispose_ok [ok_rules]:
  "GV8IsolateDispose V i w = Some w' \<Longrightarrow> world_ok (handles V) w \<Longrightarrow> handles_ok (handles V) \<Longrightarrow>
     world_ok (handles V) w'"
  by (auto simp: GV8IsolateDispose_def run_simps)
    (assumption | rule ok_rules, assumption | simp only: world_ok_isolate world_ok_engine_do)+

lemma GV8IsolateSetObserverRef_ok [ok_rules]:
  "GV8IsolateSetObserverRef i r w = Some w' \<Longrightarrow> world_ok H w \<Longrightarrow> world_ok H w'"
  by (auto simp: GV8IsolateSetObserverRef_def run_simps)

lemma isolate_calls_ok [ok_rules]:
  "GV8IsolatePerformMicrotaskCheckpoint V h i w = Some w' \<Longrightarrow> world_ok (handles V) w \<Longrightarrow>
     dispatcher_ok V h \<Longrightarrow> world_ok (handles V) w'"
  "GV8IsolateLowMemoryNotification V h i w = Some w' \<Longrightarrow> world_ok (handles V) w \<Longrightarrow>
     dispatcher_ok V h \<Longrightarrow> world_ok (handles V) w'"
  "GV8IsolateMemoryPressureNotification V h i l w = Some w' \<Longrightarrow> world_ok (handles V) w \<Longrightarrow>
     dispatcher_ok V h \<Longrightarrow> world_ok (handles V) w'"
  "GV8IsolateTerminateExecution V i w = Some w' \<Longrightarrow> world_ok (handles V) w \<Longrightarrow> world_ok (handles V) w'"
  "GV8IsolateCancelTerminateExecution V i w = Some w' \<Longrightarrow> world_ok (handles V) w \<Longrightarrow>
     world_ok (handles V) w'"
  by (auto simp: GV8IsolatePerformMicrotaskCheckpoint_def GV8IsolateLowMemoryNotification_def
      GV8IsolateMemoryPressureNotification_def GV8IsolateTerminateExecution_def
      GV8IsolateCancelTerminateExecution_def run_simps) (assumption | rule ok_rules, assumption)+

section \<open>The life of a snapshot\<close>

lemma start_with_snapshot_facts:
  assumes eq: "start_with_snapshot V p b d w = Some (i, w')" and i: "i \<noteq> nullptr"
    and fresh: "contexts w (Suc (next_addr w)) = None"
  obtains c x e where "isolates w' = (isolates w)(i \<mapsto> e)" "iso_data0 e = c" "contexts w c = None"
    "contexts w' = (contexts w)(c \<mapsto> x)" "ctx_snapshot_blob x = b" "ctx_snapshot_data x = d"
    "arrays w' = arrays w" "blobs w' = blobs w"
proof -
  obtain j w1 where w1: "new_isolate V (p\<lparr>cp_snapshot_blob := b\<rparr>) w = (j, w1)"
    by (cases "new_isolate V (p\<lparr>cp_snapshot_blob := b\<rparr>) w")
  with eq i have j: "j = i" by (auto simp: start_with_snapshot_def run_simps)
  with eq i w1 obtain w2 c x where w2: "InitializeGV8Isolate V i False w1 = Some w2"
    and c: "internalContext i w2 = Some c" "contexts w2 c = Some x"
    and w': "w' = put_context c (Some (x\<lparr>ctx_snapshot_blob := b, ctx_snapshot_data := d\<rparr>)) w2"
    by (auto simp: start_with_snapshot_def run_simps)
  note f = new_isolate_facts [OF w1]
  show thesis
  proof (rule InitializeGV8Isolate_empty [OF w2])
    fix e assume e: "isolates w1 i = Some e" and w2_eq: "w2 = put_isolate i (Some (e\<lparr>iso_data0 := Suc (next_addr w1),
       iso_import_callback := True, iso_reject_callback := True\<rparr>)) (put_context (Suc (next_addr w1)) (Some
         \<lparr>ctx_iso = i, ctx_ptr = nullptr, ctx_ref = 0, ctx_values = [], ctx_next_value_id = 0,
          ctx_snapshot_blob = nullptr, ctx_snapshot_data = nullptr\<rparr>)
         ((put_isolate i (Some (e\<lparr>iso_import_callback := True\<rparr>)) w1)\<lparr>next_addr := Suc (next_addr w1)\<rparr>))"
    have "c = Suc (next_addr w)" using c(1) by (simp add: w2_eq internalContext_def f(5))
    with fresh show thesis
      by (intro that [of "e\<lparr>iso_data0 := c, iso_import_callback := True, iso_reject_callback := True\<rparr>" c
            "x\<lparr>ctx_snapshot_blob := b, ctx_snapshot_data := d\<rparr>"])
        (simp_all add: w' w2_eq f(1,3,4,5) f(7) [unfolded j, OF i])
  qed
qed

lemma GV8IsolateDispose_live:
  assumes ok: "world_ok (handles V) w" and H: "handles_ok (handles V)" and i: "i \<noteq> nullptr"
    and e: "isolates w i = Some e" and x: "contexts w (iso_data0 e) = Some x"
    and b: "ctx_snapshot_blob x \<noteq> nullptr \<Longrightarrow> blobs w (ctx_snapshot_blob x) \<noteq> None"
    and d: "ctx_snapshot_data x \<noteq> nullptr \<Longrightarrow> arrays w (ctx_snapshot_data x) \<noteq> None"
  obtains w' where "GV8IsolateDispose V i w = Some w'" "isolates w' = (isolates w)(i := None)"
    "contexts w' = (contexts w)(iso_data0 e := None)"
    "blobs w' = (if ctx_snapshot_blob x = nullptr then blobs w else (blobs w)(ctx_snapshot_blob x := None))"
    "arrays w' = (if ctx_snapshot_data x = nullptr then arrays w else (arrays w)(ctx_snapshot_data x := None))"
proof -
  obtain w1 where w1: "GV8ContextDispose V (iso_data0 e) w = Some w1"
    "contexts w1 = (contexts w)(iso_data0 e := None)" "machine w1 = machine w"
    by (rule GV8ContextDispose_live [OF ok H x]) (use that in blast)
  then have m: "isolates w1 = isolates w" "arrays w1 = arrays w" "blobs w1 = blobs w"
    by (simp_all add: machine_def)
  define w2 where "w2 = put_isolate i None (engine_do (Isolate_Dispose V i) w1)"
  have w2: "isolates w2 = (isolates w)(i := None)" "contexts w2 = (contexts w)(iso_data0 e := None)"
    "blobs w2 = blobs w" "arrays w2 = arrays w"
    by (simp_all add: w2_def engine_do_def m w1(2))
  obtain w3 where w3: "delete_blob (ctx_snapshot_blob x) w2 = Some w3" "isolates w3 = isolates w2"
    "contexts w3 = contexts w2" "arrays w3 = arrays w"
    "blobs w3 = (if ctx_snapshot_blob x = nullptr then blobs w else (blobs w)(ctx_snapshot_blob x := None))"
    using b by (cases "ctx_snapshot_blob x = nullptr") (auto simp: delete_blob_def w2)
  obtain w4 where w4: "delete_array (ctx_snapshot_data x) w3 = Some w4" "isolates w4 = isolates w3"
    "contexts w4 = contexts w3" "blobs w4 = blobs w3"
    "arrays w4 = (if ctx_snapshot_data x = nullptr then arrays w else (arrays w)(ctx_snapshot_data x := None))"
    using d by (cases "ctx_snapshot_data x = nullptr") (auto simp: delete_array_def w3(4))
  show thesis
    by (rule that [of w4])
      (simp_all add: GV8IsolateDispose_def internalContext_def i e x w1(1) w2_def [symmetric] w3 w4 w2)
qed

text \<open>Starting with the blob and the bytes of a snapshot at hand, and disposing again.\<close>

lemma start_dispose:
  assumes ok: "world_ok (handles V) w" and H: "handles_ok (handles V)"
    and eq: "start_with_snapshot V p b d w = Some (i, w1)"
    and b: "b \<noteq> nullptr \<Longrightarrow> blobs w b \<noteq> None" and d: "d \<noteq> nullptr \<Longrightarrow> arrays w d \<noteq> None"
  obtains "i = nullptr" "blobs w1 = (if b = nullptr then blobs w else (blobs w)(b := None))"
      "arrays w1 = (if d = nullptr then arrays w else (arrays w)(d := None))" "contexts w1 = contexts w"
  | w2 where "i \<noteq> nullptr" "GV8IsolateDispose V i w1 = Some w2"
      "blobs w2 = (if b = nullptr then blobs w else (blobs w)(b := None))"
      "arrays w2 = (if d = nullptr then arrays w else (arrays w)(d := None))"
      "contexts w2 = contexts w" "isolates w2 = (isolates w)(i := None)"
proof (cases "i = nullptr")
  case True
  obtain j u where u: "new_isolate V (p\<lparr>cp_snapshot_blob := b\<rparr>) w = (j, u)"
    by (cases "new_isolate V (p\<lparr>cp_snapshot_blob := b\<rparr>) w")
  note f = new_isolate_facts(1,3,4) [OF u]
  from eq True u obtain v where v: "delete_blob b u = Some v" "delete_array d v = Some w1"
    by (auto simp: start_with_snapshot_def run_simps)
  show thesis
    by (rule that(1) [OF True])
      (use v f in \<open>auto simp: delete_blob_def delete_array_def split: if_splits option.splits\<close>)
next
  case False
  from ok have fresh: "contexts w (Suc (next_addr w)) = None"
    by (simp add: world_ok_def fresh_ok_fresh)
  have ok1: "world_ok (handles V) w1" by (rule start_with_snapshot_ok [OF eq ok H])
  show thesis
  proof (rule start_with_snapshot_facts [OF eq False fresh])
    fix c x e
    assume f: "isolates w1 = (isolates w)(i \<mapsto> e)" "iso_data0 e = c" "contexts w c = None"
      "contexts w1 = (contexts w)(c \<mapsto> x)" "ctx_snapshot_blob x = b" "ctx_snapshot_data x = d"
      "arrays w1 = arrays w" "blobs w1 = blobs w"
    have "isolates w1 i = Some e" "contexts w1 (iso_data0 e) = Some x" by (simp_all add: f)
    then show thesis
    proof (rule GV8IsolateDispose_live [OF ok1 H False])
      fix w2
      assume "GV8IsolateDispose V i w1 = Some w2" "isolates w2 = (isolates w1)(i := None)"
        "contexts w2 = (contexts w1)(iso_data0 e := None)"
        "blobs w2 = (if ctx_snapshot_blob x = nullptr then blobs w1 else (blobs w1)(ctx_snapshot_blob x := None))"
        "arrays w2 = (if ctx_snapshot_data x = nullptr then arrays w1 else (arrays w1)(ctx_snapshot_data x := None))"
      with f show thesis by (intro that(2) [OF False]) (simp_all add: fun_upd_idem)
    qed (use b d f in simp_all)
  qed
qed

section \<open>Properties\<close>

text \<open>C5: the bytes of a snapshot are never leaked and never freed twice. Whether the snapshot is
  rejected, V8 refuses to start the isolate, or the isolate is made and later disposed, the arrays and
  start-up blobs end up exactly as they were before the call; disposing removes the isolate and its
  internal context and nothing else of these.\<close>

theorem snapshot_buffers_freed:
  assumes ok: "world_ok (handles V) w" and H: "handles_ok (handles V)"
    and new: "GV8NewIsolateWithSnapshot V data len a b w = Some (i, w1)"
  shows "if i = nullptr then arrays w1 = arrays w \<and> blobs w1 = blobs w \<and> contexts w1 = contexts w
    else \<exists>w2. GV8IsolateDispose V i w1 = Some w2 \<and> arrays w2 = arrays w \<and> blobs w2 = blobs w \<and>
      contexts w2 = contexts w \<and> isolates w2 = (isolates w)(i := None)"
proof -
  let ?p = "ConfigureHeap default_params a b"
  from ok have f: "arrays w (Suc (next_addr w)) = None" "below (blobs w) (next_addr w)"
    by (simp_all add: world_ok_def fresh_ok_fresh fresh_ok_def)
  have f2: "blobs w (Suc (Suc (next_addr w))) = None"
    using f(2) below_fresh below_Suc by blast
  consider "i = nullptr" "w1 = w"
    | "start_with_snapshot V ?p nullptr nullptr w = Some (i, w1)"
    | bs where "start_with_snapshot V ?p (Suc (Suc (next_addr w))) (Suc (next_addr w))
        (snd (copy_snapshot bs len w)) = Some (i, w1)"
    using new by (auto simp: GV8NewIsolateWithSnapshot_def copy_snapshot_eq run_simps Let_def split: if_splits)
  then show ?thesis
  proof cases
    case 1
    then show ?thesis by simp
  next
    case 2
    then show ?thesis by (rule start_dispose [OF ok H]) simp_all
  next
    case (3 bs)
    let ?u = "snd (copy_snapshot bs len w)"
    have "world_ok (handles V) ?u" by (rule copy_snapshot_ok [OF _ ok]) (rule surjective_pairing)
    then show ?thesis
      by (rule start_dispose [OF _ H 3]) (use f f2 in \<open>simp_all add: copy_snapshot_eq fun_upd_idem\<close>)
  qed
qed

theorem snapshot_buffers_freed_witness:
  "\<exists>w1 w2. GV8NewIsolateWithSnapshot demo_v8 (Some [9, 9, 9, 9, 1, 0, 0, 0, 7]) 9 0 0 demo_world = Some (300, w1) \<and>
     arrays w1 \<noteq> arrays demo_world \<and>
     GV8IsolateDispose demo_v8 300 w1 = Some w2 \<and> arrays w2 = arrays demo_world"
proof -
  have "\<exists>w1. GV8NewIsolateWithSnapshot demo_v8 (Some [9, 9, 9, 9, 1, 0, 0, 0, 7]) 9 0 0 demo_world = Some (300, w1) \<and>
     arrays w1 \<noteq> Map.empty"
    by (simp add: GV8NewIsolateWithSnapshot_def SnapshotDataIsValid_def le_u32_def demo_v8_def copy_snapshot_eq
        start_with_snapshot_def new_isolate_def engine_step_def InitializeGV8Isolate_def new_addr_def
        internalContext_def ConfigureHeap_def default_params_def)
  then obtain w1 where w1: "GV8NewIsolateWithSnapshot demo_v8 (Some [9, 9, 9, 9, 1, 0, 0, 0, 7]) 9 0 0 demo_world = Some (300, w1)"
    "arrays w1 \<noteq> Map.empty" by blast
  with snapshot_buffers_freed [OF demo_world_ok demo_handles_ok w1(1)] show ?thesis by auto
qed

text \<open>The notification level is passed on faithfully for the three levels the API names, every other
  number means no pressure, and a null isolate is ignored.\<close>

lemma memory_pressure_levels:
  "pressure_of_level 0 = kNone \<and> pressure_of_level 1 = kModerate \<and> pressure_of_level 2 = kCritical \<and>
   (\<forall>n. (pressure_of_level n = kNone) = (n \<noteq> 1 \<and> n \<noteq> 2)) \<and>
   GV8IsolateMemoryPressureNotification V h nullptr l w = Some w"
  by (simp add: pressure_of_level_def GV8IsolateMemoryPressureNotification_def)

end
