(* ===== verification/V8_Double.thy ===== *)
theory V8_Double
  imports Prelude
begin

text \<open>
  The conversion of a 64-bit integer to a double that C++ performs at \<open>static_cast<double>\<close>: the bits of
  the nearest IEEE 754 double, ties to even. Shared by \<open>GV8NewInteger\<close> and by the setters of \<open>ReturnValue\<close>.
\<close>

section \<open>int64\_t to double\<close>

text \<open>The position of the highest bit.\<close>

fun ilog2 :: "nat \<Rightarrow> nat" where
  "ilog2 n = (if n < 2 then 0 else Suc (ilog2 (n div 2)))"

declare ilog2.simps [simp del]

text \<open>Rounding \<open>m\<close> to 53 significant bits: the significand, and the exponent of its last bit.\<close>

definition round53 :: "nat \<Rightarrow> nat \<times> nat" where
  "round53 m =
     (let e = ilog2 m in
      if e \<le> 52 then (m * 2 ^ (52 - e), e)
      else let k = e - 52;
               q = m div 2 ^ k; r = m mod 2 ^ k; half = 2 ^ (k - 1);
               q1 = (if r > half \<or> (r = half \<and> odd q) then Suc q else q)
           in if q1 = 2 ^ 53 then (2 ^ 52, Suc e) else (q1, e))"

definition double_of_int64 :: "int \<Rightarrow> u64" where
  "double_of_int64 n =
     (if n = 0 then 0
      else let (sig, e) = round53 (nat \<bar>n\<bar>)
           in of_nat ((if n < 0 then 2 ^ 63 else 0) + (e + 1023) * 2 ^ 52 + (sig - 2 ^ 52)))"

text \<open>The integer a double denotes, when its bits are those of an integer below 2^64.\<close>

definition int_of_double :: "u64 \<Rightarrow> int option" where
  "int_of_double d =
     (let b = unat d; sgn = (if 2 ^ 63 \<le> b then - 1 else 1);
          expo = b div 2 ^ 52 mod 2 ^ 11; frac = b mod 2 ^ 52
      in if expo = 0 \<and> frac = 0 then Some 0
         else if expo < 1023 \<or> 1023 + 64 < expo then None
         else let e = expo - 1023; sig = 2 ^ 52 + frac
              in if e \<le> 52 then (if sig mod 2 ^ (52 - e) = 0 then Some (sgn * int (sig div 2 ^ (52 - e))) else None)
                 else Some (sgn * int (sig * 2 ^ (e - 52))))"

section \<open>Exact integers\<close>

lemma ilog2_bounds: "0 < n \<Longrightarrow> 2 ^ ilog2 n \<le> n \<and> n < 2 ^ Suc (ilog2 n)"
proof (induction n rule: ilog2.induct)
  case (1 n)
  show ?case
  proof (cases "n < 2")
    case True
    with 1 have "n = 1" by simp
    then show ?thesis by (simp add: ilog2.simps)
  next
    case False
    with 1 have "2 ^ ilog2 (n div 2) \<le> n div 2" "n div 2 < 2 ^ Suc (ilog2 (n div 2))" by simp_all
    then have "2 * 2 ^ ilog2 (n div 2) \<le> n" "n < 2 * 2 ^ Suc (ilog2 (n div 2))" by linarith+
    then show ?thesis using False by (simp add: ilog2.simps [of n])
  qed
qed

text \<open>Reading back the bits of a significand and an exponent.\<close>

lemma int_of_double_bits:
  assumes sig: "2 ^ 52 \<le> sig" "sig < 2 ^ 53" and e: "e \<le> 64"
  shows "int_of_double (of_nat ((if neg then 2 ^ 63 else 0) + (e + 1023) * 2 ^ 52 + (sig - 2 ^ 52))) =
    (let sgn = (if neg then - 1 else 1)
     in if e \<le> 52 then (if sig mod 2 ^ (52 - e) = 0 then Some (sgn * int (sig div 2 ^ (52 - e))) else None)
        else Some (sgn * int (sig * 2 ^ (e - 52))))"
proof -
  define f where "f = sig - 2 ^ 52"
  define s where "s = (if neg then 2048 else 0 :: nat)"
  define b where "b = (if neg then 2 ^ 63 else 0) + (e + 1023) * 2 ^ 52 + f"
  have f: "f < 2 ^ 52" "sig = 2 ^ 52 + f" using sig by (simp_all add: f_def)
  have b_eq: "b = (s + (e + 1023)) * 2 ^ 52 + f" by (simp add: b_def s_def)
  have s_lt: "s \<le> 2048" by (simp add: s_def)
  have lt: "b < 2 ^ 64" using f(1) e s_lt unfolding b_eq by simp
  have "(k * 2 ^ 52 + f) div 2 ^ 52 = k" "(k * 2 ^ 52 + f) mod 2 ^ 52 = f" for k :: nat
    using f(1) by simp_all
  then have div: "b div 2 ^ 52 = s + (e + 1023)" "b mod 2 ^ 52 = f"
    unfolding b_eq by blast+
  have expo: "b div 2 ^ 52 mod 2 ^ 11 = e + 1023"
  proof -
    have "(2048 + (e + 1023)) mod 2048 = e + 1023" using e by (simp only: mod_add_self1) simp
    then show ?thesis using e unfolding div by (simp add: s_def)
  qed
  have neg: "2 ^ 63 \<le> b \<longleftrightarrow> neg" using f(1) e by (simp add: b_eq s_def)
  have u: "unat (of_nat b :: u64) = b" using lt by (simp add: unat_of_nat)
  have "\<not> (e + 1023 = 0 \<and> f = 0)" "\<not> (e + 1023 < 1023 \<or> 1023 + 64 < e + 1023)" "e + 1023 - 1023 = e"
    using e by simp_all
  then show ?thesis
    unfolding b_def [symmetric] f_def [symmetric] int_of_double_def u Let_def expo div(2) neg
      f(2) [symmetric] by (simp only: if_False simp_thms)
qed

lemma round53_exact:
  assumes m: "0 < m" "m \<le> 2 ^ 53" and r: "round53 m = (sig, e)"
  shows "2 ^ 52 \<le> sig \<and> sig < 2 ^ 53 \<and> e \<le> 64 \<and>
    (if e \<le> 52 then sig mod 2 ^ (52 - e) = 0 \<and> sig div 2 ^ (52 - e) = m else sig * 2 ^ (e - 52) = m)"
proof -
  note b = ilog2_bounds [OF m(1)]
  show ?thesis
  proof (cases "ilog2 m \<le> 52")
    case True
    with r have s: "sig = m * 2 ^ (52 - ilog2 m)" "e = ilog2 m" by (auto simp: round53_def Let_def)
    have p: "(2 :: nat) ^ 52 = 2 ^ ilog2 m * 2 ^ (52 - ilog2 m)" "(2 :: nat) ^ 53 = 2 ^ Suc (ilog2 m) * 2 ^ (52 - ilog2 m)"
      using True by (simp_all flip: power_add)
    have "2 ^ 52 \<le> sig" "sig < 2 ^ 53" unfolding p s(1) using b by simp_all
    then show ?thesis using True by (simp add: s)
  next
    case False
    then have "(2 :: nat) ^ 53 \<le> 2 ^ ilog2 m" by (intro power_increasing) simp_all
    with b m(2) have "m = 2 ^ 53" by simp
    moreover have "ilog2 m \<le> 53"
      by (rule power_le_imp_le_exp [of "2 :: nat"]) (use b m(2) in simp_all)
    with False have "ilog2 m = 53" by simp
    ultimately show ?thesis using r by (simp add: round53_def Let_def)
  qed
qed

lemma double_exact:
  assumes "\<bar>n\<bar> \<le> 2 ^ 53"
  shows "int_of_double (double_of_int64 n) = Some n"
proof (cases "n = 0")
  case True
  then show ?thesis by (simp add: double_of_int64_def int_of_double_def)
next
  case False
  obtain sig e where r: "round53 (nat \<bar>n\<bar>) = (sig, e)" by (cases "round53 (nat \<bar>n\<bar>)")
  have "0 < nat \<bar>n\<bar>" "nat \<bar>n\<bar> \<le> 2 ^ 53" using False assms by simp_all
  note R = round53_exact [OF this r]
  then have "int_of_double (double_of_int64 n) = Some ((if n < 0 then - 1 else 1) * int (nat \<bar>n\<bar>))"
    using False int_of_double_bits [of sig e "n < 0"]
    by (simp add: double_of_int64_def r split: if_splits)
  then show ?thesis by (simp split: if_splits)
qed

end
