(* ===== verification/Gv8_Primitive.thy ===== *)
theory Gv8_Primitive
  imports Gv8_Isolate V8_Double
begin

text \<open>
  Values made from host data: strings, booleans, numbers, errors and byte buffers.
\<close>

section \<open>The operations\<close>

text \<open>The bytes \<open>NewFromUtf8(iso, value, type, length)\<close> reads: up to the NUL when the length is negative;
  reading beyond the memory at \<open>value\<close> is undefined.\<close>

definition utf8_data :: "string \<Rightarrow> int \<Rightarrow> string option" where
  "utf8_data value len =
     (if len < 0 then Some (c_str value)
      else if int (size value) < len then None
      else Some (take (nat len) value))"

definition GV8NewString ::
    "('e, 'g) v8 \<Rightarrow> ('e, 'g) dispatcher \<Rightarrow> addr \<Rightarrow> string \<Rightarrow> int \<Rightarrow> ('e, 'g) world \<Rightarrow>
       (GV8RtnValue \<times> ('e, 'g) world) option" where
  "GV8NewString V h ctx value len w =
     do { (isolate, local_ctx) \<leftarrow> ctx_scope V ctx w;
          bytes \<leftarrow> utf8_data value len;
          let (str, w1) = engine_step (NewFromUtf8 V bytes) w;
          case str of
            None \<Rightarrow> error_result V h (TryCatch_now V (engine w1)) w1
          | Some s \<Rightarrow> value_result V ctx isolate s w1 }"

definition GV8NewBoolean ::
    "('e, 'g) v8 \<Rightarrow> addr \<Rightarrow> int \<Rightarrow> ('e, 'g) world \<Rightarrow> (GV8RtnValue \<times> ('e, 'g) world) option" where
  "GV8NewBoolean V ctx value w =
     do { (isolate, local_ctx) \<leftarrow> ctx_scope V ctx w;
          let (ob, w1) = engine_step (Boolean_New V (value \<noteq> 0)) w;
          value_result V ctx isolate ob w1 }"

definition GV8NewInteger ::
    "('e, 'g) v8 \<Rightarrow> addr \<Rightarrow> int \<Rightarrow> ('e, 'g) world \<Rightarrow> (GV8RtnValue \<times> ('e, 'g) world) option" where
  "GV8NewInteger V ctx value w =
     do { (isolate, local_ctx) \<leftarrow> ctx_scope V ctx w;
          let (ob, w1) = engine_step (Number_New V (double_of_int64 value)) w;
          value_result V ctx isolate ob w1 }"

definition GV8NewNumber ::
    "('e, 'g) v8 \<Rightarrow> addr \<Rightarrow> u64 \<Rightarrow> ('e, 'g) world \<Rightarrow> (GV8RtnValue \<times> ('e, 'g) world) option" where
  "GV8NewNumber V ctx value w =
     do { (isolate, local_ctx) \<leftarrow> ctx_scope V ctx w;
          let (ob, w1) = engine_step (Number_New V value) w;
          value_result V ctx isolate ob w1 }"

definition GV8NewNull ::
    "('e, 'g) v8 \<Rightarrow> addr \<Rightarrow> ('e, 'g) world \<Rightarrow> (GV8RtnValue \<times> ('e, 'g) world) option" where
  "GV8NewNull V ctx w =
     do { (isolate, local_ctx) \<leftarrow> ctx_scope V ctx w;
          let (ob, w1) = engine_step (Null_New V) w;
          value_result V ctx isolate ob w1 }"

definition GV8NewUndefined ::
    "('e, 'g) v8 \<Rightarrow> addr \<Rightarrow> ('e, 'g) world \<Rightarrow> (GV8RtnValue \<times> ('e, 'g) world) option" where
  "GV8NewUndefined V ctx w =
     do { (isolate, local_ctx) \<leftarrow> ctx_scope V ctx w;
          let (ob, w1) = engine_step (Undefined_New V) w;
          value_result V ctx isolate ob w1 }"

text \<open>\<open>std::string msg(value, length)\<close> throws for a negative length, which nothing catches.\<close>

definition GV8NewError ::
    "('e, 'g) v8 \<Rightarrow> addr \<Rightarrow> string \<Rightarrow> int \<Rightarrow> ('e, 'g) world \<Rightarrow> (GV8RtnValue \<times> ('e, 'g) world) option" where
  "GV8NewError V ctx value len w =
     do { (isolate, local_ctx) \<leftarrow> ctx_scope V ctx w;
          msg \<leftarrow> (if len < 0 \<or> int (size value) < len then None else Some (take (nat len) value));
          (ob, w1) \<leftarrow> NewError V msg w;
          value_result V ctx isolate ob w1 }"

text \<open>\<open>NewBackingStore\<close> gives zeroed memory, into which the host's bytes are copied.\<close>

definition backing_bytes :: "byte list option \<Rightarrow> int \<Rightarrow> byte list option" where
  "backing_bytes data len =
     (let sz = (if len > 0 then nat len else 0)
      in if sz > 0 \<and> data \<noteq> None
         then (if size (the data) < sz then None else Some (take sz (the data)))
         else Some (replicate sz 0))"

definition GV8NewArrayBufferCopy ::
    "('e, 'g) v8 \<Rightarrow> addr \<Rightarrow> byte list option \<Rightarrow> int \<Rightarrow> ('e, 'g) world \<Rightarrow>
       (GV8RtnValue \<times> ('e, 'g) world) option" where
  "GV8NewArrayBufferCopy V ctx data len w =
     do { (isolate, local_ctx) \<leftarrow> ctx_scope V ctx w;
          store \<leftarrow> backing_bytes data len;
          let (buffer, w1) = engine_step (ArrayBuffer_New V store) w;
          value_result V ctx isolate buffer w1 }"

definition GV8NewUint8ArrayCopy ::
    "('e, 'g) v8 \<Rightarrow> addr \<Rightarrow> byte list option \<Rightarrow> int \<Rightarrow> ('e, 'g) world \<Rightarrow>
       (GV8RtnValue \<times> ('e, 'g) world) option" where
  "GV8NewUint8ArrayCopy V ctx data len w =
     do { (isolate, local_ctx) \<leftarrow> ctx_scope V ctx w;
          store \<leftarrow> backing_bytes data len;
          let (buffer, w1) = engine_step (ArrayBuffer_New V store) w;
          let (view, w2) = engine_step (Uint8Array_New V buffer 0 (if len > 0 then nat len else 0)) w1;
          value_result V ctx isolate view w2 }"

section \<open>The invariant\<close>

lemma GV8NewString_ok [ok_rules]:
  "GV8NewString V h c s l w = Some (x, w') \<Longrightarrow> world_ok (handles V) w \<Longrightarrow> handles_ok (handles V) \<Longrightarrow>
     dispatcher_ok V h \<Longrightarrow> world_ok (handles V) w'"
  by (auto simp: GV8NewString_def run_simps) (assumption | rule ok_rules, assumption)+

lemma GV8NewBoolean_ok [ok_rules]:
  "GV8NewBoolean V c b w = Some (x, w') \<Longrightarrow> world_ok (handles V) w \<Longrightarrow> handles_ok (handles V) \<Longrightarrow>
     world_ok (handles V) w'"
  by (auto simp: GV8NewBoolean_def run_simps) (assumption | rule ok_rules, assumption)+

lemma GV8NewInteger_ok [ok_rules]:
  "GV8NewInteger V c b w = Some (x, w') \<Longrightarrow> world_ok (handles V) w \<Longrightarrow> handles_ok (handles V) \<Longrightarrow>
     world_ok (handles V) w'"
  by (auto simp: GV8NewInteger_def run_simps) (assumption | rule ok_rules, assumption)+

lemma GV8NewNumber_ok [ok_rules]:
  "GV8NewNumber V c b w = Some (x, w') \<Longrightarrow> world_ok (handles V) w \<Longrightarrow> handles_ok (handles V) \<Longrightarrow>
     world_ok (handles V) w'"
  by (auto simp: GV8NewNumber_def run_simps) (assumption | rule ok_rules, assumption)+

lemma GV8NewNull_ok [ok_rules]:
  "GV8NewNull V c w = Some (x, w') \<Longrightarrow> world_ok (handles V) w \<Longrightarrow> handles_ok (handles V) \<Longrightarrow>
     world_ok (handles V) w'"
  by (auto simp: GV8NewNull_def run_simps) (assumption | rule ok_rules, assumption)+

lemma GV8NewUndefined_ok [ok_rules]:
  "GV8NewUndefined V c w = Some (x, w') \<Longrightarrow> world_ok (handles V) w \<Longrightarrow> handles_ok (handles V) \<Longrightarrow>
     world_ok (handles V) w'"
  by (auto simp: GV8NewUndefined_def run_simps) (assumption | rule ok_rules, assumption)+

lemma GV8NewError_ok [ok_rules]:
  "GV8NewError V c s l w = Some (x, w') \<Longrightarrow> world_ok (handles V) w \<Longrightarrow> handles_ok (handles V) \<Longrightarrow>
     world_ok (handles V) w'"
  by (auto simp: GV8NewError_def run_simps) (assumption | rule ok_rules, assumption)+

lemma GV8NewArrayBufferCopy_ok [ok_rules]:
  "GV8NewArrayBufferCopy V c d l w = Some (x, w') \<Longrightarrow> world_ok (handles V) w \<Longrightarrow>
     handles_ok (handles V) \<Longrightarrow> world_ok (handles V) w'"
  by (auto simp: GV8NewArrayBufferCopy_def run_simps) (assumption | rule ok_rules, assumption)+

lemma GV8NewUint8ArrayCopy_ok [ok_rules]:
  "GV8NewUint8ArrayCopy V c d l w = Some (x, w') \<Longrightarrow> world_ok (handles V) w \<Longrightarrow>
     handles_ok (handles V) \<Longrightarrow> world_ok (handles V) w'"
  by (auto simp: GV8NewUint8ArrayCopy_def run_simps) (assumption | rule ok_rules, assumption)+

section \<open>Properties\<close>

text \<open>\<open>GV8NewInteger\<close> is \<open>GV8NewNumber\<close> on a double that denotes exactly the given integer, for every
  integer up to 2^53 in magnitude, both signs included; beyond, it rounds (2^53 + 1 becomes 2^53).\<close>

lemma GV8NewInteger_exact:
  assumes "\<bar>n\<bar> \<le> 2 ^ 53"
  shows "\<exists>d. int_of_double d = Some n \<and> GV8NewInteger V ctx n w = GV8NewNumber V ctx d w"
  using double_exact [OF assms] by (auto simp: GV8NewInteger_def GV8NewNumber_def)



end
