(* ===== verification/Gv8_Convert.thy ===== *)
theory Gv8_Convert
  imports Gv8_Primitive
begin

text \<open>
  Reading values: conversions, the type tests, the bytes of a buffer or view, and lengths.
\<close>

section \<open>Conversions\<close>

definition EmptyString :: GV8RtnString where
  "EmptyString = \<lparr>rstr_data = None, rstr_length = 0, rstr_error = EmptyError\<rparr>"

text \<open>\<open>rtn.data = CopyString(utf8); rtn.length = static_cast<int>(utf8.length());\<close>\<close>

definition string_of_utf8 :: "string option \<Rightarrow> GV8RtnString" where
  "string_of_utf8 utf8 =
     EmptyString\<lparr>rstr_data := CopyString_utf8 utf8,
       rstr_length := cast_int (case utf8 of None \<Rightarrow> 0 | Some s \<Rightarrow> size s)\<rparr>"

definition GV8ValueToString ::
    "('e, 'g) v8 \<Rightarrow> ('e, 'g) dispatcher \<Rightarrow> addr \<Rightarrow> ('e, 'g) world \<Rightarrow>
       (GV8RtnString \<times> ('e, 'g) world) option" where
  "GV8ValueToString V h value_ptr w =
     (if value_ptr = nullptr then Some (EmptyString, w)
      else do {
        y \<leftarrow> wrappers w value_ptr;
        (isolate, local_ctx) \<leftarrow> value_scope V y w;
        value \<leftarrow> get_local V (val_ptr y) w;
        (utf8, w1) \<leftarrow> run h (Utf8Value V value) w;
        if utf8 = None then
          do { (e, w2) \<leftarrow> ExceptionError V h (TryCatch_now V (engine w1)) w1;
               Some (EmptyString\<lparr>rstr_error := e\<rparr>, w2) }
        else Some (string_of_utf8 utf8, w1) })"

definition GV8ValueToInteger ::
    "('e, 'g) v8 \<Rightarrow> ('e, 'g) dispatcher \<Rightarrow> addr \<Rightarrow> ('e, 'g) world \<Rightarrow> (int \<times> ('e, 'g) world) option" where
  "GV8ValueToInteger V h value_ptr w =
     do { y \<leftarrow> wrappers w value_ptr;
          (isolate, local_ctx) \<leftarrow> value_scope V y w;
          value \<leftarrow> get_obj V (val_ptr y) w;
          (m, w1) \<leftarrow> run h (IntegerValue V local_ctx value) w;
          Some (Maybe_FromMaybe m 0, w1) }"

definition GV8ValueToBoolean :: "('e, 'g) v8 \<Rightarrow> addr \<Rightarrow> ('e, 'g) world \<Rightarrow> int option" where
  "GV8ValueToBoolean V value_ptr w =
     do { y \<leftarrow> wrappers w value_ptr;
          (isolate, local_ctx) \<leftarrow> value_scope V y w;
          value \<leftarrow> get_obj V (val_ptr y) w;
          Some (if BooleanValue V value (engine w) then 1 else 0) }"

section \<open>Type tests\<close>

definition value_test :: "('e, 'g) v8 \<Rightarrow> value_kind \<Rightarrow> addr \<Rightarrow> ('e, 'g) world \<Rightarrow> int option" where
  "value_test V k value_ptr w =
     do { y \<leftarrow> wrappers w value_ptr;
          _ \<leftarrow> iso_scope (val_iso y) w;
          value \<leftarrow> get_obj V (val_ptr y) w;
          Some (if value_is V k value (engine w) then 1 else 0) }"

definition GV8ValueIsObject :: "('e, 'g) v8 \<Rightarrow> addr \<Rightarrow> ('e, 'g) world \<Rightarrow> int option" where
  "GV8ValueIsObject V = value_test V KObject"

definition GV8ValueIsString :: "('e, 'g) v8 \<Rightarrow> addr \<Rightarrow> ('e, 'g) world \<Rightarrow> int option" where
  "GV8ValueIsString V = value_test V KString"

definition GV8ValueIsBoolean :: "('e, 'g) v8 \<Rightarrow> addr \<Rightarrow> ('e, 'g) world \<Rightarrow> int option" where
  "GV8ValueIsBoolean V = value_test V KBoolean"

definition GV8ValueIsUndefined :: "('e, 'g) v8 \<Rightarrow> addr \<Rightarrow> ('e, 'g) world \<Rightarrow> int option" where
  "GV8ValueIsUndefined V = value_test V KUndefined"

definition GV8ValueIsNull :: "('e, 'g) v8 \<Rightarrow> addr \<Rightarrow> ('e, 'g) world \<Rightarrow> int option" where
  "GV8ValueIsNull V = value_test V KNull"

definition GV8ValueIsPromise :: "('e, 'g) v8 \<Rightarrow> addr \<Rightarrow> ('e, 'g) world \<Rightarrow> int option" where
  "GV8ValueIsPromise V = value_test V KPromise"

definition GV8ValueIsFunction :: "('e, 'g) v8 \<Rightarrow> addr \<Rightarrow> ('e, 'g) world \<Rightarrow> int option" where
  "GV8ValueIsFunction V = value_test V KFunction"

definition GV8ValueIsArrayBuffer :: "('e, 'g) v8 \<Rightarrow> addr \<Rightarrow> ('e, 'g) world \<Rightarrow> int option" where
  "GV8ValueIsArrayBuffer V = value_test V KArrayBuffer"

definition GV8ValueIsArrayBufferView :: "('e, 'g) v8 \<Rightarrow> addr \<Rightarrow> ('e, 'g) world \<Rightarrow> int option" where
  "GV8ValueIsArrayBufferView V = value_test V KArrayBufferView"

definition GV8ValueIsUint8Array :: "('e, 'g) v8 \<Rightarrow> addr \<Rightarrow> ('e, 'g) world \<Rightarrow> int option" where
  "GV8ValueIsUint8Array V = value_test V KUint8Array"

definition GV8ValueIsInt8Array :: "('e, 'g) v8 \<Rightarrow> addr \<Rightarrow> ('e, 'g) world \<Rightarrow> int option" where
  "GV8ValueIsInt8Array V = value_test V KInt8Array"

definition GV8ValueIsUint8ClampedArray :: "('e, 'g) v8 \<Rightarrow> addr \<Rightarrow> ('e, 'g) world \<Rightarrow> int option" where
  "GV8ValueIsUint8ClampedArray V = value_test V KUint8ClampedArray"

section \<open>Bytes and lengths\<close>

text \<open>Copying \<open>length\<close> bytes from \<open>data + offset\<close>: nothing is read for length 0, and reading outside the
  backing store is undefined.\<close>

definition copy_bytes :: "byte list \<Rightarrow> nat \<Rightarrow> nat \<Rightarrow> byte list option" where
  "copy_bytes store offset len =
     (if len = 0 then Some []
      else if size store < offset + len then None
      else Some (take len (drop offset store)))"

definition EmptyBytes :: GV8RtnBytes where
  "EmptyBytes = \<lparr>rb_data = None, rb_length = 0, rb_error = EmptyError\<rparr>"

definition GV8ValueBytes ::
    "('e, 'g) v8 \<Rightarrow> addr \<Rightarrow> ('e, 'g) world \<Rightarrow> (GV8RtnBytes \<times> ('e, 'g) world) option" where
  "GV8ValueBytes V value_ptr w =
     do { y \<leftarrow> wrappers w value_ptr;
          (isolate, local_ctx) \<leftarrow> value_scope V y w;
          value \<leftarrow> get_obj V (val_ptr y) w;
          if value_is V KArrayBuffer value (engine w) then
            do { let store = BackingStore V value (engine w);
                 copy \<leftarrow> copy_bytes store 0 (size store);
                 Some (EmptyBytes\<lparr>rb_data := Some copy, rb_length := cast_int (size store)\<rparr>, w) }
          else if value_is V KArrayBufferView value (engine w) then
            do { let (buffer, w1) = engine_step (View_Buffer V value) w;
                 let store = BackingStore V buffer (engine w1);
                 let offset = View_ByteOffset V value (engine w1);
                 let len = View_ByteLength V value (engine w1);
                 copy \<leftarrow> copy_bytes store offset len;
                 Some (EmptyBytes\<lparr>rb_data := Some copy, rb_length := cast_int len\<rparr>, w1) }
          else Some (EmptyBytes\<lparr>rb_error := EmptyError\<lparr>err_msg :=
                  CopyString ''gv8: value is not an ArrayBuffer or ArrayBufferView''\<rparr>\<rparr>, w) }"

definition GV8ValueLen ::
    "('e, 'g) v8 \<Rightarrow> ('e, 'g) dispatcher \<Rightarrow> addr \<Rightarrow> ('e, 'g) world \<Rightarrow> (u32 \<times> ('e, 'g) world) option" where
  "GV8ValueLen V h value_ptr w =
     (if value_ptr = nullptr then Some (0, w)
      else do {
        y \<leftarrow> wrappers w value_ptr;
        (isolate, local_ctx) \<leftarrow> value_scope V y w;
        value \<leftarrow> get_obj V (val_ptr y) w;
        if value_is V KArray value (engine w) then Some (Array_Length V value (engine w), w)
        else if value_is V KArrayBuffer value (engine w) then
          Some (cast_u32 (size (BackingStore V value (engine w))), w)
        else if value_is V KArrayBufferView value (engine w) then
          Some (cast_u32 (View_ByteLength V value (engine w)), w)
        else if value_is V KString value (engine w) then
          Some (cast_u32 (String_Length V value (engine w)), w)
        else if value_is V KObject value (engine w) then
          do { (key, w1) \<leftarrow> new_string_checked V ''length'' w;
               (got, w2) \<leftarrow> run h (Object_Get V local_ctx value key) w1;
               case got of
                 Ok length_value \<Rightarrow>
                   do { (m, w3) \<leftarrow> run h (Uint32Value V local_ctx length_value) w2;
                        Some (Maybe_FromMaybe m 0, w3) }
               | Exn _ \<Rightarrow> Some (0, w2) }
        else Some (0, w) })"

section \<open>The invariant\<close>

lemma GV8ValueToString_ok [ok_rules]:
  "GV8ValueToString V h v w = Some (x, w') \<Longrightarrow> world_ok (handles V) w \<Longrightarrow> dispatcher_ok V h \<Longrightarrow>
     world_ok (handles V) w'"
  by (auto simp: GV8ValueToString_def run_simps) (assumption | rule ok_rules, assumption)+

lemma GV8ValueToInteger_ok [ok_rules]:
  "GV8ValueToInteger V h v w = Some (x, w') \<Longrightarrow> world_ok (handles V) w \<Longrightarrow> dispatcher_ok V h \<Longrightarrow>
     world_ok (handles V) w'"
  by (auto simp: GV8ValueToInteger_def run_simps) (assumption | rule ok_rules, assumption)+

lemma GV8ValueBytes_ok [ok_rules]:
  "GV8ValueBytes V v w = Some (x, w') \<Longrightarrow> world_ok (handles V) w \<Longrightarrow> world_ok (handles V) w'"
  by (auto simp: GV8ValueBytes_def run_simps) (assumption | rule ok_rules, assumption)+

lemma GV8ValueLen_ok [ok_rules]:
  "GV8ValueLen V h v w = Some (x, w') \<Longrightarrow> world_ok (handles V) w \<Longrightarrow> dispatcher_ok V h \<Longrightarrow>
     world_ok (handles V) w'"
  by (auto simp: GV8ValueLen_def run_simps) (assumption | rule ok_rules, assumption)+

end
