(* ===== verification/Gv8_Object.thy ===== *)
theory Gv8_Object
  imports Gv8_Convert
begin

text \<open>
  Objects, calls, promises and JSON. Every operation enters the isolate and the context of the value,
  runs the engine, and either wraps the result in that context or reports the exception.
\<close>

section \<open>Properties of objects\<close>

definition GV8ObjectGet ::
    "('e, 'g) v8 \<Rightarrow> ('e, 'g) dispatcher \<Rightarrow> addr \<Rightarrow> string \<Rightarrow> ('e, 'g) world \<Rightarrow>
       (GV8RtnValue \<times> ('e, 'g) world) option" where
  "GV8ObjectGet V h value_ptr key w =
     do { y \<leftarrow> wrappers w value_ptr;
          (isolate, local_ctx) \<leftarrow> value_scope V y w;
          object \<leftarrow> get_obj V (val_ptr y) w;
          (prop, w1) \<leftarrow> new_string_checked V key w;
          (r, w2) \<leftarrow> run h (Object_Get V local_ctx object prop) w1;
          return_local V h (val_ctx y) isolate r w2 }"

definition GV8ObjectGetIdx ::
    "('e, 'g) v8 \<Rightarrow> ('e, 'g) dispatcher \<Rightarrow> addr \<Rightarrow> u32 \<Rightarrow> ('e, 'g) world \<Rightarrow>
       (GV8RtnValue \<times> ('e, 'g) world) option" where
  "GV8ObjectGetIdx V h value_ptr index w =
     do { y \<leftarrow> wrappers w value_ptr;
          (isolate, local_ctx) \<leftarrow> value_scope V y w;
          object \<leftarrow> get_obj V (val_ptr y) w;
          (r, w1) \<leftarrow> run h (Object_GetIdx V local_ctx object index) w;
          return_local V h (val_ctx y) isolate r w1 }"

definition GV8ObjectHas ::
    "('e, 'g) v8 \<Rightarrow> ('e, 'g) dispatcher \<Rightarrow> addr \<Rightarrow> string \<Rightarrow> ('e, 'g) world \<Rightarrow>
       (int \<times> ('e, 'g) world) option" where
  "GV8ObjectHas V h value_ptr key w =
     do { y \<leftarrow> wrappers w value_ptr;
          (isolate, local_ctx) \<leftarrow> value_scope V y w;
          object \<leftarrow> get_obj V (val_ptr y) w;
          (prop, w1) \<leftarrow> new_string_checked V key w;
          (m, w2) \<leftarrow> run h (Object_Has V local_ctx object prop) w1;
          Some (if Maybe_FromMaybe m False then 1 else 0, w2) }"

definition GV8ObjectSet ::
    "('e, 'g) v8 \<Rightarrow> ('e, 'g) dispatcher \<Rightarrow> addr \<Rightarrow> string \<Rightarrow> addr \<Rightarrow> ('e, 'g) world \<Rightarrow>
       (GV8RtnError \<times> ('e, 'g) world) option" where
  "GV8ObjectSet V h value_ptr key prop_ptr w =
     do { y \<leftarrow> wrappers w value_ptr;
          (isolate, local_ctx) \<leftarrow> value_scope V y w;
          object \<leftarrow> get_obj V (val_ptr y) w;
          (prop, w1) \<leftarrow> new_string_checked V key w;
          value \<leftarrow> value_local V prop_ptr w1;
          (r, w2) \<leftarrow> run h (Object_Set V local_ctx object prop value) w1;
          status_result V h r w2 }"

definition GV8ObjectSetIdx ::
    "('e, 'g) v8 \<Rightarrow> ('e, 'g) dispatcher \<Rightarrow> addr \<Rightarrow> u32 \<Rightarrow> addr \<Rightarrow> ('e, 'g) world \<Rightarrow>
       (GV8RtnError \<times> ('e, 'g) world) option" where
  "GV8ObjectSetIdx V h value_ptr index prop_ptr w =
     do { y \<leftarrow> wrappers w value_ptr;
          (isolate, local_ctx) \<leftarrow> value_scope V y w;
          object \<leftarrow> get_obj V (val_ptr y) w;
          value \<leftarrow> value_local V prop_ptr w;
          (r, w1) \<leftarrow> run h (Object_SetIdx V local_ctx object index value) w;
          status_result V h r w1 }"

section \<open>Calls\<close>

text \<open>The loop that reads the argument handles in order.\<close>

primrec read_args :: "('e, 'g) v8 \<Rightarrow> addr list \<Rightarrow> ('e, 'g) world \<Rightarrow> obj option list option" where
  "read_args V [] w = Some []"
| "read_args V (a # as) w = do { l \<leftarrow> value_local V a w; ls \<leftarrow> read_args V as w; Some (l # ls) }"

definition GV8ValueCall ::
    "('e, 'g) v8 \<Rightarrow> ('e, 'g) dispatcher \<Rightarrow> addr \<Rightarrow> addr \<Rightarrow> addr list \<Rightarrow> ('e, 'g) world \<Rightarrow>
       (GV8RtnValue \<times> ('e, 'g) world) option" where
  "GV8ValueCall V h value_ptr recv_ptr argv w =
     do { y \<leftarrow> wrappers w value_ptr;
          (isolate, local_ctx) \<leftarrow> value_scope V y w;
          fn \<leftarrow> get_obj V (val_ptr y) w;
          args \<leftarrow> read_args V argv w;
          recv \<leftarrow> value_local V recv_ptr w;
          (r, w1) \<leftarrow> run h (Function_Call V local_ctx fn recv args) w;
          return_local V h (val_ctx y) isolate r w1 }"

definition GV8ObjectCallMethod ::
    "('e, 'g) v8 \<Rightarrow> ('e, 'g) dispatcher \<Rightarrow> addr \<Rightarrow> string \<Rightarrow> addr list \<Rightarrow> ('e, 'g) world \<Rightarrow>
       (GV8RtnValue \<times> ('e, 'g) world) option" where
  "GV8ObjectCallMethod V h value_ptr key argv w =
     do { (method_rtn, w1) \<leftarrow> GV8ObjectGet V h value_ptr key w;
          if rv_value method_rtn = nullptr then Some (method_rtn, w1)
          else GV8ValueCall V h (rv_value method_rtn) value_ptr argv w1 }"

section \<open>Promises\<close>

definition GV8PromiseState :: "('e, 'g) v8 \<Rightarrow> addr \<Rightarrow> ('e, 'g) world \<Rightarrow> int option" where
  "GV8PromiseState V value_ptr w =
     do { y \<leftarrow> wrappers w value_ptr;
          _ \<leftarrow> iso_scope (val_iso y) w;
          promise \<leftarrow> get_obj V (val_ptr y) w;
          Some (Promise_State V promise (engine w)) }"

definition GV8PromiseResult ::
    "('e, 'g) v8 \<Rightarrow> addr \<Rightarrow> ('e, 'g) world \<Rightarrow> (addr \<times> ('e, 'g) world) option" where
  "GV8PromiseResult V value_ptr w =
     do { y \<leftarrow> wrappers w value_ptr;
          (isolate, local_ctx) \<leftarrow> value_scope V y w;
          promise \<leftarrow> get_obj V (val_ptr y) w;
          let (result, w1) = engine_step (Promise_Result V promise) w;
          wrapValue V (val_ctx y) isolate (Some result) w1 }"

definition GV8PromiseResolverGetPromise ::
    "('e, 'g) v8 \<Rightarrow> addr \<Rightarrow> ('e, 'g) world \<Rightarrow> (addr \<times> ('e, 'g) world) option" where
  "GV8PromiseResolverGetPromise V value_ptr w =
     do { y \<leftarrow> wrappers w value_ptr;
          (isolate, local_ctx) \<leftarrow> value_scope V y w;
          resolver \<leftarrow> get_obj V (val_ptr y) w;
          let (promise, w1) = engine_step (Resolver_GetPromise V resolver) w;
          wrapValue V (val_ctx y) isolate (Some promise) w1 }"

definition GV8PromiseResolverResolve ::
    "('e, 'g) v8 \<Rightarrow> ('e, 'g) dispatcher \<Rightarrow> addr \<Rightarrow> addr \<Rightarrow> ('e, 'g) world \<Rightarrow>
       (GV8RtnError \<times> ('e, 'g) world) option" where
  "GV8PromiseResolverResolve V h value_ptr result_ptr w =
     do { y \<leftarrow> wrappers w value_ptr;
          (isolate, local_ctx) \<leftarrow> value_scope V y w;
          resolver \<leftarrow> get_obj V (val_ptr y) w;
          result \<leftarrow> value_local V result_ptr w;
          (r, w1) \<leftarrow> run h (Resolver_Resolve V local_ctx resolver result) w;
          status_result V h r w1 }"

definition GV8PromiseResolverReject ::
    "('e, 'g) v8 \<Rightarrow> ('e, 'g) dispatcher \<Rightarrow> addr \<Rightarrow> addr \<Rightarrow> ('e, 'g) world \<Rightarrow>
       (GV8RtnError \<times> ('e, 'g) world) option" where
  "GV8PromiseResolverReject V h value_ptr result_ptr w =
     do { y \<leftarrow> wrappers w value_ptr;
          (isolate, local_ctx) \<leftarrow> value_scope V y w;
          resolver \<leftarrow> get_obj V (val_ptr y) w;
          result \<leftarrow> value_local V result_ptr w;
          (r, w1) \<leftarrow> run h (Resolver_Reject V local_ctx resolver result) w;
          status_result V h r w1 }"

section \<open>JSON\<close>

definition GV8JSONStringify ::
    "('e, 'g) v8 \<Rightarrow> ('e, 'g) dispatcher \<Rightarrow> addr \<Rightarrow> addr \<Rightarrow> ('e, 'g) world \<Rightarrow>
       (GV8RtnString \<times> ('e, 'g) world) option" where
  "GV8JSONStringify V h ctx value_ptr w =
     do { (isolate, local_ctx) \<leftarrow> ctx_scope V ctx w;
          value \<leftarrow> value_local V value_ptr w;
          (r, w1) \<leftarrow> run h (JSON_Stringify V local_ctx value) w;
          case r of
            Exn t \<Rightarrow> do { (e, w2) \<leftarrow> ExceptionError V h t w1; Some (EmptyString\<lparr>rstr_error := e\<rparr>, w2) }
          | Ok result \<Rightarrow>
              do { (utf8, w2) \<leftarrow> run h (Utf8Value V (Some result)) w1; Some (string_of_utf8 utf8, w2) } }"

definition GV8JSONParse ::
    "('e, 'g) v8 \<Rightarrow> ('e, 'g) dispatcher \<Rightarrow> addr \<Rightarrow> string \<Rightarrow> int \<Rightarrow> ('e, 'g) world \<Rightarrow>
       (GV8RtnValue \<times> ('e, 'g) world) option" where
  "GV8JSONParse V h ctx value len w =
     do { (isolate, local_ctx) \<leftarrow> ctx_scope V ctx w;
          bytes \<leftarrow> utf8_data value len;
          let (json, w1) = engine_step (NewFromUtf8 V bytes) w;
          case json of
            None \<Rightarrow> error_result V h (TryCatch_now V (engine w1)) w1
          | Some s \<Rightarrow>
              do { (r, w2) \<leftarrow> run h (JSON_Parse V local_ctx s) w1;
                   return_local V h ctx isolate r w2 } }"

section \<open>The invariant\<close>

lemma object_ops_ok [ok_rules]:
  "GV8ObjectGet V h v k w = Some (x, w') \<Longrightarrow> world_ok (handles V) w \<Longrightarrow> handles_ok (handles V) \<Longrightarrow>
     dispatcher_ok V h \<Longrightarrow> world_ok (handles V) w'"
  "GV8ObjectGetIdx V h v i w = Some (x, w') \<Longrightarrow> world_ok (handles V) w \<Longrightarrow> handles_ok (handles V) \<Longrightarrow>
     dispatcher_ok V h \<Longrightarrow> world_ok (handles V) w'"
  "GV8ValueCall V h v r as w = Some (x, w') \<Longrightarrow> world_ok (handles V) w \<Longrightarrow> handles_ok (handles V) \<Longrightarrow>
     dispatcher_ok V h \<Longrightarrow> world_ok (handles V) w'"
  by (auto simp: GV8ObjectGet_def GV8ObjectGetIdx_def GV8ValueCall_def run_simps)
    (assumption | rule ok_rules, assumption)+

lemma object_status_ok [ok_rules]:
  "GV8ObjectHas V h v k w = Some (n, w') \<Longrightarrow> world_ok (handles V) w \<Longrightarrow> dispatcher_ok V h \<Longrightarrow>
     world_ok (handles V) w'"
  "GV8ObjectSet V h v k p w = Some (e, w') \<Longrightarrow> world_ok (handles V) w \<Longrightarrow> dispatcher_ok V h \<Longrightarrow>
     world_ok (handles V) w'"
  "GV8ObjectSetIdx V h v i p w = Some (e, w') \<Longrightarrow> world_ok (handles V) w \<Longrightarrow> dispatcher_ok V h \<Longrightarrow>
     world_ok (handles V) w'"
  "GV8PromiseResolverResolve V h v p w = Some (e, w') \<Longrightarrow> world_ok (handles V) w \<Longrightarrow>
     dispatcher_ok V h \<Longrightarrow> world_ok (handles V) w'"
  "GV8PromiseResolverReject V h v p w = Some (e, w') \<Longrightarrow> world_ok (handles V) w \<Longrightarrow>
     dispatcher_ok V h \<Longrightarrow> world_ok (handles V) w'"
  by (auto simp: GV8ObjectHas_def GV8ObjectSet_def GV8ObjectSetIdx_def
      GV8PromiseResolverResolve_def GV8PromiseResolverReject_def run_simps)
    (assumption | rule ok_rules, assumption)+

lemma GV8ObjectCallMethod_ok [ok_rules]:
  "GV8ObjectCallMethod V h v k as w = Some (x, w') \<Longrightarrow> world_ok (handles V) w \<Longrightarrow>
     handles_ok (handles V) \<Longrightarrow> dispatcher_ok V h \<Longrightarrow> world_ok (handles V) w'"
  by (auto simp: GV8ObjectCallMethod_def run_simps) (assumption | rule ok_rules, assumption)+

lemma promise_ok [ok_rules]:
  "GV8PromiseResult V v w = Some (a, w') \<Longrightarrow> world_ok (handles V) w \<Longrightarrow> handles_ok (handles V) \<Longrightarrow>
     world_ok (handles V) w'"
  "GV8PromiseResolverGetPromise V v w = Some (a, w') \<Longrightarrow> world_ok (handles V) w \<Longrightarrow>
     handles_ok (handles V) \<Longrightarrow> world_ok (handles V) w'"
  by (auto simp: GV8PromiseResult_def GV8PromiseResolverGetPromise_def run_simps)
    (assumption | rule ok_rules, assumption)+

lemma GV8JSONStringify_ok [ok_rules]:
  "GV8JSONStringify V h c v w = Some (s, w') \<Longrightarrow> world_ok (handles V) w \<Longrightarrow> dispatcher_ok V h \<Longrightarrow>
     world_ok (handles V) w'"
  by (auto simp: GV8JSONStringify_def run_simps) (assumption | rule ok_rules, assumption)+

lemma GV8JSONParse_ok [ok_rules]:
  "GV8JSONParse V h c s l w = Some (x, w') \<Longrightarrow> world_ok (handles V) w \<Longrightarrow> handles_ok (handles V) \<Longrightarrow>
     dispatcher_ok V h \<Longrightarrow> world_ok (handles V) w'"
  by (auto simp: GV8JSONParse_def run_simps) (assumption | rule ok_rules, assumption)+

section \<open>A handle the caller never sees\<close>

text \<open>The wrapper \<open>m\<close> is live and unchanged, and its address is one already given out.\<close>

definition keeps :: "addr \<Rightarrow> gv8_value \<Rightarrow> ('e, 'g) world \<Rightarrow> bool" where
  "keeps m y w \<longleftrightarrow> wrappers w m = Some y \<and> m \<le> next_addr w"

text \<open>No callback releases \<open>m\<close>.\<close>

definition leaves_alone :: "('e, 'g) dispatcher \<Rightarrow> addr \<Rightarrow> bool" where
  "leaves_alone h m \<longleftrightarrow> (\<forall>y rq w rp w'. keeps m y w \<longrightarrow> h rq w = Some (rp, w') \<longrightarrow> keeps m y w')"

lemma run_keeps:
  assumes "leaves_alone h m" "run h f w = Some (a, w')" "keeps m y w"
  shows "keeps m y w'"
proof (rule exec_tree_invariant [where P = "keeps m y"])
  show "exec_tree h (f (engine w)) w = Some (a, w')" using assms(2) by (simp add: run_def)
  show "keeps m y v'" if "keeps m y v" "h rq v = Some (rp, v')" for rq v rp v'
    using assms(1) that by (simp add: leaves_alone_def)
  show "keeps m y (v\<lparr>engine := e\<rparr>)" if "keeps m y v" for v e using that by (simp add: keeps_def)
qed (rule assms(3))

lemma wrapBorrowedValue_sel:
  assumes "wrapBorrowedValue V c i l w = (a, w1)"
  shows "a = Suc (next_addr w)" "next_addr w1 = a" "contexts w1 = contexts w"
    "\<exists>z. val_id z = 0 \<and> wrappers w1 = (wrappers w)(a \<mapsto> z)"
proof -
  obtain s w0 where r: "reset_to V nullptr l (w\<lparr>next_addr := Suc (next_addr w)\<rparr>) = (s, w0)"
    by (cases "reset_to V nullptr l (w\<lparr>next_addr := Suc (next_addr w)\<rparr>)")
  have w0: "next_addr w0 = Suc (next_addr w)" "contexts w0 = contexts w" "wrappers w0 = wrappers w"
    using r by (auto simp: reset_to_def split: prod.splits)
  have w1: "a = Suc (next_addr w)"
    "w1 = put_wrapper a (Some \<lparr>val_id = 0, val_ctx = c, val_iso = i, val_ptr = s\<rparr>) w0"
    using assms by (auto simp: wrapBorrowedValue_def new_addr_def r)
  show "a = Suc (next_addr w)" "next_addr w1 = a" "contexts w1 = contexts w" using w0 w1 by simp_all
  show "\<exists>z. val_id z = 0 \<and> wrappers w1 = (wrappers w)(a \<mapsto> z)"
    by (rule exI [of _ "\<lparr>val_id = 0, val_ctx = c, val_iso = i, val_ptr = s\<rparr>"]) (simp add: w0 w1)
qed

lemma trackValue_wrappers:
  assumes "trackValue c a w = Some (b, w')"
  shows "b = a" "next_addr w' = next_addr w" "\<exists>z. wrappers w' = (wrappers w)(a \<mapsto> z)"
proof -
  obtain z where z: "wrappers w a = Some z" using assms by (auto simp: trackValue_def)
  then have "wrappers w = (wrappers w)(a \<mapsto> z)" by auto
  with assms z show "b = a" "next_addr w' = next_addr w" "\<exists>z. wrappers w' = (wrappers w)(a \<mapsto> z)"
    by (auto simp: trackValue_def run_simps)
qed

lemma wrapValue_wrappers:
  assumes "wrapValue V c i l w = Some (a, w')"
  shows "a = Suc (next_addr w) \<and> next_addr w' = a \<and> (\<exists>z. wrappers w' = (wrappers w)(a \<mapsto> z))"
proof -
  obtain b w1 where b: "wrapBorrowedValue V c i l w = (b, w1)" by (cases "wrapBorrowedValue V c i l w")
  then have t: "trackValue c b w1 = Some (a, w')" using assms by (simp add: wrapValue_borrow_track)
  show ?thesis using wrapBorrowedValue_sel [OF b] trackValue_wrappers [OF t] by auto
qed

lemma wrapValue_keeps: "wrapValue V c i l w = Some (a, w') \<Longrightarrow> keeps m y w \<Longrightarrow> keeps m y w'"
  by (drule wrapValue_wrappers) (auto simp: keeps_def)

lemma ExceptionError_keeps:
  assumes h: "leaves_alone h m" and e: "ExceptionError V h t w = Some (r, w')" and k: "keeps m y w"
  shows "keeps m y w'"
proof -
  note run = run_keeps [OF h]
  obtain exn w1 loc w2 where w: "run h (Utf8Value V (tc_exception t)) w = Some (exn, w1)"
    "(case tc_message t of None \<Rightarrow> Some (None, w1) | Some msg \<Rightarrow> message_location V h msg w1) = Some (loc, w2)"
    "(case tc_stack t of None \<Rightarrow> w' = w2 | Some st \<Rightarrow> \<exists>s. run h (Utf8Value V (Some st)) w2 = Some (s, w'))"
    using e by (auto simp: ExceptionError_def run_simps split: option.splits)
  have "keeps m y w1" by (rule run [OF w(1) k])
  then have "keeps m y w2" using w(2) run by (auto simp: message_location_def run_simps split: option.splits)
  then show ?thesis using w(3) run by (auto split: option.splits)
qed

lemma return_local_keeps:
  assumes h: "leaves_alone h m" and r: "return_local V h c i r w = Some (x, w')" and k: "keeps m y w"
  shows "keeps m y w'"
  using r wrapValue_keeps [OF _ k] ExceptionError_keeps [OF h _ k]
  by (cases r) (auto simp: return_local_def value_result_def error_result_def run_simps)

text \<open>A call of a value ends in \<open>return_local\<close>, from a world that still has \<open>m\<close>.\<close>

lemma GV8ValueCall_returns:
  assumes h: "leaves_alone h m" and c: "GV8ValueCall V h v recv as w = Some (x, w')" and k: "keeps m y w"
  obtains c i r w1 where "keeps m y w1" "return_local V h c i r w1 = Some (x, w')"
proof -
  obtain z :: gv8_value and i lc fn args rc r w1 where "run h (Function_Call V lc fn rc args) w = Some (r, w1)"
    "return_local V h (val_ctx z) i r w1 = Some (x, w')"
    using c by (auto simp: GV8ValueCall_def run_simps)
  then show ?thesis by (intro that run_keeps [OF h _ k])
qed

text \<open>A result with a handle came from \<open>wrapValue\<close>: the handle is live.\<close>

lemma ObjectGet_handle:
  assumes "GV8ObjectGet V h v key w = Some (r, w')" "rv_value r \<noteq> nullptr"
  shows "\<exists>y. keeps (rv_value r) y w'"
proof -
  obtain c i ob w2 where r: "return_local V h c i ob w2 = Some (r, w')"
    using assms(1) by (auto simp: GV8ObjectGet_def run_simps)
  then obtain l a where "wrapValue V c i l w2 = Some (a, w')" "rv_value r = a"
    using assms(2) by (cases ob) (auto simp: return_local_def value_result_def error_result_def run_simps)
  then show ?thesis by (auto simp: keeps_def dest!: wrapValue_wrappers)
qed

text \<open>C9: \<open>GV8ObjectCallMethod\<close> wraps the method it looks up and never releases that handle: after every
  call that found the method the handle is still live, although it is not the result and the caller has
  no way to learn its address.\<close>

theorem GV8ObjectCallMethod_leaks:
  assumes get: "GV8ObjectGet V h v key w = Some (got, w1)" "rv_value got \<noteq> nullptr"
    and alone: "leaves_alone h (rv_value got)"
    and call: "GV8ObjectCallMethod V h v key as w = Some (r, w')"
  shows "\<exists>y. wrappers w1 (rv_value got) = Some y \<and> wrappers w' (rv_value got) = Some y \<and>
    rv_value r \<noteq> rv_value got"
proof -
  obtain y where y: "keeps (rv_value got) y w1" using ObjectGet_handle [OF get] by blast
  have c: "GV8ValueCall V h (rv_value got) v as w1 = Some (r, w')"
    using call get by (simp add: GV8ObjectCallMethod_def)
  then obtain c i l w2 where w2: "keeps (rv_value got) y w2" "return_local V h c i l w2 = Some (r, w')"
    by (rule GV8ValueCall_returns [OF alone _ y])
  have "keeps (rv_value got) y w'" by (rule return_local_keeps [OF alone w2(2,1)])
  moreover have "rv_value r \<noteq> rv_value got"
    using w2 get(2) by (cases l) (auto simp: return_local_def value_result_def error_result_def run_simps keeps_def
        dest!: wrapValue_wrappers)
  ultimately show ?thesis using y by (auto simp: keeps_def)
qed

text \<open>A method found in the demonstration engine, and its call.\<close>

lemma demo_method:
  fixes h :: "(demo_val list, cell_table) dispatcher"
  obtains w1 where "GV8ObjectGet demo_v8 h 2 ''f'' demo_value_world = Some (EmptyValueResult\<lparr>rv_value := 3\<rparr>, w1)"
    "wrappers w1 = [2 \<mapsto> \<lparr>val_id = 1, val_ctx = 1, val_iso = 100, val_ptr = 2\<rparr>,
                    3 \<mapsto> \<lparr>val_id = 2, val_ctx = 1, val_iso = 100, val_ptr = 3\<rparr>]"
    "globals w1 = (3, [(3, 4), (2, 2), (1, 1)])"
    "contexts w1 = [1 \<mapsto> demo_ctx\<lparr>ctx_next_value_id := 2, ctx_values := [(1, 2), (2, 3)]\<rparr>]"
    "isolates w1 = [100 \<mapsto> demo_iso]"
    "engine w1 = [DContext, DString ''hi'', DString ''f'', DFunction 0]"
proof -
  let ?y = "\<lparr>val_id = 1, val_ctx = 1, val_iso = 100, val_ptr = 2\<rparr>"
  define v0 where "v0 = demo_value_world\<lparr>engine := [DContext, DString ''hi'', DString ''f'']\<rparr>"
  define w0 where "w0 = demo_value_world\<lparr>engine := [DContext, DString ''hi'', DString ''f'', DFunction 0]\<rparr>"
  have w0: "globals w0 = (2, [(2, 2), (1, 1)])" "next_addr w0 = 2" "engine w0 = [DContext, DString ''hi'', DString ''f'', DFunction 0]"
    "contexts w0 = [1 \<mapsto> demo_ctx\<lparr>ctx_next_value_id := 1, ctx_values := [(1, 2)]\<rparr>]"
    "wrappers w0 = [2 \<mapsto> ?y]" "isolates w0 = [100 \<mapsto> demo_iso]"
    by (simp_all add: w0_def demo_value_world_sel)
  have gl: "GlobalizeReference (handles demo_v8) 4 (globals w0) = (3, (3, [(3, 4), (2, 2), (1, 1)]))"
    by (simp add: w0)
  have scope: "value_scope demo_v8 ?y demo_value_world = Some (100, 1)" "get_obj demo_v8 2 demo_value_world = Some 2"
    by (simp_all add: value_scope_def iso_scope_def get_obj_Some demo_value_world_sel)
  have str: "new_string_checked demo_v8 ''f'' demo_value_world = Some (3, v0)"
    by (simp add: new_string_checked_def engine_step_def demo_v8_def demo_alloc_def c_str_def demo_value_world_sel v0_def)
  have get: "run h (Object_Get demo_v8 1 2 3) v0 = Some (Ok 4, w0)"
    by (simp add: run_def demo_v8_def demo_ret_def demo_alloc_def v0_def w0_def)
  have y: "wrappers demo_value_world 2 = Some ?y" by (simp add: demo_value_world_sel)
  have "contexts w0 1 = Some (demo_ctx\<lparr>ctx_next_value_id := 1, ctx_values := [(1, 2)]\<rparr>)" by (simp add: w0)
  from wrapValue_eq [OF gl this, of 100]
  obtain w1 where w1: "wrapValue demo_v8 1 100 (Some 4) w0 = Some (3, w1)"
    "w1 = put_context 1 (Some (demo_ctx\<lparr>ctx_next_value_id := 2, ctx_values := [(1, 2), (2, 3)]\<rparr>))
       (put_wrapper 3 (Some \<lparr>val_id = 2, val_ctx = 1, val_iso = 100, val_ptr = 3\<rparr>)
         (w0\<lparr>next_addr := 3, globals := (3, [(3, 4), (2, 2), (1, 1)])\<rparr>))"
    by (simp add: LONG_MAX_def w0 numeral_3_eq_3)
  have "GV8ObjectGet demo_v8 h 2 ''f'' demo_value_world = Some (EmptyValueResult\<lparr>rv_value := 3\<rparr>, w1)"
    by (simp add: GV8ObjectGet_def y scope str get return_local_def value_result_def w1(1))
  then show thesis by (rule that) (simp_all add: w1(2) w0)
qed

lemma demo_method_call:
  fixes h :: "(demo_val list, cell_table) dispatcher"
  obtains w1 r w' where "GV8ObjectGet demo_v8 h 2 ''f'' demo_value_world = Some (EmptyValueResult\<lparr>rv_value := 3\<rparr>, w1)"
    "GV8ObjectCallMethod demo_v8 h 2 ''f'' [] demo_value_world = Some (r, w')"
proof -
  obtain w1 where get: "GV8ObjectGet demo_v8 h 2 ''f'' demo_value_world = Some (EmptyValueResult\<lparr>rv_value := 3\<rparr>, w1)"
    and w1: "wrappers w1 = [2 \<mapsto> \<lparr>val_id = 1, val_ctx = 1, val_iso = 100, val_ptr = 2\<rparr>,
                    3 \<mapsto> \<lparr>val_id = 2, val_ctx = 1, val_iso = 100, val_ptr = 3\<rparr>]"
    "globals w1 = (3, [(3, 4), (2, 2), (1, 1)])"
    "contexts w1 = [1 \<mapsto> demo_ctx\<lparr>ctx_next_value_id := 2, ctx_values := [(1, 2), (2, 3)]\<rparr>]"
    "isolates w1 = [100 \<mapsto> demo_iso]"
    "engine w1 = [DContext, DString ''hi'', DString ''f'', DFunction 0]"
    by (rule demo_method)
  have scope: "value_scope demo_v8 \<lparr>val_id = 2, val_ctx = 1, val_iso = 100, val_ptr = 3\<rparr> w1 = Some (100, 1)"
    "get_obj demo_v8 3 w1 = Some 4" "value_local demo_v8 2 w1 = Some (Some 2)"
    by (simp_all add: value_scope_def iso_scope_def get_obj_Some value_local_def get_local_Some w1)
  define w2 where "w2 = w1\<lparr>engine := engine w1 @ [DUndefined]\<rparr>"
  have call: "run h (Function_Call demo_v8 1 4 (Some 2) []) w1 = Some (Ok 5, w2)"
    by (simp add: run_def demo_v8_def demo_call_def demo_get_def demo_ret_def demo_alloc_def w1 w2_def)
  have gl: "GlobalizeReference (handles demo_v8) 5 (globals w2) = (4, (4, [(4, 5), (3, 4), (2, 2), (1, 1)]))"
    by (simp add: w2_def w1)
  have "contexts w2 1 = Some (demo_ctx\<lparr>ctx_next_value_id := 2, ctx_values := [(1, 2), (2, 3)]\<rparr>)"
    by (simp add: w2_def w1)
  from wrapValue_eq [OF gl this, of 100] obtain a w' where w': "wrapValue demo_v8 1 100 (Some 5) w2 = Some (a, w')"
    by (simp add: LONG_MAX_def)
  have "GV8ValueCall demo_v8 h 3 2 [] w1 = Some (EmptyValueResult\<lparr>rv_value := a\<rparr>, w')"
    by (simp add: GV8ValueCall_def w1 scope call return_local_def value_result_def w')
  then have "GV8ObjectCallMethod demo_v8 h 2 ''f'' [] demo_value_world = Some (EmptyValueResult\<lparr>rv_value := a\<rparr>, w')"
    by (simp add: GV8ObjectCallMethod_def get)
  with get show thesis by (rule that)
qed

theorem GV8ObjectCallMethod_leaks_witness:
  "\<exists>r w'. GV8ObjectCallMethod demo_v8 (\<lambda>_ _. None) 2 ''f'' [] demo_value_world = Some (r, w') \<and>
     wrappers w' 3 \<noteq> None \<and> rv_value r \<noteq> 3"
proof -
  obtain w1 r w' where
    get: "GV8ObjectGet demo_v8 (\<lambda>_ _. None) 2 ''f'' demo_value_world = Some (EmptyValueResult\<lparr>rv_value := 3\<rparr>, w1)" and
    call: "GV8ObjectCallMethod demo_v8 (\<lambda>_ _. None) 2 ''f'' [] demo_value_world = Some (r, w')"
    by (rule demo_method_call)
  from GV8ObjectCallMethod_leaks [OF get _ _ call] call show ?thesis by (auto simp: leaves_alone_def)
qed

end
