(* ===== verification/Gv8_Snapshot.thy ===== *)
theory Gv8_Snapshot
  imports Gv8_Object
begin

text \<open>
  The snapshot builder: open after \<open>GV8NewSnapshotBuilder\<close>, it runs scripts in its context until it
  is built, once; every later script or build is refused; releasing it frees it in both states.
\<close>

section \<open>The operations\<close>

definition GV8NewSnapshotBuilder ::
    "('e, 'g) v8 \<Rightarrow> ('e, 'g) world \<Rightarrow> (addr \<times> ('e, 'g) world)" where
  "GV8NewSnapshotBuilder V w =
     (let (builder, w1) = new_addr w;
          (creator, w2) = engine_step (SnapshotCreator_New V) w1;
          isolate = Creator_GetIsolate V creator (engine w2);
          (ctx, w3) = engine_step (Context_New V isolate) w2;
          (s, w4) = reset_to V nullptr ctx w3
      in (builder, put_builder builder
            (Some \<lparr>sb_creator = creator, sb_iso = isolate, sb_ctx = s, sb_built = False\<rparr>) w4))"

definition GV8SnapshotBuilderRelease ::
    "('e, 'g) v8 \<Rightarrow> addr \<Rightarrow> ('e, 'g) world \<Rightarrow> ('e, 'g) world option" where
  "GV8SnapshotBuilderRelease V builder w =
     (if builder = nullptr then Some w
      else do { b \<leftarrow> builders w builder;
                let w1 = (if sb_iso b \<noteq> nullptr
                          then put_builder builder (Some (b\<lparr>sb_ctx := nullptr\<rparr>)) (reset V (sb_ctx b) w)
                          else w);
                let w2 = engine_do (SnapshotCreator_Delete V (sb_creator b)) w1;
                Some (put_builder builder None w2) })"

definition builder_invalid :: GV8RtnError where
  "builder_invalid = EmptyError\<lparr>err_msg := CopyString ''gv8: snapshot builder is no longer valid''\<rparr>"

definition GV8SnapshotBuilderRunScript ::
    "('e, 'g) v8 \<Rightarrow> ('e, 'g) dispatcher \<Rightarrow> addr \<Rightarrow> string \<Rightarrow> string \<Rightarrow> int \<Rightarrow> int \<Rightarrow> ('e, 'g) world \<Rightarrow>
       (GV8RtnError \<times> ('e, 'g) world) option" where
  "GV8SnapshotBuilderRunScript V h builder source resource line col w =
     (if builder = nullptr then Some (builder_invalid, w)
      else do {
        b \<leftarrow> builders w builder;
        if sb_built b then Some (builder_invalid, w)
        else do {
          local_ctx \<leftarrow> get_obj V (sb_ctx b) w;
          ((src, origin), w1) \<leftarrow> script_source V source resource line col False w;
          let (compiled, w2) = engine_step (Script_Compile V local_ctx src origin) w1;
          case compiled of
            Exn t \<Rightarrow> ExceptionError V h t w2
          | Ok script \<Rightarrow>
              do { (r, w3) \<leftarrow> run h (Script_Run V local_ctx script) w2;
                   case r of Exn t \<Rightarrow> ExceptionError V h t w3 | Ok _ \<Rightarrow> Some (EmptyError, w3) } } })"

definition bytes_error :: "string \<Rightarrow> GV8RtnBytes" where
  "bytes_error s = EmptyBytes\<lparr>rb_error := EmptyError\<lparr>err_msg := CopyString s\<rparr>\<rparr>"

text \<open>What \<open>CreateBlob\<close> returns: an array allocated for the caller, and its size.\<close>

definition create_blob ::
    "('e, 'g) v8 \<Rightarrow> addr \<Rightarrow> ('e, 'g) world \<Rightarrow> (addr \<times> int) \<times> ('e, 'g) world" where
  "create_blob V creator w =
     (let ((data, raw_size), w1) = engine_step (CreateBlob V creator) w
      in case data of
           None \<Rightarrow> ((nullptr, raw_size), w1)
         | Some bs \<Rightarrow> (let (a, w2) = new_addr w1 in ((a, raw_size), put_array a (Some bs) w2)))"

text \<open>The end of \<open>GV8SnapshotBuilderBuild\<close>: checking, copying and freeing the blob.\<close>

definition finish_blob ::
    "('e, 'g) v8 \<Rightarrow> addr \<Rightarrow> int \<Rightarrow> ('e, 'g) world \<Rightarrow> (GV8RtnBytes \<times> ('e, 'g) world) option" where
  "finish_blob V data raw_size w =
     (if data = nullptr \<or> raw_size \<le> 0 then Some (bytes_error ''gv8: snapshot creation failed'', w)
      else do {
        bs \<leftarrow> arrays w data;
        valid \<leftarrow> SnapshotDataIsValid V (Some bs) raw_size w;
        if \<not> valid then
          do { w1 \<leftarrow> delete_array data w; Some (bytes_error ''gv8: invalid snapshot data'', w1) }
        else do {
          copy \<leftarrow> copy_bytes bs 0 (nat raw_size);
          w1 \<leftarrow> delete_array data w;
          Some (EmptyBytes\<lparr>rb_data := Some copy, rb_length := raw_size\<rparr>, w1) } })"

definition GV8SnapshotBuilderBuild ::
    "('e, 'g) v8 \<Rightarrow> addr \<Rightarrow> ('e, 'g) world \<Rightarrow> (GV8RtnBytes \<times> ('e, 'g) world) option" where
  "GV8SnapshotBuilderBuild V builder w =
     (if builder = nullptr then Some (bytes_error ''gv8: snapshot builder is no longer valid'', w)
      else do {
        b \<leftarrow> builders w builder;
        if sb_built b then Some (bytes_error ''gv8: snapshot builder is no longer valid'', w)
        else do {
          local_ctx \<leftarrow> get_obj V (sb_ctx b) w;
          let w1 = engine_do (SetDefaultContext V (sb_creator b) local_ctx) w;
          let w2 = put_builder builder (Some (b\<lparr>sb_ctx := nullptr\<rparr>)) (reset V (sb_ctx b) w1);
          let ((data, raw_size), w3) = create_blob V (sb_creator b) w2;
          let w4 = put_builder builder (Some (b\<lparr>sb_ctx := nullptr, sb_built := True\<rparr>)) w3;
          finish_blob V data raw_size w4 } })"

section \<open>The invariant\<close>

lemma put_array_new_ok:
  assumes ok: "world_ok H w" and a: "0 < a" "a \<le> next_addr w"
  shows "world_ok H (put_array a x w)"
proof -
  have "slots_ok H (put_array a x w)"
    by (rule slots_ok_same [of _ w]) (use ok in \<open>simp_all add: world_ok_def\<close>)
  then show ?thesis
    using ok a registry_ok_cong [of "put_array a x w" w] by (simp add: world_ok_def fresh_ok_def)
qed

lemma GV8NewSnapshotBuilder_ok [ok_rules]:
  assumes eq: "GV8NewSnapshotBuilder V w = (a, w')"
    and ok: "world_ok (handles V) w" and H: "handles_ok (handles V)"
  shows "world_ok (handles V) w'"
proof -
  obtain w1 where w1: "new_addr w = (a, w1)"
    using eq by (auto simp: GV8NewSnapshotBuilder_def Let_def split: prod.splits)
  obtain creator w2 where w2: "engine_step (SnapshotCreator_New V) w1 = (creator, w2)"
    by (cases "engine_step (SnapshotCreator_New V) w1")
  let ?i = "Creator_GetIsolate V creator (engine w2)"
  obtain ctx w3 where w3: "engine_step (Context_New V ?i) w2 = (ctx, w3)"
    by (cases "engine_step (Context_New V ?i) w2")
  obtain s w4 where w4: "reset_to V nullptr ctx w3 = (s, w4)" by (cases "reset_to V nullptr ctx w3")
  let ?b = "\<lparr>sb_creator = creator, sb_iso = ?i, sb_ctx = s, sb_built = False\<rparr>"
  have w': "w' = put_builder a (Some ?b) w4"
    using eq by (simp add: GV8NewSnapshotBuilder_def w1 w2 Let_def w3 w4)
  have ok3: "world_ok (handles V) w3"
    by (rule world_ok_engine_step [OF w3 world_ok_engine_step [OF w2 world_ok_new_addr [OF w1 ok]]])
  have f: "builders w3 = builders w" "next_addr w3 = a" "a = Suc (next_addr w)"
    using engine_step_sel [OF w3] engine_step_sel [OF w2] w1 by (auto simp: new_addr_def)
  with ok have new: "builders w3 a = None" "builders w (Suc (next_addr w)) = None"
    by (simp_all add: world_ok_def fresh_ok_fresh)
  show ?thesis
  proof (cases ctx)
    case None
    then have "s = 0" "w4 = w3" using w4 by (simp_all add: reset_to_def)
    then show ?thesis
      by (intro world_ok_drop [OF ok3, where p = "OwnBuilder a"])
        (use ok3 f in \<open>simp_all add: w' new world_ok_def fresh_ok_def\<close>)
  next
    case (Some c)
    obtain g where gl: "GlobalizeReference (handles V) c (globals w3) = (s, g)" "w4 = w3\<lparr>globals := g\<rparr>"
      using w4 Some by (simp add: reset_to_null prod_eq_iff)
    show ?thesis
      by (rule world_ok_gain [OF ok3 H gl(1), where p = "OwnBuilder a"])
        (use ok3 f in \<open>simp_all add: w' gl(2) new world_ok_def fresh_ok_def\<close>)
  qed
qed

text \<open>Resetting a builder's context handle.\<close>

lemma reset_builder_ok:
  assumes ok: "world_ok (handles V) w" and H: "handles_ok (handles V)" and b: "builders w a = Some b"
  shows "world_ok (handles V) (put_builder a (Some (b\<lparr>sb_ctx := nullptr\<rparr>)) (reset V (sb_ctx b) w))"
  by (rule world_ok_lose [OF ok H, where p = "OwnBuilder a"])
    (use ok b in \<open>auto simp: world_ok_def fresh_ok_def\<close>)

lemma GV8SnapshotBuilderRelease_ok [ok_rules]:
  assumes eq: "GV8SnapshotBuilderRelease V a w = Some w'"
    and ok: "world_ok (handles V) w" and H: "handles_ok (handles V)"
  shows "world_ok (handles V) w'"
proof (cases "a = 0")
  case True
  with eq ok show ?thesis by (simp add: GV8SnapshotBuilderRelease_def)
next
  case False
  with eq obtain b where b: "builders w a = Some b" by (auto simp: GV8SnapshotBuilderRelease_def)
  define w1 where "w1 = (if sb_iso b \<noteq> nullptr
      then put_builder a (Some (b\<lparr>sb_ctx := nullptr\<rparr>)) (reset V (sb_ctx b) w) else w)"
  have ok1: "world_ok (handles V) (engine_do (SnapshotCreator_Delete V (sb_creator b)) w1)" (is "world_ok _ ?w2")
    using reset_builder_ok [OF ok H b] ok by (simp add: w1_def)
  have "w' = put_builder a None ?w2"
    using eq False b by (auto simp: GV8SnapshotBuilderRelease_def Let_def w1_def)
  then show ?thesis
    by (intro world_ok_drop [OF ok1, where p = "OwnBuilder a"])
      (use ok1 in \<open>simp_all add: world_ok_def fresh_ok_def\<close>)
qed

lemma GV8SnapshotBuilderRunScript_ok [ok_rules]:
  "GV8SnapshotBuilderRunScript V h b s r l c w = Some (e, w') \<Longrightarrow> world_ok (handles V) w \<Longrightarrow>
     dispatcher_ok V h \<Longrightarrow> world_ok (handles V) w'"
  by (auto simp: GV8SnapshotBuilderRunScript_def run_simps) (assumption | rule ok_rules, assumption)+

lemma create_blob_ok [ok_rules]:
  assumes "create_blob V c w = (p, w')" "world_ok H w"
  shows "world_ok H w'"
proof -
  obtain d n w1 where w1: "engine_step (CreateBlob V c) w = ((d, n), w1)"
    by (metis prod.collapse)
  from world_ok_engine_step [OF w1 assms(2)] have ok1: "world_ok H w1" .
  have "world_ok H (put_array (Suc (next_addr w1)) x (w1\<lparr>next_addr := Suc (next_addr w1)\<rparr>))" for x
    by (rule put_array_new_ok) (use ok1 world_ok_new_addr [of w1 _ _ H] in \<open>simp_all add: new_addr_def\<close>)
  with assms(1) ok1 show ?thesis
    by (auto simp: create_blob_def w1 new_addr_def split: option.splits)
qed

lemma finish_blob_ok [ok_rules]:
  "finish_blob V d n w = Some (r, w') \<Longrightarrow> world_ok H w \<Longrightarrow> world_ok H w'"
  by (auto simp: finish_blob_def run_simps) (assumption | rule ok_rules, assumption)+

lemma builder_flag_ok:
  assumes ok: "world_ok H w" and b: "builders w a = Some b" "sb_ctx b' = sb_ctx b"
  shows "world_ok H (put_builder a (Some b') w)" (is "world_ok H ?w'")
proof -
  have "slots_ok H ?w'"
    by (rule slots_ok_same [of _ w]) (use ok b in \<open>auto simp: world_ok_def fun_eq_iff\<close>)
  then show ?thesis
    using ok b registry_ok_cong [of ?w' w] by (auto simp: world_ok_def fresh_ok_def)
qed

lemma create_blob_sel:
  "create_blob V c w = (p, w') \<Longrightarrow> builders w' = builders w \<and> contexts w' = contexts w \<and> wrappers w' = wrappers w"
  by (auto simp: create_blob_def engine_step_def new_addr_def split: prod.splits option.splits)

lemma GV8SnapshotBuilderBuild_ok [ok_rules]:
  assumes eq: "GV8SnapshotBuilderBuild V a w = Some (r, w')"
    and ok: "world_ok (handles V) w" and H: "handles_ok (handles V)"
  shows "world_ok (handles V) w'"
proof -
  consider "w' = w" | b lc d n w3 where "builders w a = Some b"
    "create_blob V (sb_creator b) (put_builder a (Some (b\<lparr>sb_ctx := nullptr\<rparr>))
       (reset V (sb_ctx b) (engine_do (SetDefaultContext V (sb_creator b) lc) w))) = ((d, n), w3)"
    "finish_blob V d n (put_builder a (Some (b\<lparr>sb_ctx := nullptr, sb_built := True\<rparr>)) w3) = Some (r, w')"
    using eq by (auto simp: GV8SnapshotBuilderBuild_def run_simps)
  then show ?thesis
  proof cases
    case 1
    with ok show ?thesis by simp
  next
    case (2 b lc d n w3)
    let ?w1 = "engine_do (SetDefaultContext V (sb_creator b) lc) w"
    let ?w2 = "put_builder a (Some (b\<lparr>sb_ctx := nullptr\<rparr>)) (reset V (sb_ctx b) ?w1)"
    have "builders ?w1 a = Some b" "world_ok (handles V) ?w1" using 2(1) ok by (simp_all add: engine_do_def)
    then have "world_ok (handles V) ?w2" by (intro reset_builder_ok H)
    with 2(2) have ok3: "world_ok (handles V) w3" by (rule create_blob_ok)
    have "builders w3 a = Some (b\<lparr>sb_ctx := nullptr\<rparr>)" using create_blob_sel [OF 2(2)] by simp
    from builder_flag_ok [OF ok3 this]
    have "world_ok (handles V) (put_builder a (Some (b\<lparr>sb_ctx := nullptr, sb_built := True\<rparr>)) w3)" by simp
    with 2(3) show ?thesis by (rule finish_blob_ok)
  qed
qed

section \<open>A builder is built once\<close>

text \<open>\<open>finish_blob\<close> answers on every branch, for bytes that are as long as the size says, and frees the
  array it was given; its answer is the copy when the check accepts the bytes.\<close>

lemma finish_blob_frees:
  assumes bs: "arrays w d = Some bs" and d: "d \<noteq> nullptr" and n: "n = int (length bs)" "0 < n"
  obtains r where "finish_blob V d n w = Some (r, w\<lparr>arrays := (arrays w)(d := None)\<rparr>)"
    "rb_data r = (if SnapshotDataIsValid V (Some bs) n w = Some True then Some bs else None)"
    "rb_data r = None \<longleftrightarrow> err_msg (rb_error r) \<noteq> None"
proof -
  have del: "delete_array d w = Some (w\<lparr>arrays := (arrays w)(d := None)\<rparr>)"
    using bs d by (simp add: delete_array_def put_array_def)
  have "SnapshotDataIsValid V (Some bs) n w \<noteq> None"
    using n by (simp add: SnapshotDataIsValid_def Let_def del: not_None_eq)
  then obtain v where v: "SnapshotDataIsValid V (Some bs) n w = Some v" by blast
  have c: "copy_bytes bs 0 (nat n) = Some bs" using n by (simp add: copy_bytes_def)
  have "\<not> (d = nullptr \<or> n \<le> 0)" using n d by simp
  then have eq: "finish_blob V d n w =
      (if v then Some (EmptyBytes\<lparr>rb_data := Some bs, rb_length := n\<rparr>, w\<lparr>arrays := (arrays w)(d := None)\<rparr>)
       else Some (bytes_error ''gv8: invalid snapshot data'', w\<lparr>arrays := (arrays w)(d := None)\<rparr>))"
    unfolding finish_blob_def by (simp add: bs v del c)
  show thesis
  proof (cases v)
    case True
    with eq v show thesis
      by (intro that [of "EmptyBytes\<lparr>rb_data := Some bs, rb_length := n\<rparr>"])
        (simp_all add: EmptyBytes_def EmptyError_def)
  next
    case False
    with eq v show thesis
      by (intro that [of "bytes_error ''gv8: invalid snapshot data''"])
        (simp_all add: bytes_error_def EmptyBytes_def CopyString_def)
  qed
qed

lemma built_refused:
  assumes "builders w a = Some b" "sb_built b" "a \<noteq> nullptr"
  shows "GV8SnapshotBuilderBuild V a w = Some (bytes_error ''gv8: snapshot builder is no longer valid'', w)"
    "GV8SnapshotBuilderRunScript V h a s rn l c w = Some (builder_invalid, w)"
  using assms by (simp_all add: GV8SnapshotBuilderBuild_def GV8SnapshotBuilderRunScript_def)

text \<open>A snapshot builder is built once. The first build answers whatever V8 answers: it resets the
  handle of the builder's context, leaves no array of the blob behind, and returns the bytes of the
  blob exactly when the check accepts them, an error otherwise. After it every build and every script
  is refused and changes nothing.\<close>

lemma snapshot_built_once:
  assumes ok: "world_ok (handles V) w" and H: "handles_ok (handles V)"
    and b: "builders w a = Some b" "\<not> sb_built b" and lc: "get_obj V (sb_ctx b) w = Some lc"
    and blob: "CreateBlob V (sb_creator b) (SetDefaultContext V (sb_creator b) lc (engine w)) = ((data, n), e)"
    and sized: "\<And>bs. data = Some bs \<Longrightarrow> n = int (length bs) \<and> 0 < n"
  shows "\<exists>r w'. GV8SnapshotBuilderBuild V a w = Some (r, w') \<and> arrays w' = arrays w \<and>
    cell (handles V) (globals w') (sb_ctx b) = None \<and>
    rb_data r = (case data of None \<Rightarrow> None
      | Some bs \<Rightarrow> if SnapshotDataIsValid V (Some bs) n w' = Some True then Some bs else None) \<and>
    (rb_data r = None \<longleftrightarrow> err_msg (rb_error r) \<noteq> None) \<and>
    GV8SnapshotBuilderBuild V a w' = Some (bytes_error ''gv8: snapshot builder is no longer valid'', w') \<and>
    GV8SnapshotBuilderRunScript V h a src name line col w' = Some (builder_invalid, w')"
proof -
  let ?b = "b\<lparr>sb_ctx := nullptr, sb_built := True\<rparr>"
  define w2 where "w2 = put_builder a (Some (b\<lparr>sb_ctx := nullptr\<rparr>))
    (reset V (sb_ctx b) (engine_do (SetDefaultContext V (sb_creator b) lc) w))"
  have fresh: "arrays w (Suc (next_addr w)) = None" "builders w 0 = None"
    using ok below_null [of "builders w"] by (auto simp: world_ok_def fresh_ok_fresh fresh_ok_def)
  have a: "a \<noteq> nullptr" using b fresh by (cases "a = nullptr") auto
  have w2: "arrays w2 = arrays w" "next_addr w2 = next_addr w" 
    "engine w2 = SetDefaultContext V (sb_creator b) lc (engine w)"
    by (simp_all add: w2_def engine_do_def reset_def)
  have cell: "cell (handles V) (globals w2) (sb_ctx b) = None"
    using reset_cell [OF H, of "engine_do (SetDefaultContext V (sb_creator b) lc) w" "sb_ctx b" lc] lc
    by (simp add: w2_def get_obj_Some engine_do_def)
  have step: "engine_step (CreateBlob V (sb_creator b)) w2 = ((data, n), w2\<lparr>engine := e\<rparr>)"
    using blob by (simp add: engine_step_def w2)
  have eq: "GV8SnapshotBuilderBuild V a w =
      (case create_blob V (sb_creator b) w2 of ((d, m), w3) \<Rightarrow> finish_blob V d m (put_builder a (Some ?b) w3))"
    using a b lc by (simp add: GV8SnapshotBuilderBuild_def w2_def Let_def split: prod.splits)
  show ?thesis
  proof (cases data)
    case None
    let ?w' = "put_builder a (Some ?b) (w2\<lparr>engine := e\<rparr>)"
    have eq': "GV8SnapshotBuilderBuild V a w = Some (bytes_error ''gv8: snapshot creation failed'', ?w')"
      using None by (simp add: eq create_blob_def step finish_blob_def)
    show ?thesis
      by (intro exI conjI, rule eq')
        (use built_refused [of ?w' a ?b, OF _ _ a] None cell w2 in
          \<open>simp_all add: bytes_error_def EmptyBytes_def CopyString_def\<close>)
  next
    case (Some bs)
    define d where "d = Suc (next_addr w)"
    define w4 where "w4 = put_builder a (Some ?b) (put_array d (Some bs) (w2\<lparr>engine := e, next_addr := d\<rparr>))"
    have n: "n = int (length bs)" "0 < n" using sized [OF Some] by auto
    have d: "arrays w4 d = Some bs" "d \<noteq> nullptr" by (simp_all add: w4_def d_def)
    obtain r where r: "finish_blob V d n w4 = Some (r, w4\<lparr>arrays := (arrays w4)(d := None)\<rparr>)"
      "rb_data r = (if SnapshotDataIsValid V (Some bs) n w4 = Some True then Some bs else None)"
      "rb_data r = None \<longleftrightarrow> err_msg (rb_error r) \<noteq> None"
      by (rule finish_blob_frees [OF d n])
    let ?w' = "w4\<lparr>arrays := (arrays w4)(d := None)\<rparr>"
    have eq': "GV8SnapshotBuilderBuild V a w = Some (r, ?w')"
      using r(1) Some by (simp add: eq create_blob_def step new_addr_def w4_def d_def w2)
    have w': "builders ?w' a = Some ?b" "arrays ?w' = arrays w" "globals ?w' = globals w2"
      "SnapshotDataIsValid V (Some bs) n ?w' = SnapshotDataIsValid V (Some bs) n w4"
      using fresh by (auto simp: w4_def w2 d_def SnapshotDataIsValid_def Let_def)
    show ?thesis
      by (intro exI conjI, rule eq')
        (use built_refused [OF w'(1) _ a] cell Some r(2,3) in \<open>simp_all add: w'(2-4) del: not_None_eq\<close>)
  qed
qed

end
