(* ===== verification/Gv8_Api.thy ===== *)
theory Gv8_Api
  imports Gv8_Snapshot
begin

text \<open>
  The whole interface: a step of the binding is one call of an exported function of \<open>gv8.h\<close> that
  changes the state and has defined behaviour, whatever its arguments; the worlds a host can reach
  are those reached from the empty one by such calls. The invariant holds in all of them.
\<close>

section \<open>Steps\<close>

inductive api_step ::
    "('e, 'g) v8 \<Rightarrow> ('e, 'g) dispatcher \<Rightarrow> ('e, 'g) world \<Rightarrow> ('e, 'g) world \<Rightarrow> bool"
  for V h where
  step_CompileModule: "GV8CompileModule V h a s s2 n n2 w = Some (r, w') \<Longrightarrow> api_step V h w w'"
| step_CompileUnboundScript: "GV8CompileUnboundScript V h a s s2 n n2 w = Some (r, w') \<Longrightarrow> api_step V h w w'"
| step_ContextDispose: "GV8ContextDispose V a w = Some w' \<Longrightarrow> api_step V h w w'"
| step_ContextGlobal: "GV8ContextGlobal V a w = Some (r, w') \<Longrightarrow> api_step V h w w'"
| step_ContextNewArray: "GV8ContextNewArray V a i w = Some (r, w') \<Longrightarrow> api_step V h w w'"
| step_ContextNewFunction: "GV8ContextNewFunction V h a n w = Some (r, w') \<Longrightarrow> api_step V h w w'"
| step_ContextNewObject: "GV8ContextNewObject V a w = Some (r, w') \<Longrightarrow> api_step V h w w'"
| step_ContextNewPromiseResolver: "GV8ContextNewPromiseResolver V h a w = Some (r, w') \<Longrightarrow> api_step V h w w'"
| step_ContextRunScript: "GV8ContextRunScript V h a s s2 n n2 w = Some (r, w') \<Longrightarrow> api_step V h w w'"
| step_IsolateCancelTerminateExecution: "GV8IsolateCancelTerminateExecution V a w = Some w' \<Longrightarrow> api_step V h w w'"
| step_IsolateDispose: "GV8IsolateDispose V a w = Some w' \<Longrightarrow> api_step V h w w'"
| step_IsolateLowMemoryNotification: "GV8IsolateLowMemoryNotification V h a w = Some w' \<Longrightarrow> api_step V h w w'"
| step_IsolateMemoryPressureNotification: "GV8IsolateMemoryPressureNotification V h a n w = Some w' \<Longrightarrow> api_step V h w w'"
| step_IsolatePerformMicrotaskCheckpoint: "GV8IsolatePerformMicrotaskCheckpoint V h a w = Some w' \<Longrightarrow> api_step V h w w'"
| step_IsolateSetObserverRef: "GV8IsolateSetObserverRef a n w = Some w' \<Longrightarrow> api_step V h w w'"
| step_IsolateTerminateExecution: "GV8IsolateTerminateExecution V a w = Some w' \<Longrightarrow> api_step V h w w'"
| step_JSONParse: "GV8JSONParse V h a s n w = Some (r, w') \<Longrightarrow> api_step V h w w'"
| step_JSONStringify: "GV8JSONStringify V h a a2 w = Some (r, w') \<Longrightarrow> api_step V h w w'"
| step_ModuleEvaluate: "GV8ModuleEvaluate V h a a2 w = Some (r, w') \<Longrightarrow> api_step V h w w'"
| step_ModuleGetNamespace: "GV8ModuleGetNamespace V a a2 w = Some (r, w') \<Longrightarrow> api_step V h w w'"
| step_ModuleInstantiate: "GV8ModuleInstantiate V h a a2 w = Some (r, w') \<Longrightarrow> api_step V h w w'"
| step_ModuleRelease: "GV8ModuleRelease V a w = Some w' \<Longrightarrow> api_step V h w w'"
| step_NewArrayBufferCopy: "GV8NewArrayBufferCopy V a bs n w = Some (r, w') \<Longrightarrow> api_step V h w w'"
| step_NewBoolean: "GV8NewBoolean V a n w = Some (r, w') \<Longrightarrow> api_step V h w w'"
| step_NewContext: "GV8NewContext V a n w = Some (r, w') \<Longrightarrow> api_step V h w w'"
| step_NewError: "GV8NewError V a s n w = Some (r, w') \<Longrightarrow> api_step V h w w'"
| step_NewInteger: "GV8NewInteger V a n w = Some (r, w') \<Longrightarrow> api_step V h w w'"
| step_NewIsolate: "GV8NewIsolate V w = Some (r, w') \<Longrightarrow> api_step V h w w'"
| step_NewIsolateWithHeapLimit: "GV8NewIsolateWithHeapLimit V u u2 w = Some (r, w') \<Longrightarrow> api_step V h w w'"
| step_NewIsolateWithSnapshot: "GV8NewIsolateWithSnapshot V bs n u u2 w = Some (r, w') \<Longrightarrow> api_step V h w w'"
| step_NewNull: "GV8NewNull V a w = Some (r, w') \<Longrightarrow> api_step V h w w'"
| step_NewNumber: "GV8NewNumber V a u w = Some (r, w') \<Longrightarrow> api_step V h w w'"
| step_NewSnapshotBuilder: "GV8NewSnapshotBuilder V w = (r, w') \<Longrightarrow> api_step V h w w'"
| step_NewString: "GV8NewString V h a s n w = Some (r, w') \<Longrightarrow> api_step V h w w'"
| step_NewUint8ArrayCopy: "GV8NewUint8ArrayCopy V a bs n w = Some (r, w') \<Longrightarrow> api_step V h w w'"
| step_NewUndefined: "GV8NewUndefined V a w = Some (r, w') \<Longrightarrow> api_step V h w w'"
| step_ObjectCallMethod: "GV8ObjectCallMethod V h a s argv w = Some (r, w') \<Longrightarrow> api_step V h w w'"
| step_ObjectGet: "GV8ObjectGet V h a s w = Some (r, w') \<Longrightarrow> api_step V h w w'"
| step_ObjectGetIdx: "GV8ObjectGetIdx V h a i w = Some (r, w') \<Longrightarrow> api_step V h w w'"
| step_ObjectHas: "GV8ObjectHas V h a s w = Some (r, w') \<Longrightarrow> api_step V h w w'"
| step_ObjectSet: "GV8ObjectSet V h a s a2 w = Some (r, w') \<Longrightarrow> api_step V h w w'"
| step_ObjectSetIdx: "GV8ObjectSetIdx V h a i a2 w = Some (r, w') \<Longrightarrow> api_step V h w w'"
| step_PromiseResolverGetPromise: "GV8PromiseResolverGetPromise V a w = Some (r, w') \<Longrightarrow> api_step V h w w'"
| step_PromiseResolverReject: "GV8PromiseResolverReject V h a a2 w = Some (r, w') \<Longrightarrow> api_step V h w w'"
| step_PromiseResolverResolve: "GV8PromiseResolverResolve V h a a2 w = Some (r, w') \<Longrightarrow> api_step V h w w'"
| step_PromiseResult: "GV8PromiseResult V a w = Some (r, w') \<Longrightarrow> api_step V h w w'"
| step_SnapshotBuilderBuild: "GV8SnapshotBuilderBuild V a w = Some (r, w') \<Longrightarrow> api_step V h w w'"
| step_SnapshotBuilderRelease: "GV8SnapshotBuilderRelease V a w = Some w' \<Longrightarrow> api_step V h w w'"
| step_SnapshotBuilderRunScript: "GV8SnapshotBuilderRunScript V h a s s2 n n2 w = Some (r, w') \<Longrightarrow> api_step V h w w'"
| step_UnboundScriptRelease: "GV8UnboundScriptRelease V a w = Some w' \<Longrightarrow> api_step V h w w'"
| step_UnboundScriptRun: "GV8UnboundScriptRun V h a a2 w = Some (r, w') \<Longrightarrow> api_step V h w w'"
| step_ValueBytes: "GV8ValueBytes V a w = Some (r, w') \<Longrightarrow> api_step V h w w'"
| step_ValueCall: "GV8ValueCall V h a a2 argv w = Some (r, w') \<Longrightarrow> api_step V h w w'"
| step_ValueLen: "GV8ValueLen V h a w = Some (r, w') \<Longrightarrow> api_step V h w w'"
| step_ValueRelease: "GV8ValueRelease V a w = Some w' \<Longrightarrow> api_step V h w w'"
| step_ValueRetain: "GV8ValueRetain V a w = Some (r, w') \<Longrightarrow> api_step V h w w'"
| step_ValueToInteger: "GV8ValueToInteger V h a w = Some (r, w') \<Longrightarrow> api_step V h w w'"
| step_ValueToString: "GV8ValueToString V h a w = Some (r, w') \<Longrightarrow> api_step V h w w'"

definition empty_world :: "'e \<Rightarrow> 'g \<Rightarrow> ('e, 'g) world" where
  "empty_world e g =
     \<lparr>engine = e, globals = g, isolates = Map.empty, contexts = Map.empty, wrappers = Map.empty,
      scripts = Map.empty, modules = Map.empty, builders = Map.empty, arrays = Map.empty,
      blobs = Map.empty, embedder = (\<lambda>c. Map.empty), next_addr = 0\<rparr>"

text \<open>Reachable worlds: the callbacks may nest to any depth, chosen anew for each call.\<close>

inductive reachable :: "('e, 'g) v8 \<Rightarrow> ('e, 'g) host \<Rightarrow> ('e, 'g) world \<Rightarrow> bool" for V G where
  reachable_start: "reachable V G (empty_world e g)"
| reachable_step: "reachable V G w \<Longrightarrow> api_step V (callbacks V G d) w w' \<Longrightarrow> reachable V G w'"

inductive_cases reachable_stepE: "reachable V G w"

section \<open>The invariant holds everywhere\<close>

lemma empty_world_ok: "world_ok H (empty_world e g)"
proof -
  have "slot_of (empty_world e g) p = 0" for p
    by (cases p) (simp_all add: empty_world_def)
  then show ?thesis
    by (simp add: world_ok_def slots_ok_def registry_ok_def fresh_ok_def below_def holds_def empty_world_def)
qed

lemma api_step_ok:
  assumes "api_step V h w w'" "world_ok (handles V) w" "handles_ok (handles V)" "dispatcher_ok V h"
  shows "world_ok (handles V) w'"
  using assms by (induction rule: api_step.induct) (rule ok_rules, assumption, assumption+)+

lemma reachable_ok:
  assumes "reachable V G w" "handles_ok (handles V)" "host_ok V G"
  shows "world_ok (handles V) w"
  using assms
proof (induction rule: reachable.induct)
  case (reachable_start e g)
  show ?case by (rule empty_world_ok)
next
  case (reachable_step w d w')
  then show ?case using api_step_ok callbacks_ok by blast
qed

text \<open>A host whose functions only call the exported functions keeps the contract the callbacks rely on,
  so the contract costs a well behaved host nothing.\<close>

lemma api_steps_ok:
  assumes "(api_step V h)\<^sup>*\<^sup>* w w'" "world_ok (handles V) w" "handles_ok (handles V)" "dispatcher_ok V h"
  shows "world_ok (handles V) w'"
  using assms by (induction rule: rtranclp_induct) (auto intro: api_step_ok)

lemma host_of_api_calls_ok:
  assumes V: "handles_ok (handles V)" and h: "dispatcher_ok V h"
    and "\<And>r i a as w x w'. host_function G r i a as w = Some (x, w') \<Longrightarrow> (api_step V h)\<^sup>*\<^sup>* w w'"
    and "\<And>r s a w x w'. host_resolve G r s a w = Some (x, w') \<Longrightarrow> (api_step V h)\<^sup>*\<^sup>* w w'"
    and "\<And>r s t w x w'. host_dynamic G r s t w = Some (x, w') \<Longrightarrow> (api_step V h)\<^sup>*\<^sup>* w w'"
    and "\<And>r i e w w'. host_reject G r i e w = Some w' \<Longrightarrow> (api_step V h)\<^sup>*\<^sup>* w w'"
  shows "host_ok V G"
  unfolding host_ok_def
  by (intro conjI allI impI; rule api_steps_ok [OF _ _ V h]; (erule assms(3-6) | assumption))

section \<open>Properties\<close>


text \<open>The world after creating an isolate.\<close>

lemma demo_reachable:
  "\<exists>w. reachable demo_v8 demo_host w \<and> contexts w \<noteq> Map.empty"
proof -
  have "\<exists>w. GV8NewIsolate demo_v8 (empty_world [] (0, [])) = Some (300, w) \<and> contexts w \<noteq> Map.empty"
    by (simp add: GV8NewIsolate_def new_isolate_def engine_step_def InitializeGV8Isolate_def new_addr_def
        empty_world_def demo_v8_def reset_to_def default_params_def split: prod.splits)
  then obtain w where w: "GV8NewIsolate demo_v8 (empty_world [] (0, [])) = Some (300, w)" "contexts w \<noteq> Map.empty"
    by blast
  from w(1) have "api_step demo_v8 (callbacks demo_v8 demo_host 1) (empty_world [] (0, [])) w"
    by (rule step_NewIsolate)
  with reachable_start have "reachable demo_v8 demo_host w" by (rule reachable_step)
  with w(2) show ?thesis by blast
qed




end
