(* ===== verification/V8_Memory.thy ===== *)
theory V8_Memory
  imports Prelude
begin

text \<open>
  The memory the inline functions of the V8 headers read and write through raw addresses: bytes
  at 64-bit addresses, little endian as on every target of the build. An address that is not
  mapped has no byte, and an access that touches one is \<open>None\<close>.
\<close>

type_synonym mem = "u64 \<Rightarrow> byte option"

section \<open>Words as bytes\<close>

definition le_word :: "byte list \<Rightarrow> 'a::len word" where
  "le_word bs = of_nat (horner_sum unat 256 bs)"

definition word_bytes :: "nat \<Rightarrow> 'a::len word \<Rightarrow> byte list" where
  "word_bytes n w = map (\<lambda>i. ucast (drop_bit (8 * i) w)) [0..<n]"

lemma length_word_bytes [simp]: "length (word_bytes n w) = n"
  by (simp add: word_bytes_def)

lemma word_bytes_Suc: "word_bytes (Suc n) w = ucast w # word_bytes n (drop_bit 8 w)"
  by (simp add: word_bytes_def upt_conv_Cons map_Suc_upt [symmetric] comp_def add.commute
      del: upt_Suc map_Suc_upt)

lemma unat_ucast_byte: "unat (ucast (w :: 'a::len word) :: byte) = unat w mod 256"
  by (simp add: unsigned_ucast_eq take_bit_eq_mod)

lemma unat_word_bytes: "horner_sum unat 256 (word_bytes n w) = unat (w :: 'a::len word) mod 256 ^ n"
proof (induction n arbitrary: w)
  case 0
  show ?case by (simp add: word_bytes_def One_nat_def)
next
  case (Suc n)
  have "unat (drop_bit 8 w) = unat w div 256"
    by (subst unsigned_drop_bit_eq) (simp add: drop_bit_eq_div take_bit_nat_eq_self [OF unsigned_less])
  with Suc show ?case
    by (simp add: word_bytes_Suc unat_ucast_byte mod_mult2_eq)
qed

lemma le_word_word_bytes:
  assumes "LENGTH('a) \<le> 8 * n"
  shows "le_word (word_bytes n w) = (w :: 'a::len word)"
proof -
  have "unat w < 2 ^ LENGTH('a)" by (rule unsigned_less)
  also have "\<dots> \<le> 2 ^ (8 * n)" using assms by (rule power_increasing) simp
  also have "\<dots> = (256 :: nat) ^ n" by (simp add: power_mult)
  finally show ?thesis by (simp add: le_word_def unat_word_bytes)
qed

section \<open>Loading and storing bytes\<close>

definition load_bytes :: "nat \<Rightarrow> u64 \<Rightarrow> mem \<Rightarrow> byte list option" where
  "load_bytes n a m = those (map (\<lambda>i. m (a + of_nat i)) [0..<n])"

definition mapped :: "nat \<Rightarrow> u64 \<Rightarrow> mem \<Rightarrow> bool" where
  "mapped n a m \<longleftrightarrow> load_bytes n a m \<noteq> None"

definition store_bytes :: "u64 \<Rightarrow> byte list \<Rightarrow> mem \<Rightarrow> mem option" where
  "store_bytes a bs m =
     (if mapped (length bs) a m
      then Some (\<lambda>x. if unat (x - a) < length bs then Some (bs ! unat (x - a)) else m x) else None)"

text \<open>Two address ranges without a common byte.\<close>

definition apart :: "u64 \<Rightarrow> nat \<Rightarrow> u64 \<Rightarrow> nat \<Rightarrow> bool" where
  "apart a n b k \<longleftrightarrow> n \<le> unat (b - a) \<and> k \<le> unat (a - b)"

lemma apart_sym: "apart a n b k = apart b k a n"
  by (auto simp: apart_def)

lemma those_map_Some: "those (map f xs) = Some ys \<longleftrightarrow> map f xs = map Some ys"
  by (induction xs arbitrary: ys) (auto split: option.splits simp: Cons_eq_map_conv)

lemma mapped_iff: "mapped n a m \<longleftrightarrow> (\<forall>i<n. m (a + of_nat i) \<noteq> None)"
proof -
  have "those (map f xs) \<noteq> None \<longleftrightarrow> (\<forall>x\<in>set xs. f x \<noteq> None)" for f :: "nat \<Rightarrow> byte option" and xs
    by (induction xs) (auto split: option.splits)
  then show ?thesis by (auto simp: mapped_def load_bytes_def)
qed

lemma mapped_iff_load: "mapped n a m \<longleftrightarrow> (\<exists>bs. load_bytes n a m = Some bs)"
  by (auto simp: mapped_def)

lemma load_bytes_length: "load_bytes n a m = Some bs \<Longrightarrow> length bs = n"
  by (auto simp: load_bytes_def those_map_Some dest: arg_cong [of _ _ length])

lemma load_store_same:
  assumes "store_bytes a bs m = Some m'" "length bs \<le> 8"
  shows "load_bytes (length bs) a m' = Some bs"
proof -
  from assms have m': "m' = (\<lambda>x. if unat (x - a) < length bs then Some (bs ! unat (x - a)) else m x)"
    by (auto simp: store_bytes_def split: if_splits)
  have "m' (a + of_nat i) = Some (bs ! i)" if "i < length bs" for i
  proof -
    have "unat (of_nat i :: u64) = i"
      using that assms(2) by (simp add: unat_of_nat)
    with that show ?thesis by (simp add: m')
  qed
  then have "map (\<lambda>i. m' (a + of_nat i)) [0..<length bs] = map (\<lambda>i. Some (bs ! i)) [0..<length bs]"
    by simp
  also have "\<dots> = map Some (map (nth bs) [0..<length bs])" by simp
  also have "\<dots> = map Some bs" by (simp only: map_nth)
  finally show ?thesis by (simp add: load_bytes_def those_map_Some)
qed

lemma store_frame:
  assumes st: "store_bytes a bs m = Some m'" and d: "apart a (length bs) b k"
  shows "load_bytes k b m' = load_bytes k b m"
proof -
  have same: "m' (b + of_nat i) = m (b + of_nat i)" if i: "i < k" for i
  proof -
    let ?d = "b - a"
    have k: "length bs \<le> unat ?d" "k \<le> unat (- ?d)" using d by (simp_all add: apart_def)
    have "unat ?d + i < 2 ^ 64"
    proof (cases "?d = 0")
      case True
      with k i show ?thesis by simp
    next
      case False
      then have "0 < unat ?d" by (simp only: unat_gt_0 not_False_eq_True)
      then have "unat (- ?d) = 2 ^ 64 - unat ?d" using unat_sub_if' [of 0 ?d] by simp
      moreover have "unat ?d < 2 ^ 64" using unsigned_less [of ?d, where 'a = nat] by simp
      ultimately show ?thesis using k i by linarith
    qed
    then have "unat (of_nat i :: u64) = i" "unat (?d + of_nat i) = unat ?d + i"
      using i by (simp_all add: unat_of_nat unat_word_ariths)
    then have "\<not> unat (b + of_nat i - a) < length bs" using k by (simp add: algebra_simps)
    then show ?thesis using st by (auto simp: store_bytes_def split: if_splits)
  qed
  have "map (\<lambda>i. m' (b + of_nat i)) [0..<k] = map (\<lambda>i. m (b + of_nat i)) [0..<k]"
    by (rule map_cong) (simp_all add: same)
  then show ?thesis by (simp only: load_bytes_def)
qed

lemma store_mapped:
  assumes "store_bytes a bs m = Some m'"
  shows "mapped k b m' \<longleftrightarrow> mapped k b m"
proof -
  have dom: "m (a + of_nat i) \<noteq> None" if "i < length bs" for i
    using assms that by (auto simp: store_bytes_def mapped_iff split: if_splits)
  have "m x \<noteq> None" if "unat (x - a) < length bs" for x
    using dom [OF that] by (simp add: word_of_nat_eq_iff)
  then show ?thesis using assms by (auto simp: mapped_iff store_bytes_def split: if_splits)
qed

section \<open>Typed accesses\<close>

text \<open>What every typed access promises: a store is defined where the load is, it is read back, and it
  leaves every location apart from it alone.\<close>

locale access =
  fixes size :: nat
    and ld :: "u64 \<Rightarrow> mem \<Rightarrow> 'v option"
    and st :: "u64 \<Rightarrow> 'v \<Rightarrow> mem \<Rightarrow> mem option"
  assumes st_defined: "st a v m \<noteq> None \<longleftrightarrow> mapped size a m"
    and ld_defined: "ld a m \<noteq> None \<longleftrightarrow> mapped size a m"
    and ld_st: "st a v m = Some m' \<Longrightarrow> ld a m' = Some v"
    and ld_frame: "st a v m = Some m' \<Longrightarrow> apart a size b size \<Longrightarrow> ld b m' = ld b m"
    and st_mapped: "st a v m = Some m' \<Longrightarrow> mapped k b m' = mapped k b m"
begin

lemma st_st_commute_read:
  assumes "st a v m = Some m1" "st b u m1 = Some m2" "apart a size b size"
  shows "ld a m2 = Some v" "ld b m2 = Some u"
  using assms ld_st ld_frame [of b u m1 m2 a] by (auto simp: apart_sym)

lemma st_ok: "mapped size a m \<Longrightarrow> \<exists>m'. st a v m = Some m' \<and> ld a m' = Some v"
  using st_defined [of a v m] ld_st by auto

end

definition load_word :: "u64 \<Rightarrow> mem \<Rightarrow> 'a::len word option" where
  "load_word a m = map_option le_word (load_bytes (LENGTH('a) div 8) a m)"

definition store_word :: "u64 \<Rightarrow> 'a::len word \<Rightarrow> mem \<Rightarrow> mem option" where
  "store_word a v m = store_bytes a (word_bytes (LENGTH('a) div 8) v) m"

lemma word_access:
  assumes "LENGTH('a::len) = 8 * k" "k \<le> 8"
  shows "access k (load_word :: _ \<Rightarrow> _ \<Rightarrow> 'a word option) store_word"
proof
  have k: "LENGTH('a) div 8 = k" "LENGTH('a) \<le> 8 * k" using assms by simp_all
  fix a b :: u64 and v :: "'a word" and m m' :: mem and j :: nat
  show "store_word a v m \<noteq> None \<longleftrightarrow> mapped k a m" by (simp add: store_word_def store_bytes_def k)
  show "(load_word a m :: 'a word option) \<noteq> None \<longleftrightarrow> mapped k a m" by (simp add: load_word_def mapped_def k)
  assume st: "store_word a v m = Some m'"
  then have st': "store_bytes a (word_bytes k v) m = Some m'" by (simp add: store_word_def k)
  show "load_word a m' = Some v"
    using load_store_same [OF st'] assms le_word_word_bytes [OF k(2), of v] by (simp add: load_word_def k)
  show "mapped j b m' = mapped j b m" by (rule store_mapped [OF st'])
  assume "apart a k b k"
  then show "(load_word b m' :: 'a word option) = load_word b m"
    using store_frame [OF st', of b k] by (simp add: load_word_def k)
qed

lemma load_word_const: "load_word a (\<lambda>_. Some b) = Some (le_word (replicate (LENGTH('a) div 8) b) :: 'a::len word)"
proof -
  have "those (replicate n (Some b)) = Some (replicate n b)" for n by (induction n) simp_all
  then show ?thesis by (simp add: load_word_def load_bytes_def map_replicate_const)
qed

lemma le_word_zeros: "le_word (replicate n 0) = 0"
proof -
  have "horner_sum unat 256 (replicate n (0 :: byte)) = (0 :: nat)" by (induction n) simp_all
  then show ?thesis by (simp add: le_word_def)
qed

text \<open>The widths the headers use: bytes, \<open>uint16_t\<close>, \<open>uint32_t\<close> and addresses.\<close>

interpretation u8_access: access 1 "load_word :: u64 \<Rightarrow> mem \<Rightarrow> byte option" store_word
  by (rule word_access) simp_all

interpretation u16_access: access 2 "load_word :: u64 \<Rightarrow> mem \<Rightarrow> u16 option" store_word
  by (rule word_access) simp_all

interpretation u32_access: access 4 "load_word :: u64 \<Rightarrow> mem \<Rightarrow> u32 option" store_word
  by (rule word_access) simp_all

interpretation u64_access: access 8 "load_word :: u64 \<Rightarrow> mem \<Rightarrow> u64 option" store_word
  by (rule word_access) simp_all

end
