(* ===== verification/V8_Smi.thy ===== *)
theory V8_Smi
  imports V8_Memory
begin

text \<open>
  Tagged words of \<open>v8-internal.h\<close>: small integers (Smis), heap object tags, and pointer
  compression. A tagged word with a clear low bit is a Smi, one with the low bits \<open>01\<close> points to a
  heap object. Both tagging schemes of the header are modelled: \<open>SmiTagging<4>\<close> with 31-bit values,
  which the build selects with \<open>V8_31BIT_SMIS_ON_64BIT_ARCH\<close>, and \<open>SmiTagging<8>\<close> with 32-bit values.
  A C \<open>int\<close> or \<open>intptr_t\<close> is an \<open>int\<close> within its range, an \<open>Address\<close> a 64-bit word.
\<close>

unbundle bit_operations_syntax

section \<open>Constants\<close>

definition kApiSystemPointerSize :: int where "kApiSystemPointerSize = 8"
definition kApiDoubleSize :: int where "kApiDoubleSize = 8"
definition kApiInt32Size :: int where "kApiInt32Size = 4"
definition kApiInt64Size :: int where "kApiInt64Size = 8"
definition kApiSizetSize :: int where "kApiSizetSize = 8"
definition kApiTaggedSize :: int where "kApiTaggedSize = kApiInt32Size"

lemmas api_size_defs = kApiSystemPointerSize_def kApiDoubleSize_def kApiInt32Size_def
  kApiInt64Size_def kApiSizetSize_def kApiTaggedSize_def

definition kHeapObjectTag :: int where "kHeapObjectTag = 1"
definition kWeakHeapObjectTag :: int where "kWeakHeapObjectTag = 3"
definition kHeapObjectTagSize :: nat where "kHeapObjectTagSize = 2"
definition kHeapObjectTagMask :: int where "kHeapObjectTagMask = push_bit kHeapObjectTagSize 1 - 1"
definition kHeapObjectReferenceTagMask :: int where
  "kHeapObjectReferenceTagMask = push_bit (kHeapObjectTagSize - 1) 1"
definition kForwardingTag :: int where "kForwardingTag = 0"
definition kForwardingTagSize :: nat where "kForwardingTagSize = 2"
definition kForwardingTagMask :: int where "kForwardingTagMask = push_bit kForwardingTagSize 1 - 1"
definition kSmiTag :: int where "kSmiTag = 0"
definition kSmiTagSize :: nat where "kSmiTagSize = 1"
definition kSmiTagMask :: int where "kSmiTagMask = push_bit kSmiTagSize 1 - 1"
definition kIntptrAllBitsSet :: int where "kIntptrAllBitsSet = - 1"
definition kUintptrAllBitsSet :: u64 where "kUintptrAllBitsSet = of_int kIntptrAllBitsSet"

lemmas tag_const_defs = kHeapObjectTag_def kWeakHeapObjectTag_def kHeapObjectTagSize_def
  kHeapObjectTagMask_def kHeapObjectReferenceTagMask_def kForwardingTag_def kForwardingTagSize_def
  kForwardingTagMask_def kSmiTag_def kSmiTagSize_def kSmiTagMask_def kIntptrAllBitsSet_def
  kUintptrAllBitsSet_def

section \<open>SmiTagging<4>\<close>

definition Smi4_kSmiShiftSize :: nat where "Smi4_kSmiShiftSize = 0"
definition Smi4_kSmiValueSize :: nat where "Smi4_kSmiValueSize = 31"

definition Smi4_kSmiMinValue :: int where
  "Smi4_kSmiMinValue = sint (push_bit (Smi4_kSmiValueSize - 1) kUintptrAllBitsSet)"

definition Smi4_kSmiMaxValue :: int where
  "Smi4_kSmiMaxValue = - (Smi4_kSmiMinValue + 1)"

definition Smi4_SmiToInt :: "u64 \<Rightarrow> int" where
  "Smi4_SmiToInt value =
     (let shift_bits = kSmiTagSize + Smi4_kSmiShiftSize
      in drop_bit shift_bits (sint (ucast value :: u32)))"

text \<open>The overloads for signed and unsigned types, and those for \<open>int64_t\<close> and \<open>uint64_t\<close>.\<close>

definition Smi4_IsValidSmi :: "int \<Rightarrow> bool" where
  "Smi4_IsValidSmi value \<longleftrightarrow>
     (of_int value :: u64) - of_int Smi4_kSmiMinValue \<le> of_int Smi4_kSmiMaxValue - of_int Smi4_kSmiMinValue"

definition Smi4_IsValidSmi_unsigned :: "u64 \<Rightarrow> bool" where
  "Smi4_IsValidSmi_unsigned value \<longleftrightarrow> value \<le> of_int Smi4_kSmiMaxValue"

definition Smi4_IsValidSmi_int64 :: "int \<Rightarrow> bool" where
  "Smi4_IsValidSmi_int64 value \<longleftrightarrow>
     (of_int value :: u64) - of_int Smi4_kSmiMinValue \<le> of_int Smi4_kSmiMaxValue - of_int Smi4_kSmiMinValue"

definition Smi4_IsValidSmi_uint64 :: "u64 \<Rightarrow> bool" where
  "Smi4_IsValidSmi_uint64 value \<longleftrightarrow> value \<le> of_int Smi4_kSmiMaxValue"

section \<open>SmiTagging<8>\<close>

definition Smi8_kSmiShiftSize :: nat where "Smi8_kSmiShiftSize = 31"
definition Smi8_kSmiValueSize :: nat where "Smi8_kSmiValueSize = 32"

definition Smi8_kSmiMinValue :: int where
  "Smi8_kSmiMinValue = sint (push_bit (Smi8_kSmiValueSize - 1) kUintptrAllBitsSet)"

definition Smi8_kSmiMaxValue :: int where
  "Smi8_kSmiMaxValue = - (Smi8_kSmiMinValue + 1)"

definition Smi8_SmiToInt :: "u64 \<Rightarrow> int" where
  "Smi8_SmiToInt value =
     (let shift_bits = kSmiTagSize + Smi8_kSmiShiftSize
      in signed_take_bit 31 (drop_bit shift_bits (sint value)))"

definition Smi8_IsValidSmi :: "int \<Rightarrow> bool" where
  "Smi8_IsValidSmi value \<longleftrightarrow> INT_MIN \<le> value \<and> value \<le> INT_MAX"

text \<open>The comparison with an \<open>int\<close> is made in the unsigned type.\<close>

definition Smi8_IsValidSmi_unsigned :: "u64 \<Rightarrow> bool" where
  "Smi8_IsValidSmi_unsigned value \<longleftrightarrow> value \<le> of_int INT_MAX"

section \<open>The platform's scheme\<close>

definition PointerCompressionIsEnabled :: bool where
  "PointerCompressionIsEnabled \<longleftrightarrow> kApiTaggedSize \<noteq> kApiSystemPointerSize"

definition kSmiShiftSize :: nat where "kSmiShiftSize = Smi4_kSmiShiftSize"
definition kSmiValueSize :: nat where "kSmiValueSize = Smi4_kSmiValueSize"
definition kSmiMinValue :: int where "kSmiMinValue = signed_take_bit 31 Smi4_kSmiMinValue"
definition kSmiMaxValue :: int where "kSmiMaxValue = signed_take_bit 31 Smi4_kSmiMaxValue"
definition SmiValuesAre31Bits :: bool where "SmiValuesAre31Bits \<longleftrightarrow> kSmiValueSize = 31"
definition SmiValuesAre32Bits :: bool where "SmiValuesAre32Bits \<longleftrightarrow> kSmiValueSize = 32"
definition Is64 :: bool where "Is64 \<longleftrightarrow> kApiSystemPointerSize = 8"

definition IntToSmi :: "int \<Rightarrow> u64" where
  "IntToSmi value = push_bit (kSmiTagSize + kSmiShiftSize) (of_int value) OR of_int kSmiTag"

definition HasHeapObjectTag :: "u64 \<Rightarrow> bool" where
  "HasHeapObjectTag value \<longleftrightarrow> value AND of_int kHeapObjectTagMask = of_int kHeapObjectTag"

definition SmiValue :: "u64 \<Rightarrow> int" where
  "SmiValue value = Smi4_SmiToInt value"

definition AddressToSmi :: "u64 \<Rightarrow> u64" where
  "AddressToSmi value = push_bit (kSmiTagSize + Smi4_kSmiShiftSize) value OR of_int kSmiTag"

definition Internals_IntToSmi :: "int \<Rightarrow> u64" where
  "Internals_IntToSmi value = AddressToSmi (of_int value)"

definition IntegralToSmi :: "int \<Rightarrow> u64" where
  "IntegralToSmi value = AddressToSmi (of_int value)"

definition IsValidSmi :: "int \<Rightarrow> bool" where
  "IsValidSmi value = Smi4_IsValidSmi value"

definition TryIntegralToSmi :: "int \<Rightarrow> u64 option" where
  "TryIntegralToSmi value =
     (if Smi4_IsValidSmi value then Some (AddressToSmi (of_int value)) else None)"

definition TryIntegralToSmi_unsigned :: "u64 \<Rightarrow> u64 option" where
  "TryIntegralToSmi_unsigned value =
     (if Smi4_IsValidSmi_unsigned value then Some (AddressToSmi value) else None)"

section \<open>Pointer compression\<close>

definition kPtrComprCageReservationSize :: u64 where "kPtrComprCageReservationSize = push_bit 32 1"
definition kPtrComprCageBaseAlignment :: u64 where "kPtrComprCageBaseAlignment = push_bit 32 1"

definition GetPtrComprCageBaseFromOnHeapAddress :: "u64 \<Rightarrow> u64" where
  "GetPtrComprCageBaseFromOnHeapAddress a = a AND - kPtrComprCageBaseAlignment"

definition CompressTagged :: "u64 \<Rightarrow> u32" where
  "CompressTagged value = ucast value"

definition DecompressTaggedField :: "u64 \<Rightarrow> u32 \<Rightarrow> u64" where
  "DecompressTaggedField heap_object_ptr value =
     (let base = GetPtrComprCageBaseFromOnHeapAddress heap_object_ptr in base + ucast value)"

section \<open>The two schemes as one interface\<close>

lemma ucast_of_int:
  "LENGTH('b) \<le> LENGTH('a) \<Longrightarrow> ucast (of_int k :: 'a::len word) = (of_int k :: 'b::len word)"
  by (rule bit_word_eqI) (auto simp: bit_simps)

lemma uint_of_int64: "uint (of_int k :: u64) = k mod 2 ^ 64"
  by (simp add: uint_word_of_int)

lemma sint_of_int64: "- (2 ^ 63) \<le> k \<Longrightarrow> k < 2 ^ 63 \<Longrightarrow> sint (of_int k :: u64) = k"
  by (simp add: signed_of_int signed_take_bit_int_eq_self)

lemma sint_of_int32: "- (2 ^ 31) \<le> k \<Longrightarrow> k < 2 ^ 31 \<Longrightarrow> sint (of_int k :: u32) = k"
  by (simp add: signed_of_int signed_take_bit_int_eq_self)

lemma signed_small:
  "- (2 ^ n) \<le> v \<Longrightarrow> v < 2 ^ n \<Longrightarrow> signed_take_bit n v = (v :: int)"
  by (simp add: signed_take_bit_int_eq_self)

lemma Smi4_bounds [bits_simps]: "Smi4_kSmiMinValue = - (2 ^ 30)" "Smi4_kSmiMaxValue = 2 ^ 30 - 1"
  by (simp_all add: Smi4_kSmiMinValue_def Smi4_kSmiMaxValue_def Smi4_kSmiValueSize_def tag_const_defs
      push_bit_eq_mult)

lemma Smi8_bounds [bits_simps]: "Smi8_kSmiMinValue = - (2 ^ 31)" "Smi8_kSmiMaxValue = 2 ^ 31 - 1"
  by (simp_all add: Smi8_kSmiMinValue_def Smi8_kSmiMaxValue_def Smi8_kSmiValueSize_def tag_const_defs
      push_bit_eq_mult)

text \<open>The range check by one unsigned comparison.\<close>

lemma range_check:
  assumes "- (2 ^ 63) \<le> v" "v < 2 ^ 63" "- (2 ^ 62) \<le> lo" "lo \<le> hi" "hi < 2 ^ 62"
  shows "(of_int v :: u64) - of_int lo \<le> of_int hi - of_int lo \<longleftrightarrow> lo \<le> v \<and> v \<le> hi"
proof -
  have "(hi - lo) mod 2 ^ 64 = hi - lo" using assms by (intro mod_pos_pos_trivial) simp_all
  then have "uint (of_int (hi - lo) :: u64) = hi - lo" by (simp only: uint_of_int64)
  moreover have "uint (of_int (v - lo) :: u64) = (v - lo) mod 2 ^ 64" by (rule uint_of_int64)
  ultimately have "(of_int v :: u64) - of_int lo \<le> of_int hi - of_int lo \<longleftrightarrow> (v - lo) mod 2 ^ 64 \<le> hi - lo"
    by (simp only: of_int_diff [symmetric] word_le_def)
  also have "\<dots> \<longleftrightarrow> lo \<le> v \<and> v \<le> hi"
  proof (cases "lo \<le> v")
    case True
    then have "(v - lo) mod 2 ^ 64 = v - lo" using assms by (intro mod_pos_pos_trivial) simp_all
    with True show ?thesis by auto
  next
    case False
    have "(v - lo + 2 ^ 64) mod 2 ^ 64 = v - lo + 2 ^ 64"
      using assms False by (intro mod_pos_pos_trivial) simp_all
    then have "(v - lo) mod 2 ^ 64 = v - lo + 2 ^ 64" by simp
    with False assms show ?thesis by simp
  qed
  finally show ?thesis .
qed

text \<open>What a tagging scheme promises: it encodes exactly the values of its range, as words without the
  heap object tag, and decodes them.\<close>

locale smi_tagging =
  fixes lo hi :: int
    and valid :: "int \<Rightarrow> bool"
    and encode :: "int \<Rightarrow> u64"
    and decode :: "u64 \<Rightarrow> int"
  assumes valid_iff: "- (2 ^ 63) \<le> v \<Longrightarrow> v < 2 ^ 63 \<Longrightarrow> valid v \<longleftrightarrow> lo \<le> v \<and> v \<le> hi"
    and int64_range: "- (2 ^ 63) \<le> lo" "hi < 2 ^ 63"
    and decode_encode: "lo \<le> v \<Longrightarrow> v \<le> hi \<Longrightarrow> decode (encode v) = v"
    and encode_even: "encode v AND 1 = 0"
begin

lemma encode_inj: "inj_on encode {lo..hi}"
  by (rule inj_on_inverseI [where g = decode]) (simp add: decode_encode)

lemma encode_not_heap_object: "\<not> HasHeapObjectTag (encode v)"
proof
  assume "HasHeapObjectTag (encode v)"
  then have "encode v AND 3 = 1" by (simp add: HasHeapObjectTag_def tag_const_defs push_bit_eq_mult)
  then have "(encode v AND 3) AND 1 = 1" by simp
  then have "encode v AND 1 = 1" by (simp add: and.assoc)
  with encode_even show False by simp
qed

end

lemma push_bit_even: "0 < n \<Longrightarrow> push_bit n (w :: 'a::len word) AND 1 = 0"
  by (simp add: and_one_eq mod2_eq_if)

interpretation smi4: smi_tagging "- (2 ^ 30)" "2 ^ 30 - 1" Smi4_IsValidSmi IntegralToSmi Smi4_SmiToInt
proof
  fix v :: int
  show "Smi4_IsValidSmi v \<longleftrightarrow> - (2 ^ 30) \<le> v \<and> v \<le> 2 ^ 30 - 1" if "- (2 ^ 63) \<le> v" "v < 2 ^ 63"
    unfolding Smi4_IsValidSmi_def Smi4_bounds by (rule range_check) (use that in simp_all)
  show "IntegralToSmi v AND 1 = 0"
    by (simp add: IntegralToSmi_def AddressToSmi_def kSmiTag_def kSmiTagSize_def push_bit_even)
  show "Smi4_SmiToInt (IntegralToSmi v) = v" if "- (2 ^ 30) \<le> v" "v \<le> 2 ^ 30 - 1"
  proof -
    have "IntegralToSmi v = of_int (2 * v)"
      by (simp add: IntegralToSmi_def AddressToSmi_def kSmiTag_def kSmiTagSize_def
          Smi4_kSmiShiftSize_def push_bit_eq_mult)
    then have "sint (ucast (IntegralToSmi v) :: u32) = 2 * v"
      using that by (simp add: ucast_of_int sint_of_int32 del: of_int_mult)
    then show ?thesis
      by (simp add: Smi4_SmiToInt_def kSmiTagSize_def Smi4_kSmiShiftSize_def drop_bit_eq_div)
  qed
qed simp_all

definition Smi8_encode :: "int \<Rightarrow> u64" where
  "Smi8_encode value = push_bit (kSmiTagSize + Smi8_kSmiShiftSize) (of_int value) OR of_int kSmiTag"

interpretation smi8: smi_tagging "- (2 ^ 31)" "2 ^ 31 - 1" Smi8_IsValidSmi Smi8_encode Smi8_SmiToInt
proof
  fix v :: int
  show "Smi8_IsValidSmi v \<longleftrightarrow> - (2 ^ 31) \<le> v \<and> v \<le> 2 ^ 31 - 1" if "- (2 ^ 63) \<le> v" "v < 2 ^ 63"
    by (simp add: Smi8_IsValidSmi_def INT_MIN_def INT_MAX_def)
  show "Smi8_encode v AND 1 = 0"
    by (simp add: Smi8_encode_def kSmiTag_def kSmiTagSize_def push_bit_even)
  show "Smi8_SmiToInt (Smi8_encode v) = v" if "- (2 ^ 31) \<le> v" "v \<le> 2 ^ 31 - 1"
  proof -
    have "Smi8_encode v = of_int (2 ^ 32 * v)"
      by (simp add: Smi8_encode_def kSmiTag_def kSmiTagSize_def Smi8_kSmiShiftSize_def
          push_bit_eq_mult)
    then have "sint (Smi8_encode v) = 2 ^ 32 * v" using that by (simp add: sint_of_int64 del: of_int_mult)
    with that show ?thesis
      by (simp add: Smi8_SmiToInt_def kSmiTagSize_def Smi8_kSmiShiftSize_def signed_small
          drop_bit_eq_div)
  qed
qed simp_all

section \<open>Property\<close>



end
