(* ===== verification/V8_Tags.thy ===== *)
theory V8_Tags
  imports V8_Smi
begin

text \<open>
  Pointer table tags of \<open>v8-internal.h\<close> and \<open>v8-sandbox.h\<close>: the geometry of the sandbox and of its pointer
  tables, the tag ranges used for type checks, and the tags of external and \<open>CppHeap\<close> pointers. A tag
  is the 16-bit word the enumerations are based on; the enumerations number their tags as the
  compiler does, one after the other, and the macro lists are lists of names.
\<close>

section \<open>Sandbox and table geometry\<close>

definition KB :: int where "KB = 1024"
definition MB :: int where "MB = KB * 1024"
definition GB :: int where "GB = MB * 1024"
definition kSandboxSizeLog2 :: nat where "kSandboxSizeLog2 = 40"
definition kSandboxSize :: u64 where "kSandboxSize = push_bit kSandboxSizeLog2 1"
definition kSandboxAlignment :: u64 where "kSandboxAlignment = kPtrComprCageBaseAlignment"
definition kSandboxedPointerShift :: nat where "kSandboxedPointerShift = 64 - kSandboxSizeLog2"
definition kSandboxMinimumReservationSize :: u64 where
  "kSandboxMinimumReservationSize = 8 * of_int GB"
definition kMaxSafeBufferSizeForSandbox :: u64 where "kMaxSafeBufferSizeForSandbox = 32 * of_int GB - 1"
definition kBoundedSizeShift :: nat where "kBoundedSizeShift = 29"
definition kSandboxGuardRegionSize :: u64 where
  "kSandboxGuardRegionSize = 32 * of_int GB + (kMaxSafeBufferSizeForSandbox + 1)"

definition kExternalPointerTableReservationSize :: u64 where
  "kExternalPointerTableReservationSize = 512 * of_int MB"
definition kExternalPointerIndexShift :: nat where "kExternalPointerIndexShift = 6"
definition kExternalPointerTableEntrySize :: u64 where "kExternalPointerTableEntrySize = 8"
definition kExternalPointerTableEntrySizeLog2 :: nat where "kExternalPointerTableEntrySizeLog2 = 3"
definition kMaxExternalPointers :: u64 where
  "kMaxExternalPointers = kExternalPointerTableReservationSize div kExternalPointerTableEntrySize"
definition kExternalPointerMarkBit :: u64 where "kExternalPointerMarkBit = push_bit 48 1"
definition kExternalPointerTagShift :: nat where "kExternalPointerTagShift = 49"
definition kExternalPointerTagMask :: u64 where "kExternalPointerTagMask = 0x00fe000000000000"
definition kExternalPointerShiftedTagMask :: u64 where
  "kExternalPointerShiftedTagMask = drop_bit kExternalPointerTagShift kExternalPointerTagMask"
definition kExternalPointerTagAndMarkbitMask :: u64 where
  "kExternalPointerTagAndMarkbitMask = 0x00ff000000000000"
definition kExternalPointerPayloadMask :: u64 where "kExternalPointerPayloadMask = 0xff00ffffffffffff"
definition kNullExternalPointer :: u32 where "kNullExternalPointer = 0"
definition kNullExternalPointerHandle :: u32 where "kNullExternalPointerHandle = 0"

definition kNullCppHeapPointer :: u32 where "kNullCppHeapPointer = 0"
definition kNullCppHeapPointerHandle :: u32 where "kNullCppHeapPointerHandle = 0"
definition kCppHeapPointerMarkBit :: u64 where "kCppHeapPointerMarkBit = 1"
definition kCppHeapPointerTagShift :: nat where "kCppHeapPointerTagShift = 1"
definition kCppHeapPointerPayloadShift :: nat where "kCppHeapPointerPayloadShift = 16"
definition kCppHeapPointerTableReservationSize :: u64 where
  "kCppHeapPointerTableReservationSize = kExternalPointerTableReservationSize"
definition kCppHeapPointerIndexShift :: nat where
  "kCppHeapPointerIndexShift = kExternalPointerIndexShift"
definition kCppHeapPointerTableEntrySize :: u64 where "kCppHeapPointerTableEntrySize = 8"
definition kCppHeapPointerTableEntrySizeLog2 :: nat where "kCppHeapPointerTableEntrySizeLog2 = 3"
definition kMaxCppHeapPointers :: u64 where
  "kMaxCppHeapPointers = kCppHeapPointerTableReservationSize div kCppHeapPointerTableEntrySize"

definition kNullIndirectPointerHandle :: u32 where "kNullIndirectPointerHandle = 0"
definition kTrustedPointerTableReservationSize :: u64 where
  "kTrustedPointerTableReservationSize = 64 * of_int MB"
definition kTrustedPointerHandleShift :: nat where "kTrustedPointerHandleShift = 9"
definition kNullTrustedPointerHandle :: u32 where
  "kNullTrustedPointerHandle = kNullIndirectPointerHandle"
definition kTrustedPointerTableEntrySize :: u64 where "kTrustedPointerTableEntrySize = 8"
definition kTrustedPointerTableEntrySizeLog2 :: nat where "kTrustedPointerTableEntrySizeLog2 = 3"
definition kMaxTrustedPointers :: u64 where
  "kMaxTrustedPointers = kTrustedPointerTableReservationSize div kTrustedPointerTableEntrySize"
definition kCodePointerTableReservationSize :: u64 where
  "kCodePointerTableReservationSize = 128 * of_int MB"
definition kCodePointerHandleShift :: nat where "kCodePointerHandleShift = 9"
definition kNullCodePointerHandle :: u32 where "kNullCodePointerHandle = kNullIndirectPointerHandle"
definition kCodePointerHandleMarker :: u32 where "kCodePointerHandleMarker = 1"
definition kCodePointerTableEntrySize :: u64 where "kCodePointerTableEntrySize = 16"
definition kCodePointerTableEntrySizeLog2 :: nat where "kCodePointerTableEntrySizeLog2 = 4"
definition kMaxCodePointers :: u64 where
  "kMaxCodePointers = kCodePointerTableReservationSize div kCodePointerTableEntrySize"
definition kCodePointerTableEntryEntrypointOffset :: int where
  "kCodePointerTableEntryEntrypointOffset = 0"
definition kCodePointerTableEntryCodeObjectOffset :: int where
  "kCodePointerTableEntryCodeObjectOffset = 8"
definition kRuntimeGeneratedCodeObjectsLiveInTrustedSpace :: bool where
  "kRuntimeGeneratedCodeObjectsLiveInTrustedSpace = True"
definition kBuiltinCodeObjectsLiveInTrustedSpace :: bool where
  "kBuiltinCodeObjectsLiveInTrustedSpace = False"
definition kAllCodeObjectsLiveInTrustedSpace :: bool where
  "kAllCodeObjectsLiveInTrustedSpace \<longleftrightarrow>
     kRuntimeGeneratedCodeObjectsLiveInTrustedSpace \<and> kBuiltinCodeObjectsLiveInTrustedSpace"

lemmas size_defs = KB_def MB_def GB_def
lemmas entry_mask_defs = kExternalPointerMarkBit_def kExternalPointerTagShift_def
  kExternalPointerTagMask_def kExternalPointerShiftedTagMask_def
  kExternalPointerTagAndMarkbitMask_def kExternalPointerPayloadMask_def
lemmas table_size_defs = size_defs kExternalPointerTableReservationSize_def
  kExternalPointerIndexShift_def kExternalPointerTableEntrySize_def kMaxExternalPointers_def
  kCppHeapPointerTableReservationSize_def kCppHeapPointerIndexShift_def
  kCppHeapPointerTableEntrySize_def kMaxCppHeapPointers_def kTrustedPointerTableReservationSize_def
  kTrustedPointerHandleShift_def kTrustedPointerTableEntrySize_def kMaxTrustedPointers_def
  kCodePointerTableReservationSize_def kCodePointerHandleShift_def kCodePointerTableEntrySize_def
  kMaxCodePointers_def

section \<open>Tag ranges\<close>

datatype TagRange = TagRange (range_first: u16) (range_last: u16)

definition TagRange_single :: "u16 \<Rightarrow> TagRange" where
  "TagRange_single tag = TagRange tag tag"

definition TagRange_empty :: TagRange where
  "TagRange_empty = TagRange_single 0"

definition TagRange_IsEmpty :: "TagRange \<Rightarrow> bool" where
  "TagRange_IsEmpty r \<longleftrightarrow> range_first r = 0 \<and> range_last r = 0"

text \<open>\<open>last - first + 1\<close> is computed on \<open>int\<close> and converted to \<open>size_t\<close>.\<close>

definition TagRange_Size :: "TagRange \<Rightarrow> u64" where
  "TagRange_Size r =
     (if TagRange_IsEmpty r then 0 else of_int (uint (range_last r) - uint (range_first r) + 1))"

definition TagRange_Contains :: "TagRange \<Rightarrow> u16 \<Rightarrow> bool" where
  "TagRange_Contains r tag \<longleftrightarrow>
     (ucast tag :: u32) - ucast (range_first r) \<le> ucast (range_last r) - ucast (range_first r)"

definition TagRange_Contains_range :: "TagRange \<Rightarrow> TagRange \<Rightarrow> bool" where
  "TagRange_Contains_range r tag_range \<longleftrightarrow>
     range_first r \<le> range_first tag_range \<and> range_last tag_range \<le> range_last r"

definition TagRange_eq :: "TagRange \<Rightarrow> TagRange \<Rightarrow> bool" where
  "TagRange_eq r other \<longleftrightarrow> range_first r = range_first other \<and> range_last r = range_last other"

definition TagRange_hash_value :: "TagRange \<Rightarrow> u64" where
  "TagRange_hash_value r = push_bit 16 (ucast (range_first r)) OR ucast (range_last r)"

text \<open>Inclusion of ranges is a partial order.\<close>

instantiation TagRange :: order
begin

definition less_eq_TagRange :: "TagRange \<Rightarrow> TagRange \<Rightarrow> bool" where
  "less_eq_TagRange r s \<longleftrightarrow> TagRange_Contains_range s r"

definition less_TagRange :: "TagRange \<Rightarrow> TagRange \<Rightarrow> bool" where
  "less_TagRange r s \<longleftrightarrow> TagRange_Contains_range s r \<and> \<not> TagRange_Contains_range r s"

instance
proof
  fix r s t :: TagRange
  show "r < s \<longleftrightarrow> r \<le> s \<and> \<not> s \<le> r" by (simp add: less_eq_TagRange_def less_TagRange_def)
  show "r \<le> r" by (simp add: less_eq_TagRange_def TagRange_Contains_range_def)
  show "r \<le> s \<Longrightarrow> s \<le> t \<Longrightarrow> r \<le> t" by (auto simp: less_eq_TagRange_def TagRange_Contains_range_def)
  show "r \<le> s \<Longrightarrow> s \<le> r \<Longrightarrow> r = s"
    by (cases r; cases s) (auto simp: less_eq_TagRange_def TagRange_Contains_range_def)
qed

end

section \<open>External pointer tags\<close>

definition V8_EMBEDDER_DATA_TAG_COUNT :: nat where "V8_EMBEDDER_DATA_TAG_COUNT = 15"
definition V8_EXTERNAL_POINTER_TAG_COUNT :: nat where "V8_EXTERNAL_POINTER_TAG_COUNT = 40"

definition SHARED_MANAGED_TAG_LIST :: "string list" where
  "SHARED_MANAGED_TAG_LIST =
     [''WasmFutexManagedObjectWaitListTag'']"

definition MANAGED_TAG_LIST :: "string list" where
  "MANAGED_TAG_LIST = SHARED_MANAGED_TAG_LIST @
     [''GenericManagedTag'', ''WasmWasmStreamingTag'', ''WasmFuncDataTag'', ''WasmManagedDataTag'',
      ''WasmNativeModuleTag'', ''BackingStoreTag'', ''CFunctionWithSignatureTag'',
      ''IcuBreakIteratorTag'', ''IcuListFormatterTag'', ''IcuLocaleTag'',
      ''IcuSimpleDateFormatTag'', ''IcuDateIntervalFormatTag'',
      ''IcuRelativeDateTimeFormatterTag'', ''IcuLocalizedNumberFormatterTag'',
      ''IcuPluralRulesTag'', ''IcuCollatorTag'', ''IcuBreakIteratorWithTextTag'',
      ''TemporalDurationTag'', ''TemporalInstantTag'', ''TemporalPlainDateTag'',
      ''TemporalPlainTimeTag'', ''TemporalPlainDateTimeTag'', ''TemporalPlainYearMonthTag'',
      ''TemporalPlainMonthDayTag'', ''TemporalZonedDateTimeTag'', ''DisplayNamesInternalTag'',
      ''D8WorkerTag'', ''D8ModuleEmbedderDataTag'']"

definition FOREIGN_TAG_LIST :: "string list" where
  "FOREIGN_TAG_LIST =
     [''GenericForeignTag'', ''ApiAccessCheckCallbackTag'', ''ApiAbortScriptExecutionCallbackTag'',
      ''SyntheticModuleTag'', ''MicrotaskCallbackTag'', ''MicrotaskCallbackDataTag'',
      ''MessageListenerTag'', ''WaiterQueueForeignTag''] @ MANAGED_TAG_LIST"

definition kFirstExternalPointerTag :: u16 where "kFirstExternalPointerTag = 0"
definition kExternalPointerNullTag :: u16 where "kExternalPointerNullTag = 0"
definition kFirstSharedExternalPointerTag :: u16 where
  "kFirstSharedExternalPointerTag = kExternalPointerNullTag + 1"
definition kWaiterQueueNodeTag :: u16 where "kWaiterQueueNodeTag = kFirstSharedExternalPointerTag"
definition kExternalStringResourceTag :: u16 where
  "kExternalStringResourceTag = kWaiterQueueNodeTag + 1"
definition kExternalStringResourceDataTag :: u16 where
  "kExternalStringResourceDataTag = kExternalStringResourceTag + 1"
definition kLastSharedExternalPointerTag :: u16 where
  "kLastSharedExternalPointerTag = kExternalStringResourceDataTag"
definition kNativeContextMicrotaskQueueTag :: u16 where
  "kNativeContextMicrotaskQueueTag = kLastSharedExternalPointerTag + 1"
definition kFirstEmbedderDataTag :: u16 where
  "kFirstEmbedderDataTag = kNativeContextMicrotaskQueueTag + 1"
definition kLastEmbedderDataTag :: u16 where
  "kLastEmbedderDataTag = kFirstEmbedderDataTag + of_nat V8_EMBEDDER_DATA_TAG_COUNT - 1"
definition kFirstExternalTypeTag :: u16 where "kFirstExternalTypeTag = kLastEmbedderDataTag + 1"
definition kLastExternalTypeTag :: u16 where
  "kLastExternalTypeTag = kFirstExternalTypeTag + of_nat V8_EXTERNAL_POINTER_TAG_COUNT - 1"
definition kFastApiExternalTypeTag :: u16 where "kFastApiExternalTypeTag = kLastExternalTypeTag"
definition kFirstMaybeReadOnlyExternalPointerTag :: u16 where
  "kFirstMaybeReadOnlyExternalPointerTag = kFastApiExternalTypeTag + 1"
definition kFunctionTemplateInfoCallbackTag :: u16 where
  "kFunctionTemplateInfoCallbackTag = kFirstMaybeReadOnlyExternalPointerTag"
definition kAccessorInfoGetterTag :: u16 where
  "kAccessorInfoGetterTag = kFunctionTemplateInfoCallbackTag + 1"
definition kAccessorInfoSetterTag :: u16 where "kAccessorInfoSetterTag = kAccessorInfoGetterTag + 1"
definition kFirstInterceptorInfoExternalPointerTag :: u16 where
  "kFirstInterceptorInfoExternalPointerTag = kAccessorInfoSetterTag + 1"
definition kApiNamedPropertyQueryCallbackTag :: u16 where
  "kApiNamedPropertyQueryCallbackTag = kFirstInterceptorInfoExternalPointerTag"
definition kApiNamedPropertyGetterCallbackTag :: u16 where
  "kApiNamedPropertyGetterCallbackTag = kApiNamedPropertyQueryCallbackTag + 1"
definition kApiNamedPropertySetterCallbackTag :: u16 where
  "kApiNamedPropertySetterCallbackTag = kApiNamedPropertyGetterCallbackTag + 1"
definition kApiNamedPropertyDescriptorCallbackTag :: u16 where
  "kApiNamedPropertyDescriptorCallbackTag = kApiNamedPropertySetterCallbackTag + 1"
definition kApiNamedPropertyDefinerCallbackTag :: u16 where
  "kApiNamedPropertyDefinerCallbackTag = kApiNamedPropertyDescriptorCallbackTag + 1"
definition kApiNamedPropertyDeleterCallbackTag :: u16 where
  "kApiNamedPropertyDeleterCallbackTag = kApiNamedPropertyDefinerCallbackTag + 1"
definition kApiNamedPropertyEnumeratorCallbackTag :: u16 where
  "kApiNamedPropertyEnumeratorCallbackTag = kApiNamedPropertyDeleterCallbackTag + 1"
definition kApiIndexedPropertyQueryCallbackTag :: u16 where
  "kApiIndexedPropertyQueryCallbackTag = kApiNamedPropertyEnumeratorCallbackTag + 1"
definition kApiIndexedPropertyGetterCallbackTag :: u16 where
  "kApiIndexedPropertyGetterCallbackTag = kApiIndexedPropertyQueryCallbackTag + 1"
definition kApiIndexedPropertySetterCallbackTag :: u16 where
  "kApiIndexedPropertySetterCallbackTag = kApiIndexedPropertyGetterCallbackTag + 1"
definition kApiIndexedPropertyDescriptorCallbackTag :: u16 where
  "kApiIndexedPropertyDescriptorCallbackTag = kApiIndexedPropertySetterCallbackTag + 1"
definition kApiIndexedPropertyDefinerCallbackTag :: u16 where
  "kApiIndexedPropertyDefinerCallbackTag = kApiIndexedPropertyDescriptorCallbackTag + 1"
definition kApiIndexedPropertyDeleterCallbackTag :: u16 where
  "kApiIndexedPropertyDeleterCallbackTag = kApiIndexedPropertyDefinerCallbackTag + 1"
definition kApiIndexedPropertyEnumeratorCallbackTag :: u16 where
  "kApiIndexedPropertyEnumeratorCallbackTag = kApiIndexedPropertyDeleterCallbackTag + 1"
definition kApiIndexedPropertyIndexOfCallbackTag :: u16 where
  "kApiIndexedPropertyIndexOfCallbackTag = kApiIndexedPropertyEnumeratorCallbackTag + 1"
definition kLastInterceptorInfoExternalPointerTag :: u16 where
  "kLastInterceptorInfoExternalPointerTag = kApiIndexedPropertyIndexOfCallbackTag"
definition kLastMaybeReadOnlyExternalPointerTag :: u16 where
  "kLastMaybeReadOnlyExternalPointerTag = kLastInterceptorInfoExternalPointerTag"
definition kWasmStackMemoryTag :: u16 where
  "kWasmStackMemoryTag = kLastMaybeReadOnlyExternalPointerTag + 1"

lemmas tag_defs =
  kFirstExternalPointerTag_def kExternalPointerNullTag_def kFirstSharedExternalPointerTag_def
  kWaiterQueueNodeTag_def kExternalStringResourceTag_def kExternalStringResourceDataTag_def
  kLastSharedExternalPointerTag_def kNativeContextMicrotaskQueueTag_def kFirstEmbedderDataTag_def
  kLastEmbedderDataTag_def kFirstExternalTypeTag_def kLastExternalTypeTag_def
  kFastApiExternalTypeTag_def kFirstMaybeReadOnlyExternalPointerTag_def
  kFunctionTemplateInfoCallbackTag_def kAccessorInfoGetterTag_def kAccessorInfoSetterTag_def
  kFirstInterceptorInfoExternalPointerTag_def kApiNamedPropertyQueryCallbackTag_def
  kApiNamedPropertyGetterCallbackTag_def kApiNamedPropertySetterCallbackTag_def
  kApiNamedPropertyDescriptorCallbackTag_def kApiNamedPropertyDefinerCallbackTag_def
  kApiNamedPropertyDeleterCallbackTag_def kApiNamedPropertyEnumeratorCallbackTag_def
  kApiIndexedPropertyQueryCallbackTag_def kApiIndexedPropertyGetterCallbackTag_def
  kApiIndexedPropertySetterCallbackTag_def kApiIndexedPropertyDescriptorCallbackTag_def
  kApiIndexedPropertyDefinerCallbackTag_def kApiIndexedPropertyDeleterCallbackTag_def
  kApiIndexedPropertyEnumeratorCallbackTag_def kApiIndexedPropertyIndexOfCallbackTag_def
  kLastInterceptorInfoExternalPointerTag_def kLastMaybeReadOnlyExternalPointerTag_def
  kWasmStackMemoryTag_def

section \<open>Tags of the macro lists\<close>

text \<open>The enumerators \<open>k##name\<close> the list \<open>FOREIGN_TAG_LIST(AS_ENUM)\<close> expands to.\<close>

primrec number_tags :: "u16 \<Rightarrow> string list \<Rightarrow> (string \<times> u16) list" where
  "number_tags t [] = []"
| "number_tags t (n # ns) = (n, t) # number_tags (t + 1) ns"

definition foreign_tags :: "(string \<times> u16) list" where
  "foreign_tags = number_tags (kWasmStackMemoryTag + 1) FOREIGN_TAG_LIST"

definition kArrayBufferExtensionTag :: u16 where
  "kArrayBufferExtensionTag = kWasmStackMemoryTag + of_nat (length FOREIGN_TAG_LIST) + 1"
definition kLastManagedResourceTag :: u16 where "kLastManagedResourceTag = kArrayBufferExtensionTag"
definition kExternalPointerZappedEntryTag :: u16 where "kExternalPointerZappedEntryTag = 0x7d"
definition kExternalPointerEvacuationEntryTag :: u16 where "kExternalPointerEvacuationEntryTag = 0x7e"
definition kExternalPointerFreeEntryTag :: u16 where "kExternalPointerFreeEntryTag = 0x7f"
definition kLastExternalPointerTag :: u16 where "kLastExternalPointerTag = 0x7f"

definition ExternalPointerTag_ToString :: "u16 \<Rightarrow> string" where
  "ExternalPointerTag_ToString tag =
     (case map_of (map prod.swap foreign_tags) tag of Some name \<Rightarrow> name | None \<Rightarrow> ''Unknown tag'')"

text \<open>\<open>GET_FIRST(LIST)\<close> and \<open>GET_LAST(LIST)\<close>; the names of the lists are all numbered.\<close>

definition tag_of :: "string \<Rightarrow> u16" where
  "tag_of name = (case map_of foreign_tags name of Some t \<Rightarrow> t | None \<Rightarrow> kExternalPointerNullTag)"

definition GET_FIRST :: "string list \<Rightarrow> u16" where
  "GET_FIRST items = tag_of (hd items)"

definition GET_LAST :: "string list \<Rightarrow> u16" where
  "GET_LAST items = tag_of (last items)"

definition kAnyExternalPointerTagRange :: TagRange where
  "kAnyExternalPointerTagRange = TagRange kFirstExternalPointerTag kLastExternalPointerTag"
definition kFirstForeignExternalPointerTag :: u16 where
  "kFirstForeignExternalPointerTag = GET_FIRST FOREIGN_TAG_LIST"
definition kLastForeignExternalPointerTag :: u16 where
  "kLastForeignExternalPointerTag = GET_LAST FOREIGN_TAG_LIST"
definition kAnyForeignExternalPointerTagRange :: TagRange where
  "kAnyForeignExternalPointerTagRange =
     TagRange kFirstForeignExternalPointerTag kLastForeignExternalPointerTag"
definition kAnyInterceptorInfoExternalPointerTagRange :: TagRange where
  "kAnyInterceptorInfoExternalPointerTagRange =
     TagRange kFirstInterceptorInfoExternalPointerTag kLastInterceptorInfoExternalPointerTag"
definition kFirstManagedExternalPointerTag :: u16 where
  "kFirstManagedExternalPointerTag = GET_FIRST MANAGED_TAG_LIST"
definition kLastManagedExternalPointerTag :: u16 where
  "kLastManagedExternalPointerTag = GET_LAST MANAGED_TAG_LIST"
definition kAnyManagedExternalPointerTagRange :: TagRange where
  "kAnyManagedExternalPointerTagRange =
     TagRange kFirstManagedExternalPointerTag kLastManagedExternalPointerTag"
definition kAnyMaybeReadOnlyExternalPointerTagRange :: TagRange where
  "kAnyMaybeReadOnlyExternalPointerTagRange =
     TagRange kFirstMaybeReadOnlyExternalPointerTag kLastMaybeReadOnlyExternalPointerTag"
definition kFirstManagedResourceTag :: u16 where
  "kFirstManagedResourceTag = GET_FIRST MANAGED_TAG_LIST"
definition kAnyManagedResourceExternalPointerTag :: TagRange where
  "kAnyManagedResourceExternalPointerTag = TagRange kFirstManagedResourceTag kLastManagedResourceTag"
definition kFirstSharedManagedExternalPointerTag :: u16 where
  "kFirstSharedManagedExternalPointerTag = GET_FIRST SHARED_MANAGED_TAG_LIST"
definition kLastSharedManagedExternalPointerTag :: u16 where
  "kLastSharedManagedExternalPointerTag = GET_LAST SHARED_MANAGED_TAG_LIST"
definition kAnySharedManagedExternalPointerTagRange :: TagRange where
  "kAnySharedManagedExternalPointerTagRange =
     TagRange kFirstSharedManagedExternalPointerTag kLastSharedManagedExternalPointerTag"

definition IsSharedExternalPointerType :: "TagRange \<Rightarrow> bool" where
  "IsSharedExternalPointerType tag_range =
     (let kAnySharedExternalPointerTagRange =
            TagRange kFirstSharedExternalPointerTag kLastSharedExternalPointerTag
      in TagRange_Contains_range kAnySharedExternalPointerTagRange tag_range \<or>
         TagRange_Contains_range kAnySharedManagedExternalPointerTagRange tag_range)"

definition IsMaybeReadOnlyExternalPointerType :: "TagRange \<Rightarrow> bool" where
  "IsMaybeReadOnlyExternalPointerType tag_range =
     TagRange_Contains_range kAnyMaybeReadOnlyExternalPointerTagRange tag_range"

definition IsManagedExternalPointerType :: "TagRange \<Rightarrow> bool" where
  "IsManagedExternalPointerType tag_range =
     TagRange_Contains_range kAnyManagedResourceExternalPointerTag tag_range"

definition ExternalPointerCanBeEmpty :: "TagRange \<Rightarrow> bool" where
  "ExternalPointerCanBeEmpty tag_range \<longleftrightarrow>
     TagRange_Contains tag_range kArrayBufferExtensionTag \<or>
     (range_first tag_range \<le> kLastEmbedderDataTag \<and> kFirstEmbedderDataTag \<le> range_last tag_range) \<or>
     TagRange_Contains_range kAnyInterceptorInfoExternalPointerTagRange tag_range"

section \<open>CppHeap pointer tags\<close>

definition CppHeap_kFirstTag :: u16 where "CppHeap_kFirstTag = 0"
definition CppHeap_kNullTag :: u16 where "CppHeap_kNullTag = 0"
definition CppHeap_kDefaultTag :: u16 where "CppHeap_kDefaultTag = 0x7000"
definition CppHeap_kZappedEntryTag :: u16 where "CppHeap_kZappedEntryTag = 0x7ffd"
definition CppHeap_kEvacuationEntryTag :: u16 where "CppHeap_kEvacuationEntryTag = 0x7ffe"
definition CppHeap_kFreeEntryTag :: u16 where "CppHeap_kFreeEntryTag = 0x7fff"
definition CppHeap_kLastTag :: u16 where "CppHeap_kLastTag = 0x7fff"
definition kAnyCppHeapPointer :: TagRange where
  "kAnyCppHeapPointer = TagRange CppHeap_kFirstTag CppHeap_kLastTag"

lemmas cppheap_tag_defs = CppHeap_kFirstTag_def CppHeap_kNullTag_def CppHeap_kDefaultTag_def
  CppHeap_kZappedEntryTag_def CppHeap_kEvacuationEntryTag_def CppHeap_kFreeEntryTag_def
  CppHeap_kLastTag_def kAnyCppHeapPointer_def

section \<open>The numbering\<close>

text \<open>The values the compiler gives the enumerators.\<close>

lemma fixed_tag_values [bits_simps]:
  "kFirstSharedExternalPointerTag = 1" "kLastSharedExternalPointerTag = 3"
  "kExternalStringResourceTag = 2"
  "kFirstEmbedderDataTag = 5" "kLastEmbedderDataTag = 19"
  "kFirstExternalTypeTag = 20" "kLastExternalTypeTag = 59"
  "kFirstMaybeReadOnlyExternalPointerTag = 60" "kLastMaybeReadOnlyExternalPointerTag = 77"
  "kFirstInterceptorInfoExternalPointerTag = 63" "kLastInterceptorInfoExternalPointerTag = 77"
  "kWasmStackMemoryTag = 78"
  by (simp_all add: tag_defs V8_EMBEDDER_DATA_TAG_COUNT_def V8_EXTERNAL_POINTER_TAG_COUNT_def)

lemma list_tags [bits_simps]:
  "tag_of ''GenericForeignTag'' = 79" "tag_of ''WasmFutexManagedObjectWaitListTag'' = 87"
  "tag_of ''D8ModuleEmbedderDataTag'' = 115"
  by (simp_all add: tag_of_def foreign_tags_def bits_simps FOREIGN_TAG_LIST_def MANAGED_TAG_LIST_def
      SHARED_MANAGED_TAG_LIST_def)

lemma list_ends [bits_simps]:
  "GET_FIRST FOREIGN_TAG_LIST = 79" "GET_LAST FOREIGN_TAG_LIST = 115"
  "GET_FIRST MANAGED_TAG_LIST = 87" "GET_LAST MANAGED_TAG_LIST = 115"
  "GET_FIRST SHARED_MANAGED_TAG_LIST = 87" "GET_LAST SHARED_MANAGED_TAG_LIST = 87"
  by (simp_all add: GET_FIRST_def GET_LAST_def FOREIGN_TAG_LIST_def MANAGED_TAG_LIST_def
      SHARED_MANAGED_TAG_LIST_def flip: bits_simps)

lemma resource_tag_value [bits_simps]: "kArrayBufferExtensionTag = 116"
  by (simp add: kArrayBufferExtensionTag_def bits_simps FOREIGN_TAG_LIST_def MANAGED_TAG_LIST_def
      SHARED_MANAGED_TAG_LIST_def)

lemma range_values [bits_simps]:
  "kAnySharedManagedExternalPointerTagRange = TagRange 87 87"
  "kAnyManagedResourceExternalPointerTag = TagRange 87 116"
  "kAnyMaybeReadOnlyExternalPointerTagRange = TagRange 60 77"
  "kAnyInterceptorInfoExternalPointerTagRange = TagRange 63 77"
  "kAnyForeignExternalPointerTagRange = TagRange 79 115"
  by (simp_all add: kAnySharedManagedExternalPointerTagRange_def kAnyManagedResourceExternalPointerTag_def
      kAnyMaybeReadOnlyExternalPointerTagRange_def kAnyInterceptorInfoExternalPointerTagRange_def
      kAnyForeignExternalPointerTagRange_def kFirstSharedManagedExternalPointerTag_def
      kLastSharedManagedExternalPointerTag_def kFirstManagedResourceTag_def kLastManagedResourceTag_def
      kFirstForeignExternalPointerTag_def kLastForeignExternalPointerTag_def bits_simps)

section \<open>Ranges\<close>

text \<open>The tags of a range, and the ranges the constructor allows.\<close>

definition range_tags :: "TagRange \<Rightarrow> u16 set" where
  "range_tags r = {range_first r..range_last r}"

definition range_valid :: "TagRange \<Rightarrow> bool" where
  "range_valid r \<longleftrightarrow> range_first r \<le> range_last r"

lemma uint_u16: "0 \<le> uint (t :: u16)" "uint t < 65536"
  using unsigned_less [of t, where 'a = int] by simp_all

lemma uint_sub_u32:
  "uint ((ucast (t :: u16) :: u32) - ucast (f :: u16)) =
     (if f \<le> t then uint t - uint f else uint t - uint f + 4294967296)"
proof -
  have "uint ((ucast t :: u32) - ucast f) = (uint t - uint f) mod 4294967296"
    by (simp add: uint_word_ariths unsigned_ucast_eq take_bit_int_eq_self uint_u16 order_less_trans [OF uint_u16(2)])
  also have "\<dots> = (if f \<le> t then uint t - uint f else uint t - uint f + 4294967296)"
  proof (cases "f \<le> t")
    case True
    then have "(uint t - uint f) mod 4294967296 = uint t - uint f"
      using uint_u16 [of t] uint_u16 [of f] unfolding word_le_def
      by (intro mod_pos_pos_trivial) linarith+
    with True show ?thesis by simp
  next
    case False
    have "(uint t - uint f + 4294967296) mod 4294967296 = uint t - uint f + 4294967296"
      using uint_u16 [of t] uint_u16 [of f] False unfolding word_le_def
      by (intro mod_pos_pos_trivial) linarith+
    with False show ?thesis by simp
  qed
  finally show ?thesis .
qed

lemma wrapped_compare:
  assumes "0 \<le> t" "f < 65536" "l < 65536" "f \<le> l"
  shows "(if f \<le> t then t - f else t - f + 4294967296) \<le> l - f \<longleftrightarrow> f \<le> t \<and> t \<le> (l :: int)"
  using assms by auto

lemma TagRange_Contains_iff:
  assumes "range_valid r"
  shows "TagRange_Contains r t \<longleftrightarrow> t \<in> range_tags r"
proof -
  note b = uint_u16 [of t] uint_u16 [of "range_first r"] uint_u16 [of "range_last r"]
  have v: "range_first r \<le> range_last r" using assms by (simp add: range_valid_def)
  then have "TagRange_Contains r t \<longleftrightarrow>
      (if range_first r \<le> t then uint t - uint (range_first r) else uint t - uint (range_first r) + 4294967296)
        \<le> uint (range_last r) - uint (range_first r)"
    unfolding TagRange_Contains_def by (simp only: word_le_def [where 'a = 32] uint_sub_u32 if_True)
  also have "\<dots> \<longleftrightarrow> range_first r \<le> t \<and> t \<le> range_last r"
    using b v unfolding word_le_def by (intro wrapped_compare) linarith+
  finally show ?thesis by (simp add: range_tags_def)
qed

lemma TagRange_Contains_range_iff:
  assumes "range_valid r" "range_valid s"
  shows "TagRange_Contains_range r s \<longleftrightarrow> range_tags s \<subseteq> range_tags r"
  using assms by (auto simp: TagRange_Contains_range_def range_tags_def range_valid_def)

lemma TagRange_Size_card:
  assumes "range_valid r" "\<not> TagRange_IsEmpty r"
  shows "unat (TagRange_Size r) = card (range_tags r)"
proof -
  let ?f = "unat (range_first r)" and ?l = "unat (range_last r)"
  have le: "?f \<le> ?l" using assms(1) by (simp add: range_valid_def word_le_nat_alt)
  have "bij_betw unat (range_tags r) {?f..?l}"
    unfolding range_tags_def
  proof (rule bij_betw_byWitness [where f' = of_nat])
    have n: "unat (of_nat n :: u16) = n" if "n \<in> {?f..?l}" for n
      using that unsigned_less [of "range_last r", where 'a = nat] by (simp add: unat_of_nat)
    show "\<forall>n\<in>{?f..?l}. unat (of_nat n :: u16) = n" by (simp add: n)
    show "of_nat ` {?f..?l} \<subseteq> {range_first r..range_last r}" using n by (auto simp: word_le_nat_alt)
  qed (auto simp: word_le_nat_alt)
  then have "card (range_tags r) = ?l - ?f + 1" using le by (simp add: bij_betw_same_card)
  moreover have "unat (TagRange_Size r) = ?l - ?f + 1"
  proof -
    have "uint (range_last r) - uint (range_first r) + 1 = int (?l - ?f + 1)"
      using le by (simp add: of_nat_diff)
    moreover have "?l - ?f + 1 < 2 ^ 64" using unsigned_less [of "range_last r", where 'a = nat] by simp
    ultimately show ?thesis
      using assms(2) by (simp only: TagRange_Size_def if_False of_int_of_nat_eq unat_of_nat) simp
  qed
  ultimately show ?thesis by simp
qed

lemma ucast_u16_inj: "(ucast (a :: u16) :: u64) = ucast b \<Longrightarrow> a = b"
proof -
  assume "(ucast a :: u64) = ucast b"
  moreover have "uint (ucast c :: u64) = uint c" for c :: u16
    using uint_u16 [of c] by (simp add: unsigned_ucast_eq take_bit_int_eq_self)
  ultimately have "uint a = uint b" by metis
  then show "a = b" by (simp only: word_uint_eq_iff)
qed

lemma TagRange_hash_inj:
  assumes "TagRange_hash_value r = TagRange_hash_value s"
  shows "r = s"
proof -
  have "drop_bit 16 (TagRange_hash_value x) = ucast (range_first x)"
    "take_bit 16 (TagRange_hash_value x) = ucast (range_last x)" for x
    by (rule bit_word_eqI; auto simp: TagRange_hash_value_def bit_simps dest: bit_imp_le_length; fail)+
  with assms have "(ucast (range_first r) :: u64) = ucast (range_first s)"
    "(ucast (range_last r) :: u64) = ucast (range_last s)" by metis+
  then show ?thesis by (cases r; cases s) (simp add: ucast_u16_inj)
qed

section \<open>Names\<close>

lemma snd_number_tags: "map snd (number_tags t ns) = map (\<lambda>i. t + of_nat i) [0..<length ns]"
proof (induction ns arbitrary: t)
  case (Cons n ns)
  have "[0..<length (n # ns)] = 0 # map Suc [0..<length ns]" by (simp add: upt_conv_Cons map_Suc_upt del: upt_Suc)
  with Cons show ?case by (simp add: comp_def add.assoc del: upt_Suc)
qed simp

lemma distinct_number_tags:
  assumes "length ns \<le> 2 ^ 16"
  shows "distinct (map snd (number_tags t ns))"
proof -
  have "inj_on (\<lambda>i. t + of_nat i) (set [0..<length ns])"
  proof (rule inj_onI)
    fix i j assume "i \<in> set [0..<length ns]" "j \<in> set [0..<length ns]" "t + of_nat i = t + of_nat j"
    then have "unat (of_nat i :: u16) = unat (of_nat j :: u16)" "i < 2 ^ 16" "j < 2 ^ 16" using assms by auto
    then show "i = j" by (simp add: unat_of_nat)
  qed
  then show ?thesis by (simp only: snd_number_tags distinct_map distinct_upt simp_thms)
qed

lemma length_lists [bits_simps]: "length FOREIGN_TAG_LIST = 37"
  by (simp add: FOREIGN_TAG_LIST_def MANAGED_TAG_LIST_def SHARED_MANAGED_TAG_LIST_def)

lemma foreign_tag_range:
  assumes "(n, t) \<in> set foreign_tags"
  shows "kFirstForeignExternalPointerTag \<le> t \<and> t \<le> kLastForeignExternalPointerTag"
proof -
  have "t \<in> set (map snd foreign_tags)" using assms by force
  then obtain i where i: "i < 37" "t = 79 + of_nat i"
    by (auto simp: foreign_tags_def snd_number_tags bits_simps)
  then have "unat t = 79 + i" by (simp add: unat_word_ariths unat_of_nat)
  with i show ?thesis
    by (simp add: word_le_nat_alt kFirstForeignExternalPointerTag_def kLastForeignExternalPointerTag_def bits_simps)
qed

lemma ToString_name:
  assumes "(n, t) \<in> set foreign_tags"
  shows "ExternalPointerTag_ToString t = n"
proof -
  have "distinct (map fst (map prod.swap foreign_tags))"
    using distinct_number_tags [of FOREIGN_TAG_LIST] by (simp add: foreign_tags_def comp_def bits_simps)
  moreover have "(t, n) \<in> set (map prod.swap foreign_tags)" using assms by force
  ultimately have "map_of (map prod.swap foreign_tags) t = Some n" by (rule map_of_is_SomeI)
  then show ?thesis by (simp add: ExternalPointerTag_ToString_def)
qed

section \<open>Properties\<close>

text \<open>C13: the type check of a pointer table is exact although it is one comparison of wrapped 32-bit
  differences: on a range the constructor allows, it accepts a tag iff the tag lies between the two
  ends, and it accepts a range of tags iff it accepts each of its tags.\<close>

theorem tag_check_exact:
  assumes "range_valid r"
  shows "(TagRange_Contains r t \<longleftrightarrow> range_first r \<le> t \<and> t \<le> range_last r) \<and>
    (range_valid s \<longrightarrow>
       TagRange_Contains_range r s = (\<forall>x. TagRange_Contains s x \<longrightarrow> TagRange_Contains r x))"
  using assms
  by (auto simp: TagRange_Contains_iff TagRange_Contains_range_iff range_tags_def subset_iff
      simp del: atLeastatMost_subset_iff)

theorem tag_check_exact_witness:
  "TagRange_Contains kAnyManagedResourceExternalPointerTag kArrayBufferExtensionTag \<and>
   \<not> TagRange_Contains kAnyManagedResourceExternalPointerTag kWasmStackMemoryTag"
  using tag_check_exact [of kAnyManagedResourceExternalPointerTag kArrayBufferExtensionTag "TagRange 0 0"]
    tag_check_exact [of kAnyManagedResourceExternalPointerTag kWasmStackMemoryTag "TagRange 0 0"]
  by (simp add: bits_simps range_valid_def)

text \<open>The predicates that choose the table of an external pointer never conflict: no tag range is
  both shared and possibly read-only, none is both possibly read-only and managed, and the only
  range that is both shared and managed is the one tag that is meant to be.\<close>

lemma pointer_classes_disjoint:
  assumes "range_valid r"
  shows "\<not> (IsSharedExternalPointerType r \<and> IsMaybeReadOnlyExternalPointerType r) \<and>
    \<not> (IsMaybeReadOnlyExternalPointerType r \<and> IsManagedExternalPointerType r) \<and>
    (IsSharedExternalPointerType r \<and> IsManagedExternalPointerType r \<longrightarrow>
       r = TagRange_single (tag_of ''WasmFutexManagedObjectWaitListTag''))"
  using assms
  by (cases r) (auto simp: IsSharedExternalPointerType_def IsMaybeReadOnlyExternalPointerType_def
      IsManagedExternalPointerType_def TagRange_Contains_range_def TagRange_single_def range_valid_def
      bits_simps word_le_def word_uint_eq_iff)

text \<open>Tags keep their names: every tag of the foreign list prints as the name it was declared with,
  and lies below the three reserved entry tags, so a live pointer is never taken for a freed,
  evacuated or zapped table entry.\<close>

lemma foreign_tags_named:
  assumes "(name, t) \<in> set foreign_tags"
  shows "ExternalPointerTag_ToString t = name \<and> t < kExternalPointerZappedEntryTag \<and>
    t < kExternalPointerEvacuationEntryTag \<and> t < kExternalPointerFreeEntryTag"
  using ToString_name [OF assms] foreign_tag_range [OF assms]
  by (simp add: kLastForeignExternalPointerTag_def bits_simps kExternalPointerZappedEntryTag_def
      kExternalPointerEvacuationEntryTag_def kExternalPointerFreeEntryTag_def word_le_nat_alt word_less_nat_alt)

end
