(* ===== verification/V8_Internals.thy ===== *)
theory V8_Internals
  imports V8_Tags
begin

text \<open>
  \<open>v8::internal::Internals\<close> of \<open>v8-internal.h\<close>: the layout of an isolate, of heap objects and of global
  handle nodes, and the inline functions that read and write them through raw addresses. The model
  follows the configuration of the build (pointer compression, 31-bit Smis, sandbox; no map packing,
  no direct handles, no \<open>V8_ENABLE_CHECKS\<close>); \<open>V8_STATIC_ROOTS_BOOL\<close> is a parameter, so both of its
  branches are covered.
\<close>

section \<open>Object and isolate layout\<close>

definition kHeapObjectMapOffset :: int where "kHeapObjectMapOffset = 0"
definition kMapInstanceTypeOffset :: int where
  "kMapInstanceTypeOffset = 1 * kApiTaggedSize + kApiInt32Size"
definition kStringResourceOffset :: int where
  "kStringResourceOffset = 1 * kApiTaggedSize + 2 * kApiInt32Size"
definition kOddballKindOffset :: int where "kOddballKindOffset = 4 * kApiTaggedSize + kApiDoubleSize"
definition kJSObjectHeaderSize :: int where "kJSObjectHeaderSize = 3 * kApiTaggedSize"
definition kJSAPIObjectWithEmbedderSlotsHeaderSize :: int where
  "kJSAPIObjectWithEmbedderSlotsHeaderSize = kJSObjectHeaderSize + kApiInt32Size"
definition kFixedArrayHeaderSize :: int where "kFixedArrayHeaderSize = 2 * kApiTaggedSize"
definition kEmbedderDataArrayHeaderSize :: int where "kEmbedderDataArrayHeaderSize = 2 * kApiTaggedSize"
definition kEmbedderDataSlotSize :: int where "kEmbedderDataSlotSize = kApiSystemPointerSize"
definition kEmbedderDataSlotExternalPointerOffset :: int where
  "kEmbedderDataSlotExternalPointerOffset = kApiTaggedSize"
definition kNativeContextEmbedderDataOffset :: int where
  "kNativeContextEmbedderDataOffset = 6 * kApiTaggedSize"
definition kStringRepresentationAndEncodingMask :: int where
  "kStringRepresentationAndEncodingMask = 0x0f"
definition kStringEncodingMask :: int where "kStringEncodingMask = 0x8"
definition kExternalTwoByteRepresentationTag :: int where "kExternalTwoByteRepresentationTag = 0x02"
definition kExternalOneByteRepresentationTag :: int where "kExternalOneByteRepresentationTag = 0x0a"
definition kCallbackInfoDataOffset :: int where "kCallbackInfoDataOffset = 1 * kApiTaggedSize"

definition kNumIsolateDataSlots :: u32 where "kNumIsolateDataSlots = 4"
definition kStackGuardSize :: int where "kStackGuardSize = 8 * kApiSystemPointerSize"
definition kNumberOfBooleanFlags :: int where "kNumberOfBooleanFlags = 6"
definition kErrorMessageParamSize :: int where "kErrorMessageParamSize = 1"
definition kTablesAlignmentPaddingSize :: int where "kTablesAlignmentPaddingSize = 1"
definition kRegExpStaticResultOffsetsVectorSize :: int where
  "kRegExpStaticResultOffsetsVectorSize = kApiSystemPointerSize"
definition kBuiltinTier0EntryTableSize :: int where
  "kBuiltinTier0EntryTableSize = 7 * kApiSystemPointerSize"
definition kBuiltinTier0TableSize :: int where "kBuiltinTier0TableSize = 7 * kApiSystemPointerSize"
definition kLinearAllocationAreaSize :: int where "kLinearAllocationAreaSize = 3 * kApiSystemPointerSize"
definition kThreadLocalTopSize :: int where "kThreadLocalTopSize = 29 * kApiSystemPointerSize"
definition kHandleScopeDataSize :: int where
  "kHandleScopeDataSize = 2 * kApiSystemPointerSize + 2 * kApiInt32Size"
definition kExternalEntityTableBasePointerOffset :: int where
  "kExternalEntityTableBasePointerOffset = 0"
definition kSegmentedTableSegmentPoolSize :: int where "kSegmentedTableSegmentPoolSize = 4"
definition kExternalEntityTableSize :: int where
  "kExternalEntityTableSize = 4 * kApiSystemPointerSize + kSegmentedTableSegmentPoolSize * 4"

definition kIsolateCageBaseOffset :: int where "kIsolateCageBaseOffset = 0"
definition kIsolateStackGuardOffset :: int where
  "kIsolateStackGuardOffset = kIsolateCageBaseOffset + kApiSystemPointerSize"
definition kVariousBooleanFlagsOffset :: int where
  "kVariousBooleanFlagsOffset = kIsolateStackGuardOffset + kStackGuardSize"
definition kErrorMessageParamOffset :: int where
  "kErrorMessageParamOffset = kVariousBooleanFlagsOffset + kNumberOfBooleanFlags"
definition kBuiltinTier0EntryTableOffset :: int where
  "kBuiltinTier0EntryTableOffset = kErrorMessageParamOffset + kErrorMessageParamSize +
     kTablesAlignmentPaddingSize + kRegExpStaticResultOffsetsVectorSize"
definition kBuiltinTier0TableOffset :: int where
  "kBuiltinTier0TableOffset = kBuiltinTier0EntryTableOffset + kBuiltinTier0EntryTableSize"
definition kNewAllocationInfoOffset :: int where
  "kNewAllocationInfoOffset = kBuiltinTier0TableOffset + kBuiltinTier0TableSize"
definition kOldAllocationInfoOffset :: int where
  "kOldAllocationInfoOffset = kNewAllocationInfoOffset + kLinearAllocationAreaSize"
definition kLastYoungAllocationOffset :: int where
  "kLastYoungAllocationOffset = kOldAllocationInfoOffset + kApiSystemPointerSize"
definition kFastCCallAlignmentPaddingSize :: int where
  "kFastCCallAlignmentPaddingSize =
     (if kApiSystemPointerSize = 8 then 5 * kApiSystemPointerSize else 1 * kApiSystemPointerSize)"
definition kIsolateFastCCallCallerPcOffset :: int where
  "kIsolateFastCCallCallerPcOffset =
     kLastYoungAllocationOffset + kLinearAllocationAreaSize + kFastCCallAlignmentPaddingSize"
definition kIsolateFastCCallCallerFpOffset :: int where
  "kIsolateFastCCallCallerFpOffset = kIsolateFastCCallCallerPcOffset + kApiSystemPointerSize"
definition kIsolateFastApiCallTargetOffset :: int where
  "kIsolateFastApiCallTargetOffset = kIsolateFastCCallCallerFpOffset + kApiSystemPointerSize"
definition kIsolateLongTaskStatsCounterOffset :: int where
  "kIsolateLongTaskStatsCounterOffset = kIsolateFastApiCallTargetOffset + kApiSystemPointerSize"
definition kIsolateThreadLocalTopOffset :: int where
  "kIsolateThreadLocalTopOffset = kIsolateLongTaskStatsCounterOffset + kApiSizetSize"
definition kIsolateHandleScopeDataOffset :: int where
  "kIsolateHandleScopeDataOffset = kIsolateThreadLocalTopOffset + kThreadLocalTopSize"
definition kIsolateEmbedderDataOffset :: int where
  "kIsolateEmbedderDataOffset = kIsolateHandleScopeDataOffset + kHandleScopeDataSize"
definition kIsolateExternalPointerTableOffset :: int where
  "kIsolateExternalPointerTableOffset =
     kIsolateEmbedderDataOffset + uint kNumIsolateDataSlots * kApiSystemPointerSize"
definition kIsolateSharedExternalPointerTableAddressOffset :: int where
  "kIsolateSharedExternalPointerTableAddressOffset =
     kIsolateExternalPointerTableOffset + kExternalEntityTableSize"
definition kIsolateCppHeapPointerTableOffset :: int where
  "kIsolateCppHeapPointerTableOffset =
     kIsolateSharedExternalPointerTableAddressOffset + kApiSystemPointerSize"
definition kIsolateTrustedCageBaseOffset :: int where
  "kIsolateTrustedCageBaseOffset = kIsolateCppHeapPointerTableOffset + kExternalEntityTableSize"
definition kIsolateTrustedPointerTableOffset :: int where
  "kIsolateTrustedPointerTableOffset = kIsolateTrustedCageBaseOffset + kApiSystemPointerSize"
definition kIsolateSharedTrustedPointerTableAddressOffset :: int where
  "kIsolateSharedTrustedPointerTableAddressOffset =
     kIsolateTrustedPointerTableOffset + kExternalEntityTableSize"
definition kIsolateTrustedPointerPublishingScopeOffset :: int where
  "kIsolateTrustedPointerPublishingScopeOffset =
     kIsolateSharedTrustedPointerTableAddressOffset + kApiSystemPointerSize"
definition kIsolateCodePointerTableBaseAddressOffset :: int where
  "kIsolateCodePointerTableBaseAddressOffset =
     kIsolateTrustedPointerPublishingScopeOffset + kApiSystemPointerSize"
definition kIsolateJSDispatchTableOffset :: int where
  "kIsolateJSDispatchTableOffset =
     kIsolateCodePointerTableBaseAddressOffset + kApiSystemPointerSize"
definition kIsolateApiCallbackThunkArgumentOffset :: int where
  "kIsolateApiCallbackThunkArgumentOffset = kIsolateJSDispatchTableOffset + kExternalEntityTableSize"
definition kIsolateRegexpExecVectorArgumentOffset :: int where
  "kIsolateRegexpExecVectorArgumentOffset =
     kIsolateApiCallbackThunkArgumentOffset + kApiSystemPointerSize"
definition kContinuationPreservedEmbedderDataOffset :: int where
  "kContinuationPreservedEmbedderDataOffset =
     kIsolateRegexpExecVectorArgumentOffset + kApiSystemPointerSize"
definition kCurrentMicrotaskQueueOffset :: int where
  "kCurrentMicrotaskQueueOffset = kContinuationPreservedEmbedderDataOffset + kApiSystemPointerSize"
definition kCurrentMicrotaskNativeContextOffset :: int where
  "kCurrentMicrotaskNativeContextOffset = kCurrentMicrotaskQueueOffset + kApiSystemPointerSize"
definition kIsolateRootsOffset :: int where
  "kIsolateRootsOffset = kCurrentMicrotaskNativeContextOffset + kApiSystemPointerSize"

definition kFrameCPSlotCount :: int where "kFrameCPSlotCount = 0"
definition kFrameTypeApiCallExit :: int where "kFrameTypeApiCallExit = 18"
definition kFrameTypeApiConstructExit :: int where "kFrameTypeApiConstructExit = 19"
definition kFrameTypeApiNamedAccessorExit :: int where "kFrameTypeApiNamedAccessorExit = 20"
definition kFrameTypeApiIndexedAccessorExit :: int where "kFrameTypeApiIndexedAccessorExit = 21"

text \<open>\<open>EXPORTED_STATIC_ROOTS_PTR_LIST\<close> with WebAssembly enabled, and the map range of strings.\<close>

definition kBuildDependentTheHoleValue :: u32 where "kBuildDependentTheHoleValue = 0x2fffd"
definition kUndefinedValue :: u32 where "kUndefinedValue = 0x11"
definition kNullValue :: u32 where "kNullValue = 0x2d"
definition kTrueValue :: u32 where "kTrueValue = 0x71"
definition kFalseValue :: u32 where "kFalseValue = 0x55"
definition kEmptyString :: u32 where "kEmptyString = 0x49"
definition kTheHoleValue :: u32 where "kTheHoleValue = kBuildDependentTheHoleValue"
definition kStringMapLowerBound :: u32 where "kStringMapLowerBound = 0"
definition kStringMapUpperBound :: u32 where "kStringMapUpperBound = 0x425"

definition kUndefinedValueRootIndex :: int where "kUndefinedValueRootIndex = 0"
definition kTheHoleValueRootIndex :: int where "kTheHoleValueRootIndex = 1"
definition kNullValueRootIndex :: int where "kNullValueRootIndex = 2"
definition kTrueValueRootIndex :: int where "kTrueValueRootIndex = 3"
definition kFalseValueRootIndex :: int where "kFalseValueRootIndex = 4"
definition kEmptyStringRootIndex :: int where "kEmptyStringRootIndex = 5"

definition kNodeClassIdOffset :: int where "kNodeClassIdOffset = 1 * kApiSystemPointerSize"
definition kNodeFlagsOffset :: int where "kNodeFlagsOffset = 1 * kApiSystemPointerSize + 3"
definition kNodeStateMask :: byte where "kNodeStateMask = 0x3"
definition kNodeStateIsWeakValue :: byte where "kNodeStateIsWeakValue = 2"

definition kFirstNonstringType :: int where "kFirstNonstringType = 0x80"
definition kOddballType :: int where "kOddballType = 0x83"
definition kForeignType :: int where "kForeignType = 0xcc"
definition kJSSpecialApiObjectType :: int where "kJSSpecialApiObjectType = 0x410"
definition kJSObjectType :: int where "kJSObjectType = 0x421"
definition kFirstJSApiObjectType :: int where "kFirstJSApiObjectType = 0x422"
definition kLastJSApiObjectType :: int where "kLastJSApiObjectType = 0x80A"
definition kFirstEmbedderJSApiObjectType :: int where "kFirstEmbedderJSApiObjectType = 0"
definition kLastEmbedderJSApiObjectType :: int where
  "kLastEmbedderJSApiObjectType = kLastJSApiObjectType - kFirstJSApiObjectType"
definition kUndefinedOddballKind :: int where "kUndefinedOddballKind = 4"
definition kNullOddballKind :: int where "kNullOddballKind = 3"
definition kDontThrow :: int where "kDontThrow = 0"
definition kThrowOnError :: int where "kThrowOnError = 1"
definition kInferShouldThrowMode :: int where "kInferShouldThrowMode = 2"
definition kExternalAllocationSoftLimit :: u64 where
  "kExternalAllocationSoftLimit = 64 * 1024 * 1024"

lemmas layout_defs =
  kHeapObjectMapOffset_def kMapInstanceTypeOffset_def kStringResourceOffset_def
  kOddballKindOffset_def kJSObjectHeaderSize_def kJSAPIObjectWithEmbedderSlotsHeaderSize_def
  kFixedArrayHeaderSize_def kEmbedderDataArrayHeaderSize_def kEmbedderDataSlotSize_def
  kEmbedderDataSlotExternalPointerOffset_def kNativeContextEmbedderDataOffset_def
  kStringRepresentationAndEncodingMask_def kStringEncodingMask_def
  kExternalTwoByteRepresentationTag_def kExternalOneByteRepresentationTag_def
  kCallbackInfoDataOffset_def kNumIsolateDataSlots_def kStackGuardSize_def
  kNumberOfBooleanFlags_def kErrorMessageParamSize_def kTablesAlignmentPaddingSize_def
  kRegExpStaticResultOffsetsVectorSize_def kBuiltinTier0EntryTableSize_def
  kBuiltinTier0TableSize_def kLinearAllocationAreaSize_def kThreadLocalTopSize_def
  kHandleScopeDataSize_def kExternalEntityTableBasePointerOffset_def
  kSegmentedTableSegmentPoolSize_def kExternalEntityTableSize_def kIsolateCageBaseOffset_def
  kIsolateStackGuardOffset_def kVariousBooleanFlagsOffset_def kErrorMessageParamOffset_def
  kBuiltinTier0EntryTableOffset_def kBuiltinTier0TableOffset_def kNewAllocationInfoOffset_def
  kOldAllocationInfoOffset_def kLastYoungAllocationOffset_def kFastCCallAlignmentPaddingSize_def
  kIsolateFastCCallCallerPcOffset_def kIsolateFastCCallCallerFpOffset_def
  kIsolateFastApiCallTargetOffset_def kIsolateLongTaskStatsCounterOffset_def
  kIsolateThreadLocalTopOffset_def kIsolateHandleScopeDataOffset_def
  kIsolateEmbedderDataOffset_def kIsolateExternalPointerTableOffset_def
  kIsolateSharedExternalPointerTableAddressOffset_def kIsolateCppHeapPointerTableOffset_def
  kIsolateTrustedCageBaseOffset_def kIsolateTrustedPointerTableOffset_def
  kIsolateSharedTrustedPointerTableAddressOffset_def
  kIsolateTrustedPointerPublishingScopeOffset_def kIsolateCodePointerTableBaseAddressOffset_def
  kIsolateJSDispatchTableOffset_def kIsolateApiCallbackThunkArgumentOffset_def
  kIsolateRegexpExecVectorArgumentOffset_def kContinuationPreservedEmbedderDataOffset_def
  kCurrentMicrotaskQueueOffset_def kCurrentMicrotaskNativeContextOffset_def
  kIsolateRootsOffset_def

lemmas instance_defs =
  kFrameCPSlotCount_def kFrameTypeApiCallExit_def kFrameTypeApiConstructExit_def
  kFrameTypeApiNamedAccessorExit_def kFrameTypeApiIndexedAccessorExit_def
  kBuildDependentTheHoleValue_def kUndefinedValue_def kNullValue_def kTrueValue_def
  kFalseValue_def kEmptyString_def kTheHoleValue_def kStringMapLowerBound_def
  kStringMapUpperBound_def kUndefinedValueRootIndex_def kTheHoleValueRootIndex_def
  kNullValueRootIndex_def kTrueValueRootIndex_def kFalseValueRootIndex_def
  kEmptyStringRootIndex_def kNodeClassIdOffset_def kNodeFlagsOffset_def kNodeStateMask_def
  kNodeStateIsWeakValue_def kFirstNonstringType_def kOddballType_def kForeignType_def
  kJSSpecialApiObjectType_def kJSObjectType_def kFirstJSApiObjectType_def kLastJSApiObjectType_def
  kFirstEmbedderJSApiObjectType_def kLastEmbedderJSApiObjectType_def kUndefinedOddballKind_def
  kNullOddballKind_def kDontThrow_def kThrowOnError_def kInferShouldThrowMode_def
  kExternalAllocationSoftLimit_def

text \<open>The offsets that the accessors below use, as the compiler computes them.\<close>

lemma isolate_offsets [bits_simps]:
  "kIsolateCageBaseOffset = 0" "kIsolateLongTaskStatsCounterOffset = 320"
  "kIsolateHandleScopeDataOffset = 560" "kIsolateEmbedderDataOffset = 584"
  "kIsolateExternalPointerTableOffset = 616"
  "kIsolateSharedExternalPointerTableAddressOffset = 664" "kIsolateCppHeapPointerTableOffset = 672"
  "kIsolateRootsOffset = 888"
  by (simp_all add: layout_defs api_size_defs)

lemma object_offsets [bits_simps]:
  "kHeapObjectMapOffset = 0" "kMapInstanceTypeOffset = 8" "kStringResourceOffset = 12"
  "kOddballKindOffset = 24" "kJSObjectHeaderSize = 12" "kJSAPIObjectWithEmbedderSlotsHeaderSize = 16"
  "kEmbedderDataArrayHeaderSize = 8" "kEmbedderDataSlotSize = 8"
  "kEmbedderDataSlotExternalPointerOffset = 4" "kNativeContextEmbedderDataOffset = 24"
  "kNodeClassIdOffset = 8" "kNodeFlagsOffset = 11"
  by (simp_all add: layout_defs instance_defs api_size_defs)

section \<open>Reading fields\<close>

definition ReadRawField :: "u64 \<Rightarrow> int \<Rightarrow> mem \<Rightarrow> 'a::len word option" where
  "ReadRawField heap_object_ptr offset m =
     (let a = heap_object_ptr + of_int offset - of_int kHeapObjectTag in load_word a m)"

definition ReadTaggedPointerField :: "u64 \<Rightarrow> int \<Rightarrow> mem \<Rightarrow> u64 option" where
  "ReadTaggedPointerField heap_object_ptr offset m =
     do { value \<leftarrow> (ReadRawField heap_object_ptr offset m :: u32 option);
          let base = GetPtrComprCageBaseFromOnHeapAddress heap_object_ptr;
          Some (base + ucast value) }"

definition ReadTaggedSignedField :: "u64 \<Rightarrow> int \<Rightarrow> mem \<Rightarrow> u64 option" where
  "ReadTaggedSignedField heap_object_ptr offset m =
     do { value \<leftarrow> (ReadRawField heap_object_ptr offset m :: u32 option); Some (ucast value) }"

section \<open>Types of values\<close>

definition is_identical :: "u64 \<Rightarrow> u32 \<Rightarrow> bool" where
  "is_identical ob constant \<longleftrightarrow> ucast ob = constant"

definition CheckInstanceMapRange :: "u64 \<Rightarrow> u32 \<Rightarrow> u32 \<Rightarrow> mem \<Rightarrow> bool option" where
  "CheckInstanceMapRange ob first_map last_map m =
     do { map \<leftarrow> (ReadRawField ob kHeapObjectMapOffset m :: u32 option);
          Some (first_map \<le> map \<and> map \<le> last_map) }"

definition GetInstanceType :: "u64 \<Rightarrow> mem \<Rightarrow> int option" where
  "GetInstanceType ob m =
     do { map \<leftarrow> ReadTaggedPointerField ob kHeapObjectMapOffset m;
          t \<leftarrow> (ReadRawField map kMapInstanceTypeOffset m :: u16 option);
          Some (uint t) }"

definition LoadMap :: "u64 \<Rightarrow> mem \<Rightarrow> u64 option" where
  "LoadMap ob m =
     (if \<not> HasHeapObjectTag ob then Some 0 else ReadTaggedPointerField ob kHeapObjectMapOffset m)"

definition GetOddballKind :: "u64 \<Rightarrow> mem \<Rightarrow> int option" where
  "GetOddballKind ob m =
     do { k \<leftarrow> ReadTaggedSignedField ob kOddballKindOffset m; Some (SmiValue k) }"

definition IsExternalTwoByteString :: "int \<Rightarrow> bool" where
  "IsExternalTwoByteString instance_type =
     (let representation = instance_type AND kStringRepresentationAndEncodingMask
      in representation = kExternalTwoByteRepresentationTag)"

definition IsExternalOneByteString :: "int \<Rightarrow> bool" where
  "IsExternalOneByteString instance_type =
     (let representation = instance_type AND kStringRepresentationAndEncodingMask
      in representation = kExternalOneByteRepresentationTag)"

definition CanHaveInternalField :: "int \<Rightarrow> bool" where
  "CanHaveInternalField instance_type \<longleftrightarrow>
     instance_type = kJSSpecialApiObjectType \<or>
     (of_int instance_type :: u32) - of_int kJSObjectType \<le> of_int (kLastJSApiObjectType - kJSObjectType)"

section \<open>Global handle nodes\<close>

text \<open>A handle's location is the address of its node; the class id and the flags follow the object
  slot.\<close>

definition GetNodeFlag :: "u64 \<Rightarrow> nat \<Rightarrow> mem \<Rightarrow> byte option" where
  "GetNodeFlag node shift m =
     do { old \<leftarrow> load_word (node + of_int kNodeFlagsOffset) m; Some (old AND push_bit shift 1) }"

definition UpdateNodeFlag :: "u64 \<Rightarrow> bool \<Rightarrow> nat \<Rightarrow> mem \<Rightarrow> mem option" where
  "UpdateNodeFlag node value shift m =
     (let a = node + of_int kNodeFlagsOffset; mask = push_bit shift 1 :: byte in
      do { old \<leftarrow> load_word a m;
           store_word a ((old AND NOT mask) OR push_bit shift (of_bool value)) m })"

definition GetNodeState :: "u64 \<Rightarrow> mem \<Rightarrow> byte option" where
  "GetNodeState node m =
     do { old \<leftarrow> load_word (node + of_int kNodeFlagsOffset) m; Some (old AND kNodeStateMask) }"

definition UpdateNodeState :: "u64 \<Rightarrow> byte \<Rightarrow> mem \<Rightarrow> mem option" where
  "UpdateNodeState node value m =
     (let a = node + of_int kNodeFlagsOffset in
      do { old \<leftarrow> load_word a m; store_word a ((old AND NOT kNodeStateMask) OR value) m })"

text \<open>\<open>PersistentBase::IsWeak\<close>, \<open>SetWrapperClassId\<close> and \<open>WrapperClassId\<close>; 0 is the empty handle.\<close>

definition persistent_IsWeak :: "u64 \<Rightarrow> mem \<Rightarrow> bool option" where
  "persistent_IsWeak location m =
     (if location = 0 then Some False
      else do { st \<leftarrow> GetNodeState location m; Some (st = kNodeStateIsWeakValue) })"

definition SetWrapperClassId :: "u64 \<Rightarrow> u16 \<Rightarrow> mem \<Rightarrow> mem option" where
  "SetWrapperClassId location class_id m =
     (if location = 0 then Some m else store_word (location + of_int kNodeClassIdOffset) class_id m)"

definition WrapperClassId :: "u64 \<Rightarrow> mem \<Rightarrow> u16 option" where
  "WrapperClassId location m =
     (if location = 0 then Some 0 else load_word (location + of_int kNodeClassIdOffset) m)"

section \<open>The isolate\<close>

text \<open>\<open>slot * kApiSystemPointerSize\<close> is an unsigned 32-bit product.\<close>

definition SetEmbedderData :: "u64 \<Rightarrow> u32 \<Rightarrow> u64 \<Rightarrow> mem \<Rightarrow> mem option" where
  "SetEmbedderData isolate slot data m =
     (let a = isolate + of_int kIsolateEmbedderDataOffset + ucast (slot * of_int kApiSystemPointerSize)
      in store_word a data m)"

definition GetEmbedderData :: "u64 \<Rightarrow> u32 \<Rightarrow> mem \<Rightarrow> u64 option" where
  "GetEmbedderData isolate slot m =
     (let a = isolate + of_int kIsolateEmbedderDataOffset + ucast (slot * of_int kApiSystemPointerSize)
      in load_word a m)"

definition GetHandleScopeData :: "u64 \<Rightarrow> u64" where
  "GetHandleScopeData isolate = isolate + of_int kIsolateHandleScopeDataOffset"

definition IncrementLongTasksStatsCounter :: "u64 \<Rightarrow> mem \<Rightarrow> mem option" where
  "IncrementLongTasksStatsCounter isolate m =
     (let a = isolate + of_int kIsolateLongTaskStatsCounterOffset in
      do { n \<leftarrow> (load_word a m :: u64 option); store_word a (n + 1) m })"

definition GetRootSlot :: "u64 \<Rightarrow> int \<Rightarrow> u64" where
  "GetRootSlot isolate index =
     isolate + of_int kIsolateRootsOffset + of_int (index * kApiSystemPointerSize)"

definition static_root :: "int \<Rightarrow> u32 option" where
  "static_root index =
     (if index = kUndefinedValueRootIndex then Some kUndefinedValue
      else if index = kNullValueRootIndex then Some kNullValue
      else if index = kTrueValueRootIndex then Some kTrueValue
      else if index = kFalseValueRootIndex then Some kFalseValue
      else if index = kEmptyStringRootIndex then Some kEmptyString
      else if index = kTheHoleValueRootIndex then Some kTheHoleValue
      else None)"

definition GetRoot :: "bool \<Rightarrow> u64 \<Rightarrow> int \<Rightarrow> mem \<Rightarrow> u64 option" where
  "GetRoot static_roots isolate index m =
     (if static_roots then
        do { base \<leftarrow> load_word (isolate + of_int kIsolateCageBaseOffset) m;
             case static_root index of
               Some r \<Rightarrow> Some (base + ucast r)
             | None \<Rightarrow> load_word (GetRootSlot isolate index) m }
      else load_word (GetRootSlot isolate index) m)"

definition Isolate_SetData :: "u64 \<Rightarrow> u32 \<Rightarrow> u64 \<Rightarrow> mem \<Rightarrow> mem option" where
  "Isolate_SetData isolate slot data m = SetEmbedderData isolate slot data m"

definition Isolate_GetData :: "u64 \<Rightarrow> u32 \<Rightarrow> mem \<Rightarrow> u64 option" where
  "Isolate_GetData isolate slot m = GetEmbedderData isolate slot m"

definition Isolate_GetNumberOfDataSlots :: u32 where
  "Isolate_GetNumberOfDataSlots = kNumIsolateDataSlots"

section \<open>Pointer tables\<close>

definition GetExternalPointerTableBase :: "u64 \<Rightarrow> mem \<Rightarrow> u64 option" where
  "GetExternalPointerTableBase isolate m =
     (let a = isolate + of_int kIsolateExternalPointerTableOffset +
                of_int kExternalEntityTableBasePointerOffset
      in load_word a m)"

definition GetSharedExternalPointerTableBase :: "u64 \<Rightarrow> mem \<Rightarrow> u64 option" where
  "GetSharedExternalPointerTableBase isolate m =
     do { a \<leftarrow> load_word (isolate + of_int kIsolateSharedExternalPointerTableAddressOffset) m;
          load_word (a + of_int kExternalEntityTableBasePointerOffset) m }"

text \<open>The entry a handle refers to in a table, and the type check of an external pointer entry.\<close>

definition table_entry :: "u64 \<Rightarrow> u32 \<Rightarrow> mem \<Rightarrow> u64 option" where
  "table_entry table handle m =
     (let index = drop_bit kExternalPointerIndexShift handle in load_word (table + 8 * ucast index) m)"

definition external_entry_tag :: "u64 \<Rightarrow> u16" where
  "external_entry_tag entry = ucast (drop_bit kExternalPointerTagShift (entry AND kExternalPointerTagMask))"

definition safe_external_entry :: "TagRange \<Rightarrow> u64 \<Rightarrow> u64" where
  "safe_external_entry tag_range entry =
     (if TagRange_Contains tag_range (external_entry_tag entry)
      then entry AND kExternalPointerPayloadMask else 0)"

definition ReadExternalPointerField :: "u64 \<Rightarrow> u64 \<Rightarrow> int \<Rightarrow> TagRange \<Rightarrow> mem \<Rightarrow> u64 option" where
  "ReadExternalPointerField isolate heap_object_ptr offset tag_range m =
     do { table \<leftarrow> (if IsSharedExternalPointerType tag_range
                   then GetSharedExternalPointerTableBase isolate m
                   else GetExternalPointerTableBase isolate m);
          handle \<leftarrow> ReadRawField heap_object_ptr offset m;
          entry \<leftarrow> table_entry table handle m;
          Some (safe_external_entry tag_range entry) }"

text \<open>The overload with the range as a template argument does not compile for the empty range.\<close>

definition ReadExternalPointerField_static ::
    "TagRange \<Rightarrow> u64 \<Rightarrow> u64 \<Rightarrow> int \<Rightarrow> mem \<Rightarrow> u64 option" where
  "ReadExternalPointerField_static tag_range isolate heap_object_ptr offset m =
     (if TagRange_IsEmpty tag_range then None
      else do {
        table \<leftarrow> (if IsSharedExternalPointerType tag_range
                  then GetSharedExternalPointerTableBase isolate m
                  else GetExternalPointerTableBase isolate m);
        handle \<leftarrow> ReadRawField heap_object_ptr offset m;
        entry \<leftarrow> table_entry table handle m;
        Some (safe_external_entry tag_range entry) })"

definition GetCppHeapPointerTableBase :: "u64 \<Rightarrow> mem \<Rightarrow> u64 option" where
  "GetCppHeapPointerTableBase isolate m =
     (let a = isolate + of_int kIsolateCppHeapPointerTableOffset +
                of_int kExternalEntityTableBasePointerOffset
      in load_word a m)"

text \<open>The check shifts the range instead of the tag, so that the mark bit in the low bit is ignored.\<close>

definition safe_cppheap_entry :: "TagRange \<Rightarrow> u64 \<Rightarrow> u64" where
  "safe_cppheap_entry tag_range entry =
     (let actual_tag = ucast (ucast entry :: u16) :: u32;
          first_tag = push_bit kCppHeapPointerTagShift (ucast (range_first tag_range));
          last_tag = push_bit kCppHeapPointerTagShift (ucast (range_last tag_range)) + 1
      in if first_tag \<le> actual_tag \<and> actual_tag \<le> last_tag
         then drop_bit kCppHeapPointerPayloadShift entry else 0)"

definition ReadCppHeapPointerField :: "u64 \<Rightarrow> u64 \<Rightarrow> int \<Rightarrow> TagRange \<Rightarrow> mem \<Rightarrow> u64 option" where
  "ReadCppHeapPointerField isolate heap_object_ptr offset tag_range m =
     do { handle \<leftarrow> ReadRawField heap_object_ptr offset m;
          table \<leftarrow> GetCppHeapPointerTableBase isolate m;
          entry \<leftarrow> table_entry table handle m;
          Some (safe_cppheap_entry tag_range entry) }"

section \<open>Locations that do not overlap\<close>

lemma unat_of_int64: "0 \<le> k \<Longrightarrow> k < 2 ^ 64 \<Longrightarrow> unat (of_int k :: u64) = nat k"
  by (simp add: unat_eq_nat_uint uint_of_int64)

lemma apart_offsets:
  assumes "0 \<le> x" "x < 2 ^ 32" "0 \<le> y" "y < 2 ^ 32" "n \<le> 16" "k \<le> 16"
    and "x + int n \<le> y \<or> y + int k \<le> x" "x \<noteq> y"
  shows "apart (a + of_int x) n (a + of_int y) k"
proof -
  have d: "unat (of_int z :: u64) = nat (if 0 \<le> z then z else z + 2 ^ 64)" if "\<bar>z\<bar> < 2 ^ 32" for z
  proof (cases "0 \<le> z")
    case True
    with that show ?thesis by (simp add: unat_of_int64)
  next
    case False
    have "(z + 2 ^ 64) mod 2 ^ 64 = z + 2 ^ 64" using that False by (intro mod_pos_pos_trivial) simp_all
    then have "z mod 2 ^ 64 = z + 2 ^ 64" by simp
    with False show ?thesis by (simp only: unat_eq_nat_uint uint_of_int64 if_False)
  qed
  have "(a + of_int y) - (a + of_int x) = (of_int (y - x) :: u64)"
    "(a + of_int x) - (a + of_int y) = (of_int (x - y) :: u64)" by simp_all
  then show ?thesis
    unfolding apart_def using assms by (simp only: d) (auto simp: d)
qed

section \<open>The embedder slots of an isolate\<close>

lemma slot_cases: "slot < kNumIsolateDataSlots \<Longrightarrow> slot = 0 \<or> slot = 1 \<or> slot = 2 \<or> slot = (3 :: u32)"
proof -
  assume "slot < kNumIsolateDataSlots"
  then have "unat slot < 4" by (simp add: kNumIsolateDataSlots_def word_less_nat_alt)
  then have "unat slot = 0 \<or> unat slot = 1 \<or> unat slot = 2 \<or> unat slot = 3" by auto
  then show ?thesis by (simp add: word_unat_eq_iff)
qed

lemma slot_offset:
  assumes "slot < kNumIsolateDataSlots"
  shows "isolate + of_int kIsolateEmbedderDataOffset + ucast (slot * of_int kApiSystemPointerSize) =
    (isolate :: u64) + of_int (584 + 8 * uint slot)"
  using slot_cases [OF assms] by (auto simp: bits_simps api_size_defs)

lemma slot_uint: "slot < kNumIsolateDataSlots \<Longrightarrow> 0 \<le> uint slot \<and> uint slot < 4"
  by (simp add: kNumIsolateDataSlots_def word_less_def)

text \<open>A slot is read back, and every location of the isolate outside it is left alone.\<close>

lemma SetEmbedderData_read:
  assumes "SetEmbedderData isolate slot data m = Some m'"
  shows "GetEmbedderData isolate slot m' = Some data"
  using assms u64_access.ld_st by (simp add: SetEmbedderData_def GetEmbedderData_def)

lemma SetEmbedderData_frame:
  assumes st: "SetEmbedderData isolate slot data m = Some m'" and slot: "slot < kNumIsolateDataSlots"
    and off: "0 \<le> off" "off < 2 ^ 32" "off + 8 \<le> 584 + 8 * uint slot \<or> 584 + 8 * uint slot + 8 \<le> off"
  shows "load_word (isolate + of_int off) m' = (load_word (isolate + of_int off) m :: u64 option)"
proof -
  have "apart (isolate + of_int (584 + 8 * uint slot)) 8 (isolate + of_int off) 8"
    by (rule apart_offsets) (use slot_uint [OF slot] off in auto)
  with st show ?thesis
    unfolding SetEmbedderData_def slot_offset [OF slot] Let_def by (rule u64_access.ld_frame)
qed

lemma SetEmbedderData_other:
  assumes "SetEmbedderData isolate slot data m = Some m'" "slot < kNumIsolateDataSlots"
    and t: "t < kNumIsolateDataSlots" "t \<noteq> slot"
  shows "GetEmbedderData isolate t m' = GetEmbedderData isolate t m"
proof -
  have "uint t \<noteq> uint slot" using t(2) by (simp only: word_uint_eq_iff not_False_eq_True)
  then show ?thesis
    unfolding GetEmbedderData_def slot_offset [OF t(1)] Let_def
    by (intro SetEmbedderData_frame [OF assms(1,2)]) (use slot_uint [OF assms(2)] slot_uint [OF t(1)] in auto)
qed

section \<open>Entries of the pointer tables\<close>

lemma masks: "kExternalPointerTagMask = push_bit 49 (mask 7)" "kExternalPointerMarkBit = push_bit 48 1"
  "kExternalPointerPayloadMask = NOT (push_bit 48 (mask 8))" "kExternalPointerTagShift = 49"
  by (simp_all add: entry_mask_defs push_bit_eq_mult mask_eq_exp_minus_1 One_nat_def)

text \<open>An entry of the external pointer table: a payload with a free byte, the tag and the mark bit.\<close>

definition external_entry :: "u64 \<Rightarrow> u16 \<Rightarrow> bool \<Rightarrow> u64" where
  "external_entry payload tag marked =
     payload OR push_bit kExternalPointerTagShift (ucast tag) OR
       (if marked then kExternalPointerMarkBit else 0)"

lemma external_entry_eq:
  "external_entry payload tag marked =
     payload OR push_bit 49 (ucast tag) OR push_bit 48 (of_bool marked)"
  by (simp add: external_entry_def masks(2,4))

lemma tag_bits:
  assumes "tag \<le> kLastExternalPointerTag" "bit tag n"
  shows "n < 7"
proof -
  have "unat tag < 128" using assms(1) by (simp add: word_le_nat_alt kLastExternalPointerTag_def)
  then have "take_bit 7 (unat tag) = unat tag" by (simp add: take_bit_nat_eq_self)
  then have "unat (take_bit 7 tag) = unat tag" by (simp add: unsigned_take_bit_eq)
  then have "take_bit 7 tag = tag" by (simp only: word_unat_eq_iff)
  with assms(2) show ?thesis by (metis bit_take_bit_iff)
qed

lemma external_entry_tag:
  assumes "payload AND kExternalPointerPayloadMask = payload" "tag \<le> kLastExternalPointerTag"
  shows "external_entry_tag (external_entry payload tag marked) = tag"
proof -
  have p: "\<not> bit payload n" if "48 \<le> n" "n < 56" for n
  proof -
    have "\<not> bit kExternalPointerPayloadMask n" using that by (auto simp: masks bit_simps)
    then show ?thesis by (metis assms(1) bit_and_iff)
  qed
  note t = tag_bits [OF assms(2)]
  show ?thesis
  proof (rule bit_word_eqI)
    fix n assume "n < LENGTH(16)"
    then show "bit (external_entry_tag (external_entry payload tag marked)) n = bit tag n"
      using t [of n] p [of "49 + n"]
      by (auto simp: external_entry_tag_def external_entry_eq masks bit_simps)
  qed
qed

lemma external_entry_payload:
  assumes "payload AND kExternalPointerPayloadMask = payload" "tag \<le> kLastExternalPointerTag"
  shows "external_entry payload tag marked AND kExternalPointerPayloadMask = payload"
proof -
  note t = tag_bits [OF assms(2)]
  have "(push_bit 49 (ucast tag) OR push_bit 48 (of_bool marked)) AND kExternalPointerPayloadMask = (0 :: u64)"
    by (rule bit_word_eqI) (auto simp: masks bit_simps dest!: t)
  with assms(1) show ?thesis
    by (simp add: external_entry_eq or.assoc bit.conj_disj_distrib2)
qed

lemma uint_push_u32: "uint (push_bit 1 (ucast (f :: u16) :: u32)) = 2 * uint f"
  using uint_u16 [of f]
  by (simp add: push_bit_eq_mult uint_word_ariths unsigned_ucast_eq take_bit_int_eq_self mod_pos_pos_trivial)

lemma uint_ucast_u32: "uint (ucast (x :: u16) :: u32) = uint x"
  using uint_u16 [of x] by (simp add: unsigned_ucast_eq take_bit_int_eq_self)

lemma safe_cppheap_entry_eq:
  "safe_cppheap_entry r entry =
     (if range_first r \<le> drop_bit 1 (ucast entry) \<and> drop_bit 1 (ucast entry) \<le> range_last r
      then drop_bit 16 entry else 0)"
proof -
  define a where "a = uint (ucast entry :: u16)"
  have a: "0 \<le> a" "a < 65536" by (simp_all only: a_def uint_u16)
  have t: "uint (drop_bit 1 (ucast entry :: u16)) = a div 2"
    by (simp only: a_def unsigned_drop_bit_eq) (simp add: drop_bit_eq_div take_bit_int_eq_self uint_u16)
  have e: "uint (ucast (ucast entry :: u16) :: u32) = a"
    unfolding a_def by (rule uint_ucast_u32)
  have l: "uint (push_bit 1 (ucast (range_last r) :: u32) + 1) = 2 * uint (range_last r) + 1"
    using uint_u16 [of "range_last r"] uint_push_u32 [of "range_last r"]
    by (simp add: uint_word_ariths mod_pos_pos_trivial del: push_bit_of_1)
  show ?thesis
    unfolding safe_cppheap_entry_def kCppHeapPointerTagShift_def kCppHeapPointerPayloadShift_def Let_def
    unfolding word_le_def t e l uint_push_u32
    using a by (auto simp: div_pos_pos_trivial)
qed

section \<open>Compressed pointers\<close>

lemma cage_base: "GetPtrComprCageBaseFromOnHeapAddress a = a AND NOT (mask 32)"
  by (simp add: GetPtrComprCageBaseFromOnHeapAddress_def kPtrComprCageBaseAlignment_def
      push_bit_eq_mult mask_eq_exp_minus_1 One_nat_def)

lemma DecompressTaggedField_eq:
  "DecompressTaggedField h v = (h AND NOT (mask 32)) OR ucast v"
proof -
  have "(h AND NOT (mask 32)) AND ucast v = 0"
    by (rule bit_word_eqI) (auto simp: bit_simps dest: bit_imp_le_length)
  then show ?thesis
    by (simp add: DecompressTaggedField_def cage_base disjunctive_add_eq_or)
qed

section \<open>Handle nodes\<close>

lemma flags_class_apart:
  "apart (node + of_int kNodeFlagsOffset) 1 (node + of_int kNodeClassIdOffset) 2"
  by (rule apart_offsets) (simp_all add: bits_simps)

lemma store_flags_class:
  assumes "store_word (node + of_int kNodeFlagsOffset) (v :: byte) m = Some m'"
  shows "WrapperClassId node m' = WrapperClassId node m"
proof -
  have "store_bytes (node + of_int kNodeFlagsOffset) (word_bytes 1 v) m = Some m'"
    using assms by (simp add: store_word_def)
  from store_frame [OF this, of "node + of_int kNodeClassIdOffset" 2] flags_class_apart
  show ?thesis by (simp add: WrapperClassId_def load_word_def)
qed

lemma state_bits: "(value :: byte) AND kNodeStateMask = value \<Longrightarrow> (old AND NOT kNodeStateMask OR value) AND kNodeStateMask = value"
  by (simp add: bit.conj_disj_distrib2 and.assoc)

lemma state_keeps_flag:
  assumes "(value :: byte) AND kNodeStateMask = value" "2 \<le> shift"
  shows "(old AND NOT kNodeStateMask OR value) AND push_bit shift 1 = old AND push_bit shift 1"
proof -
  have m: "kNodeStateMask = mask 2" by (simp add: kNodeStateMask_def mask_eq_exp_minus_1)
  then have v: "bit value n \<Longrightarrow> n < 2" for n using assms(1) by (metis bit_and_iff bit_mask_iff)
  show ?thesis unfolding m
    by (rule bit_word_eqI) (use assms(2) in \<open>auto simp: bit_simps dest: v\<close>)
qed

section \<open>Properties\<close>

text \<open>The data slots of an isolate are independent of each other and of what V8 keeps next to them:
  a value stored through \<open>SetData\<close> in one of the four slots is what \<open>GetData\<close> returns for it, and the
  other slots, the handle scope data below and the external pointer table above are unchanged. gv8
  keeps its internal context in slot 0 and its observer in slot 1.\<close>

lemma isolate_slots_independent:
  assumes "Isolate_SetData isolate slot data m = Some m'" "slot < Isolate_GetNumberOfDataSlots"
  shows "Isolate_GetData isolate slot m' = Some data \<and>
    (\<forall>t. t < Isolate_GetNumberOfDataSlots \<and> t \<noteq> slot \<longrightarrow>
       Isolate_GetData isolate t m' = Isolate_GetData isolate t m) \<and>
    GetExternalPointerTableBase isolate m' = GetExternalPointerTableBase isolate m \<and>
    (load_word (GetHandleScopeData isolate) m' :: u64 option) = load_word (GetHandleScopeData isolate) m"
proof (intro conjI allI impI)
  have st: "SetEmbedderData isolate slot data m = Some m'" and slot: "slot < kNumIsolateDataSlots"
    using assms by (simp_all add: Isolate_SetData_def Isolate_GetNumberOfDataSlots_def)
  note frame = SetEmbedderData_frame [OF st slot]
  show "Isolate_GetData isolate slot m' = Some data"
    unfolding Isolate_GetData_def by (rule SetEmbedderData_read [OF st])
  show "Isolate_GetData isolate t m' = Isolate_GetData isolate t m"
    if "t < Isolate_GetNumberOfDataSlots \<and> t \<noteq> slot" for t
    unfolding Isolate_GetData_def
    by (rule SetEmbedderData_other [OF st slot]) (use that in \<open>simp_all add: Isolate_GetNumberOfDataSlots_def\<close>)
  show "GetExternalPointerTableBase isolate m' = GetExternalPointerTableBase isolate m"
    using frame [of 616] slot_uint [OF slot]
    by (simp add: GetExternalPointerTableBase_def kExternalEntityTableBasePointerOffset_def bits_simps)
  show "(load_word (GetHandleScopeData isolate) m' :: u64 option) = load_word (GetHandleScopeData isolate) m"
    using frame [of 560] slot_uint [OF slot] by (simp add: GetHandleScopeData_def bits_simps)
qed



text \<open>The check on \<open>CppHeap\<close> pointers, which compares the tag with its mark bit against a shifted
  range, agrees with the plain range check on the tag without the mark bit.\<close>

lemma cppheap_check_equiv:
  assumes "range_valid r"
  shows "safe_cppheap_entry r entry =
    (if TagRange_Contains r (drop_bit 1 (ucast entry)) then drop_bit kCppHeapPointerPayloadShift entry else 0)"
  using assms
  by (simp add: safe_cppheap_entry_eq TagRange_Contains_iff range_tags_def kCppHeapPointerPayloadShift_def)

text \<open>Compressing a tagged pointer loses nothing inside its cage: decompressing it with any other
  object of the same cage gives the pointer back, and two pointers of one cage compress to the same
  32 bits only if they are equal.\<close>

lemma compressed_pointer_roundtrip:
  assumes "GetPtrComprCageBaseFromOnHeapAddress h = GetPtrComprCageBaseFromOnHeapAddress p"
  shows "DecompressTaggedField h (CompressTagged p) = p \<and>
    (\<forall>q. GetPtrComprCageBaseFromOnHeapAddress q = GetPtrComprCageBaseFromOnHeapAddress p \<and>
       CompressTagged q = CompressTagged p \<longrightarrow> q = p)"
proof -
  have join: "(x AND NOT (mask 32)) OR ucast (ucast x :: u32) = x" for x :: u64
    by (rule bit_word_eqI) (auto simp: bit_simps)
  show ?thesis
    using assms join by (auto simp: DecompressTaggedField_eq cage_base CompressTagged_def) metis
qed

text \<open>The state, the flags and the class id of a global handle share a node without disturbing each
  other: setting the state makes it what is read back, and leaves every flag bit above the state and
  the wrapper class id as they were.\<close>

lemma node_state_isolated:
  assumes "UpdateNodeState node value m = Some m'" "value AND kNodeStateMask = value"
    "2 \<le> shift" "node \<noteq> 0"
  shows "GetNodeState node m' = Some value \<and> GetNodeFlag node shift m' = GetNodeFlag node shift m \<and>
    WrapperClassId node m' = WrapperClassId node m \<and>
    persistent_IsWeak node m' = Some (value = kNodeStateIsWeakValue)"
proof -
  obtain old where old: "load_word (node + of_int kNodeFlagsOffset) m = Some old"
    "store_word (node + of_int kNodeFlagsOffset) (old AND NOT kNodeStateMask OR value) m = Some m'"
    using assms(1) by (auto simp: UpdateNodeState_def run_simps)
  from u8_access.ld_st [OF old(2)] have new:
    "load_word (node + of_int kNodeFlagsOffset) m' = Some (old AND NOT kNodeStateMask OR value)" .
  with assms old(1) store_flags_class [OF old(2)] show ?thesis
    by (simp add: GetNodeState_def GetNodeFlag_def state_bits state_keeps_flag persistent_IsWeak_def del: push_bit_of_1)
qed

end
