(* ===== verification/V8_Scopes.thy ===== *)
theory V8_Scopes
  imports V8_Internals
begin

text \<open>
  Local handles and handle scopes of \<open>v8-local-handle.h\<close> and \<open>v8-handle-base.h\<close>. A local handle is the
  address of a slot that holds the tagged value, 0 when it is empty; slots are handed out one after
  the other between the \<open>next\<close> and \<open>limit\<close> pointers of the isolate's \<open>HandleScopeData\<close>, and a scope
  gives its slots back by restoring these pointers. What the library exports is a parameter.
\<close>

section \<open>The exported functions\<close>

record scope_lib =
  GetCurrentIsolate :: u64
  Extend :: "u64 \<Rightarrow> mem \<Rightarrow> (u64 \<times> mem) option"
  DeleteExtensions :: "u64 \<Rightarrow> mem \<Rightarrow> mem option"
  EscapeSlot :: "u64 \<Rightarrow> mem \<Rightarrow> (u64 \<times> mem) option"

section \<open>Handles as slots\<close>

definition ValueHelper_kEmpty :: u64 where "ValueHelper_kEmpty = 0"

definition ValueAsAddress :: "u64 \<Rightarrow> mem \<Rightarrow> u64 option" where
  "ValueAsAddress value m = load_word value m"

definition SlotAsValue :: "u64 \<Rightarrow> u64" where
  "SlotAsValue slot = slot"

definition ValueAsRepr :: "u64 \<Rightarrow> u64" where
  "ValueAsRepr value = value"

definition ReprAsValue :: "u64 \<Rightarrow> u64" where
  "ReprAsValue repr = repr"

definition ValueHelper_IsEmpty :: "u64 \<Rightarrow> bool" where
  "ValueHelper_IsEmpty value \<longleftrightarrow> ValueAsRepr value = ValueHelper_kEmpty"

definition IndirectHandle_IsEmpty :: "u64 \<Rightarrow> bool" where
  "IndirectHandle_IsEmpty location \<longleftrightarrow> location = 0"

definition IndirectHandle_ptr :: "u64 \<Rightarrow> mem \<Rightarrow> u64 option" where
  "IndirectHandle_ptr location m = load_word location m"

definition IndirectHandle_value :: "u64 \<Rightarrow> u64" where
  "IndirectHandle_value location = SlotAsValue location"

definition EqualHandles :: "u64 \<Rightarrow> u64 \<Rightarrow> mem \<Rightarrow> bool option" where
  "EqualHandles lhs rhs m =
     (if IndirectHandle_IsEmpty lhs then Some (IndirectHandle_IsEmpty rhs)
      else if IndirectHandle_IsEmpty rhs then Some False
      else do { x \<leftarrow> IndirectHandle_ptr lhs m; y \<leftarrow> IndirectHandle_ptr rhs m; Some (x = y) })"

section \<open>Handle scopes\<close>

text \<open>The fields of \<open>HandleScopeData\<close>: \<open>next\<close>, \<open>limit\<close>, \<open>level\<close> and \<open>sealed_level\<close>.\<close>

abbreviation (input) next_at :: "u64 \<Rightarrow> u64" where "next_at current \<equiv> current"
abbreviation (input) limit_at :: "u64 \<Rightarrow> u64" where "limit_at current \<equiv> current + of_int 8"
abbreviation (input) level_at :: "u64 \<Rightarrow> u64" where "level_at current \<equiv> current + of_int 16"
abbreviation (input) sealed_level_at :: "u64 \<Rightarrow> u64" where "sealed_level_at current \<equiv> current + of_int 20"

definition HandleScopeData_Initialize :: "u64 \<Rightarrow> mem \<Rightarrow> mem option" where
  "HandleScopeData_Initialize current m =
     do { m1 \<leftarrow> store_word (limit_at current) (0 :: u64) m;
          m2 \<leftarrow> store_word (next_at current) (0 :: u64) m1;
          m3 \<leftarrow> store_word (level_at current) (0 :: u32) m2;
          store_word (sealed_level_at current) (0 :: u32) m3 }"

record handle_scope =
  scope_isolate :: u64
  prev_next :: u64
  prev_limit :: u64

text \<open>\<open>level++\<close> and \<open>level--\<close> on an \<open>int\<close>.\<close>

definition step_level :: "int \<Rightarrow> u64 \<Rightarrow> mem \<Rightarrow> mem option" where
  "step_level d current m =
     do { l \<leftarrow> (load_word (level_at current) m :: u32 option);
          l' \<leftarrow> add_int (sint l) d;
          store_word (level_at current) (of_int l' :: u32) m }"

definition HandleScope_Initialize :: "u64 \<Rightarrow> mem \<Rightarrow> (handle_scope \<times> mem) option" where
  "HandleScope_Initialize isolate m =
     (let current = GetHandleScopeData isolate in
      do { n \<leftarrow> load_word (next_at current) m;
           l \<leftarrow> load_word (limit_at current) m;
           m' \<leftarrow> step_level 1 current m;
           Some (\<lparr>scope_isolate = isolate, prev_next = n, prev_limit = l\<rparr>, m') })"

definition HandleScope_destructor :: "'x scope_lib_scheme \<Rightarrow> handle_scope \<Rightarrow> mem \<Rightarrow> mem option" where
  "HandleScope_destructor R s m =
     (if scope_isolate s = 0 then Some m
      else let current = GetHandleScopeData (scope_isolate s) in
        do { m1 \<leftarrow> store_word (next_at current) (prev_next s) m;
             m2 \<leftarrow> step_level (- 1) current m1;
             l \<leftarrow> load_word (limit_at current) m2;
             if l \<noteq> prev_limit s then
               do { m3 \<leftarrow> store_word (limit_at current) (prev_limit s) m2;
                    DeleteExtensions R (scope_isolate s) m3 }
             else Some m2 })"

definition CreateHandle :: "'x scope_lib_scheme \<Rightarrow> u64 \<Rightarrow> u64 \<Rightarrow> mem \<Rightarrow> (u64 \<times> mem) option" where
  "CreateHandle R isolate value m =
     (let data = GetHandleScopeData isolate in
      do { n \<leftarrow> load_word (next_at data) m;
           l \<leftarrow> load_word (limit_at data) m;
           (result, m1) \<leftarrow> (if n = l then Extend R isolate m else Some (n, m));
           m2 \<leftarrow> store_word (next_at data) (result + 8) m1;
           m3 \<leftarrow> store_word result value m2;
           Some (result, m3) })"

section \<open>Local and MaybeLocal\<close>

definition LocalBase_New :: "'x scope_lib_scheme \<Rightarrow> u64 \<Rightarrow> u64 \<Rightarrow> mem \<Rightarrow> (u64 \<times> mem) option" where
  "LocalBase_New R isolate value m = CreateHandle R isolate value m"

definition LocalBase_New_value :: "'x scope_lib_scheme \<Rightarrow> u64 \<Rightarrow> u64 \<Rightarrow> mem \<Rightarrow> (u64 \<times> mem) option" where
  "LocalBase_New_value R isolate that m =
     (if ValueHelper_IsEmpty that then Some (0, m)
      else do { v \<leftarrow> ValueAsAddress that m; LocalBase_New R isolate v m })"

definition LocalBase_FromSlot :: "u64 \<Rightarrow> u64" where
  "LocalBase_FromSlot slot = slot"

definition Local_FromSlot :: "u64 \<Rightarrow> u64" where
  "Local_FromSlot slot = LocalBase_FromSlot slot"

definition Local_New :: "'x scope_lib_scheme \<Rightarrow> u64 \<Rightarrow> u64 \<Rightarrow> mem \<Rightarrow> (u64 \<times> mem) option" where
  "Local_New R isolate value m = LocalBase_New R isolate value m"

definition Local_New_local :: "'x scope_lib_scheme \<Rightarrow> u64 \<Rightarrow> u64 \<Rightarrow> mem \<Rightarrow> (u64 \<times> mem) option" where
  "Local_New_local R isolate that m = LocalBase_New_value R isolate (IndirectHandle_value that) m"

definition Local_eq :: "u64 \<Rightarrow> u64 \<Rightarrow> mem \<Rightarrow> bool option" where
  "Local_eq this that m = EqualHandles this that m"

definition Local_neq :: "u64 \<Rightarrow> u64 \<Rightarrow> mem \<Rightarrow> bool option" where
  "Local_neq this that m = map_option Not (Local_eq this that m)"

definition MaybeLocal_IsEmpty :: "u64 \<Rightarrow> bool" where
  "MaybeLocal_IsEmpty local = IndirectHandle_IsEmpty local"

text \<open>\<open>ToLocal\<close>: what it returns, and what \<open>*out\<close> is afterwards.\<close>

definition MaybeLocal_ToLocal :: "u64 \<Rightarrow> bool \<times> u64" where
  "MaybeLocal_ToLocal local = (\<not> MaybeLocal_IsEmpty local, local)"

definition MaybeLocal_ToLocalChecked :: "u64 \<Rightarrow> u64 option" where
  "MaybeLocal_ToLocalChecked local = (if MaybeLocal_IsEmpty local then None else Some local)"

definition MaybeLocal_FromMaybe :: "u64 \<Rightarrow> u64 \<Rightarrow> u64" where
  "MaybeLocal_FromMaybe local default_value = (if MaybeLocal_IsEmpty local then default_value else local)"

definition Escape :: "'x scope_lib_scheme \<Rightarrow> u64 \<Rightarrow> mem \<Rightarrow> (u64 \<times> mem) option" where
  "Escape R value m =
     (if IndirectHandle_IsEmpty value then Some (value, m)
      else do { (slot, m') \<leftarrow> EscapeSlot R value m; Some (Local_FromSlot slot, m') })"

definition EscapeMaybe :: "'x scope_lib_scheme \<Rightarrow> u64 \<Rightarrow> mem \<Rightarrow> (u64 \<times> mem) option" where
  "EscapeMaybe R value m = Escape R (MaybeLocal_FromMaybe value 0) m"

section \<open>LocalVector\<close>

text \<open>A \<open>std::vector\<close> of local handles; \<open>at\<close> throws out of range, while \<open>operator[]\<close>, \<open>front\<close>, \<open>back\<close> and
  \<open>pop_back\<close> are undefined there. A position is an index.\<close>

type_synonym local_vector = "u64 list"

definition LocalVector_new :: local_vector where "LocalVector_new = []"

definition LocalVector_sized :: "nat \<Rightarrow> local_vector" where
  "LocalVector_sized n = replicate n 0"

definition LocalVector_init :: "u64 list \<Rightarrow> local_vector" where
  "LocalVector_init init = (if length init = 0 then [] else [] @ init)"

definition LocalVector_size :: "local_vector \<Rightarrow> nat" where "LocalVector_size v = length v"
definition LocalVector_empty :: "local_vector \<Rightarrow> bool" where "LocalVector_empty v \<longleftrightarrow> v = []"

definition LocalVector_nth :: "local_vector \<Rightarrow> nat \<Rightarrow> u64 option" where
  "LocalVector_nth v n = (if n < length v then Some (v ! n) else None)"

definition LocalVector_front :: "local_vector \<Rightarrow> u64 option" where
  "LocalVector_front v = (case v of [] \<Rightarrow> None | x # xs \<Rightarrow> Some x)"

definition LocalVector_back :: "local_vector \<Rightarrow> u64 option" where
  "LocalVector_back v = (if v = [] then None else Some (last v))"

definition LocalVector_insert_range :: "local_vector \<Rightarrow> nat \<Rightarrow> u64 list \<Rightarrow> (local_vector \<times> nat) option" where
  "LocalVector_insert_range v pos vs =
     (if pos \<le> length v then Some (take pos v @ vs @ drop pos v, pos) else None)"

definition LocalVector_insert :: "local_vector \<Rightarrow> nat \<Rightarrow> u64 \<Rightarrow> (local_vector \<times> nat) option" where
  "LocalVector_insert v pos value = LocalVector_insert_range v pos [value]"

definition LocalVector_assign :: "local_vector \<Rightarrow> u64 list \<Rightarrow> local_vector" where
  "LocalVector_assign v init = [] @ init"

definition LocalVector_push_back :: "local_vector \<Rightarrow> u64 \<Rightarrow> local_vector" where
  "LocalVector_push_back v x = v @ [x]"

definition LocalVector_pop_back :: "local_vector \<Rightarrow> local_vector option" where
  "LocalVector_pop_back v = (if v = [] then None else Some (butlast v))"

definition LocalVector_resize :: "local_vector \<Rightarrow> nat \<Rightarrow> local_vector" where
  "LocalVector_resize v n = take n v @ replicate (n - length v) 0"

section \<open>Reading the scope data\<close>

lemma scope_data_apart:
  "apart (current + of_int 8) 8 current 8" "apart current 8 (current + of_int 8) 8"
  "apart current 8 (current + of_int 16) 4" "apart (current + of_int 16) 4 current 8"
  "apart (current + of_int 16) 4 (current + of_int 8) 8"
  "apart (current + of_int 8) 8 (current + of_int 16) 4"
  using apart_offsets [of 0 8 8 8 current] apart_offsets [of 8 0 8 8 current]
    apart_offsets [of 0 16 8 4 current] apart_offsets [of 16 0 4 8 current]
    apart_offsets [of 16 8 4 8 current] apart_offsets [of 8 16 8 4 current] by simp_all

text \<open>A store of one width is not seen by a load of another width that is apart from it.\<close>

lemma frame_u64_u32:
  assumes "store_word a (v :: u64) m = Some m'" "apart a 8 b 4"
  shows "load_word b m' = (load_word b m :: u32 option)"
  using store_frame [of a "word_bytes 8 v" m m' b 4] assms by (simp add: store_word_def load_word_def)

lemma frame_u32_u64:
  assumes "store_word a (v :: u32) m = Some m'" "apart a 4 b 8"
  shows "load_word b m' = (load_word b m :: u64 option)"
  using store_frame [of a "word_bytes 4 v" m m' b 8] assms by (simp add: store_word_def load_word_def)

lemma step_level_frame:
  assumes "step_level d current m = Some m'"
  shows "load_word (next_at current) m' = (load_word (next_at current) m :: u64 option)"
    "load_word (limit_at current) m' = (load_word (limit_at current) m :: u64 option)"
    "\<exists>l. load_word (level_at current) m = Some (l :: u32) \<and> INT_MIN \<le> sint l + d \<and> sint l + d \<le> INT_MAX \<and>
       load_word (level_at current) m' = Some (of_int (sint l + d) :: u32)"
proof -
  obtain l where l: "load_word (level_at current) m = Some (l :: u32)" "INT_MIN \<le> sint l + d" "sint l + d \<le> INT_MAX"
    "store_word (level_at current) (of_int (sint l + d) :: u32) m = Some m'"
    using assms by (auto simp: step_level_def run_simps add_int_def split: if_splits)
  show "load_word (next_at current) m' = (load_word (next_at current) m :: u64 option)"
    "load_word (limit_at current) m' = (load_word (limit_at current) m :: u64 option)"
    using frame_u32_u64 [OF l(4)] scope_data_apart by blast+
  show "\<exists>l. load_word (level_at current) m = Some (l :: u32) \<and> INT_MIN \<le> sint l + d \<and> sint l + d \<le> INT_MAX \<and>
       load_word (level_at current) m' = Some (of_int (sint l + d) :: u32)"
    using l u32_access.ld_st [OF l(4)] by blast
qed

section \<open>Well-nested use of scopes\<close>

abbreviation (input) scope_next :: "u64 \<Rightarrow> mem \<Rightarrow> u64 option" where
  "scope_next isolate m \<equiv> load_word (GetHandleScopeData isolate) m"
abbreviation (input) scope_limit :: "u64 \<Rightarrow> mem \<Rightarrow> u64 option" where
  "scope_limit isolate m \<equiv> load_word (GetHandleScopeData isolate + of_int 8) m"
abbreviation (input) scope_level :: "u64 \<Rightarrow> mem \<Rightarrow> u32 option" where
  "scope_level isolate m \<equiv> load_word (GetHandleScopeData isolate + of_int 16) m"

lemma Initialize_effect:
  assumes "HandleScope_Initialize isolate m = Some (s, m1)"
  shows "scope_isolate s = isolate" "scope_next isolate m = Some (prev_next s)"
    "scope_limit isolate m = Some (prev_limit s)"
    "scope_next isolate m1 = scope_next isolate m" "scope_limit isolate m1 = scope_limit isolate m"
    "\<exists>l. scope_level isolate m = Some l \<and> INT_MIN \<le> sint l + 1 \<and> sint l + 1 \<le> INT_MAX \<and>
       scope_level isolate m1 = Some (of_int (sint l + 1))"
  using assms step_level_frame [of 1 "GetHandleScopeData isolate" m m1]
  by (auto simp: HandleScope_Initialize_def Let_def run_simps)

lemma destructor_effect:
  assumes "HandleScope_destructor R s m2 = Some m3" "scope_isolate s = isolate" "isolate \<noteq> 0"
    and limit: "scope_limit isolate m2 = Some (prev_limit s)"
  shows "scope_next isolate m3 = Some (prev_next s)" "scope_limit isolate m3 = Some (prev_limit s)"
    "\<exists>l. scope_level isolate m2 = Some l \<and> scope_level isolate m3 = Some (of_int (sint l - 1))"
proof -
  let ?c = "GetHandleScopeData isolate"
  obtain m1 where m1: "store_word ?c (prev_next s) m2 = Some m1" "step_level (- 1) ?c m1 = Some m3"
  proof -
    obtain m1 m' l where m: "store_word ?c (prev_next s) m2 = Some m1" "step_level (- 1) ?c m1 = Some m'"
      "load_word (?c + of_int 8) m' = Some l"
      "(if l \<noteq> prev_limit s then do { m3 \<leftarrow> store_word (?c + of_int 8) (prev_limit s) m'; DeleteExtensions R isolate m3 }
        else Some m') = Some m3"
      using assms(1-3) by (auto simp: HandleScope_destructor_def Let_def run_simps)
    have "load_word (?c + of_int 8) m1 = (load_word (?c + of_int 8) m2 :: u64 option)"
      using m(1) by (rule u64_access.ld_frame) (rule scope_data_apart)
    with step_level_frame(2) [OF m(2)] limit m(3) have "l = prev_limit s" by simp
    with m show ?thesis by (intro that) simp_all
  qed
  have keep: "load_word (?c + of_int 8) m1 = (load_word (?c + of_int 8) m2 :: u64 option)"
    using m1(1) by (rule u64_access.ld_frame) (rule scope_data_apart)
  have lev: "load_word (?c + of_int 16) m1 = (load_word (?c + of_int 16) m2 :: u32 option)"
    using m1(1) by (rule frame_u64_u32) (rule scope_data_apart)
  note st = step_level_frame [OF m1(2)]
  show "scope_next isolate m3 = Some (prev_next s)" using st(1) u64_access.ld_st [OF m1(1)] by simp
  show "scope_limit isolate m3 = Some (prev_limit s)" using st(2) keep limit by simp
  show "\<exists>l. scope_level isolate m2 = Some l \<and> scope_level isolate m3 = Some (of_int (sint l - 1))"
    using st(3) lev by auto
qed

lemma level_restored:
  "INT_MIN \<le> sint l + 1 \<Longrightarrow> sint l + 1 \<le> INT_MAX \<Longrightarrow> of_int (sint (of_int (sint l + 1) :: u32) - 1) = (l :: u32)"
  by (simp add: sint_of_int32 INT_MIN_def INT_MAX_def del: of_int_add)

text \<open>Opening a scope and closing it again, with anything in between that leaves limit and level.\<close>

lemma scope_roundtrip:
  assumes i: "HandleScope_Initialize isolate m = Some (s, m1)" and n: "isolate \<noteq> 0"
    and body: "scope_limit isolate m2 = scope_limit isolate m1" "scope_level isolate m2 = scope_level isolate m1"
    and d: "HandleScope_destructor R s m2 = Some m3"
  shows "scope_next isolate m3 = scope_next isolate m" "scope_limit isolate m3 = scope_limit isolate m"
    "scope_level isolate m3 = scope_level isolate m"
proof -
  note e = Initialize_effect [OF i]
  have "scope_limit isolate m2 = Some (prev_limit s)" using body(1) e(3,5) by simp
  note f = destructor_effect [OF d e(1) n this]
  show "scope_next isolate m3 = scope_next isolate m" using f(1) e(2) by simp
  show "scope_limit isolate m3 = scope_limit isolate m" using f(2) e(3) by simp
  show "scope_level isolate m3 = scope_level isolate m"
    using e(6) f(3) body(2) by (auto simp: level_restored)
qed

text \<open>What the code inside a scope does with handles: it creates them, and opens and closes scopes.\<close>

datatype scope_body = Create u64 | Nested "scope_body list"

fun run_bodies :: "'x scope_lib_scheme \<Rightarrow> u64 \<Rightarrow> scope_body list \<Rightarrow> mem \<Rightarrow> mem option" where
  "run_bodies R isolate [] m = Some m"
| "run_bodies R isolate (Create v # bs) m =
     do { (h, m1) \<leftarrow> CreateHandle R isolate v m; run_bodies R isolate bs m1 }"
| "run_bodies R isolate (Nested cs # bs) m =
     do { (s, m1) \<leftarrow> HandleScope_Initialize isolate m;
          m2 \<leftarrow> run_bodies R isolate cs m1;
          m3 \<leftarrow> HandleScope_destructor R s m2;
          run_bodies R isolate bs m3 }"

text \<open>A block of \<open>k\<close> slots that does not overlap the scope data, with \<open>next\<close> inside it.\<close>

definition slot_at :: "u64 \<Rightarrow> nat \<Rightarrow> u64" where
  "slot_at lo i = lo + 8 * of_nat i"

lemma slots_apart:
  assumes "i \<noteq> j" "i < 2 ^ 60" "j < 2 ^ 60"
  shows "apart (slot_at lo i) 8 (slot_at lo j) 8"
proof -
  have d: "8 \<le> unat (8 * of_nat a - 8 * of_nat b :: u64)" if ab: "a \<noteq> b" "a < 2 ^ 60" "b < 2 ^ 60" for a b :: nat
  proof -
    have "(8 * of_nat a - 8 * of_nat b :: u64) = of_int (8 * int a - 8 * int b)" by simp
    then have u: "unat (8 * of_nat a - 8 * of_nat b :: u64) = nat ((8 * int a - 8 * int b) mod 2 ^ 64)"
      by (simp only: unat_eq_nat_uint uint_of_int64)
    show ?thesis
    proof (cases "b \<le> a")
      case True
      then have "(8 * int a - 8 * int b) mod 2 ^ 64 = 8 * int a - 8 * int b"
        using ab by (intro mod_pos_pos_trivial) simp_all
      with True ab(1) show ?thesis unfolding u by simp
    next
      case False
      have "(8 * int a - 8 * int b + 2 ^ 64) mod 2 ^ 64 = 8 * int a - 8 * int b + 2 ^ 64"
        using ab False by (intro mod_pos_pos_trivial) simp_all
      then have "(8 * int a - 8 * int b) mod 2 ^ 64 = 8 * int a - 8 * int b + 2 ^ 64" by simp
      with False ab show ?thesis unfolding u by simp
    qed
  qed
  from d [of j i] d [of i j] assms show ?thesis by (simp add: apart_def slot_at_def)
qed

definition block_apart :: "u64 \<Rightarrow> u64 \<Rightarrow> nat \<Rightarrow> bool" where
  "block_apart isolate lo k \<longleftrightarrow> (\<forall>i<k. let a = slot_at lo i; c = GetHandleScopeData isolate in
     apart a 8 c 8 \<and> apart a 8 (c + of_int 8) 8 \<and> apart a 8 (c + of_int 16) 4)"

definition in_block :: "u64 \<Rightarrow> u64 \<Rightarrow> nat \<Rightarrow> mem \<Rightarrow> bool" where
  "in_block isolate lo k m \<longleftrightarrow>
     (\<exists>j\<le>k. scope_next isolate m = Some (slot_at lo j)) \<and> scope_limit isolate m = Some (slot_at lo k)"

lemma CreateHandle_effect:
  assumes c: "CreateHandle R isolate v m = Some (h, m')"
    and ext: "\<And>m. Extend R isolate m = None" and apart: "block_apart isolate lo k"
    and blk: "in_block isolate lo k m"
  shows "\<exists>j<k. h = slot_at lo j \<and> scope_next isolate m = Some h \<and> scope_next isolate m' = Some (slot_at lo (Suc j))"
    "scope_limit isolate m' = scope_limit isolate m" "scope_level isolate m' = scope_level isolate m"
    "IndirectHandle_ptr h m' = Some v"
proof -
  let ?c = "GetHandleScopeData isolate"
  obtain m1 l where m: "load_word ?c m = Some h" "load_word (?c + of_int 8) m = Some l" "h \<noteq> l"
    "store_word ?c (h + 8) m = Some m1" "store_word h v m1 = Some m'"
    using c by (auto simp: CreateHandle_def Let_def run_simps ext split: if_splits)
  from blk m obtain j where j: "j \<le> k" "h = slot_at lo j" "l = slot_at lo k"
    by (auto simp: in_block_def)
  with m(3) have jk: "j < k" by (cases "j = k") auto
  with apart j have a: "apart h 8 ?c 8" "apart h 8 (?c + of_int 8) 8" "apart h 8 (?c + of_int 16) 4"
    by (simp_all add: block_apart_def Let_def)
  have "scope_next isolate m' = Some (h + 8)"
    using u64_access.ld_st [OF m(4)] u64_access.ld_frame [OF m(5) a(1)] by simp
  with jk j m(1) show "\<exists>j<k. h = slot_at lo j \<and> scope_next isolate m = Some h \<and> scope_next isolate m' = Some (slot_at lo (Suc j))"
    by (intro exI [of _ j]) (simp add: slot_at_def algebra_simps)
  show "scope_limit isolate m' = scope_limit isolate m"
    using u64_access.ld_frame [OF m(4) scope_data_apart(2)] u64_access.ld_frame [OF m(5) a(2)] by simp
  show "scope_level isolate m' = scope_level isolate m"
    using frame_u64_u32 [OF m(4) scope_data_apart(3)] frame_u64_u32 [OF m(5) a(3)] by simp
  show "IndirectHandle_ptr h m' = Some v"
    unfolding IndirectHandle_ptr_def by (rule u64_access.ld_st [OF m(5)])
qed

lemma run_bodies_keeps:
  assumes "run_bodies R isolate bs m = Some m'" "in_block isolate lo k m" "isolate \<noteq> 0"
    and "\<And>m. Extend R isolate m = None" "block_apart isolate lo k"
  shows "in_block isolate lo k m' \<and> scope_level isolate m' = scope_level isolate m"
  using assms
proof (induction R isolate bs m arbitrary: m' rule: run_bodies.induct)
  case (1 R isolate m)
  then show ?case by simp
next
  case (2 R isolate v bs m)
  then obtain h m1 where c: "CreateHandle R isolate v m = Some (h, m1)" "run_bodies R isolate bs m1 = Some m'"
    by (auto simp: run_simps)
  note e = CreateHandle_effect [OF c(1) "2.prems"(4,5,2)]
  from e(1) obtain j where "j < k" "scope_next isolate m1 = Some (slot_at lo (Suc j))" by blast
  then have "in_block isolate lo k m1"
    using e(2) "2.prems"(2) by (auto simp: in_block_def intro: exI [of _ "Suc j"])
  from "2.IH" [OF c(1) refl c(2) this "2.prems"(3-5)] e(3) show ?case by simp
next
  case (3 R isolate cs bs m)
  then obtain s m1 m2 m3 where c: "HandleScope_Initialize isolate m = Some (s, m1)"
    "run_bodies R isolate cs m1 = Some m2" "HandleScope_destructor R s m2 = Some m3"
    "run_bodies R isolate bs m3 = Some m'"
    by (auto simp: run_simps)
  note e = Initialize_effect [OF c(1)]
  have b1: "in_block isolate lo k m1" using "3.prems"(2) e(4,5) by (simp add: in_block_def)
  from "3.IH"(1) [OF c(1) refl c(2) b1 "3.prems"(3-5)]
  have b2: "in_block isolate lo k m2" "scope_level isolate m2 = scope_level isolate m1" by simp_all
  have "scope_limit isolate m2 = scope_limit isolate m1" using b1 b2(1) by (simp add: in_block_def)
  note r = scope_roundtrip [OF c(1) "3.prems"(3) this b2(2) c(3)]
  have "in_block isolate lo k m3" using "3.prems"(2) r(1,2) by (simp add: in_block_def)
  from "3.IH"(2) [OF c(1) refl c(2,3,4) this "3.prems"(3-5)] r(3) show ?case by simp
qed


section \<open>Properties\<close>


text \<open>A new local handle reads as the value it was made from, lies in the next free slot of the block,
  and takes exactly that slot: every other slot of the block keeps its contents.\<close>

lemma create_handle_exact:
  assumes "CreateHandle R isolate v m = Some (h, m')"
    and "\<forall>m. Extend R isolate m = None" "block_apart isolate lo k" "in_block isolate lo k m" "k < 2 ^ 60"
  shows "\<exists>j<k. h = slot_at lo j \<and> IndirectHandle_ptr h m' = Some v \<and>
    scope_next isolate m' = Some (slot_at lo (Suc j)) \<and>
    (\<forall>i<k. i \<noteq> j \<longrightarrow> IndirectHandle_ptr (slot_at lo i) m' = IndirectHandle_ptr (slot_at lo i) m)"
proof -
  note e = CreateHandle_effect [OF assms(1) assms(2)[rule_format] assms(3,4)]
  from e(1) obtain j where j: "j < k" "h = slot_at lo j" "scope_next isolate m = Some h"
    "scope_next isolate m' = Some (slot_at lo (Suc j))" by blast
  have "IndirectHandle_ptr (slot_at lo i) m' = IndirectHandle_ptr (slot_at lo i) m" if i: "i < k" "i \<noteq> j" for i
  proof -
    obtain m1 where m: "store_word (GetHandleScopeData isolate) (h + 8) m = Some m1" "store_word h v m1 = Some m'"
      using assms(1,2) j(3) by (auto simp: CreateHandle_def Let_def run_simps split: if_splits)
    have "apart h 8 (slot_at lo i) 8" using slots_apart [of j i lo] i j(1,2) assms(5) by simp
    moreover have "apart (GetHandleScopeData isolate) 8 (slot_at lo i) 8"
      using assms(3) i(1) by (simp add: block_apart_def Let_def apart_sym)
    ultimately show ?thesis
      unfolding IndirectHandle_ptr_def using u64_access.ld_frame [OF m(1)] u64_access.ld_frame [OF m(2)] by simp
  qed
  with j e(4) show ?thesis by blast
qed

section \<open>A concrete isolate\<close>

text \<open>With all of the memory mapped every access succeeds.\<close>

definition full :: "mem \<Rightarrow> bool" where
  "full m \<longleftrightarrow> (\<forall>n a. mapped n a m)"

lemma full_const: "full (\<lambda>_. Some b)"
  by (simp add: full_def mapped_iff)

lemma full_store_u64: "full m \<Longrightarrow> \<exists>m'. store_word a (v :: u64) m = Some m' \<and> full m'"
  using u64_access.st_ok [of a m v] u64_access.st_mapped [of a v m] by (auto simp: full_def)

lemma full_store_u32: "full m \<Longrightarrow> \<exists>m'. store_word a (v :: u32) m = Some m' \<and> full m'"
  using u32_access.st_ok [of a m v] u32_access.st_mapped [of a v m] by (auto simp: full_def)

lemma step_level_ok:
  assumes "full m" "load_word (level_at current) m = Some l" "INT_MIN \<le> sint (l :: u32) + d" "sint l + d \<le> INT_MAX"
  shows "\<exists>m'. step_level d current m = Some m' \<and> full m'"
  using assms full_store_u32 [OF assms(1)] by (auto simp: step_level_def add_int_def)

lemma Initialize_ok:
  assumes "full m" "scope_next isolate m = Some n" "scope_limit isolate m = Some l" "scope_level isolate m = Some 0"
  shows "\<exists>s m1. HandleScope_Initialize isolate m = Some (s, m1) \<and> full m1"
  using assms step_level_ok [of m "GetHandleScopeData isolate" 0 1]
  by (auto simp: HandleScope_Initialize_def Let_def INT_MIN_def INT_MAX_def)

lemma CreateHandle_ok:
  assumes "full m" "scope_next isolate m = Some n" "scope_limit isolate m = Some l" "n \<noteq> l"
  shows "\<exists>h m'. CreateHandle R isolate v m = Some (h, m') \<and> full m'"
proof -
  obtain m1 where m1: "store_word (GetHandleScopeData isolate) (n + 8) m = Some m1" "full m1"
    using full_store_u64 [OF assms(1)] by blast
  obtain m2 where "store_word n v m1 = Some m2" "full m2" using full_store_u64 [OF m1(2)] by blast
  with m1 assms show ?thesis by (auto simp: CreateHandle_def Let_def)
qed

lemma scope_destructor_ok:
  assumes "full m" "scope_isolate s = isolate" "isolate \<noteq> 0" "scope_limit isolate m = Some (prev_limit s)"
    "scope_level isolate m = Some 1"
  shows "\<exists>m'. HandleScope_destructor R s m = Some m'"
proof -
  let ?c = "GetHandleScopeData isolate"
  obtain m1 where m1: "store_word ?c (prev_next s) m = Some m1" "full m1"
    using full_store_u64 [OF assms(1)] by blast
  have "load_word (?c + of_int 16) m1 = Some (1 :: u32)" "load_word (?c + of_int 8) m1 = Some (prev_limit s)"
    using frame_u64_u32 [OF m1(1) scope_data_apart(3)] u64_access.ld_frame [OF m1(1) scope_data_apart(2)]
      assms(4,5) by simp_all
  moreover from this obtain m2 where m2: "step_level (- 1) ?c m1 = Some m2"
    using step_level_ok [OF m1(2), of ?c 1 "- 1"] by (auto simp: INT_MIN_def INT_MAX_def)
  ultimately show ?thesis
    using m1 assms step_level_frame(2) [OF m2] by (auto simp: HandleScope_destructor_def Let_def)
qed

definition demo_lib :: scope_lib where
  "demo_lib = \<lparr>GetCurrentIsolate = 4096, Extend = (\<lambda>_ _. None), DeleteExtensions = (\<lambda>_ _. None),
     EscapeSlot = (\<lambda>_ _. None)\<rparr>"

text \<open>An isolate at 4096 with a block of four free slots at 65536.\<close>

lemma demo_isolate:
  "\<exists>m. full m \<and> in_block 4096 65536 4 m \<and> scope_next 4096 m = Some 65536 \<and> scope_limit 4096 m = Some 65568 \<and>
     scope_level 4096 m = Some 0"
proof -
  let ?c = "GetHandleScopeData 4096" and ?m = "(\<lambda>_. Some 0) :: mem"
  obtain m1 where m1: "store_word ?c (65536 :: u64) ?m = Some m1" "full m1"
    using full_store_u64 [OF full_const] by blast
  obtain m2 where m2: "store_word (?c + of_int 8) (65568 :: u64) m1 = Some m2" "full m2"
    using full_store_u64 [OF m1(2)] by blast
  have n: "load_word ?c m2 = Some (65536 :: u64)"
    using u64_access.ld_frame [OF m2(1) scope_data_apart(1)] u64_access.ld_st [OF m1(1)] by simp
  have l: "load_word (?c + of_int 8) m2 = Some (65568 :: u64)" by (rule u64_access.ld_st [OF m2(1)])
  have "load_word (?c + of_int 16) m1 = Some (0 :: u32)"
    using frame_u64_u32 [OF m1(1) scope_data_apart(3)] by (simp add: load_word_const le_word_zeros)
  then have "load_word (?c + of_int 16) m2 = Some (0 :: u32)"
    using frame_u64_u32 [OF m2(1) scope_data_apart(6)] by simp
  moreover have "in_block 4096 65536 4 m2"
    using n l by (auto simp: in_block_def slot_at_def intro: exI [of _ 0])
  ultimately show ?thesis using m2(2) n l by blast
qed

lemma demo_block: "block_apart 4096 65536 4"
  unfolding block_apart_def
proof (intro allI impI)
  fix i :: nat
  assume "i < 4"
  then have "i = 0 \<or> i = 1 \<or> i = 2 \<or> i = 3" by auto
  then show "let a = slot_at 65536 i; c = GetHandleScopeData 4096 in
      apart a 8 c 8 \<and> apart a 8 (c + of_int 8) 8 \<and> apart a 8 (c + of_int 16) 4"
    by (elim disjE) (simp_all add: Let_def slot_at_def GetHandleScopeData_def bits_simps apart_def)
qed


end
