(* ===== verification/V8_Access.thy ===== *)
theory V8_Access
  imports V8_Scopes
begin

text \<open>
  The inline accessors of \<open>v8-value.h\<close>, \<open>v8-object.h\<close>, \<open>v8-context.h\<close>, \<open>v8-primitive.h\<close> and \<open>v8-sandbox.h\<close>.
  A \<open>T*\<close> of the API is the slot of a handle; the accessors read the tagged value in it, look at the
  instance type of its map, and fetch a field. The parameter \<open>sr\<close> is \<open>V8_STATIC_ROOTS_BOOL\<close>; functions
  of the library are fields of a parameter record.
\<close>

section \<open>v8-value.h\<close>

record access_lib = scope_lib +
  FullIsTrue :: "u64 \<Rightarrow> mem \<Rightarrow> bool option"
  FullIsFalse :: "u64 \<Rightarrow> mem \<Rightarrow> bool option"
  SlowGetInternalField :: "u64 \<Rightarrow> int \<Rightarrow> mem \<Rightarrow> (u64 \<times> mem) option"
  SlowGetAlignedPointerFromInternalField :: "u64 \<Rightarrow> int \<Rightarrow> u16 \<Rightarrow> mem \<Rightarrow> u64 option"
  ToExternalPointerTag :: "u16 \<Rightarrow> u16"

text \<open>The oddball test that \<open>QuickIsUndefined\<close>, \<open>QuickIsNull\<close> and \<open>QuickIsNullOrUndefined\<close> share.\<close>

definition oddball_kind :: "u64 \<Rightarrow> mem \<Rightarrow> int option option" where
  "oddball_kind ob m =
     (if \<not> HasHeapObjectTag ob then Some None
      else do { t \<leftarrow> GetInstanceType ob m;
                if t \<noteq> kOddballType then Some None
                else do { k \<leftarrow> GetOddballKind ob m; Some (Some k) } })"

definition QuickIsUndefined :: "bool \<Rightarrow> u64 \<Rightarrow> mem \<Rightarrow> bool option" where
  "QuickIsUndefined sr this m =
     do { ob \<leftarrow> ValueAsAddress this m;
          if sr then Some (is_identical ob kUndefinedValue)
          else do { k \<leftarrow> oddball_kind ob m; Some (k = Some kUndefinedOddballKind) } }"

definition QuickIsNull :: "bool \<Rightarrow> u64 \<Rightarrow> mem \<Rightarrow> bool option" where
  "QuickIsNull sr this m =
     do { ob \<leftarrow> ValueAsAddress this m;
          if sr then Some (is_identical ob kNullValue)
          else do { k \<leftarrow> oddball_kind ob m; Some (k = Some kNullOddballKind) } }"

definition QuickIsNullOrUndefined :: "bool \<Rightarrow> u64 \<Rightarrow> mem \<Rightarrow> bool option" where
  "QuickIsNullOrUndefined sr this m =
     (if sr then do { n \<leftarrow> QuickIsNull sr this m;
                      if n then Some True else QuickIsUndefined sr this m }
      else do { ob \<leftarrow> ValueAsAddress this m;
                k \<leftarrow> oddball_kind ob m;
                Some (k = Some kNullOddballKind \<or> k = Some kUndefinedOddballKind) })"

definition QuickIsTrue :: "u64 \<Rightarrow> mem \<Rightarrow> bool option" where
  "QuickIsTrue this m = do { ob \<leftarrow> ValueAsAddress this m; Some (is_identical ob kTrueValue) }"

definition QuickIsFalse :: "u64 \<Rightarrow> mem \<Rightarrow> bool option" where
  "QuickIsFalse this m = do { ob \<leftarrow> ValueAsAddress this m; Some (is_identical ob kFalseValue) }"

definition QuickIsString :: "bool \<Rightarrow> u64 \<Rightarrow> mem \<Rightarrow> bool option" where
  "QuickIsString sr this m =
     do { ob \<leftarrow> ValueAsAddress this m;
          if \<not> HasHeapObjectTag ob then Some False
          else if sr then CheckInstanceMapRange ob kStringMapLowerBound kStringMapUpperBound m
          else do { t \<leftarrow> GetInstanceType ob m; Some (t < kFirstNonstringType) } }"

definition Value_IsUndefined :: "bool \<Rightarrow> u64 \<Rightarrow> mem \<Rightarrow> bool option" where
  "Value_IsUndefined sr this m = QuickIsUndefined sr this m"

definition Value_IsNull :: "bool \<Rightarrow> u64 \<Rightarrow> mem \<Rightarrow> bool option" where
  "Value_IsNull sr this m = QuickIsNull sr this m"

definition Value_IsNullOrUndefined :: "bool \<Rightarrow> u64 \<Rightarrow> mem \<Rightarrow> bool option" where
  "Value_IsNullOrUndefined sr this m = QuickIsNullOrUndefined sr this m"

definition Value_IsTrue :: "'x access_lib_scheme \<Rightarrow> bool \<Rightarrow> u64 \<Rightarrow> mem \<Rightarrow> bool option" where
  "Value_IsTrue R sr this m = (if sr then QuickIsTrue this m else FullIsTrue R this m)"

definition Value_IsFalse :: "'x access_lib_scheme \<Rightarrow> bool \<Rightarrow> u64 \<Rightarrow> mem \<Rightarrow> bool option" where
  "Value_IsFalse R sr this m = (if sr then QuickIsFalse this m else FullIsFalse R this m)"

definition Value_IsString :: "bool \<Rightarrow> u64 \<Rightarrow> mem \<Rightarrow> bool option" where
  "Value_IsString sr this m = QuickIsString sr this m"

definition TypecheckWitness_Matches :: "u64 \<Rightarrow> u64 \<Rightarrow> mem \<Rightarrow> bool option" where
  "TypecheckWitness_Matches cached_map candidate m =
     do { ob \<leftarrow> ValueAsAddress candidate m;
          obj_map \<leftarrow> LoadMap ob m;
          cached \<leftarrow> ValueAsAddress cached_map m;
          Some (obj_map = cached) }"

section \<open>v8-object.h\<close>

definition GetInternalField ::
    "'x access_lib_scheme \<Rightarrow> u64 \<Rightarrow> int \<Rightarrow> mem \<Rightarrow> (u64 \<times> mem) option" where
  "GetInternalField R this index m =
     do { ob \<leftarrow> ValueAsAddress this m;
          instance_type \<leftarrow> GetInstanceType ob m;
          if CanHaveInternalField instance_type then
            do { let offset = kJSAPIObjectWithEmbedderSlotsHeaderSize + kEmbedderDataSlotSize * index;
                 value \<leftarrow> (ReadRawField ob offset m :: u64 option);
                 let v = DecompressTaggedField ob (ucast value);
                 Local_New R (GetCurrentIsolate R) v m }
          else SlowGetInternalField R this index m }"

definition GetAlignedPointerFromInternalField ::
    "'x access_lib_scheme \<Rightarrow> u64 \<Rightarrow> u64 \<Rightarrow> int \<Rightarrow> u16 \<Rightarrow> mem \<Rightarrow> u64 option" where
  "GetAlignedPointerFromInternalField R isolate this index tag m =
     do { ob \<leftarrow> ValueAsAddress this m;
          instance_type \<leftarrow> GetInstanceType ob m;
          if CanHaveInternalField instance_type then
            (let offset = kJSAPIObjectWithEmbedderSlotsHeaderSize + kEmbedderDataSlotSize * index +
                          kEmbedderDataSlotExternalPointerOffset
             in ReadExternalPointerField isolate ob offset (TagRange_single (ToExternalPointerTag R tag)) m)
          else SlowGetAlignedPointerFromInternalField R this index tag m }"

definition GetAlignedPointerFromInternalField_current ::
    "'x access_lib_scheme \<Rightarrow> u64 \<Rightarrow> int \<Rightarrow> u16 \<Rightarrow> mem \<Rightarrow> u64 option" where
  "GetAlignedPointerFromInternalField_current R this index tag m =
     do { ob \<leftarrow> ValueAsAddress this m;
          instance_type \<leftarrow> GetInstanceType ob m;
          if CanHaveInternalField instance_type then
            (let offset = kJSAPIObjectWithEmbedderSlotsHeaderSize + kEmbedderDataSlotSize * index +
                          kEmbedderDataSlotExternalPointerOffset;
                 isolate = GetCurrentIsolate R
             in ReadExternalPointerField isolate ob offset (TagRange_single (ToExternalPointerTag R tag)) m)
          else SlowGetAlignedPointerFromInternalField R this index tag m }"

text \<open>\<open>Unwrap\<close> of a local, a persistent or a traced handle; the overloads with a template tag pass the
  range of that one tag.\<close>

definition Object_Unwrap :: "u64 \<Rightarrow> u64 \<Rightarrow> TagRange \<Rightarrow> mem \<Rightarrow> u64 option" where
  "Object_Unwrap isolate wrapper tag_range m =
     do { ob \<leftarrow> ValueAsAddress wrapper m;
          ReadCppHeapPointerField isolate ob kJSObjectHeaderSize tag_range m }"

definition Object_Unwrap_tag :: "u16 \<Rightarrow> u64 \<Rightarrow> u64 \<Rightarrow> mem \<Rightarrow> u64 option" where
  "Object_Unwrap_tag tag isolate wrapper m =
     (let tag_range = TagRange tag tag in
      do { ob \<leftarrow> ValueAsAddress wrapper m;
           ReadCppHeapPointerField isolate ob kJSObjectHeaderSize tag_range m })"

definition Object_Unwrap_persistent :: "u64 \<Rightarrow> u64 \<Rightarrow> TagRange \<Rightarrow> mem \<Rightarrow> u64 option" where
  "Object_Unwrap_persistent isolate wrapper tag_range m =
     do { ob \<leftarrow> ValueAsAddress (IndirectHandle_value wrapper) m;
          ReadCppHeapPointerField isolate ob kJSObjectHeaderSize tag_range m }"

definition Object_Unwrap_persistent_tag :: "u16 \<Rightarrow> u64 \<Rightarrow> u64 \<Rightarrow> mem \<Rightarrow> u64 option" where
  "Object_Unwrap_persistent_tag tag isolate wrapper m =
     (let tag_range = TagRange tag tag in
      do { ob \<leftarrow> ValueAsAddress (IndirectHandle_value wrapper) m;
           ReadCppHeapPointerField isolate ob kJSObjectHeaderSize tag_range m })"

section \<open>v8-context.h\<close>

definition embedder_data :: "u64 \<Rightarrow> mem \<Rightarrow> u64 option" where
  "embedder_data this m =
     do { ctx \<leftarrow> ValueAsAddress this m;
          ReadTaggedPointerField ctx kNativeContextEmbedderDataOffset m }"

definition GetEmbedderDataV2 ::
    "'x access_lib_scheme \<Rightarrow> u64 \<Rightarrow> int \<Rightarrow> mem \<Rightarrow> (u64 \<times> mem) option" where
  "GetEmbedderDataV2 R this index m =
     do { ed \<leftarrow> embedder_data this m;
          let value_offset = kEmbedderDataArrayHeaderSize + kEmbedderDataSlotSize * index;
          value \<leftarrow> (ReadRawField ed value_offset m :: u64 option);
          let v = DecompressTaggedField ed (ucast value);
          Local_New R (GetCurrentIsolate R) v m }"

definition Context_GetEmbedderData ::
    "'x access_lib_scheme \<Rightarrow> u64 \<Rightarrow> int \<Rightarrow> mem \<Rightarrow> (u64 \<times> mem) option" where
  "Context_GetEmbedderData R this index m =
     do { ed \<leftarrow> embedder_data this m;
          let value_offset = kEmbedderDataArrayHeaderSize + kEmbedderDataSlotSize * index;
          value \<leftarrow> (ReadRawField ed value_offset m :: u64 option);
          let v = DecompressTaggedField ed (ucast value);
          Local_New R (GetCurrentIsolate R) v m }"

definition GetAlignedPointerFromEmbedderData ::
    "'x access_lib_scheme \<Rightarrow> u64 \<Rightarrow> u64 \<Rightarrow> int \<Rightarrow> u16 \<Rightarrow> mem \<Rightarrow> u64 option" where
  "GetAlignedPointerFromEmbedderData R isolate this index tag m =
     do { ed \<leftarrow> embedder_data this m;
          let value_offset = kEmbedderDataArrayHeaderSize + kEmbedderDataSlotSize * index +
                             kEmbedderDataSlotExternalPointerOffset;
          ReadExternalPointerField isolate ed value_offset (TagRange_single (ToExternalPointerTag R tag)) m }"

definition GetAlignedPointerFromEmbedderData_current ::
    "'x access_lib_scheme \<Rightarrow> u64 \<Rightarrow> int \<Rightarrow> u16 \<Rightarrow> mem \<Rightarrow> u64 option" where
  "GetAlignedPointerFromEmbedderData_current R this index tag m =
     do { ed \<leftarrow> embedder_data this m;
          let value_offset = kEmbedderDataArrayHeaderSize + kEmbedderDataSlotSize * index +
                             kEmbedderDataSlotExternalPointerOffset;
          let isolate = GetCurrentIsolate R;
          ReadExternalPointerField isolate ed value_offset (TagRange_single (ToExternalPointerTag R tag)) m }"

text \<open>\<open>GetDataFromSnapshotOnce\<close> of a context or an isolate: what the library returns, 0 when empty.\<close>

definition GetDataFromSnapshotOnce :: "u64 \<Rightarrow> u64" where
  "GetDataFromSnapshotOnce repr =
     (if repr \<noteq> ValueHelper_kEmpty then LocalBase_FromSlot (ReprAsValue repr) else 0)"

section \<open>v8-primitive.h\<close>

definition Undefined_local :: "u64 \<Rightarrow> u64" where
  "Undefined_local isolate = Local_FromSlot (GetRootSlot isolate kUndefinedValueRootIndex)"

definition Null_local :: "u64 \<Rightarrow> u64" where
  "Null_local isolate = Local_FromSlot (GetRootSlot isolate kNullValueRootIndex)"

definition True_local :: "u64 \<Rightarrow> u64" where
  "True_local isolate = Local_FromSlot (GetRootSlot isolate kTrueValueRootIndex)"

definition False_local :: "u64 \<Rightarrow> u64" where
  "False_local isolate = Local_FromSlot (GetRootSlot isolate kFalseValueRootIndex)"

definition String_Empty_local :: "u64 \<Rightarrow> u64" where
  "String_Empty_local isolate = Local_FromSlot (GetRootSlot isolate kEmptyStringRootIndex)"

definition Boolean_New_local :: "u64 \<Rightarrow> bool \<Rightarrow> u64" where
  "Boolean_New_local isolate value = (if value then True_local isolate else False_local isolate)"

record string_lib = access_lib +
  GetExternalStringResourceSlow :: "u64 \<Rightarrow> mem \<Rightarrow> u64 option"
  GetExternalOneByteStringResourceSlow :: "u64 \<Rightarrow> mem \<Rightarrow> u64 option"
  GetExternalStringResourceBaseSlow :: "u64 \<Rightarrow> mem \<Rightarrow> (u64 \<times> int) option"

definition GetExternalStringResource :: "'x string_lib_scheme \<Rightarrow> u64 \<Rightarrow> mem \<Rightarrow> u64 option" where
  "GetExternalStringResource R this m =
     do { ob \<leftarrow> ValueAsAddress this m;
          t \<leftarrow> GetInstanceType ob m;
          if IsExternalTwoByteString t then
            ReadExternalPointerField_static (TagRange_single kExternalStringResourceTag)
              (GetCurrentIsolate R) ob kStringResourceOffset m
          else GetExternalStringResourceSlow R this m }"

definition GetExternalOneByteStringResource :: "'x string_lib_scheme \<Rightarrow> u64 \<Rightarrow> mem \<Rightarrow> u64 option" where
  "GetExternalOneByteStringResource R this m =
     do { ob \<leftarrow> ValueAsAddress this m;
          t \<leftarrow> GetInstanceType ob m;
          if IsExternalOneByteString t then
            ReadExternalPointerField_static (TagRange_single kExternalStringResourceTag)
              (GetCurrentIsolate R) ob kStringResourceOffset m
          else GetExternalOneByteStringResourceSlow R this m }"

text \<open>The resource and, through \<open>encoding_out\<close>, the encoding: 0 two-byte, 8 one-byte.\<close>

definition GetExternalStringResourceBase ::
    "'x string_lib_scheme \<Rightarrow> u64 \<Rightarrow> u64 \<Rightarrow> mem \<Rightarrow> (u64 \<times> int) option" where
  "GetExternalStringResourceBase R isolate this m =
     do { ob \<leftarrow> ValueAsAddress this m;
          t \<leftarrow> GetInstanceType ob m;
          let type = t AND kStringRepresentationAndEncodingMask;
          let encoding = type AND kStringEncodingMask;
          if type = kExternalOneByteRepresentationTag \<or> type = kExternalTwoByteRepresentationTag then
            do { value \<leftarrow> ReadExternalPointerField_static (TagRange_single kExternalStringResourceTag)
                            isolate ob kStringResourceOffset m;
                 Some (value, encoding) }
          else GetExternalStringResourceBaseSlow R this m }"

definition GetExternalStringResourceBase_current ::
    "'x string_lib_scheme \<Rightarrow> u64 \<Rightarrow> mem \<Rightarrow> (u64 \<times> int) option" where
  "GetExternalStringResourceBase_current R this m =
     GetExternalStringResourceBase R (GetCurrentIsolate R) this m"

section \<open>Properties\<close>

lemma access_oddballs:
  "kUndefinedOddballKind \<noteq> kNullOddballKind" "kUndefinedValue \<noteq> kNullValue" "kUndefinedValue \<noteq> kTrueValue"
  "kUndefinedValue \<noteq> kFalseValue" "kNullValue \<noteq> kTrueValue" "kNullValue \<noteq> kFalseValue" "kTrueValue \<noteq> kFalseValue"
  by (simp_all add: instance_defs)

lemma oddball_not_string:
  assumes "oddball_kind ob m = Some (Some k)"
  shows "HasHeapObjectTag ob \<and> (\<exists>t. GetInstanceType ob m = Some t \<and> \<not> t < kFirstNonstringType)"
  using assms by (auto simp: oddball_kind_def run_simps instance_defs)

text \<open>The type tests are consistent on every memory. The combined test is the disjunction of the two and
  is defined when they are; and what tests as \<open>undefined\<close> or \<open>null\<close> does not test as the other, nor as
  \<open>true\<close> or \<open>false\<close> (with static roots), nor as a string (by instance types).\<close>

lemma type_tests_consistent:
  "Value_IsNullOrUndefined sr this m =
     (case (Value_IsNull sr this m, Value_IsUndefined sr this m) of
        (Some n, Some u) \<Rightarrow> Some (n \<or> u) | _ \<Rightarrow> None) \<and>
   (Value_IsUndefined sr this m = Some True \<longrightarrow> Value_IsNull sr this m = Some False) \<and>
   (Value_IsNullOrUndefined sr this m = Some True \<longrightarrow>
     (if sr then Value_IsTrue R sr this m = Some False \<and> Value_IsFalse R sr this m = Some False
      else Value_IsString sr this m = Some False))"
proof -
  note defs = Value_IsNullOrUndefined_def Value_IsNull_def Value_IsUndefined_def QuickIsNullOrUndefined_def
    QuickIsNull_def QuickIsUndefined_def Value_IsTrue_def QuickIsTrue_def Value_IsFalse_def QuickIsFalse_def
    Value_IsString_def QuickIsString_def is_identical_def
  show ?thesis
  proof (cases "ValueAsAddress this m")
    case None
    then show ?thesis by (simp add: defs)
  next
    case (Some ob)
    show ?thesis
    proof (cases sr)
      case True
      with Some access_oddballs show ?thesis by (auto simp: defs)
    next
      case False
      show ?thesis
      proof (cases "oddball_kind ob m")
        case None
        with Some False show ?thesis by (simp add: defs)
      next
        case (Some k)
        then show ?thesis
          using \<open>ValueAsAddress this m = Some ob\<close> False access_oddballs(1) oddball_not_string [of ob m]
          by (cases k) (auto simp: defs)
      qed
    qed
  qed
qed

section \<open>Unwrapping\<close>

text \<open>C16: \<open>Unwrap\<close> gives a non-null C++ object only when the table entry of the wrapper carries a tag of the
  range asked for, mark bit aside, and then it gives exactly the pointer stored there; the overload with
  a template tag accepts that tag only.\<close>

theorem unwrap_checked:
  assumes "range_valid tag_range" "Object_Unwrap isolate wrapper tag_range m = Some p" "p \<noteq> 0"
  shows "\<exists>ob handle table entry. ValueAsAddress wrapper m = Some ob \<and>
      ReadRawField ob kJSObjectHeaderSize m = Some handle \<and>
      GetCppHeapPointerTableBase isolate m = Some table \<and> table_entry table handle m = Some entry \<and>
      TagRange_Contains tag_range (drop_bit 1 (ucast entry)) \<and> p = drop_bit kCppHeapPointerPayloadShift entry \<and>
      (\<forall>tag. Object_Unwrap_tag tag isolate wrapper m =
         Some (if tag = drop_bit 1 (ucast entry) then p else 0))"
proof -
  obtain ob handle table entry where e: "ValueAsAddress wrapper m = Some ob"
    "ReadRawField ob kJSObjectHeaderSize m = Some handle" "GetCppHeapPointerTableBase isolate m = Some table"
    "table_entry table handle m = Some entry" "p = safe_cppheap_entry tag_range entry"
    using assms(2) by (auto simp: Object_Unwrap_def ReadCppHeapPointerField_def)
  have c: "TagRange_Contains tag_range (drop_bit 1 (ucast entry))" "p = drop_bit kCppHeapPointerPayloadShift entry"
    using assms(1,3) e(5)
    by (auto simp: safe_cppheap_entry_eq TagRange_Contains_iff range_tags_def kCppHeapPointerPayloadShift_def split: if_splits)
  have "Object_Unwrap_tag tag isolate wrapper m = Some (if tag = drop_bit 1 (ucast entry) then p else 0)" for tag
    using e(1-4) c(2)
    by (auto simp: Object_Unwrap_tag_def ReadCppHeapPointerField_def safe_cppheap_entry_eq kCppHeapPointerPayloadShift_def)
  with e c show ?thesis by blast
qed

theorem unwrap_checked_witness:
  "\<exists>m. Object_Unwrap 4096 8192 kAnyCppHeapPointer m = Some 0x1234 \<and> Object_Unwrap_tag 1 4096 8192 m = Some 0x1234 \<and>
     Object_Unwrap_tag 2 4096 8192 m = Some 0"
proof -
  obtain m where m: "store_word 0 (0x12340003 :: u64) (\<lambda>_. Some 0) = Some m"
    using full_store_u64 [OF full_const] by blast
  have z: "load_word a m = Some (0 :: u64)" if "apart 0 8 a 8" for a
    using u64_access.ld_frame [OF m that] by (simp add: load_word_const le_word_zeros)
  have z': "load_word a m = Some (0 :: u32)" if "apart 0 8 a 4" for a
    using frame_u64_u32 [OF m that] by (simp add: load_word_const le_word_zeros)
  have ob: "ValueAsAddress 8192 m = Some 0" by (simp add: ValueAsAddress_def z apart_def)
  have handle: "ReadRawField 0 kJSObjectHeaderSize m = Some (0 :: u32)"
    by (simp add: ReadRawField_def z' apart_def bits_simps kHeapObjectTag_def)
  have table: "GetCppHeapPointerTableBase 4096 m = Some 0"
    by (simp add: GetCppHeapPointerTableBase_def z apart_def bits_simps kExternalEntityTableBasePointerOffset_def)
  have entry: "table_entry 0 0 m = Some 0x12340003" using u64_access.ld_st [OF m] by (simp add: table_entry_def)
  have uw: "Object_Unwrap 4096 8192 kAnyCppHeapPointer m = Some 0x1234"
    using ob handle table entry
    by (simp add: Object_Unwrap_def ReadCppHeapPointerField_def safe_cppheap_entry_eq cppheap_tag_defs One_nat_def)
  have v: "range_valid kAnyCppHeapPointer" by (simp add: cppheap_tag_defs range_valid_def One_nat_def)
  from unwrap_checked [OF v uw] ob handle table entry uw show ?thesis
    by (intro exI [of _ m]) (auto simp: One_nat_def)
qed

end
