(* ===== verification/V8_CallbackInfo.thy ===== *)
theory V8_CallbackInfo
  imports V8_Access V8_Double
begin

text \<open>
  \<open>v8-function-callback.h\<close>: how a callback reads its arguments and sets its result. \<open>FunctionCallbackInfo\<close>
  and \<open>PropertyCallbackInfo\<close> are views of a stack frame, here the address of their first word; a
  \<open>ReturnValue\<close> is the address of the word the result goes to, whose predecessor is the isolate. \<open>sr\<close> is
  \<open>V8_STATIC_ROOTS_BOOL\<close>.
\<close>

record callback_lib = access_lib +
  NumberNew :: "u64 \<Rightarrow> u64 \<Rightarrow> mem \<Rightarrow> (u64 \<times> mem) option"
  IntegerNew :: "u64 \<Rightarrow> int \<Rightarrow> mem \<Rightarrow> (u64 \<times> mem) option"
  IntegerNewFromUnsigned :: "u64 \<Rightarrow> u32 \<Rightarrow> mem \<Rightarrow> (u64 \<times> mem) option"
  GetFunctionTemplateData :: "u64 \<Rightarrow> u64 \<Rightarrow> mem \<Rightarrow> (u64 \<times> mem) option"
  LibShouldThrowOnError :: "u64 \<Rightarrow> mem \<Rightarrow> bool option"

section \<open>The frame layouts\<close>

definition FCI_kNewTargetIndex :: int where "FCI_kNewTargetIndex = - 1"
definition FCI_kArgcIndex :: int where "FCI_kArgcIndex = FCI_kNewTargetIndex + 1"
definition FCI_kFrameSPIndex :: int where "FCI_kFrameSPIndex = FCI_kArgcIndex + 1"
definition FCI_kFrameTypeIndex :: int where "FCI_kFrameTypeIndex = FCI_kFrameSPIndex + 1"
definition FCI_kFrameConstantPoolIndex :: int where "FCI_kFrameConstantPoolIndex = FCI_kFrameTypeIndex + 1"
definition FCI_kFrameFPIndex :: int where "FCI_kFrameFPIndex = FCI_kFrameConstantPoolIndex + kFrameCPSlotCount"
definition FCI_kFramePCIndex :: int where "FCI_kFramePCIndex = FCI_kFrameFPIndex + 1"
definition FCI_kFirstApiArgumentIndex :: int where "FCI_kFirstApiArgumentIndex = FCI_kFramePCIndex + 1"
definition FCI_kIsolateIndex :: int where "FCI_kIsolateIndex = FCI_kFirstApiArgumentIndex"
definition FCI_kReturnValueIndex :: int where "FCI_kReturnValueIndex = FCI_kIsolateIndex + 1"
definition FCI_kContextIndex :: int where "FCI_kContextIndex = FCI_kReturnValueIndex + 1"
definition FCI_kTargetIndex :: int where "FCI_kTargetIndex = FCI_kContextIndex + 1"
definition FCI_kReceiverIndex :: int where "FCI_kReceiverIndex = FCI_kTargetIndex + 1"
definition FCI_kFirstJSArgumentIndex :: int where "FCI_kFirstJSArgumentIndex = FCI_kReceiverIndex + 1"
definition FCI_kArgsLength :: int where "FCI_kArgsLength = FCI_kReceiverIndex + 1"
definition FCI_kOptionalArgsLength :: int where "FCI_kOptionalArgsLength = 1"
definition FCI_kApiArgsLength :: int where "FCI_kApiArgsLength = FCI_kReceiverIndex - FCI_kFirstApiArgumentIndex"

definition PCI_kPropertyKeyIndex :: int where "PCI_kPropertyKeyIndex = 0"
definition PCI_kFrameSPIndex :: int where "PCI_kFrameSPIndex = PCI_kPropertyKeyIndex + 1"
definition PCI_kFrameTypeIndex :: int where "PCI_kFrameTypeIndex = PCI_kFrameSPIndex + 1"
definition PCI_kFrameConstantPoolIndex :: int where "PCI_kFrameConstantPoolIndex = PCI_kFrameTypeIndex + 1"
definition PCI_kFrameFPIndex :: int where "PCI_kFrameFPIndex = PCI_kFrameConstantPoolIndex + kFrameCPSlotCount"
definition PCI_kFramePCIndex :: int where "PCI_kFramePCIndex = PCI_kFrameFPIndex + 1"
definition PCI_kFirstApiArgumentIndex :: int where "PCI_kFirstApiArgumentIndex = PCI_kFramePCIndex + 1"
definition PCI_kIsolateIndex :: int where "PCI_kIsolateIndex = PCI_kFirstApiArgumentIndex"
definition PCI_kReturnValueIndex :: int where "PCI_kReturnValueIndex = PCI_kIsolateIndex + 1"
definition PCI_kCallbackInfoIndex :: int where "PCI_kCallbackInfoIndex = PCI_kReturnValueIndex + 1"
definition PCI_kHolderIndex :: int where "PCI_kHolderIndex = PCI_kCallbackInfoIndex + 1"
definition PCI_kFirstOptionalArgument :: int where "PCI_kFirstOptionalArgument = PCI_kHolderIndex + 1"
definition PCI_kShouldThrowOnErrorIndex :: int where "PCI_kShouldThrowOnErrorIndex = PCI_kFirstOptionalArgument"
definition PCI_kValueIndex :: int where "PCI_kValueIndex = PCI_kShouldThrowOnErrorIndex + 1"
definition PCI_kFullArgsLength :: int where "PCI_kFullArgsLength = PCI_kValueIndex + 1"
definition PCI_kMandatoryArgsLength :: int where "PCI_kMandatoryArgsLength = PCI_kFirstOptionalArgument"
definition PCI_kOptionalArgsLength :: int where "PCI_kOptionalArgsLength = PCI_kFullArgsLength - PCI_kFirstOptionalArgument"
definition PCI_kMandatoryApiArgsLength :: int where "PCI_kMandatoryApiArgsLength = PCI_kMandatoryArgsLength - PCI_kFirstApiArgumentIndex"
definition PCI_kFullApiArgsLength :: int where "PCI_kFullApiArgsLength = PCI_kFullArgsLength - PCI_kFirstApiArgumentIndex"

lemmas FCI_defs =
  FCI_kNewTargetIndex_def FCI_kArgcIndex_def FCI_kFrameSPIndex_def FCI_kFrameTypeIndex_def
  FCI_kFrameConstantPoolIndex_def FCI_kFrameFPIndex_def FCI_kFramePCIndex_def
  FCI_kFirstApiArgumentIndex_def FCI_kIsolateIndex_def FCI_kReturnValueIndex_def
  FCI_kContextIndex_def FCI_kTargetIndex_def FCI_kReceiverIndex_def
  FCI_kFirstJSArgumentIndex_def FCI_kArgsLength_def FCI_kOptionalArgsLength_def
  FCI_kApiArgsLength_def

lemmas PCI_defs =
  PCI_kPropertyKeyIndex_def PCI_kFrameSPIndex_def PCI_kFrameTypeIndex_def
  PCI_kFrameConstantPoolIndex_def PCI_kFrameFPIndex_def PCI_kFramePCIndex_def
  PCI_kFirstApiArgumentIndex_def PCI_kIsolateIndex_def PCI_kReturnValueIndex_def
  PCI_kCallbackInfoIndex_def PCI_kHolderIndex_def PCI_kFirstOptionalArgument_def
  PCI_kShouldThrowOnErrorIndex_def PCI_kValueIndex_def PCI_kFullArgsLength_def
  PCI_kMandatoryArgsLength_def PCI_kOptionalArgsLength_def PCI_kMandatoryApiArgsLength_def
  PCI_kFullApiArgsLength_def

definition kIsolateValueIndex :: int where "kIsolateValueIndex = - 1"

text \<open>\<open>&a[i]\<close> of an array of addresses, and \<open>a[i]\<close>.\<close>

definition word_slot :: "u64 \<Rightarrow> int \<Rightarrow> u64" where
  "word_slot a i = a + of_int (kApiSystemPointerSize * i)"

definition word_at :: "u64 \<Rightarrow> int \<Rightarrow> mem \<Rightarrow> u64 option" where
  "word_at a i m = load_word (word_slot a i) m"

section \<open>ReturnValue\<close>

text \<open>The type arguments \<open>SetDefaultValue\<close> tells apart; for every other one it does not compile.\<close>

datatype return_type = RetVoid | RetBoolean | RetInteger | RetValue | RetArray

definition SetInternal :: "bool \<Rightarrow> u64 \<Rightarrow> u64 \<Rightarrow> mem \<Rightarrow> mem option" where
  "SetInternal sr rv value m =
     (if sr then do { old \<leftarrow> load_word rv m;
                      store_word rv (DecompressTaggedField old (CompressTagged value)) m }
      else store_word rv value m)"

definition ReturnValue_GetIsolate :: "u64 \<Rightarrow> mem \<Rightarrow> u64 option" where
  "ReturnValue_GetIsolate rv m = word_at rv kIsolateValueIndex m"

text \<open>\<open>*value_ = GetRoot(GetIsolate(), index)\<close>, the branch without static roots.\<close>

definition set_root :: "bool \<Rightarrow> u64 \<Rightarrow> int \<Rightarrow> mem \<Rightarrow> mem option" where
  "set_root sr rv index m =
     do { isolate \<leftarrow> ReturnValue_GetIsolate rv m;
          root \<leftarrow> GetRoot sr isolate index m;
          store_word rv root m }"

definition Set_bool :: "bool \<Rightarrow> u64 \<Rightarrow> bool \<Rightarrow> mem \<Rightarrow> mem option" where
  "Set_bool sr rv value m =
     (if sr then SetInternal sr rv (ucast (if value then kTrueValue else kFalseValue)) m
      else let root_index = (if value then kTrueValueRootIndex else kFalseValueRootIndex)
           in set_root sr rv root_index m)"

definition SetDefaultValue :: "bool \<Rightarrow> return_type \<Rightarrow> u64 \<Rightarrow> mem \<Rightarrow> mem option" where
  "SetDefaultValue sr T rv m =
     (if T = RetVoid \<or> T = RetBoolean then Set_bool sr rv True m
      else if T = RetInteger then SetInternal sr rv (IntegralToSmi 0) m
      else if sr then SetInternal sr rv (ucast kUndefinedValue) m
      else set_root sr rv kUndefinedValueRootIndex m)"

text \<open>\<open>Set\<close> and \<open>SetNonEmpty\<close> of a global, a traced and a local handle: all are slots.\<close>

definition Set_global :: "bool \<Rightarrow> return_type \<Rightarrow> u64 \<Rightarrow> u64 \<Rightarrow> mem \<Rightarrow> mem option" where
  "Set_global sr T rv handle m =
     (if IndirectHandle_IsEmpty handle then SetDefaultValue sr T rv m
      else do { p \<leftarrow> IndirectHandle_ptr handle m; SetInternal sr rv p m })"

definition SetNonEmpty_global :: "bool \<Rightarrow> u64 \<Rightarrow> u64 \<Rightarrow> mem \<Rightarrow> mem option" where
  "SetNonEmpty_global sr rv handle m = do { p \<leftarrow> IndirectHandle_ptr handle m; SetInternal sr rv p m }"

definition Set_traced :: "bool \<Rightarrow> return_type \<Rightarrow> u64 \<Rightarrow> u64 \<Rightarrow> mem \<Rightarrow> mem option" where
  "Set_traced sr T rv handle m =
     (if IndirectHandle_IsEmpty handle then SetDefaultValue sr T rv m
      else do { p \<leftarrow> IndirectHandle_ptr handle m; SetInternal sr rv p m })"

definition SetNonEmpty_traced :: "bool \<Rightarrow> u64 \<Rightarrow> u64 \<Rightarrow> mem \<Rightarrow> mem option" where
  "SetNonEmpty_traced sr rv handle m = do { p \<leftarrow> IndirectHandle_ptr handle m; SetInternal sr rv p m }"

definition Set_local :: "bool \<Rightarrow> return_type \<Rightarrow> u64 \<Rightarrow> u64 \<Rightarrow> mem \<Rightarrow> mem option" where
  "Set_local sr T rv handle m =
     (if IndirectHandle_IsEmpty handle then SetDefaultValue sr T rv m
      else do { p \<leftarrow> IndirectHandle_ptr handle m; SetInternal sr rv p m })"

definition SetNonEmpty_local :: "bool \<Rightarrow> u64 \<Rightarrow> u64 \<Rightarrow> mem \<Rightarrow> mem option" where
  "SetNonEmpty_local sr rv handle m = do { p \<leftarrow> IndirectHandle_ptr handle m; SetInternal sr rv p m }"

definition Set_double :: "'x callback_lib_scheme \<Rightarrow> bool \<Rightarrow> u64 \<Rightarrow> u64 \<Rightarrow> mem \<Rightarrow> mem option" where
  "Set_double R sr rv i m =
     do { isolate \<leftarrow> ReturnValue_GetIsolate rv m;
          (h, m1) \<leftarrow> NumberNew R isolate i m;
          SetNonEmpty_local sr rv h m1 }"

definition Set_int16 :: "bool \<Rightarrow> u64 \<Rightarrow> int \<Rightarrow> mem \<Rightarrow> mem option" where
  "Set_int16 sr rv i m = SetInternal sr rv (IntegralToSmi i) m"

definition Set_int32 :: "'x callback_lib_scheme \<Rightarrow> bool \<Rightarrow> u64 \<Rightarrow> int \<Rightarrow> mem \<Rightarrow> mem option" where
  "Set_int32 R sr rv i m =
     (case TryIntegralToSmi i of
        Some result \<Rightarrow> SetInternal sr rv result m
      | None \<Rightarrow> do { isolate \<leftarrow> ReturnValue_GetIsolate rv m;
                     (h, m1) \<leftarrow> IntegerNew R isolate i m;
                     SetNonEmpty_local sr rv h m1 })"

definition Set_int64 :: "'x callback_lib_scheme \<Rightarrow> bool \<Rightarrow> u64 \<Rightarrow> int \<Rightarrow> mem \<Rightarrow> mem option" where
  "Set_int64 R sr rv i m =
     (case TryIntegralToSmi i of
        Some result \<Rightarrow> SetInternal sr rv result m
      | None \<Rightarrow> do { isolate \<leftarrow> ReturnValue_GetIsolate rv m;
                     (h, m1) \<leftarrow> NumberNew R isolate (double_of_int64 i) m;
                     SetNonEmpty_local sr rv h m1 })"

definition Set_uint16 :: "bool \<Rightarrow> u64 \<Rightarrow> u16 \<Rightarrow> mem \<Rightarrow> mem option" where
  "Set_uint16 sr rv i m = SetInternal sr rv (AddressToSmi (ucast i)) m"

definition Set_uint32 :: "'x callback_lib_scheme \<Rightarrow> bool \<Rightarrow> u64 \<Rightarrow> u32 \<Rightarrow> mem \<Rightarrow> mem option" where
  "Set_uint32 R sr rv i m =
     (case TryIntegralToSmi_unsigned (ucast i) of
        Some result \<Rightarrow> SetInternal sr rv result m
      | None \<Rightarrow> do { isolate \<leftarrow> ReturnValue_GetIsolate rv m;
                     (h, m1) \<leftarrow> IntegerNewFromUnsigned R isolate i m;
                     SetNonEmpty_local sr rv h m1 })"

definition Set_uint64 :: "'x callback_lib_scheme \<Rightarrow> bool \<Rightarrow> u64 \<Rightarrow> u64 \<Rightarrow> mem \<Rightarrow> mem option" where
  "Set_uint64 R sr rv i m =
     (case TryIntegralToSmi_unsigned i of
        Some result \<Rightarrow> SetInternal sr rv result m
      | None \<Rightarrow> do { isolate \<leftarrow> ReturnValue_GetIsolate rv m;
                     (h, m1) \<leftarrow> NumberNew R isolate (double_of_int64 (uint i)) m;
                     SetNonEmpty_local sr rv h m1 })"

definition SetNull :: "bool \<Rightarrow> u64 \<Rightarrow> mem \<Rightarrow> mem option" where
  "SetNull sr rv m =
     (if sr then SetInternal sr rv (ucast kNullValue) m else set_root sr rv kNullValueRootIndex m)"

definition SetUndefined :: "bool \<Rightarrow> u64 \<Rightarrow> mem \<Rightarrow> mem option" where
  "SetUndefined sr rv m =
     (if sr then SetInternal sr rv (ucast kUndefinedValue) m
      else set_root sr rv kUndefinedValueRootIndex m)"

definition SetFalse :: "bool \<Rightarrow> u64 \<Rightarrow> mem \<Rightarrow> mem option" where
  "SetFalse sr rv m =
     (if sr then SetInternal sr rv (ucast kFalseValue) m else set_root sr rv kFalseValueRootIndex m)"

definition SetEmptyString :: "bool \<Rightarrow> u64 \<Rightarrow> mem \<Rightarrow> mem option" where
  "SetEmptyString sr rv m =
     (if sr then SetInternal sr rv (ucast kEmptyString) m else set_root sr rv kEmptyStringRootIndex m)"

definition ReturnValue_Get :: "'x callback_lib_scheme \<Rightarrow> u64 \<Rightarrow> mem \<Rightarrow> (u64 \<times> mem) option" where
  "ReturnValue_Get R rv m =
     do { isolate \<leftarrow> ReturnValue_GetIsolate rv m;
          LocalBase_New_value R isolate (SlotAsValue rv) m }"

section \<open>FunctionCallbackInfo\<close>

definition FCI_GetIsolate :: "u64 \<Rightarrow> mem \<Rightarrow> u64 option" where
  "FCI_GetIsolate info m = word_at info FCI_kIsolateIndex m"

definition FCI_Length :: "u64 \<Rightarrow> mem \<Rightarrow> int option" where
  "FCI_Length info m = do { argc \<leftarrow> word_at info FCI_kArgcIndex m; Some (sint (ucast argc :: u32)) }"

definition FCI_nth :: "u64 \<Rightarrow> int \<Rightarrow> mem \<Rightarrow> u64 option" where
  "FCI_nth info i m =
     do { len \<leftarrow> FCI_Length info m;
          if i < 0 \<or> len \<le> i then do { isolate \<leftarrow> FCI_GetIsolate info m; Some (Undefined_local isolate) }
          else do { k \<leftarrow> add_int FCI_kFirstJSArgumentIndex i; Some (Local_FromSlot (word_slot info k)) } }"

definition FCI_This :: "u64 \<Rightarrow> u64" where
  "FCI_This info = Local_FromSlot (word_slot info FCI_kReceiverIndex)"

definition FCI_IsConstructCall :: "u64 \<Rightarrow> mem \<Rightarrow> bool option" where
  "FCI_IsConstructCall info m =
     do { t \<leftarrow> word_at info FCI_kFrameTypeIndex m; Some (SmiValue t = kFrameTypeApiConstructExit) }"

definition FCI_NewTarget :: "u64 \<Rightarrow> mem \<Rightarrow> u64 option" where
  "FCI_NewTarget info m =
     do { c \<leftarrow> FCI_IsConstructCall info m;
          if c then Some (Local_FromSlot (word_slot info FCI_kNewTargetIndex))
          else do { isolate \<leftarrow> FCI_GetIsolate info m; Some (Undefined_local isolate) } }"

definition FCI_Data :: "'x callback_lib_scheme \<Rightarrow> u64 \<Rightarrow> mem \<Rightarrow> (u64 \<times> mem) option" where
  "FCI_Data R info m =
     (let target = Local_FromSlot (word_slot info FCI_kTargetIndex) in
      do { isolate \<leftarrow> FCI_GetIsolate info m; GetFunctionTemplateData R isolate target m })"

definition FCI_GetReturnValue :: "u64 \<Rightarrow> u64" where
  "FCI_GetReturnValue info = word_slot info FCI_kReturnValueIndex"

section \<open>PropertyCallbackInfo\<close>

definition PCI_IsNamed :: "u64 \<Rightarrow> mem \<Rightarrow> bool option" where
  "PCI_IsNamed info m =
     do { t \<leftarrow> word_at info PCI_kFrameTypeIndex m; Some (SmiValue t = kFrameTypeApiNamedAccessorExit) }"

definition PCI_GetIsolate :: "u64 \<Rightarrow> mem \<Rightarrow> u64 option" where
  "PCI_GetIsolate info m = word_at info PCI_kIsolateIndex m"

definition PCI_Data :: "'x callback_lib_scheme \<Rightarrow> u64 \<Rightarrow> mem \<Rightarrow> (u64 \<times> mem) option" where
  "PCI_Data R info m =
     do { callback_info \<leftarrow> word_at info PCI_kCallbackInfoIndex m;
          data \<leftarrow> ReadTaggedPointerField callback_info kCallbackInfoDataOffset m;
          isolate \<leftarrow> PCI_GetIsolate info m;
          Local_New R isolate data m }"

definition PCI_Holder :: "u64 \<Rightarrow> u64" where
  "PCI_Holder info = Local_FromSlot (word_slot info PCI_kHolderIndex)"

definition PCI_HolderV2 :: "u64 \<Rightarrow> u64" where
  "PCI_HolderV2 info = PCI_Holder info"

definition PCI_GetReturnValue :: "u64 \<Rightarrow> u64" where
  "PCI_GetReturnValue info = word_slot info PCI_kReturnValueIndex"

definition HasShouldThrowOnError :: "return_type \<Rightarrow> bool" where
  "HasShouldThrowOnError T \<longleftrightarrow> T = RetBoolean \<or> T = RetVoid"

definition PCI_ShouldThrowOnError ::
    "'x callback_lib_scheme \<Rightarrow> return_type \<Rightarrow> u64 \<Rightarrow> mem \<Rightarrow> bool option" where
  "PCI_ShouldThrowOnError R T info m =
     (if \<not> HasShouldThrowOnError T then Some False
      else do { a \<leftarrow> word_at info PCI_kShouldThrowOnErrorIndex m;
                if a \<noteq> IntegralToSmi kInferShouldThrowMode then Some (a \<noteq> IntegralToSmi kDontThrow)
                else do { isolate \<leftarrow> PCI_GetIsolate info m; LibShouldThrowOnError R isolate m } })"

lemma FCI_indices [bits_simps]:
  "FCI_kNewTargetIndex = - 1" "FCI_kArgcIndex = 0" "FCI_kFrameTypeIndex = 2" "FCI_kIsolateIndex = 5"
  "FCI_kReturnValueIndex = 6" "FCI_kContextIndex = 7" "FCI_kTargetIndex = 8" "FCI_kReceiverIndex = 9"
  "FCI_kFirstJSArgumentIndex = 10"
  by (simp_all add: FCI_defs kFrameCPSlotCount_def)

lemma PCI_indices [bits_simps]:
  "PCI_kPropertyKeyIndex = 0" "PCI_kFrameTypeIndex = 2" "PCI_kIsolateIndex = 5" "PCI_kReturnValueIndex = 6"
  "PCI_kCallbackInfoIndex = 7" "PCI_kHolderIndex = 8" "PCI_kShouldThrowOnErrorIndex = 9"
  by (simp_all add: PCI_defs kFrameCPSlotCount_def)

lemma word_slot_add: "word_slot (word_slot a i) j = word_slot a (i + j)"
  by (simp add: word_slot_def distrib_left add.assoc)

section \<open>The frame of a call\<close>

text \<open>What a call is, and the words of the frame that shows it to the callback.\<close>

record js_call =
  js_isolate :: u64
  js_result :: u64
  js_context :: u64
  js_target :: u64
  js_receiver :: u64
  js_args :: "u64 list"
  js_new_target :: "u64 option"

definition frame_type :: "js_call \<Rightarrow> int" where
  "frame_type c = (if js_new_target c = None then kFrameTypeApiCallExit else kFrameTypeApiConstructExit)"

definition frame_words :: "u64 \<Rightarrow> u64 \<Rightarrow> u64 \<Rightarrow> js_call \<Rightarrow> u64 list" where
  "frame_words sp fp pc c =
     [of_nat (length (js_args c)), sp, IntegralToSmi (frame_type c), fp, pc, js_isolate c, js_result c,
      js_context c, js_target c, js_receiver c] @ js_args c"

definition shows_call :: "u64 \<Rightarrow> js_call \<Rightarrow> mem \<Rightarrow> bool" where
  "shows_call info c m \<longleftrightarrow>
     (\<exists>sp fp pc. \<forall>k < length (frame_words sp fp pc c). word_at info (int k) m = Some (frame_words sp fp pc c ! k)) \<and>
     (\<forall>t. js_new_target c = Some t \<longrightarrow> word_at info FCI_kNewTargetIndex m = Some t)"

lemma shows_call_fixed:
  assumes "shows_call info c m"
  shows "word_at info 0 m = Some (of_nat (length (js_args c)))"
    "word_at info 2 m = Some (IntegralToSmi (frame_type c))" "word_at info 5 m = Some (js_isolate c)"
    "word_at info 6 m = Some (js_result c)" "word_at info 8 m = Some (js_target c)"
    "word_at info 9 m = Some (js_receiver c)"
    "i < length (js_args c) \<Longrightarrow> word_at info (10 + int i) m = Some (js_args c ! i)"
    "js_new_target c = Some t \<Longrightarrow> word_at info (- 1) m = Some t"
proof -
  obtain sp fp pc where w: "\<And>k. k < length (frame_words sp fp pc c) \<Longrightarrow>
      word_at info (int k) m = Some (frame_words sp fp pc c ! k)"
    using assms by (auto simp: shows_call_def)
  note f = w [of 0] w [of 2] w [of 5] w [of 6] w [of 8] w [of 9] w [of "10 + i"]
  show "word_at info 0 m = Some (of_nat (length (js_args c)))"
    "word_at info 2 m = Some (IntegralToSmi (frame_type c))" "word_at info 5 m = Some (js_isolate c)"
    "word_at info 6 m = Some (js_result c)" "word_at info 8 m = Some (js_target c)"
    "word_at info 9 m = Some (js_receiver c)"
    "i < length (js_args c) \<Longrightarrow> word_at info (10 + int i) m = Some (js_args c ! i)"
    using f by (simp_all add: frame_words_def)
  show "js_new_target c = Some t \<Longrightarrow> word_at info (- 1) m = Some t"
    using assms by (simp add: shows_call_def FCI_indices)
qed

lemma frame_type_smi: "SmiValue (IntegralToSmi (frame_type c)) = frame_type c"
  using smi4.decode_encode [of "frame_type c"]
  by (simp add: SmiValue_def frame_type_def instance_defs)

lemma Length_shown:
  assumes "shows_call info c m" "length (js_args c) < 2 ^ 31"
  shows "FCI_Length info m = Some (int (length (js_args c)))"
proof -
  have "ucast (of_nat (length (js_args c)) :: u64) = (of_int (int (length (js_args c))) :: u32)"
    using ucast_of_int [of "int (length (js_args c))", where 'a = 64 and 'b = 32] by simp
  moreover have "int (length (js_args c)) < 2 ^ 31" using assms(2) by (metis of_nat_less_iff of_nat_numeral of_nat_power)
  ultimately show ?thesis
    using shows_call_fixed(1) [OF assms(1)] sint_of_int32 [of "int (length (js_args c))"]
    by (simp add: FCI_Length_def FCI_indices del: of_int_of_nat_eq)
qed

text \<open>C22: when the frame at \<open>info\<close> shows a JavaScript call, the accessors of \<open>FunctionCallbackInfo\<close> give
  back exactly its parts: the argument count, each argument at its index, \<open>undefined\<close> for every index
  outside the range (negative ones included), the receiver, the isolate, \<open>new.target\<close> for a construct call
  only, and a return value slot from which the isolate can be recovered by index -1.\<close>

theorem callback_info_shows_call:
  assumes "shows_call info c m" "length (js_args c) < 2 ^ 31 - 10"
  shows "FCI_Length info m = Some (int (length (js_args c))) \<and>
    FCI_GetIsolate info m = Some (js_isolate c) \<and>
    ValueAsAddress (FCI_This info) m = Some (js_receiver c) \<and>
    FCI_IsConstructCall info m = Some (js_new_target c \<noteq> None) \<and>
    ValueAsAddress (FCI_GetReturnValue info) m = Some (js_result c) \<and>
    ReturnValue_GetIsolate (FCI_GetReturnValue info) m = Some (js_isolate c) \<and>
    FCI_nth info i m =
      (if 0 \<le> i \<and> i < int (length (js_args c)) then Some (word_slot info (10 + i))
       else Some (Undefined_local (js_isolate c))) \<and>
    (0 \<le> i \<and> i < int (length (js_args c)) \<longrightarrow>
       ValueAsAddress (word_slot info (10 + i)) m = Some (js_args c ! nat i)) \<and>
    (\<exists>s. FCI_NewTarget info m = Some s \<and>
       (case js_new_target c of Some t \<Rightarrow> ValueAsAddress s m = Some t | None \<Rightarrow> s = Undefined_local (js_isolate c)))"
proof -
  note w = shows_call_fixed [OF assms(1)]
  have len: "FCI_Length info m = Some (int (length (js_args c)))"
    using Length_shown [OF assms(1)] assms(2) by simp
  have iso: "FCI_GetIsolate info m = Some (js_isolate c)" using w(3) by (simp add: FCI_GetIsolate_def FCI_indices)
  have slots: "ValueAsAddress (word_slot info k) m = word_at info k m" for k
    by (simp add: ValueAsAddress_def word_at_def)
  have cc: "FCI_IsConstructCall info m = Some (js_new_target c \<noteq> None)"
    using w(2) frame_type_smi [of c] by (simp add: FCI_IsConstructCall_def FCI_indices frame_type_def instance_defs)
  have lenb: "int (length (js_args c)) < 2 ^ 31 - 10" using assms(2) by simp
  then have "add_int 10 i = Some (10 + i)" if "0 \<le> i" "i < int (length (js_args c))"
    using that by (simp add: add_int_def INT_MIN_def INT_MAX_def)
  then have nth: "FCI_nth info i m =
      (if 0 \<le> i \<and> i < int (length (js_args c)) then Some (word_slot info (10 + i))
       else Some (Undefined_local (js_isolate c)))"
    using len iso by (simp add: FCI_nth_def FCI_indices Local_FromSlot_def LocalBase_FromSlot_def not_less not_le)
  have arg: "0 \<le> i \<and> i < int (length (js_args c)) \<longrightarrow>
       ValueAsAddress (word_slot info (10 + i)) m = Some (js_args c ! nat i)"
    using w(7) [of "nat i"] by (auto simp: slots)
  have nt: "\<exists>s. FCI_NewTarget info m = Some s \<and>
       (case js_new_target c of Some t \<Rightarrow> ValueAsAddress s m = Some t | None \<Rightarrow> s = Undefined_local (js_isolate c))"
    using cc iso w(8) by (auto simp: FCI_NewTarget_def FCI_indices slots Local_FromSlot_def LocalBase_FromSlot_def split: option.splits)
  show ?thesis
    using len iso cc nth arg nt w(3,4,6)
    by (simp add: FCI_This_def FCI_GetReturnValue_def FCI_indices slots Local_FromSlot_def LocalBase_FromSlot_def
        ReturnValue_GetIsolate_def kIsolateValueIndex_def word_at_def word_slot_add)
qed

section \<open>Setting the result\<close>

lemma low_word:
  "ucast (DecompressTaggedField h v) = v" "drop_bit 32 (DecompressTaggedField h v) = drop_bit 32 h"
  unfolding DecompressTaggedField_eq
  by (rule bit_word_eqI, auto simp: bit_simps dest: bit_imp_le_length)+

text \<open>With static roots only the low half of the word is replaced.\<close>

lemma SetInternal_word:
  assumes "SetInternal sr rv value m = Some m'"
  shows "\<exists>a. ValueAsAddress rv m' = Some a \<and> ucast a = (ucast value :: u32) \<and>
    (if sr then \<exists>old. ValueAsAddress rv m = Some old \<and> drop_bit 32 a = drop_bit 32 old else a = value)"
  using assms by (auto simp: SetInternal_def run_simps ValueAsAddress_def CompressTagged_def low_word
      dest!: u64_access.ld_st split: if_splits)

lemma SmiValue_low: "ucast a = (ucast b :: u32) \<Longrightarrow> SmiValue a = SmiValue b"
  by (simp add: SmiValue_def Smi4_SmiToInt_def)

lemma and_low32: "(a :: u64) AND ucast (k :: u32) = ucast ((ucast a :: u32) AND k)"
  by (rule bit_word_eqI) (auto simp: bit_simps dest: bit_imp_le_length)

lemma tag_low: "ucast a = (ucast b :: u32) \<Longrightarrow> HasHeapObjectTag a = HasHeapObjectTag b"
  using and_low32 [of a 3] and_low32 [of b 3]
  by (simp add: HasHeapObjectTag_def tag_const_defs push_bit_eq_mult)

text \<open>A small integer set as the result of a callback, through any of the signed setters and in both
  root configurations, leaves a Smi of that value in the slot and never something taken for a heap object.\<close>

lemma return_value_integers:
  assumes "kSmiMinValue \<le> i" "i \<le> kSmiMaxValue"
    "Set_int16 sr rv i m = Some m' \<or> Set_int32 R sr rv i m = Some m' \<or> Set_int64 R sr rv i m = Some m'"
  shows "\<exists>a. ValueAsAddress rv m' = Some a \<and> SmiValue a = i \<and> \<not> HasHeapObjectTag a"
proof -
  have r: "- (2 ^ 30) \<le> i" "i \<le> 2 ^ 30 - 1"
    using assms(1,2) by (simp_all add: kSmiMinValue_def kSmiMaxValue_def Smi4_bounds signed_small)
  then have "TryIntegralToSmi i = Some (IntegralToSmi i)"
    using smi4.valid_iff [of i] by (simp add: TryIntegralToSmi_def IntegralToSmi_def)
  with assms(3) have "SetInternal sr rv (IntegralToSmi i) m = Some m'"
    by (auto simp: Set_int16_def Set_int32_def Set_int64_def)
  from SetInternal_word [OF this] obtain a where
    a: "ValueAsAddress rv m' = Some a" "ucast a = (ucast (IntegralToSmi i) :: u32)" by auto
  then show ?thesis
    using SmiValue_low [OF a(2)] tag_low [OF a(2)] smi4.decode_encode [OF r] smi4.encode_not_heap_object
    by (simp add: SmiValue_def)
qed

definition oddball_tests :: "'x callback_lib_scheme \<Rightarrow> u64 \<Rightarrow> mem \<Rightarrow> bool option list" where
  "oddball_tests R this m =
     [Value_IsUndefined True this m, Value_IsNull True this m, Value_IsTrue R True this m, Value_IsFalse R True this m]"

lemma oddball_tests_low:
  assumes "ValueAsAddress rv m = Some a" "ucast a = (r :: u32)"
  shows "oddball_tests R rv m =
    map Some [r = kUndefinedValue, r = kNullValue, r = kTrueValue, r = kFalseValue]"
  using assms by (simp add: oddball_tests_def Value_IsUndefined_def Value_IsNull_def Value_IsTrue_def Value_IsFalse_def
      QuickIsUndefined_def QuickIsNull_def QuickIsTrue_def QuickIsFalse_def is_identical_def)

lemma SetInternal_tests:
  assumes "SetInternal True rv (ucast r) m = Some m'"
  shows "oddball_tests R rv m' =
    map Some [r = kUndefinedValue, r = kNullValue, r = kTrueValue, r = kFalseValue]"
proof -
  have "ucast (ucast r :: u64) = r" by (rule bit_word_eqI) (auto simp: bit_simps)
  with SetInternal_word [OF assms] show ?thesis using oddball_tests_low by fastforce
qed

text \<open>With static roots, the four tests of a result slot tell exactly which of \<open>undefined\<close>, \<open>null\<close>,
  \<open>true\<close> and \<open>false\<close> was set, although the setters replace only the low half of the word.\<close>

lemma return_value_oddballs:
  "(\<forall>m'. SetUndefined True rv m = Some m' \<longrightarrow>
      oddball_tests R rv m' = [Some True, Some False, Some False, Some False]) \<and>
   (\<forall>m'. SetNull True rv m = Some m' \<longrightarrow>
      oddball_tests R rv m' = [Some False, Some True, Some False, Some False]) \<and>
   (\<forall>b m'. Set_bool True rv b m = Some m' \<longrightarrow>
      oddball_tests R rv m' = [Some False, Some False, Some b, Some (\<not> b)]) \<and>
   (\<forall>m'. SetFalse True rv m = Some m' \<longrightarrow> Set_bool True rv False m = Some m')"
proof (intro conjI allI impI)
  note [simp] = kUndefinedValue_def kNullValue_def kTrueValue_def kFalseValue_def
  fix m' b
  show "SetUndefined True rv m = Some m' \<Longrightarrow> oddball_tests R rv m' = [Some True, Some False, Some False, Some False]"
    using SetInternal_tests [of rv kUndefinedValue m m' R] by (simp add: SetUndefined_def)
  show "SetNull True rv m = Some m' \<Longrightarrow> oddball_tests R rv m' = [Some False, Some True, Some False, Some False]"
    using SetInternal_tests [of rv kNullValue m m' R] by (simp add: SetNull_def)
  show "Set_bool True rv b m = Some m' \<Longrightarrow> oddball_tests R rv m' = [Some False, Some False, Some b, Some (\<not> b)]"
    using SetInternal_tests [of rv kTrueValue m m' R] SetInternal_tests [of rv kFalseValue m m' R]
    by (cases b) (simp_all add: Set_bool_def)
  show "SetFalse True rv m = Some m' \<Longrightarrow> Set_bool True rv False m = Some m'"
    by (simp add: SetFalse_def Set_bool_def)
qed

section \<open>Witnesses\<close>

lemma full_load_u64: "full m \<Longrightarrow> \<exists>v. load_word a m = Some (v :: u64)"
  using u64_access.ld_defined [of a m] by (auto simp: full_def)

lemma SetInternal_full: "full m \<Longrightarrow> \<exists>m'. SetInternal sr rv v m = Some m' \<and> full m'"
  using full_load_u64 [of m rv] full_store_u64 [of m rv] by (cases sr) (auto simp: SetInternal_def)

text \<open>A call with one argument and everything else zero.\<close>

definition demo_js_call :: js_call where
  "demo_js_call = \<lparr>js_isolate = 0, js_result = 0, js_context = 0, js_target = 0, js_receiver = 0, js_args = [0],
     js_new_target = None\<rparr>"

lemma demo_frame: "\<exists>m. shows_call 4096 demo_js_call m"
proof -
  have ap: "i \<noteq> j \<Longrightarrow> 0 \<le> i \<Longrightarrow> 0 \<le> j \<Longrightarrow> i < 100 \<Longrightarrow> j < 100 \<Longrightarrow> apart (word_slot 4096 i) 8 (word_slot 4096 j) 8" for i j
    unfolding word_slot_def by (rule apart_offsets) (auto simp: api_size_defs)
  obtain m1 where m1: "store_word (word_slot 4096 0) (1 :: u64) (\<lambda>_. Some 0) = Some m1" "full m1"
    using full_store_u64 [OF full_const] by blast
  obtain m where m: "store_word (word_slot 4096 2) (IntegralToSmi 18) m1 = Some m"
    using full_store_u64 [OF m1(2)] by blast
  have w: "word_at 4096 j m = (if j = 2 then Some (IntegralToSmi 18) else if j = 0 then Some 1 else Some 0)"
    if "0 \<le> j" "j < 100" for j
  proof (cases "j = 2")
    case True
    with u64_access.ld_st [OF m] show ?thesis by (simp add: word_at_def)
  next
    case False
    then have j2: "word_at 4096 j m = word_at 4096 j m1"
      using u64_access.ld_frame [OF m ap] that by (simp add: word_at_def)
    show ?thesis
    proof (cases "j = 0")
      case True
      with j2 u64_access.ld_st [OF m1(1)] show ?thesis by (simp add: word_at_def)
    next
      case f: False
      then have "word_at 4096 j m1 = Some 0"
        using u64_access.ld_frame [OF m1(1) ap] that by (simp add: word_at_def load_word_const le_word_zeros)
      with j2 False f show ?thesis by simp
    qed
  qed
  have "\<forall>k < length (frame_words 0 0 0 demo_js_call). word_at 4096 (int k) m = Some (frame_words 0 0 0 demo_js_call ! k)"
    by (auto simp: frame_words_def demo_js_call_def frame_type_def instance_defs w less_Suc_eq nth_Cons')
  then show ?thesis by (auto simp: shows_call_def demo_js_call_def)
qed

theorem callback_info_shows_call_witness:
  "\<exists>m. shows_call 4096 demo_js_call m \<and> FCI_Length 4096 m = Some 1 \<and> FCI_nth 4096 0 m = Some (word_slot 4096 10)"
proof -
  obtain m where "shows_call 4096 demo_js_call m" using demo_frame by blast
  with callback_info_shows_call [OF this, of 0] show ?thesis by (auto simp: demo_js_call_def)
qed

end
