(* ===== verification/V8_Util.thy ===== *)
theory V8_Util
  imports V8_Handles "HOL-Library.While_Combinator"
begin

text \<open>
  The maps of global handles of \<open>v8-util.h\<close>: \<open>StdMapTraits\<close>, \<open>PersistentValueMapBase\<close> and
  \<open>PersistentValueMap\<close>. The backing \<open>std::map\<close> holds slots, \<open>kPersistentContainerNotFound\<close> being 0, and
  each belongs to the map: it is handed over by \<open>ClearAndLeak\<close> and given back by \<open>Release\<close>. The parameter
  \<open>ct\<close> is \<open>Traits::kCallbackType\<close>; \<open>Dispose\<close> is the one of the default traits, which only lets the
  handle go. What the library does for weak handles is a parameter.
\<close>

section \<open>StdMapTraits\<close>

type_synonym 'k map_impl = "('k \<times> slot) list"

definition kPersistentContainerNotFound :: slot where "kPersistentContainerNotFound = 0"

datatype PersistentContainerCallbackType = kNotWeak | kWeakWithParameter | kWeakWithInternalFields

definition Traits_Empty :: "'k map_impl \<Rightarrow> bool" where "Traits_Empty impl \<longleftrightarrow> impl = []"
definition Traits_Size :: "'k map_impl \<Rightarrow> nat" where "Traits_Size impl = length impl"
definition Traits_Swap :: "'k map_impl \<Rightarrow> 'k map_impl \<Rightarrow> 'k map_impl \<times> 'k map_impl" where
  "Traits_Swap a b = (b, a)"

text \<open>The entries from \<open>Begin\<close> to \<open>End\<close>: in the order of the keys.\<close>

definition Traits_entries :: "'k::linorder map_impl \<Rightarrow> ('k \<times> slot) list" where
  "Traits_entries impl = sort_key fst impl"

definition Traits_Set :: "'k map_impl \<Rightarrow> 'k \<Rightarrow> slot \<Rightarrow> slot \<times> 'k map_impl" where
  "Traits_Set impl key value =
     (case map_of impl key of
        None \<Rightarrow> (kPersistentContainerNotFound, (key, value) # impl)
      | Some old \<Rightarrow> (old, AList.update key value impl))"

definition Traits_Get :: "'k map_impl \<Rightarrow> 'k \<Rightarrow> slot" where
  "Traits_Get impl key = (case map_of impl key of None \<Rightarrow> kPersistentContainerNotFound | Some v \<Rightarrow> v)"

definition Traits_Remove :: "'k map_impl \<Rightarrow> 'k \<Rightarrow> slot \<times> 'k map_impl" where
  "Traits_Remove impl key =
     (case map_of impl key of None \<Rightarrow> (kPersistentContainerNotFound, impl)
      | Some v \<Rightarrow> (v, AList.delete key impl))"

section \<open>PersistentValueMapBase\<close>

record 'g weak_api = "'g handles_api" +
  SetWeakCallback :: "slot \<Rightarrow> 'g \<Rightarrow> 'g"
  ClearWeak :: "slot \<Rightarrow> 'g \<Rightarrow> 'g"
  DisposeCallbackData :: "'g \<Rightarrow> 'g"
  NodeIsWeak :: "slot \<Rightarrow> 'g \<Rightarrow> bool"
  AnnotateRetainer :: "slot \<Rightarrow> 'g \<Rightarrow> 'g"

record ('k, 'g) value_map =
  impl :: "'k map_impl"
  cells :: 'g

definition vm_Size :: "('k, 'g) value_map \<Rightarrow> nat" where "vm_Size m = Traits_Size (impl m)"

definition vm_IsWeak :: "PersistentContainerCallbackType \<Rightarrow> bool" where "vm_IsWeak ct \<longleftrightarrow> ct \<noteq> kNotWeak"

definition FromVal :: "slot \<Rightarrow> slot" where "FromVal v = v"

text \<open>\<open>Local::New\<close> of a slot: the empty local of a null slot. The outer \<open>None\<close> is a read of a dead cell.\<close>

definition vm_Get :: "'g weak_api \<Rightarrow> 'k \<Rightarrow> ('k, 'g) value_map \<Rightarrow> obj option option" where
  "vm_Get H key m =
     (let p = FromVal (Traits_Get (impl m) key) in persistent_Get (handles_api.truncate H) p (cells m))"

definition vm_Contains :: "'k \<Rightarrow> ('k, 'g) value_map \<Rightarrow> bool" where
  "vm_Contains key m \<longleftrightarrow> Traits_Get (impl m) key \<noteq> kPersistentContainerNotFound"

text \<open>Whether a value was found, and the word the return value is set to.\<close>

definition SetReturnValueFromVal :: "'g weak_api \<Rightarrow> slot \<Rightarrow> 'g \<Rightarrow> (bool \<times> obj option) option" where
  "SetReturnValueFromVal H value g =
     (let hasValue = (value \<noteq> kPersistentContainerNotFound) in
      if hasValue then do { x \<leftarrow> cell H g value; Some (hasValue, Some x) } else Some (hasValue, None))"

definition vm_SetReturnValue :: "'g weak_api \<Rightarrow> 'k \<Rightarrow> ('k, 'g) value_map \<Rightarrow> (bool \<times> obj option) option" where
  "vm_SetReturnValue H key m = SetReturnValueFromVal H (Traits_Get (impl m) key) (cells m)"

definition ClearAndLeak :: "slot \<Rightarrow> slot \<times> slot" where
  "ClearAndLeak persistent = (let address = persistent in (address, handle_Clear persistent))"

definition Leak :: "slot \<Rightarrow> slot" where "Leak persistent = persistent"

definition vm_Release :: "'g weak_api \<Rightarrow> PersistentContainerCallbackType \<Rightarrow> slot \<Rightarrow> 'g \<Rightarrow> slot \<times> 'g" where
  "vm_Release H ct v g =
     (let p = v in
      if ct \<noteq> kNotWeak \<and> \<not> handle_IsEmpty p \<and> NodeIsWeak H p g 
      then (p, DisposeCallbackData H (ClearWeak H p g)) else (p, g))"

definition vm_Remove ::
    "'g weak_api \<Rightarrow> PersistentContainerCallbackType \<Rightarrow> 'k \<Rightarrow> ('k, 'g) value_map \<Rightarrow> slot \<times> ('k, 'g) value_map" where
  "vm_Remove H ct key m =
     (let (v, impl1) = Traits_Remove (impl m) key; (p, g) = vm_Release H ct v (cells m)
      in (p, m\<lparr>impl := impl1, cells := g\<rparr>))"

definition vm_RemoveWeak :: "'g weak_api \<Rightarrow> 'k \<Rightarrow> ('k, 'g) value_map \<Rightarrow> ('k, 'g) value_map" where
  "vm_RemoveWeak H key m =
     (let (v, impl1) = Traits_Remove (impl m) key; (p, g) = persistent_Reset (handles_api.truncate H) v (cells m)
      in m\<lparr>impl := impl1, cells := g\<rparr>)"

text \<open>\<open>Traits::Dispose\<close> of the default traits: the global is destroyed with the call.\<close>

definition Traits_Dispose :: "'g weak_api \<Rightarrow> slot \<Rightarrow> 'g \<Rightarrow> 'g" where
  "Traits_Dispose H value g = global_destructor (handles_api.truncate H) value g"

definition vm_Clear_step ::
    "'g weak_api \<Rightarrow> PersistentContainerCallbackType \<Rightarrow> ('k::linorder, 'g) value_map \<Rightarrow> ('k, 'g) value_map" where
  "vm_Clear_step H ct m =
     (let (mine, impl1) = Traits_Swap (impl m) [];
          g = fold (\<lambda>(k, v) g. let (p, g1) = vm_Release H ct v g in Traits_Dispose H p g1)
                   (Traits_entries impl1) (cells m)
      in m\<lparr>impl := mine, cells := g\<rparr>)"

definition vm_Clear ::
    "'g weak_api \<Rightarrow> PersistentContainerCallbackType \<Rightarrow> ('k::linorder, 'g) value_map \<Rightarrow> ('k, 'g) value_map option" where
  "vm_Clear H ct m = while_option (\<lambda>m. \<not> Traits_Empty (impl m)) (vm_Clear_step H ct) m"

definition vm_destructor ::
    "'g weak_api \<Rightarrow> PersistentContainerCallbackType \<Rightarrow> ('k::linorder, 'g) value_map \<Rightarrow> 'g option" where
  "vm_destructor H ct m = map_option cells (vm_Clear H ct m)"

text \<open>\<open>PersistentValueReference\<close>: the slot itself.\<close>

definition vm_GetReference :: "'k \<Rightarrow> ('k, 'g) value_map \<Rightarrow> slot" where
  "vm_GetReference key m = Traits_Get (impl m) key"

definition ref_NewLocal :: "'g weak_api \<Rightarrow> slot \<Rightarrow> 'g \<Rightarrow> obj option option" where
  "ref_NewLocal H r g = persistent_Get (handles_api.truncate H) r g"

definition ref_IsEmpty :: "slot \<Rightarrow> bool" where "ref_IsEmpty r \<longleftrightarrow> r = kPersistentContainerNotFound"

definition ref_SetReturnValue :: "'g weak_api \<Rightarrow> slot \<Rightarrow> 'g \<Rightarrow> (bool \<times> obj option) option" where
  "ref_SetReturnValue H r g = SetReturnValueFromVal H r g"

definition ref_Reset :: "slot \<Rightarrow> slot" where "ref_Reset r = kPersistentContainerNotFound"

section \<open>PersistentValueMap\<close>

definition vm_SetUnique ::
    "'g weak_api \<Rightarrow> PersistentContainerCallbackType \<Rightarrow> 'k \<Rightarrow> slot \<Rightarrow> ('k, 'g) value_map \<Rightarrow>
       slot \<times> ('k, 'g) value_map" where
  "vm_SetUnique H ct key persistent m =
     (let g1 = (if ct = kNotWeak then AnnotateRetainer H persistent (cells m)
                else SetWeakCallback H persistent (cells m));
          (v, persistent1) = ClearAndLeak persistent;
          (old_value, impl1) = Traits_Set (impl m) key v;
          (p, g2) = vm_Release H ct old_value g1
      in (p, m\<lparr>impl := impl1, cells := g2\<rparr>))"

definition vm_Set_local ::
    "'g weak_api \<Rightarrow> PersistentContainerCallbackType \<Rightarrow> 'k \<Rightarrow> obj option \<Rightarrow> ('k, 'g) value_map \<Rightarrow>
       slot \<times> ('k, 'g) value_map" where
  "vm_Set_local H ct key value m =
     (let (persistent, g) = persistent_New (handles_api.truncate H) value (cells m)
      in vm_SetUnique H ct key persistent (m\<lparr>cells := g\<rparr>))"

definition vm_Set_global ::
    "'g weak_api \<Rightarrow> PersistentContainerCallbackType \<Rightarrow> 'k \<Rightarrow> slot \<Rightarrow> ('k, 'g) value_map \<Rightarrow>
       slot \<times> ('k, 'g) value_map" where
  "vm_Set_global H ct key value m = vm_SetUnique H ct key value m"

definition vm_Set_reference ::
    "'g weak_api \<Rightarrow> PersistentContainerCallbackType \<Rightarrow> 'k \<Rightarrow> slot \<Rightarrow> ('k, 'g) value_map \<Rightarrow>
       slot \<times> slot \<times> ('k, 'g) value_map" where
  "vm_Set_reference H ct key value m = (let reference = Leak value in (reference, vm_SetUnique H ct key value m))"

definition vm_WeakCallback ::
    "'g weak_api \<Rightarrow> PersistentContainerCallbackType \<Rightarrow> 'k \<Rightarrow> ('k, 'g) value_map \<Rightarrow> ('k, 'g) value_map" where
  "vm_WeakCallback H ct key m =
     (if ct \<noteq> kNotWeak
      then let (p, m1) = vm_Remove H ct key m in m1\<lparr>cells := DisposeCallbackData H (Traits_Dispose H p (cells m1))\<rparr>
      else m)"

text \<open>The first pass of a \<open>GlobalValueMap\<close>: \<open>On\<close> is the traits' \<open>OnWeakCallback\<close>, and the flag says that a second pass
  has been asked for.\<close>

definition gvm_OnWeakCallback ::
    "'g weak_api \<Rightarrow> PersistentContainerCallbackType \<Rightarrow> ('g \<Rightarrow> 'g) \<Rightarrow> 'k \<Rightarrow> ('k, 'g) value_map \<Rightarrow> ('k, 'g) value_map \<times> bool" where
  "gvm_OnWeakCallback H ct On key m =
     (if ct \<noteq> kNotWeak
      then let m1 = vm_RemoveWeak H key m in (m1\<lparr>cells := On (cells m1)\<rparr>, True)
      else (m, False))"

section \<open>Ownership\<close>

text \<open>What the library's functions for weak handles do not do: change the cells.\<close>

definition weak_ok :: "'g weak_api \<Rightarrow> bool" where
  "weak_ok H \<longleftrightarrow> handles_ok (handles_api.truncate H) \<and>
     (\<forall>s g. cell H (SetWeakCallback H s g) = cell H g \<and> cell H (ClearWeak H s g) = cell H g \<and>
        cell H (AnnotateRetainer H s g) = cell H g \<and> cell H (DisposeCallbackData H g) = cell H g)"

definition owned :: "('k, 'g) value_map \<Rightarrow> slot set" where
  "owned m = ran (map_of (impl m)) - {0}"

text \<open>What the map holds: the objects in the cells of its values.\<close>

definition contents :: "'g weak_api \<Rightarrow> ('k, 'g) value_map \<Rightarrow> 'k \<Rightarrow> obj option" where
  "contents H m k = cell H (cells m) (Traits_Get (impl m) k)"

definition vm_ok :: "'g weak_api \<Rightarrow> ('k, 'g) value_map \<Rightarrow> bool" where
  "vm_ok H m \<longleftrightarrow> distinct (map fst (impl m)) \<and>
     (\<forall>k s. map_of (impl m) k = Some s \<longrightarrow> s \<noteq> 0 \<longrightarrow> cell H (cells m) s \<noteq> None) \<and>
     (\<forall>k k' s. map_of (impl m) k = Some s \<longrightarrow> map_of (impl m) k' = Some s \<longrightarrow> s \<noteq> 0 \<longrightarrow> k = k')"

lemma truncate_sel [simp]: "cell (handles_api.truncate H) = cell H" "GlobalizeReference (handles_api.truncate H) = GlobalizeReference H"
  "DisposeGlobal (handles_api.truncate H) = DisposeGlobal H"
  by (simp_all add: handles_api.truncate_def)

lemma cell_0 [simp]: "weak_ok H \<Longrightarrow> cell H g 0 = None"
  using handles_ok_null [of "handles_api.truncate H" g] by (simp add: weak_ok_def)

lemma Traits_Get_map: "Traits_Get i k = (case map_of i k of None \<Rightarrow> 0 | Some s \<Rightarrow> s)"
  by (simp add: Traits_Get_def kPersistentContainerNotFound_def split: option.splits)

lemma contents_map: "weak_ok H \<Longrightarrow> contents H m k = (case map_of (impl m) k of None \<Rightarrow> None | Some s \<Rightarrow> cell H (cells m) s)"
  by (simp add: contents_def Traits_Get_map split: option.splits)

lemma Traits_Set_map:
  "Traits_Set i k v = (old, i') \<Longrightarrow> old = Traits_Get i k \<and> map_of i' = (map_of i)(k \<mapsto> v) \<and>
     (distinct (map fst i) \<longrightarrow> distinct (map fst i'))"
  by (auto simp: Traits_Set_def Traits_Get_def AList.update_conv' distinct_fst_update
      split: option.splits dest: weak_map_of_SomeI)

lemma Traits_Remove_map:
  "Traits_Remove i k = (old, i') \<Longrightarrow> old = Traits_Get i k \<and> map_of i' = (map_of i)(k := None) \<and>
     (distinct (map fst i) \<longrightarrow> distinct (map fst i'))"
  by (auto simp: Traits_Remove_def Traits_Get_def map_of_delete_key distinct_fst_delete split: option.splits)

lemma Release_cells:
  assumes "weak_ok H" "vm_Release H ct v g = (p, g')"
  shows "p = v" "cell H g' = cell H g"
  using assms by (auto simp: vm_Release_def weak_ok_def Let_def split: if_splits)

lemma SetUnique_effect:
  assumes H: "weak_ok H" and st: "vm_SetUnique H ct k s m = (old, m')"
  shows "old = Traits_Get (impl m) k" "map_of (impl m') = (map_of (impl m))(k \<mapsto> s)"
    "distinct (map fst (impl m)) \<Longrightarrow> distinct (map fst (impl m'))" "cell H (cells m') = cell H (cells m)"
proof -
  obtain old1 i where i: "Traits_Set (impl m) k s = (old1, i)" by fastforce
  define g1 where "g1 = (if ct = kNotWeak then AnnotateRetainer H s (cells m) else SetWeakCallback H s (cells m))"
  obtain p g2 where r: "vm_Release H ct old1 g1 = (p, g2)" by fastforce
  have c: "cell H g1 = cell H (cells m)" using H by (simp add: g1_def weak_ok_def)
  have "old = p" "impl m' = i" "cells m' = g2"
    using st i r unfolding g1_def by (auto simp: vm_SetUnique_def ClearAndLeak_def Let_def)
  with Release_cells [OF H r] Traits_Set_map [OF i] c
  show "old = Traits_Get (impl m) k" "map_of (impl m') = (map_of (impl m))(k \<mapsto> s)"
    "distinct (map fst (impl m)) \<Longrightarrow> distinct (map fst (impl m'))" "cell H (cells m') = cell H (cells m)"
    by auto
qed

lemma Remove_effect:
  assumes H: "weak_ok H" and st: "vm_Remove H ct k m = (old, m')"
  shows "old = Traits_Get (impl m) k" "map_of (impl m') = (map_of (impl m))(k := None)"
    "distinct (map fst (impl m)) \<Longrightarrow> distinct (map fst (impl m'))" "cell H (cells m') = cell H (cells m)"
proof -
  obtain v i where i: "Traits_Remove (impl m) k = (v, i)" by fastforce
  obtain p g where r: "vm_Release H ct v (cells m) = (p, g)" by fastforce
  have "old = p" "impl m' = i" "cells m' = g" using st i r by (auto simp: vm_Remove_def Let_def)
  with Release_cells [OF H r] Traits_Remove_map [OF i]
  show "old = Traits_Get (impl m) k" "map_of (impl m') = (map_of (impl m))(k := None)"
    "distinct (map fst (impl m)) \<Longrightarrow> distinct (map fst (impl m'))" "cell H (cells m') = cell H (cells m)"
    by auto
qed

lemma ran_upd: "ran (f(k \<mapsto> s)) = insert s (ran (f(k := None)))"
  by (auto simp: ran_def split: if_splits)

lemma owned_without:
  assumes "vm_ok H m"
  shows "ran ((map_of (impl m))(k := None)) - {0} = owned m - {Traits_Get (impl m) k}"
proof (intro set_eqI iffI)
  fix s
  assume "s \<in> ran ((map_of (impl m))(k := None)) - {0}"
  then obtain k' where k': "map_of (impl m) k' = Some s" "k' \<noteq> k" "s \<noteq> 0" by (auto simp: ran_def split: if_splits)
  then have "s \<noteq> Traits_Get (impl m) k"
    using assms by (auto simp: vm_ok_def Traits_Get_map split: option.splits)
  with k' show "s \<in> owned m - {Traits_Get (impl m) k}" by (auto simp: owned_def ran_def)
next
  fix s
  assume "s \<in> owned m - {Traits_Get (impl m) k}"
  then obtain a where "map_of (impl m) a = Some s" "s \<noteq> 0" "s \<noteq> Traits_Get (impl m) k" by (auto simp: owned_def ran_def)
  then show "s \<in> ran ((map_of (impl m))(k := None)) - {0}"
    by (auto simp: ran_def Traits_Get_map intro!: exI [of _ a] split: option.splits)
qed

lemma vm_ok_mono:
  assumes "vm_ok H m" "distinct (map fst (impl m'))" "map_of (impl m') \<subseteq>\<^sub>m map_of (impl m)"
    "\<And>s x. cell H (cells m) s = Some x \<Longrightarrow> cell H (cells m') s = Some x"
  shows "vm_ok H m'"
proof -
  have sub: "map_of (impl m') k = Some s \<Longrightarrow> map_of (impl m) k = Some s" for k s
    using assms(3) by (auto simp: map_le_def dom_def)
  show ?thesis using assms(1,2,4) sub unfolding vm_ok_def by (metis not_None_eq)
qed


text \<open>Removing a key forgets exactly that key and hands its cell, untouched, to the caller.\<close>

lemma value_map_remove:
  assumes H: "weak_ok H" and ok: "vm_ok H m" and st: "vm_Remove H ct k m = (old, m')"
  shows "vm_ok H m' \<and> contents H m' = (contents H m)(k := None) \<and> cell H (cells m') old = contents H m k \<and>
    cell H (cells m') = cell H (cells m) \<and> owned m' = owned m - {old} \<and> \<not> vm_Contains k m'"
proof -
  note E = Remove_effect [OF H st]
  have "vm_ok H m'"
    by (rule vm_ok_mono [OF ok]) (use E ok in \<open>auto simp: vm_ok_def map_le_def\<close>)
  moreover have "contents H m' = (contents H m)(k := None)"
    by (auto simp: contents_map [OF H] E(2,4) fun_eq_iff split: option.splits)
  moreover have "owned m' = owned m - {old}"
    using owned_without [OF ok, of k] unfolding owned_def [of m'] E(2) E(1) .
  moreover have "\<not> vm_Contains k m'" by (simp add: vm_Contains_def Traits_Get_map E(2) kPersistentContainerNotFound_def)
  ultimately show ?thesis using E by (simp add: contents_def)
qed

lemma dispose_one:
  assumes H: "weak_ok H" and s: "s = 0 \<or> cell H g s \<noteq> None"
  shows "cell H (case vm_Release H ct s g of (p, g1) \<Rightarrow> Traits_Dispose H p g1) = (cell H g)(s := None)"
proof -
  obtain p g1 where r: "vm_Release H ct s g = (p, g1)" by fastforce
  note R = Release_cells [OF H r]
  have hk: "handles_ok (handles_api.truncate H)" using H by (simp add: weak_ok_def)
  show ?thesis
  proof (cases "s = 0")
    case True
    then show ?thesis using r R H by (simp add: Traits_Dispose_def global_destructor_def fun_upd_idem)
  next
    case False
    then obtain x where "cell H g1 s = Some x" using s R by auto
    then have "cell H (DisposeGlobal H s g1) = (cell H g1)(s := None)"
      using handles_ok_dispose [OF hk, of g1 s x] by simp
    with r R False show ?thesis
      by (simp add: Traits_Dispose_def global_destructor_def persistent_Reset_def handle_IsEmpty_def)
  qed
qed

lemma dispose_all:
  assumes H: "weak_ok H"
  shows "distinct (map fst xs) \<Longrightarrow> \<forall>(k, s) \<in> set xs. s \<noteq> 0 \<longrightarrow> cell H g s \<noteq> None \<Longrightarrow>
    \<forall>(k, s) \<in> set xs. \<forall>(k', s') \<in> set xs. s = s' \<longrightarrow> s \<noteq> 0 \<longrightarrow> k = k' \<Longrightarrow>
    cell H (fold (\<lambda>(k, v) g. let (p, g1) = vm_Release H ct v g in Traits_Dispose H p g1) xs g) =
      (\<lambda>s. if s \<in> snd ` set xs then None else cell H g s)"
proof (induction xs arbitrary: g)
  case Nil
  show ?case by simp
next
  case (Cons ks xs)
  obtain k s where ks: "ks = (k, s)" by fastforce
  have d: "cell H (case vm_Release H ct s g of (p, g1) \<Rightarrow> Traits_Dispose H p g1) = (cell H g)(s := None)"
    by (rule dispose_one [OF H]) (use Cons.prems(2) ks in auto)
  have "t \<noteq> s" if "(k', t) \<in> set xs" "t \<noteq> 0" for k' t
  proof
    assume "t = s"
    with Cons.prems(3) ks that have "k' = k" by auto
    with Cons.prems(1) ks that show False by (force simp: image_iff)
  qed
  then have live: "\<forall>(k', t) \<in> set xs. t \<noteq> 0 \<longrightarrow> ((cell H g)(s := None)) t \<noteq> None" using Cons.prems(2) ks by auto
  have "cell H (fold (\<lambda>(k, v) g. let (p, g1) = vm_Release H ct v g in Traits_Dispose H p g1) xs
      (case vm_Release H ct s g of (p, g1) \<Rightarrow> Traits_Dispose H p g1)) =
    (\<lambda>u. if u \<in> snd ` set xs then None else ((cell H g)(s := None)) u)"
    unfolding d [symmetric] by (rule Cons.IH) (use Cons.prems live d ks in auto)
  then show ?case by (auto simp: ks fun_eq_iff)
qed


section \<open>Witnesses\<close>

definition demo_weak :: "cell_table weak_api" where
  "demo_weak = handles_api.extend list_handles
     \<lparr>SetWeakCallback = (\<lambda>s g. g), ClearWeak = (\<lambda>s g. g), DisposeCallbackData = (\<lambda>g. g),
      NodeIsWeak = (\<lambda>s g. False), AnnotateRetainer = (\<lambda>s g. g)\<rparr>"

lemma demo_weak_ok: "weak_ok demo_weak"
proof -
  have "handles_api.truncate demo_weak = list_handles"
    by (simp add: demo_weak_def handles_api.defs)
  then show ?thesis using list_handles_ok by (simp add: weak_ok_def) (simp add: demo_weak_def handles_api.defs)
qed

definition demo_map :: "(nat, cell_table) value_map" where
  "demo_map = \<lparr>impl = [(7, 1)], cells = (1, [(1, 42)])\<rparr>"

lemma demo_map_ok: "vm_ok demo_weak demo_map"
  by (simp add: vm_ok_def demo_map_def demo_weak_def handles_api.defs One_nat_def)



end
