(* ===== verification/V8_FastApi.thy ===== *)
theory V8_FastApi
  imports V8_Tags
begin

text \<open>
  The descriptions of C++ functions that JavaScript calls directly: \<open>v8-fast-api-calls.h\<close>. A type is a byte
  and so are its flags; the builders, which the header writes as class templates, are records whose fields
  are the template arguments, and a failing \<open>static_assert\<close> (the instantiation does not compile) is \<open>None\<close>.
\<close>

section \<open>\<open>CTypeInfo\<close>\<close>

definition kVoid :: byte where "kVoid = 0"
definition kBool :: byte where "kBool = 1"
definition kUint8 :: byte where "kUint8 = 2"
definition kInt32 :: byte where "kInt32 = 3"
definition kUint32 :: byte where "kUint32 = 4"
definition kInt64 :: byte where "kInt64 = 5"
definition kUint64 :: byte where "kUint64 = 6"
definition kFloat32 :: byte where "kFloat32 = 7"
definition kFloat64 :: byte where "kFloat64 = 8"
definition kPointer :: byte where "kPointer = 9"
definition kV8Value :: byte where "kV8Value = 10"
definition kSeqOneByteString :: byte where "kSeqOneByteString = 11"
definition kApiObject :: byte where "kApiObject = 12"
definition kAny :: byte where "kAny = 13"
definition kCallbackOptionsType :: byte where "kCallbackOptionsType = 255"

lemmas ctype_defs = kVoid_def kBool_def kUint8_def kInt32_def kUint32_def kInt64_def kUint64_def kFloat32_def
  kFloat64_def kPointer_def kV8Value_def kSeqOneByteString_def kApiObject_def kAny_def kCallbackOptionsType_def

definition kFlagsNone :: byte where "kFlagsNone = 0"
definition kAllowSharedBit :: byte where "kAllowSharedBit = push_bit 0 1"
definition kEnforceRangeBit :: byte where "kEnforceRangeBit = push_bit 1 1"
definition kClampBit :: byte where "kClampBit = push_bit 2 1"
definition kIsRestrictedBit :: byte where "kIsRestrictedBit = push_bit 3 1"

record CTypeInfo =
  cti_type :: byte
  cti_flags :: byte

definition CTypeInfo_new :: "byte \<Rightarrow> byte \<Rightarrow> CTypeInfo" where
  "CTypeInfo_new type flags = \<lparr>cti_type = type, cti_flags = flags\<rparr>"

definition CTypeInfo_of_id :: "u32 \<Rightarrow> CTypeInfo" where
  "CTypeInfo_of_id identifier =
     \<lparr>cti_type = ucast (drop_bit 8 identifier AND 255), cti_flags = ucast (identifier AND 255)\<rparr>"

definition GetId :: "CTypeInfo \<Rightarrow> u32" where
  "GetId t = push_bit 8 (ucast (cti_type t)) OR ucast (cti_flags t)"

definition CTypeInfo_GetType :: "CTypeInfo \<Rightarrow> byte" where "CTypeInfo_GetType t = cti_type t"
definition CTypeInfo_GetFlags :: "CTypeInfo \<Rightarrow> byte" where "CTypeInfo_GetFlags t = cti_flags t"

definition IsIntegralType :: "byte \<Rightarrow> bool" where
  "IsIntegralType type \<longleftrightarrow> type = kUint8 \<or> type = kInt32 \<or> type = kUint32 \<or> type = kInt64 \<or> type = kUint64"

definition IsFloatingPointType :: "byte \<Rightarrow> bool" where
  "IsFloatingPointType type \<longleftrightarrow> type = kFloat32 \<or> type = kFloat64"

definition IsPrimitive :: "byte \<Rightarrow> bool" where
  "IsPrimitive type \<longleftrightarrow> IsIntegralType type \<or> IsFloatingPointType type \<or> type = kBool"

definition kTypeInfoInt32 :: CTypeInfo where "kTypeInfoInt32 = CTypeInfo_new kInt32 kFlagsNone"
definition kTypeInfoFloat64 :: CTypeInfo where "kTypeInfoFloat64 = CTypeInfo_new kFloat64 kFlagsNone"

definition kFastAPIPointerTag :: u16 where
  "kFastAPIPointerTag = of_nat (V8_EXTERNAL_POINTER_TAG_COUNT - 1)"

section \<open>\<open>CFunctionInfo\<close> and \<open>CFunction\<close>\<close>

datatype Int64Representation = kNumber | kBigInt

text \<open>\<open>arg_info\<close> is the memory \<open>arg_info_\<close> points to.\<close>

record CFunctionInfo =
  return_info :: CTypeInfo
  repr :: Int64Representation
  arg_count :: u32
  arg_info :: "CTypeInfo list"

definition arg_info_at :: "CFunctionInfo \<Rightarrow> u32 \<Rightarrow> CTypeInfo option" where
  "arg_info_at I i = (if unat i < length (arg_info I) then Some (arg_info I ! unat i) else None)"

definition HasOptions :: "CFunctionInfo \<Rightarrow> bool option" where
  "HasOptions I =
     (if 0 < arg_count I
      then do { t \<leftarrow> arg_info_at I (arg_count I - 1); Some (CTypeInfo_GetType t = kCallbackOptionsType) }
      else Some False)"

definition ArgumentCount :: "CFunctionInfo \<Rightarrow> u32 option" where
  "ArgumentCount I = do { h \<leftarrow> HasOptions I; Some (if h then arg_count I - 1 else arg_count I) }"

definition ReturnInfo :: "CFunctionInfo \<Rightarrow> CTypeInfo" where "ReturnInfo I = return_info I"

definition GetInt64Representation :: "CFunctionInfo \<Rightarrow> Int64Representation" where
  "GetInt64Representation I = repr I"

record CFunction =
  cf_address :: u64
  cf_type_info :: "CFunctionInfo option"

definition CFunction_default :: CFunction where
  "CFunction_default = \<lparr>cf_address = 0, cf_type_info = None\<rparr>"

definition CFunction_ReturnInfo :: "CFunction \<Rightarrow> CTypeInfo option" where
  "CFunction_ReturnInfo f = do { I \<leftarrow> cf_type_info f; Some (ReturnInfo I) }"

definition CFunction_ArgumentCount :: "CFunction \<Rightarrow> u32 option" where
  "CFunction_ArgumentCount f = do { I \<leftarrow> cf_type_info f; ArgumentCount I }"

definition CFunction_GetAddress :: "CFunction \<Rightarrow> u64" where "CFunction_GetAddress f = cf_address f"

definition CFunction_GetInt64Representation :: "CFunction \<Rightarrow> Int64Representation option" where
  "CFunction_GetInt64Representation f = do { I \<leftarrow> cf_type_info f; Some (GetInt64Representation I) }"

definition CFunction_GetTypeInfo :: "CFunction \<Rightarrow> CFunctionInfo option" where
  "CFunction_GetTypeInfo f = cf_type_info f"

section \<open>Types of C++\<close>

text \<open>The parameter and result types the header gives a \<open>TypeInfoHelper\<close>.\<close>

datatype cpp_type =
    T_bool | T_uint8 | T_int32 | T_uint32 | T_int64 | T_uint64 | T_float | T_double | T_pointer
  | T_void | T_LocalValue | T_LocalObject | T_LocalArray | T_AnyCType
  | T_CallbackOptions | T_FastOneByteString

primrec TypeInfoHelper_Type :: "cpp_type \<Rightarrow> byte" where
  "TypeInfoHelper_Type T_bool = kBool"
| "TypeInfoHelper_Type T_uint8 = kUint8"
| "TypeInfoHelper_Type T_int32 = kInt32"
| "TypeInfoHelper_Type T_uint32 = kUint32"
| "TypeInfoHelper_Type T_int64 = kInt64"
| "TypeInfoHelper_Type T_uint64 = kUint64"
| "TypeInfoHelper_Type T_float = kFloat32"
| "TypeInfoHelper_Type T_double = kFloat64"
| "TypeInfoHelper_Type T_pointer = kPointer"
| "TypeInfoHelper_Type T_void = kVoid"
| "TypeInfoHelper_Type T_LocalValue = kV8Value"
| "TypeInfoHelper_Type T_LocalObject = kV8Value"
| "TypeInfoHelper_Type T_LocalArray = kV8Value"
| "TypeInfoHelper_Type T_AnyCType = kAny"
| "TypeInfoHelper_Type T_CallbackOptions = kCallbackOptionsType"
| "TypeInfoHelper_Type T_FastOneByteString = kSeqOneByteString"

definition TypeInfoHelper_Flags :: "cpp_type \<Rightarrow> byte" where "TypeInfoHelper_Flags T = kFlagsNone"

text \<open>\<open>CTypeInfoTraits::ctype\<close>, for the types that have one.\<close>

definition CTypeInfoTraits_ctype :: "byte \<Rightarrow> cpp_type option" where
  "CTypeInfoTraits_ctype type =
     map_of [(kBool, T_bool), (kUint8, T_uint8), (kInt32, T_int32), (kUint32, T_uint32), (kInt64, T_int64),
             (kUint64, T_uint64), (kFloat32, T_float), (kFloat64, T_double), (kPointer, T_pointer)] type"

section \<open>Builders\<close>

record CTypeInfoBuilder =
  base_type :: cpp_type
  builder_flags :: "byte list"

primrec MergeFlags :: "byte list \<Rightarrow> byte" where
  "MergeFlags [] = 0"
| "MergeFlags (flags # rest) = flags OR MergeFlags rest"

definition STATIC_ASSERT_IMPLIES :: "byte \<Rightarrow> bool \<Rightarrow> bool" where
  "STATIC_ASSERT_IMPLIES cond assertion \<longleftrightarrow> cond = 0 \<or> assertion"

definition CTypeInfoBuilder_Build :: "CTypeInfoBuilder \<Rightarrow> CTypeInfo option" where
  "CTypeInfoBuilder_Build b =
     (let flags = MergeFlags (TypeInfoHelper_Flags (base_type b) # builder_flags b);
          type = TypeInfoHelper_Type (base_type b)
      in if STATIC_ASSERT_IMPLIES (flags AND kEnforceRangeBit) (IsIntegralType type) \<and>
            STATIC_ASSERT_IMPLIES (flags AND kClampBit) (IsIntegralType type) \<and>
            STATIC_ASSERT_IMPLIES (flags AND kIsRestrictedBit) (IsFloatingPointType type)
         then Some (CTypeInfo_new (TypeInfoHelper_Type (base_type b)) flags) else None)"

text \<open>\<open>count<T, List...>\<close>: the list the header counts in holds builders, the type it counts is a plain one.\<close>

datatype template_arg = PlainType cpp_type | BuilderType CTypeInfoBuilder

primrec count_type :: "template_arg \<Rightarrow> template_arg list \<Rightarrow> nat" where
  "count_type T [] = 0"
| "count_type T (U # Args) = (if T = U then 1 + count_type T Args else count_type T Args)"

definition kOptionsArgCount :: "CTypeInfoBuilder list \<Rightarrow> nat" where
  "kOptionsArgCount args = count_type (PlainType T_CallbackOptions) (map BuilderType args)"

definition kReceiverCount :: nat where "kReceiverCount = 1"

definition CFunctionInfoImpl_new ::
    "Int64Representation \<Rightarrow> CTypeInfoBuilder \<Rightarrow> CTypeInfoBuilder list \<Rightarrow> CFunctionInfo option" where
  "CFunctionInfoImpl_new rep ret args =
     (if \<not> (kOptionsArgCount args = 0 \<or> kOptionsArgCount args = 1) \<or> length args < kOptionsArgCount args + kReceiverCount
      then None
      else do {
        r \<leftarrow> CTypeInfoBuilder_Build ret;
        infos \<leftarrow> those (map CTypeInfoBuilder_Build args);
        let kReturnType = CTypeInfo_GetType r;
        if kReturnType \<in> {kVoid, kBool, kInt32, kUint32, kInt64, kUint64, kFloat32, kFloat64, kPointer, kAny}
        then Some \<lparr>return_info = r, repr = rep, arg_count = of_nat (length args), arg_info = infos\<rparr>
        else None })"

record CFunctionBuilderWithFunction =
  cfb_fn :: u64
  cfb_ret :: CTypeInfoBuilder
  cfb_args :: "CTypeInfoBuilder list"

definition CFunctionBuilder_Fn :: "u64 \<Rightarrow> cpp_type \<Rightarrow> cpp_type list \<Rightarrow> CFunctionBuilderWithFunction" where
  "CFunctionBuilder_Fn fn R Args =
     \<lparr>cfb_fn = fn, cfb_ret = \<lparr>base_type = R, builder_flags = []\<rparr>,
      cfb_args = map (\<lambda>T. \<lparr>base_type = T, builder_flags = []\<rparr>) Args\<rparr>"

definition CFunctionBuilder_Ret :: "byte list \<Rightarrow> CFunctionBuilderWithFunction \<Rightarrow> CFunctionBuilderWithFunction" where
  "CFunctionBuilder_Ret flags b = b\<lparr>cfb_ret := \<lparr>base_type = base_type (cfb_ret b), builder_flags = flags\<rparr>\<rparr>"

text \<open>\<open>GetArgBuilder<N == I, I, Flags...>\<close>\<close>

definition GetArgBuilder :: "bool \<Rightarrow> byte list \<Rightarrow> CTypeInfoBuilder \<Rightarrow> CTypeInfoBuilder option" where
  "GetArgBuilder merge flags b =
     (if \<not> merge then Some b
      else do { t \<leftarrow> CTypeInfoBuilder_Build b;
                Some \<lparr>base_type = base_type b, builder_flags = CTypeInfo_GetFlags t # flags\<rparr> })"

definition CFunctionBuilder_Arg ::
    "nat \<Rightarrow> byte list \<Rightarrow> CFunctionBuilderWithFunction \<Rightarrow> CFunctionBuilderWithFunction option" where
  "CFunctionBuilder_Arg N flags b =
     do { args \<leftarrow> those (map (\<lambda>(I, a). GetArgBuilder (N = I) flags a) (enumerate 0 (cfb_args b)));
          Some (b\<lparr>cfb_args := args\<rparr>) }"

definition CFunctionBuilder_Patch ::
    "u64 \<Rightarrow> cpp_type list \<Rightarrow> CFunctionBuilderWithFunction \<Rightarrow> CFunctionBuilderWithFunction option" where
  "CFunctionBuilder_Patch patching_func Args b =
     (if length Args = length (cfb_args b) then Some (b\<lparr>cfb_fn := patching_func\<rparr>) else None)"

definition CFunctionBuilder_Build :: "Int64Representation \<Rightarrow> CFunctionBuilderWithFunction \<Rightarrow> CFunction option" where
  "CFunctionBuilder_Build rep b =
     do { I \<leftarrow> CFunctionInfoImpl_new rep (cfb_ret b) (cfb_args b);
          Some \<lparr>cf_address = cfb_fn b, cf_type_info = Some I\<rparr> }"

definition ArgUnwrap_Make :: "u64 \<Rightarrow> cpp_type \<Rightarrow> cpp_type list \<Rightarrow> Int64Representation \<Rightarrow> CFunction option" where
  "ArgUnwrap_Make func R Args int64_rep =
     (if int64_rep = kNumber then CFunctionBuilder_Build kNumber (CFunctionBuilder_Fn func R Args)
      else CFunctionBuilder_Build kBigInt (CFunctionBuilder_Fn func R Args))"

definition CFunction_Make :: "u64 \<Rightarrow> cpp_type \<Rightarrow> cpp_type list \<Rightarrow> Int64Representation \<Rightarrow> CFunction option" where
  "CFunction_Make func R Args int64_rep =
     do { result \<leftarrow> ArgUnwrap_Make func R Args int64_rep;
          _ \<leftarrow> CFunction_GetInt64Representation result;
          Some result }"

definition CFunction_Make_patched ::
    "u64 \<Rightarrow> cpp_type \<Rightarrow> cpp_type list \<Rightarrow> u64 \<Rightarrow> cpp_type list \<Rightarrow> Int64Representation \<Rightarrow> CFunction option" where
  "CFunction_Make_patched func R Args patching_func Args_Patch int64_rep =
     do { c_func \<leftarrow> ArgUnwrap_Make func R Args int64_rep;
          if length Args_Patch \<noteq> length Args then None else Some (c_func\<lparr>cf_address := patching_func\<rparr>) }"

section \<open>Lemmas\<close>

lemma id_bits:
  "bit (GetId t) n \<longleftrightarrow> n < 32 \<and> (if n < 8 then bit (cti_flags t) n else bit (cti_type t) (n - 8))"
  by (use bit_imp_le_length[of "cti_type t" "n - 8"] bit_imp_le_length[of "cti_flags t" n] in \<open>auto simp: GetId_def bit_simps not_less\<close>)

lemma those_map_simple: "(\<And>x. x \<in> set xs \<Longrightarrow> f x = Some (g x)) \<Longrightarrow> those (map f xs) = Some (map g xs)"
  by (induction xs) auto

lemma MergeFlags_none [simp]: "MergeFlags (replicate n 0) = 0"
  by (induction n) simp_all

lemma plain_Build:
  "CTypeInfoBuilder_Build \<lparr>base_type = T, builder_flags = []\<rparr> = Some (CTypeInfo_new (TypeInfoHelper_Type T) kFlagsNone)"
  by (simp add: CTypeInfoBuilder_Build_def TypeInfoHelper_Flags_def kFlagsNone_def STATIC_ASSERT_IMPLIES_def)

lemma options_never_counted: "kOptionsArgCount args = 0"
  by (induction args) (simp_all add: kOptionsArgCount_def)

lemma options_type: "TypeInfoHelper_Type T = kCallbackOptionsType \<longleftrightarrow> T = T_CallbackOptions"
  by (cases T) (simp_all add: ctype_defs)

lemma low_byte: "(255 :: u32) = mask 8" by (simp add: mask_eq_exp_minus_1)

lemma CTypeInfo_of_GetId: "CTypeInfo_of_id (GetId t) = t"
proof -
  have "cti_type (CTypeInfo_of_id (GetId t)) = cti_type t"
    by (rule bit_word_eqI) (simp add: CTypeInfo_of_id_def low_byte bit_simps id_bits)
  moreover have "cti_flags (CTypeInfo_of_id (GetId t)) = cti_flags t"
    by (rule bit_word_eqI) (simp add: CTypeInfo_of_id_def low_byte bit_simps id_bits)
  ultimately show ?thesis by simp
qed

definition returnable :: "cpp_type \<Rightarrow> bool" where
  "returnable R \<longleftrightarrow> R \<notin> {T_uint8, T_LocalValue, T_LocalObject, T_LocalArray, T_CallbackOptions, T_FastOneByteString}"

definition plain_info :: "cpp_type \<Rightarrow> CTypeInfo" where
  "plain_info T = \<lparr>cti_type = TypeInfoHelper_Type T, cti_flags = 0\<rparr>"

lemma plain_info_new: "plain_info T = CTypeInfo_new (TypeInfoHelper_Type T) kFlagsNone"
  by (simp add: plain_info_def CTypeInfo_new_def kFlagsNone_def)

lemma plain_info_type: "CTypeInfo_GetType (plain_info T) = TypeInfoHelper_Type T"
  by (simp add: plain_info_def CTypeInfo_GetType_def)

lemma plain_infos:
  "those (map CTypeInfoBuilder_Build (map (\<lambda>T. \<lparr>base_type = T, builder_flags = []\<rparr>) Args)) = Some (map plain_info Args)"
  by (induction Args) (simp_all add: plain_Build plain_info_def CTypeInfo_new_def kFlagsNone_def)

lemma returnable_types:
  "TypeInfoHelper_Type R \<in> {kVoid, kBool, kInt32, kUint32, kInt64, kUint64, kFloat32, kFloat64, kPointer, kAny} \<longleftrightarrow> returnable R"
  by (cases R) (simp_all add: ctype_defs returnable_def)

lemma CFunctionInfoImpl_plain:
  "CFunctionInfoImpl_new rep \<lparr>base_type = R, builder_flags = []\<rparr> (map (\<lambda>T. \<lparr>base_type = T, builder_flags = []\<rparr>) Args) =
     (if Args \<noteq> [] \<and> returnable R
      then Some \<lparr>return_info = plain_info R, repr = rep, arg_count = of_nat (length Args), arg_info = map plain_info Args\<rparr>
      else None)"
  using plain_infos[of Args]
  by (simp add: CFunctionInfoImpl_new_def options_never_counted kReceiverCount_def plain_Build CTypeInfo_GetType_def
      CTypeInfo_new_def returnable_types[symmetric] plain_info_def kFlagsNone_def del: map_map)

lemma CFunction_Make_cases:
  "CFunction_Make fn R Args rep =
     (if Args \<noteq> [] \<and> returnable R
      then Some \<lparr>cf_address = fn, cf_type_info = Some \<lparr>return_info = plain_info R, repr = rep,
                  arg_count = of_nat (length Args), arg_info = map plain_info Args\<rparr>\<rparr>
      else None)"
  by (cases rep) (simp_all add: CFunction_Make_def ArgUnwrap_Make_def CFunctionBuilder_Build_def CFunctionBuilder_Fn_def
      CFunctionInfoImpl_plain CFunction_GetInt64Representation_def del: map_map)

lemma last_info:
  assumes "Args \<noteq> []" "length Args < 2 ^ 32"
  shows "arg_info_at \<lparr>return_info = r, repr = rep, arg_count = of_nat (length Args), arg_info = map plain_info Args\<rparr>
           (of_nat (length Args) - 1) = Some (plain_info (last Args))"
proof -
  have "unat (of_nat (length Args) - 1 :: u32) = length Args - 1"
    using assms by (cases Args) (simp_all add: unat_of_nat take_bit_nat_eq_self_iff take_bit_nat_eq_self)
  then show ?thesis using assms(1) by (simp add: arg_info_at_def last_conv_nth)
qed

lemma count_positive: "Args \<noteq> [] \<Longrightarrow> length Args < 2 ^ 32 \<Longrightarrow> (0 :: u32) < of_nat (length Args)"
  by (simp add: word_less_nat_alt unat_of_nat take_bit_nat_eq_self)

lemma count_pred: "0 < n \<Longrightarrow> (of_nat n :: u32) - 1 = of_nat (n - 1)"
  by (cases n) simp_all

lemma HasOptions_plain:
  assumes "Args \<noteq> []" "length Args < 2 ^ 32"
  shows "HasOptions \<lparr>return_info = r, repr = rep, arg_count = of_nat (length Args), arg_info = map plain_info Args\<rparr> =
           Some (last Args = T_CallbackOptions)"
  using last_info[OF assms] count_positive[OF assms]
  by (simp add: HasOptions_def plain_info_def CTypeInfo_GetType_def options_type)

lemma ArgumentCount_plain:
  assumes "Args \<noteq> []" "length Args < 2 ^ 32"
  shows "ArgumentCount \<lparr>return_info = r, repr = rep, arg_count = of_nat (length Args), arg_info = map plain_info Args\<rparr> =
           Some (of_nat (if last Args = T_CallbackOptions then length Args - 1 else length Args))"
  unfolding ArgumentCount_def HasOptions_plain[OF assms] using count_pred[of "length Args"] assms(1) by auto



text \<open>C18: The assertion that at most one options parameter is given never fails, because it counts a type in a list
  of builders: any number of options parameters is accepted, all but the last are counted as plain arguments,
  and a function that takes nothing but the options is accepted as if these were its receiver.
\<close>

theorem options_parameters_unchecked:
  assumes "0 < n" "n < 2 ^ 32" "returnable R"
  shows "\<exists>f. CFunction_Make fn R (replicate n T_CallbackOptions) rep = Some f \<and>
             CFunction_ArgumentCount f = Some (of_nat (n - 1))"
proof -
  have r: "replicate n T_CallbackOptions \<noteq> []" "length (replicate n T_CallbackOptions) < 2 ^ 32"
    using assms by simp_all
  show ?thesis
    using assms ArgumentCount_plain[OF r, of "plain_info R" rep]
    by (simp add: CFunction_Make_cases CFunction_ArgumentCount_def del: map_replicate)
qed

theorem options_parameters_unchecked_witness:
  "\<exists>f. CFunction_Make 4096 T_void (replicate 3 T_CallbackOptions) kNumber = Some f \<and>
       CFunction_ArgumentCount f = Some (of_nat (3 - 1))"
  by (rule options_parameters_unchecked) (simp_all add: returnable_def)

end
