(* ===== verification/V8_Span.thy ===== *)
theory V8_Span
  imports V8_Memory "HOL-Library.While_Combinator"
begin

text \<open>
  Spans and wrapped iterators: \<open>v8-memory-span.h\<close> and the class \<open>WrappedIterator\<close> of \<open>v8-internal.h\<close>. A pointer
  is a 64-bit address and \<open>sz\<close> the size of an element, so that the arithmetic of pointers is that of machine
  words; a reference is the address it refers to. The iterators are instances of one interface, the locale
  \<open>random_access\<close>, in which loops over a range are proved to end.
\<close>

section \<open>\<open>MemorySpan\<close>\<close>

record MemorySpan =
  span_data :: u64
  span_size :: u64

definition MemorySpan_default :: MemorySpan where
  "MemorySpan_default = \<lparr>span_data = 0, span_size = 0\<rparr>"

definition MemorySpan_null :: "u64 \<Rightarrow> MemorySpan" where
  "MemorySpan_null count = MemorySpan_default"

definition MemorySpan_count :: "u64 \<Rightarrow> u64 \<Rightarrow> MemorySpan" where
  "MemorySpan_count first count = \<lparr>span_data = first, span_size = count\<rparr>"

text \<open>The difference of pointers; it is defined for pointers a whole number of elements apart.\<close>

definition ptr_diff :: "u64 \<Rightarrow> u64 \<Rightarrow> u64 \<Rightarrow> u64 option" where
  "ptr_diff sz p q =
     (if sz = 0 \<or> sint (p - q) mod uint sz \<noteq> 0 then None else Some (word_of_int (sint (p - q) div uint sz)))"

definition MemorySpan_range :: "u64 \<Rightarrow> u64 \<Rightarrow> u64 \<Rightarrow> MemorySpan option" where
  "MemorySpan_range sz first last_it = do { n \<leftarrow> ptr_diff sz last_it first; Some \<lparr>span_data = first, span_size = n\<rparr> }"

definition MemorySpan_array :: "u64 \<Rightarrow> u64 \<Rightarrow> MemorySpan" where
  "MemorySpan_array a N = \<lparr>span_data = a, span_size = N\<rparr>"

definition MemorySpan_std_array :: "u64 \<Rightarrow> u64 \<Rightarrow> MemorySpan" where
  "MemorySpan_std_array a N = \<lparr>span_data = a, span_size = N\<rparr>"

definition MemorySpan_const_std_array :: "u64 \<Rightarrow> u64 \<Rightarrow> MemorySpan" where
  "MemorySpan_const_std_array a N = \<lparr>span_data = a, span_size = N\<rparr>"

definition MemorySpan_data :: "MemorySpan \<Rightarrow> u64" where "MemorySpan_data s = span_data s"
definition MemorySpan_size :: "MemorySpan \<Rightarrow> u64" where "MemorySpan_size s = span_size s"

definition MemorySpan_nth :: "u64 \<Rightarrow> MemorySpan \<Rightarrow> u64 \<Rightarrow> u64" where
  "MemorySpan_nth sz s i = span_data s + i * sz"

definition MemorySpan_empty :: "MemorySpan \<Rightarrow> bool" where
  "MemorySpan_empty s \<longleftrightarrow> MemorySpan_size s = 0"

section \<open>\<open>MemorySpan::Iterator\<close>\<close>

record Iterator =
  it_ptr :: u64

definition It_default :: Iterator where "It_default = \<lparr>it_ptr = 0\<rparr>"
definition It_of_ptr :: "u64 \<Rightarrow> Iterator" where "It_of_ptr p = \<lparr>it_ptr = p\<rparr>"
definition It_eq :: "Iterator \<Rightarrow> Iterator \<Rightarrow> bool" where "It_eq a b \<longleftrightarrow> it_ptr a = it_ptr b"
definition It_less :: "Iterator \<Rightarrow> Iterator \<Rightarrow> bool" where "It_less a b \<longleftrightarrow> it_ptr a < it_ptr b"

definition It_inc :: "u64 \<Rightarrow> Iterator \<Rightarrow> Iterator" where "It_inc sz it = it\<lparr>it_ptr := it_ptr it + sz\<rparr>"
definition It_dec :: "u64 \<Rightarrow> Iterator \<Rightarrow> Iterator" where "It_dec sz it = it\<lparr>it_ptr := it_ptr it - sz\<rparr>"

definition It_inc_post :: "u64 \<Rightarrow> Iterator \<Rightarrow> Iterator \<times> Iterator" where
  "It_inc_post sz it = (let temp = it; it1 = It_inc sz it in (temp, it1))"

definition It_dec_post :: "u64 \<Rightarrow> Iterator \<Rightarrow> Iterator \<times> Iterator" where
  "It_dec_post sz it = (let temp = it; it1 = It_dec sz it in (temp, it1))"

definition It_add_assign :: "u64 \<Rightarrow> u64 \<Rightarrow> Iterator \<Rightarrow> Iterator" where
  "It_add_assign sz rhs it = it\<lparr>it_ptr := it_ptr it + rhs * sz\<rparr>"

definition It_add :: "u64 \<Rightarrow> Iterator \<Rightarrow> u64 \<Rightarrow> Iterator" where
  "It_add sz lhs rhs = (let lhs = It_add_assign sz rhs lhs in lhs)"

definition It_add_left :: "u64 \<Rightarrow> u64 \<Rightarrow> Iterator \<Rightarrow> Iterator" where
  "It_add_left sz lhs rhs = It_add sz rhs lhs"

definition It_sub_assign :: "u64 \<Rightarrow> u64 \<Rightarrow> Iterator \<Rightarrow> Iterator" where
  "It_sub_assign sz rhs it = it\<lparr>it_ptr := it_ptr it - rhs * sz\<rparr>"

definition It_sub :: "u64 \<Rightarrow> Iterator \<Rightarrow> u64 \<Rightarrow> Iterator" where
  "It_sub sz lhs rhs = (let lhs = It_sub_assign sz rhs lhs in lhs)"

definition It_diff :: "u64 \<Rightarrow> Iterator \<Rightarrow> Iterator \<Rightarrow> u64 option" where
  "It_diff sz lhs rhs = ptr_diff sz (it_ptr lhs) (it_ptr rhs)"

definition It_deref :: "Iterator \<Rightarrow> u64" where "It_deref it = it_ptr it"
definition It_arrow :: "Iterator \<Rightarrow> u64" where "It_arrow it = it_ptr it"
definition It_nth :: "u64 \<Rightarrow> Iterator \<Rightarrow> u64 \<Rightarrow> u64" where "It_nth sz it offset = it_ptr it + offset * sz"

definition MemorySpan_begin :: "MemorySpan \<Rightarrow> Iterator" where
  "MemorySpan_begin s = It_of_ptr (span_data s)"

definition MemorySpan_end :: "u64 \<Rightarrow> MemorySpan \<Rightarrow> Iterator" where
  "MemorySpan_end sz s = It_of_ptr (span_data s + span_size s * sz)"

text \<open>\<open>to_array\<close>: an array is a list of its elements, the index sequence \<open>[0..<N]\<close>.\<close>

definition to_array_lvalue_impl :: "'a list \<Rightarrow> nat list \<Rightarrow> 'a list" where
  "to_array_lvalue_impl a I = map (\<lambda>i. a ! i) I"

definition to_array_rvalue_impl :: "'a list \<Rightarrow> nat list \<Rightarrow> 'a list" where
  "to_array_rvalue_impl a I = map (\<lambda>i. a ! i) I"

definition to_array_lvalue :: "'a list \<Rightarrow> 'a list" where
  "to_array_lvalue a = to_array_lvalue_impl a [0..<length a]"

definition to_array_rvalue :: "'a list \<Rightarrow> 'a list" where
  "to_array_rvalue a = to_array_rvalue_impl a [0..<length a]"

section \<open>\<open>WrappedIterator\<close>\<close>

text \<open>The operations of the wrapped iterator are arguments: its type is a template parameter.\<close>

record 'i WrappedIterator =
  base_it :: 'i

definition WI_of :: "'i \<Rightarrow> 'i WrappedIterator" where "WI_of it = \<lparr>base_it = it\<rparr>"
definition WI_base :: "'i WrappedIterator \<Rightarrow> 'i" where "WI_base w = base_it w"

definition WI_convert :: "('j \<Rightarrow> 'i) \<Rightarrow> 'j WrappedIterator \<Rightarrow> 'i WrappedIterator" where
  "WI_convert conv other = \<lparr>base_it = conv (WI_base other)\<rparr>"

definition WI_deref :: "('i \<Rightarrow> u64) \<Rightarrow> 'i WrappedIterator \<Rightarrow> u64" where "WI_deref deref w = deref (base_it w)"
definition WI_arrow :: "('i \<Rightarrow> u64) \<Rightarrow> 'i WrappedIterator \<Rightarrow> u64" where "WI_arrow arrow w = arrow (base_it w)"

definition WI_eq :: "('i \<Rightarrow> 'j \<Rightarrow> bool) \<Rightarrow> 'i WrappedIterator \<Rightarrow> 'j WrappedIterator \<Rightarrow> bool" where
  "WI_eq eq w other \<longleftrightarrow> eq (base_it w) (WI_base other)"

datatype ordering = O_less | O_equal | O_greater | O_unordered

text \<open>The three cases of \<open>operator<=>\<close>: the iterators have a three-way comparison, are totally ordered, or neither.\<close>

definition WI_spaceship_three ::
    "('i \<Rightarrow> 'j \<Rightarrow> ordering) \<Rightarrow> 'i WrappedIterator \<Rightarrow> 'j WrappedIterator \<Rightarrow> ordering" where
  "WI_spaceship_three cmp w other = cmp (base_it w) (WI_base other)"

definition WI_spaceship_total ::
    "('i \<Rightarrow> 'j \<Rightarrow> bool) \<Rightarrow> ('i \<Rightarrow> 'j \<Rightarrow> bool) \<Rightarrow> 'i WrappedIterator \<Rightarrow> 'j WrappedIterator \<Rightarrow> ordering" where
  "WI_spaceship_total lt gt w other =
     (if lt (base_it w) (WI_base other) then O_less
      else if gt (base_it w) (WI_base other) then O_greater else O_equal)"

definition WI_spaceship_partial ::
    "('i \<Rightarrow> 'j \<Rightarrow> bool) \<Rightarrow> ('j \<Rightarrow> 'i \<Rightarrow> bool) \<Rightarrow> ('i \<Rightarrow> 'j \<Rightarrow> bool) \<Rightarrow>
     'i WrappedIterator \<Rightarrow> 'j WrappedIterator \<Rightarrow> ordering" where
  "WI_spaceship_partial lt lt' eq w other =
     (if lt (base_it w) (WI_base other) then O_less
      else if lt' (WI_base other) (base_it w) then O_greater
      else if eq (base_it w) (WI_base other) then O_equal else O_unordered)"

definition WI_inc :: "('i \<Rightarrow> 'i) \<Rightarrow> 'i WrappedIterator \<Rightarrow> 'i WrappedIterator" where
  "WI_inc inc w = w\<lparr>base_it := inc (base_it w)\<rparr>"

definition WI_inc_post :: "('i \<Rightarrow> 'i) \<Rightarrow> 'i WrappedIterator \<Rightarrow> 'i WrappedIterator \<times> 'i WrappedIterator" where
  "WI_inc_post inc w = (let result = w; w1 = WI_inc inc w in (result, w1))"

definition WI_dec :: "('i \<Rightarrow> 'i) \<Rightarrow> 'i WrappedIterator \<Rightarrow> 'i WrappedIterator" where
  "WI_dec dec w = w\<lparr>base_it := dec (base_it w)\<rparr>"

definition WI_dec_post :: "('i \<Rightarrow> 'i) \<Rightarrow> 'i WrappedIterator \<Rightarrow> 'i WrappedIterator \<times> 'i WrappedIterator" where
  "WI_dec_post dec w = (let result = w; w1 = WI_dec dec w in (result, w1))"

definition WI_add_assign :: "('i \<Rightarrow> u64 \<Rightarrow> 'i) \<Rightarrow> u64 \<Rightarrow> 'i WrappedIterator \<Rightarrow> 'i WrappedIterator" where
  "WI_add_assign add n w = w\<lparr>base_it := add (base_it w) n\<rparr>"

definition WI_add :: "('i \<Rightarrow> u64 \<Rightarrow> 'i) \<Rightarrow> 'i WrappedIterator \<Rightarrow> u64 \<Rightarrow> 'i WrappedIterator" where
  "WI_add add w n = (let result = w in WI_add_assign add n result)"

definition WI_add_left :: "('i \<Rightarrow> u64 \<Rightarrow> 'i) \<Rightarrow> u64 \<Rightarrow> 'i WrappedIterator \<Rightarrow> 'i WrappedIterator" where
  "WI_add_left add n x = WI_add add x n"

definition WI_sub :: "('i \<Rightarrow> u64 \<Rightarrow> 'i) \<Rightarrow> 'i WrappedIterator \<Rightarrow> u64 \<Rightarrow> 'i WrappedIterator" where
  "WI_sub add w n = WI_add add w (- n)"

definition WI_sub_assign :: "('i \<Rightarrow> u64 \<Rightarrow> 'i) \<Rightarrow> u64 \<Rightarrow> 'i WrappedIterator \<Rightarrow> 'i WrappedIterator" where
  "WI_sub_assign add n w = WI_add_assign add (- n) w"

definition WI_diff :: "('i \<Rightarrow> 'j \<Rightarrow> u64 option) \<Rightarrow> 'i WrappedIterator \<Rightarrow> 'j WrappedIterator \<Rightarrow> u64 option" where
  "WI_diff diff w other = diff (base_it w) (WI_base other)"

definition WI_nth :: "('i \<Rightarrow> u64 \<Rightarrow> u64) \<Rightarrow> 'i WrappedIterator \<Rightarrow> u64 \<Rightarrow> u64" where
  "WI_nth index w n = index (base_it w) n"

section \<open>Loops over a range\<close>

text \<open>The loop \<open>for (auto& x : range) body\<close>: from the first iterator to the end, \<open>body\<close> getting the reference.\<close>

definition range_for ::
    "('i \<Rightarrow> 'i \<Rightarrow> bool) \<Rightarrow> ('i \<Rightarrow> 'i) \<Rightarrow> ('i \<Rightarrow> u64) \<Rightarrow> 'i \<Rightarrow> 'i \<Rightarrow> (u64 \<Rightarrow> 's \<Rightarrow> 's) \<Rightarrow> 's \<Rightarrow> ('i \<times> 's) option" where
  "range_for eq inc deref b e body s =
     while_option (\<lambda>(i, s). \<not> eq i e) (\<lambda>(i, s). (inc i, body (deref i) s)) (b, s)"

locale random_access =
  fixes valid :: "'r \<Rightarrow> bool" and first :: "'r \<Rightarrow> 'i" and end_it :: "'r \<Rightarrow> 'i" and count :: "'r \<Rightarrow> nat"
    and element :: "'r \<Rightarrow> nat \<Rightarrow> u64" and eq :: "'r \<Rightarrow> 'i \<Rightarrow> 'i \<Rightarrow> bool" and inc :: "'r \<Rightarrow> 'i \<Rightarrow> 'i"
    and deref :: "'r \<Rightarrow> 'i \<Rightarrow> u64"
  assumes at_end: "valid r \<Longrightarrow> k \<le> count r \<Longrightarrow> eq r ((inc r ^^ k) (first r)) (end_it r) \<longleftrightarrow> k = count r"
    and at_element: "valid r \<Longrightarrow> k < count r \<Longrightarrow> deref r ((inc r ^^ k) (first r)) = element r k"
begin

lemma loop_from:
  assumes "valid r" "k \<le> count r"
  shows "range_for (eq r) (inc r) (deref r) ((inc r ^^ k) (first r)) (end_it r) body s =
           Some ((inc r ^^ count r) (first r), fold body (map (element r) [k..<count r]) s)"
  using assms(2)
proof (induction "count r - k" arbitrary: k s)
  case 0
  then have "k = count r" by simp
  then show ?case using at_end[OF assms(1), of k] by (simp add: range_for_def while_option_unfold)
next
  case (Suc j)
  then have k: "k < count r" and j: "j = count r - Suc k" by simp_all
  have "range_for (eq r) (inc r) (deref r) ((inc r ^^ k) (first r)) (end_it r) body s =
        range_for (eq r) (inc r) (deref r) ((inc r ^^ Suc k) (first r)) (end_it r) body (body (element r k) s)"
    using at_end[OF assms(1), of k] at_element[OF assms(1) k] k
    by (simp add: range_for_def while_option_unfold[of _ _ "((inc r ^^ k) (first r), s)"])
  also have "\<dots> = Some ((inc r ^^ count r) (first r), fold body (map (element r) [Suc k..<count r]) (body (element r k) s))"
    using k by (intro Suc.hyps(1)[OF j]) simp
  finally show ?case using k by (simp add: upt_conv_Cons)
qed

lemmas loop = loop_from[where k = 0, simplified]

end

text \<open>A span is valid when its elements lie within the address space.\<close>

definition span_ok :: "u64 \<Rightarrow> MemorySpan \<Rightarrow> bool" where
  "span_ok sz s \<longleftrightarrow> 0 < sz \<and> unat (span_size s) * unat sz < 2 ^ 64"

lemma inc_times: "(It_inc sz ^^ k) it = \<lparr>it_ptr = it_ptr it + of_nat k * sz\<rparr>"
  by (induction k) (simp_all add: It_inc_def algebra_simps)

lemma times_inj:
  assumes "span_ok sz s" "k \<le> unat (span_size s)"
  shows "of_nat k * sz = span_size s * sz \<longleftrightarrow> k = unat (span_size s)"
proof
  assume eq: "of_nat k * sz = span_size s * sz"
  have lt: "k * unat sz < 2 ^ 64"
    by (rule le_less_trans[OF mult_le_mono1[OF assms(2)]]) (use assms(1) in \<open>simp add: span_ok_def\<close>)
  have "of_nat (k * unat sz) = (of_nat (unat (span_size s) * unat sz) :: u64)" using eq by simp
  then have "k * unat sz = unat (span_size s) * unat sz"
    using lt assms(1) by (simp add: word_of_nat_eq_iff span_ok_def take_bit_nat_eq_self del: of_nat_mult)
  then show "k = unat (span_size s)" using assms(1) by (auto simp: span_ok_def word_less_nat_alt)
qed simp

interpretation span_it: random_access "\<lambda>(sz, s). span_ok sz s" "\<lambda>(sz, s). MemorySpan_begin s"
    "\<lambda>(sz, s). MemorySpan_end sz s" "\<lambda>(sz, s). unat (MemorySpan_size s)" "\<lambda>(sz, s) k. MemorySpan_nth sz s (of_nat k)"
    "\<lambda>_. It_eq" "\<lambda>(sz, s). It_inc sz" "\<lambda>_. It_deref"
  by unfold_locales (auto simp: MemorySpan_begin_def MemorySpan_end_def It_of_ptr_def It_eq_def inc_times times_inj
      MemorySpan_size_def MemorySpan_nth_def It_deref_def)

text \<open>Wrapping changes nothing.\<close>

lemma WI_base_of [simp]: "base_it (WI_of it) = it" "WI_base (WI_of it) = it"
  by (simp_all add: WI_of_def WI_base_def)

lemma WI_inc_times: "(WI_inc inc ^^ k) (WI_of it) = WI_of ((inc ^^ k) it)"
  by (induction k) (simp_all add: WI_inc_def WI_of_def)

interpretation wrapped_it: random_access "\<lambda>(sz, s). span_ok sz s" "\<lambda>(sz, s). WI_of (MemorySpan_begin s)"
    "\<lambda>(sz, s). WI_of (MemorySpan_end sz s)" "\<lambda>(sz, s). unat (MemorySpan_size s)"
    "\<lambda>(sz, s) k. MemorySpan_nth sz s (of_nat k)"
    "\<lambda>_. WI_eq It_eq" "\<lambda>(sz, s). WI_inc (It_inc sz)" "\<lambda>_. WI_deref It_deref"
  using span_it.at_end span_it.at_element
  by unfold_locales (auto simp: WI_inc_times WI_eq_def WI_deref_def)

lemma WI_arith:
  "WI_add (It_add sz) (WI_of it) n = WI_of (It_add sz it n)"
  "WI_sub (It_add sz) (WI_of it) n = WI_of (It_sub sz it n)"
  "WI_sub_assign (It_add sz) n (WI_of it) = WI_of (It_sub_assign sz n it)"
  "WI_nth (It_nth sz) (WI_of it) n = It_deref (It_add sz it n)"
  "WI_spaceship_total It_less (\<lambda>a b. It_less b a) (WI_of it) (WI_of it') = O_equal \<longleftrightarrow> It_eq it it'"
  "WI_spaceship_partial It_less It_less It_eq (WI_of it) (WI_of it') =
   WI_spaceship_total It_less (\<lambda>a b. It_less b a) (WI_of it) (WI_of it')"
  by (auto simp: WI_add_def WI_sub_def WI_sub_assign_def WI_add_assign_def It_add_def It_add_assign_def It_sub_def
      It_sub_assign_def WI_of_def WI_nth_def It_nth_def It_deref_def WI_spaceship_total_def WI_spaceship_partial_def
      WI_base_def It_less_def It_eq_def)

lemma to_array_copies: "to_array_lvalue a = a" "to_array_rvalue a = a"
  by (simp_all add: to_array_lvalue_def to_array_rvalue_def to_array_lvalue_impl_def to_array_rvalue_impl_def map_nth)

lemma span_first_last:
  assumes "MemorySpan_range sz p q = Some s"
  shows "MemorySpan_begin s = It_of_ptr p" "MemorySpan_end sz s = It_of_ptr q"
proof -
  have r: "sint (q - p) mod uint sz = 0" "span_data s = p" "span_size s = word_of_int (sint (q - p) div uint sz)"
    using assms by (auto simp: MemorySpan_range_def ptr_diff_def split: if_splits)
  have "(word_of_int (sint (q - p) div uint sz) :: u64) * sz = word_of_int (sint (q - p) div uint sz * uint sz)"
    by (simp add: wi_hom_mult[symmetric])
  also have "\<dots> = q - p" using r(1) by (simp add: minus_mod_eq_div_mult[symmetric])
  finally show "MemorySpan_begin s = It_of_ptr p" "MemorySpan_end sz s = It_of_ptr q"
    using r by (simp_all add: MemorySpan_begin_def MemorySpan_end_def)
qed

text \<open>A loop over a span ends and visits each element once, in order, and nothing else: over its own iterators as
  over wrapped ones.
\<close>

lemma span_loop:
  assumes "span_ok sz s"
  shows "range_for It_eq (It_inc sz) It_deref (MemorySpan_begin s) (MemorySpan_end sz s) body st =
           Some (MemorySpan_end sz s, fold body (map (\<lambda>k. MemorySpan_nth sz s (of_nat k)) [0..<unat (MemorySpan_size s)]) st) \<and>
         range_for (WI_eq It_eq) (WI_inc (It_inc sz)) (WI_deref It_deref)
           (WI_of (MemorySpan_begin s)) (WI_of (MemorySpan_end sz s)) body st =
           Some (WI_of (MemorySpan_end sz s),
                 fold body (map (\<lambda>k. MemorySpan_nth sz s (of_nat k)) [0..<unat (MemorySpan_size s)]) st)"
proof -
  have e: "(It_inc sz ^^ unat (MemorySpan_size s)) (MemorySpan_begin s) = MemorySpan_end sz s"
    by (simp add: inc_times MemorySpan_begin_def MemorySpan_end_def It_of_ptr_def MemorySpan_size_def)
  show ?thesis
    using span_it.loop[of "(sz, s)" body st] wrapped_it.loop[of "(sz, s)" body st] assms by (simp add: e WI_inc_times)
qed

end
