(* ===== verification/V8_Refs.thy ===== *)
theory V8_Refs
  imports V8_Handles
begin

text \<open>
  Handle variables: \<open>Global\<close> and \<open>Eternal\<close> of \<open>v8-persistent-handle.h\<close> and \<open>TracedReference\<close> of
  \<open>v8-traced-handle.h\<close>. A handle object is a variable at an address that holds the address of a storage cell,
  so that an assignment of a handle to itself is seen. The storage cells are the library's; what it does to a
  variable whose address it is given is written as a result. Both kinds of handles keep one discipline, a cell
  belongs to one variable; its laws are proved once, in the locale \<open>cell_store\<close>.
\<close>

section \<open>Variables\<close>

record 'g ref_world =
  ref_vars :: "addr \<Rightarrow> slot option"
  ref_state :: 'g

definition ref_at :: "'g ref_world \<Rightarrow> addr \<Rightarrow> slot option" where
  "ref_at w a = (if a = nullptr then None else ref_vars w a)"

definition ref_set :: "addr \<Rightarrow> slot \<Rightarrow> 'g ref_world \<Rightarrow> 'g ref_world" where
  "ref_set a s w = w\<lparr>ref_vars := (ref_vars w)(a \<mapsto> s)\<rparr>"

definition ref_gone :: "addr \<Rightarrow> 'g ref_world \<Rightarrow> 'g ref_world" where
  "ref_gone a w = w\<lparr>ref_vars := (ref_vars w)(a := None)\<rparr>"

definition with_state :: "slot \<times> 'g \<Rightarrow> addr \<Rightarrow> 'g ref_world \<Rightarrow> 'g ref_world" where
  "with_state r a w = (ref_set a (fst r) w)\<lparr>ref_state := snd r\<rparr>"

section \<open>\<open>Global\<close>\<close>

text \<open>\<open>MoveGlobalReference\<close> gets the addresses of both variables.\<close>

record 'g global_api = "'g handles_api" +
  MoveGlobalReference :: "addr \<Rightarrow> addr \<Rightarrow> 'g \<Rightarrow> 'g"
  Eternalize :: "obj \<Rightarrow> 'g \<Rightarrow> slot \<times> 'g"

text \<open>Moving tells the library the new address of the variable; it leaves the cells as they are.\<close>

definition global_api_ok :: "'g global_api \<Rightarrow> bool" where
  "global_api_ok H \<longleftrightarrow> handles_ok (handles_api.truncate H) \<and> (\<forall>a b g. cell H (MoveGlobalReference H a b g) = cell H g)"

abbreviation base_api :: "'g global_api \<Rightarrow> 'g handles_api" where
  "base_api H \<equiv> handles_api.truncate H"

definition global_new :: "addr \<Rightarrow> 'g ref_world \<Rightarrow> 'g ref_world option" where
  "global_new this w = Some (ref_set this nullptr w)"

definition global_new_local :: "'g global_api \<Rightarrow> addr \<Rightarrow> obj option \<Rightarrow> 'g ref_world \<Rightarrow> 'g ref_world option" where
  "global_new_local H this that w = Some (with_state (persistent_New (base_api H) that (ref_state w)) this w)"

text \<open>\<open>that.value<S>()\<close>: the object of the other handle, read through its cell.\<close>

definition ref_value :: "'g global_api \<Rightarrow> slot \<Rightarrow> 'g \<Rightarrow> obj option option" where
  "ref_value H s g = (if handle_IsEmpty s then Some None else map_option Some (cell H g s))"

definition global_new_persistent ::
    "'g global_api \<Rightarrow> addr \<Rightarrow> addr \<Rightarrow> 'g ref_world \<Rightarrow> 'g ref_world option" where
  "global_new_persistent H this that w =
     do { s \<leftarrow> ref_at w that; x \<leftarrow> ref_value H s (ref_state w);
          Some (with_state (persistent_New (base_api H) x (ref_state w)) this w) }"

definition global_Reset :: "'g global_api \<Rightarrow> addr \<Rightarrow> 'g ref_world \<Rightarrow> 'g ref_world option" where
  "global_Reset H this w =
     do { s \<leftarrow> ref_at w this; Some (with_state (persistent_Reset (base_api H) s (ref_state w)) this w) }"

definition global_Reset_local ::
    "'g global_api \<Rightarrow> addr \<Rightarrow> obj option \<Rightarrow> 'g ref_world \<Rightarrow> 'g ref_world option" where
  "global_Reset_local H this other w =
     do { s \<leftarrow> ref_at w this; Some (with_state (persistent_Reset_local (base_api H) s other (ref_state w)) this w) }"

definition global_delete :: "'g global_api \<Rightarrow> addr \<Rightarrow> 'g ref_world \<Rightarrow> 'g ref_world option" where
  "global_delete H this w = do { w1 \<leftarrow> global_Reset H this w; Some (ref_gone this w1) }"

definition global_new_move :: "'g global_api \<Rightarrow> addr \<Rightarrow> addr \<Rightarrow> 'g ref_world \<Rightarrow> 'g ref_world option" where
  "global_new_move H this other w =
     do { s \<leftarrow> ref_at w other;
          let w1 = ref_set this s w;
          if \<not> handle_IsEmpty s
          then Some (ref_set other (handle_Clear s) (w1\<lparr>ref_state := MoveGlobalReference H other this (ref_state w1)\<rparr>))
          else Some w1 }"

definition global_assign_move :: "'g global_api \<Rightarrow> addr \<Rightarrow> addr \<Rightarrow> 'g ref_world \<Rightarrow> 'g ref_world option" where
  "global_assign_move H this rhs w =
     (if this \<noteq> rhs
      then do { w1 \<leftarrow> global_Reset H this w;
                s \<leftarrow> ref_at w1 rhs;
                if \<not> handle_IsEmpty s
                then (let w2 = ref_set this s w1;
                          w3 = w2\<lparr>ref_state := MoveGlobalReference H rhs this (ref_state w2)\<rparr>
                      in Some (ref_set rhs (handle_Clear s) w3))
                else Some w1 }
      else Some w)"

definition global_Pass :: "'g global_api \<Rightarrow> addr \<Rightarrow> addr \<Rightarrow> 'g ref_world \<Rightarrow> 'g ref_world option" where
  "global_Pass H result this w = global_new_move H result this w"

definition global_Get :: "'g global_api \<Rightarrow> addr \<Rightarrow> 'g ref_world \<Rightarrow> obj option option" where
  "global_Get H this w = do { s \<leftarrow> ref_at w this; persistent_Get (base_api H) s (ref_state w) }"

definition eternal_Set :: "'g global_api \<Rightarrow> addr \<Rightarrow> obj \<Rightarrow> 'g ref_world \<Rightarrow> 'g ref_world option" where
  "eternal_Set H this handle w = Some (with_state (Eternalize H handle (ref_state w)) this w)"

definition eternal_new :: "'g global_api \<Rightarrow> addr \<Rightarrow> obj \<Rightarrow> 'g ref_world \<Rightarrow> 'g ref_world option" where
  "eternal_new H this handle w = eternal_Set H this handle (ref_set this nullptr w)"

text \<open>The result is the cell itself, as a local.\<close>

definition eternal_Get :: "addr \<Rightarrow> 'g ref_world \<Rightarrow> slot option" where
  "eternal_Get this w = ref_at w this"

section \<open>\<open>TracedReference\<close>\<close>

datatype TracedReferenceStoreMode = kInitializingStore | kAssigningStore
datatype TracedReferenceHandling = kDefault | kDroppable

text \<open>The slot that \<open>GlobalizeTracedReference\<close> is given is the address of the variable.\<close>

record 'g traced_api =
  GlobalizeTracedReference ::
    "obj \<Rightarrow> addr \<Rightarrow> TracedReferenceStoreMode \<Rightarrow> TracedReferenceHandling \<Rightarrow> 'g \<Rightarrow> slot \<times> 'g"
  MoveTracedReference :: "slot \<Rightarrow> slot \<Rightarrow> 'g \<Rightarrow> slot \<times> slot \<times> 'g"
  CopyTracedReference :: "slot \<Rightarrow> slot \<Rightarrow> 'g \<Rightarrow> slot \<times> 'g"
  DisposeTracedReference :: "slot \<Rightarrow> 'g \<Rightarrow> 'g"
  traced_cell :: "'g \<Rightarrow> slot \<Rightarrow> obj option"

text \<open>
  A new reference gets a new cell; moving leaves the source empty and the target with its object, in the same or
  in a new cell, and ends the target's old cell; copying makes a new cell.
\<close>

definition traced_ok :: "'g traced_api \<Rightarrow> bool" where
  "traced_ok H \<longleftrightarrow>
     (\<forall>x a sm h g s g'. GlobalizeTracedReference H x a sm h g = (s, g') \<longrightarrow>
        s \<noteq> 0 \<and> traced_cell H g s = None \<and> traced_cell H g' = (traced_cell H g)(s \<mapsto> x)) \<and>
     (\<forall>s g. traced_cell H g s \<noteq> None \<longrightarrow> traced_cell H (DisposeTracedReference H s g) = (traced_cell H g)(s := None)) \<and>
     (\<forall>s g x t g'. traced_cell H g s = Some x \<longrightarrow> CopyTracedReference H s 0 g = (t, g') \<longrightarrow>
        t \<noteq> 0 \<and> traced_cell H g t = None \<and> traced_cell H g' = (traced_cell H g)(t \<mapsto> x)) \<and>
     (\<forall>t g f' t' g'. MoveTracedReference H 0 t g = (f', t', g') \<longrightarrow>
        f' = 0 \<and> t' = 0 \<and> traced_cell H g' = (traced_cell H g)(t := None)) \<and>
     (\<forall>s t g x f' t' g'. traced_cell H g s = Some x \<longrightarrow> s \<noteq> t \<longrightarrow> MoveTracedReference H s t g = (f', t', g') \<longrightarrow>
        f' = 0 \<and> t' \<noteq> 0 \<and> ((traced_cell H g)(s := None, t := None)) t' = None \<and>
        traced_cell H g' = ((traced_cell H g)(s := None, t := None))(t' \<mapsto> x)) \<and>
     (\<forall>g. traced_cell H g 0 = None)"

definition SetSlotThreadSafe :: "addr \<Rightarrow> slot \<Rightarrow> 'g ref_world \<Rightarrow> 'g ref_world" where
  "SetSlotThreadSafe this new_val w = ref_set this new_val w"

definition GetSlotThreadSafe :: "addr \<Rightarrow> 'g ref_world \<Rightarrow> slot option" where
  "GetSlotThreadSafe this w = ref_at w this"

definition IsEmptyThreadSafe :: "addr \<Rightarrow> 'g ref_world \<Rightarrow> bool option" where
  "IsEmptyThreadSafe this w = do { s \<leftarrow> GetSlotThreadSafe this w; Some (s = nullptr) }"

definition traced_Reset :: "'g traced_api \<Rightarrow> addr \<Rightarrow> 'g ref_world \<Rightarrow> 'g ref_world option" where
  "traced_Reset H this w =
     do { s \<leftarrow> ref_at w this;
          if handle_IsEmpty s then Some w
          else Some (SetSlotThreadSafe this nullptr (w\<lparr>ref_state := DisposeTracedReference H s (ref_state w)\<rparr>)) }"

definition traced_Get :: "'g traced_api \<Rightarrow> addr \<Rightarrow> 'g ref_world \<Rightarrow> obj option option" where
  "traced_Get H this w =
     do { s \<leftarrow> ref_at w this;
          if handle_IsEmpty s then Some None else map_option Some (traced_cell H (ref_state w) s) }"

definition NewFromNonEmptyValue ::
    "'g traced_api \<Rightarrow> obj \<Rightarrow> addr \<Rightarrow> TracedReferenceStoreMode \<Rightarrow> TracedReferenceHandling \<Rightarrow> 'g \<Rightarrow> slot \<times> 'g" where
  "NewFromNonEmptyValue H that slt store_mode reference_handling g =
     GlobalizeTracedReference H that slt store_mode reference_handling g"

definition traced_new :: "addr \<Rightarrow> 'g ref_world \<Rightarrow> 'g ref_world option" where
  "traced_new this w = Some (ref_set this nullptr w)"

definition traced_new_local :: "'g traced_api \<Rightarrow> addr \<Rightarrow> obj option \<Rightarrow> 'g ref_world \<Rightarrow> 'g ref_world option" where
  "traced_new_local H this that w =
     (let w0 = ref_set this nullptr w in
      case that of None \<Rightarrow> Some w0
      | Some x \<Rightarrow> Some (with_state (NewFromNonEmptyValue H x this kInitializingStore kDefault (ref_state w0)) this w0))"

definition traced_new_droppable :: "'g traced_api \<Rightarrow> addr \<Rightarrow> obj option \<Rightarrow> 'g ref_world \<Rightarrow> 'g ref_world option" where
  "traced_new_droppable H this that w =
     (let w0 = ref_set this nullptr w in
      case that of None \<Rightarrow> Some w0
      | Some x \<Rightarrow> Some (with_state (NewFromNonEmptyValue H x this kInitializingStore kDroppable (ref_state w0)) this w0))"

definition traced_Reset_local :: "'g traced_api \<Rightarrow> addr \<Rightarrow> obj option \<Rightarrow> 'g ref_world \<Rightarrow> 'g ref_world option" where
  "traced_Reset_local H this other w =
     do { w1 \<leftarrow> traced_Reset H this w;
          case other of None \<Rightarrow> Some w1
          | Some x \<Rightarrow>
              (let (s, g) = NewFromNonEmptyValue H x this kAssigningStore kDefault (ref_state w1)
               in Some (SetSlotThreadSafe this s (w1\<lparr>ref_state := g\<rparr>))) }"

definition traced_Reset_droppable ::
    "'g traced_api \<Rightarrow> addr \<Rightarrow> obj option \<Rightarrow> 'g ref_world \<Rightarrow> 'g ref_world option" where
  "traced_Reset_droppable H this other w =
     do { w1 \<leftarrow> traced_Reset H this w;
          case other of None \<Rightarrow> Some w1
          | Some x \<Rightarrow>
              (let (s, g) = NewFromNonEmptyValue H x this kAssigningStore kDroppable (ref_state w1)
               in Some (SetSlotThreadSafe this s (w1\<lparr>ref_state := g\<rparr>))) }"

definition traced_assign_move :: "'g traced_api \<Rightarrow> addr \<Rightarrow> addr \<Rightarrow> 'g ref_world \<Rightarrow> 'g ref_world option" where
  "traced_assign_move H this rhs w =
     (if this \<noteq> rhs
      then do { s \<leftarrow> ref_at w rhs; t \<leftarrow> ref_at w this;
                let (s', t', g) = MoveTracedReference H s t (ref_state w);
                Some (ref_set this t' (ref_set rhs s' (w\<lparr>ref_state := g\<rparr>))) }
      else Some w)"

definition traced_assign_copy :: "'g traced_api \<Rightarrow> addr \<Rightarrow> addr \<Rightarrow> 'g ref_world \<Rightarrow> 'g ref_world option" where
  "traced_assign_copy H this rhs w =
     (if this \<noteq> rhs
      then do { w1 \<leftarrow> traced_Reset H this w;
                s \<leftarrow> ref_at w1 rhs;
                if \<not> handle_IsEmpty s
                then do { t \<leftarrow> ref_at w1 this;
                          let (t', g) = CopyTracedReference H s t (ref_state w1);
                          Some (ref_set this t' (w1\<lparr>ref_state := g\<rparr>)) }
                else Some w1 }
      else Some w)"

definition traced_new_move :: "'g traced_api \<Rightarrow> addr \<Rightarrow> addr \<Rightarrow> 'g ref_world \<Rightarrow> 'g ref_world option" where
  "traced_new_move H this other w = do { w0 \<leftarrow> traced_new this w; traced_assign_move H this other w0 }"

definition traced_new_copy :: "'g traced_api \<Rightarrow> addr \<Rightarrow> addr \<Rightarrow> 'g ref_world \<Rightarrow> 'g ref_world option" where
  "traced_new_copy H this other w = do { w0 \<leftarrow> traced_new this w; traced_assign_copy H this other w0 }"

definition traced_eq :: "'g traced_api \<Rightarrow> slot \<Rightarrow> slot \<Rightarrow> 'g \<Rightarrow> bool option" where
  "traced_eq H lhs rhs g =
     (if handle_IsEmpty lhs then Some (handle_IsEmpty rhs)
      else if handle_IsEmpty rhs then Some False
      else do { x \<leftarrow> traced_cell H g lhs; y \<leftarrow> traced_cell H g rhs; Some (x = y) })"

definition traced_neq :: "'g traced_api \<Rightarrow> slot \<Rightarrow> slot \<Rightarrow> 'g \<Rightarrow> bool option" where
  "traced_neq H lhs rhs g = map_option Not (traced_eq H lhs rhs g)"

section \<open>The discipline of cells\<close>

text \<open>The cells are those of the variables, each of one, and those of others, \<open>F\<close>.\<close>

definition owns :: "(addr \<Rightarrow> slot option) \<Rightarrow> (slot \<Rightarrow> obj option) \<Rightarrow> slot set \<Rightarrow> bool" where
  "owns P c F \<longleftrightarrow>
     P nullptr = None \<and> c 0 = None \<and>
     (\<forall>a s. P a = Some s \<longrightarrow> s \<noteq> 0 \<longrightarrow> (\<exists>x. c s = Some x) \<and> s \<notin> F) \<and>
     (\<forall>a b s. P a = Some s \<longrightarrow> P b = Some s \<longrightarrow> s \<noteq> 0 \<longrightarrow> a = b) \<and>
     (\<forall>s x. c s = Some x \<longrightarrow> s \<in> F \<or> (\<exists>a. P a = Some s)) \<and> (\<forall>s \<in> F. \<exists>x. c s = Some x)"

text \<open>The object each variable holds, \<open>None\<close> inside when it is empty.\<close>

definition ref_objs :: "(addr \<Rightarrow> slot option) \<Rightarrow> (slot \<Rightarrow> obj option) \<Rightarrow> addr \<Rightarrow> obj option option" where
  "ref_objs P c a = map_option (\<lambda>s. if s = 0 then None else c s) (P a)"

lemma ownsD:
  assumes "owns P c F"
  shows "P nullptr = None" "c 0 = None" "P a = Some s \<Longrightarrow> s \<noteq> 0 \<Longrightarrow> \<exists>x. c s = Some x" "P a = Some s \<Longrightarrow> s \<noteq> 0 \<Longrightarrow> s \<notin> F"
    "P a = Some s \<Longrightarrow> P b = Some s \<Longrightarrow> s \<noteq> 0 \<Longrightarrow> a = b" "c s = Some x \<Longrightarrow> s \<in> F \<or> (\<exists>a. P a = Some s)"
    "s \<in> F \<Longrightarrow> \<exists>x. c s = Some x"
  using assms unfolding owns_def by blast+

lemma ownsI:
  assumes "P nullptr = None" "c 0 = None" "\<And>a s. P a = Some s \<Longrightarrow> s \<noteq> 0 \<Longrightarrow> \<exists>x. c s = Some x"
    "\<And>a s. P a = Some s \<Longrightarrow> s \<noteq> 0 \<Longrightarrow> s \<notin> F" "\<And>a b s. P a = Some s \<Longrightarrow> P b = Some s \<Longrightarrow> s \<noteq> 0 \<Longrightarrow> a = b"
    "\<And>s x. c s = Some x \<Longrightarrow> s \<in> F \<or> (\<exists>a. P a = Some s)" "\<And>s. s \<in> F \<Longrightarrow> \<exists>x. c s = Some x"
  shows "owns P c F"
  using assms unfolding owns_def by blast

lemma owns_drop:
  assumes o: "owns P c F" and a: "P a = Some s" "s \<noteq> 0"
  shows "owns (P(a \<mapsto> 0)) (c(s := None)) F"
proof (rule ownsI)
  note D = ownsD [OF o]
  show "(P(a \<mapsto> 0)) nullptr = None" using D(1) a(1) by (cases "a = nullptr") simp_all
  show "(c(s := None)) 0 = None" using D(2) by simp
  show "\<exists>x. (c(s := None)) t = Some x" if "(P(a \<mapsto> 0)) b = Some t" "t \<noteq> 0" for b t
    using that D(3) [of b t] D(5) [of b t a] a by (auto split: if_splits)
  show "t \<notin> F" if "(P(a \<mapsto> 0)) b = Some t" "t \<noteq> 0" for b t using that D(4) [of b t] by (auto split: if_splits)
  show "b = b'" if "(P(a \<mapsto> 0)) b = Some t" "(P(a \<mapsto> 0)) b' = Some t" "t \<noteq> 0" for b b' t
    using that D(5) [of b t b'] by (auto split: if_splits)
  show "t \<in> F \<or> (\<exists>b. (P(a \<mapsto> 0)) b = Some t)" if t: "(c(s := None)) t = Some x" for t x
  proof -
    from t have "t \<noteq> s" "c t = Some x" by (auto split: if_splits)
    with D(6) [of t x] have "t \<in> F \<or> (\<exists>b. P b = Some t \<and> b \<noteq> a)" using a(1) by (metis option.inject)
    then show ?thesis by auto
  qed
  show "\<exists>x. (c(s := None)) t = Some x" if "t \<in> F" for t using that D(7) [of t] D(4) [OF a] by auto
qed

lemma owns_take:
  assumes o: "owns P c F" and a: "a \<noteq> nullptr" "P a = None \<or> P a = Some 0" and s: "s \<noteq> 0" "c s = None"
  shows "owns (P(a \<mapsto> s)) (c(s \<mapsto> x)) F"
proof (rule ownsI)
  note D = ownsD [OF o]
  show "(P(a \<mapsto> s)) nullptr = None" using D(1) a(1) by simp
  show "(c(s \<mapsto> x)) 0 = None" using D(2) s by simp
  show "\<exists>y. (c(s \<mapsto> x)) t = Some y" if "(P(a \<mapsto> s)) b = Some t" "t \<noteq> 0" for b t
    using that D(3) [of b t] by (auto split: if_splits)
  show "t \<notin> F" if "(P(a \<mapsto> s)) b = Some t" "t \<noteq> 0" for b t using that D(4) [of b t] D(7) [of s] s by (auto split: if_splits)
  show "b = b'" if "(P(a \<mapsto> s)) b = Some t" "(P(a \<mapsto> s)) b' = Some t" "t \<noteq> 0" for b b' t
    using that D(5) [of b t b'] D(3) [of b s] D(3) [of b' s] s by (auto split: if_splits)
  show "t \<in> F \<or> (\<exists>b. (P(a \<mapsto> s)) b = Some t)" if "(c(s \<mapsto> x)) t = Some y" for t y
  proof (cases "t = s")
    case False
    with that D(6) [of t y] D(2) obtain b where "t \<in> F \<or> P b = Some t" "t \<noteq> 0" by (cases "t = 0") auto
    with a(2) show ?thesis by (cases "b = a") auto
  qed auto
  show "\<exists>y. (c(s \<mapsto> x)) t = Some y" if "t \<in> F" for t using that D(7) [of t] by auto
qed

lemma owns_empty:
  assumes o: "owns P c F" and a: "a \<noteq> nullptr" "P a = None \<or> P a = Some 0"
  shows "owns (P(a \<mapsto> 0)) c F"
proof (rule ownsI)
  note D = ownsD [OF o]
  show "t \<in> F \<or> (\<exists>b. (P(a \<mapsto> 0)) b = Some t)" if "c t = Some y" for t y
  proof -
    from that D(2) D(6) [OF that] obtain b where "t \<in> F \<or> P b = Some t" "t \<noteq> 0" by (cases "t = 0") auto
    with a(2) show ?thesis by (cases "b = a") auto
  qed
qed (use a(1) ownsD [OF o] in \<open>auto split: if_splits\<close>)

lemma owns_gone:
  assumes o: "owns P c F" and a: "P a = None \<or> P a = Some 0"
  shows "owns (P(a := None)) c F"
proof (rule ownsI)
  note D = ownsD [OF o]
  show "t \<in> F \<or> (\<exists>b. (P(a := None)) b = Some t)" if "c t = Some y" for t y
  proof -
    from that D(2) D(6) [OF that] obtain b where "t \<in> F \<or> P b = Some t" "t \<noteq> 0" by (cases "t = 0") auto
    with a show ?thesis by (cases "b = a") auto
  qed
qed (use ownsD [OF o] in \<open>auto split: if_splits\<close>)

lemma owns_transfer:
  assumes o: "owns P c F" and b: "P b = Some s" "s \<noteq> 0" and a: "a \<noteq> nullptr" "a \<noteq> b" "P a = None \<or> P a = Some 0"
  shows "owns (P(a \<mapsto> s, b \<mapsto> 0)) c F"
proof -
  obtain x where x: "c s = Some x" using ownsD(3) [OF o b] by blast
  have "owns (P(b \<mapsto> 0, a \<mapsto> s)) (c(s := None, s \<mapsto> x)) F"
    by (rule owns_take [OF owns_drop [OF o b]]) (use a b in auto)
  with x a(2) show ?thesis by (simp add: fun_upd_twist fun_upd_idem)
qed

text \<open>How the operations change the objects.\<close>

lemma objs_upd: "ref_objs (P(a \<mapsto> s)) c = (ref_objs P c)(a \<mapsto> (if s = 0 then None else c s))"
  by (auto simp: ref_objs_def)

lemma objs_gone: "ref_objs (P(a := None)) c = (ref_objs P c)(a := None)"
  by (auto simp: ref_objs_def)

lemma objs_drop:
  assumes "owns P c F" "P a = Some s" "s \<noteq> 0"
  shows "ref_objs (P(a \<mapsto> 0)) (c(s := None)) = (ref_objs P c)(a \<mapsto> None)"
proof
  fix b
  have "b \<noteq> a \<Longrightarrow> P b \<noteq> Some s" using ownsD(5) [OF assms(1) _ assms(2,3)] by blast
  then show "ref_objs (P(a \<mapsto> 0)) (c(s := None)) b = ((ref_objs P c)(a \<mapsto> None)) b"
    by (cases "b = a"; cases "P b") (auto simp: ref_objs_def)
qed

lemma objs_take:
  assumes "owns P c F" "s \<noteq> 0" "c s = None"
  shows "ref_objs (P(a \<mapsto> s)) (c(s \<mapsto> x)) = (ref_objs P c)(a \<mapsto> Some x)"
proof
  fix b
  have "P b \<noteq> Some s" using ownsD(3) [OF assms(1) _ assms(2), of b] assms(3) by fastforce
  then show "ref_objs (P(a \<mapsto> s)) (c(s \<mapsto> x)) b = ((ref_objs P c)(a \<mapsto> Some x)) b"
    using assms(2) by (cases "P b") (auto simp: ref_objs_def)
qed

lemma objs_eq: "ref_objs P c a = None \<longleftrightarrow> P a = None"
  "ref_objs P c a = Some v \<longleftrightarrow> (\<exists>s. P a = Some s \<and> v = (if s = 0 then None else c s))"
  by (cases "P a"; auto simp: ref_objs_def)+

text \<open>Stores in which cells are made and disposed of.\<close>

locale cell_store =
  fixes good :: "'h \<Rightarrow> bool" and content :: "'h \<Rightarrow> 'g \<Rightarrow> slot \<Rightarrow> obj option"
    and make :: "'h \<Rightarrow> obj \<Rightarrow> 'e \<Rightarrow> 'g \<Rightarrow> slot \<times> 'g" and dispose :: "'h \<Rightarrow> slot \<Rightarrow> 'g \<Rightarrow> 'g"
  assumes make_law: "good h \<Longrightarrow> make h x e g = (s, g') \<Longrightarrow>
      s \<noteq> 0 \<and> content h g s = None \<and> content h g' = (content h g)(s \<mapsto> x)"
    and dispose_law: "good h \<Longrightarrow> content h g s \<noteq> None \<Longrightarrow> content h (dispose h s g) = (content h g)(s := None)"
begin

lemma reset:
  assumes "good h" "owns P (content h g) F" "P a = Some s" "g' = (if s = 0 then g else dispose h s g)"
  shows "owns (P(a \<mapsto> 0)) (content h g') F"
    "ref_objs (P(a \<mapsto> 0)) (content h g') = (ref_objs P (content h g))(a \<mapsto> None)"
proof -
  have "owns (P(a \<mapsto> 0)) (content h g') F \<and>
    ref_objs (P(a \<mapsto> 0)) (content h g') = (ref_objs P (content h g))(a \<mapsto> None)"
  proof (cases "s = 0")
    case True
    with assms have e: "P(a \<mapsto> 0) = P" "g' = g" by auto
    have "ref_objs P (content h g) a = Some None" using assms(3) True by (simp add: ref_objs_def)
    with assms(2) show ?thesis unfolding e by (simp add: fun_upd_idem)
  next
    case False
    then obtain x where "content h g s = Some x" using ownsD(3) [OF assms(2,3)] by blast
    with dispose_law [OF assms(1), of g s] False assms(4) have "content h g' = (content h g)(s := None)" by simp
    with owns_drop [OF assms(2,3) False] objs_drop [OF assms(2,3) False] show ?thesis by simp
  qed
  then show "owns (P(a \<mapsto> 0)) (content h g') F"
    "ref_objs (P(a \<mapsto> 0)) (content h g') = (ref_objs P (content h g))(a \<mapsto> None)" by simp_all
qed

lemma fill:
  assumes "good h" "owns P (content h g) F" "a \<noteq> nullptr" "P a = None \<or> P a = Some 0" "make h x e g = (s, g')"
  shows "owns (P(a \<mapsto> s)) (content h g') F"
    "ref_objs (P(a \<mapsto> s)) (content h g') = (ref_objs P (content h g))(a \<mapsto> Some x)"
proof -
  have m: "s \<noteq> 0" "content h g s = None" "content h g' = (content h g)(s \<mapsto> x)"
    using make_law [OF assms(1,5)] by simp_all
  show "owns (P(a \<mapsto> s)) (content h g') F" unfolding m(3) by (rule owns_take [OF assms(2-4) m(1,2)])
  show "ref_objs (P(a \<mapsto> s)) (content h g') = (ref_objs P (content h g))(a \<mapsto> Some x)"
    unfolding m(3) by (rule objs_take [OF assms(2) m(1,2)])
qed

end

lemma base_api_sel [simp]: "cell (base_api H) = cell H" "GlobalizeReference (base_api H) = GlobalizeReference H"
  "DisposeGlobal (base_api H) = DisposeGlobal H"
  by (cases H; simp add: handles_api.truncate_def)+

interpretation global_cells: cell_store global_api_ok cell "\<lambda>H x (_ :: unit). GlobalizeReference H x" DisposeGlobal
proof
  fix H :: "'g global_api" and x g s g' and e :: unit
  show "s \<noteq> 0 \<and> cell H g s = None \<and> cell H g' = (cell H g)(s \<mapsto> x)"
    if "global_api_ok H" "GlobalizeReference H x g = (s, g')"
  proof -
    have "handles_ok (base_api H)" "GlobalizeReference (base_api H) x g = (s, g')"
      using that by (simp_all add: global_api_ok_def)
    note handles_ok_globalize [OF this]
    then show ?thesis by simp
  qed
  show "cell H (DisposeGlobal H s g) = (cell H g)(s := None)" if "global_api_ok H" "cell H g s \<noteq> None"
  proof -
    from that obtain x where "handles_ok (base_api H)" "cell (base_api H) g s = Some x"
      by (auto simp: global_api_ok_def)
    note handles_ok_dispose [OF this]
    then show ?thesis by simp
  qed
qed

lemma traced_okD:
  assumes "traced_ok H"
  shows "GlobalizeTracedReference H x a sm h g = (s, g') \<Longrightarrow>
      s \<noteq> 0 \<and> traced_cell H g s = None \<and> traced_cell H g' = (traced_cell H g)(s \<mapsto> x)"
    "traced_cell H g s \<noteq> None \<Longrightarrow> traced_cell H (DisposeTracedReference H s g) = (traced_cell H g)(s := None)"
    "traced_cell H g s = Some x \<Longrightarrow> CopyTracedReference H s 0 g = (t, g') \<Longrightarrow>
      t \<noteq> 0 \<and> traced_cell H g t = None \<and> traced_cell H g' = (traced_cell H g)(t \<mapsto> x)"
    "MoveTracedReference H 0 t g = (f', t', g') \<Longrightarrow>
      f' = 0 \<and> t' = 0 \<and> traced_cell H g' = (traced_cell H g)(t := None)"
    "traced_cell H g s = Some x \<Longrightarrow> s \<noteq> t \<Longrightarrow> MoveTracedReference H s t g = (f', t', g') \<Longrightarrow>
      f' = 0 \<and> t' \<noteq> 0 \<and> ((traced_cell H g)(s := None, t := None)) t' = None \<and>
      traced_cell H g' = ((traced_cell H g)(s := None, t := None))(t' \<mapsto> x)"
proof -
  note A = assms [unfolded traced_ok_def]
  note B = A [THEN conjunct2] note C = B [THEN conjunct2] note D = C [THEN conjunct2] note E = D [THEN conjunct2]
  show "GlobalizeTracedReference H x a sm h g = (s, g') \<Longrightarrow>
      s \<noteq> 0 \<and> traced_cell H g s = None \<and> traced_cell H g' = (traced_cell H g)(s \<mapsto> x)"
    by (rule A [THEN conjunct1, rule_format])
  show "traced_cell H g s \<noteq> None \<Longrightarrow> traced_cell H (DisposeTracedReference H s g) = (traced_cell H g)(s := None)"
    by (rule B [THEN conjunct1, THEN spec, THEN spec, THEN mp])
  show "traced_cell H g s = Some x \<Longrightarrow> CopyTracedReference H s 0 g = (t, g') \<Longrightarrow>
      t \<noteq> 0 \<and> traced_cell H g t = None \<and> traced_cell H g' = (traced_cell H g)(t \<mapsto> x)"
    by (rule C [THEN conjunct1, rule_format])
  show "MoveTracedReference H 0 t g = (f', t', g') \<Longrightarrow>
      f' = 0 \<and> t' = 0 \<and> traced_cell H g' = (traced_cell H g)(t := None)"
    by (rule D [THEN conjunct1, rule_format])
  show "traced_cell H g s = Some x \<Longrightarrow> s \<noteq> t \<Longrightarrow> MoveTracedReference H s t g = (f', t', g') \<Longrightarrow>
      f' = 0 \<and> t' \<noteq> 0 \<and> ((traced_cell H g)(s := None, t := None)) t' = None \<and>
      traced_cell H g' = ((traced_cell H g)(s := None, t := None))(t' \<mapsto> x)"
    by (rule E [THEN conjunct1, rule_format])
qed

interpretation traced_cells: cell_store traced_ok traced_cell
    "\<lambda>H x e. GlobalizeTracedReference H x (fst e) (fst (snd e)) (snd (snd e))" DisposeTracedReference
  by (unfold_locales; erule (1) traced_okD)

lemma traced_move:
  assumes H: "traced_ok H" and o: "owns P (traced_cell H g) F" and a: "P a = Some t" and b: "P b = Some s" and ab: "a \<noteq> b"
    and m: "MoveTracedReference H s t g = (s', t', g')"
  shows "owns (P(b \<mapsto> s', a \<mapsto> t')) (traced_cell H g') F"
    "ref_objs (P(b \<mapsto> s', a \<mapsto> t')) (traced_cell H g') =
       (ref_objs P (traced_cell H g))(a \<mapsto> (if s = 0 then None else traced_cell H g s), b \<mapsto> None)"
proof -
  let ?c = "traced_cell H g" and ?c' = "(traced_cell H g)(t := None)"
  have an: "a \<noteq> nullptr" "b \<noteq> nullptr" using ownsD(1) [OF o] a b by (cases "a = nullptr"; cases "b = nullptr"; simp)+
  have 1: "owns (P(a \<mapsto> 0)) ?c' F" "ref_objs (P(a \<mapsto> 0)) ?c' = (ref_objs P ?c)(a \<mapsto> None)"
  proof -
    have "owns (P(a \<mapsto> 0)) ?c' F \<and> ref_objs (P(a \<mapsto> 0)) ?c' = (ref_objs P ?c)(a \<mapsto> None)"
    proof (cases "t = 0")
      case True
      with ownsD(2) [OF o] have "?c' = ?c" by auto
      moreover have "P(a \<mapsto> 0) = P" using a True by auto
      moreover have "ref_objs P ?c a = Some None" using a True by (simp add: ref_objs_def)
      ultimately show ?thesis using o by (simp add: fun_upd_idem)
    next
      case False
      with owns_drop [OF o a] objs_drop [OF o a] show ?thesis by simp
    qed
    then show "owns (P(a \<mapsto> 0)) ?c' F" "ref_objs (P(a \<mapsto> 0)) ?c' = (ref_objs P ?c)(a \<mapsto> None)" by simp_all
  qed
  have "owns (P(b \<mapsto> s', a \<mapsto> t')) (traced_cell H g') F \<and>
    ref_objs (P(b \<mapsto> s', a \<mapsto> t')) (traced_cell H g') =
       (ref_objs P ?c)(a \<mapsto> (if s = 0 then None else ?c s), b \<mapsto> None)"
  proof (cases "s = 0")
    case True
    with traced_okD(4) [OF H, of t g s' t' g'] m have r: "s' = 0" "t' = 0" "traced_cell H g' = ?c'" by auto
    have "P(b \<mapsto> s', a \<mapsto> t') = P(a \<mapsto> 0)" using b True r by auto
    moreover have "ref_objs P ?c b = Some None" using b True by (simp add: ref_objs_def)
    ultimately show ?thesis using 1 r True ab by (simp add: fun_upd_twist fun_upd_idem)
  next
    case False
    then obtain x where x: "?c s = Some x" using ownsD(3) [OF o b] by blast
    have st: "s \<noteq> t" using ownsD(5) [OF o a, of b] b False ab by auto
    have r: "s' = 0" "t' \<noteq> 0" "(?c(s := None, t := None)) t' = None" "traced_cell H g' = (?c(s := None, t := None))(t' \<mapsto> x)"
      using traced_okD(5) [OF H x st m] by simp_all
    have tw: "?c(s := None, t := None) = ?c'(s := None)" using st by (simp add: fun_upd_twist)
    have b1: "(P(a \<mapsto> 0)) b = Some s" using b ab by simp
    have 2: "owns (P(a \<mapsto> 0, b \<mapsto> 0)) (?c'(s := None)) F" by (rule owns_drop [OF 1(1) b1 False])
    have 3: "ref_objs (P(a \<mapsto> 0, b \<mapsto> 0)) (?c'(s := None)) = (ref_objs P ?c)(a \<mapsto> None, b \<mapsto> None)"
      unfolding objs_drop [OF 1(1) b1 False] 1(2) ..
    have n: "(?c'(s := None)) t' = None" using r(3) unfolding tw .
    have "owns (P(a \<mapsto> 0, b \<mapsto> 0, a \<mapsto> t')) ((?c'(s := None))(t' \<mapsto> x)) F"
      by (rule owns_take [OF 2 an(1) _ r(2) n]) (use ab in simp)
    moreover have "ref_objs (P(a \<mapsto> 0, b \<mapsto> 0, a \<mapsto> t')) ((?c'(s := None))(t' \<mapsto> x)) =
        (ref_objs P ?c)(a \<mapsto> None, b \<mapsto> None, a \<mapsto> Some x)"
      unfolding objs_take [OF 2 r(2) n] 3 ..
    moreover have "P(a \<mapsto> 0, b \<mapsto> 0, a \<mapsto> t') = P(b \<mapsto> s', a \<mapsto> t')" using ab r(1) by auto
    ultimately show ?thesis using r(4) tw x False ab by (simp add: fun_upd_twist)
  qed
  then show "owns (P(b \<mapsto> s', a \<mapsto> t')) (traced_cell H g') F"
    "ref_objs (P(b \<mapsto> s', a \<mapsto> t')) (traced_cell H g') =
       (ref_objs P (traced_cell H g))(a \<mapsto> (if s = 0 then None else traced_cell H g s), b \<mapsto> None)" by simp_all
qed

section \<open>Operations as assignments\<close>

datatype ref_op = RNew addr "obj option" | RReset addr "obj option" | RMove addr addr | RNewMove addr addr
  | RCopy addr addr | RNewCopy addr addr | RDelete addr

primrec ref_spec :: "ref_op \<Rightarrow> (addr \<Rightarrow> obj option option) \<Rightarrow> (addr \<Rightarrow> obj option option) option" where
  "ref_spec (RNew a x) M = (if a \<noteq> nullptr \<and> M a = None then Some (M(a \<mapsto> x)) else None)"
| "ref_spec (RReset a x) M = do { _ \<leftarrow> M a; Some (M(a \<mapsto> x)) }"
| "ref_spec (RMove a b) M = do { _ \<leftarrow> M a; x \<leftarrow> M b; Some (if a = b then M else M(a \<mapsto> x, b \<mapsto> None)) }"
| "ref_spec (RNewMove a b) M =
     do { x \<leftarrow> M b; if a \<noteq> nullptr \<and> M a = None then Some (M(a \<mapsto> x, b \<mapsto> None)) else None }"
| "ref_spec (RCopy a b) M = do { _ \<leftarrow> M a; x \<leftarrow> M b; Some (M(a \<mapsto> x)) }"
| "ref_spec (RNewCopy a b) M =
     do { x \<leftarrow> M b; if a \<noteq> nullptr \<and> M a = None then Some (M(a \<mapsto> x)) else None }"
| "ref_spec (RDelete a) M = do { _ \<leftarrow> M a; Some (M(a := None)) }"

text \<open>A \<open>Global\<close> cannot be copied by assignment; a \<open>TracedReference\<close> has no destructor of its own.\<close>

primrec global_exec :: "'g global_api \<Rightarrow> ref_op \<Rightarrow> 'g ref_world \<Rightarrow> 'g ref_world option" where
  "global_exec H (RNew a x) w = global_new_local H a x w"
| "global_exec H (RReset a x) w = global_Reset_local H a x w"
| "global_exec H (RMove a b) w = global_assign_move H a b w"
| "global_exec H (RNewMove a b) w = global_new_move H a b w"
| "global_exec H (RCopy a b) w = None"
| "global_exec H (RNewCopy a b) w = global_new_persistent H a b w"
| "global_exec H (RDelete a) w = global_delete H a w"

primrec traced_exec :: "'g traced_api \<Rightarrow> bool \<Rightarrow> ref_op \<Rightarrow> 'g ref_world \<Rightarrow> 'g ref_world option" where
  "traced_exec H droppable (RNew a x) w =
     (if droppable then traced_new_droppable H a x w else traced_new_local H a x w)"
| "traced_exec H droppable (RReset a x) w =
     (if droppable then traced_Reset_droppable H a x w else traced_Reset_local H a x w)"
| "traced_exec H droppable (RMove a b) w = traced_assign_move H a b w"
| "traced_exec H droppable (RNewMove a b) w = traced_new_move H a b w"
| "traced_exec H droppable (RCopy a b) w = traced_assign_copy H a b w"
| "traced_exec H droppable (RNewCopy a b) w = traced_new_copy H a b w"
| "traced_exec H droppable (RDelete a) w = None"

definition global_holds :: "'g global_api \<Rightarrow> 'g ref_world \<Rightarrow> slot set \<Rightarrow> (addr \<Rightarrow> obj option option) \<Rightarrow> bool" where
  "global_holds H w F M \<longleftrightarrow>
     owns (ref_vars w) (cell H (ref_state w)) F \<and> ref_objs (ref_vars w) (cell H (ref_state w)) = M"

definition traced_holds :: "'g traced_api \<Rightarrow> 'g ref_world \<Rightarrow> slot set \<Rightarrow> (addr \<Rightarrow> obj option option) \<Rightarrow> bool" where
  "traced_holds H w F M \<longleftrightarrow>
     owns (ref_vars w) (traced_cell H (ref_state w)) F \<and> ref_objs (ref_vars w) (traced_cell H (ref_state w)) = M"

lemma ref_at_owned: "owns (ref_vars w) c F \<Longrightarrow> ref_at w a = ref_vars w a"
  by (auto simp: ref_at_def ownsD(1))

lemma ref_sel [simp]: "ref_vars (ref_set a s w) = (ref_vars w)(a \<mapsto> s)" "ref_state (ref_set a s w) = ref_state w"
  "ref_vars (ref_gone a w) = (ref_vars w)(a := None)" "ref_state (ref_gone a w) = ref_state w"
  "ref_vars (with_state r a w) = (ref_vars w)(a \<mapsto> fst r)" "ref_state (with_state r a w) = snd r"
  "ref_vars (SetSlotThreadSafe a s w) = (ref_vars w)(a \<mapsto> s)" "ref_state (SetSlotThreadSafe a s w) = ref_state w"
  by (simp_all add: ref_set_def ref_gone_def with_state_def SetSlotThreadSafe_def)

lemma holds_at:
  assumes "global_holds H w F M \<or> traced_holds T w F M"
  shows "ref_at w a = ref_vars w a" "M a = None \<longleftrightarrow> ref_vars w a = None" "M a = Some v \<Longrightarrow> \<exists>s. ref_vars w a = Some s"
    "ref_vars w nullptr = None"
  using assms ref_at_owned ownsD(1) by (auto simp: global_holds_def traced_holds_def ref_objs_def)

lemma traced_value:
  assumes "traced_holds H w F M" "M b = Some v"
  obtains s where "ref_vars w b = Some s" "v = (if s = 0 then None else traced_cell H (ref_state w) s)"
  using assms by (auto simp: traced_holds_def ref_objs_def)

lemma global_value:
  assumes "global_holds H w F M" "M b = Some v"
  obtains s where "ref_vars w b = Some s" "v = (if s = 0 then None else cell H (ref_state w) s)"
  using assms by (auto simp: global_holds_def ref_objs_def)

lemma traced_Reset_ok:
  assumes H: "traced_ok H" and w: "traced_holds H w F M" and a: "M a = Some v"
  shows "\<exists>w'. traced_Reset H a w = Some w' \<and> traced_holds H w' F (M(a \<mapsto> None)) \<and> ref_vars w' = (ref_vars w)(a \<mapsto> 0)"
proof -
  obtain s where s: "ref_vars w a = Some s" by (rule traced_value [OF w a])
  note at = holds_at [OF disjI2 [OF w]]
  let ?g = "if s = 0 then ref_state w else DisposeTracedReference H s (ref_state w)"
  have o: "owns (ref_vars w) (traced_cell H (ref_state w)) F" "ref_objs (ref_vars w) (traced_cell H (ref_state w)) = M"
    using w by (simp_all add: traced_holds_def)
  note R = traced_cells.reset [OF H o(1) s refl, unfolded o(2)]
  show ?thesis
  proof (cases "s = 0")
    case True
    then have "(ref_vars w)(a \<mapsto> 0) = ref_vars w" using s by auto
    with R s True show ?thesis by (simp add: traced_Reset_def at handle_IsEmpty_def traced_holds_def)
  next
    case False
    with R s show ?thesis by (simp add: traced_Reset_def at handle_IsEmpty_def traced_holds_def)
  qed
qed

lemma global_Reset_ok:
  assumes H: "global_api_ok H" and w: "global_holds H w F M" and a: "M a = Some v"
  shows "\<exists>w'. global_Reset H a w = Some w' \<and> global_holds H w' F (M(a \<mapsto> None)) \<and> ref_vars w' = (ref_vars w)(a \<mapsto> 0)"
proof -
  obtain s where s: "ref_vars w a = Some s" by (rule global_value [OF w a])
  note at = holds_at [OF disjI1 [OF w]]
  have o: "owns (ref_vars w) (cell H (ref_state w)) F" "ref_objs (ref_vars w) (cell H (ref_state w)) = M"
    using w by (simp_all add: global_holds_def)
  note R = global_cells.reset [OF H o(1) s refl, unfolded o(2)]
  with s show ?thesis
    by (cases "s = 0") (simp_all add: global_Reset_def at persistent_Reset_def handle_IsEmpty_def handle_Clear_def global_holds_def)
qed

lemma traced_fill_ok:
  assumes H: "traced_ok H" and w: "traced_holds H w F M" and a: "a \<noteq> nullptr" "ref_vars w a = None \<or> ref_vars w a = Some 0"
    and m: "GlobalizeTracedReference H x a mode hnd (ref_state w) = (s, g)"
    and w': "ref_vars w' = (ref_vars w)(a \<mapsto> s)" "ref_state w' = g"
  shows "traced_holds H w' F (M(a \<mapsto> Some x))"
proof -
  have o: "owns (ref_vars w) (traced_cell H (ref_state w)) F" "ref_objs (ref_vars w) (traced_cell H (ref_state w)) = M"
    using w by (simp_all add: traced_holds_def)
  have m': "GlobalizeTracedReference H x (fst (a, mode, hnd)) (fst (snd (a, mode, hnd))) (snd (snd (a, mode, hnd))) (ref_state w) = (s, g)"
    using m by simp
  from traced_cells.fill [OF H o(1) a m'] o(2) show ?thesis by (simp add: traced_holds_def w')
qed

lemma global_fill_ok:
  assumes H: "global_api_ok H" and w: "global_holds H w F M" and a: "a \<noteq> nullptr" "ref_vars w a = None \<or> ref_vars w a = Some 0"
    and m: "GlobalizeReference H x (ref_state w) = (s, g)"
    and w': "ref_vars w' = (ref_vars w)(a \<mapsto> s)" "ref_state w' = g"
  shows "global_holds H w' F (M(a \<mapsto> Some x))"
proof -
  have o: "owns (ref_vars w) (cell H (ref_state w)) F" "ref_objs (ref_vars w) (cell H (ref_state w)) = M"
    using w by (simp_all add: global_holds_def)
  from global_cells.fill [OF H o(1) a m] o(2) show ?thesis by (simp add: global_holds_def w')
qed

lemma global_empty_ok:
  assumes w: "global_holds H w F M" and a: "a \<noteq> nullptr" "ref_vars w a = None \<or> ref_vars w a = Some 0"
    and w': "ref_vars w' = (ref_vars w)(a \<mapsto> 0)" "ref_state w' = ref_state w"
  shows "global_holds H w' F (M(a \<mapsto> None))"
proof -
  have o: "owns (ref_vars w) (cell H (ref_state w)) F" "ref_objs (ref_vars w) (cell H (ref_state w)) = M"
    using w by (simp_all add: global_holds_def)
  with owns_empty [OF o(1) a] show ?thesis by (simp add: global_holds_def w' objs_upd)
qed

lemma traced_empty_ok:
  assumes w: "traced_holds H w F M" and a: "a \<noteq> nullptr" "ref_vars w a = None \<or> ref_vars w a = Some 0"
    and w': "ref_vars w' = (ref_vars w)(a \<mapsto> 0)" "ref_state w' = ref_state w"
  shows "traced_holds H w' F (M(a \<mapsto> None))"
proof -
  have o: "owns (ref_vars w) (traced_cell H (ref_state w)) F" "ref_objs (ref_vars w) (traced_cell H (ref_state w)) = M"
    using w by (simp_all add: traced_holds_def)
  with owns_empty [OF o(1) a] show ?thesis by (simp add: traced_holds_def w' objs_upd)
qed

text \<open>A handle taken over from another variable.\<close>

lemma global_transfer_ok:
  assumes H: "global_api_ok H" and w: "global_holds H w F M" and b: "M b = Some v" "ref_vars w b = Some s" "s \<noteq> 0"
    and a: "a \<noteq> nullptr" "a \<noteq> b" "ref_vars w a = None \<or> ref_vars w a = Some 0"
    and w': "ref_vars w' = (ref_vars w)(a \<mapsto> s, b \<mapsto> 0)" "ref_state w' = MoveGlobalReference H b a (ref_state w)"
  shows "global_holds H w' F (M(a \<mapsto> v, b \<mapsto> None))"
proof -
  have o: "owns (ref_vars w) (cell H (ref_state w)) F" "ref_objs (ref_vars w) (cell H (ref_state w)) = M"
    using w by (simp_all add: global_holds_def)
  have "cell H (ref_state w') = cell H (ref_state w)" using H by (simp add: w' global_api_ok_def)
  moreover have "v = cell H (ref_state w) s" using o(2) b by (auto simp: ref_objs_def)
  ultimately show ?thesis using owns_transfer [OF o(1) b(2,3) a] o(2) b(3) a(2) by (simp add: global_holds_def w' objs_upd)
qed

lemma persistent_New_ok:
  assumes H: "global_api_ok H" and w: "global_holds H w F M" and a: "a \<noteq> nullptr" "ref_vars w a = None \<or> ref_vars w a = Some 0"
  shows "global_holds H (with_state (persistent_New (base_api H) x (ref_state w)) a w) F (M(a \<mapsto> x))"
proof (cases x)
  case None
  with global_empty_ok [OF w a] show ?thesis by (simp add: persistent_New_def)
next
  case (Some y)
  obtain s g where m: "GlobalizeReference H y (ref_state w) = (s, g)" by fastforce
  from global_fill_ok [OF H w a m] Some m show ?thesis by (simp add: persistent_New_def)
qed

lemma global_new_move_ok:
  assumes H: "global_api_ok H" and w: "global_holds H w F M" and b: "M b = Some v"
    and a: "a \<noteq> nullptr" "a \<noteq> b" "ref_vars w a = None \<or> ref_vars w a = Some 0"
  shows "\<exists>w'. global_new_move H a b w = Some w' \<and> global_holds H w' F (M(a \<mapsto> v, b \<mapsto> None))"
proof -
  obtain s where s: "ref_vars w b = Some s" "v = (if s = 0 then None else cell H (ref_state w) s)"
    by (rule global_value [OF w b])
  note at = holds_at [OF disjI1 [OF w]]
  show ?thesis
  proof (cases "s = 0")
    case True
    have "M(b \<mapsto> None) = M" using b s True by auto
    moreover have "(M(a \<mapsto> None))(b \<mapsto> None) = (M(b \<mapsto> None))(a \<mapsto> None)" using a(2) by auto
    ultimately show ?thesis using global_empty_ok [OF w a(1,3), of "ref_set a 0 w"] s True
      by (simp add: global_new_move_def at handle_IsEmpty_def)
  next
    case False
    let ?w = "ref_set b 0 ((ref_set a s w)\<lparr>ref_state := MoveGlobalReference H b a (ref_state w)\<rparr>)"
    have "global_holds H ?w F (M(a \<mapsto> v, b \<mapsto> None))"
      by (rule global_transfer_ok [OF H w b s(1) False a]) simp_all
    with s False show ?thesis by (simp add: global_new_move_def at handle_IsEmpty_def handle_Clear_def)
  qed
qed

lemma global_assign_move_ok:
  assumes H: "global_api_ok H" and w: "global_holds H w F M" and M: "M a = Some u" "M b = Some v" and ab: "a \<noteq> b"
  shows "\<exists>w'. global_assign_move H a b w = Some w' \<and> global_holds H w' F (M(a \<mapsto> v, b \<mapsto> None))"
proof -
  obtain w1 where w1: "global_Reset H a w = Some w1" "global_holds H w1 F (M(a \<mapsto> None))" "ref_vars w1 = (ref_vars w)(a \<mapsto> 0)"
    using global_Reset_ok [OF H w M(1)] by blast
  have a: "a \<noteq> nullptr" using holds_at(3) [OF disjI1 [OF w], of a u] holds_at(4) [OF disjI1 [OF w]] M(1) by (cases "a = nullptr") auto
  have b: "(M(a \<mapsto> None)) b = Some v" using M(2) ab by simp
  obtain s where s: "ref_vars w1 b = Some s" "v = (if s = 0 then None else cell H (ref_state w1) s)"
    by (rule global_value [OF w1(2) b])
  note at = holds_at [OF disjI1 [OF w1(2)]]
  show ?thesis
  proof (cases "s = 0")
    case True
    have "M(a \<mapsto> v, b \<mapsto> None) = M(a \<mapsto> None)" using True s(2) M(2) ab by auto
    with w1 s(1) True ab show ?thesis by (simp add: global_assign_move_def at handle_IsEmpty_def)
  next
    case False
    let ?w = "ref_set b 0 ((ref_set a s w1)\<lparr>ref_state := MoveGlobalReference H b a (ref_state w1)\<rparr>)"
    have "global_holds H ?w F ((M(a \<mapsto> None))(a \<mapsto> v, b \<mapsto> None))"
      by (rule global_transfer_ok [OF H w1(2) b s(1) False a ab]) (simp_all add: w1(3))
    with w1 s False ab show ?thesis by (simp add: global_assign_move_def at handle_IsEmpty_def handle_Clear_def)
  qed
qed

lemma persistent_Reset_local_eq:
  "persistent_Reset_local H s x g = persistent_New H x (snd (persistent_Reset H s g))"
  by (auto simp: persistent_Reset_local_def persistent_New_def persistent_Reset_def handle_IsEmpty_def handle_Clear_def)

lemma global_Reset_local_eq:
  "global_Reset_local H a x w =
     do { w1 \<leftarrow> global_Reset H a w; Some (with_state (persistent_New (base_api H) x (ref_state w1)) a w1) }"
  by (cases "ref_at w a") (simp_all add: global_Reset_local_def global_Reset_def persistent_Reset_local_eq with_state_def ref_set_def)


lemma traced_assign_copy_ok:
  assumes H: "traced_ok H" and w: "traced_holds H w F M" and M: "M a = Some u" "M b = Some v" and ab: "a \<noteq> b"
  shows "\<exists>w'. traced_assign_copy H a b w = Some w' \<and> traced_holds H w' F (M(a \<mapsto> v))"
proof -
  obtain w1 where w1: "traced_Reset H a w = Some w1" "traced_holds H w1 F (M(a \<mapsto> None))" "ref_vars w1 = (ref_vars w)(a \<mapsto> 0)"
    using traced_Reset_ok [OF H w M(1)] by blast
  have a: "a \<noteq> nullptr" using holds_at(3) [OF disjI2 [OF w], of a u] holds_at(4) [OF disjI2 [OF w]] M(1) by (cases "a = nullptr") auto
  have b: "(M(a \<mapsto> None)) b = Some v" using M(2) ab by simp
  obtain s where s: "ref_vars w1 b = Some s" "v = (if s = 0 then None else traced_cell H (ref_state w1) s)"
    by (rule traced_value [OF w1(2) b])
  note at = holds_at [OF disjI2 [OF w1(2)]]
  have o: "owns (ref_vars w1) (traced_cell H (ref_state w1)) F"
    "ref_objs (ref_vars w1) (traced_cell H (ref_state w1)) = M(a \<mapsto> None)"
    using w1(2) by (simp_all add: traced_holds_def)
  show ?thesis
  proof (cases "s = 0")
    case True
    with w1 s ab show ?thesis by (simp add: traced_assign_copy_def at handle_IsEmpty_def)
  next
    case False
    then obtain x where x: "traced_cell H (ref_state w1) s = Some x" using ownsD(3) [OF o(1) s(1)] by blast
    obtain t g where c: "CopyTracedReference H s 0 (ref_state w1) = (t, g)" by fastforce
    have t: "t \<noteq> 0" "traced_cell H (ref_state w1) t = None" "traced_cell H g = (traced_cell H (ref_state w1))(t \<mapsto> x)"
      using traced_okD(3) [OF H x c] by simp_all
    let ?w = "ref_set a t (w1\<lparr>ref_state := g\<rparr>)"
    have a0: "ref_vars w1 a = None \<or> ref_vars w1 a = Some 0" using w1(3) by simp
    have "traced_holds H ?w F ((M(a \<mapsto> None))(a \<mapsto> Some x))"
      using owns_take [OF o(1) a a0 t(1,2), of x] objs_take [OF o(1) t(1,2), of a x] o(2) t(3)
      by (simp add: traced_holds_def)
    then have "traced_holds H ?w F (M(a \<mapsto> v))" using s(2) False x by simp
    moreover have "ref_vars w1 a = Some 0" using w1(3) by simp
    ultimately show ?thesis using w1(1) s(1) False ab c by (simp add: traced_assign_copy_def at handle_IsEmpty_def)
  qed
qed

lemma traced_assign_move_ok:
  assumes H: "traced_ok H" and w: "traced_holds H w F M" and M: "M a = Some u" "M b = Some v" and ab: "a \<noteq> b"
  shows "\<exists>w'. traced_assign_move H a b w = Some w' \<and> traced_holds H w' F (M(a \<mapsto> v, b \<mapsto> None))"
proof -
  obtain t where t: "ref_vars w a = Some t" by (rule traced_value [OF w M(1)])
  obtain s where s: "ref_vars w b = Some s" "v = (if s = 0 then None else traced_cell H (ref_state w) s)"
    by (rule traced_value [OF w M(2)])
  note at = holds_at [OF disjI2 [OF w]]
  obtain s' t' g where m: "MoveTracedReference H s t (ref_state w) = (s', t', g)" by (metis prod_cases3)
  have o: "owns (ref_vars w) (traced_cell H (ref_state w)) F" "ref_objs (ref_vars w) (traced_cell H (ref_state w)) = M"
    using w by (simp_all add: traced_holds_def)
  have "traced_holds H (ref_set a t' (ref_set b s' (w\<lparr>ref_state := g\<rparr>))) F (M(a \<mapsto> v, b \<mapsto> None))"
    using traced_move [OF H o(1) t s(1) ab m] by (simp add: traced_holds_def o(2) s(2))
  with t s(1) ab m show ?thesis by (simp add: traced_assign_move_def at)
qed

lemma traced_fresh_ok:
  assumes w: "traced_holds H w F M" and a: "a \<noteq> nullptr" "M a = None"
  shows "traced_holds H (ref_set a 0 w) F (M(a \<mapsto> None))" "ref_vars (ref_set a 0 w) a = Some 0"
  using traced_empty_ok [OF w a(1), of "ref_set a 0 w"] holds_at(2) [OF disjI2 [OF w], of a] a(2) by auto

text \<open>Every operation on a \<open>TracedReference\<close>, droppable or not, succeeds and is an assignment of object
  variables: a reset ends the old cell before a new one is made, a copy makes a cell of its own, a move leaves
  the source empty, assigning a reference to itself changes nothing, and no cell is lost.\<close>

lemma traced_ops_refine:
  assumes "traced_ok H" "traced_holds H w F M" "ref_spec op M = Some M'" "\<forall>a. op \<noteq> RDelete a"
  shows "\<exists>w'. traced_exec H droppable op w = Some w' \<and> traced_holds H w' F M'"
proof (cases op)
  note at = holds_at [OF disjI2 [OF assms(2)]]
  {
    case (RNew a x)
    with assms(3) have a: "a \<noteq> nullptr" "M a = None" "M' = M(a \<mapsto> x)" by (auto split: if_splits simp del: not_None_eq)
    note w0 = traced_fresh_ok [OF assms(2) a(1,2)]
    show ?thesis
    proof (cases x)
      case None
      with w0 a RNew show ?thesis by (simp add: traced_new_local_def traced_new_droppable_def)
    next
      case (Some y)
      obtain s g s' g' where m: "GlobalizeTracedReference H y a kInitializingStore kDefault (ref_state w) = (s, g)"
        "GlobalizeTracedReference H y a kInitializingStore kDroppable (ref_state w) = (s', g')" by fastforce
      have st: "ref_state (ref_set a 0 w) = ref_state w" by simp
      from traced_fill_ok [OF assms(1) w0(1) a(1) disjI2 [OF w0(2)], unfolded st, OF m(1)]
        traced_fill_ok [OF assms(1) w0(1) a(1) disjI2 [OF w0(2)], unfolded st, OF m(2)] Some RNew a(3) m
      show ?thesis by (simp add: traced_new_local_def traced_new_droppable_def NewFromNonEmptyValue_def)
    qed
  next
    case (RReset a x)
    with assms(3) obtain v where v: "M a = Some v" "M' = M(a \<mapsto> x)" by auto
    obtain w1 where w1: "traced_Reset H a w = Some w1" "traced_holds H w1 F (M(a \<mapsto> None))" "ref_vars w1 = (ref_vars w)(a \<mapsto> 0)"
      using traced_Reset_ok [OF assms(1,2) v(1)] by blast
    have a: "a \<noteq> nullptr" using at(3) [of a v] at(4) v(1) by (cases "a = nullptr") auto
    have a0: "ref_vars w1 a = None \<or> ref_vars w1 a = Some 0" using w1(3) by simp
    show ?thesis
    proof (cases x)
      case None
      with w1 v RReset show ?thesis by (simp add: traced_Reset_local_def traced_Reset_droppable_def)
    next
      case (Some y)
      obtain s g s' g' where m: "GlobalizeTracedReference H y a kAssigningStore kDefault (ref_state w1) = (s, g)"
        "GlobalizeTracedReference H y a kAssigningStore kDroppable (ref_state w1) = (s', g')" by fastforce
      from traced_fill_ok [OF assms(1) w1(2) a a0 m(1)] traced_fill_ok [OF assms(1) w1(2) a a0 m(2)] Some RReset v(2) w1(1) m
      show ?thesis by (simp add: traced_Reset_local_def traced_Reset_droppable_def NewFromNonEmptyValue_def)
    qed
  next
    case (RMove a b)
    with assms(3) obtain u v where M: "M a = Some u" "M b = Some v" "M' = (if a = b then M else M(a \<mapsto> v, b \<mapsto> None))" by auto
    with traced_assign_move_ok [OF assms(1,2) M(1,2)] RMove assms(2) show ?thesis
      by (cases "a = b") (simp_all add: traced_assign_move_def)
  next
    case (RNewMove a b)
    with assms(3) obtain v where M: "M b = Some v" "a \<noteq> nullptr" "M a = None" "M' = M(a \<mapsto> v, b \<mapsto> None)"
      by (auto split: if_splits simp del: not_None_eq)
    then have ab: "a \<noteq> b" by auto
    note w0 = traced_fresh_ok [OF assms(2) M(2,3)]
    from traced_assign_move_ok [OF assms(1) w0(1), of a None b v] M ab RNewMove show ?thesis
      by (simp add: traced_new_move_def traced_new_def)
  next
    case (RCopy a b)
    with assms(3) obtain u v where M: "M a = Some u" "M b = Some v" "M' = M(a \<mapsto> v)" by auto
    show ?thesis
    proof (cases "a = b")
      case True
      then have "M' = M" using M by auto
      with True RCopy assms(2) show ?thesis by (simp add: traced_assign_copy_def)
    next
      case False
      with traced_assign_copy_ok [OF assms(1,2) M(1,2)] M(3) RCopy show ?thesis by simp
    qed
  next
    case (RNewCopy a b)
    with assms(3) obtain v where M: "M b = Some v" "a \<noteq> nullptr" "M a = None" "M' = M(a \<mapsto> v)"
      by (auto split: if_splits simp del: not_None_eq)
    then have ab: "a \<noteq> b" by auto
    note w0 = traced_fresh_ok [OF assms(2) M(2,3)]
    from traced_assign_copy_ok [OF assms(1) w0(1), of a None b v] M ab RNewCopy show ?thesis
      by (simp add: traced_new_copy_def traced_new_def)
  }
qed (use assms(4) in simp)

section \<open>Witnesses\<close>

definition demo_global_api :: "cell_table global_api" where
  "demo_global_api = handles_api.extend list_handles
     \<lparr>MoveGlobalReference = (\<lambda>a b g. g), Eternalize = (\<lambda>x g. GlobalizeReference list_handles x g)\<rparr>"

lemma demo_global_api_ok: "global_api_ok demo_global_api"
proof -
  have "base_api demo_global_api = list_handles" by (simp add: demo_global_api_def handles_api.defs)
  then show ?thesis using list_handles_ok by (simp add: global_api_ok_def) (simp add: demo_global_api_def handles_api.defs)
qed

definition demo_traced_api :: "cell_table traced_api" where
  "demo_traced_api =
     \<lparr>GlobalizeTracedReference = (\<lambda>x a mode hnd g. GlobalizeReference list_handles x g),
      MoveTracedReference = (\<lambda>s t g. (0, s, DisposeGlobal list_handles t g)),
      CopyTracedReference = (\<lambda>s t g. CopyGlobalReference list_handles s g),
      DisposeTracedReference = (\<lambda>s g. DisposeGlobal list_handles s g),
      traced_cell = cell list_handles\<rparr>"

lemma list_dispose: "cell list_handles (DisposeGlobal list_handles t g) = (cell list_handles g)(t := None)"
  by (cases g) (simp add: fun_eq_iff map_of_delete_key)

lemma list_dispose_pair: "cell list_handles (a, AList.delete t b) = (cell list_handles (a, b))(t := None)"
  using list_dispose [of t "(a, b)"] by simp

lemma demo_traced_api_ok: "traced_ok demo_traced_api"
  unfolding traced_ok_def
proof (intro conjI)
  have nz: "cell list_handles g s = Some x \<Longrightarrow> 0 < s" for g s x
    using handles_ok_null [OF list_handles_ok, of g] by (cases "s = 0") auto
  show "\<forall>x a sm h g s g'. GlobalizeTracedReference demo_traced_api x a sm h g = (s, g') \<longrightarrow>
      s \<noteq> 0 \<and> traced_cell demo_traced_api g s = None \<and> traced_cell demo_traced_api g' = (traced_cell demo_traced_api g)(s \<mapsto> x)"
  proof (intro allI impI)
    fix x a sm h g s g'
    assume "GlobalizeTracedReference demo_traced_api x a sm h g = (s, g')"
    then have "GlobalizeReference list_handles x g = (s, g')" by (simp add: demo_traced_api_def)
    note handles_ok_globalize [OF list_handles_ok this]
    then show "s \<noteq> 0 \<and> traced_cell demo_traced_api g s = None \<and>
        traced_cell demo_traced_api g' = (traced_cell demo_traced_api g)(s \<mapsto> x)" by (simp add: demo_traced_api_def)
  qed
  show "\<forall>s g. traced_cell demo_traced_api g s \<noteq> None \<longrightarrow>
      traced_cell demo_traced_api (DisposeTracedReference demo_traced_api s g) = (traced_cell demo_traced_api g)(s := None)"
    by (simp add: demo_traced_api_def list_dispose)
  show "\<forall>s g x t g'. traced_cell demo_traced_api g s = Some x \<longrightarrow> CopyTracedReference demo_traced_api s 0 g = (t, g') \<longrightarrow>
      t \<noteq> 0 \<and> traced_cell demo_traced_api g t = None \<and> traced_cell demo_traced_api g' = (traced_cell demo_traced_api g)(t \<mapsto> x)"
  proof (intro allI impI)
    fix s g x t g'
    assume "traced_cell demo_traced_api g s = Some x" "CopyTracedReference demo_traced_api s 0 g = (t, g')"
    then have "cell list_handles g s = Some x" "CopyGlobalReference list_handles s g = (t, g')"
      by (simp_all add: demo_traced_api_def)
    note handles_ok_copy [OF list_handles_ok this]
    then show "t \<noteq> 0 \<and> traced_cell demo_traced_api g t = None \<and>
        traced_cell demo_traced_api g' = (traced_cell demo_traced_api g)(t \<mapsto> x)" by (simp add: demo_traced_api_def)
  qed
  show "\<forall>t g f' t' g'. MoveTracedReference demo_traced_api 0 t g = (f', t', g') \<longrightarrow>
      f' = 0 \<and> t' = 0 \<and> traced_cell demo_traced_api g' = (traced_cell demo_traced_api g)(t := None)"
    by (auto simp: demo_traced_api_def list_dispose_pair simp del: list_handles_simps(4))
  show "\<forall>s t g x f' t' g'. traced_cell demo_traced_api g s = Some x \<longrightarrow> s \<noteq> t \<longrightarrow>
      MoveTracedReference demo_traced_api s t g = (f', t', g') \<longrightarrow>
      f' = 0 \<and> t' \<noteq> 0 \<and> ((traced_cell demo_traced_api g)(s := None, t := None)) t' = None \<and>
      traced_cell demo_traced_api g' = ((traced_cell demo_traced_api g)(s := None, t := None))(t' \<mapsto> x)"
    using nz by (auto simp: demo_traced_api_def list_dispose_pair fun_eq_iff simp del: list_handles_simps(4))
  show "\<forall>g. traced_cell demo_traced_api g 0 = None"
    using handles_ok_null [OF list_handles_ok] by (simp add: demo_traced_api_def)
qed

definition demo_refs :: "cell_table ref_world" where
  "demo_refs = \<lparr>ref_vars = [8 \<mapsto> 1, 16 \<mapsto> 0], ref_state = (1, [(1, 42)])\<rparr>"

lemma demo_refs_hold: "global_holds demo_global_api demo_refs {} [8 \<mapsto> Some 42, 16 \<mapsto> None]"
  "traced_holds demo_traced_api demo_refs {} [8 \<mapsto> Some 42, 16 \<mapsto> None]"
proof -
  have c: "cell list_handles (1, [(1, 42)]) = [1 \<mapsto> 42]" by (auto simp: fun_eq_iff)
  have o: "owns (ref_vars demo_refs) [1 \<mapsto> 42] {}" by (rule ownsI) (auto simp: demo_refs_def split: if_splits)
  have r: "ref_objs (ref_vars demo_refs) [1 \<mapsto> 42] = [8 \<mapsto> Some 42, 16 \<mapsto> None]"
    by (auto simp: ref_objs_def demo_refs_def)
  have e: "cell demo_global_api = cell list_handles" "traced_cell demo_traced_api = cell list_handles"
    by (simp_all add: demo_global_api_def handles_api.defs demo_traced_api_def)
  have s: "ref_state demo_refs = (1, [(1, 42)])" by (simp add: demo_refs_def)
  show "global_holds demo_global_api demo_refs {} [8 \<mapsto> Some 42, 16 \<mapsto> None]"
    "traced_holds demo_traced_api demo_refs {} [8 \<mapsto> Some 42, 16 \<mapsto> None]"
    unfolding global_holds_def traced_holds_def e s c using o r by simp_all
qed


end
