(* ===== verification/Cppgc_Pointers.thy ===== *)
theory Cppgc_Pointers
  imports Prelude
begin

unbundle bit_operations_syntax

text \<open>
  How the managed C++ heap stores a pointer in a field: \<open>api-constants.h\<close>, \<open>sentinel-pointer.h\<close>,
  \<open>caged-heap.h\<close> and \<open>member-storage.h\<close> under \<open>cppgc/\<close>. The parameter \<open>larger\<close> is
  \<open>CPPGC_ENABLE_LARGER_CAGE\<close>, \<open>base\<close> the value of \<open>CageBaseGlobal::g_base_\<close> and \<open>g_heap_base\<close> that of
  \<open>CagedHeapBase::g_heap_base_\<close>.
\<close>

section \<open>Constants\<close>

definition kPageSizeBits :: nat where "kPageSizeBits = 17"
definition kPageSize :: u64 where "kPageSize = push_bit kPageSizeBits 1"
definition kLargeObjectSizeThreshold :: u64 where "kLargeObjectSizeThreshold = kPageSize div 2"
definition kFullyConstructedBitFieldOffsetFromPayload :: int where
  "kFullyConstructedBitFieldOffsetFromPayload = 2 * 2"
definition kFullyConstructedBitMask :: u16 where "kFullyConstructedBitMask = push_bit 15 1"
definition kDefaultAlignment :: nat where "kDefaultAlignment = 8"
definition kMaxSupportedAlignment :: nat where "kMaxSupportedAlignment = 2 * kDefaultAlignment"
definition kAllocationGranularity :: nat where "kAllocationGranularity = 8"
definition kCachelineSize :: nat where "kCachelineSize = 64"

definition kPointerCompressionShift :: "bool \<Rightarrow> nat" where
  "kPointerCompressionShift larger = (if larger then 3 else 1)"

definition kCagedHeapMaxReservationSize :: "bool \<Rightarrow> u64" where
  "kCagedHeapMaxReservationSize larger = push_bit (31 + kPointerCompressionShift larger) 1"

definition kCagedHeapReservationAlignment :: "bool \<Rightarrow> u64" where
  "kCagedHeapReservationAlignment larger = kCagedHeapMaxReservationSize larger"

definition kSentinelPointer :: "bool \<Rightarrow> u64" where
  "kSentinelPointer larger = push_bit (kPointerCompressionShift larger) 1"

section \<open>The cage\<close>

definition OffsetFromAddress :: "bool \<Rightarrow> u64 \<Rightarrow> u64" where
  "OffsetFromAddress larger address = address AND (kCagedHeapReservationAlignment larger - 1)"

definition IsWithinCage :: "bool \<Rightarrow> u64 \<Rightarrow> u64 \<Rightarrow> bool" where
  "IsWithinCage larger g_heap_base address \<longleftrightarrow>
     address AND NOT (kCagedHeapReservationAlignment larger - 1) = g_heap_base"

definition AreWithinCage :: "bool \<Rightarrow> u64 \<Rightarrow> u64 \<Rightarrow> u64 \<Rightarrow> bool" where
  "AreWithinCage larger g_heap_base addr1 addr2 \<longleftrightarrow>
     (let kHeapBaseShift = 31 + kPointerCompressionShift larger
      in drop_bit kHeapBaseShift ((addr1 XOR g_heap_base) OR (addr2 XOR g_heap_base)) = 0)"

definition kLowerHalfWordMask :: "bool \<Rightarrow> u64" where
  "kLowerHalfWordMask larger = kCagedHeapReservationAlignment larger - 1"

definition CageBaseGlobal_IsBaseConsistent :: "bool \<Rightarrow> u64 \<Rightarrow> bool" where
  "CageBaseGlobal_IsBaseConsistent larger base \<longleftrightarrow>
     kLowerHalfWordMask larger = base AND kLowerHalfWordMask larger"

definition CageBaseGlobal_IsSet :: "bool \<Rightarrow> u64 \<Rightarrow> bool" where
  "CageBaseGlobal_IsSet larger base \<longleftrightarrow> base AND NOT (kLowerHalfWordMask larger) \<noteq> 0"

section \<open>CompressedPointer\<close>

datatype CompressedPointer = CompressedPointer (cp_value: u32)

definition Compress :: "bool \<Rightarrow> u64 \<Rightarrow> u32" where
  "Compress larger ptr = ucast (drop_bit (kPointerCompressionShift larger) ptr)"

definition Decompress :: "bool \<Rightarrow> u64 \<Rightarrow> u32 \<Rightarrow> u64" where
  "Decompress larger base ptr =
     (let mask = push_bit (kPointerCompressionShift larger) (scast ptr) in mask AND base)"

definition kCompressedSentinel :: "bool \<Rightarrow> u32" where
  "kCompressedSentinel larger = ucast (drop_bit (kPointerCompressionShift larger) (kSentinelPointer larger))"

definition CP_default :: CompressedPointer where "CP_default = CompressedPointer 0"
definition CP_null :: CompressedPointer where "CP_null = CompressedPointer 0"
definition CP_of_ptr :: "bool \<Rightarrow> u64 \<Rightarrow> CompressedPointer" where
  "CP_of_ptr larger ptr = CompressedPointer (Compress larger ptr)"
definition CP_sentinel :: "bool \<Rightarrow> CompressedPointer" where
  "CP_sentinel larger = CompressedPointer (kCompressedSentinel larger)"

definition CP_Load :: "bool \<Rightarrow> u64 \<Rightarrow> CompressedPointer \<Rightarrow> u64" where
  "CP_Load larger base p = Decompress larger base (cp_value p)"
definition CP_LoadAtomic :: "bool \<Rightarrow> u64 \<Rightarrow> CompressedPointer \<Rightarrow> u64" where
  "CP_LoadAtomic larger base p = Decompress larger base (cp_value p)"
definition CP_Store :: "bool \<Rightarrow> u64 \<Rightarrow> CompressedPointer \<Rightarrow> CompressedPointer" where
  "CP_Store larger ptr p = CompressedPointer (Compress larger ptr)"
definition CP_StoreAtomic :: "bool \<Rightarrow> u64 \<Rightarrow> CompressedPointer \<Rightarrow> CompressedPointer" where
  "CP_StoreAtomic larger value p = CompressedPointer (Compress larger value)"
definition CP_Clear :: "CompressedPointer \<Rightarrow> CompressedPointer" where
  "CP_Clear p = CompressedPointer 0"
definition CP_IsCleared :: "CompressedPointer \<Rightarrow> bool" where "CP_IsCleared p \<longleftrightarrow> cp_value p = 0"
definition CP_IsSentinel :: "bool \<Rightarrow> CompressedPointer \<Rightarrow> bool" where
  "CP_IsSentinel larger p \<longleftrightarrow> cp_value p = kCompressedSentinel larger"
definition CP_GetAsInteger :: "CompressedPointer \<Rightarrow> u32" where "CP_GetAsInteger p = cp_value p"

definition CP_eq :: "CompressedPointer \<Rightarrow> CompressedPointer \<Rightarrow> bool" where
  "CP_eq a b \<longleftrightarrow> cp_value a = cp_value b"
definition CP_neq :: "CompressedPointer \<Rightarrow> CompressedPointer \<Rightarrow> bool" where
  "CP_neq a b \<longleftrightarrow> cp_value a \<noteq> cp_value b"

text \<open>The four comparison operators are those of the stored value.\<close>

definition CP_less :: "CompressedPointer \<Rightarrow> CompressedPointer \<Rightarrow> bool" where
  "CP_less a b \<longleftrightarrow> cp_value a < cp_value b"
definition CP_less_eq :: "CompressedPointer \<Rightarrow> CompressedPointer \<Rightarrow> bool" where
  "CP_less_eq a b \<longleftrightarrow> cp_value a \<le> cp_value b"
definition CP_greater :: "CompressedPointer \<Rightarrow> CompressedPointer \<Rightarrow> bool" where
  "CP_greater a b \<longleftrightarrow> cp_value a > cp_value b"
definition CP_greater_eq :: "CompressedPointer \<Rightarrow> CompressedPointer \<Rightarrow> bool" where
  "CP_greater_eq a b \<longleftrightarrow> cp_value a \<ge> cp_value b"

instantiation CompressedPointer :: linorder
begin

definition less_eq_CompressedPointer :: "CompressedPointer \<Rightarrow> CompressedPointer \<Rightarrow> bool" where
  "less_eq_CompressedPointer a b \<longleftrightarrow> CP_less_eq a b"

definition less_CompressedPointer :: "CompressedPointer \<Rightarrow> CompressedPointer \<Rightarrow> bool" where
  "less_CompressedPointer a b \<longleftrightarrow> CP_less a b"

instance
  by standard (auto simp: less_eq_CompressedPointer_def less_CompressedPointer_def CP_less_eq_def CP_less_def CompressedPointer.expand)

end

text \<open>The addresses handed to the callback, in order.\<close>

definition CP_VisitPossiblePointers :: "bool \<Rightarrow> u64 \<Rightarrow> u64 \<Rightarrow> u64 list" where
  "CP_VisitPossiblePointers larger base address =
     (let compressed_low = ucast address;
          compressed_high = ucast (drop_bit 32 address);
          kBitForIntermediateValue = 32 + kPointerCompressionShift larger;
          kSignExtensionMask = NOT (push_bit kBitForIntermediateValue 1 - 1);
          intermediate_sign_extended = address OR kSignExtensionMask
      in [Decompress larger base compressed_low, Decompress larger base compressed_high,
          intermediate_sign_extended AND base])"

section \<open>RawPointer\<close>

datatype RawPointer = RawPointer (rp_ptr: u64)

definition RP_default :: RawPointer where "RP_default = RawPointer 0"
definition RP_of_ptr :: "u64 \<Rightarrow> RawPointer" where "RP_of_ptr ptr = RawPointer ptr"
definition RP_Load :: "RawPointer \<Rightarrow> u64" where "RP_Load p = rp_ptr p"
definition RP_LoadAtomic :: "RawPointer \<Rightarrow> u64" where "RP_LoadAtomic p = rp_ptr p"
definition RP_Store :: "u64 \<Rightarrow> RawPointer \<Rightarrow> RawPointer" where "RP_Store ptr p = RawPointer ptr"
definition RP_StoreAtomic :: "u64 \<Rightarrow> RawPointer \<Rightarrow> RawPointer" where "RP_StoreAtomic ptr p = RawPointer ptr"
definition RP_Clear :: "RawPointer \<Rightarrow> RawPointer" where "RP_Clear p = RawPointer 0"
definition RP_IsCleared :: "RawPointer \<Rightarrow> bool" where "RP_IsCleared p \<longleftrightarrow> rp_ptr p = 0"
definition RP_IsSentinel :: "bool \<Rightarrow> RawPointer \<Rightarrow> bool" where
  "RP_IsSentinel larger p \<longleftrightarrow> rp_ptr p = kSentinelPointer larger"
definition RP_GetAsInteger :: "RawPointer \<Rightarrow> u64" where "RP_GetAsInteger p = rp_ptr p"
definition RP_eq :: "RawPointer \<Rightarrow> RawPointer \<Rightarrow> bool" where "RP_eq a b \<longleftrightarrow> rp_ptr a = rp_ptr b"
definition RP_neq :: "RawPointer \<Rightarrow> RawPointer \<Rightarrow> bool" where "RP_neq a b \<longleftrightarrow> rp_ptr a \<noteq> rp_ptr b"

definition RP_less :: "RawPointer \<Rightarrow> RawPointer \<Rightarrow> bool" where
  "RP_less a b \<longleftrightarrow> rp_ptr a < rp_ptr b"
definition RP_less_eq :: "RawPointer \<Rightarrow> RawPointer \<Rightarrow> bool" where
  "RP_less_eq a b \<longleftrightarrow> rp_ptr a \<le> rp_ptr b"
definition RP_greater :: "RawPointer \<Rightarrow> RawPointer \<Rightarrow> bool" where
  "RP_greater a b \<longleftrightarrow> rp_ptr a > rp_ptr b"
definition RP_greater_eq :: "RawPointer \<Rightarrow> RawPointer \<Rightarrow> bool" where
  "RP_greater_eq a b \<longleftrightarrow> rp_ptr a \<ge> rp_ptr b"

instantiation RawPointer :: linorder
begin

definition less_eq_RawPointer :: "RawPointer \<Rightarrow> RawPointer \<Rightarrow> bool" where
  "less_eq_RawPointer a b \<longleftrightarrow> RP_less_eq a b"

definition less_RawPointer :: "RawPointer \<Rightarrow> RawPointer \<Rightarrow> bool" where
  "less_RawPointer a b \<longleftrightarrow> RP_less a b"

instance
  by standard (auto simp: less_eq_RawPointer_def less_RawPointer_def RP_less_eq_def RP_less_def RawPointer.expand)

end

definition RP_VisitPossiblePointers :: "u64 \<Rightarrow> u64 list" where
  "RP_VisitPossiblePointers address = [address]"

section \<open>What a member storage promises\<close>

text \<open>A storage keeps the pointers it can hold: null, the sentinel and the objects of the heap, and tells
  them apart. The order of the stored values is the order of the objects' addresses, and a conservative
  visit of a word that holds the pointer finds it.\<close>

locale member_storage =
  fixes can_hold :: "u64 \<Rightarrow> bool"
    and sentinel :: u64
    and store :: "u64 \<Rightarrow> 's::linorder"
    and load :: "'s \<Rightarrow> u64"
    and cleared :: "'s \<Rightarrow> bool"
    and is_sentinel :: "'s \<Rightarrow> bool"
    and visit :: "u64 \<Rightarrow> u64 list"
  assumes null_sentinel: "can_hold 0" "can_hold sentinel" "sentinel \<noteq> 0"
    and load_store: "can_hold p \<Longrightarrow> load (store p) = p"
    and cleared_iff: "can_hold p \<Longrightarrow> cleared (store p) \<longleftrightarrow> p = 0"
    and sentinel_iff: "can_hold p \<Longrightarrow> is_sentinel (store p) \<longleftrightarrow> p = sentinel"
    and store_mono: "can_hold p \<Longrightarrow> can_hold q \<Longrightarrow> store p < store q \<longleftrightarrow> p < q"
    and visit_full: "can_hold p \<Longrightarrow> p \<noteq> 0 \<Longrightarrow> p \<noteq> sentinel \<Longrightarrow> p \<in> set (visit p)"
begin

lemma store_inj: "can_hold p \<Longrightarrow> can_hold q \<Longrightarrow> store p = store q \<longleftrightarrow> p = q"
  by (metis load_store)

lemma not_both: "can_hold p \<Longrightarrow> \<not> (cleared (store p) \<and> is_sentinel (store p))"
  using null_sentinel(3) by (auto simp: cleared_iff sentinel_iff)

lemma le_iff: "can_hold p \<Longrightarrow> can_hold q \<Longrightarrow> store p \<le> store q \<longleftrightarrow> p \<le> q"
  by (simp only: not_less [symmetric] store_mono)

end

interpretation raw: member_storage "\<lambda>_. True" "kSentinelPointer larger" RP_of_ptr RP_Load RP_IsCleared
  "RP_IsSentinel larger" RP_VisitPossiblePointers for larger
  by standard (auto simp: RP_of_ptr_def RP_Load_def RP_IsCleared_def RP_IsSentinel_def less_RawPointer_def RP_less_def
      RP_VisitPossiblePointers_def kSentinelPointer_def kPointerCompressionShift_def)

section \<open>Compression as an instance\<close>

text \<open>The base is set and the bit above the half cage is one, as the alignment of the cage guarantees.\<close>

definition base_ok :: "bool \<Rightarrow> u64 \<Rightarrow> bool" where
  "base_ok larger base \<longleftrightarrow>
     CageBaseGlobal_IsBaseConsistent larger base \<and> bit base (31 + kPointerCompressionShift larger)"

text \<open>An object of the cage, aligned so that no bit is lost.\<close>

definition in_cage :: "bool \<Rightarrow> u64 \<Rightarrow> u64 \<Rightarrow> bool" where
  "in_cage larger base p \<longleftrightarrow>
     base AND NOT (kLowerHalfWordMask larger) = p AND NOT (kLowerHalfWordMask larger) \<and>
     p AND mask (kPointerCompressionShift larger) = 0"

definition holdable :: "bool \<Rightarrow> u64 \<Rightarrow> u64 \<Rightarrow> bool" where
  "holdable larger base p \<longleftrightarrow> p = 0 \<or> p = kSentinelPointer larger \<or> in_cage larger base p"

lemma shift_le [simp]: "kPointerCompressionShift larger \<le> 3" "0 < kPointerCompressionShift larger"
  by (simp_all add: kPointerCompressionShift_def)

lemma shift_lt [simp]: "kPointerCompressionShift larger < 64" "31 + kPointerCompressionShift larger < 64"
  using shift_le(1) [of larger] by linarith+

lemma lower_mask: "kLowerHalfWordMask larger = mask (31 + kPointerCompressionShift larger)"
  by (simp add: kLowerHalfWordMask_def kCagedHeapReservationAlignment_def kCagedHeapMaxReservationSize_def
      mask_eq_exp_minus_1 push_bit_eq_mult)

lemma base_bits:
  assumes "base_ok larger base" "n \<le> 31 + kPointerCompressionShift larger"
  shows "bit base n"
proof (cases "n = 31 + kPointerCompressionShift larger")
  case True
  with assms show ?thesis by (simp add: base_ok_def)
next
  case False
  with assms(2) shift_le(1) [of larger]
  have "n < 64" by linarith
  with False assms(2) have "bit (mask (31 + kPointerCompressionShift larger) :: u64) n" by (simp add: bit_mask_iff)
  with assms(1) have "bit (base AND mask (31 + kPointerCompressionShift larger)) n"
    by (simp only: base_ok_def CageBaseGlobal_IsBaseConsistent_def lower_mask)
  then show ?thesis by (simp add: bit_and_iff)
qed

lemma cage_bits:
  assumes "in_cage larger base p"
  shows "31 + kPointerCompressionShift larger \<le> n \<Longrightarrow> n < 64 \<Longrightarrow> bit p n \<longleftrightarrow> bit base n"
    "n < kPointerCompressionShift larger \<Longrightarrow> \<not> bit p n"
proof -
  have e: "bit (base AND NOT (mask (31 + kPointerCompressionShift larger))) n =
      bit (p AND NOT (mask (31 + kPointerCompressionShift larger))) n" for n
    using assms by (simp add: in_cage_def lower_mask)
  show "31 + kPointerCompressionShift larger \<le> n \<Longrightarrow> n < 64 \<Longrightarrow> bit p n \<longleftrightarrow> bit base n"
    using e [of n] by (simp add: bit_simps)
  assume n: "n < kPointerCompressionShift larger"
  have "\<not> bit (p AND mask (kPointerCompressionShift larger)) n" using assms by (simp add: in_cage_def)
  then show "\<not> bit p n" using n shift_le(1) [of larger] by (auto simp: bit_simps)
qed

lemma sentinel_bit: "bit (kSentinelPointer larger) n \<longleftrightarrow> n = kPointerCompressionShift larger"
  using shift_le(1) [of larger] by (auto simp: kSentinelPointer_def bit_simps)

lemma Compress_bit: "bit (Compress larger p) n \<longleftrightarrow> n < 32 \<and> bit p (kPointerCompressionShift larger + n)"
  by (simp add: Compress_def bit_simps) 

lemma Decompress_bit:
  "bit (Decompress larger base v) n \<longleftrightarrow> n < 64 \<and> kPointerCompressionShift larger \<le> n \<and> bit base n \<and>
     bit v (min (n - kPointerCompressionShift larger) 31)"
  by (auto simp: Decompress_def Let_def bit_simps min_def)

lemma Decompress_Compress:
  assumes b: "base_ok larger base" and h: "holdable larger base p"
  shows "Decompress larger base (Compress larger p) = p"
proof (rule bit_word_eqI)
  fix n
  assume n: "n < LENGTH(64)"
  let ?s = "kPointerCompressionShift larger"
  note s = shift_le [of larger]
  consider (null) "p = 0" | (sentinel) "p = kSentinelPointer larger" | (obj) "in_cage larger base p"
    using h by (auto simp: holdable_def)
  then show "bit (Decompress larger base (Compress larger p)) n = bit p n"
  proof cases
    case null
    then show ?thesis by (simp add: Decompress_bit Compress_bit)
  next
    case sentinel
    then show ?thesis using n base_bits [OF b, of ?s] s
      by (auto simp: Decompress_bit Compress_bit sentinel_bit min_def)
  next
    case obj
    note c = cage_bits [OF obj]
    have top: "bit p (31 + ?s)" using c(1) [of "31 + ?s"] base_bits [OF b, of "31 + ?s"] s by simp
    show ?thesis
    proof (cases "n < 31 + ?s")
      case True
      then show ?thesis using c(2) [of n] base_bits [OF b, of n] n
        by (cases "n < ?s") (auto simp: Decompress_bit Compress_bit min_def)
    next
      case False
      then show ?thesis using c(1) [of n] top n
        by (auto simp: Decompress_bit Compress_bit min_def add.commute)
    qed
  qed
qed

lemma unat_drop_bit: "unat (drop_bit n (w :: u64)) = unat w div 2 ^ n"
  using unsigned_less [of w, where 'a = nat]
  by (subst unsigned_drop_bit_eq) (simp add: drop_bit_eq_div take_bit_nat_eq_self)

lemma unat_Compress: "unat (Compress larger p) = unat p div 2 ^ kPointerCompressionShift larger mod 2 ^ 32"
  by (simp only: Compress_def unsigned_ucast_eq take_bit_eq_mod unat_drop_bit) simp

lemma Compress_mono_cage:
  assumes "in_cage larger base p" "in_cage larger base q" "p \<le> q"
  shows "Compress larger p \<le> Compress larger q"
proof -
  let ?s = "kPointerCompressionShift larger"
  let ?x = "unat p div 2 ^ ?s" and ?y = "unat q div 2 ^ ?s"
  have "bit p k = bit q k" if "31 + ?s \<le> k" for k
    using cage_bits(1) [OF assms(1) that] cage_bits(1) [OF assms(2) that] by (cases "k < 64") (auto dest: bit_imp_le_length)
  then have hi: "drop_bit (32 + ?s) p = drop_bit (32 + ?s) q"
    by (intro bit_word_eqI) (simp add: bit_drop_bit_eq)
  have d: "unat w div 2 ^ ?s div 2 ^ 32 = unat (drop_bit (32 + ?s) w)" for w :: u64
    by (simp only: unat_drop_bit div_mult2_eq [symmetric] power_add mult.commute)
  have "?x \<le> ?y" using assms(3) by (simp add: word_le_nat_alt div_le_mono)
  moreover have "?x div 2 ^ 32 = ?y div 2 ^ 32" by (simp only: d hi)
  ultimately have "?x mod 2 ^ 32 \<le> ?y mod 2 ^ 32"
    by (metis add_le_cancel_left div_mult_mod_eq)
  then show ?thesis by (simp only: word_le_nat_alt unat_Compress)
qed

lemma object_bit:
  assumes "base_ok larger base" "in_cage larger base p"
  shows "bit p (31 + kPointerCompressionShift larger)" "bit (Compress larger p) 31"
proof -
  show b: "bit p (31 + kPointerCompressionShift larger)"
    using cage_bits(1) [OF assms(2), of "31 + kPointerCompressionShift larger"]
      base_bits [OF assms(1), of "31 + kPointerCompressionShift larger"] by simp
  then show "bit (Compress larger p) 31" by (simp add: Compress_bit add.commute)
qed

lemma bit_le:
  assumes "bit (w :: 'a::len word) n"
  shows "2 ^ n \<le> unat w"
proof (rule ccontr)
  assume "\<not> 2 ^ n \<le> unat w"
  then have "unat w div 2 ^ n = 0" by simp
  moreover have "bit (unat w) n" using assms by (simp add: bit_unsigned_iff bit_imp_le_length)
  ultimately show False by (simp add: bit_iff_odd)
qed

lemma Compress_small: "Compress larger 0 = 0" "Compress larger (kSentinelPointer larger) = 1"
proof -
  show "Compress larger 0 = 0" by (simp add: Compress_def)
  show "Compress larger (kSentinelPointer larger) = 1"
    by (rule bit_word_eqI) (auto simp: Compress_bit sentinel_bit bit_1_iff)
qed

lemma sentinel_nonzero: "kSentinelPointer larger \<noteq> 0"
  by (simp add: kSentinelPointer_def kPointerCompressionShift_def)

lemma holdable_cases:
  assumes "base_ok larger base" "holdable larger base p"
  obtains (null) "p = 0" "Compress larger p = 0"
    | (sentinel) "p = kSentinelPointer larger" "Compress larger p = 1"
    | (obj) "in_cage larger base p" "kSentinelPointer larger < p" "2 ^ 31 \<le> unat (Compress larger p)"
proof -
  have s: "unat (kSentinelPointer larger) < 2 ^ 31"
    by (simp add: kSentinelPointer_def kPointerCompressionShift_def)
  have "kSentinelPointer larger < p \<and> 2 ^ 31 \<le> unat (Compress larger p)" if "in_cage larger base p"
  proof -
    note b = object_bit [OF assms(1) that]
    have "2 ^ 31 \<le> (2 :: nat) ^ (31 + kPointerCompressionShift larger)" by (intro power_increasing) simp_all
    with bit_le [OF b(1)] s have "unat (kSentinelPointer larger) < unat p" by linarith
    with bit_le [OF b(2)] show ?thesis by (simp only: word_less_nat_alt)
  qed
  then show ?thesis using assms(2) that Compress_small by (auto simp: holdable_def)
qed

lemma Compress_mono:
  assumes b: "base_ok larger base" and h: "holdable larger base p" "holdable larger base q" and le: "p \<le> q"
  shows "Compress larger p \<le> Compress larger q"
using b h(1)
proof (cases rule: holdable_cases)
  case null
  then show ?thesis by simp
next
  case sentinel
  show ?thesis
    using b h(2)
  proof (cases rule: holdable_cases)
    case null
    with le sentinel show ?thesis using sentinel_nonzero [of larger] by simp
  next
    case obj
    then have "1 \<le> Compress larger q" by (simp add: word_le_nat_alt)
    with sentinel show ?thesis by simp
  qed (use sentinel in simp)
next
  case obj
  show ?thesis
    using b h(2)
  proof (cases rule: holdable_cases)
    case obj
    then show ?thesis using Compress_mono_cage \<open>in_cage larger base p\<close> le by blast
  qed (use obj le in auto)
qed

lemma visit_object:
  assumes b: "base_ok larger base" and p: "in_cage larger base p"
  shows "(p OR NOT (push_bit (32 + kPointerCompressionShift larger) 1 - 1)) AND base = p"
proof (rule bit_word_eqI)
  fix n
  assume n: "n < LENGTH(64)"
  let ?s = "kPointerCompressionShift larger"
  have m: "push_bit (32 + ?s) 1 - 1 = (mask (32 + ?s) :: u64)"
    by (simp add: mask_eq_exp_minus_1 push_bit_eq_mult)
  show "bit ((p OR NOT (push_bit (32 + ?s) 1 - 1)) AND base) n = bit p n"
  proof (cases "n < 32 + ?s")
    case True
    then show ?thesis using n base_bits [OF b, of n] unfolding m by (auto simp: bit_simps)
  next
    case False
    then show ?thesis using n cage_bits(1) [OF p, of n] unfolding m by (auto simp: bit_simps)
  qed
qed

text \<open>Every consistent base is one of these, so the interpretation covers all of them.\<close>

definition cage_base_at :: "bool \<Rightarrow> u64 \<Rightarrow> u64" where
  "cage_base_at larger h = h OR mask (32 + kPointerCompressionShift larger)"

lemma cage_base_at_ok: "base_ok larger (cage_base_at larger h)"
  unfolding base_ok_def CageBaseGlobal_IsBaseConsistent_def lower_mask cage_base_at_def
  by (intro conjI bit_word_eqI) (auto simp: bit_simps)

lemma cage_base_at_id:
  assumes "base_ok larger base"
  shows "cage_base_at larger base = base"
  unfolding cage_base_at_def by (rule bit_word_eqI) (use base_bits [OF assms] in \<open>auto simp: bit_simps\<close>)

interpretation compressed: member_storage "holdable larger (cage_base_at larger h)" "kSentinelPointer larger"
  "CP_of_ptr larger" "CP_Load larger (cage_base_at larger h)" CP_IsCleared "CP_IsSentinel larger"
  "CP_VisitPossiblePointers larger (cage_base_at larger h)"
  for larger h
proof
  let ?base = "cage_base_at larger h"
  note ok = cage_base_at_ok [of larger h]
  note defs = CP_of_ptr_def CP_Load_def CP_IsCleared_def CP_IsSentinel_def less_CompressedPointer_def CP_less_def
  note inv = Decompress_Compress [OF ok]
  have s: "kCompressedSentinel larger = Compress larger (kSentinelPointer larger)"
    by (simp add: kCompressedSentinel_def Compress_def)
  fix p q
  show h0: "holdable larger ?base 0" "holdable larger ?base (kSentinelPointer larger)"
    by (simp_all add: holdable_def)
  have inj: "Compress larger p = Compress larger q \<longleftrightarrow> p = q" if "holdable larger ?base p" "holdable larger ?base q" for p q
    using inv [OF that(1)] inv [OF that(2)] by metis
  show "CP_IsCleared (CP_of_ptr larger p) \<longleftrightarrow> p = 0" if "holdable larger ?base p"
    using inj [OF that h0(1)] Compress_small(1) [of larger] by (simp add: defs)
  show "CP_IsSentinel larger (CP_of_ptr larger p) \<longleftrightarrow> p = kSentinelPointer larger" if "holdable larger ?base p"
    using inj [OF that h0(2)] by (simp add: defs s)
  show "kSentinelPointer larger \<noteq> 0" by (rule sentinel_nonzero)
  show "holdable larger ?base p \<Longrightarrow> CP_Load larger ?base (CP_of_ptr larger p) = p" by (simp add: defs inv)
  show "CP_of_ptr larger p < CP_of_ptr larger q \<longleftrightarrow> p < q" if "holdable larger ?base p" "holdable larger ?base q"
  proof -
    have lt: "CP_of_ptr larger p < CP_of_ptr larger q \<longleftrightarrow> Compress larger p < Compress larger q" by (simp add: defs)
    show ?thesis unfolding lt
      using Compress_mono [OF ok that] Compress_mono [OF ok that(2,1)] inj [OF that]
      by (cases p q rule: linorder_cases) (auto simp: order.order_iff_strict)
  qed
  show "p \<in> set (CP_VisitPossiblePointers larger ?base p)"
    if "holdable larger ?base p" "p \<noteq> 0" "p \<noteq> kSentinelPointer larger"
    using visit_object [OF ok, of p] that by (auto simp: CP_VisitPossiblePointers_def Let_def holdable_def)
qed

section \<open>Properties\<close>

text \<open>C23: 32 bits are enough for a pointer field. Null, the sentinel and every aligned object of the cage are
  loaded back from what was stored; comparing the stored values for equality and order is comparing the
  pointers; and only null reads as cleared, only the sentinel as sentinel. For both cage sizes and every
  consistent base.\<close>

theorem compressed_member_exact:
  assumes "base_ok larger base" "holdable larger base p" "holdable larger base q"
  shows "CP_Load larger base (CP_Store larger p c) = p \<and>
    (CP_eq (CP_of_ptr larger p) (CP_of_ptr larger q) \<longleftrightarrow> p = q) \<and>
    (CP_less (CP_of_ptr larger p) (CP_of_ptr larger q) \<longleftrightarrow> p < q) \<and>
    (CP_IsCleared (CP_of_ptr larger p) \<longleftrightarrow> p = 0) \<and>
    (CP_IsSentinel larger (CP_of_ptr larger p) \<longleftrightarrow> p = kSentinelPointer larger)"
proof -
  have h: "holdable larger (cage_base_at larger base) p" "holdable larger (cage_base_at larger base) q"
    using assms by (simp_all add: cage_base_at_id)
  have st: "CP_Store larger p c = CP_of_ptr larger p" by (simp add: CP_Store_def CP_of_ptr_def)
  have eq: "CP_eq (CP_of_ptr larger p) (CP_of_ptr larger q) \<longleftrightarrow> CP_of_ptr larger p = CP_of_ptr larger q"
    by (simp add: CP_eq_def CP_of_ptr_def)
  have lt: "CP_less a b \<longleftrightarrow> a < b" for a b by (simp add: less_CompressedPointer_def)
  show ?thesis
    unfolding st eq lt compressed.store_inj [OF h] compressed.store_mono [OF h] compressed.cleared_iff [OF h(1)]
      compressed.sentinel_iff [OF h(1)]
    using compressed.load_store [OF h(1)] assms(1) by (simp add: cage_base_at_id)
qed

lemma demo_cage:
  "base_ok True (mask 38)" "in_cage True (mask 38) (mask 38 AND NOT (mask 3))"
  "in_cage True (mask 38) (mask 38 AND NOT (mask 4))"
  unfolding base_ok_def in_cage_def CageBaseGlobal_IsBaseConsistent_def lower_mask
  by (auto simp: kPointerCompressionShift_def bit_simps intro!: bit_word_eqI)

theorem compressed_member_exact_witness:
  "CP_Load True (mask 38) (CP_Store True (mask 38 AND NOT (mask 3)) CP_null) = mask 38 AND NOT (mask 3)"
  using compressed_member_exact [OF demo_cage(1), of "mask 38 AND NOT (mask 3)" "mask 38 AND NOT (mask 4)" CP_null]
    demo_cage(2,3) by (simp add: holdable_def)

text \<open>A conservative scan of a word finds the object when the word is the full pointer, or holds its
  compressed form in either half.\<close>

lemma stack_scan_finds:
  assumes "base_ok larger base" "in_cage larger base p"
    and word: "address = p \<or> ucast address = Compress larger p \<or> ucast (drop_bit 32 address) = Compress larger p"
  shows "p \<in> set (CP_VisitPossiblePointers larger base address)"
proof -
  have "Decompress larger base (Compress larger p) = p"
    using Decompress_Compress [OF assms(1)] assms(2) by (simp add: holdable_def)
  with word visit_object [OF assms(1,2)] show ?thesis
    by (auto simp: CP_VisitPossiblePointers_def Let_def)
qed

end
