(* ===== verification/Cppgc_Persistent.thy ===== *)
theory Cppgc_Persistent
  imports Cppgc_Pointers
begin

text \<open>
  Roots of the managed C++ heap: \<open>persistent-node.h\<close> and \<open>persistent.h\<close> under \<open>cppgc/\<close>. A region hands
  out nodes from a free list that runs through the unused nodes themselves; a \<open>BasicPersistent\<close> that
  points to an object owns one node, whose back pointer is the address of the persistent. One heap with
  one region of the weakness policy; checks that are off in release builds (\<open>CPPGC_DCHECK\<close>) are not
  modelled, and refilling an empty free list is done by the library, a parameter.
\<close>

section \<open>Nodes\<close>

text \<open>The union of \<open>owner_\<close> and \<open>next_\<close>, and \<open>trace_\<close>, 0 in a free node.\<close>

record PersistentNode =
  owner_or_next :: addr
  node_trace :: addr

definition InitializeAsUsedNode :: "addr \<Rightarrow> addr \<Rightarrow> PersistentNode \<Rightarrow> PersistentNode" where
  "InitializeAsUsedNode owner trace n = n\<lparr>owner_or_next := owner, node_trace := trace\<rparr>"

definition InitializeAsFreeNode :: "addr \<Rightarrow> PersistentNode \<Rightarrow> PersistentNode" where
  "InitializeAsFreeNode nxt n = n\<lparr>owner_or_next := nxt, node_trace := 0\<rparr>"

definition UpdateOwner :: "addr \<Rightarrow> PersistentNode \<Rightarrow> PersistentNode" where
  "UpdateOwner owner n = n\<lparr>owner_or_next := owner\<rparr>"

definition FreeListNext :: "PersistentNode \<Rightarrow> addr" where "FreeListNext n = owner_or_next n"
definition IsUsed :: "PersistentNode \<Rightarrow> bool" where "IsUsed n \<longleftrightarrow> node_trace n \<noteq> 0"
definition node_owner :: "PersistentNode \<Rightarrow> addr" where "node_owner n = owner_or_next n"

lemmas node_defs = InitializeAsUsedNode_def InitializeAsFreeNode_def UpdateOwner_def FreeListNext_def
  IsUsed_def node_owner_def

section \<open>Regions\<close>

record PersistentRegionBase =
  nodes :: "addr \<Rightarrow> PersistentNode option"
  free_list_head :: addr
  nodes_in_use :: u64

definition node_at :: "PersistentRegionBase \<Rightarrow> addr \<Rightarrow> PersistentNode option" where
  "node_at r a = (if a = nullptr then None else nodes r a)"

definition update_node ::
    "(PersistentNode \<Rightarrow> PersistentNode) \<Rightarrow> addr \<Rightarrow> PersistentRegionBase \<Rightarrow> PersistentRegionBase option" where
  "update_node f a r = do { n \<leftarrow> node_at r a; Some (r\<lparr>nodes := (nodes r)(a \<mapsto> f n)\<rparr>) }"

definition TryAllocateNodeFromFreeList ::
    "addr \<Rightarrow> addr \<Rightarrow> PersistentRegionBase \<Rightarrow> (addr \<times> PersistentRegionBase) option" where
  "TryAllocateNodeFromFreeList owner trace r =
     (let node = free_list_head r in
      if node \<noteq> nullptr then
        do { n \<leftarrow> node_at r node;
             let r1 = r\<lparr>free_list_head := FreeListNext n\<rparr>;
             r2 \<leftarrow> update_node (InitializeAsUsedNode owner trace) node r1;
             Some (node, r2\<lparr>nodes_in_use := nodes_in_use r2 + 1\<rparr>) }
      else Some (nullptr, r))"

definition FreeNode :: "addr \<Rightarrow> PersistentRegionBase \<Rightarrow> PersistentRegionBase option" where
  "FreeNode node r =
     do { r1 \<leftarrow> update_node (InitializeAsFreeNode (free_list_head r)) node r;
          let r2 = r1\<lparr>free_list_head := node\<rparr>;
          Some (r2\<lparr>nodes_in_use := nodes_in_use r2 - 1\<rparr>) }"

record region_lib =
  RefillFreeListAndAllocateNode :: "addr \<Rightarrow> addr \<Rightarrow> PersistentRegionBase \<Rightarrow> (addr \<times> PersistentRegionBase) option"
  IsCreationThread :: bool

definition AllocateNode ::
    "region_lib \<Rightarrow> addr \<Rightarrow> addr \<Rightarrow> PersistentRegionBase \<Rightarrow> (addr \<times> PersistentRegionBase) option" where
  "AllocateNode L owner trace r =
     do { (node, r1) \<leftarrow> TryAllocateNodeFromFreeList owner trace r;
          if node \<noteq> nullptr then Some (node, r1)
          else if IsCreationThread L then RefillFreeListAndAllocateNode L owner trace r1 else None }"

definition AllocateNode_cross ::
    "region_lib \<Rightarrow> addr \<Rightarrow> addr \<Rightarrow> PersistentRegionBase \<Rightarrow> (addr \<times> PersistentRegionBase) option" where
  "AllocateNode_cross L owner trace r =
     do { (node, r1) \<leftarrow> TryAllocateNodeFromFreeList owner trace r;
          if node \<noteq> nullptr then Some (node, r1) else RefillFreeListAndAllocateNode L owner trace r1 }"

section \<open>BasicPersistent\<close>

record PersistentBase =
  raw_ptr :: u64
  root_node :: addr

record cppgc_world =
  persistents :: "addr \<Rightarrow> PersistentBase option"
  region :: PersistentRegionBase

text \<open>The address of the static member function, not null.\<close>

definition TraceAsRoot :: addr where "TraceAsRoot = 1"

definition bp_at :: "cppgc_world \<Rightarrow> addr \<Rightarrow> PersistentBase option" where
  "bp_at w a = (if a = nullptr then None else persistents w a)"

definition put :: "addr \<Rightarrow> PersistentBase \<Rightarrow> cppgc_world \<Rightarrow> cppgc_world" where
  "put a b w = w\<lparr>persistents := (persistents w)(a \<mapsto> b)\<rparr>"

definition bp_IsValid :: "bool \<Rightarrow> PersistentBase \<Rightarrow> bool" where
  "bp_IsValid larger b \<longleftrightarrow> raw_ptr b \<noteq> 0 \<and> raw_ptr b \<noteq> kSentinelPointer larger"

definition bp_Get :: "PersistentBase \<Rightarrow> u64" where "bp_Get b = raw_ptr b"

definition bp_new_null :: "addr \<Rightarrow> cppgc_world \<Rightarrow> cppgc_world option" where
  "bp_new_null this w = Some (put this \<lparr>raw_ptr = 0, root_node = nullptr\<rparr> w)"

definition bp_new_sentinel :: "bool \<Rightarrow> addr \<Rightarrow> cppgc_world \<Rightarrow> cppgc_world option" where
  "bp_new_sentinel larger this w = Some (put this \<lparr>raw_ptr = kSentinelPointer larger, root_node = nullptr\<rparr> w)"

definition bp_new_raw ::
    "region_lib \<Rightarrow> bool \<Rightarrow> addr \<Rightarrow> u64 \<Rightarrow> cppgc_world \<Rightarrow> cppgc_world option" where
  "bp_new_raw L larger this raw w =
     (let b = \<lparr>raw_ptr = raw, root_node = nullptr\<rparr>; w1 = put this b w in
      if \<not> bp_IsValid larger b then Some w1
      else do { (node, r) \<leftarrow> AllocateNode L this TraceAsRoot (region w1);
                Some (put this (b\<lparr>root_node := node\<rparr>) (w1\<lparr>region := r\<rparr>)) })"

definition bp_new_copy ::
    "region_lib \<Rightarrow> bool \<Rightarrow> addr \<Rightarrow> addr \<Rightarrow> cppgc_world \<Rightarrow> cppgc_world option" where
  "bp_new_copy L larger this other w =
     do { that \<leftarrow> bp_at w other; bp_new_raw L larger this (bp_Get that) w }"

definition bp_new_move :: "bool \<Rightarrow> addr \<Rightarrow> addr \<Rightarrow> cppgc_world \<Rightarrow> cppgc_world option" where
  "bp_new_move larger this other w =
     do { that \<leftarrow> bp_at w other;
          let w1 = put this that w;
          if \<not> bp_IsValid larger that then Some w1
          else do { r \<leftarrow> update_node (UpdateOwner this) (root_node that) (region w1);
                    Some (put other (that\<lparr>raw_ptr := 0, root_node := nullptr\<rparr>) (w1\<lparr>region := r\<rparr>)) } }"

definition bp_Clear :: "bool \<Rightarrow> addr \<Rightarrow> cppgc_world \<Rightarrow> cppgc_world option" where
  "bp_Clear larger this w =
     do { b \<leftarrow> bp_at w this;
          if bp_IsValid larger b then
            do { r \<leftarrow> FreeNode (root_node b) (region w);
                 Some (put this (b\<lparr>root_node := nullptr, raw_ptr := 0\<rparr>) (w\<lparr>region := r\<rparr>)) }
          else Some (put this (b\<lparr>raw_ptr := 0\<rparr>) w) }"

definition bp_destructor :: "bool \<Rightarrow> addr \<Rightarrow> cppgc_world \<Rightarrow> cppgc_world option" where
  "bp_destructor larger this w =
     do { w1 \<leftarrow> bp_Clear larger this w; Some (w1\<lparr>persistents := (persistents w1)(this := None)\<rparr>) }"

definition bp_Release :: "bool \<Rightarrow> addr \<Rightarrow> cppgc_world \<Rightarrow> (u64 \<times> cppgc_world) option" where
  "bp_Release larger this w =
     do { b \<leftarrow> bp_at w this; w1 \<leftarrow> bp_Clear larger this w; Some (bp_Get b, w1) }"

definition bp_Assign ::
    "region_lib \<Rightarrow> bool \<Rightarrow> addr \<Rightarrow> u64 \<Rightarrow> cppgc_world \<Rightarrow> cppgc_world option" where
  "bp_Assign L larger this ptr w =
     do { b \<leftarrow> bp_at w this;
          if bp_IsValid larger b \<and> ptr \<noteq> 0 \<and> ptr \<noteq> kSentinelPointer larger
          then Some (put this (b\<lparr>raw_ptr := ptr\<rparr>) w)
          else do {
            (b1, w1) \<leftarrow> (if bp_IsValid larger b
                         then do { r \<leftarrow> FreeNode (root_node b) (region w);
                                   Some (b\<lparr>root_node := nullptr\<rparr>, w\<lparr>region := r\<rparr>) }
                         else Some (b, w));
            let b2 = b1\<lparr>raw_ptr := ptr\<rparr>;
            if \<not> bp_IsValid larger b2 then Some (put this b2 w1)
            else do { (node, r) \<leftarrow> AllocateNode L this TraceAsRoot (region w1);
                      Some (put this (b2\<lparr>root_node := node\<rparr>) (w1\<lparr>region := r\<rparr>)) } } }"

definition bp_assign_copy ::
    "region_lib \<Rightarrow> bool \<Rightarrow> addr \<Rightarrow> addr \<Rightarrow> cppgc_world \<Rightarrow> cppgc_world option" where
  "bp_assign_copy L larger this other w =
     do { that \<leftarrow> bp_at w other; bp_Assign L larger this (bp_Get that) w }"

definition bp_assign_move :: "bool \<Rightarrow> addr \<Rightarrow> addr \<Rightarrow> cppgc_world \<Rightarrow> cppgc_world option" where
  "bp_assign_move larger this other w =
     (if this = other then Some w
      else do { w1 \<leftarrow> bp_Clear larger this w;
                that \<leftarrow> bp_at w1 other;
                let w2 = put this that w1;
                if \<not> bp_IsValid larger that then Some w2
                else do { r \<leftarrow> update_node (UpdateOwner this) (root_node that) (region w2);
                          Some (put other (that\<lparr>raw_ptr := 0, root_node := nullptr\<rparr>) (w2\<lparr>region := r\<rparr>)) } })"

definition bp_assign_raw ::
    "region_lib \<Rightarrow> bool \<Rightarrow> addr \<Rightarrow> u64 \<Rightarrow> cppgc_world \<Rightarrow> cppgc_world option" where
  "bp_assign_raw L larger this other w = bp_Assign L larger this other w"

definition bp_assign_null :: "bool \<Rightarrow> addr \<Rightarrow> cppgc_world \<Rightarrow> cppgc_world option" where
  "bp_assign_null larger this w = bp_Clear larger this w"

definition bp_assign_sentinel :: "region_lib \<Rightarrow> bool \<Rightarrow> addr \<Rightarrow> cppgc_world \<Rightarrow> cppgc_world option" where
  "bp_assign_sentinel L larger this w = bp_Assign L larger this (kSentinelPointer larger) w"

definition bp_ClearFromGC :: "bool \<Rightarrow> addr \<Rightarrow> cppgc_world \<Rightarrow> cppgc_world option" where
  "bp_ClearFromGC larger this w =
     do { b \<leftarrow> bp_at w this;
          if bp_IsValid larger b then
            do { r \<leftarrow> FreeNode (root_node b) (region w);
                 Some (put this (b\<lparr>raw_ptr := 0, root_node := nullptr\<rparr>) (w\<lparr>region := r\<rparr>)) }
          else Some w }"

definition bp_eq :: "PersistentBase \<Rightarrow> PersistentBase \<Rightarrow> bool" where
  "bp_eq p1 p2 \<longleftrightarrow> bp_Get p1 = bp_Get p2"

definition bp_neq :: "PersistentBase \<Rightarrow> PersistentBase \<Rightarrow> bool" where
  "bp_neq p1 p2 \<longleftrightarrow> \<not> bp_eq p1 p2"

definition bp_To ::
    "region_lib \<Rightarrow> bool \<Rightarrow> addr \<Rightarrow> addr \<Rightarrow> cppgc_world \<Rightarrow> cppgc_world option" where
  "bp_To L larger dest this w = do { b \<leftarrow> bp_at w this; bp_new_raw L larger dest (bp_Get b) w }"

section \<open>The free list\<close>

text \<open>The free nodes in the order the list has them.\<close>

fun free_chain :: "(addr \<Rightarrow> PersistentNode option) \<Rightarrow> addr \<Rightarrow> addr list \<Rightarrow> bool" where
  "free_chain N h [] \<longleftrightarrow> h = nullptr"
| "free_chain N h (a # as) \<longleftrightarrow>
     h = a \<and> a \<noteq> nullptr \<and> (\<exists>n. N a = Some n \<and> \<not> IsUsed n \<and> free_chain N (FreeListNext n) as)"

lemma free_chain_upd [simp]: "a \<notin> set as \<Longrightarrow> free_chain (N(a \<mapsto> n)) h as = free_chain N h as"
  by (induction as arbitrary: h) auto

lemma free_chain_free: "free_chain N h as \<Longrightarrow> a \<in> set as \<Longrightarrow> \<exists>n. N a = Some n \<and> \<not> IsUsed n"
  by (induction as arbitrary: h) auto

definition used_nodes :: "PersistentRegionBase \<Rightarrow> addr \<Rightarrow> (addr \<times> addr) option" where
  "used_nodes r a = (case nodes r a of None \<Rightarrow> None
     | Some n \<Rightarrow> if IsUsed n then Some (node_owner n, node_trace n) else None)"

definition region_ok :: "PersistentRegionBase \<Rightarrow> bool" where
  "region_ok r \<longleftrightarrow>
     (\<exists>as. free_chain (nodes r) (free_list_head r) as \<and> distinct as \<and>
        set as = {a. \<exists>n. nodes r a = Some n \<and> \<not> IsUsed n}) \<and>
     nodes r nullptr = None \<and> finite (dom (nodes r)) \<and>
     nodes_in_use r = of_nat (card (dom (used_nodes r)))"

lemma region_okI:
  assumes "free_chain (nodes r) (free_list_head r) as" "distinct as"
    "set as = {a. \<exists>n. nodes r a = Some n \<and> \<not> IsUsed n}" "nodes r nullptr = None"
    "finite (dom (nodes r))" "nodes_in_use r = of_nat (card (dom (used_nodes r)))"
  shows "region_ok r"
  using assms unfolding region_ok_def by blast

lemma region_ok_count: "region_ok r \<Longrightarrow> nodes_in_use r = of_nat (card (dom (used_nodes r)))"
  by (simp add: region_ok_def)

lemma region_ok_nodes: "region_ok r \<Longrightarrow> nodes r nullptr = None \<and> finite (dom (nodes r))"
  by (simp add: region_ok_def)

lemma dom_used: "dom (used_nodes r) \<subseteq> dom (nodes r)"
  by (auto simp: used_nodes_def split: option.splits)

lemma finite_used: "region_ok r \<Longrightarrow> finite (dom (used_nodes r))"
  by (rule finite_subset [OF dom_used]) (simp add: region_ok_def)

lemma node_nonnull: "region_ok r \<Longrightarrow> nodes r a = Some n \<Longrightarrow> a \<noteq> nullptr"
  by (metis option.distinct(1) region_ok_def)

lemma used_nodes_Some:
  "used_nodes r a = Some (p, t) \<longleftrightarrow> (\<exists>n. nodes r a = Some n \<and> t \<noteq> 0 \<and> node_owner n = p \<and> node_trace n = t)"
  by (auto simp: used_nodes_def IsUsed_def split: option.splits)

text \<open>What a pool of nodes promises: an allocation gives an unused node or none, a free gives it back.\<close>

locale node_pool =
  fixes ok :: "'r \<Rightarrow> bool"
    and used :: "'r \<Rightarrow> addr \<Rightarrow> (addr \<times> addr) option"
    and alloc :: "addr \<Rightarrow> addr \<Rightarrow> 'r \<Rightarrow> (addr \<times> 'r) option"
    and free :: "addr \<Rightarrow> 'r \<Rightarrow> 'r option"
  assumes alloc_ok: "ok r \<Longrightarrow> t \<noteq> 0 \<Longrightarrow> alloc p t r = Some (a, r') \<Longrightarrow> a \<noteq> nullptr \<Longrightarrow>
      ok r' \<and> used r a = None \<and> used r' = (used r)(a \<mapsto> (p, t))"
    and alloc_fail: "alloc p t r = Some (nullptr, r') \<Longrightarrow> r' = r"
    and alloc_defined: "ok r \<Longrightarrow> \<exists>a r'. alloc p t r = Some (a, r')"
    and free_ok: "ok r \<Longrightarrow> used r a = Some u \<Longrightarrow>
      \<exists>r'. free a r = Some r' \<and> ok r' \<and> used r' = (used r)(a := None)"
begin

lemma alloc_free:
  assumes "ok r" "t \<noteq> 0" "alloc p t r = Some (a, r')" "a \<noteq> nullptr"
  shows "\<exists>r''. free a r' = Some r'' \<and> ok r'' \<and> used r'' = used r"
proof -
  note A = alloc_ok [OF assms]
  then have "used r' a = Some (p, t)" by simp
  from free_ok [OF conjunct1 [OF A] this] A show ?thesis by (auto simp: fun_upd_idem)
qed

end

lemma Try_ok:
  assumes ok: "region_ok r" and t: "t \<noteq> 0" and al: "TryAllocateNodeFromFreeList p t r = Some (a, r')" and a: "a \<noteq> nullptr"
  shows "region_ok r' \<and> used_nodes r a = None \<and> used_nodes r' = (used_nodes r)(a \<mapsto> (p, t))"
proof -
  obtain as where as: "free_chain (nodes r) (free_list_head r) as" "distinct as"
    "set as = {a. \<exists>n. nodes r a = Some n \<and> \<not> IsUsed n}"
    using ok by (auto simp: region_ok_def)
  have h: "free_list_head r = a" using al a by (auto simp: TryAllocateNodeFromFreeList_def run_simps split: if_splits)
  with as(1) a obtain n bs where n: "as = a # bs" "nodes r a = Some n" "\<not> IsUsed n"
    "free_chain (nodes r) (FreeListNext n) bs"
    by (cases as) auto
  have r': "r' = r\<lparr>nodes := (nodes r)(a \<mapsto> InitializeAsUsedNode p t n), free_list_head := FreeListNext n,
      nodes_in_use := nodes_in_use r + 1\<rparr>"
    using al n(2) a h by (auto simp: TryAllocateNodeFromFreeList_def update_node_def node_at_def run_simps)
  have u: "IsUsed (InitializeAsUsedNode p t n)" using t by (simp add: node_defs)
  have un: "used_nodes r a = None" using n(2,3) by (simp add: used_nodes_def)
  have used: "used_nodes r' = (used_nodes r)(a \<mapsto> (p, t))"
    using u by (auto simp: r' used_nodes_def node_defs)
  have "finite (dom (used_nodes r))" by (rule finite_used [OF ok])
  with un have "card (dom (used_nodes r')) = Suc (card (dom (used_nodes r)))"
    unfolding used by (simp add: domIff)
  moreover have "nodes_in_use r' = nodes_in_use r + 1" by (simp add: r')
  ultimately have c: "nodes_in_use r' = of_nat (card (dom (used_nodes r')))"
    using region_ok_count [OF ok] by (simp add: add.commute)
  have "free_chain (nodes r') (free_list_head r') bs" using as(2) n by (simp add: r')
  moreover have "set bs = {b. \<exists>n. nodes r' b = Some n \<and> \<not> IsUsed n}"
    using as(2,3) n u by (auto simp: r')
  moreover have "nodes r' nullptr = None" "finite (dom (nodes r'))"
    using region_ok_nodes [OF ok] a by (simp_all add: r')
  ultimately have "region_ok r'" using c as(2) n(1) by (intro region_okI [of r' bs]) simp_all
  with used un show ?thesis by simp
qed

lemma FreeNode_ok:
  assumes ok: "region_ok r" and u: "used_nodes r a = Some u"
  shows "\<exists>r'. FreeNode a r = Some r' \<and> region_ok r' \<and> used_nodes r' = (used_nodes r)(a := None)"
proof -
  obtain as where as: "free_chain (nodes r) (free_list_head r) as" "distinct as"
    "set as = {a. \<exists>n. nodes r a = Some n \<and> \<not> IsUsed n}"
    using ok by (auto simp: region_ok_def)
  obtain n where n: "nodes r a = Some n" "IsUsed n" using u by (auto simp: used_nodes_def split: option.splits if_splits)
  then have a: "a \<noteq> nullptr" "a \<notin> set as" using node_nonnull [OF ok n(1)] as(3) by auto
  define r' where "r' = r\<lparr>nodes := (nodes r)(a \<mapsto> InitializeAsFreeNode (free_list_head r) n), free_list_head := a,
      nodes_in_use := nodes_in_use r - 1\<rparr>"
  have fr: "FreeNode a r = Some r'" using n(1) a(1) by (simp add: FreeNode_def update_node_def node_at_def r'_def)
  have used: "used_nodes r' = (used_nodes r)(a := None)"
    by (auto simp: r'_def used_nodes_def node_defs)
  have "finite (dom (used_nodes r))" by (rule finite_used [OF ok])
  moreover have "a \<in> dom (used_nodes r)" using u by auto
  ultimately have "card (dom (used_nodes r)) = Suc (card (dom (used_nodes r')))"
    unfolding used by (metis card_Suc_Diff1 dom_fun_upd)
  moreover have "nodes_in_use r' = nodes_in_use r - 1" by (simp add: r'_def)
  ultimately have c: "nodes_in_use r' = of_nat (card (dom (used_nodes r')))"
    using region_ok_count [OF ok] by simp
  have "free_chain (nodes r') (free_list_head r') (a # as)" using as(1) a by (simp add: r'_def node_defs)
  moreover have "set (a # as) = {b. \<exists>n. nodes r' b = Some n \<and> \<not> IsUsed n}"
    using as(3) a by (auto simp: r'_def node_defs)
  moreover have "nodes r' nullptr = None" "finite (dom (nodes r'))"
    using region_ok_nodes [OF ok] a by (simp_all add: r'_def)
  ultimately have "region_ok r'" using c as(2) a(2) by (intro region_okI [of r' "a # as"]) simp_all
  with fr used show ?thesis by blast
qed

interpretation pool: node_pool region_ok used_nodes TryAllocateNodeFromFreeList FreeNode
proof
  fix r r' :: PersistentRegionBase and p t a :: addr and u :: "addr \<times> addr"
  show "region_ok r \<Longrightarrow> t \<noteq> 0 \<Longrightarrow> TryAllocateNodeFromFreeList p t r = Some (a, r') \<Longrightarrow> a \<noteq> nullptr \<Longrightarrow>
      region_ok r' \<and> used_nodes r a = None \<and> used_nodes r' = (used_nodes r)(a \<mapsto> (p, t))"
    by (rule Try_ok)
  show "TryAllocateNodeFromFreeList p t r = Some (nullptr, r') \<Longrightarrow> r' = r"
    by (auto simp: TryAllocateNodeFromFreeList_def run_simps split: if_splits)
  show "\<exists>a r'. TryAllocateNodeFromFreeList p t r = Some (a, r')" if "region_ok r"
  proof -
    from that obtain as where "free_chain (nodes r) (free_list_head r) as" by (auto simp: region_ok_def)
    then show ?thesis by (cases as) (auto simp: TryAllocateNodeFromFreeList_def update_node_def node_at_def)
  qed
  show "region_ok r \<Longrightarrow> used_nodes r a = Some u \<Longrightarrow>
      \<exists>r'. FreeNode a r = Some r' \<and> region_ok r' \<and> used_nodes r' = (used_nodes r)(a := None)"
    by (rule FreeNode_ok)
qed

lemma UpdateOwner_ok:
  assumes "region_ok r" "used_nodes r a = Some (p, t)"
  shows "\<exists>r'. update_node (UpdateOwner q) a r = Some r' \<and> region_ok r' \<and> used_nodes r' = (used_nodes r)(a \<mapsto> (q, t))"
proof -
  obtain as where as: "free_chain (nodes r) (free_list_head r) as" "distinct as"
    "set as = {a. \<exists>n. nodes r a = Some n \<and> \<not> IsUsed n}"
    using assms by (auto simp: region_ok_def)
  obtain n where n: "nodes r a = Some n" "node_trace n = t" "t \<noteq> 0" using assms(2) by (auto simp: used_nodes_Some)
  then have a: "a \<noteq> nullptr" "a \<notin> set as" using node_nonnull [OF assms(1) n(1)] as(3) by (auto simp: IsUsed_def)
  define r' where "r' = r\<lparr>nodes := (nodes r)(a \<mapsto> UpdateOwner q n)\<rparr>"
  have used: "used_nodes r' = (used_nodes r)(a \<mapsto> (q, t))"
    using n by (auto simp: r'_def used_nodes_def node_defs)
  have "a \<in> dom (used_nodes r)" using assms(2) by auto
  then have "dom (used_nodes r') = dom (used_nodes r)" unfolding used by auto
  moreover have "set as = {b. \<exists>n. nodes r' b = Some n \<and> \<not> IsUsed n}"
    using as(3) a n by (auto simp: r'_def node_defs)
  moreover have "free_chain (nodes r') (free_list_head r') as" using as(1) a by (simp add: r'_def)
  moreover have "nodes r' nullptr = None" "finite (dom (nodes r'))" "nodes_in_use r' = nodes_in_use r"
    using region_ok_nodes [OF assms(1)] a by (simp_all add: r'_def)
  ultimately have "region_ok r'"
    using as(2) region_ok_count [OF assms(1)] by (intro region_okI [of r' as]) simp_all
  moreover have "update_node (UpdateOwner q) a r = Some r'"
    using n(1) a(1) by (simp add: update_node_def node_at_def r'_def)
  ultimately show ?thesis using used by blast
qed

section \<open>The invariant of the roots\<close>

text \<open>Every persistent with an object owns one used node that points back to it, every other one has no
  node, and every used node is owned.\<close>

definition linked :: "bool \<Rightarrow> (addr \<Rightarrow> PersistentBase option) \<Rightarrow> (addr \<Rightarrow> (addr \<times> addr) option) \<Rightarrow> bool" where
  "linked larger P U \<longleftrightarrow>
     P nullptr = None \<and>
     (\<forall>p b. P p = Some b \<longrightarrow>
        (if bp_IsValid larger b then U (root_node b) = Some (p, TraceAsRoot) else root_node b = nullptr)) \<and>
     (\<forall>a p t. U a = Some (p, t) \<longrightarrow> (\<exists>b. P p = Some b \<and> bp_IsValid larger b \<and> root_node b = a))"

definition roots_ok :: "bool \<Rightarrow> cppgc_world \<Rightarrow> bool" where
  "roots_ok larger w \<longleftrightarrow> region_ok (region w) \<and> linked larger (persistents w) (used_nodes (region w))"

text \<open>The contract of the library's refill: like an allocation from the free list, but never null.\<close>

definition refill_ok :: "region_lib \<Rightarrow> bool" where
  "refill_ok L \<longleftrightarrow>
     (\<forall>p t r a r'. region_ok r \<longrightarrow> t \<noteq> 0 \<longrightarrow> RefillFreeListAndAllocateNode L p t r = Some (a, r') \<longrightarrow>
        a \<noteq> nullptr \<and> region_ok r' \<and> used_nodes r a = None \<and> used_nodes r' = (used_nodes r)(a \<mapsto> (p, t)))"

lemma AllocateNode_ok:
  assumes "refill_ok L" "region_ok r" "t \<noteq> 0" "AllocateNode L p t r = Some (a, r')"
  shows "a \<noteq> nullptr \<and> region_ok r' \<and> used_nodes r a = None \<and> used_nodes r' = (used_nodes r)(a \<mapsto> (p, t))"
proof -
  obtain b r1 where b: "TryAllocateNodeFromFreeList p t r = Some (b, r1)"
    "(if b \<noteq> nullptr then Some (b, r1) else if IsCreationThread L then RefillFreeListAndAllocateNode L p t r1 else None) =
       Some (a, r')"
    using assms(4) by (auto simp: AllocateNode_def run_simps)
  show ?thesis
  proof (cases "b = nullptr")
    case True
    with b pool.alloc_fail [of p t r r1] have "RefillFreeListAndAllocateNode L p t r = Some (a, r')"
      by (auto split: if_splits)
    with assms(1-3) show ?thesis unfolding refill_ok_def by blast
  next
    case False
    with b pool.alloc_ok [OF assms(2,3)] show ?thesis by auto
  qed
qed

lemma trace_nonzero [simp]: "TraceAsRoot \<noteq> 0" "0 < TraceAsRoot"
  by (simp_all add: TraceAsRoot_def)

lemma linkedD:
  assumes "linked larger P U"
  shows "P p = Some b \<Longrightarrow> bp_IsValid larger b \<Longrightarrow> U (root_node b) = Some (p, TraceAsRoot)"
    "P p = Some b \<Longrightarrow> \<not> bp_IsValid larger b \<Longrightarrow> root_node b = nullptr"
    "U a = Some (p, t) \<Longrightarrow> \<exists>b. P p = Some b \<and> bp_IsValid larger b \<and> root_node b = a"
    "P nullptr = None"
  using assms by (auto simp: linked_def)

text \<open>The four ways an operation changes the links.\<close>

lemma linked_clear:
  assumes l: "linked larger P U" and b: "P p = Some b" "bp_IsValid larger b" and b': "\<not> bp_IsValid larger b'" "root_node b' = nullptr"
  shows "linked larger (P(p \<mapsto> b')) (U(root_node b := None))"
  unfolding linked_def
proof (intro conjI allI impI)
  note D = linkedD [OF l]
  have p: "p \<noteq> nullptr" using D(4) b(1) by (cases "p = nullptr") simp_all
  then show "(P(p \<mapsto> b')) nullptr = None" using D(4) by simp
  show "if bp_IsValid larger c then (U(root_node b := None)) (root_node c) = Some (q, TraceAsRoot) else root_node c = nullptr"
    if "(P(p \<mapsto> b')) q = Some c" for q c
    using that D(1) [OF b] D(1) [of q c] D(2) [of q c] b' by (cases "q = p") auto
  show "\<exists>c. (P(p \<mapsto> b')) q = Some c \<and> bp_IsValid larger c \<and> root_node c = a"
    if "(U(root_node b := None)) a = Some (q, t)" for a q t
    using that D(3) [of a q t] b(1) by (cases "a = root_node b") auto
qed

lemma linked_null:
  assumes l: "linked larger P U" and p: "p \<noteq> nullptr" "\<And>b. P p = Some b \<Longrightarrow> \<not> bp_IsValid larger b"
    and b': "\<not> bp_IsValid larger b'" "root_node b' = nullptr"
  shows "linked larger (P(p \<mapsto> b')) U"
  unfolding linked_def
proof (intro conjI allI impI)
  note D = linkedD [OF l]
  show "(P(p \<mapsto> b')) nullptr = None" using D(4) p(1) by simp
  show "if bp_IsValid larger c then U (root_node c) = Some (q, TraceAsRoot) else root_node c = nullptr"
    if "(P(p \<mapsto> b')) q = Some c" for q c
    using that D(1) [of q c] D(2) [of q c] b' by (cases "q = p") auto
  show "\<exists>c. (P(p \<mapsto> b')) q = Some c \<and> bp_IsValid larger c \<and> root_node c = a" if "U a = Some (q, t)" for a q t
    using that D(3) [of a q t] p(2) by (cases "q = p") auto
qed

lemma linked_take:
  assumes l: "linked larger P U" and p: "p \<noteq> nullptr" "\<And>b. P p = Some b \<Longrightarrow> \<not> bp_IsValid larger b"
    and b': "bp_IsValid larger b'" "U (root_node b') = None"
  shows "linked larger (P(p \<mapsto> b')) (U(root_node b' \<mapsto> (p, TraceAsRoot)))"
  unfolding linked_def
proof (intro conjI allI impI)
  note D = linkedD [OF l]
  show "(P(p \<mapsto> b')) nullptr = None" using D(4) p(1) by simp
  show "if bp_IsValid larger c then (U(root_node b' \<mapsto> (p, TraceAsRoot))) (root_node c) = Some (q, TraceAsRoot)
      else root_node c = nullptr"
    if "(P(p \<mapsto> b')) q = Some c" for q c
    using that D(1) [of q c] D(2) [of q c] b' by (cases "q = p") auto
  show "\<exists>c. (P(p \<mapsto> b')) q = Some c \<and> bp_IsValid larger c \<and> root_node c = a"
    if "(U(root_node b' \<mapsto> (p, TraceAsRoot))) a = Some (q, t)" for a q t
    using that D(3) [of a q t] p(2) b' by (cases "a = root_node b'"; cases "q = p") auto
qed

lemma linked_retarget:
  assumes l: "linked larger P U" and b: "P p = Some b" "bp_IsValid larger b"
    and b': "bp_IsValid larger b'" "root_node b' = root_node b"
  shows "linked larger (P(p \<mapsto> b')) U"
  unfolding linked_def
proof (intro conjI allI impI)
  note D = linkedD [OF l]
  show "(P(p \<mapsto> b')) nullptr = None" using D(4) b by (cases "p = nullptr") simp_all
  show "if bp_IsValid larger c then U (root_node c) = Some (q, TraceAsRoot) else root_node c = nullptr"
    if "(P(p \<mapsto> b')) q = Some c" for q c
    using that D(1) [of q c] D(2) [of q c] D(1) [OF b] b' by (cases "q = p") auto
  show "\<exists>c. (P(p \<mapsto> b')) q = Some c \<and> bp_IsValid larger c \<and> root_node c = a" if "U a = Some (q, t)" for a q t
    using that D(3) [of a q t] b b' by (cases "q = p") auto
qed

lemma linked_move:
  assumes l: "linked larger P U" and b: "P q = Some b" "bp_IsValid larger b"
    and p: "p \<noteq> nullptr" "p \<noteq> q" "\<And>b. P p = Some b \<Longrightarrow> \<not> bp_IsValid larger b"
    and b': "\<not> bp_IsValid larger b'" "root_node b' = nullptr"
  shows "linked larger (P(p \<mapsto> b, q \<mapsto> b')) (U(root_node b \<mapsto> (p, TraceAsRoot)))"
proof -
  have "linked larger (P(q \<mapsto> b')) (U(root_node b := None))" by (rule linked_clear [OF l b b'])
  then have "linked larger (P(q \<mapsto> b', p \<mapsto> b)) (U(root_node b := None, root_node b \<mapsto> (p, TraceAsRoot)))"
    by (rule linked_take) (use p b in auto)
  then show ?thesis using p(2) by (simp add: fun_upd_twist)
qed

lemma linked_remove:
  assumes l: "linked larger P U" and b: "\<And>b. P p = Some b \<Longrightarrow> \<not> bp_IsValid larger b"
  shows "linked larger (P(p := None)) U"
  unfolding linked_def
proof (intro conjI allI impI)
  note D = linkedD [OF l]
  show "(P(p := None)) nullptr = None" using D(4) by simp
  show "if bp_IsValid larger c then U (root_node c) = Some (q, TraceAsRoot) else root_node c = nullptr"
    if "(P(p := None)) q = Some c" for q c
    using that D(1) [of q c] D(2) [of q c] by (cases "q = p") auto
  show "\<exists>c. (P(p := None)) q = Some c \<and> bp_IsValid larger c \<and> root_node c = a" if "U a = Some (q, t)" for a q t
    using that D(3) [of a q t] b by (cases "q = p") auto
qed

section \<open>The operations keep the invariant\<close>

lemma bp_at_eq: "linked larger (persistents w) U \<Longrightarrow> bp_at w p = persistents w p"
  by (auto simp: bp_at_def linked_def)

lemma bp_at_Some: "bp_at w p = Some b \<longleftrightarrow> p \<noteq> nullptr \<and> persistents w p = Some b"
  by (auto simp: bp_at_def)

lemma roots_okD:
  assumes "roots_ok larger w" "bp_at w p = Some b"
  shows "bp_IsValid larger b \<Longrightarrow> used_nodes (region w) (root_node b) = Some (p, TraceAsRoot)"
    "\<not> bp_IsValid larger b \<Longrightarrow> root_node b = nullptr"
  using assms by (auto simp: roots_ok_def linked_def bp_at_Some)

text \<open>What releasing the node of a persistent with an object does, whatever the persistent becomes.\<close>

lemma free_of_valid:
  assumes ok: "roots_ok larger w" and b: "bp_at w p = Some b" "bp_IsValid larger b"
  shows "\<exists>r. FreeNode (root_node b) (region w) = Some r \<and> region_ok r \<and>
    used_nodes r = (used_nodes (region w))(root_node b := None)"
  using pool.free_ok roots_okD(1) [OF ok b(1)] ok b(2) by (auto simp: roots_ok_def)

lemma Clear_ok:
  assumes ok: "roots_ok larger w" and b: "bp_at w p = Some b"
  shows "\<exists>w'. bp_Clear larger p w = Some w' \<and> roots_ok larger w' \<and>
    persistents w' = (persistents w)(p \<mapsto> \<lparr>raw_ptr = 0, root_node = nullptr\<rparr>)"
proof (cases "bp_IsValid larger b")
  case True
  obtain r where r: "FreeNode (root_node b) (region w) = Some r" "region_ok r"
    "used_nodes r = (used_nodes (region w))(root_node b := None)"
    using free_of_valid [OF ok b True] by blast
  have "linked larger ((persistents w)(p \<mapsto> \<lparr>raw_ptr = 0, root_node = nullptr\<rparr>)) (used_nodes r)"
    unfolding r(3) by (rule linked_clear) (use ok b True in \<open>auto simp: roots_ok_def bp_at_Some bp_IsValid_def\<close>)
  with True b r show ?thesis by (cases b) (simp add: bp_Clear_def put_def roots_ok_def)
next
  case False
  have n: "root_node b = nullptr" by (rule roots_okD(2) [OF ok b False])
  have "linked larger ((persistents w)(p \<mapsto> \<lparr>raw_ptr = 0, root_node = nullptr\<rparr>)) (used_nodes (region w))"
    by (rule linked_null) (use ok b False in \<open>auto simp: roots_ok_def bp_at_Some bp_IsValid_def\<close>)
  with False b n ok show ?thesis by (cases b) (simp add: bp_Clear_def put_def roots_ok_def)
qed

lemma ClearFromGC_ok:
  assumes ok: "roots_ok larger w" and b: "bp_at w p = Some b"
  shows "\<exists>w'. bp_ClearFromGC larger p w = Some w' \<and> roots_ok larger w' \<and>
    persistents w' = (if bp_IsValid larger b then (persistents w)(p \<mapsto> \<lparr>raw_ptr = 0, root_node = nullptr\<rparr>)
                      else persistents w)"
proof (cases "bp_IsValid larger b")
  case True
  then have "bp_ClearFromGC larger p w = bp_Clear larger p w" using b by (cases b) (simp add: bp_ClearFromGC_def bp_Clear_def put_def)
  with Clear_ok [OF assms] True show ?thesis by simp
next
  case False
  with b ok show ?thesis by (simp add: bp_ClearFromGC_def)
qed

lemma new_raw_ok:
  assumes L: "refill_ok L" and ok: "roots_ok larger w" and p: "p \<noteq> nullptr" "\<And>b. persistents w p = Some b \<Longrightarrow> \<not> bp_IsValid larger b"
    and st: "bp_new_raw L larger p ptr w = Some w'"
  shows "roots_ok larger w' \<and> (\<exists>n. persistents w' = (persistents w)(p \<mapsto> \<lparr>raw_ptr = ptr, root_node = n\<rparr>))"
proof (cases "bp_IsValid larger \<lparr>raw_ptr = ptr, root_node = nullptr\<rparr>")
  case True
  then obtain n r where n: "AllocateNode L p TraceAsRoot (region w) = Some (n, r)"
    "persistents w' = (persistents w)(p \<mapsto> \<lparr>raw_ptr = ptr, root_node = n\<rparr>)" "region w' = r"
    using st by (auto simp: bp_new_raw_def Let_def put_def run_simps)
  have A: "region_ok r" "used_nodes (region w) n = None" "used_nodes r = (used_nodes (region w))(n \<mapsto> (p, TraceAsRoot))"
    using AllocateNode_ok [OF L _ _ n(1)] ok by (auto simp: roots_ok_def)
  have "linked larger ((persistents w)(p \<mapsto> \<lparr>raw_ptr = ptr, root_node = n\<rparr>)) ((used_nodes (region w))(n \<mapsto> (p, TraceAsRoot)))"
    using linked_take [of larger "persistents w" "used_nodes (region w)" p "\<lparr>raw_ptr = ptr, root_node = n\<rparr>"] ok p A(2) True
    by (simp add: roots_ok_def bp_IsValid_def)
  with A n show ?thesis by (auto simp: roots_ok_def)
next
  case False
  then have w': "persistents w' = (persistents w)(p \<mapsto> \<lparr>raw_ptr = ptr, root_node = nullptr\<rparr>)" "region w' = region w"
    using st by (auto simp: bp_new_raw_def Let_def put_def)
  have "linked larger ((persistents w)(p \<mapsto> \<lparr>raw_ptr = ptr, root_node = nullptr\<rparr>)) (used_nodes (region w))"
    by (rule linked_null) (use ok p False in \<open>auto simp: roots_ok_def\<close>)
  with w' ok show ?thesis by (auto simp: roots_ok_def)
qed

text \<open>\<open>Assign\<close> reuses the node of a persistent that keeps an object; otherwise it is a clear followed by a
  construction in place.\<close>

lemma Assign_unfold:
  assumes b: "bp_at w p = Some b" and ok: "roots_ok larger w"
  shows "bp_Assign L larger p ptr w =
    (if bp_IsValid larger b \<and> ptr \<noteq> 0 \<and> ptr \<noteq> kSentinelPointer larger then Some (put p (b\<lparr>raw_ptr := ptr\<rparr>) w)
     else do { w1 \<leftarrow> bp_Clear larger p w; bp_new_raw L larger p ptr w1 })"
proof (cases "bp_IsValid larger b")
  case True
  then show ?thesis using b
    by (cases b; cases "FreeNode (root_node b) (region w)")
       (simp_all add: bp_Assign_def bp_Clear_def bp_new_raw_def bp_IsValid_def put_def Let_def)
next
  case False
  with roots_okD(2) [OF ok b] b show ?thesis
    by (cases b) (auto simp: bp_Assign_def bp_Clear_def bp_new_raw_def bp_IsValid_def put_def Let_def)
qed

lemma Assign_ok:
  assumes L: "refill_ok L" and ok: "roots_ok larger w" and b: "bp_at w p = Some b"
    and st: "bp_Assign L larger p ptr w = Some w'"
  shows "roots_ok larger w' \<and> (\<exists>n. persistents w' = (persistents w)(p \<mapsto> \<lparr>raw_ptr = ptr, root_node = n\<rparr>))"
proof (cases "bp_IsValid larger b \<and> ptr \<noteq> 0 \<and> ptr \<noteq> kSentinelPointer larger")
  case True
  then have w': "w' = put p (b\<lparr>raw_ptr := ptr\<rparr>) w" using st Assign_unfold [OF b ok, of L ptr] by simp
  have "linked larger ((persistents w)(p \<mapsto> b\<lparr>raw_ptr := ptr\<rparr>)) (used_nodes (region w))"
    by (rule linked_retarget) (use ok b True in \<open>auto simp: roots_ok_def bp_at_Some bp_IsValid_def\<close>)
  with w' ok show ?thesis by (cases b) (auto simp: roots_ok_def put_def)
next
  case False
  obtain w1 where w1: "bp_Clear larger p w = Some w1" "roots_ok larger w1"
    "persistents w1 = (persistents w)(p \<mapsto> \<lparr>raw_ptr = 0, root_node = nullptr\<rparr>)"
    using Clear_ok [OF ok b] by blast
  then have "bp_new_raw L larger p ptr w1 = Some w'" using st False Assign_unfold [OF b ok, of L ptr] by auto
  from new_raw_ok [OF L w1(2) _ _ this] w1(3) b show ?thesis by (auto simp: bp_at_Some bp_IsValid_def)
qed

lemma new_move_ok:
  assumes ok: "roots_ok larger w" and p: "p \<noteq> nullptr" "p \<noteq> q" "\<And>b. persistents w p = Some b \<Longrightarrow> \<not> bp_IsValid larger b"
    and b: "bp_at w q = Some b"
  shows "\<exists>w'. bp_new_move larger p q w = Some w' \<and> roots_ok larger w' \<and>
    persistents w' = (if bp_IsValid larger b
      then (persistents w)(p \<mapsto> b, q \<mapsto> \<lparr>raw_ptr = 0, root_node = nullptr\<rparr>) else (persistents w)(p \<mapsto> b))"
proof (cases "bp_IsValid larger b")
  case True
  obtain r where r: "update_node (UpdateOwner p) (root_node b) (region w) = Some r" "region_ok r"
    "used_nodes r = (used_nodes (region w))(root_node b \<mapsto> (p, TraceAsRoot))"
    using UpdateOwner_ok [OF _ roots_okD(1) [OF ok b True], of p] ok by (auto simp: roots_ok_def)
  have "linked larger ((persistents w)(p \<mapsto> b, q \<mapsto> \<lparr>raw_ptr = 0, root_node = nullptr\<rparr>)) (used_nodes r)"
    unfolding r(3) by (rule linked_move) (use ok b True p in \<open>auto simp: roots_ok_def bp_at_Some bp_IsValid_def\<close>)
  with True b r show ?thesis by (cases b) (simp add: bp_new_move_def put_def roots_ok_def)
next
  case False
  have "linked larger ((persistents w)(p \<mapsto> b)) (used_nodes (region w))"
    by (rule linked_null) (use ok p False roots_okD(2) [OF ok b False] in \<open>auto simp: roots_ok_def\<close>)
  with False b ok show ?thesis by (simp add: bp_new_move_def put_def roots_ok_def)
qed

text \<open>A move assignment is a clear followed by a move construction in place.\<close>

lemma assign_move_unfold:
  "bp_assign_move larger p q w =
     (if p = q then Some w else do { w1 \<leftarrow> bp_Clear larger p w; bp_new_move larger p q w1 })"
  by (simp add: bp_assign_move_def bp_new_move_def Let_def)

lemma assign_move_ok:
  assumes ok: "roots_ok larger w" and a: "bp_at w p = Some a" and b: "bp_at w q = Some b" and pq: "p \<noteq> q"
  shows "\<exists>w'. bp_assign_move larger p q w = Some w' \<and> roots_ok larger w' \<and>
    persistents w' = (if bp_IsValid larger b
      then (persistents w)(p \<mapsto> b, q \<mapsto> \<lparr>raw_ptr = 0, root_node = nullptr\<rparr>) else (persistents w)(p \<mapsto> b))"
proof -
  obtain w1 where w1: "bp_Clear larger p w = Some w1" "roots_ok larger w1"
    "persistents w1 = (persistents w)(p \<mapsto> \<lparr>raw_ptr = 0, root_node = nullptr\<rparr>)"
    using Clear_ok [OF ok a] by blast
  have "bp_at w1 q = Some b" using b pq w1(3) by (auto simp: bp_at_Some)
  from new_move_ok [OF w1(2) _ pq _ this] w1 a pq show ?thesis
    by (auto simp: assign_move_unfold bp_at_Some bp_IsValid_def fun_upd_twist)
qed

lemma destructor_ok:
  assumes ok: "roots_ok larger w" and b: "bp_at w p = Some b"
  shows "\<exists>w'. bp_destructor larger p w = Some w' \<and> roots_ok larger w' \<and> persistents w' = (persistents w)(p := None)"
proof -
  obtain w1 where w1: "bp_Clear larger p w = Some w1" "roots_ok larger w1"
    "persistents w1 = (persistents w)(p \<mapsto> \<lparr>raw_ptr = 0, root_node = nullptr\<rparr>)"
    using Clear_ok [OF ok b] by blast
  have "linked larger ((persistents w1)(p := None)) (used_nodes (region w1))"
    by (rule linked_remove) (use w1 in \<open>auto simp: roots_ok_def bp_IsValid_def\<close>)
  with w1 show ?thesis by (simp add: bp_destructor_def roots_ok_def)
qed

section \<open>Programs over persistents\<close>

datatype persistent_op =
    NewNull addr | NewSentinel addr | NewRaw addr u64 | NewCopy addr addr | NewMove addr addr
  | Destroy addr | AssignCopy addr addr | AssignMove addr addr | AssignRaw addr u64 | AssignNull addr
  | AssignSentinel addr | ReleaseOp addr | ClearGC addr | ToOp addr addr

text \<open>An object is constructed where there is none.\<close>

definition fresh :: "addr \<Rightarrow> cppgc_world \<Rightarrow> bool" where
  "fresh a w \<longleftrightarrow> a \<noteq> nullptr \<and> persistents w a = None"

fun run_op :: "region_lib \<Rightarrow> bool \<Rightarrow> persistent_op \<Rightarrow> cppgc_world \<Rightarrow> cppgc_world option" where
  "run_op L larger (NewNull p) w = (if fresh p w then bp_new_null p w else None)"
| "run_op L larger (NewSentinel p) w = (if fresh p w then bp_new_sentinel larger p w else None)"
| "run_op L larger (NewRaw p ptr) w = (if fresh p w then bp_new_raw L larger p ptr w else None)"
| "run_op L larger (NewCopy p q) w = (if fresh p w then bp_new_copy L larger p q w else None)"
| "run_op L larger (NewMove p q) w = (if fresh p w then bp_new_move larger p q w else None)"
| "run_op L larger (Destroy p) w = bp_destructor larger p w"
| "run_op L larger (AssignCopy p q) w = bp_assign_copy L larger p q w"
| "run_op L larger (AssignMove p q) w =
     (if bp_at w p = None then None else bp_assign_move larger p q w)"
| "run_op L larger (AssignRaw p ptr) w = bp_assign_raw L larger p ptr w"
| "run_op L larger (AssignNull p) w = bp_assign_null larger p w"
| "run_op L larger (AssignSentinel p) w = bp_assign_sentinel L larger p w"
| "run_op L larger (ReleaseOp p) w = map_option snd (bp_Release larger p w)"
| "run_op L larger (ClearGC p) w = bp_ClearFromGC larger p w"
| "run_op L larger (ToOp p q) w = (if fresh p w then bp_To L larger p q w else None)"

definition cppgc_init :: cppgc_world where
  "cppgc_init = \<lparr>persistents = (\<lambda>_. None),
     region = \<lparr>nodes = (\<lambda>_. None), free_list_head = nullptr, nodes_in_use = 0\<rparr>\<rparr>"

inductive cppgc_reachable :: "region_lib \<Rightarrow> bool \<Rightarrow> cppgc_world \<Rightarrow> bool" for L larger where
  init: "cppgc_reachable L larger cppgc_init"
| step: "cppgc_reachable L larger w \<Longrightarrow> run_op L larger op w = Some w' \<Longrightarrow> cppgc_reachable L larger w'"

lemma init_ok: "roots_ok larger cppgc_init"
proof -
  have u: "used_nodes (region cppgc_init) = (\<lambda>_. None)" by (auto simp: cppgc_init_def used_nodes_def)
  have "region_ok (region cppgc_init)"
    using u by (intro region_okI [of _ "[]"]) (simp_all add: cppgc_init_def)
  with u show ?thesis by (simp add: roots_ok_def linked_def) (simp add: cppgc_init_def)
qed

lemma new_plain_ok:
  assumes "roots_ok larger w" "fresh p w" "\<not> bp_IsValid larger \<lparr>raw_ptr = ptr, root_node = nullptr\<rparr>"
  shows "roots_ok larger (put p \<lparr>raw_ptr = ptr, root_node = nullptr\<rparr> w)"
proof -
  have "linked larger ((persistents w)(p \<mapsto> \<lparr>raw_ptr = ptr, root_node = nullptr\<rparr>)) (used_nodes (region w))"
    by (rule linked_null) (use assms in \<open>auto simp: roots_ok_def fresh_def\<close>)
  with assms(1) show ?thesis by (simp add: roots_ok_def put_def)
qed

lemma run_op_ok:
  assumes L: "refill_ok L" and ok: "roots_ok larger w" and st: "run_op L larger op w = Some w'"
  shows "roots_ok larger w'"
proof -
  have raw: "roots_ok larger w'" if "fresh p w" "bp_new_raw L larger p ptr w = Some w'" for p ptr
    using new_raw_ok [OF L ok _ _ that(2)] that(1) by (auto simp: fresh_def)
  have assign: "roots_ok larger w'" if "bp_Assign L larger p ptr w = Some w'" for p ptr
  proof -
    from that obtain b where "bp_at w p = Some b" by (auto simp: bp_Assign_def)
    from Assign_ok [OF L ok this that] show ?thesis by blast
  qed
  have clear: "roots_ok larger w'" if c: "bp_Clear larger p w = Some w'" for p
  proof -
    from c obtain b where "bp_at w p = Some b" by (auto simp: bp_Clear_def)
    from Clear_ok [OF ok this] c show ?thesis by auto
  qed
  note inv = bp_IsValid_def
  show ?thesis
  proof (cases op)
    case (NewMove p q)
    with st obtain b where b: "fresh p w" "bp_at w q = Some b" "bp_new_move larger p q w = Some w'"
      by (auto simp: bp_new_move_def split: if_splits)
    then have "p \<noteq> q" by (auto simp: fresh_def bp_at_Some)
    with b show ?thesis using new_move_ok [OF ok _ _ _ b(2), of p] by (auto simp: fresh_def bp_at_Some)
  next
    case (AssignMove p q)
    with st obtain a where a: "bp_at w p = Some a" "bp_assign_move larger p q w = Some w'"
      by (auto split: if_splits)
    show ?thesis
    proof (cases "p = q")
      case False
      have "bp_at w q \<noteq> None"
      proof
        assume "bp_at w q = None"
        moreover obtain w1 where "bp_Clear larger p w = Some w1" "persistents w1 = (persistents w)(p \<mapsto> \<lparr>raw_ptr = 0, root_node = nullptr\<rparr>)"
          using Clear_ok [OF ok a(1)] by blast
        ultimately show False using a(2) False by (auto simp: assign_move_unfold bp_new_move_def bp_at_def split: if_splits)
      qed
      then show ?thesis using assign_move_ok [OF ok a(1) _ False] a(2) by auto
    qed (use a ok in \<open>simp add: assign_move_unfold\<close>)
  next
    case (Destroy p)
    with st obtain b where "bp_at w p = Some b" "bp_destructor larger p w = Some w'"
      by (auto simp: bp_destructor_def bp_Clear_def)
    with destructor_ok [OF ok] show ?thesis by fastforce
  next
    case (ClearGC p)
    with st obtain b where "bp_at w p = Some b" "bp_ClearFromGC larger p w = Some w'"
      by (auto simp: bp_ClearFromGC_def)
    with ClearFromGC_ok [OF ok] show ?thesis by fastforce
  qed (use st raw assign clear new_plain_ok [OF ok] in
      \<open>auto simp: bp_new_null_def bp_new_sentinel_def bp_new_copy_def bp_assign_copy_def bp_assign_raw_def
        bp_assign_null_def bp_assign_sentinel_def bp_Release_def bp_To_def inv split: if_splits\<close>)
qed

lemma reachable_roots:
  assumes "refill_ok L"
  shows "cppgc_reachable L larger w \<Longrightarrow> roots_ok larger w"
  by (induction rule: cppgc_reachable.induct) (auto intro: init_ok run_op_ok [OF assms])

section \<open>Properties\<close>

lemma roots_count:
  assumes "roots_ok larger w"
  shows "card (dom (used_nodes (region w))) = card {p. \<exists>b. persistents w p = Some b \<and> bp_IsValid larger b}"
proof -
  have l: "linked larger (persistents w) (used_nodes (region w))" using assms by (simp add: roots_ok_def)
  note D = linkedD [OF l]
  let ?owner = "\<lambda>a. fst (the (used_nodes (region w) a))"
  have "bij_betw ?owner (dom (used_nodes (region w))) {p. \<exists>b. persistents w p = Some b \<and> bp_IsValid larger b}"
  proof (rule bij_betwI')
    fix x y
    assume "x \<in> dom (used_nodes (region w))" "y \<in> dom (used_nodes (region w))"
    then obtain p t q u where "used_nodes (region w) x = Some (p, t)" "used_nodes (region w) y = Some (q, u)" by auto
    then show "(?owner x = ?owner y) = (x = y)" using D(3) [of x p t] D(3) [of y q u] by auto
  next
    fix x
    assume "x \<in> dom (used_nodes (region w))"
    then obtain p t where "used_nodes (region w) x = Some (p, t)" by auto
    then show "?owner x \<in> {p. \<exists>b. persistents w p = Some b \<and> bp_IsValid larger b}" using D(3) [of x p t] by auto
  next
    fix p
    assume "p \<in> {p. \<exists>b. persistents w p = Some b \<and> bp_IsValid larger b}"
    then obtain b where "persistents w p = Some b" "bp_IsValid larger b" by blast
    from D(1) [OF this] show "\<exists>a \<in> dom (used_nodes (region w)). p = ?owner a" by (intro bexI [of _ "root_node b"]) auto
  qed
  then show ?thesis by (rule bij_betw_same_card)
qed

text \<open>C33: whatever sequence of constructions, copies, moves, assignments, releases and destructions of
  persistents runs, every persistent that points to an object is the owner of a used node of the region,
  no two share one, every used node is owned by a persistent that points to an object, and the region
  counts exactly these persistents. So an object a persistent points to is always a root, and a node is
  never leaked or freed twice.\<close>

theorem persistents_are_roots:
  assumes "refill_ok L" "cppgc_reachable L larger w"
  shows "(\<forall>p b. persistents w p = Some b \<longrightarrow> bp_IsValid larger b \<longrightarrow>
      (\<exists>n. nodes (region w) (root_node b) = Some n \<and> IsUsed n \<and> node_owner n = p)) \<and>
    (\<forall>a n. nodes (region w) a = Some n \<longrightarrow> IsUsed n \<longrightarrow>
      (\<exists>b. persistents w (node_owner n) = Some b \<and> bp_IsValid larger b \<and> root_node b = a)) \<and>
    nodes_in_use (region w) = of_nat (card {p. \<exists>b. persistents w p = Some b \<and> bp_IsValid larger b})"
proof (intro conjI allI impI)
  have ok: "roots_ok larger w" by (rule reachable_roots [OF assms])
  then have l: "linked larger (persistents w) (used_nodes (region w))" by (simp add: roots_ok_def)
  show "nodes_in_use (region w) = of_nat (card {p. \<exists>b. persistents w p = Some b \<and> bp_IsValid larger b})"
    using ok region_ok_count roots_count [OF ok] by (simp add: roots_ok_def)
  show "\<exists>n. nodes (region w) (root_node b) = Some n \<and> IsUsed n \<and> node_owner n = p"
    if "persistents w p = Some b" "bp_IsValid larger b" for p b
    using linkedD(1) [OF l that] by (auto simp: used_nodes_Some IsUsed_def)
  show "\<exists>b. persistents w (node_owner n) = Some b \<and> bp_IsValid larger b \<and> root_node b = a"
    if "nodes (region w) a = Some n" "IsUsed n" for a n
    using linkedD(3) [OF l, of a "node_owner n" "node_trace n"] that by (simp add: used_nodes_Some IsUsed_def)
qed

text \<open>A library that gives out one node at address 16 and then is out of memory.\<close>

definition demo_refill :: region_lib where
  "demo_refill = \<lparr>RefillFreeListAndAllocateNode = (\<lambda>p t r.
       if nodes r 16 = None \<and> t \<noteq> 0
       then Some (16, r\<lparr>nodes := (nodes r)(16 \<mapsto> \<lparr>owner_or_next = p, node_trace = t\<rparr>), nodes_in_use := nodes_in_use r + 1\<rparr>)
       else None),
     IsCreationThread = True\<rparr>"

text \<open>Adding a used node at an address without one.\<close>

lemma grow_ok:
  assumes ok: "region_ok r" and t: "t \<noteq> (0 :: addr)" and a: "nodes r a = None" "a \<noteq> nullptr"
    and r': "r' = r\<lparr>nodes := (nodes r)(a \<mapsto> \<lparr>owner_or_next = p, node_trace = t\<rparr>), nodes_in_use := nodes_in_use r + 1\<rparr>"
  shows "region_ok r' \<and> used_nodes r a = None \<and> used_nodes r' = (used_nodes r)(a \<mapsto> (p, t))"
proof -
  obtain as where as: "free_chain (nodes r) (free_list_head r) as" "distinct as"
    "set as = {a. \<exists>n. nodes r a = Some n \<and> \<not> IsUsed n}"
    using ok by (auto simp: region_ok_def)
  have un: "used_nodes r a = None" using a(1) by (simp add: used_nodes_def)
  have u: "used_nodes r' = (used_nodes r)(a \<mapsto> (p, t))"
    using t by (auto simp: r' used_nodes_def node_defs)
  have "card (dom (used_nodes r')) = Suc (card (dom (used_nodes r)))"
    unfolding u using un finite_used [OF ok] by (simp add: domIff)
  moreover have "nodes_in_use r' = nodes_in_use r + 1" by (simp add: r')
  ultimately have c: "nodes_in_use r' = of_nat (card (dom (used_nodes r')))"
    using region_ok_count [OF ok] by (simp add: add.commute)
  have "a \<notin> set as" using as(3) a(1) by simp
  then have "free_chain (nodes r') (free_list_head r') as" using as(1) by (simp add: r')
  moreover have "set as = {b. \<exists>n. nodes r' b = Some n \<and> \<not> IsUsed n}"
    using as(3) t a(1) by (auto simp: r' node_defs)
  moreover have "nodes r' nullptr = None" "finite (dom (nodes r'))"
    using region_ok_nodes [OF ok] a(2) by (simp_all add: r')
  ultimately have "region_ok r'" using c as(2) by (intro region_okI [of r' as]) simp_all
  with un u show ?thesis by simp
qed

lemma demo_refill_ok: "refill_ok demo_refill"
  unfolding refill_ok_def
proof (intro allI impI)
  fix p t r a r'
  assume ok: "region_ok r" and t: "t \<noteq> (0 :: addr)" and st: "RefillFreeListAndAllocateNode demo_refill p t r = Some (a, r')"
  from st have f: "nodes r 16 = None" "a = 16"
    "r' = r\<lparr>nodes := (nodes r)(16 \<mapsto> \<lparr>owner_or_next = p, node_trace = t\<rparr>), nodes_in_use := nodes_in_use r + 1\<rparr>"
    by (auto simp: demo_refill_def split: if_splits)
  show "a \<noteq> nullptr \<and> region_ok r' \<and> used_nodes r a = None \<and> used_nodes r' = (used_nodes r)(a \<mapsto> (p, t))"
    using grow_ok [OF ok t f(1) _ f(3)] f(2) by simp
qed

lemma demo_run:
  "\<exists>w. run_op demo_refill True (NewRaw 100 4096) cppgc_init = Some w \<and>
     persistents w = [100 \<mapsto> \<lparr>raw_ptr = 4096, root_node = 16\<rparr>]"
  by (simp add: cppgc_init_def fresh_def bp_new_raw_def put_def Let_def bp_IsValid_def kSentinelPointer_def
      kPointerCompressionShift_def AllocateNode_def TryAllocateNodeFromFreeList_def demo_refill_def)

theorem persistents_are_roots_witness:
  "\<exists>w :: cppgc_world. persistents w = [100 \<mapsto> \<lparr>raw_ptr = 4096, root_node = 16\<rparr>] \<and>
     (\<exists>n. nodes (region w) 16 = Some n \<and> IsUsed n \<and> node_owner n = 100) \<and> nodes_in_use (region w) = 1"
proof -
  obtain w where w: "run_op demo_refill True (NewRaw 100 4096) cppgc_init = Some w"
    "persistents w = [100 \<mapsto> \<lparr>raw_ptr = 4096, root_node = 16\<rparr>]"
    using demo_run by blast
  have v: "bp_IsValid True \<lparr>raw_ptr = 4096, root_node = 16\<rparr>"
    by (simp add: bp_IsValid_def kSentinelPointer_def kPointerCompressionShift_def)
  have "cppgc_reachable demo_refill True w" by (rule cppgc_reachable.step [OF cppgc_reachable.init w(1)])
  note R = persistents_are_roots [OF demo_refill_ok this]
  have "{p. \<exists>b. persistents w p = Some b \<and> bp_IsValid True b} = {100}" using w(2) v by (auto split: if_splits)
  then have "nodes_in_use (region w) = 1" using R by simp
  moreover have "\<exists>n. nodes (region w) 16 = Some n \<and> IsUsed n \<and> node_owner n = 100"
    using conjunct1 [OF R, rule_format, of 100 "\<lparr>raw_ptr = 4096, root_node = 16\<rparr>"] w(2) v by simp
  ultimately show ?thesis using w(2) by blast
qed

lemma Clear_count:
  "bp_Clear larger p w = Some w' \<Longrightarrow> bp_at w p = Some a \<Longrightarrow>
     nodes_in_use (region w') = nodes_in_use (region w) - (if bp_IsValid larger a then 1 else 0)"
  by (auto simp: bp_Clear_def FreeNode_def update_node_def put_def Let_def split: if_splits)

lemma new_move_count:
  "bp_new_move larger p q w = Some w' \<Longrightarrow> nodes_in_use (region w') = nodes_in_use (region w)"
  by (auto simp: bp_new_move_def update_node_def put_def Let_def split: if_splits)

text \<open>Moving a persistent transfers the pointer and its node: the target points to what the source
  pointed to, the source becomes null when there was an object, nothing else changes, and no node is
  needed from the library: the move is defined in every reachable world.\<close>

lemma persistent_move_exact:
  assumes "refill_ok L" "cppgc_reachable L larger w" "p \<noteq> q" "bp_at w p = Some a" "bp_at w q = Some b"
  shows "\<exists>w'. bp_assign_move larger p q w = Some w' \<and>
    persistents w' = (if bp_IsValid larger b
      then (persistents w)(p \<mapsto> b, q \<mapsto> \<lparr>raw_ptr = 0, root_node = nullptr\<rparr>) else (persistents w)(p \<mapsto> b)) \<and>
    nodes_in_use (region w') = nodes_in_use (region w) - (if bp_IsValid larger a then 1 else 0)"
proof -
  have ok: "roots_ok larger w" by (rule reachable_roots [OF assms(1,2)])
  obtain w' where w': "bp_assign_move larger p q w = Some w'" "persistents w' = (if bp_IsValid larger b
      then (persistents w)(p \<mapsto> b, q \<mapsto> \<lparr>raw_ptr = 0, root_node = nullptr\<rparr>) else (persistents w)(p \<mapsto> b))"
    using assign_move_ok [OF ok assms(4,5,3)] by blast
  then obtain w1 where "bp_Clear larger p w = Some w1" "bp_new_move larger p q w1 = Some w'"
    using assms(3) by (auto simp: assign_move_unfold)
  with w' Clear_count [OF _ assms(4), of larger w1] new_move_count [of larger p q w1 w'] show ?thesis by auto
qed

end
