(* ===== verification/Cppgc_CrossThread.thy ===== *)
theory Cppgc_CrossThread
  imports Cppgc_Persistent
begin

text \<open>
  Persistents that several threads share: \<open>cppgc/cross-thread-persistent.h\<close>. Every heap has a region for strong
  and one for weak persistents; which region an object belongs to is asked of the library
  (\<open>GetPersistentRegion\<close>). The header takes the lock of the regions around every change of a node and reads
  the pointer without it before; the operations are therefore composed of the parts between two acquisitions of
  the lock, and the parts are also the atomic steps of a transition system in which the collector clears
  persistents in between.
\<close>

section \<open>State\<close>

record ct_persistent = PersistentBase +
  ct_weak :: bool

record ct_world =
  cts :: "addr \<Rightarrow> ct_persistent option"
  ct_regions :: "nat \<Rightarrow> PersistentRegionBase"

record ct_lib =
  region_of :: "bool \<Rightarrow> u64 \<Rightarrow> nat"
  ct_alloc :: region_lib

definition ct_at :: "ct_world \<Rightarrow> addr \<Rightarrow> ct_persistent option" where
  "ct_at w a = (if a = nullptr then None else cts w a)"

definition ct_put :: "addr \<Rightarrow> ct_persistent \<Rightarrow> ct_world \<Rightarrow> ct_world" where
  "ct_put a b w = w\<lparr>cts := (cts w)(a \<mapsto> b)\<rparr>"

definition set_region :: "nat \<Rightarrow> PersistentRegionBase \<Rightarrow> ct_world \<Rightarrow> ct_world" where
  "set_region g r w = w\<lparr>ct_regions := (ct_regions w)(g := r)\<rparr>"

section \<open>\<open>CrossThreadPersistentBase\<close>\<close>

definition GetValueFromGC :: "ct_persistent \<Rightarrow> u64" where "GetValueFromGC b = raw_ptr b"
definition GetNodeFromGC :: "ct_persistent \<Rightarrow> addr" where "GetNodeFromGC b = root_node b"
definition GetNodeSafe :: "ct_persistent \<Rightarrow> addr" where "GetNodeSafe b = root_node b"
definition SetNodeSafe :: "addr \<Rightarrow> ct_persistent \<Rightarrow> ct_persistent" where "SetNodeSafe value b = b\<lparr>root_node := value\<rparr>"

definition ClearBaseFromGC :: "ct_persistent \<Rightarrow> ct_persistent" where
  "ClearBaseFromGC b = SetNodeSafe nullptr (b\<lparr>raw_ptr := 0\<rparr>)"

section \<open>The parts of the operations\<close>

definition ct_IsValid :: "bool \<Rightarrow> u64 \<Rightarrow> bool" where
  "ct_IsValid larger ptr \<longleftrightarrow> ptr \<noteq> 0 \<and> ptr \<noteq> kSentinelPointer larger"

text \<open>The address of the static member function, not null.\<close>

definition ct_TraceAsRoot :: addr where "ct_TraceAsRoot = 2"

text \<open>Under the lock: the object is replaced within its region, or the node is given back.\<close>

definition ct_detach ::
    "ct_lib \<Rightarrow> bool \<Rightarrow> addr \<Rightarrow> u64 \<Rightarrow> ct_world \<Rightarrow> (bool \<times> ct_world) option" where
  "ct_detach L larger this ptr w =
     do { b \<leftarrow> ct_at w this;
          let old_value = raw_ptr b;
          if ct_IsValid larger old_value then
            (let g = region_of L (ct_weak b) old_value in
             if ct_IsValid larger ptr \<and> g = region_of L (ct_weak b) ptr
             then Some (True, ct_put this (b\<lparr>raw_ptr := ptr\<rparr>) w)
             else do { r \<leftarrow> FreeNode (root_node b) (ct_regions w g);
                       Some (False, ct_put this (b\<lparr>root_node := nullptr\<rparr>) (set_region g r w)) })
          else Some (False, w) }"

definition ct_SetValue :: "addr \<Rightarrow> u64 \<Rightarrow> ct_world \<Rightarrow> ct_world option" where
  "ct_SetValue this ptr w = do { b \<leftarrow> ct_at w this; Some (ct_put this (b\<lparr>raw_ptr := ptr\<rparr>) w) }"

text \<open>Under the lock: a node for the new object.\<close>

definition ct_attach :: "ct_lib \<Rightarrow> addr \<Rightarrow> u64 \<Rightarrow> ct_world \<Rightarrow> ct_world option" where
  "ct_attach L this ptr w =
     do { b \<leftarrow> ct_at w this;
          let g = region_of L (ct_weak b) ptr;
          (node, r) \<leftarrow> AllocateNode_cross (ct_alloc L) this ct_TraceAsRoot (ct_regions w g);
          Some (ct_put this (b\<lparr>root_node := node\<rparr>) (set_region g r w)) }"

definition ct_new_base :: "addr \<Rightarrow> bool \<Rightarrow> u64 \<Rightarrow> ct_world \<Rightarrow> ct_world" where
  "ct_new_base this weak raw w = ct_put this \<lparr>raw_ptr = raw, root_node = nullptr, ct_weak = weak\<rparr> w"

text \<open>Under the lock: the end of a move assignment.\<close>

definition ct_transfer :: "ct_lib \<Rightarrow> bool \<Rightarrow> addr \<Rightarrow> addr \<Rightarrow> ct_world \<Rightarrow> ct_world option" where
  "ct_transfer L larger this other w =
     do { that \<leftarrow> ct_at w other;
          b \<leftarrow> ct_at w this;
          let w1 = ct_put this (b\<lparr>raw_ptr := raw_ptr that, root_node := root_node that\<rparr>) w;
          if \<not> ct_IsValid larger (raw_ptr that) then Some w1
          else do { let g = region_of L (ct_weak b) (raw_ptr that);
                    r \<leftarrow> update_node (UpdateOwner this) (root_node that) (ct_regions w1 g);
                    Some (ct_put other (that\<lparr>raw_ptr := 0, root_node := nullptr\<rparr>) (set_region g r w1)) } }"

text \<open>Under the lock: the slow path of the destructor, which asks again.\<close>

definition ct_destroy_locked :: "ct_lib \<Rightarrow> bool \<Rightarrow> addr \<Rightarrow> ct_world \<Rightarrow> ct_world option" where
  "ct_destroy_locked L larger this w =
     do { b \<leftarrow> ct_at w this;
          let old_value = raw_ptr b;
          if ct_IsValid larger old_value then
            do { let g = region_of L (ct_weak b) old_value;
                 r \<leftarrow> FreeNode (root_node b) (ct_regions w g);
                 Some (ct_put this (b\<lparr>root_node := nullptr\<rparr>) (set_region g r w)) }
          else Some w }"

definition ct_gone :: "addr \<Rightarrow> ct_world \<Rightarrow> ct_world" where
  "ct_gone this w = w\<lparr>cts := (cts w)(this := None)\<rparr>"

section \<open>\<open>BasicCrossThreadPersistent\<close>\<close>

definition ct_AssignSafe :: "ct_lib \<Rightarrow> bool \<Rightarrow> addr \<Rightarrow> u64 \<Rightarrow> ct_world \<Rightarrow> ct_world option" where
  "ct_AssignSafe L larger this ptr w =
     do { (done, w1) \<leftarrow> ct_detach L larger this ptr w;
          if done then Some w1
          else do { w2 \<leftarrow> ct_SetValue this ptr w1;
                    if \<not> ct_IsValid larger ptr then Some w2 else ct_attach L this ptr w2 } }"

definition ct_AssignUnsafe :: "ct_lib \<Rightarrow> bool \<Rightarrow> addr \<Rightarrow> u64 \<Rightarrow> ct_world \<Rightarrow> ct_world option" where
  "ct_AssignUnsafe L larger this ptr w =
     do { b \<leftarrow> ct_at w this;
          (done, w1) \<leftarrow> (if ct_IsValid larger (raw_ptr b) then ct_detach L larger this ptr w else Some (False, w));
          if done then Some w1
          else do { w2 \<leftarrow> ct_SetValue this ptr w1;
                    if \<not> ct_IsValid larger ptr then Some w2 else ct_attach L this ptr w2 } }"

definition ct_destructor :: "ct_lib \<Rightarrow> bool \<Rightarrow> addr \<Rightarrow> ct_world \<Rightarrow> ct_world option" where
  "ct_destructor L larger this w =
     do { b \<leftarrow> ct_at w this;
          w1 \<leftarrow> (if GetNodeSafe b \<noteq> nullptr then ct_destroy_locked L larger this w else Some w);
          Some (ct_gone this w1) }"

definition ct_new_default :: "addr \<Rightarrow> bool \<Rightarrow> ct_world \<Rightarrow> ct_world option" where
  "ct_new_default this weak w = Some (ct_new_base this weak 0 w)"

definition ct_new_null :: "addr \<Rightarrow> bool \<Rightarrow> ct_world \<Rightarrow> ct_world option" where
  "ct_new_null this weak w = Some (ct_new_base this weak 0 w)"

definition ct_new_sentinel :: "bool \<Rightarrow> addr \<Rightarrow> bool \<Rightarrow> ct_world \<Rightarrow> ct_world option" where
  "ct_new_sentinel larger this weak w = Some (ct_new_base this weak (kSentinelPointer larger) w)"

definition ct_new_raw :: "ct_lib \<Rightarrow> bool \<Rightarrow> addr \<Rightarrow> bool \<Rightarrow> u64 \<Rightarrow> ct_world \<Rightarrow> ct_world option" where
  "ct_new_raw L larger this weak raw w =
     (let w1 = ct_new_base this weak raw w in
      if \<not> ct_IsValid larger raw then Some w1 else ct_attach L this raw w1)"

definition ct_new_unsafe :: "ct_lib \<Rightarrow> bool \<Rightarrow> addr \<Rightarrow> bool \<Rightarrow> u64 \<Rightarrow> ct_world \<Rightarrow> ct_world option" where
  "ct_new_unsafe L larger this weak raw w =
     (let w1 = ct_new_base this weak raw w in
      if \<not> ct_IsValid larger raw then Some w1 else ct_attach L this raw w1)"

definition ct_new_reference :: "ct_lib \<Rightarrow> bool \<Rightarrow> addr \<Rightarrow> bool \<Rightarrow> u64 \<Rightarrow> ct_world \<Rightarrow> ct_world option" where
  "ct_new_reference L larger this weak raw w = ct_new_raw L larger this weak raw w"

text \<open>The argument is what \<open>member.Get()\<close> returns.\<close>

definition ct_new_member :: "ct_lib \<Rightarrow> bool \<Rightarrow> addr \<Rightarrow> bool \<Rightarrow> u64 \<Rightarrow> ct_world \<Rightarrow> ct_world option" where
  "ct_new_member L larger this weak member w = ct_new_raw L larger this weak member w"

definition ct_Get :: "ct_persistent \<Rightarrow> u64" where "ct_Get b = raw_ptr b"

definition ct_assign_copy :: "ct_lib \<Rightarrow> bool \<Rightarrow> addr \<Rightarrow> addr \<Rightarrow> ct_world \<Rightarrow> ct_world option" where
  "ct_assign_copy L larger this other w = do { that \<leftarrow> ct_at w other; ct_AssignSafe L larger this (ct_Get that) w }"

text \<open>From a persistent of another pointee type or policy; \<open>adjust\<close> is the conversion of the pointer.\<close>

definition ct_assign_copy_base ::
    "ct_lib \<Rightarrow> bool \<Rightarrow> (u64 \<Rightarrow> u64) \<Rightarrow> addr \<Rightarrow> addr \<Rightarrow> ct_world \<Rightarrow> ct_world option" where
  "ct_assign_copy_base L larger adjust this other w =
     do { that \<leftarrow> ct_at w other; ct_AssignSafe L larger this (adjust (ct_Get that)) w }"

definition ct_new_copy :: "ct_lib \<Rightarrow> bool \<Rightarrow> addr \<Rightarrow> bool \<Rightarrow> addr \<Rightarrow> ct_world \<Rightarrow> ct_world option" where
  "ct_new_copy L larger this weak other w =
     do { w1 \<leftarrow> ct_new_default this weak w; ct_assign_copy L larger this other w1 }"

definition ct_new_copy_base ::
    "ct_lib \<Rightarrow> bool \<Rightarrow> (u64 \<Rightarrow> u64) \<Rightarrow> addr \<Rightarrow> bool \<Rightarrow> addr \<Rightarrow> ct_world \<Rightarrow> ct_world option" where
  "ct_new_copy_base L larger adjust this weak other w =
     do { w1 \<leftarrow> ct_new_default this weak w; ct_assign_copy_base L larger adjust this other w1 }"

definition ct_Clear :: "ct_lib \<Rightarrow> bool \<Rightarrow> addr \<Rightarrow> ct_world \<Rightarrow> ct_world option" where
  "ct_Clear L larger this w = ct_AssignSafe L larger this 0 w"

definition ct_assign_move :: "ct_lib \<Rightarrow> bool \<Rightarrow> addr \<Rightarrow> addr \<Rightarrow> ct_world \<Rightarrow> ct_world option" where
  "ct_assign_move L larger this other w =
     (if this = other then Some w
      else do { w1 \<leftarrow> ct_Clear L larger this w; ct_transfer L larger this other w1 })"

definition ct_new_move :: "ct_lib \<Rightarrow> bool \<Rightarrow> addr \<Rightarrow> bool \<Rightarrow> addr \<Rightarrow> ct_world \<Rightarrow> ct_world option" where
  "ct_new_move L larger this weak other w =
     do { w1 \<leftarrow> ct_new_default this weak w; ct_assign_move L larger this other w1 }"

definition ct_assign_raw :: "ct_lib \<Rightarrow> bool \<Rightarrow> addr \<Rightarrow> u64 \<Rightarrow> ct_world \<Rightarrow> ct_world option" where
  "ct_assign_raw L larger this other w = ct_AssignUnsafe L larger this other w"

definition ct_assign_member :: "ct_lib \<Rightarrow> bool \<Rightarrow> addr \<Rightarrow> u64 \<Rightarrow> ct_world \<Rightarrow> ct_world option" where
  "ct_assign_member L larger this member w = ct_assign_raw L larger this member w"

definition ct_assign_null :: "ct_lib \<Rightarrow> bool \<Rightarrow> addr \<Rightarrow> ct_world \<Rightarrow> ct_world option" where
  "ct_assign_null L larger this w = ct_Clear L larger this w"

definition ct_assign_sentinel :: "ct_lib \<Rightarrow> bool \<Rightarrow> addr \<Rightarrow> ct_world \<Rightarrow> ct_world option" where
  "ct_assign_sentinel L larger this w = ct_AssignSafe L larger this (kSentinelPointer larger) w"

definition ct_Release :: "ct_lib \<Rightarrow> bool \<Rightarrow> addr \<Rightarrow> ct_world \<Rightarrow> (u64 \<times> ct_world) option" where
  "ct_Release L larger this w =
     do { b \<leftarrow> ct_at w this; let result = ct_Get b; w1 \<leftarrow> ct_Clear L larger this w; Some (result, w1) }"

definition ct_bool :: "ct_persistent \<Rightarrow> bool" where "ct_bool b \<longleftrightarrow> ct_Get b \<noteq> 0"
definition ct_pointer :: "ct_persistent \<Rightarrow> u64" where "ct_pointer b = ct_Get b"
definition ct_arrow :: "ct_persistent \<Rightarrow> u64" where "ct_arrow b = ct_Get b"

text \<open>The result is constructed at \<open>dest\<close>.\<close>

definition ct_To ::
    "ct_lib \<Rightarrow> bool \<Rightarrow> (u64 \<Rightarrow> u64) \<Rightarrow> addr \<Rightarrow> bool \<Rightarrow> addr \<Rightarrow> ct_world \<Rightarrow> ct_world option" where
  "ct_To L larger adjust dest weak this w =
     do { b \<leftarrow> ct_at w this; ct_new_unsafe L larger dest weak (adjust (ct_Get b)) w }"

definition ct_Lock :: "ct_lib \<Rightarrow> bool \<Rightarrow> addr \<Rightarrow> addr \<Rightarrow> ct_world \<Rightarrow> ct_world option" where
  "ct_Lock L larger dest this w =
     do { b \<leftarrow> ct_at w this; if ct_weak b then ct_new_copy_base L larger id dest False this w else None }"

definition ct_ClearFromGC :: "ct_lib \<Rightarrow> bool \<Rightarrow> addr \<Rightarrow> ct_world \<Rightarrow> ct_world option" where
  "ct_ClearFromGC L larger this w =
     do { b \<leftarrow> ct_at w this;
          if ct_IsValid larger (GetValueFromGC b) then
            do { let g = region_of L (ct_weak b) (GetValueFromGC b);
                 r \<leftarrow> FreeNode (GetNodeFromGC b) (ct_regions w g);
                 Some (ct_put this (ClearBaseFromGC b) (set_region g r w)) }
          else Some w }"

definition ct_GetFromGC :: "ct_persistent \<Rightarrow> u64" where "ct_GetFromGC b = GetValueFromGC b"

section \<open>Threads and the collector\<close>

text \<open>
  Where the operation on a persistent stands when its thread does not hold the lock. \<open>Assigning1\<close>: a valid value
  was read, the lock is wanted; \<open>Assigning2\<close>: the old node is gone, the value not yet set; \<open>Assigning3\<close>: the value
  is set, a node is wanted; \<open>Moving\<close>: the target is cleared, the lock is wanted, and the source is \<open>Lent\<close>.
\<close>

datatype ct_pc = Idle | Destroying | Assigning1 u64 | Assigning2 u64 | Assigning3 u64 | Moving addr | Lent addr

record ct_state =
  ct_w :: ct_world
  ct_pcs :: "addr \<Rightarrow> ct_pc"

definition next_pc :: "addr \<Rightarrow> ct_pc \<Rightarrow> ct_world \<Rightarrow> ct_state \<Rightarrow> ct_state" where
  "next_pc p c w s = s\<lparr>ct_w := w, ct_pcs := (ct_pcs s)(p := c)\<rparr>"

text \<open>The next step of a pending operation.\<close>

definition ct_resume :: "ct_lib \<Rightarrow> bool \<Rightarrow> addr \<Rightarrow> ct_state \<Rightarrow> ct_state option" where
  "ct_resume L larger p s =
     (case ct_pcs s p of
        Idle \<Rightarrow> None
      | Destroying \<Rightarrow> do { w \<leftarrow> ct_destroy_locked L larger p (ct_w s); Some (next_pc p Idle (ct_gone p w) s) }
      | Assigning1 ptr \<Rightarrow>
          do { (done, w) \<leftarrow> ct_detach L larger p ptr (ct_w s); Some (next_pc p (if done then Idle else Assigning2 ptr) w s) }
      | Assigning2 ptr \<Rightarrow>
          do { w \<leftarrow> ct_SetValue p ptr (ct_w s);
               Some (next_pc p (if ct_IsValid larger ptr then Assigning3 ptr else Idle) w s) }
      | Assigning3 ptr \<Rightarrow> do { w \<leftarrow> ct_attach L p ptr (ct_w s); Some (next_pc p Idle w s) }
      | Moving q \<Rightarrow> do { w \<leftarrow> ct_transfer L larger p q (ct_w s); Some (next_pc q Idle w (next_pc p Idle w s)) }
      | Lent q \<Rightarrow> None)"

text \<open>
  The steps of the threads and of the collector. An operation whose nodes change under one acquisition of the
  lock is one step. The collector clears a persistent that it finds through a used node.
\<close>

inductive ct_step :: "ct_lib \<Rightarrow> bool \<Rightarrow> ct_state \<Rightarrow> ct_state \<Rightarrow> bool" for L larger where
  resume: "ct_resume L larger p s = Some s' \<Longrightarrow> ct_step L larger s s'"
| construct: "p \<noteq> nullptr \<Longrightarrow> cts (ct_w s) p = None \<Longrightarrow> ct_pcs s p = Idle \<Longrightarrow>
    ct_step L larger s
      (next_pc p (if ct_IsValid larger raw then Assigning3 raw else Idle) (ct_new_base p weak raw (ct_w s)) s)"
| destroy_fast: "ct_at (ct_w s) p = Some b \<Longrightarrow> ct_pcs s p = Idle \<Longrightarrow> GetNodeSafe b = nullptr \<Longrightarrow>
    ct_step L larger s (next_pc p Idle (ct_gone p (ct_w s)) s)"
| destroy_slow: "ct_at (ct_w s) p = Some b \<Longrightarrow> ct_pcs s p = Idle \<Longrightarrow> GetNodeSafe b \<noteq> nullptr \<Longrightarrow>
    ct_step L larger s (next_pc p Destroying (ct_w s) s)"
| assign_raw: "ct_at (ct_w s) p = Some b \<Longrightarrow> ct_pcs s p = Idle \<Longrightarrow>
    ct_step L larger s
      (next_pc p (if ct_IsValid larger (raw_ptr b) then Assigning1 ptr else Assigning2 ptr) (ct_w s) s)"
| assign_safe: "ct_at (ct_w s) p = Some b \<Longrightarrow> ct_pcs s p = Idle \<Longrightarrow> ct_AssignSafe L larger p ptr (ct_w s) = Some w \<Longrightarrow>
    ct_step L larger s (next_pc p Idle w s)"
| move: "ct_at (ct_w s) p = Some b \<Longrightarrow> ct_at (ct_w s) q = Some c \<Longrightarrow> p \<noteq> q \<Longrightarrow> ct_weak b = ct_weak c \<Longrightarrow>
    ct_pcs s p = Idle \<Longrightarrow> ct_pcs s q = Idle \<Longrightarrow> ct_Clear L larger p (ct_w s) = Some w \<Longrightarrow>
    ct_step L larger s (next_pc q (Lent p) w (next_pc p (Moving q) w s))"
| collect: "used_nodes (ct_regions (ct_w s) g) a = Some (p, t) \<Longrightarrow> ct_ClearFromGC L larger p (ct_w s) = Some w \<Longrightarrow>
    ct_step L larger s (s\<lparr>ct_w := w\<rparr>)"

section \<open>The invariant\<close>

definition used_in :: "ct_world \<Rightarrow> nat \<Rightarrow> addr \<Rightarrow> (addr \<times> addr) option" where
  "used_in w g = used_nodes (ct_regions w g)"

abbreviation ct_group :: "ct_lib \<Rightarrow> ct_persistent \<Rightarrow> nat" where
  "ct_group L b \<equiv> region_of L (ct_weak b) (raw_ptr b)"

text \<open>A node belongs to the persistent whose object is in its region, and to no other.\<close>

definition ct_linked ::
    "ct_lib \<Rightarrow> bool \<Rightarrow> (addr \<Rightarrow> ct_persistent option) \<Rightarrow> (nat \<Rightarrow> addr \<Rightarrow> (addr \<times> addr) option) \<Rightarrow> bool" where
  "ct_linked L larger P U \<longleftrightarrow>
     P nullptr = None \<and>
     (\<forall>p b. P p = Some b \<longrightarrow> root_node b \<noteq> nullptr \<longrightarrow>
        ct_IsValid larger (raw_ptr b) \<and> U (ct_group L b) (root_node b) = Some (p, ct_TraceAsRoot)) \<and>
     (\<forall>g a p t. U g a = Some (p, t) \<longrightarrow>
        a \<noteq> nullptr \<and> (\<exists>b. P p = Some b \<and> root_node b = a \<and> ct_group L b = g))"

definition ct_world_ok :: "ct_lib \<Rightarrow> bool \<Rightarrow> ct_world \<Rightarrow> bool" where
  "ct_world_ok L larger w \<longleftrightarrow> (\<forall>g. region_ok (ct_regions w g)) \<and> ct_linked L larger (cts w) (used_in w)"

text \<open>A persistent at rest has a node exactly when it has an object.\<close>

definition settled :: "bool \<Rightarrow> ct_persistent \<Rightarrow> bool" where
  "settled larger b \<longleftrightarrow> (ct_IsValid larger (raw_ptr b) \<longleftrightarrow> root_node b \<noteq> nullptr)"

definition pc_ok :: "bool \<Rightarrow> (addr \<Rightarrow> ct_persistent option) \<Rightarrow> (addr \<Rightarrow> ct_pc) \<Rightarrow> addr \<Rightarrow> bool" where
  "pc_ok larger P pcs p \<longleftrightarrow>
     (case pcs p of
        Idle \<Rightarrow> \<forall>b. P p = Some b \<longrightarrow> settled larger b
      | Destroying \<Rightarrow> \<exists>b. P p = Some b \<and> settled larger b
      | Assigning1 ptr \<Rightarrow> \<exists>b. P p = Some b \<and> settled larger b
      | Assigning2 ptr \<Rightarrow> \<exists>b. P p = Some b \<and> root_node b = nullptr
      | Assigning3 ptr \<Rightarrow> \<exists>b. P p = Some b \<and> root_node b = nullptr \<and> raw_ptr b = ptr \<and> ct_IsValid larger ptr
      | Moving q \<Rightarrow> pcs q = Lent p \<and>
          (\<exists>b c. P p = Some b \<and> P q = Some c \<and> root_node b = nullptr \<and> raw_ptr b = 0 \<and> ct_weak b = ct_weak c)
      | Lent q \<Rightarrow> pcs q = Moving p \<and> (\<exists>b. P p = Some b \<and> settled larger b))"

definition ct_ok :: "ct_lib \<Rightarrow> bool \<Rightarrow> ct_state \<Rightarrow> bool" where
  "ct_ok L larger s \<longleftrightarrow> ct_world_ok L larger (ct_w s) \<and> (\<forall>p. pc_ok larger (cts (ct_w s)) (ct_pcs s) p)"

text \<open>The contract of the library's refill, and that it does not run out of memory.\<close>

definition ct_refill_ok :: "ct_lib \<Rightarrow> bool" where
  "ct_refill_ok L \<longleftrightarrow> refill_ok (ct_alloc L) \<and>
     (\<forall>p t r. region_ok r \<longrightarrow> (\<exists>a r'. RefillFreeListAndAllocateNode (ct_alloc L) p t r = Some (a, r')))"

lemma ct_at_ok: "ct_world_ok L larger w \<Longrightarrow> ct_at w p = cts w p"
  by (auto simp: ct_at_def ct_world_ok_def ct_linked_def)

lemma ct_nonnull: "ct_world_ok L larger w \<Longrightarrow> cts w p = Some b \<Longrightarrow> p \<noteq> nullptr"
  by (cases "p = nullptr") (simp_all add: ct_world_ok_def ct_linked_def)

lemma AllocateNode_cross_ok:
  assumes L: "ct_refill_ok L" and ok: "region_ok r" and t: "t \<noteq> 0"
  shows "\<exists>a r'. AllocateNode_cross (ct_alloc L) p t r = Some (a, r') \<and>
    a \<noteq> nullptr \<and> region_ok r' \<and> used_nodes r a = None \<and> used_nodes r' = (used_nodes r)(a \<mapsto> (p, t))"
proof -
  obtain b r1 where b: "TryAllocateNodeFromFreeList p t r = Some (b, r1)" using pool.alloc_defined [OF ok] by blast
  show ?thesis
  proof (cases "b = nullptr")
    case True
    obtain a r' where a: "RefillFreeListAndAllocateNode (ct_alloc L) p t r = Some (a, r')"
      using L ok unfolding ct_refill_ok_def by blast
    moreover have "AllocateNode_cross (ct_alloc L) p t r = Some (a, r')"
      using a b True pool.alloc_fail [of p t r r1] by (simp add: AllocateNode_cross_def)
    moreover have "refill_ok (ct_alloc L)" using L by (simp add: ct_refill_ok_def)
    ultimately show ?thesis using ok t unfolding refill_ok_def by blast
  next
    case False
    with b have "AllocateNode_cross (ct_alloc L) p t r = Some (b, r1)" by (simp add: AllocateNode_cross_def)
    with pool.alloc_ok [OF ok t b False] False show ?thesis by blast
  qed
qed

lemma ct_linkedD:
  assumes "ct_linked L larger P U"
  shows "P p = Some b \<Longrightarrow> root_node b \<noteq> nullptr \<Longrightarrow> U (ct_group L b) (root_node b) = Some (p, ct_TraceAsRoot)"
    "P p = Some b \<Longrightarrow> root_node b \<noteq> nullptr \<Longrightarrow> ct_IsValid larger (raw_ptr b)"
    "U g a = Some (p, t) \<Longrightarrow> a \<noteq> nullptr \<and> (\<exists>b. P p = Some b \<and> root_node b = a \<and> ct_group L b = g)"
    "P nullptr = None"
  using assms unfolding ct_linked_def by blast+

lemma ct_linkedI:
  assumes "P nullptr = None"
    "\<And>p b. P p = Some b \<Longrightarrow> root_node b \<noteq> nullptr \<Longrightarrow>
       ct_IsValid larger (raw_ptr b) \<and> U (ct_group L b) (root_node b) = Some (p, ct_TraceAsRoot)"
    "\<And>g a p t. U g a = Some (p, t) \<Longrightarrow> a \<noteq> nullptr \<and> (\<exists>b. P p = Some b \<and> root_node b = a \<and> ct_group L b = g)"
  shows "ct_linked L larger P U"
  using assms unfolding ct_linked_def by blast

text \<open>The ways an operation changes the links.\<close>

lemma ct_link_drop:
  assumes l: "ct_linked L larger P U" and b: "P p = Some b" "root_node b \<noteq> nullptr" and b': "root_node b' = nullptr"
  shows "ct_linked L larger (P(p \<mapsto> b')) (U(ct_group L b := (U (ct_group L b))(root_node b := None)))"
proof (rule ct_linkedI)
  note D = ct_linkedD [OF l]
  show "(P(p \<mapsto> b')) nullptr = None" using D(4) b(1) by (cases "p = nullptr") simp_all
  show "ct_IsValid larger (raw_ptr c) \<and>
      (U(ct_group L b := (U (ct_group L b))(root_node b := None))) (ct_group L c) (root_node c) = Some (q, ct_TraceAsRoot)"
    if "(P(p \<mapsto> b')) q = Some c" "root_node c \<noteq> nullptr" for q c
    using that D(1) [OF b] D(1,2) [of q c] b' by (auto split: if_splits)
  show "a \<noteq> nullptr \<and> (\<exists>c. (P(p \<mapsto> b')) q = Some c \<and> root_node c = a \<and> ct_group L c = g)"
    if "(U(ct_group L b := (U (ct_group L b))(root_node b := None))) g a = Some (q, t)" for g a q t
    using that D(3) [of g a q t] b(1) by (cases "q = p") (auto split: if_splits)
qed

lemma ct_link_same:
  assumes l: "ct_linked L larger P U" and p: "p \<noteq> nullptr" "\<And>b. P p = Some b \<Longrightarrow> root_node b = nullptr"
    and b': "root_node b' = nullptr"
  shows "ct_linked L larger (P(p \<mapsto> b')) U"
proof (rule ct_linkedI)
  note D = ct_linkedD [OF l]
  show "(P(p \<mapsto> b')) nullptr = None" using D(4) p(1) by simp
  show "ct_IsValid larger (raw_ptr c) \<and> U (ct_group L c) (root_node c) = Some (q, ct_TraceAsRoot)"
    if "(P(p \<mapsto> b')) q = Some c" "root_node c \<noteq> nullptr" for q c
    using that D(1,2) [of q c] b' by (auto split: if_splits)
  show "a \<noteq> nullptr \<and> (\<exists>c. (P(p \<mapsto> b')) q = Some c \<and> root_node c = a \<and> ct_group L c = g)"
    if "U g a = Some (q, t)" for g a q t
    using that D(3) [of g a q t] p(2) by (cases "q = p") auto
qed

lemma ct_link_gone:
  assumes l: "ct_linked L larger P U" and p: "\<And>b. P p = Some b \<Longrightarrow> root_node b = nullptr"
  shows "ct_linked L larger (P(p := None)) U"
proof (rule ct_linkedI)
  note D = ct_linkedD [OF l]
  show "(P(p := None)) nullptr = None" using D(4) by simp
  show "ct_IsValid larger (raw_ptr c) \<and> U (ct_group L c) (root_node c) = Some (q, ct_TraceAsRoot)"
    if "(P(p := None)) q = Some c" "root_node c \<noteq> nullptr" for q c
    using that D(1,2) [of q c] by (auto split: if_splits)
  show "a \<noteq> nullptr \<and> (\<exists>c. (P(p := None)) q = Some c \<and> root_node c = a \<and> ct_group L c = g)"
    if "U g a = Some (q, t)" for g a q t
    using that D(3) [of g a q t] p by (cases "q = p") auto
qed

lemma ct_link_retarget:
  assumes l: "ct_linked L larger P U" and b: "P p = Some b" "root_node b \<noteq> nullptr"
    and b': "root_node b' = root_node b" "ct_group L b' = ct_group L b" "ct_IsValid larger (raw_ptr b')"
  shows "ct_linked L larger (P(p \<mapsto> b')) U"
proof (rule ct_linkedI)
  note D = ct_linkedD [OF l]
  show "(P(p \<mapsto> b')) nullptr = None" using D(4) b(1) by (cases "p = nullptr") simp_all
  show "ct_IsValid larger (raw_ptr c) \<and> U (ct_group L c) (root_node c) = Some (q, ct_TraceAsRoot)"
    if "(P(p \<mapsto> b')) q = Some c" "root_node c \<noteq> nullptr" for q c
    using that D(1,2) [of q c] D(1) [OF b] b' by (auto split: if_splits)
  show "a \<noteq> nullptr \<and> (\<exists>c. (P(p \<mapsto> b')) q = Some c \<and> root_node c = a \<and> ct_group L c = g)"
    if "U g a = Some (q, t)" for g a q t
    using that D(3) [of g a q t] b b' by (cases "q = p") auto
qed

lemma ct_link_take:
  assumes l: "ct_linked L larger P U" and p: "p \<noteq> nullptr" "\<And>b. P p = Some b \<Longrightarrow> root_node b = nullptr"
    and b': "root_node b' \<noteq> nullptr" "U (ct_group L b') (root_node b') = None" "ct_IsValid larger (raw_ptr b')"
  shows "ct_linked L larger (P(p \<mapsto> b'))
           (U(ct_group L b' := (U (ct_group L b'))(root_node b' \<mapsto> (p, ct_TraceAsRoot))))"
proof (rule ct_linkedI)
  note D = ct_linkedD [OF l]
  show "(P(p \<mapsto> b')) nullptr = None" using D(4) p(1) by simp
  show "ct_IsValid larger (raw_ptr c) \<and>
      (U(ct_group L b' := (U (ct_group L b'))(root_node b' \<mapsto> (p, ct_TraceAsRoot)))) (ct_group L c) (root_node c) =
      Some (q, ct_TraceAsRoot)"
    if "(P(p \<mapsto> b')) q = Some c" "root_node c \<noteq> nullptr" for q c
    using that D(1,2) [of q c] b' by (auto split: if_splits)
  show "a \<noteq> nullptr \<and> (\<exists>c. (P(p \<mapsto> b')) q = Some c \<and> root_node c = a \<and> ct_group L c = g)"
    if "(U(ct_group L b' := (U (ct_group L b'))(root_node b' \<mapsto> (p, ct_TraceAsRoot)))) g a = Some (q, t)" for g a q t
    using that D(3) [of g a q t] p(2) b' by (cases "q = p") (auto split: if_splits)
qed

lemma ct_link_move:
  assumes l: "ct_linked L larger P U" and c: "P q = Some c" "root_node c \<noteq> nullptr"
    and p: "p \<noteq> nullptr" "p \<noteq> q" "\<And>b. P p = Some b \<Longrightarrow> root_node b = nullptr"
    and c': "root_node c' = nullptr" and b': "root_node b' = root_node c" "raw_ptr b' = raw_ptr c" "ct_weak b' = ct_weak c"
  shows "ct_linked L larger (P(p \<mapsto> b', q \<mapsto> c'))
           (U(ct_group L c := (U (ct_group L c))(root_node c \<mapsto> (p, ct_TraceAsRoot))))"
proof -
  have "ct_linked L larger (P(q \<mapsto> c')) (U(ct_group L c := (U (ct_group L c))(root_node c := None)))"
    by (rule ct_link_drop [OF l c c'])
  from ct_link_take [OF this, of p b'] p c b' ct_linkedD(2) [OF l c] show ?thesis
    by (simp add: fun_upd_twist)
qed

section \<open>What each part does\<close>

lemma used_in_set [simp]: "used_in (set_region g r w) = (used_in w)(g := used_nodes r)"
  by (auto simp: used_in_def set_region_def)

lemma used_in_put [simp]: "used_in (ct_put p b w) = used_in w" by (simp add: used_in_def ct_put_def fun_eq_iff)
lemma used_in_gone [simp]: "used_in (ct_gone p w) = used_in w" by (simp add: used_in_def ct_gone_def fun_eq_iff)
lemma cts_put [simp]: "cts (ct_put p b w) = (cts w)(p \<mapsto> b)" by (simp add: ct_put_def)
lemma cts_gone [simp]: "cts (ct_gone p w) = (cts w)(p := None)" by (simp add: ct_gone_def)
lemma cts_set [simp]: "cts (set_region g r w) = cts w" by (simp add: set_region_def)

lemma regions_sel [simp]: "ct_regions (ct_put p b w) = ct_regions w" "ct_regions (ct_gone p w) = ct_regions w"
  "ct_regions (set_region g r w) = (ct_regions w)(g := r)"
  by (simp_all add: ct_put_def ct_gone_def set_region_def)

lemma ct_okD:
  assumes "ct_world_ok L larger w"
  shows "region_ok (ct_regions w g)" "ct_linked L larger (cts w) (used_in w)"
  using assms by (simp_all add: ct_world_ok_def)

text \<open>A node that a persistent owns can be given back.\<close>

lemma ct_free:
  assumes ok: "ct_world_ok L larger w" and b: "cts w p = Some b" "root_node b \<noteq> nullptr"
  shows "\<exists>r. FreeNode (root_node b) (ct_regions w (ct_group L b)) = Some r \<and> region_ok r \<and>
    used_nodes r = (used_in w (ct_group L b))(root_node b := None)"
  using pool.free_ok [OF ct_okD(1) [OF ok]] ct_linkedD(1) [OF ct_okD(2) [OF ok] b] by (simp add: used_in_def)

lemma ct_world_ok_drop:
  assumes ok: "ct_world_ok L larger w" and b: "cts w p = Some b" "root_node b \<noteq> nullptr" and b': "root_node b' = nullptr"
    and r: "region_ok r" "used_nodes r = (used_in w (ct_group L b))(root_node b := None)"
  shows "ct_world_ok L larger (ct_put p b' (set_region (ct_group L b) r w))"
  using ct_link_drop [OF ct_okD(2) [OF ok] b b'] r ct_okD(1) [OF ok] by (simp add: ct_world_ok_def)

lemma ct_world_ok_same:
  assumes ok: "ct_world_ok L larger w" and p: "p \<noteq> nullptr" "\<And>b. cts w p = Some b \<Longrightarrow> root_node b = nullptr"
    and b': "root_node b' = nullptr"
  shows "ct_world_ok L larger (ct_put p b' w)"
  using ct_link_same [OF ct_okD(2) [OF ok] p b'] ct_okD(1) [OF ok] by (simp add: ct_world_ok_def)

lemma ct_world_ok_gone:
  assumes ok: "ct_world_ok L larger w" and p: "\<And>b. cts w p = Some b \<Longrightarrow> root_node b = nullptr"
  shows "ct_world_ok L larger (ct_gone p w)"
  using ct_link_gone [OF ct_okD(2) [OF ok] p] ct_okD(1) [OF ok] by (simp add: ct_world_ok_def)

lemma detach_ok:
  assumes ok: "ct_world_ok L larger w" and b: "cts w p = Some b" "settled larger b"
  shows "\<exists>done w' b'. ct_detach L larger p ptr w = Some (done, w') \<and> ct_world_ok L larger w' \<and>
    cts w' = (cts w)(p \<mapsto> b') \<and> ct_weak b' = ct_weak b \<and>
    (if done then settled larger b' \<and> raw_ptr b' = ptr else root_node b' = nullptr)"
proof (cases "ct_IsValid larger (raw_ptr b)")
  case v: True
  then have n: "root_node b \<noteq> nullptr" using b(2) by (simp add: settled_def)
  show ?thesis
  proof (cases "ct_IsValid larger ptr \<and> ct_group L b = region_of L (ct_weak b) ptr")
    case True
    then have "ct_world_ok L larger (ct_put p (b\<lparr>raw_ptr := ptr\<rparr>) w)"
      using ct_link_retarget [OF ct_okD(2) [OF ok] b(1) n, of "b\<lparr>raw_ptr := ptr\<rparr>"] ct_okD(1) [OF ok]
      by (simp add: ct_world_ok_def)
    with True v n b show ?thesis
      by (intro exI [of _ True] exI [of _ "ct_put p (b\<lparr>raw_ptr := ptr\<rparr>) w"] exI [of _ "b\<lparr>raw_ptr := ptr\<rparr>"])
         (simp add: ct_detach_def ct_at_ok [OF ok] settled_def)
  next
    case False
    obtain r where r: "FreeNode (root_node b) (ct_regions w (ct_group L b)) = Some r" "region_ok r"
      "used_nodes r = (used_in w (ct_group L b))(root_node b := None)"
      using ct_free [OF ok b(1) n] by blast
    have "ct_world_ok L larger (ct_put p (b\<lparr>root_node := nullptr\<rparr>) (set_region (ct_group L b) r w))"
      by (rule ct_world_ok_drop [OF ok b(1) n _ r(2,3)]) simp
    moreover have "ct_detach L larger p ptr w =
        Some (False, ct_put p (b\<lparr>root_node := nullptr\<rparr>) (set_region (ct_group L b) r w))"
      using False v b r(1) by (simp only: ct_detach_def ct_at_ok [OF ok] Let_def) simp
    ultimately show ?thesis
      by (intro exI [of _ False] exI [of _ "b\<lparr>root_node := nullptr\<rparr>"] exI [of _ "ct_put p (b\<lparr>root_node := nullptr\<rparr>) (set_region (ct_group L b) r w)"])
         simp
  qed
next
  case False
  then have "ct_detach L larger p ptr w = Some (False, w)" "root_node b = nullptr" "cts w = (cts w)(p \<mapsto> b)"
    using b by (simp_all add: ct_detach_def ct_at_ok [OF ok] settled_def fun_upd_idem)
  with ok show ?thesis by (intro exI [of _ False] exI [of _ w] exI [of _ b]) simp
qed

lemma SetValue_ok:
  assumes ok: "ct_world_ok L larger w" and b: "cts w p = Some b" "root_node b = nullptr"
  shows "\<exists>w'. ct_SetValue p ptr w = Some w' \<and> ct_world_ok L larger w' \<and> cts w' = (cts w)(p \<mapsto> b\<lparr>raw_ptr := ptr\<rparr>)"
  using ct_world_ok_same [OF ok ct_nonnull [OF ok b(1)], of "b\<lparr>raw_ptr := ptr\<rparr>"] b
  by (simp add: ct_SetValue_def ct_at_ok [OF ok])

lemma attach_ok:
  assumes L: "ct_refill_ok L" and ok: "ct_world_ok L larger w"
    and b: "cts w p = Some b" "root_node b = nullptr" "raw_ptr b = ptr" "ct_IsValid larger ptr"
  shows "\<exists>w' b'. ct_attach L p ptr w = Some w' \<and> ct_world_ok L larger w' \<and>
    cts w' = (cts w)(p \<mapsto> b') \<and> settled larger b' \<and> raw_ptr b' = ptr \<and> ct_weak b' = ct_weak b"
proof -
  obtain a r where a: "AllocateNode_cross (ct_alloc L) p ct_TraceAsRoot (ct_regions w (ct_group L b)) = Some (a, r)"
    "a \<noteq> nullptr" "region_ok r" "used_in w (ct_group L b) a = None"
    "used_nodes r = (used_in w (ct_group L b))(a \<mapsto> (p, ct_TraceAsRoot))"
    using AllocateNode_cross_ok [OF L ct_okD(1) [OF ok], of ct_TraceAsRoot p "ct_group L b"]
    by (auto simp: ct_TraceAsRoot_def used_in_def)
  have "ct_linked L larger ((cts w)(p \<mapsto> b\<lparr>root_node := a\<rparr>)) ((used_in w)(ct_group L b := used_nodes r))"
    using ct_link_take [OF ct_okD(2) [OF ok] ct_nonnull [OF ok b(1)], of "b\<lparr>root_node := a\<rparr>"] b a by simp
  then have "ct_world_ok L larger (ct_put p (b\<lparr>root_node := a\<rparr>) (set_region (ct_group L b) r w))"
    using a(3) ct_okD(1) [OF ok] by (simp add: ct_world_ok_def)
  with a b show ?thesis by (auto simp: ct_attach_def ct_at_ok [OF ok] Let_def settled_def)
qed

lemma transfer_ok:
  assumes ok: "ct_world_ok L larger w" and pq: "p \<noteq> q"
    and b: "cts w p = Some b" "root_node b = nullptr" and c: "cts w q = Some c" "settled larger c" "ct_weak b = ct_weak c"
  shows "\<exists>w' b' c'. ct_transfer L larger p q w = Some w' \<and> ct_world_ok L larger w' \<and>
    cts w' = (cts w)(p \<mapsto> b', q \<mapsto> c') \<and> settled larger b' \<and> settled larger c' \<and> raw_ptr b' = raw_ptr c \<and>
    ct_weak b' = ct_weak b \<and> ct_weak c' = ct_weak c \<and>
    raw_ptr c' = (if ct_IsValid larger (raw_ptr c) then 0 else raw_ptr c)"
proof (cases "ct_IsValid larger (raw_ptr c)")
  case True
  then have n: "root_node c \<noteq> nullptr" using c(2) by (simp add: settled_def)
  let ?b = "b\<lparr>raw_ptr := raw_ptr c, root_node := root_node c\<rparr>" and ?c = "c\<lparr>raw_ptr := 0, root_node := nullptr\<rparr>"
  obtain r where r: "update_node (UpdateOwner p) (root_node c) (ct_regions w (ct_group L c)) = Some r" "region_ok r"
    "used_nodes r = (used_in w (ct_group L c))(root_node c \<mapsto> (p, ct_TraceAsRoot))"
    using UpdateOwner_ok [OF ct_okD(1) [OF ok], of "ct_group L c" "root_node c" q ct_TraceAsRoot p]
      ct_linkedD(1) [OF ct_okD(2) [OF ok] c(1) n] by (auto simp: used_in_def)
  have "ct_linked L larger ((cts w)(p \<mapsto> ?b, q \<mapsto> ?c)) ((used_in w)(ct_group L c := used_nodes r))"
    unfolding r(3)
    by (rule ct_link_move [OF ct_okD(2) [OF ok] c(1) n ct_nonnull [OF ok b(1)] pq]) (use b c in auto)
  then have "ct_world_ok L larger (ct_put q ?c (set_region (ct_group L c) r (ct_put p ?b w)))"
    using r(2) ct_okD(1) [OF ok] by (simp add: ct_world_ok_def)
  with True b c r(1) n show ?thesis
    by (intro exI [of _ "ct_put q ?c (set_region (ct_group L c) r (ct_put p ?b w))"] exI [of _ ?b] exI [of _ ?c])
       (auto simp: ct_transfer_def ct_at_ok [OF ok] Let_def settled_def ct_IsValid_def)
next
  case False
  then have n: "root_node c = nullptr" using c(2) by (simp add: settled_def)
  let ?b = "b\<lparr>raw_ptr := raw_ptr c, root_node := root_node c\<rparr>"
  have "ct_world_ok L larger (ct_put p ?b w)"
    by (rule ct_world_ok_same [OF ok ct_nonnull [OF ok b(1)]]) (use b n in auto)
  moreover have "(cts w)(p \<mapsto> ?b) = (cts w)(p \<mapsto> ?b, q \<mapsto> c)" using c(1) pq by auto
  ultimately show ?thesis using False b c n
    by (auto simp: ct_transfer_def ct_at_ok [OF ok] settled_def intro!: exI [of _ c])
qed

lemma destroy_locked_ok:
  assumes ok: "ct_world_ok L larger w" and b: "cts w p = Some b" "settled larger b"
  shows "\<exists>w' b'. ct_destroy_locked L larger p w = Some w' \<and> ct_world_ok L larger w' \<and>
    cts w' = (cts w)(p \<mapsto> b') \<and> root_node b' = nullptr"
proof (cases "ct_IsValid larger (raw_ptr b)")
  case True
  then have n: "root_node b \<noteq> nullptr" using b(2) by (simp add: settled_def)
  obtain r where r: "FreeNode (root_node b) (ct_regions w (ct_group L b)) = Some r" "region_ok r"
    "used_nodes r = (used_in w (ct_group L b))(root_node b := None)"
    using ct_free [OF ok b(1) n] by blast
  have "ct_world_ok L larger (ct_put p (b\<lparr>root_node := nullptr\<rparr>) (set_region (ct_group L b) r w))"
    by (rule ct_world_ok_drop [OF ok b(1) n _ r(2,3)]) simp
  with True b(1) r(1) show ?thesis by (auto simp: ct_destroy_locked_def ct_at_ok [OF ok] Let_def)
next
  case False
  then have "ct_destroy_locked L larger p w = Some w" "root_node b = nullptr" "cts w = (cts w)(p \<mapsto> b)"
    using b by (simp_all add: ct_destroy_locked_def ct_at_ok [OF ok] settled_def fun_upd_idem)
  with ok show ?thesis by metis
qed

lemma collect_ok:
  assumes ok: "ct_world_ok L larger w" and u: "used_in w g a = Some (p, t)"
  shows "\<exists>w' b. ct_ClearFromGC L larger p w = Some w' \<and> ct_world_ok L larger w' \<and> cts w p = Some b \<and>
    root_node b \<noteq> nullptr \<and> cts w' = (cts w)(p \<mapsto> b\<lparr>raw_ptr := 0, root_node := nullptr\<rparr>)"
proof -
  obtain b where b: "cts w p = Some b" "root_node b \<noteq> nullptr"
    using ct_linkedD(3) [OF ct_okD(2) [OF ok] u] by blast
  obtain r where r: "FreeNode (root_node b) (ct_regions w (ct_group L b)) = Some r" "region_ok r"
    "used_nodes r = (used_in w (ct_group L b))(root_node b := None)"
    using ct_free [OF ok b] by blast
  have "ct_world_ok L larger (ct_put p (b\<lparr>raw_ptr := 0, root_node := nullptr\<rparr>) (set_region (ct_group L b) r w))"
    by (rule ct_world_ok_drop [OF ok b _ r(2,3)]) simp
  with b r(1) ct_linkedD(2) [OF ct_okD(2) [OF ok] b] show ?thesis
    by (auto simp: ct_ClearFromGC_def ct_at_ok [OF ok] Let_def GetValueFromGC_def GetNodeFromGC_def ClearBaseFromGC_def
        SetNodeSafe_def)
qed

lemma AssignSafe_ok:
  assumes L: "ct_refill_ok L" and ok: "ct_world_ok L larger w" and b: "cts w p = Some b" "settled larger b"
  shows "\<exists>w' b'. ct_AssignSafe L larger p ptr w = Some w' \<and> ct_world_ok L larger w' \<and>
    cts w' = (cts w)(p \<mapsto> b') \<and> settled larger b' \<and> raw_ptr b' = ptr \<and> ct_weak b' = ct_weak b"
proof -
  obtain d w1 b1 where 1: "ct_detach L larger p ptr w = Some (d, w1)" "ct_world_ok L larger w1"
    "cts w1 = (cts w)(p \<mapsto> b1)" "ct_weak b1 = ct_weak b"
    "if d then settled larger b1 \<and> raw_ptr b1 = ptr else root_node b1 = nullptr"
    using detach_ok [OF ok b] by blast
  show ?thesis
  proof (cases d)
    case True
    with 1 show ?thesis by (auto simp: ct_AssignSafe_def)
  next
    case False
    then obtain w2 where 2: "ct_SetValue p ptr w1 = Some w2" "ct_world_ok L larger w2"
      "cts w2 = (cts w1)(p \<mapsto> b1\<lparr>raw_ptr := ptr\<rparr>)"
      using SetValue_ok [OF 1(2), of p b1] 1 by auto
    show ?thesis
    proof (cases "ct_IsValid larger ptr")
      case v: True
      obtain w3 b3 where "ct_attach L p ptr w2 = Some w3" "ct_world_ok L larger w3"
        "cts w3 = (cts w2)(p \<mapsto> b3)" "settled larger b3" "raw_ptr b3 = ptr" "ct_weak b3 = ct_weak b"
        using attach_ok [OF L 2(2), of p "b1\<lparr>raw_ptr := ptr\<rparr>" ptr] 1 2 False v by auto
      with False v 1 2 show ?thesis by (auto simp: ct_AssignSafe_def)
    next
      case nv: False
      with False 1 2 show ?thesis by (auto simp: ct_AssignSafe_def settled_def)
    qed
  qed
qed

section \<open>Every interleaving keeps the invariant\<close>

definition apart_pc :: "ct_pc \<Rightarrow> bool" where
  "apart_pc c \<longleftrightarrow> (case c of Moving q \<Rightarrow> False | Lent q \<Rightarrow> False | _ \<Rightarrow> True)"

lemma apart_pc_simps [simp]: "apart_pc Idle" "apart_pc Destroying" "apart_pc (Assigning1 x)" "apart_pc (Assigning2 x)"
  "apart_pc (Assigning3 x)" "\<not> apart_pc (Moving q)" "\<not> apart_pc (Lent q)"
  by (simp_all add: apart_pc_def)

lemma pc_frame:
  assumes ok: "\<And>r. pc_ok larger P pcs r" and p: "apart_pc (pcs p)" "apart_pc c"
    and new: "pc_ok larger (P(p := x)) (pcs(p := c)) p"
  shows "pc_ok larger (P(p := x)) (pcs(p := c)) r"
proof (cases "r = p")
  case False
  with ok [of r] p show ?thesis by (auto simp: pc_ok_def split: ct_pc.splits)
qed (simp add: new)

lemma pc_own:
  "pcs p = Idle \<Longrightarrow> pc_ok larger P pcs p = (\<forall>b. P p = Some b \<longrightarrow> settled larger b)"
  "pcs p = Destroying \<Longrightarrow> pc_ok larger P pcs p = (\<exists>b. P p = Some b \<and> settled larger b)"
  "pcs p = Assigning1 ptr \<Longrightarrow> pc_ok larger P pcs p = (\<exists>b. P p = Some b \<and> settled larger b)"
  "pcs p = Assigning2 ptr \<Longrightarrow> pc_ok larger P pcs p = (\<exists>b. P p = Some b \<and> root_node b = nullptr)"
  "pcs p = Assigning3 ptr \<Longrightarrow> pc_ok larger P pcs p =
     (\<exists>b. P p = Some b \<and> root_node b = nullptr \<and> raw_ptr b = ptr \<and> ct_IsValid larger ptr)"
  by (simp_all add: pc_ok_def)

text \<open>A step of one persistent that is not part of a move.\<close>

lemma ct_ok_step:
  assumes ok: "ct_ok L larger s" and w: "ct_world_ok L larger w'" "cts w' = (cts (ct_w s))(p := x)"
    and p: "apart_pc (ct_pcs s p)" "apart_pc c" "pc_ok larger (cts w') ((ct_pcs s)(p := c)) p"
  shows "ct_ok L larger (next_pc p c w' s)"
  using pc_frame [of larger "cts (ct_w s)" "ct_pcs s" p c x] assms by (simp add: ct_ok_def next_pc_def)

lemma ct_ok_idle: "ct_ok L larger s \<Longrightarrow> ct_pcs s p = Idle \<Longrightarrow> cts (ct_w s) p = Some b \<Longrightarrow> settled larger b"
  unfolding ct_ok_def using pc_own(1) by blast

lemma ct_ok_world: "ct_ok L larger s \<Longrightarrow> ct_world_ok L larger (ct_w s)" by (simp add: ct_ok_def)
lemma ct_ok_pc: "ct_ok L larger s \<Longrightarrow> pc_ok larger (cts (ct_w s)) (ct_pcs s) p" by (simp add: ct_ok_def)

text \<open>The collector only meets persistents that have a node, and these are at rest.\<close>

lemma pc_collect:
  assumes ok: "\<And>r. pc_ok larger P pcs r" and b: "P p = Some b" "root_node b \<noteq> nullptr"
    and b': "raw_ptr b' = 0" "root_node b' = nullptr" "ct_weak b' = ct_weak b"
  shows "pc_ok larger (P(p \<mapsto> b')) pcs r"
proof -
  have s: "settled larger b'" using b' by (simp add: settled_def ct_IsValid_def)
  show ?thesis using ok [of r] b b' s by (cases "r = p") (auto simp: pc_ok_def split: ct_pc.splits)
qed

lemma resume_ok:
  assumes L: "ct_refill_ok L" and ok: "ct_ok L larger s" and p: "ct_pcs s p \<noteq> Idle" "\<And>q. ct_pcs s p \<noteq> Lent q"
  shows "\<exists>s'. ct_resume L larger p s = Some s' \<and> ct_ok L larger s'"
proof (cases "ct_pcs s p")
  case Destroying
  then obtain b where b: "cts (ct_w s) p = Some b" "settled larger b" using ct_ok_pc [OF ok, of p] by (auto simp: pc_own)
  obtain w b' where w: "ct_destroy_locked L larger p (ct_w s) = Some w" "ct_world_ok L larger w"
    "cts w = (cts (ct_w s))(p \<mapsto> b')" "root_node b' = nullptr"
    using destroy_locked_ok [OF ct_ok_world [OF ok] b] by blast
  have "ct_ok L larger (next_pc p Idle (ct_gone p w) s)"
    by (rule ct_ok_step [OF ok, of _ _ None]) (use w Destroying ct_world_ok_gone [OF w(2), of p] in \<open>auto simp: pc_own\<close>)
  with Destroying w(1) show ?thesis by (simp add: ct_resume_def)
next
  case (Assigning1 ptr)
  then obtain b where b: "cts (ct_w s) p = Some b" "settled larger b" using ct_ok_pc [OF ok, of p] by (auto simp: pc_own)
  obtain d w b' where w: "ct_detach L larger p ptr (ct_w s) = Some (d, w)" "ct_world_ok L larger w"
    "cts w = (cts (ct_w s))(p \<mapsto> b')" "if d then settled larger b' \<and> raw_ptr b' = ptr else root_node b' = nullptr"
    using detach_ok [OF ct_ok_world [OF ok] b] by blast
  have "ct_ok L larger (next_pc p (if d then Idle else Assigning2 ptr) w s)"
    by (rule ct_ok_step [OF ok w(2,3)]) (use w Assigning1 in \<open>auto simp: pc_own\<close>)
  with Assigning1 w(1) show ?thesis by (simp add: ct_resume_def)
next
  case (Assigning2 ptr)
  then obtain b where b: "cts (ct_w s) p = Some b" "root_node b = nullptr" using ct_ok_pc [OF ok, of p] by (auto simp: pc_own)
  obtain w where w: "ct_SetValue p ptr (ct_w s) = Some w" "ct_world_ok L larger w"
    "cts w = (cts (ct_w s))(p \<mapsto> b\<lparr>raw_ptr := ptr\<rparr>)"
    using SetValue_ok [OF ct_ok_world [OF ok] b] by blast
  have "ct_ok L larger (next_pc p (if ct_IsValid larger ptr then Assigning3 ptr else Idle) w s)"
    by (rule ct_ok_step [OF ok w(2,3)]) (use w b Assigning2 in \<open>auto simp: pc_own settled_def\<close>)
  with Assigning2 w(1) show ?thesis by (simp add: ct_resume_def)
next
  case (Assigning3 ptr)
  then obtain b where b: "cts (ct_w s) p = Some b" "root_node b = nullptr" "raw_ptr b = ptr" "ct_IsValid larger ptr"
    using ct_ok_pc [OF ok, of p] by (auto simp: pc_own)
  obtain w b' where w: "ct_attach L p ptr (ct_w s) = Some w" "ct_world_ok L larger w"
    "cts w = (cts (ct_w s))(p \<mapsto> b')" "settled larger b'"
    using attach_ok [OF L ct_ok_world [OF ok] b] by blast
  have "ct_ok L larger (next_pc p Idle w s)"
    by (rule ct_ok_step [OF ok w(2,3)]) (use w Assigning3 in \<open>auto simp: pc_own\<close>)
  with Assigning3 w(1) show ?thesis by (simp add: ct_resume_def)
next
  case (Moving q)
  have q: "ct_pcs s q = Lent p" using ct_ok_pc [OF ok, of p] Moving by (auto simp: pc_ok_def)
  then have pq: "p \<noteq> q" using Moving by auto
  obtain b c where b: "cts (ct_w s) p = Some b" "root_node b = nullptr" and c: "cts (ct_w s) q = Some c"
    "settled larger c" "ct_weak b = ct_weak c"
    using ct_ok_pc [OF ok, of p] ct_ok_pc [OF ok, of q] Moving q by (auto simp: pc_ok_def)
  obtain w b' c' where w: "ct_transfer L larger p q (ct_w s) = Some w" "ct_world_ok L larger w"
    "cts w = (cts (ct_w s))(p \<mapsto> b', q \<mapsto> c')" "settled larger b'" "settled larger c'"
    using transfer_ok [OF ct_ok_world [OF ok] pq b c] by blast
  have r: "pc_ok larger (cts w) ((ct_pcs s)(p := Idle, q := Idle)) r" for r
    using ct_ok_pc [OF ok, of r] w q Moving
    by (cases "r = p"; cases "r = q") (auto simp: pc_ok_def split: ct_pc.splits)
  have "ct_ok L larger (next_pc q Idle w (next_pc p Idle w s))"
    using w(2) by (auto simp: ct_ok_def next_pc_def intro: r)
  with Moving w(1) show ?thesis by (simp add: ct_resume_def)
qed (use p in auto)

lemma ct_step_ok:
  assumes L: "ct_refill_ok L" and st: "ct_step L larger s s'" and ok: "ct_ok L larger s"
  shows "ct_ok L larger s'"
  using st
proof cases
  case (resume p)
  then have "ct_pcs s p \<noteq> Idle" "\<And>q. ct_pcs s p \<noteq> Lent q" by (auto simp: ct_resume_def)
  from resume_ok [OF L ok this] resume show ?thesis by auto
next
  case (construct p raw weak)
  have "ct_world_ok L larger (ct_new_base p weak raw (ct_w s))"
    unfolding ct_new_base_def using ct_world_ok_same [OF ct_ok_world [OF ok] construct(2)] construct(3) by simp
  then show ?thesis unfolding construct(1)
    by (rule ct_ok_step [OF ok]) (use construct in \<open>auto simp: ct_new_base_def pc_own settled_def\<close>)
next
  case (destroy_fast p b)
  have "ct_world_ok L larger (ct_gone p (ct_w s))"
    by (rule ct_world_ok_gone [OF ct_ok_world [OF ok]])
       (use destroy_fast in \<open>auto simp: ct_at_ok [OF ct_ok_world [OF ok]] GetNodeSafe_def\<close>)
  then show ?thesis unfolding destroy_fast(1)
    by (rule ct_ok_step [OF ok, of _ _ None]) (use destroy_fast in \<open>auto simp: pc_own\<close>)
next
  case (destroy_slow p b)
  then have b: "cts (ct_w s) p = Some b" by (simp add: ct_at_ok [OF ct_ok_world [OF ok]])
  show ?thesis unfolding destroy_slow(1)
    by (rule ct_ok_step [OF ok ct_ok_world [OF ok], of _ "Some b"])
       (use destroy_slow b ct_ok_idle [OF ok _ b] in \<open>auto simp: pc_own fun_upd_idem\<close>)
next
  case (assign_raw p b ptr)
  then have b: "cts (ct_w s) p = Some b" by (simp add: ct_at_ok [OF ct_ok_world [OF ok]])
  show ?thesis unfolding assign_raw(1)
    by (rule ct_ok_step [OF ok ct_ok_world [OF ok], of _ "Some b"])
       (use assign_raw b ct_ok_idle [OF ok _ b] in \<open>auto simp: pc_own fun_upd_idem settled_def\<close>)
next
  case (assign_safe p b ptr w)
  then have b: "cts (ct_w s) p = Some b" by (simp add: ct_at_ok [OF ct_ok_world [OF ok]])
  obtain b' where w: "ct_world_ok L larger w" "cts w = (cts (ct_w s))(p \<mapsto> b')" "settled larger b'"
    using AssignSafe_ok [OF L ct_ok_world [OF ok] b ct_ok_idle [OF ok assign_safe(3) b], of ptr] assign_safe(4) by auto
  show ?thesis unfolding assign_safe(1)
    by (rule ct_ok_step [OF ok w(1,2)]) (use assign_safe w in \<open>auto simp: pc_own\<close>)
next
  case (move p b q c w)
  then have b: "cts (ct_w s) p = Some b" "cts (ct_w s) q = Some c" by (simp_all add: ct_at_ok [OF ct_ok_world [OF ok]])
  have st: "settled larger c" using ct_ok_idle [OF ok] move b by blast
  obtain b' where w: "ct_world_ok L larger w" "cts w = (cts (ct_w s))(p \<mapsto> b')" "settled larger b'" "raw_ptr b' = 0"
    "ct_weak b' = ct_weak b"
    using AssignSafe_ok [OF L ct_ok_world [OF ok] b(1) ct_ok_idle [OF ok move(6) b(1)], of 0] move(8)
    by (auto simp: ct_Clear_def)
  have r: "pc_ok larger (cts w) ((ct_pcs s)(p := Moving q, q := Lent p)) r" for r
    using ct_ok_pc [OF ok, of r] w move b st
    by (cases "r = p"; cases "r = q") (auto simp: pc_ok_def settled_def ct_IsValid_def split: ct_pc.splits)
  show ?thesis unfolding move(1) using w(1) by (auto simp: ct_ok_def next_pc_def intro: r)
next
  case (collect g a p t w)
  obtain b where w: "ct_world_ok L larger w" "cts (ct_w s) p = Some b" "root_node b \<noteq> nullptr"
    "cts w = (cts (ct_w s))(p \<mapsto> b\<lparr>raw_ptr := 0, root_node := nullptr\<rparr>)"
    using collect_ok [OF ct_ok_world [OF ok], of g a p t] collect by (auto simp: used_in_def)
  have "pc_ok larger (cts w) (ct_pcs s) r" for r
    unfolding w(4) by (rule pc_collect [where b = b]) (use ok w(2,3) in \<open>auto simp: ct_ok_def\<close>)
  then show ?thesis using w(1) by (simp add: ct_ok_def collect(1))
qed

section \<open>Without interference\<close>

text \<open>All persistents at rest; what they point to is the abstract state.\<close>

definition ct_quiet :: "ct_lib \<Rightarrow> bool \<Rightarrow> ct_world \<Rightarrow> bool" where
  "ct_quiet L larger w \<longleftrightarrow> ct_world_ok L larger w \<and> (\<forall>p b. cts w p = Some b \<longrightarrow> settled larger b)"

definition ct_pointers :: "ct_world \<Rightarrow> addr \<Rightarrow> (bool \<times> u64) option" where
  "ct_pointers w p = map_option (\<lambda>b. (ct_weak b, raw_ptr b)) (cts w p)"

datatype ct_op = CtNew addr bool u64 | CtCopy addr addr | CtRaw addr u64 | CtMove addr addr | CtSentinel addr
  | CtClear addr | CtDestroy addr | CtTo addr bool addr | CtLock addr addr

primrec ct_exec :: "ct_lib \<Rightarrow> bool \<Rightarrow> ct_op \<Rightarrow> ct_world \<Rightarrow> ct_world option" where
  "ct_exec L larger (CtNew p weak raw) w = ct_new_raw L larger p weak raw w"
| "ct_exec L larger (CtCopy p q) w = ct_assign_copy L larger p q w"
| "ct_exec L larger (CtRaw p ptr) w = ct_assign_raw L larger p ptr w"
| "ct_exec L larger (CtMove p q) w = ct_assign_move L larger p q w"
| "ct_exec L larger (CtSentinel p) w = ct_assign_sentinel L larger p w"
| "ct_exec L larger (CtClear p) w = ct_Clear L larger p w"
| "ct_exec L larger (CtDestroy p) w = ct_destructor L larger p w"
| "ct_exec L larger (CtTo d weak p) w = ct_To L larger id d weak p w"
| "ct_exec L larger (CtLock d p) w = ct_Lock L larger d p w"

text \<open>The specification: variables that hold pointers. Moving from a null or sentinel pointer copies it.\<close>

primrec ct_spec :: "bool \<Rightarrow> ct_op \<Rightarrow> (addr \<Rightarrow> (bool \<times> u64) option) \<Rightarrow> (addr \<Rightarrow> (bool \<times> u64) option) option" where
  "ct_spec larger (CtNew p weak raw) M =
     (if p \<noteq> nullptr \<and> M p = None then Some (M(p \<mapsto> (weak, raw))) else None)"
| "ct_spec larger (CtCopy p q) M = do { (wk, _) \<leftarrow> M p; (_, x) \<leftarrow> M q; Some (M(p \<mapsto> (wk, x))) }"
| "ct_spec larger (CtRaw p ptr) M = do { (wk, _) \<leftarrow> M p; Some (M(p \<mapsto> (wk, ptr))) }"
| "ct_spec larger (CtMove p q) M =
     do { (wk, _) \<leftarrow> M p; (wk', x) \<leftarrow> M q;
          if p = q then Some M
          else if wk \<noteq> wk' then None
          else Some (M(p \<mapsto> (wk, x), q \<mapsto> (wk', if ct_IsValid larger x then 0 else x))) }"
| "ct_spec larger (CtSentinel p) M = do { (wk, _) \<leftarrow> M p; Some (M(p \<mapsto> (wk, kSentinelPointer larger))) }"
| "ct_spec larger (CtClear p) M = do { (wk, _) \<leftarrow> M p; Some (M(p \<mapsto> (wk, 0))) }"
| "ct_spec larger (CtDestroy p) M = do { _ \<leftarrow> M p; Some (M(p := None)) }"
| "ct_spec larger (CtTo d weak p) M =
     do { (_, x) \<leftarrow> M p; if d \<noteq> nullptr \<and> M d = None then Some (M(d \<mapsto> (weak, x))) else None }"
| "ct_spec larger (CtLock d p) M =
     do { (wk, x) \<leftarrow> M p; if wk \<and> d \<noteq> nullptr \<and> M d = None then Some (M(d \<mapsto> (False, x))) else None }"

lemma quietD:
  assumes "ct_quiet L larger w"
  shows "ct_world_ok L larger w" "cts w p = Some b \<Longrightarrow> settled larger b" "ct_at w p = cts w p"
  using assms ct_at_ok by (auto simp: ct_quiet_def)

lemma pointers_SomeD: "ct_pointers w p = Some (k, x) \<Longrightarrow> \<exists>b. cts w p = Some b \<and> ct_weak b = k \<and> raw_ptr b = x"
  by (auto simp: ct_pointers_def)

lemma pointers_upd:
  assumes "cts w' = (cts w)(p \<mapsto> b)"
  shows "ct_pointers w' = (ct_pointers w)(p \<mapsto> (ct_weak b, raw_ptr b))"
  using assms by (auto simp: ct_pointers_def)

lemma quiet_upd:
  assumes "ct_quiet L larger w" "ct_world_ok L larger w'" "cts w' = (cts w)(p \<mapsto> b)" "settled larger b"
  shows "ct_quiet L larger w'"
  using assms by (auto simp: ct_quiet_def)

lemma AssignUnsafe_eq:
  assumes "ct_world_ok L larger w" "cts w p = Some b"
  shows "ct_AssignUnsafe L larger p ptr w = ct_AssignSafe L larger p ptr w"
  using assms by (simp add: ct_AssignUnsafe_def ct_AssignSafe_def ct_detach_def ct_at_ok [OF assms(1)])

lemma AssignSafe_refines:
  assumes L: "ct_refill_ok L" and q: "ct_quiet L larger w" and p: "ct_pointers w p = Some (k, x)"
  shows "\<exists>w'. ct_AssignSafe L larger p ptr w = Some w' \<and> ct_quiet L larger w' \<and>
    ct_pointers w' = (ct_pointers w)(p \<mapsto> (k, ptr))"
proof -
  obtain b where b: "cts w p = Some b" "ct_weak b = k" using pointers_SomeD [OF p] by blast
  obtain w' b' where w: "ct_AssignSafe L larger p ptr w = Some w'" "ct_world_ok L larger w'"
    "cts w' = (cts w)(p \<mapsto> b')" "settled larger b'" "raw_ptr b' = ptr" "ct_weak b' = ct_weak b"
    using AssignSafe_ok [OF L quietD(1) [OF q] b(1) quietD(2) [OF q b(1)], of ptr] by blast
  then show ?thesis using quiet_upd [OF q w(2-4)] pointers_upd [OF w(3)] b by auto
qed

lemma new_raw_refines:
  assumes L: "ct_refill_ok L" and q: "ct_quiet L larger w" and p: "p \<noteq> nullptr" "ct_pointers w p = None"
  shows "\<exists>w'. ct_new_raw L larger p k x w = Some w' \<and> ct_quiet L larger w' \<and>
    ct_pointers w' = (ct_pointers w)(p \<mapsto> (k, x))"
proof -
  let ?b = "\<lparr>raw_ptr = x, root_node = nullptr, ct_weak = k\<rparr>"
  have n: "cts w p = None" using p(2) by (simp add: ct_pointers_def)
  have ok: "ct_world_ok L larger (ct_put p ?b w)"
    by (rule ct_world_ok_same [OF quietD(1) [OF q] p(1)]) (simp_all add: n)
  show ?thesis
  proof (cases "ct_IsValid larger x")
    case True
    obtain w' b' where w: "ct_attach L p x (ct_put p ?b w) = Some w'" "ct_world_ok L larger w'"
      "cts w' = (cts (ct_put p ?b w))(p \<mapsto> b')" "settled larger b'" "raw_ptr b' = x" "ct_weak b' = k"
      using attach_ok [OF L ok, of p ?b x] True by auto
    have u: "cts w' = (cts w)(p \<mapsto> b')" using w(3) by simp
    show ?thesis using True w quiet_upd [OF q w(2) u w(4)] pointers_upd [OF u]
      by (simp add: ct_new_raw_def ct_new_base_def)
  next
    case False
    with quiet_upd [OF q ok, of p ?b] pointers_upd [of "ct_put p ?b w" w p ?b] show ?thesis
      by (simp add: ct_new_raw_def ct_new_base_def settled_def)
  qed
qed

lemma new_unsafe_eq: "ct_new_unsafe = ct_new_raw"
  by (simp add: ct_new_unsafe_def ct_new_raw_def fun_eq_iff)

lemma move_refines:
  assumes L: "ct_refill_ok L" and q: "ct_quiet L larger w" and pr: "p \<noteq> r"
    and p: "ct_pointers w p = Some (k, x)" and r: "ct_pointers w r = Some (k, y)"
  shows "\<exists>w'. ct_assign_move L larger p r w = Some w' \<and> ct_quiet L larger w' \<and>
    ct_pointers w' = (ct_pointers w)(p \<mapsto> (k, y), r \<mapsto> (k, if ct_IsValid larger y then 0 else y))"
proof -
  obtain w1 where w1: "ct_AssignSafe L larger p 0 w = Some w1" "ct_quiet L larger w1"
    "ct_pointers w1 = (ct_pointers w)(p \<mapsto> (k, 0))"
    using AssignSafe_refines [OF L q p] by blast
  obtain b where b: "cts w1 p = Some b" "ct_weak b = k" "raw_ptr b = 0" using pointers_SomeD [of w1 p k 0] w1(3) by auto
  obtain c where c: "cts w1 r = Some c" "ct_weak c = k" "raw_ptr c = y"
    using pointers_SomeD [of w1 r k y] w1(3) r pr by auto
  have nb: "root_node b = nullptr" using quietD(2) [OF w1(2) b(1)] b(3) by (simp add: settled_def ct_IsValid_def)
  obtain w' b' c' where w': "ct_transfer L larger p r w1 = Some w'" "ct_world_ok L larger w'"
    "cts w' = (cts w1)(p \<mapsto> b', r \<mapsto> c')" "settled larger b'" "settled larger c'" "raw_ptr b' = y"
    "ct_weak b' = k" "ct_weak c' = k" "raw_ptr c' = (if ct_IsValid larger y then 0 else y)"
    using transfer_ok [OF quietD(1) [OF w1(2)] pr b(1) nb c(1) quietD(2) [OF w1(2) c(1)]] b c by auto
  have "ct_quiet L larger w'" using w1(2) w'(2-5) by (auto simp: ct_quiet_def)
  moreover have "ct_pointers w' = (ct_pointers w)(p \<mapsto> (k, y), r \<mapsto> (k, if ct_IsValid larger y then 0 else y))"
  proof
    fix a show "ct_pointers w' a = ((ct_pointers w)(p \<mapsto> (k, y), r \<mapsto> (k, if ct_IsValid larger y then 0 else y))) a"
      using fun_cong [OF w1(3), of a] w' by (auto simp: ct_pointers_def split: if_splits)
  qed
  ultimately show ?thesis using pr w1(1) w'(1) by (simp add: ct_assign_move_def ct_Clear_def)
qed

text \<open>The properties are shown at a library that always has memory.\<close>

definition demo_ct_lib :: ct_lib where
  "demo_ct_lib = \<lparr>region_of = (\<lambda>weak ptr. (if weak then 1 else 0) + 2 * (if ptr < 65536 then 0 else 1)),
     ct_alloc = \<lparr>RefillFreeListAndAllocateNode = (\<lambda>p t r.
       (let a = Suc (Max (insert 0 (dom (nodes r))))
        in Some (a, r\<lparr>nodes := (nodes r)(a \<mapsto> \<lparr>owner_or_next = p, node_trace = t\<rparr>), nodes_in_use := nodes_in_use r + 1\<rparr>))),
     IsCreationThread = False\<rparr>\<rparr>"

lemma demo_ct_lib_ok: "ct_refill_ok demo_ct_lib"
  unfolding ct_refill_ok_def refill_ok_def
proof (intro conjI allI impI)
  fix p t r a r'
  assume ok: "region_ok r" and t: "t \<noteq> (0 :: addr)"
    and st: "RefillFreeListAndAllocateNode (ct_alloc demo_ct_lib) p t r = Some (a, r')"
  from st have f: "a = Suc (Max (insert 0 (dom (nodes r))))"
    "r' = r\<lparr>nodes := (nodes r)(a \<mapsto> \<lparr>owner_or_next = p, node_trace = t\<rparr>), nodes_in_use := nodes_in_use r + 1\<rparr>"
    by (auto simp: demo_ct_lib_def Let_def)
  have "finite (dom (nodes r))" using region_ok_nodes [OF ok] by simp
  then have "a \<in> dom (nodes r) \<Longrightarrow> a \<le> Max (insert 0 (dom (nodes r)))" by (intro Max_ge) auto
  then have "a \<notin> dom (nodes r)" unfolding f(1) by auto
  then have "nodes r a = None" by auto
  from grow_ok [OF ok t this _ f(2)] show "a \<noteq> nullptr" "region_ok r'" "used_nodes r a = None"
    "used_nodes r' = (used_nodes r)(a \<mapsto> (p, t))"
    by (simp_all add: f(1))
qed (simp add: demo_ct_lib_def Let_def)

definition empty_region :: PersistentRegionBase where
  "empty_region = \<lparr>nodes = (\<lambda>_. None), free_list_head = nullptr, nodes_in_use = 0\<rparr>"

definition ct_init :: ct_state where
  "ct_init = \<lparr>ct_w = \<lparr>cts = (\<lambda>_. None), ct_regions = (\<lambda>_. empty_region)\<rparr>, ct_pcs = (\<lambda>_. Idle)\<rparr>"

lemma empty_region_ok: "used_nodes empty_region = (\<lambda>_. None)" "region_ok empty_region"
proof -
  show u: "used_nodes empty_region = (\<lambda>_. None)" by (auto simp: empty_region_def used_nodes_def)
  show "region_ok empty_region" by (rule region_okI [of _ "[]"]) (simp_all add: u, simp_all add: empty_region_def)
qed

lemma ct_init_ok: "ct_ok L larger ct_init"
  by (simp add: ct_init_def ct_ok_def ct_world_ok_def ct_linked_def pc_ok_def empty_region_ok used_in_def)

lemma ct_reachable_ok:
  assumes "ct_refill_ok L" "(ct_step L larger)\<^sup>*\<^sup>* ct_init s"
  shows "ct_ok L larger s"
  using assms(2) by (induction rule: rtranclp_induct) (auto intro: ct_init_ok ct_step_ok [OF assms(1)])


primrec ct_rank :: "ct_pc \<Rightarrow> nat" where
  "ct_rank Idle = 0"
| "ct_rank Destroying = 1"
| "ct_rank (Assigning1 _) = 3"
| "ct_rank (Assigning2 _) = 2"
| "ct_rank (Assigning3 _) = 1"
| "ct_rank (Moving _) = 1"
| "ct_rank (Lent _) = 0"

text \<open>C35: No pending operation is ever stuck: whatever the collector and the other threads have done, its next step is
  defined and brings it nearer to its end, which takes at most three steps of its own; and no step of another
  thread or of the collector sets it back.
\<close>

theorem ct_operations_finish:
  assumes "ct_refill_ok L" "(ct_step L larger)\<^sup>*\<^sup>* ct_init s" "0 < ct_rank (ct_pcs s p)"
  shows "ct_rank (ct_pcs s p) \<le> 3 \<and>
         (\<exists>s'. ct_resume L larger p s = Some s' \<and> ct_rank (ct_pcs s' p) < ct_rank (ct_pcs s p)) \<and>
         (\<forall>s'. ct_step L larger s s' \<longrightarrow>
            ct_pcs s' p = ct_pcs s p \<or> ct_rank (ct_pcs s' p) < ct_rank (ct_pcs s p))"
proof (intro conjI allI impI)
  have ok: "ct_ok L larger s" by (rule ct_reachable_ok [OF assms(1,2)])
  have p: "ct_pcs s p \<noteq> Idle" "\<And>q. ct_pcs s p \<noteq> Lent q" using assms(3) by auto
  have lent: "ct_pcs s q \<noteq> Moving p" for q using ct_ok_pc [OF ok, of q] p by (auto simp: pc_ok_def)
  have own: "ct_pcs s p \<noteq> Moving p" by (rule lent)
  have dec: "ct_rank (ct_pcs s' p) < ct_rank (ct_pcs s p)" if "ct_resume L larger p s = Some s'" for s'
    using that p own by (auto simp: ct_resume_def next_pc_def split: ct_pc.splits if_splits)
  show "ct_rank (ct_pcs s p) \<le> 3" by (cases "ct_pcs s p") simp_all
  show "\<exists>s'. ct_resume L larger p s = Some s' \<and> ct_rank (ct_pcs s' p) < ct_rank (ct_pcs s p)"
    using resume_ok [OF assms(1) ok p] dec by blast
  fix s' assume "ct_step L larger s s'"
  then show "ct_pcs s' p = ct_pcs s p \<or> ct_rank (ct_pcs s' p) < ct_rank (ct_pcs s p)"
  proof cases
    case (resume q)
    show ?thesis
    proof (cases "q = p")
      case False
      with resume lent [of q] show ?thesis by (auto simp: ct_resume_def next_pc_def split: ct_pc.splits if_splits)
    qed (use resume dec in auto)
  qed (use p in \<open>auto simp: next_pc_def\<close>)
qed

lemma demo_ct_run:
  obtains s1 s2 where "(ct_step demo_ct_lib True)\<^sup>*\<^sup>* ct_init s1" "ct_pcs s1 100 = Assigning3 4096"
    "(ct_step demo_ct_lib True)\<^sup>*\<^sup>* ct_init s2" "ct_pcs s2 100 = Idle"
    "\<exists>n. cts (ct_w s2) 100 = Some \<lparr>raw_ptr = 4096, root_node = n, ct_weak = False\<rparr>"
proof -
  have v: "ct_IsValid True 4096" by (simp add: ct_IsValid_def kSentinelPointer_def kPointerCompressionShift_def)
  define s1 where "s1 = next_pc 100 (Assigning3 4096) (ct_new_base 100 False 4096 (ct_w ct_init)) ct_init"
  have "ct_step demo_ct_lib True ct_init s1"
    using ct_step.construct [of 100 ct_init demo_ct_lib True 4096 False] v by (simp add: s1_def ct_init_def)
  then have r1: "(ct_step demo_ct_lib True)\<^sup>*\<^sup>* ct_init s1" by simp
  have pc: "ct_pcs s1 100 = Assigning3 4096" by (simp add: s1_def next_pc_def)
  then obtain s2 where s2: "ct_resume demo_ct_lib True 100 s1 = Some s2"
    using resume_ok [OF demo_ct_lib_ok ct_reachable_ok [OF demo_ct_lib_ok r1], of 100] by auto
  have "(ct_step demo_ct_lib True)\<^sup>*\<^sup>* ct_init s2"
    using r1 ct_step.resume [OF s2] by (rule rtranclp.rtrancl_into_rtrancl)
  moreover have "ct_pcs s2 100 = Idle" using s2 pc by (auto simp: ct_resume_def next_pc_def)
  moreover have "\<exists>n. cts (ct_w s2) 100 = Some \<lparr>raw_ptr = 4096, root_node = n, ct_weak = False\<rparr>"
    using s2 pc by (auto simp: ct_resume_def next_pc_def ct_attach_def s1_def ct_new_base_def ct_at_def Let_def)
  ultimately show thesis using that [OF r1 pc] by blast
qed


theorem ct_operations_finish_witness:
  "\<exists>s s'. (ct_step demo_ct_lib True)\<^sup>*\<^sup>* ct_init s \<and> ct_pcs s 100 = Assigning3 4096 \<and>
     ct_resume demo_ct_lib True 100 s = Some s' \<and> ct_rank (ct_pcs s' 100) = 0"
proof -
  obtain s where s: "(ct_step demo_ct_lib True)\<^sup>*\<^sup>* ct_init s" "ct_pcs s 100 = Assigning3 4096"
    by (rule demo_ct_run) blast
  with ct_operations_finish [OF demo_ct_lib_ok s(1), of 100] show ?thesis by auto
qed

lemma quiet_at: "ct_quiet L larger w \<Longrightarrow> ct_pointers w p = Some (k, x) \<Longrightarrow>
    \<exists>b. ct_at w p = Some b \<and> ct_weak b = k \<and> ct_Get b = x"
  using pointers_SomeD quietD(3) by (fastforce simp: ct_Get_def)

lemma destructor_refines:
  assumes q: "ct_quiet L larger w" and p: "ct_pointers w p = Some (k, x)"
  shows "\<exists>w'. ct_destructor L larger p w = Some w' \<and> ct_quiet L larger w' \<and> ct_pointers w' = (ct_pointers w)(p := None)"
proof -
  obtain b where b: "cts w p = Some b" using pointers_SomeD [OF p] by blast
  obtain w1 where w1: "(if GetNodeSafe b \<noteq> nullptr then ct_destroy_locked L larger p w else Some w) = Some w1"
    "ct_world_ok L larger w1" "\<exists>b'. cts w1 = (cts w)(p \<mapsto> b') \<and> root_node b' = nullptr"
  proof (cases "GetNodeSafe b = nullptr")
    case True
    have "cts w = (cts w)(p \<mapsto> b)" using b by auto
    with True quietD(1) [OF q] show ?thesis by (intro that [of w]) (auto simp: GetNodeSafe_def)
  next
    case False
    with destroy_locked_ok [OF quietD(1) [OF q] b quietD(2) [OF q b]] show ?thesis using that by auto
  qed
  have "ct_world_ok L larger (ct_gone p w1)"
    by (rule ct_world_ok_gone [OF w1(2)]) (use w1(3) in auto)
  then have "ct_quiet L larger (ct_gone p w1)" using q w1(3) by (auto simp: ct_quiet_def split: if_splits)
  moreover have "ct_pointers (ct_gone p w1) = (ct_pointers w)(p := None)" using w1(3) by (auto simp: ct_pointers_def)
  ultimately show ?thesis using w1(1) b quietD(3) [OF q] by (simp add: ct_destructor_def)
qed

lemma Lock_refines:
  assumes L: "ct_refill_ok L" and q: "ct_quiet L larger w" and p: "ct_pointers w p = Some (True, x)"
    and d: "d \<noteq> nullptr" "ct_pointers w d = None"
  shows "\<exists>w'. ct_Lock L larger d p w = Some w' \<and> ct_quiet L larger w' \<and>
    ct_pointers w' = (ct_pointers w)(d \<mapsto> (False, x))"
proof -
  have dp: "d \<noteq> p" using p d(2) by auto
  obtain w1 where w1: "ct_new_base d False 0 w = w1" "ct_quiet L larger w1"
    "ct_pointers w1 = (ct_pointers w)(d \<mapsto> (False, 0))"
    using new_raw_refines [OF L q d, of False 0] by (auto simp: ct_new_raw_def ct_IsValid_def)
  obtain b where b: "ct_at w p = Some b" "ct_weak b" using quiet_at [OF q p] by auto
  obtain b1 where b1: "ct_at w1 p = Some b1" "ct_Get b1 = x"
    using quiet_at [OF w1(2), of p True x] w1(3) p dp by auto
  have "ct_pointers w1 d = Some (False, 0)" using w1(3) by simp
  from AssignSafe_refines [OF L w1(2) this, of x] w1(1,3) b b1 show ?thesis
    by (auto simp: ct_Lock_def ct_new_copy_base_def ct_new_default_def ct_assign_copy_base_def)
qed

text \<open>C36: While no thread is under way each operation behaves like an assignment of pointer variables: a construction,
  copy, raw assignment, move, clearing, destruction, conversion or locking of a weak persistent always succeeds,
  leaves exactly the pointers the variables would hold, and every persistent at rest.
\<close>

theorem ct_ops_refine:
  assumes "ct_refill_ok L" "ct_quiet L larger w" "ct_spec larger op (ct_pointers w) = Some M"
  shows "\<exists>w'. ct_exec L larger op w = Some w' \<and> ct_quiet L larger w' \<and> ct_pointers w' = M"
proof (cases op)
  case (CtNew p weak raw)
  with new_raw_refines [OF assms(1,2), of p weak raw] assms(3) show ?thesis by (auto split: if_splits)
next
  case (CtCopy p q)
  with assms(3) obtain k y j x where M: "ct_pointers w p = Some (k, y)" "ct_pointers w q = Some (j, x)"
    "M = (ct_pointers w)(p \<mapsto> (k, x))" by auto
  with quiet_at [OF assms(2) M(2)] AssignSafe_refines [OF assms(1,2) M(1), of x] CtCopy show ?thesis
    by (auto simp: ct_assign_copy_def)
next
  case (CtRaw p ptr)
  with assms(3) obtain k y where M: "ct_pointers w p = Some (k, y)" "M = (ct_pointers w)(p \<mapsto> (k, ptr))" by auto
  obtain b where "cts w p = Some b" using pointers_SomeD [OF M(1)] by blast
  with AssignUnsafe_eq [OF quietD(1) [OF assms(2)]] AssignSafe_refines [OF assms(1,2) M(1), of ptr] M(2) CtRaw
  show ?thesis by (simp add: ct_assign_raw_def)
next
  case (CtMove p q)
  with assms(3) obtain k y j x where M: "ct_pointers w p = Some (k, y)" "ct_pointers w q = Some (j, x)"
    "(if p = q then Some (ct_pointers w) else if k \<noteq> j then None
      else Some ((ct_pointers w)(p \<mapsto> (k, x), q \<mapsto> (j, if ct_IsValid larger x then 0 else x)))) = Some M" by auto
  show ?thesis
  proof (cases "p = q")
    case True
    with M(3) CtMove assms(2) show ?thesis by (simp add: ct_assign_move_def)
  next
    case False
    with M have k: "k = j" by (auto split: if_splits)
    with False M move_refines [OF assms(1,2) False M(1), of x] CtMove show ?thesis by auto
  qed
next
  case (CtSentinel p)
  with assms(3) obtain k y where M: "ct_pointers w p = Some (k, y)" "M = (ct_pointers w)(p \<mapsto> (k, kSentinelPointer larger))"
    by auto
  with AssignSafe_refines [OF assms(1,2) M(1)] CtSentinel show ?thesis by (simp add: ct_assign_sentinel_def)
next
  case (CtClear p)
  with assms(3) obtain k y where M: "ct_pointers w p = Some (k, y)" "M = (ct_pointers w)(p \<mapsto> (k, 0))" by auto
  with AssignSafe_refines [OF assms(1,2) M(1)] CtClear show ?thesis by (simp add: ct_Clear_def)
next
  case (CtDestroy p)
  with assms(3) obtain k y where "ct_pointers w p = Some (k, y)" "M = (ct_pointers w)(p := None)" by auto
  with destructor_refines [OF assms(2)] CtDestroy show ?thesis by simp
next
  case (CtTo d weak p)
  with assms(3) obtain k x where M: "ct_pointers w p = Some (k, x)" "d \<noteq> nullptr" "ct_pointers w d = None"
    "M = (ct_pointers w)(d \<mapsto> (weak, x))" by (auto split: if_splits simp del: not_None_eq)
  with quiet_at [OF assms(2) M(1)] new_raw_refines [OF assms(1,2) M(2,3), of weak x] CtTo show ?thesis
    by (auto simp: ct_To_def new_unsafe_eq)
next
  case (CtLock d p)
  with assms(3) obtain x where M: "ct_pointers w p = Some (True, x)" "d \<noteq> nullptr" "ct_pointers w d = None"
    "M = (ct_pointers w)(d \<mapsto> (False, x))" by (auto split: if_splits simp del: not_None_eq)
  with Lock_refines [OF assms(1,2) M(1-3)] CtLock show ?thesis by simp
qed

theorem ct_ops_refine_witness:
  "\<exists>w w'. ct_exec demo_ct_lib True (CtNew 100 True 4096) (ct_w ct_init) = Some w \<and>
     ct_exec demo_ct_lib True (CtLock 200 100) w = Some w' \<and>
     ct_pointers w' = [100 \<mapsto> (True, 4096), 200 \<mapsto> (False, 4096)]"
proof -
  have q: "ct_quiet demo_ct_lib True (ct_w ct_init)"
    using ct_init_ok by (auto simp: ct_quiet_def ct_ok_def ct_init_def)
  have e: "ct_pointers (ct_w ct_init) = (\<lambda>_. None)" by (simp add: ct_pointers_def ct_init_def fun_eq_iff)
  obtain w where w: "ct_exec demo_ct_lib True (CtNew 100 True 4096) (ct_w ct_init) = Some w" "ct_quiet demo_ct_lib True w"
    "ct_pointers w = [100 \<mapsto> (True, 4096)]"
    using ct_ops_refine [OF demo_ct_lib_ok q, of "CtNew 100 True 4096"] by (auto simp: e)
  obtain w' where "ct_exec demo_ct_lib True (CtLock 200 100) w = Some w'"
    "ct_pointers w' = [100 \<mapsto> (True, 4096), 200 \<mapsto> (False, 4096)]"
    using ct_ops_refine [OF demo_ct_lib_ok w(2), of "CtLock 200 100"] by (auto simp: w(3))
  with w(1) show ?thesis by blast
qed

end
