(* ===== verification/Cppgc_Barrier.thy ===== *)
theory Cppgc_Barrier
  imports Cppgc_Pointers
begin

text \<open>
  Which barrier a write into the managed C++ heap needs, and running it: \<open>write-barrier.h\<close>,
  \<open>pointer-policies.h\<close>, \<open>heap-consistency.h\<close>, \<open>heap-handle.h\<close>, \<open>base-page-handle.h\<close>,
  \<open>caged-heap-local-data.h\<close> and \<open>atomic-entry-flag.h\<close> under \<open>cppgc/\<close>. The preprocessor symbols are fields of
  the record \<open>build\<close>, the slow paths of the barriers, which the library holds, are fields of \<open>barrier_lib\<close>:
  they act on an abstract state \<open>'e\<close> of the garbage collector. A dereference of memory nothing was put at
  is \<open>None\<close>.
\<close>

section \<open>State\<close>

record build =
  larger_cage :: bool         \<comment> \<open>\<open>CPPGC_ENABLE_LARGER_CAGE\<close>\<close>
  caged_heap :: bool          \<comment> \<open>\<open>CPPGC_CAGED_HEAP\<close>\<close>
  young_generation :: bool    \<comment> \<open>\<open>CPPGC_YOUNG_GENERATION\<close>\<close>
  slim_barrier :: bool        \<comment> \<open>\<open>CPPGC_SLIM_WRITE_BARRIER\<close>\<close>
  heap_base :: u64            \<comment> \<open>\<open>CagedHeapBase::g_heap_base_\<close>\<close>

record HeapHandle =
  is_incremental_marking_in_progress :: bool
  is_young_generation_enabled :: bool

datatype Age = kOld | kYoung | kMixed

text \<open>\<open>entries\<close> is the counter of \<open>write_barrier_enabled_\<close>, \<open>pages\<close> the \<open>heap_handle_\<close> of the page header at an
  address, \<open>ages\<close> the age table by card, \<open>slots\<close> the raw storage of the members and \<open>marker\<close> the rest.\<close>

record ('s, 'e) gc_state =
  entries :: "32 word"
  pages :: "u64 \<rightharpoonup> u64"
  heap_handles :: "u64 \<rightharpoonup> HeapHandle"
  ages :: "u64 \<rightharpoonup> Age"
  slots :: "u64 \<rightharpoonup> 's"
  marker :: 'e

datatype BarrierType = kNone | kMarking | kGenerational

datatype GenerationalBarrierType = kPreciseSlot | kPreciseUncompressedSlot | kImpreciseSlot

datatype WriteBarrierSlotType = kCompressed | kUncompressed

record Params =
  params_heap :: u64
  slot_offset :: u64
  value_offset :: u64

definition Params_default :: Params where
  "Params_default = \<lparr>params_heap = 0, slot_offset = 0, value_offset = 0\<rparr>"

record ('s, 'e) barrier_lib =
  DijkstraMarkingBarrierSlow :: "u64 \<Rightarrow> 'e \<Rightarrow> 'e"
  DijkstraMarkingBarrierSlowWithSentinelCheck :: "u64 \<Rightarrow> 'e \<Rightarrow> 'e"
  DijkstraMarkingBarrierRangeSlow :: "u64 \<Rightarrow> u64 \<Rightarrow> u64 \<Rightarrow> u64 \<Rightarrow> u64 \<Rightarrow> 'e \<Rightarrow> 'e"
  SteeleMarkingBarrierSlow :: "u64 \<Rightarrow> 'e \<Rightarrow> 'e"
  SteeleMarkingBarrierSlowWithSentinelCheck :: "u64 \<Rightarrow> 'e \<Rightarrow> 'e"
  GenerationalBarrierSlow :: "(u64 \<rightharpoonup> Age) \<Rightarrow> u64 \<Rightarrow> u64 \<Rightarrow> u64 \<Rightarrow> 'e \<Rightarrow> 'e"
  GenerationalBarrierForUncompressedSlotSlow :: "(u64 \<rightharpoonup> Age) \<Rightarrow> u64 \<Rightarrow> u64 \<Rightarrow> u64 \<Rightarrow> 'e \<Rightarrow> 'e"
  GenerationalBarrierForSourceObjectSlow :: "u64 \<Rightarrow> u64 \<Rightarrow> 'e \<Rightarrow> 'e"
  CombinedWriteBarrierSlow :: "WriteBarrierSlotType \<Rightarrow> u64 \<Rightarrow> (u64 \<rightharpoonup> 's) \<Rightarrow> 'e \<Rightarrow> 'e"

section \<open>The flag, pages and the age table\<close>

definition AtomicEntryFlag_Enter :: "('s, 'e) gc_state \<Rightarrow> ('s, 'e) gc_state" where
  "AtomicEntryFlag_Enter G = G\<lparr>entries := entries G + 1\<rparr>"

definition AtomicEntryFlag_Exit :: "('s, 'e) gc_state \<Rightarrow> ('s, 'e) gc_state" where
  "AtomicEntryFlag_Exit G = G\<lparr>entries := entries G - 1\<rparr>"

definition MightBeEntered :: "('s, 'e) gc_state \<Rightarrow> bool" where
  "MightBeEntered G \<longleftrightarrow> entries G \<noteq> 0"

definition WriteBarrier_IsEnabled :: "('s, 'e) gc_state \<Rightarrow> bool" where
  "WriteBarrier_IsEnabled G \<longleftrightarrow> MightBeEntered G"

definition FromPayload :: "u64 \<Rightarrow> u64" where
  "FromPayload payload = payload AND NOT (kPageSize - 1)"

text \<open>\<open>page->heap_handle()\<close> for the page of \<open>payload\<close>: the address of the handle and what is there.\<close>

definition page_heap_handle :: "u64 \<Rightarrow> ('s, 'e) gc_state \<Rightarrow> (u64 \<times> HeapHandle) option" where
  "page_heap_handle payload G =
     do { heap \<leftarrow> pages G (FromPayload payload); handle \<leftarrow> heap_handles G heap; Some (heap, handle) }"

definition kCagedHeapDefaultReservationSize :: u64 where
  "kCagedHeapDefaultReservationSize = 4 * (1024 * 1024 * 1024)"

definition AgeTable_kRequiredSize :: u64 where "AgeTable_kRequiredSize = 1 * (1024 * 1024)"

definition kCardSizeInBytes :: u64 where
  "kCardSizeInBytes = kCagedHeapDefaultReservationSize div AgeTable_kRequiredSize"

definition CalculateAgeTableSizeForHeapSize :: "u64 \<Rightarrow> u64" where
  "CalculateAgeTableSizeForHeapSize heap_size = heap_size div kCardSizeInBytes"

definition CalculateLocalDataSizeForHeapSize :: "u64 \<Rightarrow> u64" where
  "CalculateLocalDataSizeForHeapSize heap_size = CalculateAgeTableSizeForHeapSize heap_size"

definition card_of :: "u64 \<Rightarrow> u64" where
  "card_of offset = (let kGranularityBits = 12 in drop_bit kGranularityBits offset)"

definition AgeTable_SetAge :: "u64 \<Rightarrow> Age \<Rightarrow> ('s, 'e) gc_state \<Rightarrow> ('s, 'e) gc_state" where
  "AgeTable_SetAge cage_offset age G = G\<lparr>ages := (ages G)(card_of cage_offset \<mapsto> age)\<rparr>"

definition AgeTable_GetAge :: "u64 \<Rightarrow> ('s, 'e) gc_state \<Rightarrow> Age option" where
  "AgeTable_GetAge cage_offset G = ages G (card_of cage_offset)"

section \<open>The type of the barrier, with a caged heap\<close>

definition Caged_GetNoSlot ::
    "build \<Rightarrow> u64 \<Rightarrow> Params \<Rightarrow> ('s, 'e) gc_state \<Rightarrow> (BarrierType \<times> Params) option" where
  "Caged_GetNoSlot B value params G =
     (if \<not> IsWithinCage (larger_cage B) (heap_base B) value then Some (kNone, params)
      else do { (heap, handle) \<leftarrow> page_heap_handle value G;
                if is_incremental_marking_in_progress handle then Some (kMarking, params)
                else Some (kNone, params) })"

definition Caged_BarrierEnabledGet ::
    "build \<Rightarrow> u64 \<Rightarrow> u64 \<Rightarrow> Params \<Rightarrow> ('s, 'e) gc_state \<Rightarrow> (BarrierType \<times> Params) option" where
  "Caged_BarrierEnabledGet B slot value params G =
     (if \<not> AreWithinCage (larger_cage B) (heap_base B) slot value then Some (kNone, params)
      else do { (heap, handle) \<leftarrow> page_heap_handle value G;
                if \<not> is_incremental_marking_in_progress handle then
                  if young_generation B then
                    if \<not> is_young_generation_enabled handle then Some (kNone, params)
                    else Some (kGenerational,
                      params\<lparr>params_heap := heap, slot_offset := OffsetFromAddress (larger_cage B) slot,
                             value_offset := OffsetFromAddress (larger_cage B) value\<rparr>)
                  else Some (kNone, params)
                else Some (kMarking, params\<lparr>params_heap := heap\<rparr>) })"

definition Caged_Get ::
    "build \<Rightarrow> u64 \<Rightarrow> u64 \<Rightarrow> Params \<Rightarrow> ('s, 'e) gc_state \<Rightarrow> (BarrierType \<times> Params) option" where
  "Caged_Get B slot value params G =
     (if \<not> WriteBarrier_IsEnabled G then Some (kNone, params)
      else Caged_BarrierEnabledGet B slot value params G)"

definition Caged_Get_storage ::
    "build \<Rightarrow> ('s \<Rightarrow> u64) \<Rightarrow> u64 \<Rightarrow> 's \<Rightarrow> Params \<Rightarrow> ('s, 'e) gc_state \<Rightarrow> (BarrierType \<times> Params) option" where
  "Caged_Get_storage B Load slot storage params G =
     (if \<not> WriteBarrier_IsEnabled G then Some (kNone, params)
      else Caged_BarrierEnabledGet B slot (Load storage) params G)"

definition Caged_Get_no_value ::
    "build \<Rightarrow> u64 \<Rightarrow> Params \<Rightarrow> u64 \<Rightarrow> ('s, 'e) gc_state \<Rightarrow> (BarrierType \<times> Params) option" where
  "Caged_Get_no_value B slot params callback G =
     (if \<not> WriteBarrier_IsEnabled G then Some (kNone, params)
      else do { handle \<leftarrow> heap_handles G callback;
                if young_generation B then
                  if \<not> is_incremental_marking_in_progress handle then
                    if \<not> is_young_generation_enabled handle then Some (kNone, params)
                    else let params = params\<lparr>params_heap := callback\<rparr> in
                      if \<not> IsWithinCage (larger_cage B) (heap_base B) slot then Some (kNone, params)
                      else Some (kGenerational,
                        params\<lparr>slot_offset := OffsetFromAddress (larger_cage B) slot\<rparr>)
                  else Some (kMarking, params\<lparr>params_heap := callback\<rparr>)
                else if \<not> is_incremental_marking_in_progress handle then Some (kNone, params)
                else Some (kMarking, params\<lparr>params_heap := callback\<rparr>) })"

section \<open>The type of the barrier, without\<close>

definition NonCaged_Get ::
    "build \<Rightarrow> u64 \<Rightarrow> u64 \<Rightarrow> Params \<Rightarrow> ('s, 'e) gc_state \<Rightarrow> (BarrierType \<times> Params) option" where
  "NonCaged_Get B slot object params G =
     (if object \<le> kSentinelPointer (larger_cage B) then Some (kNone, params)
      else if \<not> WriteBarrier_IsEnabled G then Some (kNone, params)
      else do { (heap, handle) \<leftarrow> page_heap_handle object G;
                if is_incremental_marking_in_progress handle then Some (kMarking, params)
                else Some (kNone, params) })"

definition NonCaged_Get_storage ::
    "build \<Rightarrow> ('s \<Rightarrow> u64) \<Rightarrow> u64 \<Rightarrow> 's \<Rightarrow> Params \<Rightarrow> ('s, 'e) gc_state \<Rightarrow> (BarrierType \<times> Params) option" where
  "NonCaged_Get_storage B Load slot value params G = NonCaged_Get B slot (Load value) params G"

definition NonCaged_GetNoSlot ::
    "build \<Rightarrow> u64 \<Rightarrow> Params \<Rightarrow> ('s, 'e) gc_state \<Rightarrow> (BarrierType \<times> Params) option" where
  "NonCaged_GetNoSlot B value params G = NonCaged_Get B 0 value params G"

definition NonCaged_Get_no_value ::
    "build \<Rightarrow> u64 \<Rightarrow> Params \<Rightarrow> u64 \<Rightarrow> ('s, 'e) gc_state \<Rightarrow> (BarrierType \<times> Params) option" where
  "NonCaged_Get_no_value B slot params callback G =
     (if WriteBarrier_IsEnabled G then
        do { handle \<leftarrow> heap_handles G callback;
             if is_incremental_marking_in_progress handle then Some (kMarking, params\<lparr>params_heap := callback\<rparr>)
             else Some (kNone, params) }
      else Some (kNone, params))"

section \<open>\<open>GetWriteBarrierType\<close>\<close>

definition GetWriteBarrierType ::
    "build \<Rightarrow> u64 \<Rightarrow> u64 \<Rightarrow> Params \<Rightarrow> ('s, 'e) gc_state \<Rightarrow> (BarrierType \<times> Params) option" where
  "GetWriteBarrierType B slot value params G =
     (if caged_heap B then Caged_Get B slot value params G else NonCaged_Get B slot value params G)"

definition GetWriteBarrierType_storage ::
    "build \<Rightarrow> ('s \<Rightarrow> u64) \<Rightarrow> u64 \<Rightarrow> 's \<Rightarrow> Params \<Rightarrow> ('s, 'e) gc_state \<Rightarrow> (BarrierType \<times> Params) option" where
  "GetWriteBarrierType_storage B Load slot value params G =
     (if caged_heap B then Caged_Get_storage B Load slot value params G
      else NonCaged_Get_storage B Load slot value params G)"

definition GetWriteBarrierType_callback ::
    "build \<Rightarrow> u64 \<Rightarrow> Params \<Rightarrow> u64 \<Rightarrow> ('s, 'e) gc_state \<Rightarrow> (BarrierType \<times> Params) option" where
  "GetWriteBarrierType_callback B slot params callback G =
     (if caged_heap B then Caged_Get_no_value B slot params callback G
      else NonCaged_Get_no_value B slot params callback G)"

definition GetWriteBarrierType_value ::
    "build \<Rightarrow> u64 \<Rightarrow> Params \<Rightarrow> ('s, 'e) gc_state \<Rightarrow> (BarrierType \<times> Params) option" where
  "GetWriteBarrierType_value B value params G =
     (if caged_heap B then Caged_GetNoSlot B value params G else NonCaged_GetNoSlot B value params G)"

section \<open>Running a barrier\<close>

definition DijkstraMarkingBarrier ::
    "('s, 'e) barrier_lib \<Rightarrow> build \<Rightarrow> Params \<Rightarrow> u64 \<Rightarrow> ('s, 'e) gc_state \<Rightarrow> ('s, 'e) gc_state" where
  "DijkstraMarkingBarrier L B params object G =
     (if caged_heap B then G\<lparr>marker := DijkstraMarkingBarrierSlow L object (marker G)\<rparr>
      else G\<lparr>marker := DijkstraMarkingBarrierSlowWithSentinelCheck L object (marker G)\<rparr>)"

text \<open>\<open>*params.heap\<close> is undefined when no handle is there, in particular for the default \<open>nullptr\<close>.\<close>

definition DijkstraMarkingBarrierRange ::
    "('s, 'e) barrier_lib \<Rightarrow> Params \<Rightarrow> u64 \<Rightarrow> u64 \<Rightarrow> u64 \<Rightarrow> u64 \<Rightarrow> ('s, 'e) gc_state \<Rightarrow> ('s, 'e) gc_state option" where
  "DijkstraMarkingBarrierRange L params first_element element_size number_of_elements trace_callback G =
     do { _ \<leftarrow> heap_handles G (params_heap params);
          Some (G\<lparr>marker := DijkstraMarkingBarrierRangeSlow L (params_heap params) first_element element_size
                    number_of_elements trace_callback (marker G)\<rparr>) }"

definition SteeleMarkingBarrier ::
    "('s, 'e) barrier_lib \<Rightarrow> build \<Rightarrow> Params \<Rightarrow> u64 \<Rightarrow> ('s, 'e) gc_state \<Rightarrow> ('s, 'e) gc_state" where
  "SteeleMarkingBarrier L B params object G =
     (if caged_heap B then G\<lparr>marker := SteeleMarkingBarrierSlow L object (marker G)\<rparr>
      else G\<lparr>marker := SteeleMarkingBarrierSlowWithSentinelCheck L object (marker G)\<rparr>)"

definition GenerationalBarrier ::
    "('s, 'e) barrier_lib \<Rightarrow> build \<Rightarrow> GenerationalBarrierType \<Rightarrow> Params \<Rightarrow> u64 \<Rightarrow> ('s, 'e) gc_state \<Rightarrow>
       ('s, 'e) gc_state option" where
  "GenerationalBarrier L B type params slot G =
     (if \<not> young_generation B then Some G
      else do { age \<leftarrow> AgeTable_GetAge (slot_offset params) G;
                if age = kYoung then Some G
                else Some (G\<lparr>marker := (case type of
                    kPreciseSlot \<Rightarrow>
                      GenerationalBarrierSlow L (ages G) slot (value_offset params) (params_heap params)
                  | kPreciseUncompressedSlot \<Rightarrow>
                      GenerationalBarrierForUncompressedSlotSlow L (ages G) slot (value_offset params) (params_heap params)
                  | kImpreciseSlot \<Rightarrow> GenerationalBarrierForSourceObjectSlow L slot (params_heap params)) (marker G)\<rparr>) })"

section \<open>The write barrier policies of members\<close>

datatype WriteBarrierPolicy = DijkstraWriteBarrierPolicy | NoWriteBarrierPolicy

definition Policy_WriteBarrier ::
    "('s, 'e) barrier_lib \<Rightarrow> build \<Rightarrow> BarrierType \<Rightarrow> Params \<Rightarrow> u64 \<Rightarrow> u64 \<Rightarrow> ('s, 'e) gc_state \<Rightarrow>
       ('s, 'e) gc_state option" where
  "Policy_WriteBarrier L B type params slot value G =
     (case type of
        kGenerational \<Rightarrow> GenerationalBarrier L B kPreciseSlot params slot G
      | kMarking \<Rightarrow> Some (DijkstraMarkingBarrier L B params value G)
      | kNone \<Rightarrow> Some G)"

text \<open>The barriers of an initialisation are empty in both policies.\<close>

definition InitializingBarrier :: "WriteBarrierPolicy \<Rightarrow> u64 \<Rightarrow> 'v \<Rightarrow> ('s, 'e) gc_state \<Rightarrow> ('s, 'e) gc_state" where
  "InitializingBarrier P slot value G = (case P of DijkstraWriteBarrierPolicy \<Rightarrow> G | NoWriteBarrierPolicy \<Rightarrow> G)"

definition AssigningBarrier ::
    "('s, 'e) barrier_lib \<Rightarrow> build \<Rightarrow> WriteBarrierPolicy \<Rightarrow> WriteBarrierSlotType \<Rightarrow> u64 \<Rightarrow> u64 \<Rightarrow> ('s, 'e) gc_state \<Rightarrow>
       ('s, 'e) gc_state option" where
  "AssigningBarrier L B P slot_type slot value G =
     (case P of
        NoWriteBarrierPolicy \<Rightarrow> Some G
      | DijkstraWriteBarrierPolicy \<Rightarrow>
          if slim_barrier B then
            if WriteBarrier_IsEnabled G
            then Some (G\<lparr>marker := CombinedWriteBarrierSlow L slot_type slot (slots G) (marker G)\<rparr>)
            else Some G
          else do { (type, params) \<leftarrow> GetWriteBarrierType B slot value Params_default G;
                    Policy_WriteBarrier L B type params slot value G })"

definition AssigningBarrier_storage ::
    "('s, 'e) barrier_lib \<Rightarrow> build \<Rightarrow> WriteBarrierPolicy \<Rightarrow> WriteBarrierSlotType \<Rightarrow> ('s \<Rightarrow> u64) \<Rightarrow> u64 \<Rightarrow> 's \<Rightarrow>
       ('s, 'e) gc_state \<Rightarrow> ('s, 'e) gc_state option" where
  "AssigningBarrier_storage L B P slot_type Load slot storage G =
     (case P of
        NoWriteBarrierPolicy \<Rightarrow> Some G
      | DijkstraWriteBarrierPolicy \<Rightarrow>
          if slim_barrier B then
            if WriteBarrier_IsEnabled G
            then Some (G\<lparr>marker := CombinedWriteBarrierSlow L slot_type slot (slots G) (marker G)\<rparr>)
            else Some G
          else do { (type, params) \<leftarrow> GetWriteBarrierType_storage B Load slot storage Params_default G;
                    Policy_WriteBarrier L B type params slot (Load storage) G })"

section \<open>\<open>HeapConsistency\<close>\<close>

definition HC_GetWriteBarrierType ::
    "build \<Rightarrow> u64 \<Rightarrow> u64 \<Rightarrow> Params \<Rightarrow> ('s, 'e) gc_state \<Rightarrow> (BarrierType \<times> Params) option" where
  "HC_GetWriteBarrierType B slot value params G = GetWriteBarrierType B slot value params G"

text \<open>The overload for a member takes its slot and the storage in it.\<close>

definition HC_GetWriteBarrierType_member ::
    "build \<Rightarrow> ('s \<Rightarrow> u64) \<Rightarrow> u64 \<Rightarrow> Params \<Rightarrow> ('s, 'e) gc_state \<Rightarrow> (BarrierType \<times> Params) option" where
  "HC_GetWriteBarrierType_member B Load value params G =
     do { storage \<leftarrow> slots G value; GetWriteBarrierType_storage B Load value storage params G }"

definition HC_GetWriteBarrierType_callback ::
    "build \<Rightarrow> u64 \<Rightarrow> Params \<Rightarrow> u64 \<Rightarrow> ('s, 'e) gc_state \<Rightarrow> (BarrierType \<times> Params) option" where
  "HC_GetWriteBarrierType_callback B slot params callback G = GetWriteBarrierType_callback B slot params callback G"

definition HC_GetWriteBarrierType_value ::
    "build \<Rightarrow> u64 \<Rightarrow> Params \<Rightarrow> ('s, 'e) gc_state \<Rightarrow> (BarrierType \<times> Params) option" where
  "HC_GetWriteBarrierType_value B value params G = GetWriteBarrierType_value B value params G"

definition HC_DijkstraWriteBarrier ::
    "('s, 'e) barrier_lib \<Rightarrow> build \<Rightarrow> Params \<Rightarrow> u64 \<Rightarrow> ('s, 'e) gc_state \<Rightarrow> ('s, 'e) gc_state" where
  "HC_DijkstraWriteBarrier L B params object G = DijkstraMarkingBarrier L B params object G"

definition HC_DijkstraWriteBarrierRange ::
    "('s, 'e) barrier_lib \<Rightarrow> Params \<Rightarrow> u64 \<Rightarrow> u64 \<Rightarrow> u64 \<Rightarrow> u64 \<Rightarrow> ('s, 'e) gc_state \<Rightarrow> ('s, 'e) gc_state option" where
  "HC_DijkstraWriteBarrierRange L params first_element element_size number_of_elements trace_callback G =
     DijkstraMarkingBarrierRange L params first_element element_size number_of_elements trace_callback G"

definition HC_SteeleWriteBarrier ::
    "('s, 'e) barrier_lib \<Rightarrow> build \<Rightarrow> Params \<Rightarrow> u64 \<Rightarrow> ('s, 'e) gc_state \<Rightarrow> ('s, 'e) gc_state" where
  "HC_SteeleWriteBarrier L B params object G = SteeleMarkingBarrier L B params object G"

definition HC_GenerationalBarrier ::
    "('s, 'e) barrier_lib \<Rightarrow> build \<Rightarrow> Params \<Rightarrow> u64 \<Rightarrow> ('s, 'e) gc_state \<Rightarrow> ('s, 'e) gc_state option" where
  "HC_GenerationalBarrier L B params slot G = GenerationalBarrier L B kPreciseSlot params slot G"

definition HC_GenerationalBarrierForUncompressedSlot ::
    "('s, 'e) barrier_lib \<Rightarrow> build \<Rightarrow> Params \<Rightarrow> u64 \<Rightarrow> ('s, 'e) gc_state \<Rightarrow> ('s, 'e) gc_state option" where
  "HC_GenerationalBarrierForUncompressedSlot L B params uncompressed_slot G =
     GenerationalBarrier L B kPreciseUncompressedSlot params uncompressed_slot G"

definition HC_GenerationalBarrierForSourceObject ::
    "('s, 'e) barrier_lib \<Rightarrow> build \<Rightarrow> Params \<Rightarrow> u64 \<Rightarrow> ('s, 'e) gc_state \<Rightarrow> ('s, 'e) gc_state option" where
  "HC_GenerationalBarrierForSourceObject L B params inner_pointer G =
     GenerationalBarrier L B kImpreciseSlot params inner_pointer G"

section \<open>The two tests for the cage\<close>

lemma u64_eq_iff: "w = v \<longleftrightarrow> (\<forall>k < 64. bit w k = bit v k)" for w v :: u64
  by (auto intro!: bit_word_eqI)

text \<open>For a base aligned to the size of the cage, testing two addresses at once is testing each.\<close>

lemma AreWithinCage_iff:
  assumes "heap AND mask (31 + kPointerCompressionShift larger) = 0"
  shows "AreWithinCage larger heap a b \<longleftrightarrow> IsWithinCage larger heap a \<and> IsWithinCage larger heap b"
proof -
  let ?n = "31 + kPointerCompressionShift larger"
  have low: "?n \<le> k" if "bit heap k" for k
  proof (rule ccontr)
    assume "\<not> ?n \<le> k"
    moreover from this have "k < 64" using shift_le(1) [of larger] by linarith
    ultimately have "bit (heap AND mask ?n) k" using that by (simp add: bit_simps)
    with assms show False by simp
  qed
  have one: "IsWithinCage larger heap x \<longleftrightarrow> (\<forall>k < 64. ?n \<le> k \<longrightarrow> bit x k = bit heap k)" for x
    unfolding IsWithinCage_def lower_mask [unfolded kLowerHalfWordMask_def] u64_eq_iff
    by (auto simp: bit_simps not_less dest: low)
  have zero: "drop_bit ?n w = 0 \<longleftrightarrow> (\<forall>k < 64. ?n \<le> k \<longrightarrow> \<not> bit w k)" for w :: u64
  proof
    assume z: "drop_bit ?n w = 0"
    show "\<forall>k < 64. ?n \<le> k \<longrightarrow> \<not> bit w k"
    proof (intro allI impI)
      fix k assume "?n \<le> k"
      then have "bit w k = bit (drop_bit ?n w) (k - ?n)" by (simp add: bit_drop_bit_eq)
      with z show "\<not> bit w k" by simp
    qed
  next
    assume "\<forall>k < 64. ?n \<le> k \<longrightarrow> \<not> bit w k"
    then have "\<not> bit w (?n + k)" for k using bit_imp_le_length [of w "?n + k"] by fastforce
    then show "drop_bit ?n w = 0" by (intro bit_word_eqI) (simp add: bit_drop_bit_eq)
  qed
  have "AreWithinCage larger heap a b \<longleftrightarrow> (\<forall>k < 64. ?n \<le> k \<longrightarrow> bit a k = bit heap k \<and> bit b k = bit heap k)"
    unfolding AreWithinCage_def Let_def zero by (auto simp: bit_simps)
  with one show ?thesis by blast
qed

end
