(* ===== verification/Cppgc_Member.thy ===== *)
theory Cppgc_Member
  imports Cppgc_Barrier
begin

text \<open>
  \<open>BasicMember\<close> of \<open>cppgc/member.h\<close>: the pointer fields of managed C++ objects. The template parameters are
  the fields of \<open>member_class\<close>: the storage, its functions taken from \<open>member-storage.h\<close>, and the write
  barrier policy. A member is the address of its slot; the slots hold the raw storage. The first group of
  lemmas shows that every operation is an assignment of pointer variables, the second that no operation
  hides an object from incremental marking.
\<close>

section \<open>The template parameters\<close>

record 's storage =
  st_of_ptr :: "u64 \<Rightarrow> 's"
  st_default :: 's
  st_sentinel :: 's
  st_Load :: "'s \<Rightarrow> u64"
  st_LoadAtomic :: "'s \<Rightarrow> u64"
  st_Store :: "u64 \<Rightarrow> 's \<Rightarrow> 's"
  st_StoreAtomic :: "u64 \<Rightarrow> 's \<Rightarrow> 's"
  st_Clear :: "'s \<Rightarrow> 's"
  st_IsCleared :: "'s \<Rightarrow> bool"
  st_IsSentinel :: "'s \<Rightarrow> bool"
  st_eq :: "'s \<Rightarrow> 's \<Rightarrow> bool"
  st_less :: "'s \<Rightarrow> 's \<Rightarrow> bool"
  st_less_eq :: "'s \<Rightarrow> 's \<Rightarrow> bool"
  st_greater :: "'s \<Rightarrow> 's \<Rightarrow> bool"
  st_greater_eq :: "'s \<Rightarrow> 's \<Rightarrow> bool"
  kWriteBarrierSlotType :: WriteBarrierSlotType

definition compressed_storage :: "bool \<Rightarrow> u64 \<Rightarrow> CompressedPointer storage" where
  "compressed_storage larger base =
     \<lparr>st_of_ptr = CP_of_ptr larger, st_default = CP_default, st_sentinel = CP_sentinel larger,
      st_Load = CP_Load larger base, st_LoadAtomic = CP_LoadAtomic larger base,
      st_Store = CP_Store larger, st_StoreAtomic = CP_StoreAtomic larger, st_Clear = CP_Clear,
      st_IsCleared = CP_IsCleared, st_IsSentinel = CP_IsSentinel larger, st_eq = CP_eq,
      st_less = CP_less, st_less_eq = CP_less_eq, st_greater = CP_greater, st_greater_eq = CP_greater_eq,
      kWriteBarrierSlotType = kCompressed\<rparr>"

definition raw_storage :: "bool \<Rightarrow> RawPointer storage" where
  "raw_storage larger =
     \<lparr>st_of_ptr = RP_of_ptr, st_default = RP_default, st_sentinel = RP_of_ptr (kSentinelPointer larger),
      st_Load = RP_Load, st_LoadAtomic = RP_LoadAtomic, st_Store = RP_Store, st_StoreAtomic = RP_StoreAtomic,
      st_Clear = RP_Clear, st_IsCleared = RP_IsCleared, st_IsSentinel = RP_IsSentinel larger, st_eq = RP_eq,
      st_less = RP_less, st_less_eq = RP_less_eq, st_greater = RP_greater, st_greater_eq = RP_greater_eq,
      kWriteBarrierSlotType = kUncompressed\<rparr>"

record ('s, 'e) member_class =
  mc_lib :: "('s, 'e) barrier_lib"
  mc_build :: build
  mc_storage :: "'s storage"
  mc_policy :: WriteBarrierPolicy

section \<open>\<open>MemberBase\<close>\<close>

definition put_slot :: "u64 \<Rightarrow> 's \<Rightarrow> ('s, 'e) gc_state \<Rightarrow> ('s, 'e) gc_state" where
  "put_slot this raw G = G\<lparr>slots := (slots G)(this \<mapsto> raw)\<rparr>"

definition GetRaw :: "('s, 'e) member_class \<Rightarrow> u64 \<Rightarrow> ('s, 'e) gc_state \<Rightarrow> u64 option" where
  "GetRaw M this G = do { raw \<leftarrow> slots G this; Some (st_Load (mc_storage M) raw) }"

definition SetRaw :: "('s, 'e) member_class \<Rightarrow> u64 \<Rightarrow> u64 \<Rightarrow> ('s, 'e) gc_state \<Rightarrow> ('s, 'e) gc_state option" where
  "SetRaw M this value G = do { raw \<leftarrow> slots G this; Some (put_slot this (st_Store (mc_storage M) value raw) G) }"

definition GetRawAtomic :: "('s, 'e) member_class \<Rightarrow> u64 \<Rightarrow> ('s, 'e) gc_state \<Rightarrow> u64 option" where
  "GetRawAtomic M this G = do { raw \<leftarrow> slots G this; Some (st_LoadAtomic (mc_storage M) raw) }"

definition SetRawAtomic :: "('s, 'e) member_class \<Rightarrow> u64 \<Rightarrow> u64 \<Rightarrow> ('s, 'e) gc_state \<Rightarrow> ('s, 'e) gc_state option" where
  "SetRawAtomic M this value G =
     do { raw \<leftarrow> slots G this; Some (put_slot this (st_StoreAtomic (mc_storage M) value raw) G) }"

definition GetRawStorage :: "u64 \<Rightarrow> ('s, 'e) gc_state \<Rightarrow> 's option" where
  "GetRawStorage this G = slots G this"

definition SetRawStorageAtomic :: "u64 \<Rightarrow> 's \<Rightarrow> ('s, 'e) gc_state \<Rightarrow> ('s, 'e) gc_state option" where
  "SetRawStorageAtomic this other G = do { _ \<leftarrow> slots G this; Some (put_slot this other G) }"

definition member_IsCleared :: "('s, 'e) member_class \<Rightarrow> u64 \<Rightarrow> ('s, 'e) gc_state \<Rightarrow> bool option" where
  "member_IsCleared M this G = do { raw \<leftarrow> slots G this; Some (st_IsCleared (mc_storage M) raw) }"

definition member_ClearFromGC :: "('s, 'e) member_class \<Rightarrow> u64 \<Rightarrow> ('s, 'e) gc_state \<Rightarrow> ('s, 'e) gc_state option" where
  "member_ClearFromGC M this G = do { raw \<leftarrow> slots G this; Some (put_slot this (st_Clear (mc_storage M) raw) G) }"

section \<open>Barriers of a member\<close>

definition InitializingWriteBarrier :: "('s, 'e) member_class \<Rightarrow> u64 \<Rightarrow> 'v \<Rightarrow> ('s, 'e) gc_state \<Rightarrow> ('s, 'e) gc_state" where
  "InitializingWriteBarrier M this value G = InitializingBarrier (mc_policy M) this value G"

definition AssigningWriteBarrier ::
    "('s, 'e) member_class \<Rightarrow> u64 \<Rightarrow> u64 \<Rightarrow> ('s, 'e) gc_state \<Rightarrow> ('s, 'e) gc_state option" where
  "AssigningWriteBarrier M this value G =
     AssigningBarrier (mc_lib M) (mc_build M) (mc_policy M) (kWriteBarrierSlotType (mc_storage M)) this value G"

definition AssigningWriteBarrier_storage ::
    "('s, 'e) member_class \<Rightarrow> u64 \<Rightarrow> ('s, 'e) gc_state \<Rightarrow> ('s, 'e) gc_state option" where
  "AssigningWriteBarrier_storage M this G =
     do { raw \<leftarrow> GetRawStorage this G;
          AssigningBarrier_storage (mc_lib M) (mc_build M) (mc_policy M) (kWriteBarrierSlotType (mc_storage M))
            (st_Load (mc_storage M)) this raw G }"

section \<open>Constructors\<close>

definition member_new_null :: "('s, 'e) member_class \<Rightarrow> u64 \<Rightarrow> ('s, 'e) gc_state \<Rightarrow> ('s, 'e) gc_state" where
  "member_new_null M this G = put_slot this (st_default (mc_storage M)) G"

definition member_new_sentinel :: "('s, 'e) member_class \<Rightarrow> u64 \<Rightarrow> ('s, 'e) gc_state \<Rightarrow> ('s, 'e) gc_state" where
  "member_new_sentinel M this G = put_slot this (st_sentinel (mc_storage M)) G"

definition member_new_raw :: "('s, 'e) member_class \<Rightarrow> u64 \<Rightarrow> u64 \<Rightarrow> ('s, 'e) gc_state \<Rightarrow> ('s, 'e) gc_state" where
  "member_new_raw M this raw G =
     InitializingWriteBarrier M this raw (put_slot this (st_of_ptr (mc_storage M) raw) G)"

definition member_new_storage :: "('s, 'e) member_class \<Rightarrow> u64 \<Rightarrow> 's \<Rightarrow> ('s, 'e) gc_state \<Rightarrow> ('s, 'e) gc_state" where
  "member_new_storage M this raw G = InitializingWriteBarrier M this raw (put_slot this raw G)"

definition member_Get :: "('s, 'e) member_class \<Rightarrow> u64 \<Rightarrow> ('s, 'e) gc_state \<Rightarrow> u64 option" where
  "member_Get M this G = GetRaw M this G"

definition member_Clear :: "('s, 'e) member_class \<Rightarrow> u64 \<Rightarrow> ('s, 'e) gc_state \<Rightarrow> ('s, 'e) gc_state option" where
  "member_Clear M this G = SetRawStorageAtomic this (st_default (mc_storage M)) G"

definition member_new_copy :: "('s, 'e) member_class \<Rightarrow> u64 \<Rightarrow> u64 \<Rightarrow> ('s, 'e) gc_state \<Rightarrow> ('s, 'e) gc_state option" where
  "member_new_copy M this other G =
     do { raw \<leftarrow> GetRawStorage other G; Some (member_new_storage M this raw G) }"

text \<open>From a member of another pointee type: \<open>adjust\<close> is the conversion of the pointer to the base class.\<close>

definition member_new_copy_base ::
    "('s, 'e) member_class \<Rightarrow> (u64 \<Rightarrow> u64) \<Rightarrow> u64 \<Rightarrow> u64 \<Rightarrow> ('s, 'e) gc_state \<Rightarrow> ('s, 'e) gc_state option" where
  "member_new_copy_base M adjust this other G =
     do { p \<leftarrow> member_Get M other G; Some (member_new_raw M this (adjust p) G) }"

definition member_new_move :: "('s, 'e) member_class \<Rightarrow> u64 \<Rightarrow> u64 \<Rightarrow> ('s, 'e) gc_state \<Rightarrow> ('s, 'e) gc_state option" where
  "member_new_move M this other G =
     do { raw \<leftarrow> GetRawStorage other G; member_Clear M other (member_new_storage M this raw G) }"

definition member_new_move_base ::
    "('s, 'e) member_class \<Rightarrow> (u64 \<Rightarrow> u64) \<Rightarrow> u64 \<Rightarrow> u64 \<Rightarrow> ('s, 'e) gc_state \<Rightarrow> ('s, 'e) gc_state option" where
  "member_new_move_base M adjust this other G =
     do { p \<leftarrow> member_Get M other G; member_Clear M other (member_new_raw M this (adjust p) G) }"

section \<open>Assignment\<close>

definition member_assign_raw :: "('s, 'e) member_class \<Rightarrow> u64 \<Rightarrow> u64 \<Rightarrow> ('s, 'e) gc_state \<Rightarrow> ('s, 'e) gc_state option" where
  "member_assign_raw M this other G =
     do { G1 \<leftarrow> SetRawAtomic M this other G; AssigningWriteBarrier M this other G1 }"

definition member_assign_storage :: "('s, 'e) member_class \<Rightarrow> u64 \<Rightarrow> 's \<Rightarrow> ('s, 'e) gc_state \<Rightarrow> ('s, 'e) gc_state option" where
  "member_assign_storage M this other G =
     do { G1 \<leftarrow> SetRawStorageAtomic this other G; AssigningWriteBarrier_storage M this G1 }"

definition member_assign_null :: "('s, 'e) member_class \<Rightarrow> u64 \<Rightarrow> ('s, 'e) gc_state \<Rightarrow> ('s, 'e) gc_state option" where
  "member_assign_null M this G = member_Clear M this G"

definition member_assign_sentinel :: "('s, 'e) member_class \<Rightarrow> u64 \<Rightarrow> ('s, 'e) gc_state \<Rightarrow> ('s, 'e) gc_state option" where
  "member_assign_sentinel M this G = SetRawAtomic M this (kSentinelPointer (larger_cage (mc_build M))) G"

definition member_assign_copy :: "('s, 'e) member_class \<Rightarrow> u64 \<Rightarrow> u64 \<Rightarrow> ('s, 'e) gc_state \<Rightarrow> ('s, 'e) gc_state option" where
  "member_assign_copy M this other G =
     do { raw \<leftarrow> GetRawStorage other G; member_assign_storage M this raw G }"

definition member_assign_copy_base ::
    "('s, 'e) member_class \<Rightarrow> (u64 \<Rightarrow> u64) \<Rightarrow> u64 \<Rightarrow> u64 \<Rightarrow> ('s, 'e) gc_state \<Rightarrow> ('s, 'e) gc_state option" where
  "member_assign_copy_base M adjust this other G =
     do { p \<leftarrow> member_Get M other G; member_assign_raw M this (adjust p) G }"

text \<open>There is no test for self-assignment.\<close>

definition member_assign_move :: "('s, 'e) member_class \<Rightarrow> u64 \<Rightarrow> u64 \<Rightarrow> ('s, 'e) gc_state \<Rightarrow> ('s, 'e) gc_state option" where
  "member_assign_move M this other G =
     do { raw \<leftarrow> GetRawStorage other G; G1 \<leftarrow> member_assign_storage M this raw G; member_Clear M other G1 }"

definition member_assign_move_base ::
    "('s, 'e) member_class \<Rightarrow> (u64 \<Rightarrow> u64) \<Rightarrow> u64 \<Rightarrow> u64 \<Rightarrow> ('s, 'e) gc_state \<Rightarrow> ('s, 'e) gc_state option" where
  "member_assign_move_base M adjust this other G =
     do { p \<leftarrow> member_Get M other G; G1 \<leftarrow> member_assign_raw M this (adjust p) G; member_Clear M other G1 }"

definition member_Swap :: "('s, 'e) member_class \<Rightarrow> u64 \<Rightarrow> u64 \<Rightarrow> ('s, 'e) gc_state \<Rightarrow> ('s, 'e) gc_state option" where
  "member_Swap M this other G =
     do { tmp \<leftarrow> GetRawStorage this G;
          G1 \<leftarrow> member_assign_copy M this other G;
          member_assign_storage M other tmp G1 }"

definition member_Release :: "('s, 'e) member_class \<Rightarrow> u64 \<Rightarrow> ('s, 'e) gc_state \<Rightarrow> (u64 \<times> ('s, 'e) gc_state) option" where
  "member_Release M this G = do { result \<leftarrow> member_Get M this G; G1 \<leftarrow> member_Clear M this G; Some (result, G1) }"

section \<open>Comparison\<close>

definition member_bool :: "('s, 'e) member_class \<Rightarrow> u64 \<Rightarrow> ('s, 'e) gc_state \<Rightarrow> bool option" where
  "member_bool M this G = do { c \<leftarrow> member_IsCleared M this G; Some (\<not> c) }"

text \<open>Two members of the same pointee type compare their storage, of different types their pointers.\<close>

definition member_eq :: "('s, 'e) member_class \<Rightarrow> bool \<Rightarrow> u64 \<Rightarrow> u64 \<Rightarrow> ('s, 'e) gc_state \<Rightarrow> bool option" where
  "member_eq M same_type a b G =
     (if same_type then
        do { x \<leftarrow> GetRawStorage a G; y \<leftarrow> GetRawStorage b G; Some (st_eq (mc_storage M) x y) }
      else do { p \<leftarrow> member_Get M a G; q \<leftarrow> member_Get M b G; Some (p = q) })"

definition member_neq :: "('s, 'e) member_class \<Rightarrow> bool \<Rightarrow> u64 \<Rightarrow> u64 \<Rightarrow> ('s, 'e) gc_state \<Rightarrow> bool option" where
  "member_neq M same_type a b G = do { e \<leftarrow> member_eq M same_type a b G; Some (\<not> e) }"

definition member_eq_raw ::
    "('s, 'e) member_class \<Rightarrow> (u64 \<Rightarrow> u64) option \<Rightarrow> u64 \<Rightarrow> u64 \<Rightarrow> ('s, 'e) gc_state \<Rightarrow> bool option" where
  "member_eq_raw M cast member raw G =
     (case cast of
        Some adjust \<Rightarrow>
          do { x \<leftarrow> GetRawStorage member G;
               Some (st_eq (mc_storage M) x (st_of_ptr (mc_storage M) (adjust raw))) }
      | None \<Rightarrow> do { p \<leftarrow> member_Get M member G; Some (p = raw) })"

definition member_eq_sentinel :: "('s, 'e) member_class \<Rightarrow> u64 \<Rightarrow> ('s, 'e) gc_state \<Rightarrow> bool option" where
  "member_eq_sentinel M member G =
     do { x \<leftarrow> GetRawStorage member G; Some (st_IsSentinel (mc_storage M) x) }"

definition member_eq_null :: "('s, 'e) member_class \<Rightarrow> u64 \<Rightarrow> ('s, 'e) gc_state \<Rightarrow> bool option" where
  "member_eq_null M member G = do { b \<leftarrow> member_bool M member G; Some (\<not> b) }"

definition member_compare ::
    "('s \<Rightarrow> 's \<Rightarrow> bool) \<Rightarrow> u64 \<Rightarrow> u64 \<Rightarrow> ('s, 'e) gc_state \<Rightarrow> bool option" where
  "member_compare rel a b G = do { x \<leftarrow> GetRawStorage a G; y \<leftarrow> GetRawStorage b G; Some (rel x y) }"

definition member_less :: "('s, 'e) member_class \<Rightarrow> u64 \<Rightarrow> u64 \<Rightarrow> ('s, 'e) gc_state \<Rightarrow> bool option" where
  "member_less M a b G = member_compare (st_less (mc_storage M)) a b G"

definition member_less_eq :: "('s, 'e) member_class \<Rightarrow> u64 \<Rightarrow> u64 \<Rightarrow> ('s, 'e) gc_state \<Rightarrow> bool option" where
  "member_less_eq M a b G = member_compare (st_less_eq (mc_storage M)) a b G"

definition member_greater :: "('s, 'e) member_class \<Rightarrow> u64 \<Rightarrow> u64 \<Rightarrow> ('s, 'e) gc_state \<Rightarrow> bool option" where
  "member_greater M a b G = member_compare (st_greater (mc_storage M)) a b G"

definition member_greater_eq :: "('s, 'e) member_class \<Rightarrow> u64 \<Rightarrow> u64 \<Rightarrow> ('s, 'e) gc_state \<Rightarrow> bool option" where
  "member_greater_eq M a b G = member_compare (st_greater_eq (mc_storage M)) a b G"

section \<open>Members are pointer variables\<close>

datatype member_op =
    NewNull u64 | NewSentinel u64 | NewRaw u64 u64 | NewCopy u64 u64 | NewCopyBase "u64 \<Rightarrow> u64" u64 u64
  | NewMove u64 u64 | NewMoveBase "u64 \<Rightarrow> u64" u64 u64
  | AssignRaw u64 u64 | AssignNull u64 | AssignSentinel u64 | AssignCopy u64 u64 | AssignCopyBase "u64 \<Rightarrow> u64" u64 u64
  | AssignMove u64 u64 | AssignMoveBase "u64 \<Rightarrow> u64" u64 u64 | SwapWith u64 u64 | Release u64 | ClearFromGC u64

primrec run_member_op :: "('s, 'e) member_class \<Rightarrow> member_op \<Rightarrow> ('s, 'e) gc_state \<Rightarrow> ('s, 'e) gc_state option" where
  "run_member_op M (NewNull a) G = Some (member_new_null M a G)"
| "run_member_op M (NewSentinel a) G = Some (member_new_sentinel M a G)"
| "run_member_op M (NewRaw a p) G = Some (member_new_raw M a p G)"
| "run_member_op M (NewCopy a b) G = member_new_copy M a b G"
| "run_member_op M (NewCopyBase f a b) G = member_new_copy_base M f a b G"
| "run_member_op M (NewMove a b) G = member_new_move M a b G"
| "run_member_op M (NewMoveBase f a b) G = member_new_move_base M f a b G"
| "run_member_op M (AssignRaw a p) G = member_assign_raw M a p G"
| "run_member_op M (AssignNull a) G = member_assign_null M a G"
| "run_member_op M (AssignSentinel a) G = member_assign_sentinel M a G"
| "run_member_op M (AssignCopy a b) G = member_assign_copy M a b G"
| "run_member_op M (AssignCopyBase f a b) G = member_assign_copy_base M f a b G"
| "run_member_op M (AssignMove a b) G = member_assign_move M a b G"
| "run_member_op M (AssignMoveBase f a b) G = member_assign_move_base M f a b G"
| "run_member_op M (SwapWith a b) G = member_Swap M a b G"
| "run_member_op M (Release a) G = map_option snd (member_Release M a G)"
| "run_member_op M (ClearFromGC a) G = member_ClearFromGC M a G"

text \<open>The same operations on plain pointer variables.\<close>

definition set_var :: "u64 \<Rightarrow> u64 \<Rightarrow> (u64 \<rightharpoonup> u64) \<Rightarrow> (u64 \<rightharpoonup> u64) option" where
  "set_var a p m = (case m a of None \<Rightarrow> None | Some _ \<Rightarrow> Some (m(a \<mapsto> p)))"

primrec pointer_op :: "u64 \<Rightarrow> member_op \<Rightarrow> (u64 \<rightharpoonup> u64) \<Rightarrow> (u64 \<rightharpoonup> u64) option" where
  "pointer_op sentinel (NewNull a) m = Some (m(a \<mapsto> 0))"
| "pointer_op sentinel (NewSentinel a) m = Some (m(a \<mapsto> sentinel))"
| "pointer_op sentinel (NewRaw a p) m = Some (m(a \<mapsto> p))"
| "pointer_op sentinel (NewCopy a b) m = do { p \<leftarrow> m b; Some (m(a \<mapsto> p)) }"
| "pointer_op sentinel (NewCopyBase f a b) m = do { p \<leftarrow> m b; Some (m(a \<mapsto> f p)) }"
| "pointer_op sentinel (NewMove a b) m = do { p \<leftarrow> m b; Some (m(a \<mapsto> p, b \<mapsto> 0)) }"
| "pointer_op sentinel (NewMoveBase f a b) m = do { p \<leftarrow> m b; Some (m(a \<mapsto> f p, b \<mapsto> 0)) }"
| "pointer_op sentinel (AssignRaw a p) m = set_var a p m"
| "pointer_op sentinel (AssignNull a) m = set_var a 0 m"
| "pointer_op sentinel (AssignSentinel a) m = set_var a sentinel m"
| "pointer_op sentinel (AssignCopy a b) m = do { p \<leftarrow> m b; set_var a p m }"
| "pointer_op sentinel (AssignCopyBase f a b) m = do { p \<leftarrow> m b; set_var a (f p) m }"
| "pointer_op sentinel (AssignMove a b) m = do { p \<leftarrow> m b; m1 \<leftarrow> set_var a p m; set_var b 0 m1 }"
| "pointer_op sentinel (AssignMoveBase f a b) m = do { p \<leftarrow> m b; m1 \<leftarrow> set_var a (f p) m; set_var b 0 m1 }"
| "pointer_op sentinel (SwapWith a b) m = do { p \<leftarrow> m a; q \<leftarrow> m b; Some (m(a \<mapsto> q, b \<mapsto> p)) }"
| "pointer_op sentinel (Release a) m = set_var a 0 m"
| "pointer_op sentinel (ClearFromGC a) m = set_var a 0 m"

definition ptrs :: "('s, 'e) member_class \<Rightarrow> ('s, 'e) gc_state \<Rightarrow> u64 \<rightharpoonup> u64" where
  "ptrs M G = (\<lambda>a. map_option (st_Load (mc_storage M)) (slots G a))"

text \<open>What the storage must do: load back the pointers it can hold.\<close>

definition storage_exact :: "('s, 'e) member_class \<Rightarrow> (u64 \<Rightarrow> bool) \<Rightarrow> bool" where
  "storage_exact M can_hold \<longleftrightarrow>
     (let S = mc_storage M; sentinel = kSentinelPointer (larger_cage (mc_build M)) in
        can_hold 0 \<and> can_hold sentinel \<and> st_Load S (st_default S) = 0 \<and> st_Load S (st_sentinel S) = sentinel \<and>
        (\<forall>s. st_Load S (st_Clear S s) = 0) \<and>
        (\<forall>p s. can_hold p \<longrightarrow> st_Load S (st_of_ptr S p) = p \<and> st_Load S (st_StoreAtomic S p s) = p))"

lemma compressed_exact:
  assumes "base_ok (larger_cage B) base"
  shows "storage_exact \<lparr>mc_lib = L, mc_build = B, mc_storage = compressed_storage (larger_cage B) base, mc_policy = P\<rparr>
    (holdable (larger_cage B) base)"
proof -
  note inv = Decompress_Compress [OF assms]
  have h: "holdable (larger_cage B) base 0" "holdable (larger_cage B) base (kSentinelPointer (larger_cage B))"
    by (simp_all add: holdable_def)
  have "kCompressedSentinel (larger_cage B) = Compress (larger_cage B) (kSentinelPointer (larger_cage B))"
    by (simp add: kCompressedSentinel_def Compress_def)
  then show ?thesis using h inv inv [OF h(1)] inv [OF h(2)] Compress_small(1)
    by (simp add: storage_exact_def compressed_storage_def CP_of_ptr_def CP_Load_def CP_default_def CP_sentinel_def
        CP_Clear_def CP_StoreAtomic_def)
qed

lemma raw_exact:
  "storage_exact \<lparr>mc_lib = L, mc_build = B, mc_storage = raw_storage (larger_cage B), mc_policy = P\<rparr> (\<lambda>_. True)"
  by (simp add: storage_exact_def raw_storage_def RP_of_ptr_def RP_Load_def RP_default_def RP_Clear_def RP_StoreAtomic_def)

text \<open>The pointers an operation brings in are ones the storage can hold.\<close>

definition op_holds :: "(u64 \<Rightarrow> bool) \<Rightarrow> member_op \<Rightarrow> bool" where
  "op_holds can_hold op =
     (case op of
        NewRaw a p \<Rightarrow> can_hold p
      | AssignRaw a p \<Rightarrow> can_hold p
      | NewCopyBase f a b \<Rightarrow> (\<forall>p. can_hold p \<longrightarrow> can_hold (f p))
      | NewMoveBase f a b \<Rightarrow> (\<forall>p. can_hold p \<longrightarrow> can_hold (f p))
      | AssignCopyBase f a b \<Rightarrow> (\<forall>p. can_hold p \<longrightarrow> can_hold (f p))
      | AssignMoveBase f a b \<Rightarrow> (\<forall>p. can_hold p \<longrightarrow> can_hold (f p))
      | _ \<Rightarrow> True)"

section \<open>What the barriers leave alone\<close>

lemma Get_storage_eq: "GetWriteBarrierType_storage B Load a s params G = GetWriteBarrierType B a (Load s) params G"
  by (simp add: GetWriteBarrierType_storage_def GetWriteBarrierType_def Caged_Get_storage_def Caged_Get_def
      NonCaged_Get_storage_def)

lemma AssigningBarrier_storage_eq:
  "AssigningBarrier_storage L B P t Load a s G = AssigningBarrier L B P t a (Load s) G"
  by (cases P) (simp_all add: AssigningBarrier_storage_def AssigningBarrier_def Get_storage_eq)

lemma AssigningBarrier_off: "\<not> WriteBarrier_IsEnabled G \<Longrightarrow> AssigningBarrier L B P t a p G = Some G"
  by (simp add: AssigningBarrier_def GetWriteBarrierType_def Caged_Get_def NonCaged_Get_def Policy_WriteBarrier_def
      split: WriteBarrierPolicy.split)

lemma GenerationalBarrier_marker: "GenerationalBarrier L B t params a G = Some G' \<Longrightarrow> \<exists>e. G' = G\<lparr>marker := e\<rparr>"
  by (cases t; auto simp: GenerationalBarrier_def split: if_splits intro: exI [of _ "marker G"])

lemma Policy_WriteBarrier_marker: "Policy_WriteBarrier L B t params a p G = Some G' \<Longrightarrow> \<exists>e. G' = G\<lparr>marker := e\<rparr>"
  by (cases t) (auto simp: Policy_WriteBarrier_def DijkstraMarkingBarrier_def dest: GenerationalBarrier_marker
      intro: exI [of _ "marker G"])

lemma AssigningBarrier_marker: "AssigningBarrier L B P t a p G = Some G' \<Longrightarrow> \<exists>e. G' = G\<lparr>marker := e\<rparr>"
  by (auto simp: AssigningBarrier_def split: WriteBarrierPolicy.splits if_splits dest: Policy_WriteBarrier_marker
      intro: exI [of _ "marker G"])

section \<open>One step of a member\<close>

abbreviation member_barrier :: "('s, 'e) member_class \<Rightarrow> u64 \<Rightarrow> u64 \<Rightarrow> ('s, 'e) gc_state \<Rightarrow> ('s, 'e) gc_state option" where
  "member_barrier M \<equiv> AssigningBarrier (mc_lib M) (mc_build M) (mc_policy M) (kWriteBarrierSlotType (mc_storage M))"

lemma put_slot_sel [simp]:
  "slots (put_slot a s G) = (slots G)(a \<mapsto> s)" "entries (put_slot a s G) = entries G"
  "pages (put_slot a s G) = pages G" "heap_handles (put_slot a s G) = heap_handles G" "marker (put_slot a s G) = marker G"
  by (simp_all add: put_slot_def)

lemma enabled_simps [simp]:
  "WriteBarrier_IsEnabled (put_slot a s G) = WriteBarrier_IsEnabled G"
  "WriteBarrier_IsEnabled (G\<lparr>marker := e\<rparr>) = WriteBarrier_IsEnabled G"
  by (simp_all add: WriteBarrier_IsEnabled_def MightBeEntered_def)

lemma Initializing [simp]: "InitializingWriteBarrier M a p G = G"
  by (simp add: InitializingWriteBarrier_def InitializingBarrier_def split: WriteBarrierPolicy.split)

lemma assign_raw_eq:
  "member_assign_raw M a p G = (case slots G a of None \<Rightarrow> None
     | Some s \<Rightarrow> member_barrier M a p (put_slot a (st_StoreAtomic (mc_storage M) p s) G))"
  by (simp add: member_assign_raw_def SetRawAtomic_def AssigningWriteBarrier_def split: option.split)

lemma assign_storage_eq:
  "member_assign_storage M a s G = (case slots G a of None \<Rightarrow> None
     | Some _ \<Rightarrow> member_barrier M a (st_Load (mc_storage M) s) (put_slot a s G))"
  by (simp add: member_assign_storage_def SetRawStorageAtomic_def AssigningWriteBarrier_storage_def GetRawStorage_def
      AssigningBarrier_storage_eq split: option.split)

lemma Clear_eq:
  "member_Clear M a G = (case slots G a of None \<Rightarrow> None | Some _ \<Rightarrow> Some (put_slot a (st_default (mc_storage M)) G))"
  by (simp add: member_Clear_def SetRawStorageAtomic_def split: option.split)

lemmas member_defs = member_new_null_def member_new_sentinel_def member_new_raw_def member_new_storage_def
  member_new_copy_def member_new_copy_base_def member_new_move_def member_new_move_base_def member_assign_null_def
  member_assign_sentinel_def member_assign_copy_def member_assign_copy_base_def member_assign_move_def
  member_assign_move_base_def member_Swap_def member_Release_def member_ClearFromGC_def member_Get_def GetRaw_def
  GetRawStorage_def SetRawAtomic_def

section \<open>The refinement\<close>

lemma ptrs_put [simp]: "ptrs M (put_slot a s G) = (ptrs M G)(a \<mapsto> st_Load (mc_storage M) s)"
  by (auto simp: ptrs_def)

lemma ptrs_marker [simp]: "ptrs M (G\<lparr>marker := e\<rparr>) = ptrs M G"
  by (simp add: ptrs_def)

lemma ptrs_at: "slots G a = None \<Longrightarrow> ptrs M G a = None" "slots G a = Some s \<Longrightarrow> ptrs M G a = Some (st_Load (mc_storage M) s)"
  by (simp_all add: ptrs_def)

text \<open>An operation and its pointer assignment agree: both undefined, or the same pointers afterwards. With the
  barrier enabled the operation may be undefined where the assignment is not.\<close>

definition agrees ::
    "('s, 'e) member_class \<Rightarrow> bool \<Rightarrow> ('s, 'e) gc_state option \<Rightarrow> (u64 \<rightharpoonup> u64) option \<Rightarrow> bool" where
  "agrees M enabled r m \<longleftrightarrow> (case r of Some G' \<Rightarrow> m = Some (ptrs M G') | None \<Rightarrow> enabled \<or> m = None)"

lemma agrees_simps [simp]: "agrees M e (Some G') m \<longleftrightarrow> m = Some (ptrs M G')" "agrees M e None m \<longleftrightarrow> e \<or> m = None"
  by (simp_all add: agrees_def)

lemma barrier_agrees:
  obtains e where "member_barrier M a p G = Some (G\<lparr>marker := e\<rparr>)" | "member_barrier M a p G = None" "WriteBarrier_IsEnabled G"
  using AssigningBarrier_marker [of "mc_lib M" "mc_build M" "mc_policy M" "kWriteBarrierSlotType (mc_storage M)" a p G]
    AssigningBarrier_off [of G "mc_lib M" "mc_build M" "mc_policy M" "kWriteBarrierSlotType (mc_storage M)" a p]
  by (cases "member_barrier M a p G") auto

lemma assign_raw_agrees:
  assumes "storage_exact M can_hold" "can_hold p"
  obtains G' where "member_assign_raw M a p G = Some G'" "set_var a p (ptrs M G) = Some (ptrs M G')"
      "slots G a \<noteq> None" "WriteBarrier_IsEnabled G' = WriteBarrier_IsEnabled G" "dom (slots G') = dom (slots G)"
  | "member_assign_raw M a p G = None" "WriteBarrier_IsEnabled G \<or> set_var a p (ptrs M G) = None"
proof (cases "slots G a")
  case None
  then show ?thesis using that by (simp add: assign_raw_eq set_var_def ptrs_at)
next
  case (Some s)
  have "st_Load (mc_storage M) (st_StoreAtomic (mc_storage M) p s) = p" using assms by (simp add: storage_exact_def Let_def)
  then show ?thesis
    by (cases rule: barrier_agrees [of M a p "put_slot a (st_StoreAtomic (mc_storage M) p s) G"])
      (use Some that in \<open>auto simp: assign_raw_eq set_var_def ptrs_at\<close>)
qed

lemma assign_storage_agrees:
  obtains G' where "member_assign_storage M a s G = Some G'"
      "set_var a (st_Load (mc_storage M) s) (ptrs M G) = Some (ptrs M G')"
      "slots G a \<noteq> None" "WriteBarrier_IsEnabled G' = WriteBarrier_IsEnabled G" "dom (slots G') = dom (slots G)"
  | "member_assign_storage M a s G = None" "WriteBarrier_IsEnabled G \<or> set_var a (st_Load (mc_storage M) s) (ptrs M G) = None"
proof (cases "slots G a")
  case None
  then show ?thesis using that by (simp add: assign_storage_eq set_var_def ptrs_at)
next
  case (Some _)
  then show ?thesis
    by (cases rule: barrier_agrees [of M a "st_Load (mc_storage M) s" "put_slot a s G"])
      (use Some that in \<open>auto simp: assign_storage_eq set_var_def ptrs_at\<close>)
qed

lemma exact_simps:
  assumes "storage_exact M can_hold"
  shows "st_Load (mc_storage M) (st_default (mc_storage M)) = 0"
    "st_Load (mc_storage M) (st_sentinel (mc_storage M)) = kSentinelPointer (larger_cage (mc_build M))"
    "st_Load (mc_storage M) (st_Clear (mc_storage M) s) = 0"
    "can_hold p \<Longrightarrow> st_Load (mc_storage M) (st_of_ptr (mc_storage M) p) = p"
    "can_hold p \<Longrightarrow> st_Load (mc_storage M) (st_StoreAtomic (mc_storage M) p s) = p"
    "can_hold 0" "can_hold (kSentinelPointer (larger_cage (mc_build M)))"
  using assms by (simp_all add: storage_exact_def Let_def)

lemma copy_agrees:
  assumes exact: "storage_exact M can_hold"
  shows "agrees M (WriteBarrier_IsEnabled G) (member_assign_copy M a b G)
    (pointer_op (kSentinelPointer (larger_cage (mc_build M))) (AssignCopy a b) (ptrs M G))"
proof (cases "slots G b")
  case None
  then show ?thesis by (simp add: member_defs ptrs_at)
next
  case (Some s)
  then show ?thesis
    by (cases rule: assign_storage_agrees [of M a s G]) (auto simp: member_defs ptrs_at)
qed

lemma copy_base_agrees:
  assumes exact: "storage_exact M can_hold"
    and held: "\<And>a s. slots G a = Some s \<Longrightarrow> can_hold (st_Load (mc_storage M) s)"
    and adj: "\<And>p. can_hold p \<Longrightarrow> can_hold (f p)"
  shows "agrees M (WriteBarrier_IsEnabled G) (member_assign_copy_base M f a b G)
    (pointer_op (kSentinelPointer (larger_cage (mc_build M))) (AssignCopyBase f a b) (ptrs M G))"
proof (cases "slots G b")
  case None
  then show ?thesis by (simp add: member_defs ptrs_at)
next
  case (Some s)
  then have "can_hold (f (st_Load (mc_storage M) s))" using adj held by blast
  then show ?thesis using Some
    by (cases rule: assign_raw_agrees [OF exact, of "f (st_Load (mc_storage M) s)" a G]) (auto simp: member_defs ptrs_at)
qed

lemma move_agrees:
  assumes exact: "storage_exact M can_hold"
  shows "agrees M (WriteBarrier_IsEnabled G) (member_assign_move M a b G)
    (pointer_op (kSentinelPointer (larger_cage (mc_build M))) (AssignMove a b) (ptrs M G))"
proof (cases "slots G b")
  case None
  then show ?thesis by (simp add: member_defs ptrs_at)
next
  case (Some s)
  show ?thesis
  proof (cases rule: assign_storage_agrees [of M a s G])
    case (1 G')
    then obtain t where "slots G' b = Some t" using Some by blast
    then show ?thesis using 1 Some by (simp add: member_defs Clear_eq ptrs_at exact_simps [OF exact] set_var_def)
  qed (use Some in \<open>auto simp: member_defs ptrs_at\<close>)
qed

lemma move_base_agrees:
  assumes exact: "storage_exact M can_hold"
    and held: "\<And>a s. slots G a = Some s \<Longrightarrow> can_hold (st_Load (mc_storage M) s)"
    and adj: "\<And>p. can_hold p \<Longrightarrow> can_hold (f p)"
  shows "agrees M (WriteBarrier_IsEnabled G) (member_assign_move_base M f a b G)
    (pointer_op (kSentinelPointer (larger_cage (mc_build M))) (AssignMoveBase f a b) (ptrs M G))"
proof (cases "slots G b")
  case None
  then show ?thesis by (simp add: member_defs ptrs_at)
next
  case (Some s)
  then have h: "can_hold (f (st_Load (mc_storage M) s))" using adj held by blast
  show ?thesis
  proof (cases rule: assign_raw_agrees [OF exact h, of a G])
    case (1 G')
    then obtain t where "slots G' b = Some t" using Some by blast
    then show ?thesis using 1 Some by (simp add: member_defs Clear_eq ptrs_at exact_simps [OF exact] set_var_def)
  qed (use Some in \<open>auto simp: member_defs ptrs_at\<close>)
qed

lemma swap_agrees:
  assumes exact: "storage_exact M can_hold"
  shows "agrees M (WriteBarrier_IsEnabled G) (member_Swap M a b G)
    (pointer_op (kSentinelPointer (larger_cage (mc_build M))) (SwapWith a b) (ptrs M G))"
proof (cases "slots G a")
  case None
  then show ?thesis by (simp add: member_defs ptrs_at)
next
  case a: (Some s)
  show ?thesis
  proof (cases "slots G b")
    case None
    then show ?thesis using a by (simp add: member_defs ptrs_at)
  next
    case b: (Some t)
    show ?thesis
    proof (cases rule: assign_storage_agrees [of M a t G])
      case (1 G1)
      then have p: "ptrs M G1 = (ptrs M G)(a \<mapsto> st_Load (mc_storage M) t)"
        using a by (simp add: set_var_def ptrs_at)
      have "ptrs M G1 b \<noteq> None" using p b by (auto simp: ptrs_at)
      then show ?thesis
        by (cases rule: assign_storage_agrees [of M b s G1])
          (use a b 1(1,4) p in \<open>auto simp: member_defs ptrs_at set_var_def\<close>)
    qed (use a b in \<open>auto simp: member_defs ptrs_at set_var_def\<close>)
  qed
qed

lemma member_op_agrees:
  assumes exact: "storage_exact M can_hold" and op: "op_holds can_hold op"
    and held: "\<And>a s. slots G a = Some s \<Longrightarrow> can_hold (st_Load (mc_storage M) s)"
  shows "agrees M (WriteBarrier_IsEnabled G) (run_member_op M op G)
    (pointer_op (kSentinelPointer (larger_cage (mc_build M))) op (ptrs M G))"
proof -
  note step = member_defs Clear_eq set_var_def exact_simps [OF exact]
  show ?thesis
  proof (cases op)
    case (NewCopy a b)
    then show ?thesis by (cases "slots G b") (simp_all add: step ptrs_at)
  next
    case (NewCopyBase f a b)
    then show ?thesis using op held [of b]
      by (cases "slots G b") (simp_all add: step ptrs_at op_holds_def)
  next
    case (NewMove a b)
    then show ?thesis by (cases "slots G b") (simp_all add: step ptrs_at)
  next
    case (NewMoveBase f a b)
    then show ?thesis using op held [of b]
      by (cases "slots G b") (simp_all add: step ptrs_at op_holds_def)
  next
    case (AssignRaw a p)
    then have "can_hold p" using op by (simp add: op_holds_def)
    then show ?thesis using AssignRaw by (cases rule: assign_raw_agrees [OF exact, of p a G]) auto
  next
    case (AssignNull a)
    then show ?thesis by (cases "slots G a") (simp_all add: step ptrs_at)
  next
    case (AssignSentinel a)
    then show ?thesis by (cases "slots G a") (simp_all add: step ptrs_at)
  next
    case (AssignCopy a b)
    then show ?thesis using copy_agrees [OF exact] by simp
  next
    case (AssignCopyBase f a b)
    then show ?thesis using copy_base_agrees [OF exact] held op by (simp add: op_holds_def)
  next
    case (AssignMove a b)
    then show ?thesis using move_agrees [OF exact] by simp
  next
    case (AssignMoveBase f a b)
    then show ?thesis using move_base_agrees [OF exact] held op by (simp add: op_holds_def)
  next
    case (SwapWith a b)
    then show ?thesis using swap_agrees [OF exact] by simp
  next
    case (Release a)
    then show ?thesis by (cases "slots G a") (simp_all add: step ptrs_at)
  next
    case (ClearFromGC a)
    then show ?thesis by (cases "slots G a") (simp_all add: step ptrs_at)
  qed (use op in \<open>simp_all add: step op_holds_def\<close>)
qed

text \<open>C24: every operation of a member is an assignment of pointer variables: construction, copy, move, swap,
  release and clearing change exactly the pointers they should, in either storage and under either policy,
  and without an enabled barrier they are undefined only on a member that does not exist. (A move of a
  member to itself clears it.)\<close>

theorem member_ops_refine:
  assumes exact: "storage_exact M can_hold" and op: "op_holds can_hold op"
    and held: "\<And>a s. slots G a = Some s \<Longrightarrow> can_hold (st_Load (mc_storage M) s)"
  shows "case run_member_op M op G of
      Some G' \<Rightarrow> pointer_op (kSentinelPointer (larger_cage (mc_build M))) op (ptrs M G) = Some (ptrs M G')
    | None \<Rightarrow> WriteBarrier_IsEnabled G \<or>
        pointer_op (kSentinelPointer (larger_cage (mc_build M))) op (ptrs M G) = None"
  unfolding agrees_def [symmetric] by (rule member_op_agrees [OF assms])

section \<open>Incremental marking\<close>

text \<open>The library's view of marking: \<open>marked e\<close> is the set of objects that are marked or queued for it, and
  \<open>black e a\<close> says that the object with the slot \<open>a\<close> has been traced, so that the marker will not look at the
  slot again. The slow paths of the Dijkstra barrier mark the object, the combined one marks what the slot
  holds; no barrier unmarks or traces anything.\<close>

definition barrier_applies :: "build \<Rightarrow> u64 \<Rightarrow> u64 \<Rightarrow> bool" where
  "barrier_applies B slot value \<longleftrightarrow>
     (if caged_heap B then AreWithinCage (larger_cage B) (heap_base B) slot value
      else kSentinelPointer (larger_cage B) < value)"

definition marks :: "('s, 'e) member_class \<Rightarrow> ('e \<Rightarrow> u64 set) \<Rightarrow> ('e \<Rightarrow> u64 \<Rightarrow> bool) \<Rightarrow> bool" where
  "marks M marked black \<longleftrightarrow>
     (\<forall>p e. insert p (marked e) \<subseteq> marked (DijkstraMarkingBarrierSlow (mc_lib M) p e) \<and>
        black (DijkstraMarkingBarrierSlow (mc_lib M) p e) = black e) \<and>
     (\<forall>p e. marked e \<subseteq> marked (DijkstraMarkingBarrierSlowWithSentinelCheck (mc_lib M) p e) \<and>
        (kSentinelPointer (larger_cage (mc_build M)) < p \<longrightarrow>
           p \<in> marked (DijkstraMarkingBarrierSlowWithSentinelCheck (mc_lib M) p e)) \<and>
        black (DijkstraMarkingBarrierSlowWithSentinelCheck (mc_lib M) p e) = black e) \<and>
     (\<forall>t a m e. marked e \<subseteq> marked (CombinedWriteBarrierSlow (mc_lib M) t a m e) \<and>
        (\<forall>s. m a = Some s \<longrightarrow> barrier_applies (mc_build M) a (st_Load (mc_storage M) s) \<longrightarrow>
           st_Load (mc_storage M) s \<in> marked (CombinedWriteBarrierSlow (mc_lib M) t a m e)) \<and>
        black (CombinedWriteBarrierSlow (mc_lib M) t a m e) = black e)"

text \<open>Every heap is being marked and the barrier is enabled; the cage is not at the bottom of the address
  space, so neither null nor the sentinel is in it.\<close>

definition marking_on :: "('s, 'e) gc_state \<Rightarrow> bool" where
  "marking_on G \<longleftrightarrow> WriteBarrier_IsEnabled G \<and>
     (\<forall>h handle. heap_handles G h = Some handle \<longrightarrow> is_incremental_marking_in_progress handle)"

definition cage_placed :: "build \<Rightarrow> bool" where
  "cage_placed B \<longleftrightarrow> caged_heap B \<longrightarrow> drop_bit (31 + kPointerCompressionShift (larger_cage B)) (heap_base B) \<noteq> 0"

text \<open>No traced object has a member that points to an unmarked object.\<close>

definition no_black_to_white ::
    "('s, 'e) member_class \<Rightarrow> ('e \<Rightarrow> u64 set) \<Rightarrow> ('e \<Rightarrow> u64 \<Rightarrow> bool) \<Rightarrow> ('s, 'e) gc_state \<Rightarrow> bool" where
  "no_black_to_white M marked black G \<longleftrightarrow>
     (\<forall>a s. slots G a = Some s \<longrightarrow> black (marker G) a \<longrightarrow>
        barrier_applies (mc_build M) a (st_Load (mc_storage M) s) \<longrightarrow> st_Load (mc_storage M) s \<in> marked (marker G))"

definition slots_hold :: "('s, 'e) member_class \<Rightarrow> (u64 \<Rightarrow> bool) \<Rightarrow> ('s, 'e) gc_state \<Rightarrow> bool" where
  "slots_hold M can_hold G \<longleftrightarrow> (\<forall>a s. slots G a = Some s \<longrightarrow> can_hold (st_Load (mc_storage M) s))"

text \<open>What a step keeps; \<open>K\<close> is the colour of the slots, which only the marker changes.\<close>

definition marking_ok ::
    "('s, 'e) member_class \<Rightarrow> (u64 \<Rightarrow> bool) \<Rightarrow> ('e \<Rightarrow> u64 set) \<Rightarrow> ('e \<Rightarrow> u64 \<Rightarrow> bool) \<Rightarrow> (u64 \<Rightarrow> bool) \<Rightarrow>
       ('s, 'e) gc_state \<Rightarrow> bool" where
  "marking_ok M can_hold marked black K G \<longleftrightarrow>
     marking_on G \<and> slots_hold M can_hold G \<and> no_black_to_white M marked black G \<and> black (marker G) = K"

lemma or_zeroD: "x OR y = 0 \<Longrightarrow> y = (0 :: u64)"
proof -
  assume "x OR y = 0"
  moreover have "y = y AND (x OR y)" by (rule bit_word_eqI) (auto simp: bit_simps)
  ultimately show "y = 0" by simp
qed

lemma not_applies:
  assumes "cage_placed B" "p = 0 \<or> p = kSentinelPointer (larger_cage B)"
  shows "\<not> barrier_applies B a p"
proof (cases "caged_heap B")
  case False
  with assms(2) show ?thesis by (auto simp: barrier_applies_def)
next
  case True
  let ?n = "31 + kPointerCompressionShift (larger_cage B)"
  have "drop_bit ?n p = 0"
    using assms(2) by (auto simp: kSentinelPointer_def kPointerCompressionShift_def split: if_splits)
  then have "drop_bit ?n (p XOR heap_base B) \<noteq> 0" using True assms(1) by (simp add: cage_placed_def)
  then have "drop_bit ?n ((a XOR heap_base B) OR (p XOR heap_base B)) \<noteq> 0"
    unfolding drop_bit_or using or_zeroD by blast
  then show ?thesis using True by (simp only: barrier_applies_def AreWithinCage_def Let_def if_True not_False_eq_True)
qed

lemma page_heap_marking:
  "marking_on G \<Longrightarrow> page_heap_handle p G = Some (h, handle) \<Longrightarrow> is_incremental_marking_in_progress handle"
  by (auto simp: page_heap_handle_def marking_on_def)

text \<open>With marking on, a barrier that applies marks the value.\<close>

lemma marking_type:
  assumes on: "marking_on G" and t: "GetWriteBarrierType B a p Params_default G = Some (t, params)"
  shows "t = (if barrier_applies B a p then kMarking else kNone)"
proof -
  have e: "WriteBarrier_IsEnabled G" using on by (simp add: marking_on_def)
  show ?thesis
    using t e page_heap_marking [OF on, of p]
    by (auto simp: GetWriteBarrierType_def Caged_Get_def Caged_BarrierEnabledGet_def NonCaged_Get_def
        barrier_applies_def not_le split: if_splits)
qed

lemma barrier_marks:
  assumes m: "marks M marked black" and P: "mc_policy M = DijkstraWriteBarrierPolicy" and on: "marking_on G"
    and s: "slots G a = Some s" "st_Load (mc_storage M) s = p" and r: "member_barrier M a p G = Some G'"
  obtains e where "G' = G\<lparr>marker := e\<rparr>" "marked (marker G) \<subseteq> marked e" "black e = black (marker G)"
    "barrier_applies (mc_build M) a p \<Longrightarrow> p \<in> marked e"
proof (cases "slim_barrier (mc_build M)")
  case True
  have "WriteBarrier_IsEnabled G" using on by (simp add: marking_on_def)
  with True r P have "G' = G\<lparr>marker := CombinedWriteBarrierSlow (mc_lib M) (kWriteBarrierSlotType (mc_storage M)) a
      (slots G) (marker G)\<rparr>"
    by (simp add: AssigningBarrier_def)
  then show thesis by (rule that) (use m s(1) in \<open>auto simp: marks_def s(2) [symmetric]\<close>)
next
  case False
  then obtain t params where t: "GetWriteBarrierType (mc_build M) a p Params_default G = Some (t, params)"
    "Policy_WriteBarrier (mc_lib M) (mc_build M) t params a p G = Some G'"
    using r P by (auto simp: AssigningBarrier_def)
  show thesis
  proof (cases "barrier_applies (mc_build M) a p")
    case f: False
    then have "G' = G\<lparr>marker := marker G\<rparr>" using t(2) marking_type [OF on t(1)] by (simp add: Policy_WriteBarrier_def)
    then show thesis by (rule that) (use f in simp_all)
  next
    case True
    then have "G' = DijkstraMarkingBarrier (mc_lib M) (mc_build M) params p G"
      using t(2) marking_type [OF on t(1)] by (simp add: Policy_WriteBarrier_def)
    then show thesis
      by (cases "caged_heap (mc_build M)")
        (use True m that in \<open>auto simp: DijkstraMarkingBarrier_def marks_def barrier_applies_def\<close>)
  qed
qed

section \<open>No operation hides an object\<close>

lemma put_marking_ok:
  assumes ok: "marking_ok M can_hold marked black K G" and h: "can_hold (st_Load (mc_storage M) s)"
    and white: "\<not> K a \<or> \<not> barrier_applies (mc_build M) a (st_Load (mc_storage M) s)"
  shows "marking_ok M can_hold marked black K (put_slot a s G)"
  using assms by (auto simp: marking_ok_def marking_on_def slots_hold_def no_black_to_white_def)

lemma assign_marking_ok:
  assumes m: "marks M marked black" "mc_policy M = DijkstraWriteBarrierPolicy"
    and ok: "marking_ok M can_hold marked black K G" and h: "can_hold (st_Load (mc_storage M) s)"
    and r: "member_barrier M a (st_Load (mc_storage M) s) (put_slot a s G) = Some G'"
  shows "marking_ok M can_hold marked black K G'"
proof -
  have on: "marking_on (put_slot a s G)" using ok by (simp add: marking_ok_def marking_on_def)
  have at: "slots (put_slot a s G) a = Some s" by simp
  obtain e where e: "G' = put_slot a s G\<lparr>marker := e\<rparr>" "marked (marker G) \<subseteq> marked e" "black e = black (marker G)"
    "barrier_applies (mc_build M) a (st_Load (mc_storage M) s) \<Longrightarrow> st_Load (mc_storage M) s \<in> marked e"
    by (rule barrier_marks [OF m on at refl r]) auto
  have "no_black_to_white M marked black G'"
    using ok e(2,3,4) by (auto simp: e(1) marking_ok_def no_black_to_white_def)
  then show ?thesis using ok h e(3) by (auto simp: e(1) marking_ok_def marking_on_def slots_hold_def)
qed

lemma assign_storage_marking_ok:
  assumes "marks M marked black" "mc_policy M = DijkstraWriteBarrierPolicy"
    and "marking_ok M can_hold marked black K G" "can_hold (st_Load (mc_storage M) s)"
    and "member_assign_storage M a s G = Some G'"
  shows "marking_ok M can_hold marked black K G'"
  using assms assign_marking_ok [OF assms(1-4)] by (auto simp: assign_storage_eq split: option.splits)

lemma assign_raw_marking_ok:
  assumes "marks M marked black" "mc_policy M = DijkstraWriteBarrierPolicy" and e: "storage_exact M can_hold"
    and "marking_ok M can_hold marked black K G" and h: "can_hold p"
    and "member_assign_raw M a p G = Some G'"
  shows "marking_ok M can_hold marked black K G'"
  using assms assign_marking_ok [OF assms(1,2,4), of "st_StoreAtomic (mc_storage M) p s" for s]
  by (auto simp: assign_raw_eq exact_simps(5) [OF e h] split: option.splits)

lemma Clear_marking_ok:
  assumes e: "storage_exact M can_hold" and c: "cage_placed (mc_build M)"
    and ok: "marking_ok M can_hold marked black K G" and r: "member_Clear M a G = Some G'"
  shows "marking_ok M can_hold marked black K G'"
  using r put_marking_ok [OF ok, of "st_default (mc_storage M)" a] exact_simps [OF e] not_applies [OF c]
  by (auto simp: Clear_eq split: option.splits)

lemma held_storage:
  "marking_ok M can_hold marked black K G \<Longrightarrow> slots G a = Some s \<Longrightarrow> can_hold (st_Load (mc_storage M) s)"
  by (simp add: marking_ok_def slots_hold_def)

lemma new_raw_marking_ok:
  assumes "storage_exact M can_hold" "can_hold p" "marking_ok M can_hold marked black K G" "\<not> K a"
  shows "marking_ok M can_hold marked black K (put_slot a (st_of_ptr (mc_storage M) p) G)"
  using put_marking_ok [OF assms(3), of "st_of_ptr (mc_storage M) p" a] exact_simps(4) [OF assms(1,2)] assms(2,4) by simp

text \<open>The slots an operation constructs a member in.\<close>

definition initialises :: "member_op \<Rightarrow> u64 set" where
  "initialises op =
     (case op of
        NewNull a \<Rightarrow> {a} | NewSentinel a \<Rightarrow> {a} | NewRaw a p \<Rightarrow> {a} | NewCopy a b \<Rightarrow> {a} | NewCopyBase f a b \<Rightarrow> {a}
      | NewMove a b \<Rightarrow> {a} | NewMoveBase f a b \<Rightarrow> {a} | _ \<Rightarrow> {})"

primrec run_member_ops :: "('s, 'e) member_class \<Rightarrow> member_op list \<Rightarrow> ('s, 'e) gc_state \<Rightarrow> ('s, 'e) gc_state option" where
  "run_member_ops M [] G = Some G"
| "run_member_ops M (op # ops) G = do { G1 \<leftarrow> run_member_op M op G; run_member_ops M ops G1 }"

lemma run_op_marking_ok:
  assumes m: "marks M marked black" "mc_policy M = DijkstraWriteBarrierPolicy"
    and e: "storage_exact M can_hold" and c: "cage_placed (mc_build M)"
    and ok: "marking_ok M can_hold marked black K G" and op: "op_holds can_hold op" "\<forall>a\<in>initialises op. \<not> K a"
    and r: "run_member_op M op G = Some G'"
  shows "marking_ok M can_hold marked black K G'"
proof -
  note ex = exact_simps [OF e] and na = not_applies [OF c] and held = held_storage [OF ok]
  note assign = assign_storage_marking_ok [OF m] assign_raw_marking_ok [OF m e] and clear = Clear_marking_ok [OF e c]
  show ?thesis
  proof (cases op)
    case (NewNull a)
    then show ?thesis using r op ok ex by (auto simp: member_defs initialises_def intro!: put_marking_ok)
  next
    case (NewSentinel a)
    then show ?thesis using r op ok ex by (auto simp: member_defs initialises_def intro!: put_marking_ok)
  next
    case (NewRaw a p)
    then show ?thesis using r op ok ex by (auto simp: member_defs initialises_def op_holds_def intro!: put_marking_ok)
  next
    case (NewCopy a b)
    then show ?thesis using r op ok held by (auto simp: member_defs initialises_def intro!: put_marking_ok)
  next
    case (NewCopyBase f a b)
    then show ?thesis using r op ok
      by (auto simp: member_defs initialises_def op_holds_def intro!: new_raw_marking_ok [OF e] dest: held)
  next
    case (NewMove a b)
    then show ?thesis using r op ok held
      by (auto simp: member_defs initialises_def intro!: put_marking_ok elim!: clear [rotated])
  next
    case (NewMoveBase f a b)
    then show ?thesis using r op ok held
      by (auto simp: member_defs initialises_def op_holds_def intro!: new_raw_marking_ok [OF e] elim!: clear [rotated])
  next
    case (AssignRaw a p)
    then show ?thesis using r op ok by (auto simp: op_holds_def elim!: assign(2) [rotated 2])
  next
    case (AssignNull a)
    then show ?thesis using r ok by (auto simp: member_defs elim!: clear [rotated])
  next
    case (AssignSentinel a)
    then show ?thesis using r ok ex na by (auto simp: member_defs intro!: put_marking_ok)
  next
    case (AssignCopy a b)
    then show ?thesis using r ok held by (auto simp: member_defs elim!: assign(1) [rotated 2])
  next
    case (AssignCopyBase f a b)
    then show ?thesis using r ok op held by (auto simp: member_defs op_holds_def elim!: assign(2) [rotated 2])
  next
    case (AssignMove a b)
    then show ?thesis using r ok held
      by (auto simp: member_defs elim!: clear [rotated] assign(1) [rotated 2])
  next
    case (AssignMoveBase f a b)
    then show ?thesis using r ok op held
      by (auto simp: member_defs op_holds_def elim!: clear [rotated] assign(2) [rotated 2])
  next
    case (SwapWith a b)
    then show ?thesis using r ok held
      by (auto simp: member_defs) (blast intro: assign(1))
  next
    case (Release a)
    then show ?thesis using r ok by (auto simp: member_defs elim!: clear [rotated])
  next
    case (ClearFromGC a)
    then show ?thesis using r ok ex na by (auto simp: member_defs intro!: put_marking_ok)
  qed
qed

lemma run_ops_marking_ok:
  assumes m: "marks M marked black" "mc_policy M = DijkstraWriteBarrierPolicy"
    and e: "storage_exact M can_hold" and c: "cage_placed (mc_build M)"
    and ops: "\<forall>op\<in>set ops. op_holds can_hold op \<and> (\<forall>a\<in>initialises op. \<not> K a)"
  shows "marking_ok M can_hold marked black K G \<Longrightarrow> run_member_ops M ops G = Some G' \<Longrightarrow> marking_ok M can_hold marked black K G'"
  using ops
proof (induction ops arbitrary: G)
  case (Cons op ops)
  then obtain G1 where G1: "run_member_op M op G = Some G1" "run_member_ops M ops G1 = Some G'" by auto
  have "marking_ok M can_hold marked black K G1"
    by (rule run_op_marking_ok [OF m e c Cons.prems(1) _ _ G1(1)]) (use Cons.prems(3) in auto)
  then show ?case using Cons.IH G1(2) Cons.prems(3) by simp
qed simp

text \<open>C27: the write barrier keeps the tricolour invariant. While every heap is being marked, no sequence of
  operations on members, whichever objects they are in, makes a traced object point to an unmarked one,
  provided members are constructed only in objects that have not been traced: this is why the barrier of an
  initialisation may be empty. It holds for compressed and raw members, with and without a cage, and for the
  combined barrier of slim builds.\<close>

theorem write_barrier_tricolour:
  assumes "marks M marked black" "mc_policy M = DijkstraWriteBarrierPolicy"
    and "storage_exact M can_hold" "cage_placed (mc_build M)"
    and "marking_on G" "slots_hold M can_hold G" "no_black_to_white M marked black G"
    and "\<forall>op\<in>set ops. op_holds can_hold op \<and> (\<forall>a\<in>initialises op. \<not> black (marker G) a)"
    and "run_member_ops M ops G = Some G'"
  shows "no_black_to_white M marked black G' \<and> marking_on G' \<and> black (marker G') = black (marker G)"
proof -
  have "marking_ok M can_hold marked black (black (marker G)) G" using assms by (simp add: marking_ok_def)
  from run_ops_marking_ok [OF assms(1-4,8) this assms(9)] show ?thesis by (simp add: marking_ok_def)
qed

section \<open>Witnesses\<close>

text \<open>A marker that is its list of marked objects; every odd slot address is in a traced object.\<close>

definition demo_barriers :: "(RawPointer, u64 list) barrier_lib" where
  "demo_barriers =
     \<lparr>DijkstraMarkingBarrierSlow = (#), DijkstraMarkingBarrierSlowWithSentinelCheck = (#),
      DijkstraMarkingBarrierRangeSlow = (\<lambda>h p n k t e. p # e),
      SteeleMarkingBarrierSlow = (#), SteeleMarkingBarrierSlowWithSentinelCheck = (#),
      GenerationalBarrierSlow = (\<lambda>g a v h e. e), GenerationalBarrierForUncompressedSlotSlow = (\<lambda>g a v h e. e),
      GenerationalBarrierForSourceObjectSlow = (\<lambda>a h e. e),
      CombinedWriteBarrierSlow = (\<lambda>t a m e. case m a of None \<Rightarrow> e | Some s \<Rightarrow> rp_ptr s # e)\<rparr>"

definition demo_build :: build where
  "demo_build = \<lparr>larger_cage = False, caged_heap = True, young_generation = False, slim_barrier = False,
     heap_base = 0x500000000\<rparr>"

definition demo_member :: "(RawPointer, u64 list) member_class" where
  "demo_member = \<lparr>mc_lib = demo_barriers, mc_build = demo_build, mc_storage = raw_storage False,
     mc_policy = DijkstraWriteBarrierPolicy\<rparr>"

definition demo_gc :: "(RawPointer, u64 list) gc_state" where
  "demo_gc = \<lparr>entries = 1, pages = (\<lambda>_. Some 64), heap_handles = [64 \<mapsto> \<lparr>is_incremental_marking_in_progress = True,
       is_young_generation_enabled = False\<rparr>],
     ages = Map.empty, slots = [0x500000011 \<mapsto> RawPointer 0, 0x500000020 \<mapsto> RawPointer 0x500001000],
     marker = []\<rparr>"

lemma demo_member_exact: "storage_exact demo_member (\<lambda>_. True)"
  using raw_exact [of demo_barriers demo_build DijkstraWriteBarrierPolicy] by (simp add: demo_member_def demo_build_def)

theorem member_ops_refine_witness:
  "\<exists>G'. run_member_op demo_member (SwapWith 0x500000011 0x500000020) (demo_gc\<lparr>entries := 0\<rparr>) = Some G' \<and>
     ptrs demo_member G' = [0x500000011 \<mapsto> 0x500001000, 0x500000020 \<mapsto> 0]"
proof -
  have p: "ptrs demo_member (demo_gc\<lparr>entries := 0\<rparr>) = [0x500000011 \<mapsto> 0, 0x500000020 \<mapsto> 0x500001000]"
    by (auto simp: ptrs_def demo_gc_def demo_member_def raw_storage_def RP_Load_def)
  have "\<not> WriteBarrier_IsEnabled (demo_gc\<lparr>entries := 0\<rparr>)" by (simp add: WriteBarrier_IsEnabled_def MightBeEntered_def)
  with member_ops_refine [OF demo_member_exact, of "SwapWith 0x500000011 0x500000020" "demo_gc\<lparr>entries := 0\<rparr>"] p
  show ?thesis by (auto simp: op_holds_def split: option.splits)
qed

theorem write_barrier_tricolour_witness:
  "\<exists>G'. run_member_ops demo_member [AssignCopy 0x500000011 0x500000020, AssignNull 0x500000020] demo_gc = Some G' \<and>
     slots G' 0x500000011 = Some (RawPointer 0x500001000) \<and> 0x500001000 \<in> set (marker G')"
proof -
  let ?ops = "[AssignCopy 0x500000011 0x500000020, AssignNull 0x500000020]"
  have m: "marks demo_member set (\<lambda>_. odd)" "cage_placed demo_build" "marking_on demo_gc"
    "no_black_to_white demo_member set (\<lambda>_. odd) demo_gc"
    by (auto simp: marks_def demo_member_def demo_barriers_def raw_storage_def RP_Load_def cage_placed_def demo_build_def
        kPointerCompressionShift_def marking_on_def demo_gc_def WriteBarrier_IsEnabled_def MightBeEntered_def
        no_black_to_white_def barrier_applies_def AreWithinCage_def One_nat_def split: option.splits)
  have "\<exists>G'. run_member_ops demo_member ?ops demo_gc = Some G' \<and> slots G' 0x500000011 = Some (RawPointer 0x500001000)"
    by (simp add: demo_member_def demo_gc_def demo_build_def demo_barriers_def raw_storage_def member_defs
        assign_storage_eq Clear_eq AssigningBarrier_def GetWriteBarrierType_def Caged_Get_def Caged_BarrierEnabledGet_def
        AreWithinCage_def page_heap_handle_def Policy_WriteBarrier_def DijkstraMarkingBarrier_def put_slot_def
        WriteBarrier_IsEnabled_def MightBeEntered_def RP_Load_def kPointerCompressionShift_def One_nat_def)
  then obtain G' where G': "run_member_ops demo_member ?ops demo_gc = Some G'"
    "slots G' 0x500000011 = Some (RawPointer 0x500001000)" by blast
  have "no_black_to_white demo_member set (\<lambda>_. odd) G'"
    using write_barrier_tricolour [OF m(1) _ demo_member_exact _ m(3) _ m(4) _ G'(1)] m(2)
    by (simp add: demo_member_def slots_hold_def op_holds_def initialises_def)
  moreover have "barrier_applies (mc_build demo_member) 0x500000011 0x500001000"
    "st_Load (mc_storage demo_member) (RawPointer p) = p" for p
    by (simp_all add: barrier_applies_def demo_member_def demo_build_def AreWithinCage_def raw_storage_def RP_Load_def
        kPointerCompressionShift_def One_nat_def)
  ultimately have "0x500001000 \<in> set (marker G')"
    using G'(2) unfolding no_black_to_white_def by fastforce
  with G' show ?thesis by blast
qed

end
