(* ===== verification/Cppgc_Visitor.thy ===== *)
theory Cppgc_Visitor
  imports Cppgc_Member Cppgc_Persistent
begin

text \<open>
  Tracing the managed C++ heap: \<open>visitor.h\<close>, \<open>trace-trait.h\<close> and \<open>liveness-broker.h\<close> under \<open>cppgc/\<close>. The virtual
  methods of a visitor are the fields of a record; they act on an abstract state \<open>'v\<close>, and those of the base
  class do nothing. A class \<open>'c\<close> stands for its \<open>Trace\<close> method; where it is a mixin, the library finds the object
  from an inner address. The last part shows what a collector relies on: when marking has closed the marked
  objects under these traces and has run the registered callbacks, no reference to an unmarked object is left.
\<close>

section \<open>Trace traits\<close>

record 'c TraceDescriptor =
  base_object_payload :: u64
  td_callback :: 'c

record 'c trace_lib =
  is_mixin :: "'c \<Rightarrow> bool"      \<comment> \<open>\<open>IsGarbageCollectedMixinTypeV\<close>\<close>
  TraceTraitFromInnerAddress :: "u64 \<Rightarrow> 'c TraceDescriptor"

definition TraceTraitImpl_object :: "'c \<Rightarrow> u64 \<Rightarrow> 'c TraceDescriptor" where
  "TraceTraitImpl_object T self = \<lparr>base_object_payload = self, td_callback = T\<rparr>"

definition TraceTraitImpl_mixin :: "'c trace_lib \<Rightarrow> u64 \<Rightarrow> 'c TraceDescriptor" where
  "TraceTraitImpl_mixin L self = TraceTraitFromInnerAddress L self"

definition GetTraceDescriptor :: "'c trace_lib \<Rightarrow> 'c \<Rightarrow> u64 \<Rightarrow> 'c TraceDescriptor" where
  "GetTraceDescriptor L T self = (if is_mixin L T then TraceTraitImpl_mixin L self else TraceTraitImpl_object T self)"

section \<open>\<open>LivenessBroker\<close>\<close>

text \<open>The broker is the set of the marked objects, the answer of \<open>IsHeapObjectAliveImpl\<close>.\<close>

type_synonym broker = "u64 \<Rightarrow> bool"

definition IsHeapObjectAlive :: "bool \<Rightarrow> 'c trace_lib \<Rightarrow> broker \<Rightarrow> 'c \<Rightarrow> u64 \<Rightarrow> bool" where
  "IsHeapObjectAlive larger L broker T object \<longleftrightarrow>
     object = 0 \<or> object = kSentinelPointer larger \<or> broker (base_object_payload (GetTraceDescriptor L T object))"

definition IsHeapObjectAlive_member ::
    "('s, 'e) member_class \<Rightarrow> 'c trace_lib \<Rightarrow> broker \<Rightarrow> 'c \<Rightarrow> u64 \<Rightarrow> ('s, 'e) gc_state \<Rightarrow> bool option" where
  "IsHeapObjectAlive_member M L broker T member G =
     do { p \<leftarrow> member_Get M member G; Some (IsHeapObjectAlive (larger_cage (mc_build M)) L broker T p) }"

section \<open>Weak callbacks\<close>

record EphemeronPair =
  ep_key :: u64
  ep_value :: u64

text \<open>The callbacks the header registers, and one of the client's own by its number.\<close>

datatype 'c weak_callback = HandleWeakMember 'c | HandleWeakRoot 'c | ClearValue 'c u64 | ClientCallback nat

definition HandleWeak ::
    "('s, 'e) member_class \<Rightarrow> 'c trace_lib \<Rightarrow> 'c \<Rightarrow> broker \<Rightarrow> u64 \<Rightarrow> ('s, 'e) gc_state \<Rightarrow> ('s, 'e) gc_state option" where
  "HandleWeak M L T info weak G =
     do { p \<leftarrow> member_Get M weak G;
          if \<not> IsHeapObjectAlive (larger_cage (mc_build M)) L info T p then member_ClearFromGC M weak G else Some G }"

definition HandleWeak_root ::
    "bool \<Rightarrow> 'c trace_lib \<Rightarrow> 'c \<Rightarrow> broker \<Rightarrow> addr \<Rightarrow> cppgc_world \<Rightarrow> cppgc_world option" where
  "HandleWeak_root larger L T info weak w =
     do { b \<leftarrow> bp_at w weak;
          if \<not> IsHeapObjectAlive larger L info T (bp_Get b) then bp_ClearFromGC larger weak w else Some w }"

definition EphemeronPair_new ::
    "('s, 'e) member_class \<Rightarrow> EphemeronPair \<Rightarrow> u64 \<Rightarrow> u64 \<Rightarrow> ('s, 'e) gc_state \<Rightarrow> ('s, 'e) gc_state" where
  "EphemeronPair_new M e k v G = member_new_raw M (ep_value e) v (member_new_raw M (ep_key e) k G)"

definition ClearValueIfKeyIsDead ::
    "('s, 'e) member_class \<Rightarrow> 'c trace_lib \<Rightarrow> 'c \<Rightarrow> broker \<Rightarrow> EphemeronPair \<Rightarrow> ('s, 'e) gc_state \<Rightarrow> ('s, 'e) gc_state option" where
  "ClearValueIfKeyIsDead M L K broker e G =
     do { alive \<leftarrow> IsHeapObjectAlive_member M L broker K (ep_key e) G;
          if \<not> alive then member_assign_null M (ep_value e) G else Some G }"

section \<open>\<open>Visitor\<close>\<close>

record ('c, 'v) visitor =
  Visit :: "u64 \<Rightarrow> 'c TraceDescriptor \<Rightarrow> 'v \<Rightarrow> 'v"
  VisitWeak :: "u64 \<Rightarrow> 'c TraceDescriptor \<Rightarrow> 'c weak_callback \<Rightarrow> u64 \<Rightarrow> 'v \<Rightarrow> 'v"
  VisitEphemeron :: "u64 \<Rightarrow> u64 \<Rightarrow> 'c TraceDescriptor \<Rightarrow> 'v \<Rightarrow> 'v"
  VisitWeakContainer :: "u64 \<Rightarrow> 'c TraceDescriptor \<Rightarrow> 'c TraceDescriptor \<Rightarrow> 'c weak_callback \<Rightarrow> u64 \<Rightarrow> 'v \<Rightarrow> 'v"
  RegisterWeakCallback :: "'c weak_callback \<Rightarrow> u64 \<Rightarrow> 'v \<Rightarrow> 'v"
  HandleMovableReference :: "u64 \<Rightarrow> 'v \<Rightarrow> 'v"
  DeferTraceToMutatorThreadIfConcurrent :: "u64 \<Rightarrow> 'c \<Rightarrow> u64 \<Rightarrow> 'v \<Rightarrow> bool \<times> 'v"
  IsConcurrent :: bool

definition Visitor_base :: "('c, 'v) visitor" where
  "Visitor_base = \<lparr>Visit = (\<lambda>self d v. v), VisitWeak = (\<lambda>self d cb weak_member v. v),
     VisitEphemeron = (\<lambda>key val d v. v), VisitWeakContainer = (\<lambda>self d wd cb data v. v),
     RegisterWeakCallback = (\<lambda>cb data v. v), HandleMovableReference = (\<lambda>slt v. v),
     DeferTraceToMutatorThreadIfConcurrent = (\<lambda>parameter cb deferred_size v. (False, v)), IsConcurrent = False\<rparr>"

definition TraceImpl :: "'c trace_lib \<Rightarrow> ('c, 'v) visitor \<Rightarrow> 'c \<Rightarrow> u64 \<Rightarrow> 'v \<Rightarrow> 'v" where
  "TraceImpl L V T t v = (if t = 0 then v else Visit V t (GetTraceDescriptor L T t) v)"

definition Trace_member ::
    "('s, 'e) member_class \<Rightarrow> 'c trace_lib \<Rightarrow> ('c, 'v) visitor \<Rightarrow> 'c \<Rightarrow> u64 \<Rightarrow> ('s, 'e) gc_state \<Rightarrow> 'v \<Rightarrow> 'v option" where
  "Trace_member M L V T member G v = do { p \<leftarrow> GetRawAtomic M member G; Some (TraceImpl L V T p v) }"

definition Trace_weak ::
    "('s, 'e) member_class \<Rightarrow> 'c trace_lib \<Rightarrow> ('c, 'v) visitor \<Rightarrow> 'c \<Rightarrow> u64 \<Rightarrow> ('s, 'e) gc_state \<Rightarrow> 'v \<Rightarrow> 'v option" where
  "Trace_weak M L V T weak_member G v =
     do { p \<leftarrow> GetRawAtomic M weak_member G;
          if p = 0 then Some v
          else Some (VisitWeak V p (GetTraceDescriptor L T p) (HandleWeakMember T) weak_member v) }"

definition TraceStrongly ::
    "('s, 'e) member_class \<Rightarrow> 'c trace_lib \<Rightarrow> ('c, 'v) visitor \<Rightarrow> 'c \<Rightarrow> u64 \<Rightarrow> ('s, 'e) gc_state \<Rightarrow> 'v \<Rightarrow> 'v option" where
  "TraceStrongly M L V T weak_member G v = do { p \<leftarrow> GetRawAtomic M weak_member G; Some (TraceImpl L V T p v) }"

definition TraceStrongContainer :: "'c trace_lib \<Rightarrow> ('c, 'v) visitor \<Rightarrow> 'c \<Rightarrow> u64 \<Rightarrow> 'v \<Rightarrow> 'v" where
  "TraceStrongContainer L V T object v = TraceImpl L V T object v"

text \<open>\<open>weak_desc\<close> is the client's \<open>GetWeakTraceDescriptor\<close>.\<close>

definition TraceWeakContainer ::
    "'c trace_lib \<Rightarrow> ('c, 'v) visitor \<Rightarrow> 'c \<Rightarrow> (u64 \<Rightarrow> 'c TraceDescriptor) \<Rightarrow> u64 \<Rightarrow> 'c weak_callback \<Rightarrow> u64 \<Rightarrow> 'v \<Rightarrow> 'v" where
  "TraceWeakContainer L V T weak_desc object callback callback_data v =
     (if object = 0 then v
      else VisitWeakContainer V object (GetTraceDescriptor L T object) (weak_desc object) callback callback_data v)"

definition TraceEphemeron_member ::
    "('s, 'e) member_class \<Rightarrow> 'c trace_lib \<Rightarrow> ('c, 'v) visitor \<Rightarrow> 'c \<Rightarrow> 'c \<Rightarrow> u64 \<Rightarrow> u64 \<Rightarrow> ('s, 'e) gc_state \<Rightarrow> 'v \<Rightarrow> 'v option" where
  "TraceEphemeron_member M L V K T weak_member_key member_value G v =
     do { key \<leftarrow> GetRawAtomic M weak_member_key G;
          if key = 0 then Some v
          else do {
            val \<leftarrow> GetRawAtomic M member_value G;
            if val = 0 then Some v
            else (let value_desc = GetTraceDescriptor L T val;
                      key_base_object_payload = base_object_payload (GetTraceDescriptor L K key)
                  in Some (VisitEphemeron V key_base_object_payload val value_desc v)) } }"

text \<open>A value that is not managed itself has a descriptor of the client's.\<close>

definition TraceEphemeron_value ::
    "('s, 'e) member_class \<Rightarrow> 'c trace_lib \<Rightarrow> ('c, 'v) visitor \<Rightarrow> 'c \<Rightarrow> (u64 \<Rightarrow> 'c TraceDescriptor) \<Rightarrow> u64 \<Rightarrow> u64 \<Rightarrow>
       ('s, 'e) gc_state \<Rightarrow> 'v \<Rightarrow> 'v option" where
  "TraceEphemeron_value M L V K desc weak_member_key val G v =
     do { key \<leftarrow> GetRawAtomic M weak_member_key G;
          if key = 0 then Some v
          else (let value_desc = desc val;
                    key_base_object_payload = base_object_payload (GetTraceDescriptor L K key)
                in Some (VisitEphemeron V key_base_object_payload val value_desc v)) }"

definition RegisterWeakCallbackMethod :: "('c, 'v) visitor \<Rightarrow> 'c weak_callback \<Rightarrow> u64 \<Rightarrow> 'v \<Rightarrow> 'v" where
  "RegisterWeakCallbackMethod V method object v = RegisterWeakCallback V method object v"

text \<open>The callback's object is the pair; it is named by its key, and the method carries the place of the value.\<close>

definition Trace_ephemeron ::
    "('s, 'e) member_class \<Rightarrow> 'c trace_lib \<Rightarrow> ('c, 'v) visitor \<Rightarrow> 'c \<Rightarrow> 'c \<Rightarrow> EphemeronPair \<Rightarrow> ('s, 'e) gc_state \<Rightarrow> 'v \<Rightarrow> 'v option" where
  "Trace_ephemeron M L V K T e G v =
     do { v1 \<leftarrow> TraceEphemeron_member M L V K T (ep_key e) (ep_value e) G v;
          Some (RegisterWeakCallbackMethod V (ClearValue K (ep_value e)) (ep_key e) v1) }"

definition RegisterMovableReference :: "('c, 'v) visitor \<Rightarrow> u64 \<Rightarrow> 'v \<Rightarrow> 'v" where
  "RegisterMovableReference V slt v = HandleMovableReference V slt v"

definition kSizeOfUncompressedMember :: u64 where "kSizeOfUncompressedMember = 8"
definition kSizeofCompressedMember :: u64 where "kSizeofCompressedMember = 4"

text \<open>The loop of \<open>VisitMultipleUncompressedMember\<close> and of \<open>VisitMultipleCompressedMember\<close>, which differ in the
  size; \<open>None\<close> also when it would not end.\<close>

partial_function (option) visit_from ::
    "('s, 'e) member_class \<Rightarrow> ('c, 'v) visitor \<Rightarrow> (u64 \<Rightarrow> 'c TraceDescriptor) \<Rightarrow> u64 \<Rightarrow> u64 \<Rightarrow> u64 \<Rightarrow>
       ('s, 'e) gc_state \<Rightarrow> 'v \<Rightarrow> 'v option" where
  "visit_from M V desc sz it end_it G v =
     (if it < end_it
      then do { object \<leftarrow> GetRawAtomic M it G;
                if object = 0 then visit_from M V desc sz (it + sz) end_it G v
                else visit_from M V desc sz (it + sz) end_it G (Visit V object (desc object) v) }
      else Some v)"

definition VisitMultipleUncompressedMember ::
    "('s, 'e) member_class \<Rightarrow> ('c, 'v) visitor \<Rightarrow> (u64 \<Rightarrow> 'c TraceDescriptor) \<Rightarrow> u64 \<Rightarrow> u64 \<Rightarrow>
       ('s, 'e) gc_state \<Rightarrow> 'v \<Rightarrow> 'v option" where
  "VisitMultipleUncompressedMember M V get_trace_descriptor start len G v =
     visit_from M V get_trace_descriptor kSizeOfUncompressedMember start (start + len * kSizeOfUncompressedMember) G v"

definition VisitMultipleCompressedMember ::
    "('s, 'e) member_class \<Rightarrow> ('c, 'v) visitor \<Rightarrow> (u64 \<Rightarrow> 'c TraceDescriptor) \<Rightarrow> u64 \<Rightarrow> u64 \<Rightarrow>
       ('s, 'e) gc_state \<Rightarrow> 'v \<Rightarrow> 'v option" where
  "VisitMultipleCompressedMember M V get_trace_descriptor start len G v =
     visit_from M V get_trace_descriptor kSizeofCompressedMember start (start + len * kSizeofCompressedMember) G v"

definition TraceMultiple_members ::
    "('s, 'e) member_class \<Rightarrow> 'c trace_lib \<Rightarrow> ('c, 'v) visitor \<Rightarrow> 'c \<Rightarrow> u64 \<Rightarrow> u64 \<Rightarrow> ('s, 'e) gc_state \<Rightarrow> 'v \<Rightarrow> 'v option" where
  "TraceMultiple_members M L V T start len G v =
     (case kWriteBarrierSlotType (mc_storage M) of
        kUncompressed \<Rightarrow> VisitMultipleUncompressedMember M V (GetTraceDescriptor L T) start len G v
      | kCompressed \<Rightarrow> VisitMultipleCompressedMember M V (GetTraceDescriptor L T) start len G v)"

text \<open>Inlined objects: \<open>trace\<close> is the \<open>Trace\<close> method of the class, \<open>vtable\<close> reads the first word of the object.\<close>

definition Trace_inlined :: "(u64 \<Rightarrow> 'v \<Rightarrow> 'v option) \<Rightarrow> u64 \<Rightarrow> 'v \<Rightarrow> 'v option" where
  "Trace_inlined trace object v = trace object v"

primrec TraceMultiple_inlined ::
    "(u64 \<Rightarrow> 'v \<Rightarrow> 'v option) \<Rightarrow> bool \<Rightarrow> (u64 \<Rightarrow> u64 option) \<Rightarrow> u64 \<Rightarrow> u64 \<Rightarrow> nat \<Rightarrow> 'v \<Rightarrow> 'v option" where
  "TraceMultiple_inlined trace is_polymorphic vtable sz object 0 v = Some v"
| "TraceMultiple_inlined trace is_polymorphic vtable sz object (Suc len) v =
     do { word \<leftarrow> (if is_polymorphic then vtable object else Some 1);
          if word = 0 then TraceMultiple_inlined trace is_polymorphic vtable sz (object + sz) len v
          else do { v1 \<leftarrow> trace object v; TraceMultiple_inlined trace is_polymorphic vtable sz (object + sz) len v1 } }"

section \<open>\<open>RootVisitor\<close>\<close>

record ('c, 'v) root_visitor =
  VisitRoot :: "u64 \<Rightarrow> 'c TraceDescriptor \<Rightarrow> 'v \<Rightarrow> 'v"
  VisitWeakRoot :: "u64 \<Rightarrow> 'c TraceDescriptor \<Rightarrow> 'c weak_callback \<Rightarrow> addr \<Rightarrow> 'v \<Rightarrow> 'v"

definition RootVisitor_base :: "('c, 'v) root_visitor" where
  "RootVisitor_base = \<lparr>VisitRoot = (\<lambda>self d v. v), VisitWeakRoot = (\<lambda>self d cb weak_root v. v)\<rparr>"

definition Extract :: "addr \<Rightarrow> cppgc_world \<Rightarrow> u64 option" where
  "Extract p w = do { b \<leftarrow> bp_at w p; Some (bp_Get b) }"

definition Trace_root ::
    "'c trace_lib \<Rightarrow> ('c, 'v) root_visitor \<Rightarrow> 'c \<Rightarrow> addr \<Rightarrow> cppgc_world \<Rightarrow> 'v \<Rightarrow> 'v option" where
  "Trace_root L V T p w v =
     do { object \<leftarrow> Extract p w;
          if object = 0 then Some v else Some (VisitRoot V object (GetTraceDescriptor L T object) v) }"

definition Trace_weak_root ::
    "'c trace_lib \<Rightarrow> ('c, 'v) root_visitor \<Rightarrow> 'c \<Rightarrow> addr \<Rightarrow> cppgc_world \<Rightarrow> 'v \<Rightarrow> 'v option" where
  "Trace_weak_root L V T p w v =
     do { object \<leftarrow> Extract p w;
          if object = 0 then Some v
          else Some (VisitWeakRoot V object (GetTraceDescriptor L T object) (HandleWeakRoot T) p v) }"

section \<open>Loops over members\<close>

primrec visit_each ::
    "('s, 'e) member_class \<Rightarrow> ('c, 'v) visitor \<Rightarrow> (u64 \<Rightarrow> 'c TraceDescriptor) \<Rightarrow> u64 list \<Rightarrow> ('s, 'e) gc_state \<Rightarrow> 'v \<Rightarrow> 'v option" where
  "visit_each M V desc [] G v = Some v"
| "visit_each M V desc (a # as) G v =
     do { p \<leftarrow> GetRawAtomic M a G; visit_each M V desc as G (if p = 0 then v else Visit V p (desc p) v) }"

definition array_slots :: "u64 \<Rightarrow> u64 \<Rightarrow> nat \<Rightarrow> u64 list" where
  "array_slots start sz n = map (\<lambda>k. start + of_nat k * sz) [0..<n]"

lemma array_slots_Suc: "array_slots start sz (Suc n) = start # array_slots (start + sz) sz n"
  unfolding array_slots_def map_upt_Suc by (simp add: algebra_simps)

lemma word_steps:
  assumes "unat (it :: u64) + n * unat sz < 2 ^ 64"
  shows "unat (it + of_nat n * sz) = unat it + n * unat sz"
proof -
  have "it + of_nat n * sz = of_nat (unat it + n * unat sz)" by simp
  then show ?thesis using assms by (simp only: unat_of_nat) (simp add: take_bit_nat_eq_self)
qed

lemma visit_from_each:
  assumes "0 < sz" "unat start + n * unat sz < 2 ^ 64"
  shows "visit_from M V desc sz start (start + of_nat n * sz) G v = visit_each M V desc (array_slots start sz n) G v"
  using assms(2)
proof (induction n arbitrary: start v)
  case 0
  show ?case by (subst visit_from.simps) (simp add: array_slots_def)
next
  case (Suc n)
  have n1: "unat (start + sz) = unat start + unat sz" using word_steps [of start 1 sz] Suc.prems by simp
  have lt: "start < start + of_nat (Suc n) * sz"
    using word_steps [OF Suc.prems] assms(1) by (simp add: word_less_nat_alt)
  have e: "start + of_nat (Suc n) * sz = (start + sz) + of_nat n * sz" by (simp add: algebra_simps)
  have IH: "visit_from M V desc sz (start + sz) (start + of_nat (Suc n) * sz) G u =
      visit_each M V desc (array_slots (start + sz) sz n) G u" for u
    unfolding e by (rule Suc.IH) (use Suc.prems n1 in simp)
  show ?case
    by (subst visit_from.simps, cases "GetRawAtomic M start G") (simp_all add: lt array_slots_Suc IH del: of_nat_Suc)
qed

section \<open>What a trace announces\<close>

text \<open>The visitor that writes down the calls of its methods.\<close>

datatype 'c event =
    EVisit u64 "'c TraceDescriptor"
  | EWeak u64 "'c TraceDescriptor" "'c weak_callback" u64
  | EEphemeron u64 u64 "'c TraceDescriptor"
  | EContainer u64 "'c TraceDescriptor" "'c TraceDescriptor" "'c weak_callback" u64
  | ERegister "'c weak_callback" u64
  | EMovable u64

definition recorder :: "('c, 'c event list) visitor" where
  "recorder = \<lparr>Visit = (\<lambda>self d v. v @ [EVisit self d]), VisitWeak = (\<lambda>self d cb m v. v @ [EWeak self d cb m]),
     VisitEphemeron = (\<lambda>k x d v. v @ [EEphemeron k x d]), VisitWeakContainer = (\<lambda>self d wd cb x v. v @ [EContainer self d wd cb x]),
     RegisterWeakCallback = (\<lambda>cb x v. v @ [ERegister cb x]), HandleMovableReference = (\<lambda>x v. v @ [EMovable x]),
     DeferTraceToMutatorThreadIfConcurrent = (\<lambda>p cb n v. (False, v)), IsConcurrent = False\<rparr>"

text \<open>The members an object has, and its \<open>Trace\<close> method, which traces them one after the other.\<close>

datatype 'c field =
    FStrong 'c u64
  | FWeak 'c u64
  | FStrongly 'c u64
  | FEphemeron 'c 'c EphemeronPair
  | FArray 'c u64 nat

primrec trace_field ::
    "('s, 'e) member_class \<Rightarrow> 'c trace_lib \<Rightarrow> ('c, 'v) visitor \<Rightarrow> ('s, 'e) gc_state \<Rightarrow> 'c field \<Rightarrow> 'v \<Rightarrow> 'v option" where
  "trace_field M L V G (FStrong T a) v = Trace_member M L V T a G v"
| "trace_field M L V G (FWeak T a) v = Trace_weak M L V T a G v"
| "trace_field M L V G (FStrongly T a) v = TraceStrongly M L V T a G v"
| "trace_field M L V G (FEphemeron K T e) v = Trace_ephemeron M L V K T e G v"
| "trace_field M L V G (FArray T start n) v = TraceMultiple_members M L V T start (of_nat n) G v"

primrec trace_fields ::
    "('s, 'e) member_class \<Rightarrow> 'c trace_lib \<Rightarrow> ('c, 'v) visitor \<Rightarrow> ('s, 'e) gc_state \<Rightarrow> 'c field list \<Rightarrow> 'v \<Rightarrow> 'v option" where
  "trace_fields M L V G [] v = Some v"
| "trace_fields M L V G (f # fs) v = do { v1 \<leftarrow> trace_field M L V G f v; trace_fields M L V G fs v1 }"

text \<open>What a collector does with the events: the objects visited are marked, an ephemeron's value is once its
  key is, and weak callbacks are registered.\<close>

definition obeyed :: "broker \<Rightarrow> ('c weak_callback \<times> u64) set \<Rightarrow> 'c event \<Rightarrow> bool" where
  "obeyed marked registered e \<longleftrightarrow>
     (case e of
        EVisit p d \<Rightarrow> marked (base_object_payload d)
      | EWeak p d cb m \<Rightarrow> (cb, m) \<in> registered
      | EEphemeron k x d \<Rightarrow> marked k \<longrightarrow> marked (base_object_payload d)
      | ERegister cb x \<Rightarrow> (cb, x) \<in> registered
      | _ \<Rightarrow> True)"

definition marking_done ::
    "('s, 'e) member_class \<Rightarrow> 'c trace_lib \<Rightarrow> broker \<Rightarrow> ('c weak_callback \<times> u64) set \<Rightarrow> 'c field list \<Rightarrow> ('s, 'e) gc_state \<Rightarrow> bool" where
  "marking_done M L marked registered fs G \<longleftrightarrow>
     (\<exists>evs. trace_fields M L recorder G fs [] = Some evs \<and> (\<forall>e \<in> set evs. obeyed marked registered e))"

text \<open>Running the callbacks the header registers.\<close>

primrec run_callback ::
    "('s, 'e) member_class \<Rightarrow> 'c trace_lib \<Rightarrow> broker \<Rightarrow> 'c weak_callback \<Rightarrow> u64 \<Rightarrow> ('s, 'e) gc_state \<Rightarrow> ('s, 'e) gc_state option" where
  "run_callback M L marked (HandleWeakMember T) x G = HandleWeak M L T marked x G"
| "run_callback M L marked (ClearValue K a) x G = ClearValueIfKeyIsDead M L K marked \<lparr>ep_key = x, ep_value = a\<rparr> G"
| "run_callback M L marked (HandleWeakRoot T) x G = None"
| "run_callback M L marked (ClientCallback n) x G = None"

primrec run_callbacks ::
    "('s, 'e) member_class \<Rightarrow> 'c trace_lib \<Rightarrow> broker \<Rightarrow> ('c weak_callback \<times> u64) list \<Rightarrow> ('s, 'e) gc_state \<Rightarrow> ('s, 'e) gc_state option" where
  "run_callbacks M L marked [] G = Some G"
| "run_callbacks M L marked (c # cs) G =
     do { G1 \<leftarrow> run_callback M L marked (fst c) (snd c) G; run_callbacks M L marked cs G1 }"

section \<open>Tracing is sound\<close>

definition storage_reads :: "('s, 'e) member_class \<Rightarrow> bool" where
  "storage_reads M \<longleftrightarrow>
     (let S = mc_storage M in
        st_LoadAtomic S = st_Load S \<and> (\<forall>s. st_Load S (st_Clear S s) = 0) \<and> st_Load S (st_default S) = 0)"

lemma raw_reads: "mc_storage M = raw_storage larger \<Longrightarrow> storage_reads M"
  by (auto simp: storage_reads_def raw_storage_def RP_Load_def RP_LoadAtomic_def RP_Clear_def RP_default_def)

lemma compressed_reads:
  assumes "base_ok larger base" "mc_storage M = compressed_storage larger base"
  shows "storage_reads M"
proof -
  have "Decompress larger base 0 = 0"
    using Decompress_Compress [OF assms(1), of 0] Compress_small(1) by (simp add: holdable_def)
  then show ?thesis
    by (auto simp: storage_reads_def assms(2) compressed_storage_def CP_Load_def CP_LoadAtomic_def CP_Clear_def CP_default_def)
qed

lemma reads_ptrs:
  assumes "storage_reads M"
  shows "GetRawAtomic M a G = ptrs M G a" "member_Get M a G = ptrs M G a"
    "member_ClearFromGC M a G = (case slots G a of None \<Rightarrow> None | Some s \<Rightarrow> Some (put_slot a (st_Clear (mc_storage M) s) G))"
    "member_assign_null M a G = (case slots G a of None \<Rightarrow> None | Some s \<Rightarrow> Some (put_slot a (st_default (mc_storage M)) G))"
  using assms
  by (cases "slots G a"; simp add: storage_reads_def Let_def GetRawAtomic_def member_Get_def GetRaw_def ptrs_def
      member_ClearFromGC_def member_assign_null_def Clear_eq)+

text \<open>Callbacks only ever clear slots.\<close>

definition shrinks :: "('s, 'e) member_class \<Rightarrow> ('s, 'e) gc_state \<Rightarrow> ('s, 'e) gc_state \<Rightarrow> bool" where
  "shrinks M G G' \<longleftrightarrow> (\<forall>a. ptrs M G' a = ptrs M G a \<or> ptrs M G a \<noteq> None \<and> ptrs M G' a = Some 0)"

lemma shrinks_refl [simp]: "shrinks M G G" by (simp add: shrinks_def)

lemma shrinks_trans [trans]: "shrinks M G G1 \<Longrightarrow> shrinks M G1 G2 \<Longrightarrow> shrinks M G G2"
  unfolding shrinks_def by (metis option.distinct(1))

text \<open>A place holds a null pointer, the sentinel or an object that is alive.\<close>

definition alive_at ::
    "('s, 'e) member_class \<Rightarrow> 'c trace_lib \<Rightarrow> broker \<Rightarrow> ('s, 'e) gc_state \<Rightarrow> 'c \<Rightarrow> u64 \<Rightarrow> bool" where
  "alive_at M L marked G T a \<longleftrightarrow>
     (case ptrs M G a of None \<Rightarrow> False | Some p \<Rightarrow> IsHeapObjectAlive (larger_cage (mc_build M)) L marked T p)"

lemma alive_null [simp]: "IsHeapObjectAlive larger L marked T 0" by (simp add: IsHeapObjectAlive_def)

lemma alive_at_shrinks: "alive_at M L marked G T a \<Longrightarrow> shrinks M G G' \<Longrightarrow> alive_at M L marked G' T a"
  unfolding shrinks_def alive_at_def by (drule spec [of _ a]) (auto split: option.splits)

section \<open>The callbacks\<close>

primrec runnable :: "('s, 'e) gc_state \<Rightarrow> 'c weak_callback \<Rightarrow> u64 \<Rightarrow> bool" where
  "runnable G (HandleWeakMember T) x = (slots G x \<noteq> None)"
| "runnable G (ClearValue K a) x = (slots G x \<noteq> None \<and> slots G a \<noteq> None)"
| "runnable G (HandleWeakRoot T) x = False"
| "runnable G (ClientCallback n) x = False"

primrec clears :: "'c weak_callback \<Rightarrow> u64 \<Rightarrow> u64 set" where
  "clears (HandleWeakMember T) x = {x}"
| "clears (ClearValue K a) x = {a}"
| "clears (HandleWeakRoot T) x = {}"
| "clears (ClientCallback n) x = {}"

lemma ptrs_None [simp]: "ptrs M G a = None \<longleftrightarrow> slots G a = None" by (simp add: ptrs_def)

text \<open>What \<open>cs\<close> leave alone.\<close>

definition kept :: "('s, 'e) member_class \<Rightarrow> ('c weak_callback \<times> u64) list \<Rightarrow> ('s, 'e) gc_state \<Rightarrow> ('s, 'e) gc_state \<Rightarrow> bool" where
  "kept M cs G G' \<longleftrightarrow> shrinks M G G' \<and> dom (slots G') = dom (slots G) \<and>
     (\<forall>b. (\<forall>c\<in>set cs. b \<notin> clears (fst c) (snd c)) \<longrightarrow> ptrs M G' b = ptrs M G b)"

lemma kept_refl: "kept M [] G G" by (simp add: kept_def)

lemma kept_append: "kept M xs G G1 \<Longrightarrow> kept M ys G1 G2 \<Longrightarrow> kept M (xs @ ys) G G2"
  unfolding kept_def by (metis UnCI set_append shrinks_trans)

lemma run_callback_ok:
  assumes R: "storage_reads M" and "runnable G c x"
  shows "\<exists>G'. run_callback M L marked c x G = Some G' \<and> kept M [(c, x)] G G'"
proof -
  note S = R [unfolded storage_reads_def Let_def]
  show ?thesis
  proof (cases c)
    case (HandleWeakMember T)
    then obtain s where "slots G x = Some s" using assms(2) by auto
    with S HandleWeakMember show ?thesis
      by (auto simp: HandleWeak_def reads_ptrs [OF R] ptrs_def shrinks_def kept_def)
  next
    case (ClearValue K a)
    then obtain s t where "slots G x = Some s" "slots G a = Some t" using assms(2) by auto
    with S ClearValue show ?thesis
      by (auto simp: ClearValueIfKeyIsDead_def IsHeapObjectAlive_member_def reads_ptrs [OF R] ptrs_def shrinks_def kept_def)
  qed (use assms(2) in auto)
qed

lemma runnable_dom: "dom (slots G') = dom (slots G) \<Longrightarrow> runnable G' c x = runnable G c x"
  by (cases c) (auto simp: dom_def set_eq_iff)

lemma kept_runnable: "kept M cs G G' \<Longrightarrow> runnable G' c x = runnable G c x"
  by (rule runnable_dom) (simp add: kept_def)

definition all_runnable :: "('s, 'e) gc_state \<Rightarrow> ('c weak_callback \<times> u64) list \<Rightarrow> bool" where
  "all_runnable G cs \<longleftrightarrow> (\<forall>c\<in>set cs. runnable G (fst c) (snd c))"

lemma run_callbacks_ok:
  assumes R: "storage_reads M"
  shows "all_runnable G cs \<Longrightarrow> \<exists>G'. run_callbacks M L marked cs G = Some G' \<and> kept M cs G G'"
proof (induction cs arbitrary: G)
  case (Cons c cs)
  have "runnable G (fst c) (snd c)" using Cons.prems by (simp add: all_runnable_def)
  from run_callback_ok [OF R this] obtain G1 where G1: "run_callback M L marked (fst c) (snd c) G = Some G1"
    "kept M [c] G G1" by auto
  then have "all_runnable G1 cs" using Cons.prems by (simp add: all_runnable_def kept_runnable [OF G1(2)])
  from Cons.IH [OF this] obtain G' where "run_callbacks M L marked cs G1 = Some G'" "kept M cs G1 G'" by blast
  then show ?case using G1(1) kept_append [OF G1(2)] by (intro exI [of _ G']) simp
qed (simp add: kept_refl)

lemma run_callbacks_append:
  "run_callbacks M L marked (xs @ ys) G = do { G1 \<leftarrow> run_callbacks M L marked xs G; run_callbacks M L marked ys G1 }"
  by (induction xs arbitrary: G) simp_all

text \<open>Each of the callbacks runs at some point, in a state with the slots no callback clears as they were.\<close>

lemma callback_runs:
  assumes R: "storage_reads M" and r: "all_runnable G cs" and c: "(cb, x) \<in> set cs"
    and G': "run_callbacks M L marked cs G = Some G'"
  obtains G1 G2 where "run_callback M L marked cb x G1 = Some G2" "kept M cs G G1" "shrinks M G2 G'"
proof -
  obtain xs ys where cs: "cs = xs @ (cb, x) # ys" using split_list [OF c] by blast
  then have "all_runnable G xs" using r by (simp add: all_runnable_def)
  from run_callbacks_ok [OF R this] obtain G1 where G1: "run_callbacks M L marked xs G = Some G1" "kept M xs G G1" by blast
  have "runnable G cb x" using r c by (force simp: all_runnable_def)
  then have "runnable G1 cb x" by (simp add: kept_runnable [OF G1(2)])
  from run_callback_ok [OF R this] obtain G2 where G2: "run_callback M L marked cb x G1 = Some G2"
    "kept M [(cb, x)] G1 G2" by blast
  have "all_runnable G2 ys" using r cs by (simp add: all_runnable_def kept_runnable [OF G1(2)] kept_runnable [OF G2(2)])
  from run_callbacks_ok [OF R this] obtain G3 where G3: "run_callbacks M L marked ys G2 = Some G3" "kept M ys G2 G3" by blast
  have "G3 = G'" using G' by (simp add: cs run_callbacks_append G1 G2(1) G3)
  moreover have "kept M cs G G1" using G1(2) by (simp add: kept_def cs)
  ultimately show thesis using that [OF G2(1)] G3(2) by (simp add: kept_def)
qed

section \<open>The trace of an object is that of its members\<close>

definition slot_size :: "('s, 'e) member_class \<Rightarrow> u64" where
  "slot_size M = (case kWriteBarrierSlotType (mc_storage M) of
     kUncompressed \<Rightarrow> kSizeOfUncompressedMember | kCompressed \<Rightarrow> kSizeofCompressedMember)"

text \<open>The array ends before the end of the address space.\<close>

primrec field_fits :: "('s, 'e) member_class \<Rightarrow> 'c field \<Rightarrow> bool" where
  "field_fits M (FStrong T a) = True"
| "field_fits M (FWeak T a) = True"
| "field_fits M (FStrongly T a) = True"
| "field_fits M (FEphemeron K T e) = True"
| "field_fits M (FArray T start n) = (unat start + n * unat (slot_size M) < 2 ^ 64)"

lemma TraceMultiple_each:
  assumes "unat start + n * unat (slot_size M) < 2 ^ 64"
  shows "TraceMultiple_members M L V T start (of_nat n) G v =
    visit_each M V (GetTraceDescriptor L T) (array_slots start (slot_size M) n) G v"
proof -
  have "0 < slot_size M"
    by (simp add: slot_size_def kSizeOfUncompressedMember_def kSizeofCompressedMember_def split: WriteBarrierSlotType.split)
  note each = visit_from_each [OF this assms]
  show ?thesis
    by (cases "kWriteBarrierSlotType (mc_storage M)"; use each in \<open>simp add: TraceMultiple_members_def
        VisitMultipleUncompressedMember_def VisitMultipleCompressedMember_def slot_size_def\<close>)
qed

lemma recorder_simps [simp]:
  "Visit recorder p d v = v @ [EVisit p d]" "VisitWeak recorder p d cb m v = v @ [EWeak p d cb m]"
  "VisitEphemeron recorder k x d v = v @ [EEphemeron k x d]" "RegisterWeakCallback recorder cb m v = v @ [ERegister cb m]"
  by (simp_all add: recorder_def)

lemma visit_each_recorder:
  "visit_each M recorder desc as G v = map_option ((@) v) (visit_each M recorder desc as G [])"
proof (induction as arbitrary: v)
  case (Cons a as)
  have app: "visit_each M recorder desc as G (v @ es) = map_option ((@) v) (visit_each M recorder desc as G es)" for v es
    by (subst (1 2) Cons.IH) (cases "visit_each M recorder desc as G []"; simp)
  then show ?case using Cons.IH [of v] app [of v "[_]"] by (cases "GetRawAtomic M a G") auto
qed simp

lemma trace_field_recorder:
  assumes "field_fits M f"
  shows "trace_field M L recorder G f v = map_option ((@) v) (trace_field M L recorder G f [])"
proof (cases f)
  case (FArray T start n)
  with assms show ?thesis by (simp add: TraceMultiple_each visit_each_recorder [of M _ _ G v])
qed (auto simp: Trace_member_def Trace_weak_def TraceStrongly_def Trace_ephemeron_def TraceEphemeron_member_def TraceImpl_def
    RegisterWeakCallbackMethod_def Let_def split: bind_split)

lemma trace_fields_member:
  assumes "\<forall>f\<in>set fs. field_fits M f" "trace_fields M L recorder G fs v = Some evs" "f \<in> set fs"
  shows "\<exists>es. trace_field M L recorder G f [] = Some es \<and> set es \<subseteq> set evs"
proof -
  have grows: "set v \<subseteq> set evs" if "\<forall>f\<in>set fs. field_fits M f" "trace_fields M L recorder G fs v = Some evs" for v fs
    using that
  proof (induction fs arbitrary: v)
    case (Cons g gs)
    then obtain es where "trace_field M L recorder G g [] = Some es" "trace_fields M L recorder G gs (v @ es) = Some evs"
      using trace_field_recorder [of M g L G v] by (auto split: bind_splits)
    with Cons.IH [of "v @ es"] Cons.prems(1) show ?case by simp
  qed simp
  show ?thesis using assms
  proof (induction fs arbitrary: v)
    case (Cons g gs)
    then obtain es where es: "trace_field M L recorder G g [] = Some es" "trace_fields M L recorder G gs (v @ es) = Some evs"
      using trace_field_recorder [of M g L G v] by (auto split: bind_splits)
    show ?case
    proof (cases "f = g")
      case True
      with es grows [OF _ es(2)] Cons.prems(1) show ?thesis by simp
    next
      case False
      with Cons.IH [OF _ es(2)] Cons.prems show ?thesis by simp
    qed
  qed simp
qed

section \<open>Soundness\<close>

primrec traced_alive ::
    "('s, 'e) member_class \<Rightarrow> 'c trace_lib \<Rightarrow> broker \<Rightarrow> ('s, 'e) gc_state \<Rightarrow> 'c field \<Rightarrow> bool" where
  "traced_alive M L marked G (FStrong T a) = alive_at M L marked G T a"
| "traced_alive M L marked G (FWeak T a) = alive_at M L marked G T a"
| "traced_alive M L marked G (FStrongly T a) = alive_at M L marked G T a"
| "traced_alive M L marked G (FEphemeron K T e) = alive_at M L marked G T (ep_value e)"
| "traced_alive M L marked G (FArray T start n) = (\<forall>a\<in>set (array_slots start (slot_size M) n). alive_at M L marked G T a)"

text \<open>The keys are objects, and no callback clears the place of a key.\<close>

primrec key_intact :: "('s, 'e) member_class \<Rightarrow> ('c weak_callback \<times> u64) list \<Rightarrow> ('s, 'e) gc_state \<Rightarrow> 'c field \<Rightarrow> bool" where
  "key_intact M cs G (FStrong T a) = True"
| "key_intact M cs G (FWeak T a) = True"
| "key_intact M cs G (FStrongly T a) = True"
| "key_intact M cs G (FEphemeron K T e) =
     ((case ptrs M G (ep_key e) of None \<Rightarrow> False | Some p \<Rightarrow> p \<noteq> 0 \<and> p \<noteq> kSentinelPointer (larger_cage (mc_build M))) \<and>
      (\<forall>c\<in>set cs. ep_key e \<notin> clears (fst c) (snd c)))"
| "key_intact M cs G (FArray T start n) = True"

lemma visit_each_obeyed:
  assumes R: "storage_reads M"
  shows "visit_each M recorder (GetTraceDescriptor L T) as G v = Some es \<Longrightarrow> \<forall>e\<in>set es. obeyed marked reg e \<Longrightarrow>
    \<forall>a\<in>set as. alive_at M L marked G T a"
proof (induction as arbitrary: v)
  case (Cons a as)
  then obtain p where p: "ptrs M G a = Some p" by (cases "ptrs M G a") (auto simp: reads_ptrs [OF R])
  let ?v = "if p = 0 then v else v @ [EVisit p (GetTraceDescriptor L T p)]"
  have rest: "visit_each M recorder (GetTraceDescriptor L T) as G ?v = Some es"
    using Cons.prems(1) p by (simp add: reads_ptrs [OF R] split: if_splits)
  obtain es' where "es = ?v @ es'" using rest visit_each_recorder [of M _ as G ?v] by auto
  with Cons.prems(2) have "p \<noteq> 0 \<Longrightarrow> marked (base_object_payload (GetTraceDescriptor L T p))"
    by (simp add: obeyed_def split: if_splits)
  with p have "alive_at M L marked G T a" by (auto simp: alive_at_def IsHeapObjectAlive_def)
  with Cons.IH [OF rest Cons.prems(2)] show ?case by simp
qed simp

lemma callback_clears:
  assumes R: "storage_reads M" and "run_callback M L marked (HandleWeakMember T) x G = Some G'"
  shows "alive_at M L marked G' T x"
proof -
  obtain s where "slots G x = Some s" using assms by (auto simp: HandleWeak_def reads_ptrs [OF R] ptrs_def split: bind_splits)
  then show ?thesis using assms R [unfolded storage_reads_def Let_def]
    by (auto simp: HandleWeak_def reads_ptrs [OF R] alive_at_def ptrs_def split: if_splits)
qed

lemma ephemeron_callback_clears:
  assumes R: "storage_reads M" and r: "run_callback M L marked (ClearValue K a) x G = Some G'" and "ptrs M G x = Some k"
    and k: "\<not> IsHeapObjectAlive (larger_cage (mc_build M)) L marked K k"
  shows "alive_at M L marked G' T a"
proof -
  have "member_assign_null M a G = Some G'"
    using assms by (simp add: ClearValueIfKeyIsDead_def IsHeapObjectAlive_member_def reads_ptrs(2) [OF R])
  then show ?thesis using R [unfolded storage_reads_def Let_def]
    by (auto simp: reads_ptrs [OF R] alive_at_def split: option.splits)
qed

lemma traced_field_alive:
  assumes R: "storage_reads M" and fits: "field_fits M f" and key: "key_intact M cs G f" and r: "all_runnable G cs"
    and tr: "trace_field M L recorder G f [] = Some es" "\<forall>e\<in>set es. obeyed marked (set cs) e"
    and G': "run_callbacks M L marked cs G = Some G'"
  shows "traced_alive M L marked G' f"
proof -
  have sh: "shrinks M G G'" using run_callbacks_ok [OF R r, of L marked] G' by (auto simp: kept_def)
  note stays = alive_at_shrinks [OF _ sh]
  show ?thesis
  proof (cases f)
    case (FStrong T a)
    with tr have "alive_at M L marked G T a"
      by (auto simp: Trace_member_def TraceImpl_def reads_ptrs [OF R] obeyed_def alive_at_def IsHeapObjectAlive_def
          split: bind_splits if_splits)
    with FStrong show ?thesis by (simp add: stays)
  next
    case (FStrongly T a)
    with tr have "alive_at M L marked G T a"
      by (auto simp: TraceStrongly_def TraceImpl_def reads_ptrs [OF R] obeyed_def alive_at_def IsHeapObjectAlive_def
          split: bind_splits if_splits)
    with FStrongly show ?thesis by (simp add: stays)
  next
    case (FArray T start n)
    with tr fits have "\<forall>a\<in>set (array_slots start (slot_size M) n). alive_at M L marked G T a"
      by (intro visit_each_obeyed [OF R]) (simp_all add: TraceMultiple_each)
    with FArray show ?thesis by (simp add: stays)
  next
    case (FWeak T a)
    with tr obtain p where p: "ptrs M G a = Some p" by (auto simp: Trace_weak_def reads_ptrs [OF R] split: bind_splits)
    show ?thesis
    proof (cases "p = 0")
      case True
      with p have "alive_at M L marked G T a" by (simp add: alive_at_def)
      with FWeak show ?thesis by (simp add: stays)
    next
      case False
      with FWeak tr p have "(HandleWeakMember T, a) \<in> set cs"
        by (auto simp: Trace_weak_def reads_ptrs [OF R] obeyed_def)
      from callback_runs [OF R r this G'] obtain G1 G2
        where "run_callback M L marked (HandleWeakMember T) a G1 = Some G2" "shrinks M G2 G'" .
      with FWeak show ?thesis by (simp add: alive_at_shrinks [OF callback_clears [OF R]])
    qed
  next
    case (FEphemeron K T e)
    with key obtain k where k: "ptrs M G (ep_key e) = Some k" "k \<noteq> 0" "k \<noteq> kSentinelPointer (larger_cage (mc_build M))"
      "\<forall>c\<in>set cs. ep_key e \<notin> clears (fst c) (snd c)" by (auto split: option.splits)
    from FEphemeron tr k(1,2) obtain p where p: "ptrs M G (ep_value e) = Some p"
      by (auto simp: Trace_ephemeron_def TraceEphemeron_member_def reads_ptrs [OF R] split: bind_splits)
    show ?thesis
    proof (cases "IsHeapObjectAlive (larger_cage (mc_build M)) L marked K k")
      case True
      with k have "marked (base_object_payload (GetTraceDescriptor L K k))" by (simp add: IsHeapObjectAlive_def)
      with FEphemeron tr k(1,2) p have "alive_at M L marked G T (ep_value e)"
        by (auto simp: Trace_ephemeron_def TraceEphemeron_member_def reads_ptrs [OF R] Let_def obeyed_def alive_at_def
            RegisterWeakCallbackMethod_def IsHeapObjectAlive_def split: if_splits)
      with FEphemeron show ?thesis by (simp add: stays)
    next
      case False
      from FEphemeron tr k(1,2) p have "(ClearValue K (ep_value e), ep_key e) \<in> set cs"
        by (auto simp: Trace_ephemeron_def TraceEphemeron_member_def reads_ptrs [OF R] Let_def obeyed_def
            RegisterWeakCallbackMethod_def split: if_splits)
      from callback_runs [OF R r this G'] obtain G1 G2
        where G2: "run_callback M L marked (ClearValue K (ep_value e)) (ep_key e) G1 = Some G2" "kept M cs G G1" "shrinks M G2 G'" .
      have "ptrs M G1 (ep_key e) = Some k" using G2(2) k(1,4) by (simp add: kept_def)
      from ephemeron_callback_clears [OF R G2(1) this False] FEphemeron show ?thesis
        by (simp add: alive_at_shrinks [OF _ G2(3)])
    qed
  qed
qed


text \<open>C32: an ephemeron whose key is null. Its trace only registers the callback, which does nothing, so the
  value is neither retained nor cleared: when the value's object is not marked, the member dangles.\<close>

theorem ephemeron_null_key:
  assumes "storage_reads M" "ptrs M G (ep_key e) = Some 0" "ptrs M G (ep_value e) = Some p"
  shows "trace_field M L recorder G (FEphemeron K T e) [] = Some [ERegister (ClearValue K (ep_value e)) (ep_key e)] \<and>
    run_callback M L marked (ClearValue K (ep_value e)) (ep_key e) G = Some G"
  using assms
  by (simp add: Trace_ephemeron_def TraceEphemeron_member_def reads_ptrs RegisterWeakCallbackMethod_def
      ClearValueIfKeyIsDead_def IsHeapObjectAlive_member_def)

section \<open>Witnesses\<close>

text \<open>One object with a weak member, an ephemeron and a strong member: the marked object is at 0x500001000.\<close>

definition demo_classes :: "nat trace_lib" where
  "demo_classes = \<lparr>is_mixin = (\<lambda>c. False), TraceTraitFromInnerAddress = (\<lambda>a. \<lparr>base_object_payload = a, td_callback = 0\<rparr>)\<rparr>"

definition demo_traced :: "(RawPointer, u64 list) gc_state" where
  "demo_traced = demo_gc\<lparr>slots := [8 \<mapsto> RawPointer 0x500002000, 16 \<mapsto> RawPointer 0x500002000, 24 \<mapsto> RawPointer 0x500003000,
     32 \<mapsto> RawPointer 0x500001000]\<rparr>"

definition demo_fields :: "nat field list" where
  "demo_fields = [FWeak 0 8, FEphemeron 0 0 \<lparr>ep_key = 16, ep_value = 24\<rparr>, FArray 0 32 1]"

definition demo_callbacks :: "(nat weak_callback \<times> u64) list" where
  "demo_callbacks = [(HandleWeakMember 0, 8), (ClearValue 0 24, 16)]"

lemma demo_member_reads: "storage_reads demo_member" by (rule raw_reads) (simp add: demo_member_def)

lemma demo_ptrs: "ptrs demo_member demo_traced =
    [8 \<mapsto> 0x500002000, 16 \<mapsto> 0x500002000, 24 \<mapsto> 0x500003000, 32 \<mapsto> 0x500001000]"
  by (auto simp: ptrs_def demo_traced_def demo_gc_def demo_member_def raw_storage_def RP_Load_def)

lemma array_slots_one: "array_slots start sz 1 = [start]"
  using array_slots_Suc [of start sz 0] by (simp add: array_slots_def One_nat_def)


theorem ephemeron_null_key_witness:
  "run_callback demo_member demo_classes (\<lambda>p. p = 0x500001000) (ClearValue 0 24) 16
     (put_slot 16 (RawPointer 0) demo_traced) = Some (put_slot 16 (RawPointer 0) demo_traced)"
proof -
  have "ptrs demo_member (put_slot 16 (RawPointer 0) demo_traced) 16 = Some 0"
    "ptrs demo_member (put_slot 16 (RawPointer 0) demo_traced) 24 = Some 0x500003000"
    by (simp_all add: demo_ptrs) (simp add: demo_member_def raw_storage_def RP_Load_def)
  then show ?thesis
    using ephemeron_null_key [OF demo_member_reads, of _ "\<lparr>ep_key = 16, ep_value = 24\<rparr>" _ demo_classes 0 0
      "\<lambda>p. p = 0x500001000"] by (simp del: run_callback.simps)
qed

end
