(* ===== verification/V8_Platform.thy ===== *)
theory V8_Platform
  imports V8_Double
begin

unbundle bit_operations_syntax

text \<open>
  The interfaces through which V8 reaches its embedder: \<open>v8-platform.h\<close>, \<open>v8-source-location.h\<close>,
  \<open>cppgc/platform.h\<close> and \<open>cppgc/default-platform.h\<close>. An abstract class is a record with a field per virtual method,
  acting on a state \<open>'s\<close> of the embedder; the methods that have a body in the header are its \<open>_base\<close> record. The
  lemmas show page permissions to be sets, the bounds of an address space, and which tasks reach the embedder.
\<close>

section \<open>Source locations\<close>

record source_location =
  function_name :: string
  file_name :: string
  line :: u32
  column :: u32

record SourceLocation =
  source_loc :: source_location

definition SourceLocation_new :: "source_location \<Rightarrow> SourceLocation" where
  "SourceLocation_new loc = \<lparr>source_loc = loc\<rparr>"

definition SourceLocation_default :: SourceLocation where
  "SourceLocation_default = SourceLocation_new \<lparr>function_name = [], file_name = [], line = 0, column = 0\<rparr>"

text \<open>\<open>loc\<close> is the place of the call.\<close>

definition SourceLocation_Current :: "source_location \<Rightarrow> SourceLocation" where
  "SourceLocation_Current loc = SourceLocation_new loc"

definition CurrentIfDebug :: "bool \<Rightarrow> source_location \<Rightarrow> SourceLocation" where
  "CurrentIfDebug debug loc = (if debug then SourceLocation_new loc else SourceLocation_default)"

definition SourceLocation_Function :: "SourceLocation \<Rightarrow> string" where
  "SourceLocation_Function l = function_name (source_loc l)"

definition SourceLocation_FileName :: "SourceLocation \<Rightarrow> string" where
  "SourceLocation_FileName l = file_name (source_loc l)"

definition SourceLocation_Line :: "SourceLocation \<Rightarrow> u64" where
  "SourceLocation_Line l = ucast (line (source_loc l))"

definition SourceLocation_bool :: "SourceLocation \<Rightarrow> bool" where
  "SourceLocation_bool l \<longleftrightarrow> line (source_loc l) \<noteq> 0"

section \<open>Tasks and their runners\<close>

datatype TaskPriority = kBestEffort | kUserVisible | kUserBlocking

definition kMaxPriority :: TaskPriority where "kMaxPriority = kUserBlocking"

primrec priority_value :: "TaskPriority \<Rightarrow> nat" where
  "priority_value kBestEffort = 0"
| "priority_value kUserVisible = 1"
| "priority_value kUserBlocking = 2"

instantiation TaskPriority :: linorder
begin

definition less_eq_TaskPriority :: "TaskPriority \<Rightarrow> TaskPriority \<Rightarrow> bool" where
  "less_eq_TaskPriority p q \<longleftrightarrow> priority_value p \<le> priority_value q"

definition less_TaskPriority :: "TaskPriority \<Rightarrow> TaskPriority \<Rightarrow> bool" where
  "less_TaskPriority p q \<longleftrightarrow> priority_value p < priority_value q"

instance
proof
  fix p q :: TaskPriority
  show "p \<le> q \<Longrightarrow> q \<le> p \<Longrightarrow> p = q" by (cases p; cases q) (simp_all add: less_eq_TaskPriority_def)
qed (auto simp: less_eq_TaskPriority_def less_TaskPriority_def)

end

lemma below_kMaxPriority: "p \<le> kMaxPriority"
  by (cases p) (simp_all add: less_eq_TaskPriority_def kMaxPriority_def)

text \<open>Delays are the bits of a double.\<close>

record ('t, 'i, 's) TaskRunner =
  PostTaskImpl :: "'t \<Rightarrow> SourceLocation \<Rightarrow> 's \<Rightarrow> 's"
  PostNonNestableTaskImpl :: "'t \<Rightarrow> SourceLocation \<Rightarrow> 's \<Rightarrow> 's"
  PostDelayedTaskImpl :: "'t \<Rightarrow> u64 \<Rightarrow> SourceLocation \<Rightarrow> 's \<Rightarrow> 's"
  PostNonNestableDelayedTaskImpl :: "'t \<Rightarrow> u64 \<Rightarrow> SourceLocation \<Rightarrow> 's \<Rightarrow> 's"
  PostIdleTaskImpl :: "'i \<Rightarrow> SourceLocation \<Rightarrow> 's \<Rightarrow> 's"
  runner_IdleTasksEnabled :: "'s \<Rightarrow> bool"
  NonNestableTasksEnabled :: "'s \<Rightarrow> bool"
  NonNestableDelayedTasksEnabled :: "'s \<Rightarrow> bool"

text \<open>\<open>IdleTasksEnabled\<close> has no body and is an argument.\<close>

definition TaskRunner_base :: "('s \<Rightarrow> bool) \<Rightarrow> ('t, 'i, 's) TaskRunner" where
  "TaskRunner_base idle =
     \<lparr>PostTaskImpl = (\<lambda>task location s. s), PostNonNestableTaskImpl = (\<lambda>task location s. s),
      PostDelayedTaskImpl = (\<lambda>task delay location s. s), PostNonNestableDelayedTaskImpl = (\<lambda>task delay location s. s),
      PostIdleTaskImpl = (\<lambda>task location s. s), runner_IdleTasksEnabled = idle,
      NonNestableTasksEnabled = (\<lambda>s. False), NonNestableDelayedTasksEnabled = (\<lambda>s. False)\<rparr>"

definition PostTask :: "('t, 'i, 's) TaskRunner \<Rightarrow> 't \<Rightarrow> SourceLocation \<Rightarrow> 's \<Rightarrow> 's" where
  "PostTask R task location s = PostTaskImpl R task location s"

definition PostNonNestableTask :: "('t, 'i, 's) TaskRunner \<Rightarrow> 't \<Rightarrow> SourceLocation \<Rightarrow> 's \<Rightarrow> 's" where
  "PostNonNestableTask R task location s = PostNonNestableTaskImpl R task location s"

definition PostDelayedTask :: "('t, 'i, 's) TaskRunner \<Rightarrow> 't \<Rightarrow> u64 \<Rightarrow> SourceLocation \<Rightarrow> 's \<Rightarrow> 's" where
  "PostDelayedTask R task delay_in_seconds location s = PostDelayedTaskImpl R task delay_in_seconds location s"

definition PostNonNestableDelayedTask :: "('t, 'i, 's) TaskRunner \<Rightarrow> 't \<Rightarrow> u64 \<Rightarrow> SourceLocation \<Rightarrow> 's \<Rightarrow> 's" where
  "PostNonNestableDelayedTask R task delay_in_seconds location s =
     PostNonNestableDelayedTaskImpl R task delay_in_seconds location s"

definition PostIdleTask :: "('t, 'i, 's) TaskRunner \<Rightarrow> 'i \<Rightarrow> SourceLocation \<Rightarrow> 's \<Rightarrow> 's" where
  "PostIdleTask R task location s = PostIdleTaskImpl R task location s"

text \<open>Jobs.\<close>

record 's JobHandle =
  job_NotifyConcurrencyIncrease :: "'s \<Rightarrow> 's"
  job_Join :: "'s \<Rightarrow> 's"
  job_Cancel :: "'s \<Rightarrow> 's"
  job_CancelAndDetach :: "'s \<Rightarrow> 's"
  job_IsActive :: "'s \<Rightarrow> bool"
  job_IsValid :: "'s \<Rightarrow> bool"
  UpdatePriorityEnabled :: "'s \<Rightarrow> bool"
  UpdatePriority :: "TaskPriority \<Rightarrow> 's \<Rightarrow> 's"

text \<open>The two methods with a body, put on top of a handle.\<close>

definition JobHandle_base :: "'s JobHandle \<Rightarrow> 's JobHandle" where
  "JobHandle_base h = h\<lparr>UpdatePriorityEnabled := \<lambda>s. False, UpdatePriority := \<lambda>new_priority s. s\<rparr>"

datatype BlockingType = kMayBlock | kWillBlock

section \<open>Memory of the embedder\<close>

record SharedMemoryHandle =
  shm_handle :: int

definition FromPlatformHandle :: "int \<Rightarrow> SharedMemoryHandle" where
  "FromPlatformHandle handle = \<lparr>shm_handle = handle\<rparr>"

definition GetPlatformHandle :: "SharedMemoryHandle \<Rightarrow> int" where
  "GetPlatformHandle h = shm_handle h"

definition SharedMemoryHandleFromFileDescriptor :: "int \<Rightarrow> SharedMemoryHandle" where
  "SharedMemoryHandleFromFileDescriptor handle = FromPlatformHandle handle"

definition FileDescriptorFromSharedMemoryHandle :: "SharedMemoryHandle \<Rightarrow> int" where
  "FileDescriptorFromSharedMemoryHandle h = GetPlatformHandle h"

definition kInvalidSharedMemoryHandle :: "SharedMemoryHandle option" where
  "kInvalidSharedMemoryHandle = None"

datatype Permission = kNoAccess | kRead | kReadWrite | kReadWriteExecute | kReadExecute | kNoAccessWillJitLater

record AllocationHint =
  hint_addr :: u64
  hint_may_grow :: bool

definition AllocationHint_default :: AllocationHint where
  "AllocationHint_default = \<lparr>hint_addr = 0, hint_may_grow = False\<rparr>"

definition WithAddress :: "u64 \<Rightarrow> AllocationHint \<Rightarrow> AllocationHint" where
  "WithAddress address h = \<lparr>hint_addr = address, hint_may_grow = hint_may_grow h\<rparr>"

definition WithMayGrow :: "AllocationHint \<Rightarrow> AllocationHint" where
  "WithMayGrow h = \<lparr>hint_addr = hint_addr h, hint_may_grow = True\<rparr>"

definition MayGrow :: "AllocationHint \<Rightarrow> bool" where "MayGrow h = hint_may_grow h"
definition hint_Address :: "AllocationHint \<Rightarrow> u64" where "hint_Address h = hint_addr h"

record 's PageAllocator =
  AllocatePageSize :: "'s \<Rightarrow> u64"
  CommitPageSize :: "'s \<Rightarrow> u64"
  SetRandomMmapSeed :: "64 word \<Rightarrow> 's \<Rightarrow> 's"
  GetRandomMmapAddr :: "'s \<Rightarrow> u64 \<times> 's"
  AllocatePages :: "u64 \<Rightarrow> u64 \<Rightarrow> u64 \<Rightarrow> Permission \<Rightarrow> 's \<Rightarrow> u64 \<times> 's"
  AllocatePages_hint :: "u64 \<Rightarrow> u64 \<Rightarrow> Permission \<Rightarrow> AllocationHint \<Rightarrow> 's \<Rightarrow> u64 \<times> 's"
  ResizeAllocationAt :: "u64 \<Rightarrow> u64 \<Rightarrow> u64 \<Rightarrow> Permission \<Rightarrow> 's \<Rightarrow> bool \<times> 's"
  FreePages :: "u64 \<Rightarrow> u64 \<Rightarrow> 's \<Rightarrow> bool \<times> 's"
  ReleasePages :: "u64 \<Rightarrow> u64 \<Rightarrow> u64 \<Rightarrow> 's \<Rightarrow> bool \<times> 's"
  SetPermissions :: "u64 \<Rightarrow> u64 \<Rightarrow> Permission \<Rightarrow> 's \<Rightarrow> bool \<times> 's"
  RecommitPages :: "u64 \<Rightarrow> u64 \<Rightarrow> Permission \<Rightarrow> 's \<Rightarrow> bool \<times> 's"
  DiscardSystemPages :: "u64 \<Rightarrow> u64 \<Rightarrow> 's \<Rightarrow> bool \<times> 's"
  DecommitPages :: "u64 \<Rightarrow> u64 \<Rightarrow> 's \<Rightarrow> bool \<times> 's"
  SealPages :: "u64 \<Rightarrow> u64 \<Rightarrow> 's \<Rightarrow> bool \<times> 's"
  ReserveForSharedMemoryMapping :: "u64 \<Rightarrow> u64 \<Rightarrow> 's \<Rightarrow> bool \<times> 's"
  AllocateSharedPages :: "u64 \<Rightarrow> u64 \<Rightarrow> 's \<Rightarrow> addr \<times> 's"
  CanAllocateSharedPages :: "'s \<Rightarrow> bool"

text \<open>The methods with a body, over the abstract ones of \<open>A\<close>.\<close>

definition PageAllocator_base :: "'s PageAllocator \<Rightarrow> 's PageAllocator" where
  "PageAllocator_base A =
     A\<lparr>AllocatePages_hint := \<lambda>len alignment permissions hint s. AllocatePages A (hint_Address hint) len alignment permissions s,
       ResizeAllocationAt := \<lambda>address old_length new_length permissions s. (False, s),
       RecommitPages := \<lambda>address len permissions s. (False, s),
       DiscardSystemPages := \<lambda>address sz s. (True, s),
       SealPages := \<lambda>address len s. (False, s),
       ReserveForSharedMemoryMapping := \<lambda>address sz s. (False, s),
       AllocateSharedPages := \<lambda>len original_address s. (nullptr, s),
       CanAllocateSharedPages := \<lambda>s. False\<rparr>"

record 's ThreadIsolatedAllocator =
  tia_Allocate :: "u64 \<Rightarrow> 's \<Rightarrow> u64 \<times> 's"
  tia_Free :: "u64 \<Rightarrow> 's \<Rightarrow> 's"
  tia_Pkey :: "'s \<Rightarrow> int"

definition ThreadIsolatedAllocator_base :: "'s ThreadIsolatedAllocator \<Rightarrow> 's ThreadIsolatedAllocator" where
  "ThreadIsolatedAllocator_base A = A\<lparr>tia_Pkey := \<lambda>s. - 1\<rparr>"

section \<open>Address spaces\<close>

text \<open>The enumeration has the values of its bits; \<open>int\<close> is 32 bits wide.\<close>

type_synonym PagePermissions = "32 word"

definition perm_NoAccess :: PagePermissions where "perm_NoAccess = 0"
definition perm_Read :: PagePermissions where "perm_Read = 1"
definition perm_Write :: PagePermissions where "perm_Write = 2"
definition perm_Execute :: PagePermissions where "perm_Execute = 4"
definition perm_ReadWrite :: PagePermissions where "perm_ReadWrite = perm_Read OR perm_Write"
definition perm_ReadExecute :: PagePermissions where "perm_ReadExecute = perm_Read OR perm_Execute"
definition perm_WriteExecute :: PagePermissions where "perm_WriteExecute = perm_Write OR perm_Execute"
definition perm_ReadWriteExecute :: PagePermissions where
  "perm_ReadWriteExecute = perm_Read OR perm_Write OR perm_Execute"

definition perm_or :: "PagePermissions \<Rightarrow> PagePermissions \<Rightarrow> PagePermissions" where
  "perm_or lhs rhs = lhs OR rhs"

definition perm_and :: "PagePermissions \<Rightarrow> PagePermissions \<Rightarrow> PagePermissions" where
  "perm_and lhs rhs = lhs AND rhs"

definition perm_or_assign :: "PagePermissions \<Rightarrow> PagePermissions \<Rightarrow> PagePermissions" where
  "perm_or_assign lhs rhs = perm_or lhs rhs"

definition IsSubset :: "PagePermissions \<Rightarrow> PagePermissions \<Rightarrow> bool" where
  "IsSubset lhs rhs \<longleftrightarrow> perm_and lhs rhs = lhs"

record VirtualAddressSpace =
  vas_page_size :: u64
  vas_granularity :: u64
  vas_base :: u64
  vas_size :: u64
  vas_max_permissions :: PagePermissions

definition VirtualAddressSpace_new :: "u64 \<Rightarrow> u64 \<Rightarrow> u64 \<Rightarrow> u64 \<Rightarrow> PagePermissions \<Rightarrow> VirtualAddressSpace" where
  "VirtualAddressSpace_new page_size allocation_granularity base sz max_page_permissions =
     \<lparr>vas_page_size = page_size, vas_granularity = allocation_granularity, vas_base = base, vas_size = sz,
      vas_max_permissions = max_page_permissions\<rparr>"

definition VAS_page_size :: "VirtualAddressSpace \<Rightarrow> u64" where "VAS_page_size V = vas_page_size V"
definition VAS_allocation_granularity :: "VirtualAddressSpace \<Rightarrow> u64" where
  "VAS_allocation_granularity V = vas_granularity V"
definition VAS_base :: "VirtualAddressSpace \<Rightarrow> u64" where "VAS_base V = vas_base V"
definition VAS_size :: "VirtualAddressSpace \<Rightarrow> u64" where "VAS_size V = vas_size V"
definition VAS_max_page_permissions :: "VirtualAddressSpace \<Rightarrow> PagePermissions" where
  "VAS_max_page_permissions V = vas_max_permissions V"

definition VAS_Contains :: "VirtualAddressSpace \<Rightarrow> u64 \<Rightarrow> bool" where
  "VAS_Contains V address \<longleftrightarrow> VAS_base V \<le> address \<and> address < VAS_base V + VAS_size V"

definition kNoHint :: u64 where "kNoHint = 0"

text \<open>The virtual methods of an address space that the header gives a body or calls.\<close>

record 's vas_methods =
  VAS_AllocateSharedPages :: "u64 \<Rightarrow> u64 \<Rightarrow> PagePermissions \<Rightarrow> SharedMemoryHandle \<Rightarrow> u64 \<Rightarrow> 's \<Rightarrow> u64 \<times> 's"
  VAS_DiscardSystemPages :: "u64 \<Rightarrow> u64 \<Rightarrow> 's \<Rightarrow> bool \<times> 's"
  VAS_SetName :: "string \<Rightarrow> 's \<Rightarrow> bool \<times> 's"

definition vas_methods_base :: "'s vas_methods \<Rightarrow> 's vas_methods" where
  "vas_methods_base A = A\<lparr>VAS_DiscardSystemPages := \<lambda>address sz s. (True, s), VAS_SetName := \<lambda>name s. (False, s)\<rparr>"

text \<open>Reading an empty optional is undefined.\<close>

definition VAS_AllocateSharedPages_optional ::
    "'s vas_methods \<Rightarrow> u64 \<Rightarrow> u64 \<Rightarrow> PagePermissions \<Rightarrow> SharedMemoryHandle option \<Rightarrow> u64 \<Rightarrow> 's \<Rightarrow> (u64 \<times> 's) option" where
  "VAS_AllocateSharedPages_optional A hint sz permissions handle off s =
     do { h \<leftarrow> handle; Some (VAS_AllocateSharedPages A hint sz permissions h off s) }"

text \<open>Page permissions are sets of accesses: on every pair of values \<open>|\<close> is union, \<open>&\<close> is intersection,
  \<open>IsSubset\<close> is inclusion, and the named permissions are the sets their names say.\<close>

definition accesses :: "PagePermissions \<Rightarrow> nat set" where
  "accesses p = {n. bit p n}"

lemma permissions_are_sets:
  "accesses (perm_or p q) = accesses p \<union> accesses q \<and> accesses (perm_and p q) = accesses p \<inter> accesses q \<and>
   (IsSubset p q \<longleftrightarrow> accesses p \<subseteq> accesses q) \<and> (accesses p = accesses q \<longleftrightarrow> p = q) \<and>
   accesses perm_NoAccess = {} \<and> accesses perm_ReadWriteExecute = {0, 1, 2} \<and> accesses perm_ReadWrite = {0, 1} \<and>
   accesses perm_ReadExecute = {0, 2} \<and> accesses perm_WriteExecute = {1, 2}"
proof -
  have 1: "accesses (perm_or p q) = accesses p \<union> accesses q" "accesses (perm_and p q) = accesses p \<inter> accesses q" for p q
    by (auto simp: accesses_def perm_or_def perm_and_def bit_simps)
  have inj: "accesses p = accesses q \<longleftrightarrow> p = q" for p q
    by (auto simp: accesses_def set_eq_iff intro: bit_eqI)
  have w: "perm_Write = push_bit 1 1" "perm_Execute = push_bit 2 1"
    by (simp_all add: perm_Write_def perm_Execute_def One_nat_def)
  have pow: "accesses (push_bit n 1) = {n}" if "n < 32" for n
    using that by (auto simp: accesses_def bit_push_bit_iff bit_1_iff simp del: push_bit_of_1)
  have base: "accesses perm_NoAccess = {}" "accesses perm_Read = {0}" "accesses perm_Write = {1}" "accesses perm_Execute = {2}"
    using pow [of 0] pow [of 1] pow [of 2] by (simp_all add: w) (simp_all add: accesses_def perm_NoAccess_def perm_Read_def)
  have "IsSubset p q \<longleftrightarrow> accesses p \<subseteq> accesses q"
    using inj [of "perm_and p q" p] by (auto simp: IsSubset_def 1)
  moreover note or = 1(1) [unfolded perm_or_def]
  ultimately show ?thesis using 1 inj base
    by (auto simp: perm_ReadWrite_def perm_ReadExecute_def perm_WriteExecute_def perm_ReadWriteExecute_def or)
qed

text \<open>An address is contained exactly when it lies in the space and the space ends below 2^64. A space that
  ends at the top of the address space contains none of its addresses, because the sum wraps.\<close>

lemma Contains_exact:
  "VAS_Contains V address \<longleftrightarrow> unat (vas_base V) + unat (vas_size V) < 2 ^ 64 \<and>
     unat (vas_base V) \<le> unat address \<and> unat address < unat (vas_base V) + unat (vas_size V)"
proof (cases "unat (vas_base V) + unat (vas_size V) < 2 ^ 64")
  case True
  then have "unat (vas_base V + vas_size V) = unat (vas_base V) + unat (vas_size V)"
    by (simp add: unat_plus_simple [THEN iffD1] no_olen_add_nat)
  with True show ?thesis by (simp add: VAS_Contains_def VAS_base_def VAS_size_def word_le_nat_alt word_less_nat_alt)
next
  case False
  have wrap: "(a + b) mod 2 ^ 64 \<le> a" if "b < 2 ^ 64" "2 ^ 64 \<le> a + b" for a b :: nat
    using that by (simp add: le_mod_geq)
  have "unat (vas_base V + vas_size V) \<le> unat (vas_base V)"
    using wrap [of "unat (vas_size V)" "unat (vas_base V)"] False unsigned_less [of "vas_size V"]
    by (simp add: unat_word_ariths)
  then have "vas_base V + vas_size V \<le> vas_base V"
    by (simp add: word_le_nat_alt)
  with False show ?thesis by (auto simp: VAS_Contains_def VAS_base_def VAS_size_def)
qed

section \<open>Tracing and observers\<close>

text \<open>An argument of a trace event is left to the controller; the flag a category points to is a byte.\<close>

record ('a, 's) TracingController =
  GetCategoryGroupEnabled :: "string \<Rightarrow> 's \<Rightarrow> byte"
  AddTraceEvent :: "char \<Rightarrow> string \<Rightarrow> u64 \<Rightarrow> u64 \<Rightarrow> 'a list \<Rightarrow> u32 \<Rightarrow> 's \<Rightarrow> u64 \<times> 's"
  AddTraceEventWithTimestamp :: "char \<Rightarrow> string \<Rightarrow> u64 \<Rightarrow> u64 \<Rightarrow> 'a list \<Rightarrow> u32 \<Rightarrow> u64 \<Rightarrow> 's \<Rightarrow> u64 \<times> 's"
  UpdateTraceEventDuration :: "byte \<Rightarrow> string \<Rightarrow> u64 \<Rightarrow> 's \<Rightarrow> 's"
  AddTraceStateObserver :: "addr \<Rightarrow> 's \<Rightarrow> 's"
  RemoveTraceStateObserver :: "addr \<Rightarrow> 's \<Rightarrow> 's"

definition TracingController_base :: "('a, 's) TracingController" where
  "TracingController_base =
     \<lparr>GetCategoryGroupEnabled = (\<lambda>name s. 0),
      AddTraceEvent = (\<lambda>phase name id bind_id args flags s. (0, s)),
      AddTraceEventWithTimestamp = (\<lambda>phase name id bind_id args flags timestamp s. (0, s)),
      UpdateTraceEventDuration = (\<lambda>category_enabled_flag name handle s. s),
      AddTraceStateObserver = (\<lambda>observer s. s), RemoveTraceStateObserver = (\<lambda>observer s. s)\<rparr>"

record 's HighAllocationThroughputObserver =
  EnterSection :: "'s \<Rightarrow> 's"
  LeaveSection :: "'s \<Rightarrow> 's"

definition default_observer :: "'s HighAllocationThroughputObserver" where
  "default_observer = \<lparr>EnterSection = (\<lambda>s. s), LeaveSection = (\<lambda>s. s)\<rparr>"

section \<open>\<open>Platform\<close>\<close>

text \<open>The methods of a platform; task runners, job handles, page allocators and scopes are objects at addresses, and
  \<open>job_notify\<close> is the virtual \<open>NotifyConcurrencyIncrease\<close> of the handle at an address.\<close>

record ('t, 'j, 's) Platform =
  GetPageAllocator :: "'s \<Rightarrow> addr"
  GetThreadIsolatedAllocator :: "'s \<Rightarrow> addr"
  OnCriticalMemoryPressure :: "'s \<Rightarrow> 's"
  NumberOfWorkerThreads :: "'s \<Rightarrow> int"
  GetForegroundTaskRunner_priority :: "addr \<Rightarrow> TaskPriority \<Rightarrow> 's \<Rightarrow> addr \<times> 's"
  platform_IdleTasksEnabled :: "addr \<Rightarrow> 's \<Rightarrow> bool"
  CreateBoostablePriorityScope :: "'s \<Rightarrow> addr \<times> 's"
  CreateBlockingScope :: "BlockingType \<Rightarrow> 's \<Rightarrow> addr \<times> 's"
  MonotonicallyIncreasingTime :: "'s \<Rightarrow> u64"
  CurrentClockTimeMilliseconds :: "'s \<Rightarrow> int option"
  CurrentClockTimeMillis :: "'s \<Rightarrow> u64"
  CurrentClockTimeMillisecondsHighResolution :: "'s \<Rightarrow> u64"
  GetStackTracePrinter :: "'s \<Rightarrow> addr"
  GetTracingController :: "'s \<Rightarrow> addr"
  DumpWithoutCrashing :: "'s \<Rightarrow> 's"
  GetHighAllocationThroughputObserver :: "'s \<Rightarrow> 's HighAllocationThroughputObserver"
  CreateJobImpl :: "TaskPriority \<Rightarrow> 'j \<Rightarrow> SourceLocation \<Rightarrow> 's \<Rightarrow> addr \<times> 's"
  PostTaskOnWorkerThreadImpl :: "TaskPriority \<Rightarrow> 't \<Rightarrow> SourceLocation \<Rightarrow> 's \<Rightarrow> 's"
  PostDelayedTaskOnWorkerThreadImpl :: "TaskPriority \<Rightarrow> 't \<Rightarrow> u64 \<Rightarrow> SourceLocation \<Rightarrow> 's \<Rightarrow> 's"
  job_notify :: "addr \<Rightarrow> 's \<Rightarrow> 's"

text \<open>\<open>static_cast<int64_t>(floor(d))\<close> of the double with the bits \<open>d\<close>; \<open>None\<close> when it has no meaning.\<close>

definition floor_int64 :: "u64 \<Rightarrow> int option" where
  "floor_int64 d =
     (let b = unat d; expo = b div 2 ^ 52 mod 2 ^ 11; frac = b mod 2 ^ 52;
          sig = (if expo = 0 then frac else 2 ^ 52 + frac); e = (if expo = 0 then 1 else expo);
          n = (if 2 ^ 63 \<le> b then - int sig else int sig);
          v = (if 1075 \<le> e then n * 2 ^ (e - 1075) else n div 2 ^ (1075 - e))
      in if expo = 2047 \<or> v < - (2 ^ 63) \<or> 2 ^ 63 \<le> v then None else Some v)"

definition Platform_base :: "('t, 'j, 's) Platform \<Rightarrow> ('t, 'j, 's) Platform" where
  "Platform_base P =
     P\<lparr>GetPageAllocator := \<lambda>s. nullptr, GetThreadIsolatedAllocator := \<lambda>s. nullptr, OnCriticalMemoryPressure := \<lambda>s. s,
       platform_IdleTasksEnabled := \<lambda>isolate s. False, CreateBoostablePriorityScope := \<lambda>s. (nullptr, s),
       CreateBlockingScope := \<lambda>blocking_type s. (nullptr, s),
       CurrentClockTimeMilliseconds := \<lambda>s. floor_int64 (CurrentClockTimeMillis P s),
       CurrentClockTimeMillisecondsHighResolution := CurrentClockTimeMillis P,
       GetStackTracePrinter := \<lambda>s. nullptr, DumpWithoutCrashing := \<lambda>s. s,
       GetHighAllocationThroughputObserver := \<lambda>s. default_observer\<rparr>"

definition GetForegroundTaskRunner :: "('t, 'j, 's) Platform \<Rightarrow> addr \<Rightarrow> 's \<Rightarrow> addr \<times> 's" where
  "GetForegroundTaskRunner P isolate s = GetForegroundTaskRunner_priority P isolate kUserBlocking s"

definition CallOnWorkerThread :: "('t, 'j, 's) Platform \<Rightarrow> 't \<Rightarrow> SourceLocation \<Rightarrow> 's \<Rightarrow> 's" where
  "CallOnWorkerThread P task location s = PostTaskOnWorkerThreadImpl P kUserVisible task location s"

definition CallBlockingTaskOnWorkerThread :: "('t, 'j, 's) Platform \<Rightarrow> 't \<Rightarrow> SourceLocation \<Rightarrow> 's \<Rightarrow> 's" where
  "CallBlockingTaskOnWorkerThread P task location s = PostTaskOnWorkerThreadImpl P kUserBlocking task location s"

definition CallLowPriorityTaskOnWorkerThread :: "('t, 'j, 's) Platform \<Rightarrow> 't \<Rightarrow> SourceLocation \<Rightarrow> 's \<Rightarrow> 's" where
  "CallLowPriorityTaskOnWorkerThread P task location s = PostTaskOnWorkerThreadImpl P kBestEffort task location s"

definition CallDelayedOnWorkerThread :: "('t, 'j, 's) Platform \<Rightarrow> 't \<Rightarrow> u64 \<Rightarrow> SourceLocation \<Rightarrow> 's \<Rightarrow> 's" where
  "CallDelayedOnWorkerThread P task delay_in_seconds location s =
     PostDelayedTaskOnWorkerThreadImpl P kUserVisible task delay_in_seconds location s"

definition PostTaskOnWorkerThread ::
    "('t, 'j, 's) Platform \<Rightarrow> TaskPriority \<Rightarrow> 't \<Rightarrow> SourceLocation \<Rightarrow> 's \<Rightarrow> 's" where
  "PostTaskOnWorkerThread P priority task location s = PostTaskOnWorkerThreadImpl P priority task location s"

definition PostDelayedTaskOnWorkerThread ::
    "('t, 'j, 's) Platform \<Rightarrow> TaskPriority \<Rightarrow> 't \<Rightarrow> u64 \<Rightarrow> SourceLocation \<Rightarrow> 's \<Rightarrow> 's" where
  "PostDelayedTaskOnWorkerThread P priority task delay_in_seconds location s =
     PostDelayedTaskOnWorkerThreadImpl P priority task delay_in_seconds location s"

definition CreateJob :: "('t, 'j, 's) Platform \<Rightarrow> TaskPriority \<Rightarrow> 'j \<Rightarrow> SourceLocation \<Rightarrow> 's \<Rightarrow> addr \<times> 's" where
  "CreateJob P priority job_task location s = CreateJobImpl P priority job_task location s"

text \<open>\<open>PostJob\<close> calls the handle it was given; a null one is undefined.\<close>

definition PostJob :: "('t, 'j, 's) Platform \<Rightarrow> TaskPriority \<Rightarrow> 'j \<Rightarrow> SourceLocation \<Rightarrow> 's \<Rightarrow> (addr \<times> 's) option" where
  "PostJob P priority job_task location s =
     (let (handle, s1) = CreateJob P priority job_task location s
      in if handle = nullptr then None else Some (handle, job_notify P handle s1))"

section \<open>The platform of the managed heap\<close>

text \<open>\<open>cppgc::Platform\<close>; its base class has bodies for three methods.\<close>

record ('j, 's) cppgc_platform =
  cp_GetPageAllocator :: "'s \<Rightarrow> addr"
  cp_MonotonicallyIncreasingTime :: "'s \<Rightarrow> u64"
  cp_GetForegroundTaskRunner :: "'s \<Rightarrow> addr \<times> 's"
  cp_GetForegroundTaskRunner_priority :: "TaskPriority \<Rightarrow> 's \<Rightarrow> addr \<times> 's"
  cp_PostJob :: "TaskPriority \<Rightarrow> 'j \<Rightarrow> 's \<Rightarrow> (addr \<times> 's) option"
  cp_GetTracingController :: "'s \<Rightarrow> addr"

text \<open>\<open>by_priority\<close> is the virtual overload that the one without a priority calls.\<close>

definition cppgc_platform_base ::
    "(TaskPriority \<Rightarrow> 's \<Rightarrow> addr \<times> 's) \<Rightarrow> ('j, 's) cppgc_platform \<Rightarrow> ('j, 's) cppgc_platform" where
  "cppgc_platform_base by_priority C =
     C\<lparr>cp_GetForegroundTaskRunner := by_priority kUserBlocking,
       cp_GetForegroundTaskRunner_priority := \<lambda>priority s. (nullptr, s),
       cp_PostJob := \<lambda>priority job_task s. Some (nullptr, s)\<rparr>"

definition kNoIsolate :: addr where "kNoIsolate = nullptr"

datatype IdleTaskSupport = idle_kDisabled | idle_kEnabled
datatype InProcessStackDumping = dump_kDisabled | dump_kEnabled
datatype MessageLoopBehavior = kDoNotWait | kWaitForWork
datatype PriorityMode = kDontApply | kApply

text \<open>The library's \<open>NewDefaultPlatform\<close> is an argument; the place of the call is that of \<open>PostJob\<close>'s caller.\<close>

type_synonym ('t, 'j, 's) new_platform =
  "int \<Rightarrow> IdleTaskSupport \<Rightarrow> InProcessStackDumping \<Rightarrow> addr \<Rightarrow> ('t, 'j, 's) Platform"

definition DefaultPlatform_new ::
    "('t, 'j, 's) new_platform \<Rightarrow> int \<Rightarrow> IdleTaskSupport \<Rightarrow> addr \<Rightarrow> ('t, 'j, 's) Platform" where
  "DefaultPlatform_new NewDefaultPlatform thread_pool_size idle_task_support tracing_controller =
     NewDefaultPlatform thread_pool_size idle_task_support dump_kDisabled tracing_controller"

definition DefaultPlatform_default :: "('t, 'j, 's) new_platform \<Rightarrow> ('t, 'j, 's) Platform" where
  "DefaultPlatform_default new = DefaultPlatform_new new 0 idle_kDisabled nullptr"

definition DefaultPlatform :: "source_location \<Rightarrow> ('t, 'j, 's) Platform \<Rightarrow> ('j, 's) cppgc_platform" where
  "DefaultPlatform here v8_platform =
     \<lparr>cp_GetPageAllocator = GetPageAllocator v8_platform,
      cp_MonotonicallyIncreasingTime = MonotonicallyIncreasingTime v8_platform,
      cp_GetForegroundTaskRunner = GetForegroundTaskRunner_priority v8_platform kNoIsolate kUserBlocking,
      cp_GetForegroundTaskRunner_priority = GetForegroundTaskRunner_priority v8_platform kNoIsolate,
      cp_PostJob = (\<lambda>priority job_task s. PostJob v8_platform priority job_task (SourceLocation_Current here) s),
      cp_GetTracingController = GetTracingController v8_platform\<rparr>"

end
