(* ===== verification/V8_Script.thy ===== *)
theory V8_Script
  imports V8_Origin
begin

text \<open>
  \<open>v8-script.h\<close>: what is compiled and how. Sources, cached data and compile options, with the ownership the
  classes of the header have: a source deletes its cached data and its task, cached data may own its buffer.
  Objects the library hands out are addresses.
\<close>

unbundle bit_operations_syntax

section \<open>Scripts and modules\<close>

definition kNoScriptId :: int where "kNoScriptId = 0"
definition module_kNoScriptId :: int where "module_kNoScriptId = 0"

lemma kNoScriptId_same: "module_kNoScriptId = kNoScriptId" by (simp add: kNoScriptId_def module_kNoScriptId_def)

record Location =
  location_line :: int
  location_column :: int

definition Location_new :: "int \<Rightarrow> int \<Rightarrow> Location" where
  "Location_new line_number column_number = \<lparr>location_line = line_number, location_column = column_number\<rparr>"

definition Location_GetLineNumber :: "Location \<Rightarrow> int" where "Location_GetLineNumber l = location_line l"
definition Location_GetColumnNumber :: "Location \<Rightarrow> int" where "Location_GetColumnNumber l = location_column l"

datatype Module_Status = kUninstantiated | kInstantiating | kInstantiated | kEvaluating | kEvaluated | kErrored

datatype ScriptType = kClassic | kModule

text \<open>The accessors of \<open>ScriptOrigin\<close> in \<open>v8-message.h\<close>.\<close>

definition Origin_ResourceName :: "script_origin \<Rightarrow> obj option" where "Origin_ResourceName o1 = resource_name o1"
definition Origin_LineOffset :: "script_origin \<Rightarrow> int" where "Origin_LineOffset o1 = resource_line_offset o1"
definition Origin_ColumnOffset :: "script_origin \<Rightarrow> int" where "Origin_ColumnOffset o1 = resource_column_offset o1"
definition Origin_ScriptId :: "script_origin \<Rightarrow> int" where "Origin_ScriptId o1 = script_id o1"
definition Origin_SourceMapUrl :: "script_origin \<Rightarrow> obj option" where "Origin_SourceMapUrl o1 = source_map_url o1"
definition Origin_GetHostDefinedOptions :: "script_origin \<Rightarrow> obj option" where
  "Origin_GetHostDefinedOptions o1 = host_defined_options o1"
definition Origin_Options :: "script_origin \<Rightarrow> int" where "Origin_Options o1 = options o1"
definition options_Flags :: "int \<Rightarrow> int" where "options_Flags flags = flags"

section \<open>Cached data\<close>

datatype BufferPolicy = BufferNotOwned | BufferOwned

record CachedData =
  cd_data :: addr
  cd_length :: int
  cd_rejected :: bool
  cd_buffer_policy :: BufferPolicy

definition CachedData_default :: CachedData where
  "CachedData_default = \<lparr>cd_data = nullptr, cd_length = 0, cd_rejected = False, cd_buffer_policy = BufferNotOwned\<rparr>"

definition CompatibilityCheckResult :: "(string \<times> nat) list" where
  "CompatibilityCheckResult =
     [(''kSuccess'', 0), (''kMagicNumberMismatch'', 1), (''kVersionMismatch'', 2), (''kSourceMismatch'', 3),
      (''kFlagsMismatch'', 5), (''kChecksumMismatch'', 6), (''kInvalidHeader'', 7), (''kLengthMismatch'', 8),
      (''kReadOnlySnapshotChecksumMismatch'', 9)]"

definition CompatibilityCheckResult_kLast :: nat where "CompatibilityCheckResult_kLast = 9"

text \<open>Every result has its own bucket of the histogram, up to the last.\<close>

lemma CompatibilityCheckResult_distinct:
  "distinct (map snd CompatibilityCheckResult) \<and> (\<forall>n\<in>set (map snd CompatibilityCheckResult). n \<le> CompatibilityCheckResult_kLast)"
  by (simp add: CompatibilityCheckResult_def CompatibilityCheckResult_kLast_def)

datatype InMemoryCacheResult = kNotAttempted | kHit | kMiss | kPartial

record CompilationDetails =
  in_memory_cache_result :: InMemoryCacheResult
  foreground_time_in_microseconds :: int
  background_time_in_microseconds :: int

definition kTimeNotMeasured :: int where "kTimeNotMeasured = - 1"

definition CompilationDetails_default :: CompilationDetails where
  "CompilationDetails_default = \<lparr>in_memory_cache_result = kNotAttempted,
     foreground_time_in_microseconds = kTimeNotMeasured, background_time_in_microseconds = kTimeNotMeasured\<rparr>"

section \<open>Sources\<close>

record Source =
  src_string :: "obj option"
  src_resource_name :: "obj option"
  src_line_offset :: int
  src_column_offset :: int
  src_options :: int
  src_source_map_url :: "obj option"
  src_host_defined_options :: "obj option"
  src_cached_data :: addr
  src_consume_cache_task :: addr
  src_hint_callback :: addr
  src_hint_callback_data :: addr
  src_details :: CompilationDetails

definition Source_new :: "obj option \<Rightarrow> script_origin \<Rightarrow> addr \<Rightarrow> addr \<Rightarrow> Source" where
  "Source_new string origin data consume_cache_task =
     \<lparr>src_string = string, src_resource_name = Origin_ResourceName origin, src_line_offset = Origin_LineOffset origin,
      src_column_offset = Origin_ColumnOffset origin, src_options = Origin_Options origin,
      src_source_map_url = Origin_SourceMapUrl origin, src_host_defined_options = Origin_GetHostDefinedOptions origin,
      src_cached_data = data, src_consume_cache_task = consume_cache_task, src_hint_callback = nullptr,
      src_hint_callback_data = nullptr, src_details = CompilationDetails_default\<rparr>"

definition Source_new_bare :: "obj option \<Rightarrow> addr \<Rightarrow> addr \<Rightarrow> Source" where
  "Source_new_bare string data consume_cache_task =
     \<lparr>src_string = string, src_resource_name = None, src_line_offset = - 1, src_column_offset = - 1,
      src_options = ScriptOriginOptions_of_bools False False False False, src_source_map_url = None,
      src_host_defined_options = None, src_cached_data = data, src_consume_cache_task = consume_cache_task,
      src_hint_callback = nullptr, src_hint_callback_data = nullptr, src_details = CompilationDetails_default\<rparr>"

definition Source_new_hints :: "obj option \<Rightarrow> script_origin \<Rightarrow> addr \<Rightarrow> addr \<Rightarrow> Source" where
  "Source_new_hints string origin callback callback_data =
     \<lparr>src_string = string, src_resource_name = Origin_ResourceName origin, src_line_offset = Origin_LineOffset origin,
      src_column_offset = Origin_ColumnOffset origin, src_options = Origin_Options origin,
      src_source_map_url = Origin_SourceMapUrl origin, src_host_defined_options = Origin_GetHostDefinedOptions origin,
      src_cached_data = nullptr, src_consume_cache_task = nullptr, src_hint_callback = callback,
      src_hint_callback_data = callback_data, src_details = CompilationDetails_default\<rparr>"

definition Source_GetCachedData :: "Source \<Rightarrow> addr" where "Source_GetCachedData s = src_cached_data s"
definition Source_GetResourceOptions :: "Source \<Rightarrow> int" where "Source_GetResourceOptions s = src_options s"
definition Source_GetCompilationDetails :: "Source \<Rightarrow> CompilationDetails" where
  "Source_GetCompilationDetails s = src_details s"

text \<open>Objects that are alive; deleting null does nothing and deleting twice is undefined.\<close>

definition delete_object :: "addr \<Rightarrow> addr set \<Rightarrow> addr set option" where
  "delete_object a live = (if a = nullptr then Some live else if a \<in> live then Some (live - {a}) else None)"

text \<open>The members with destructors are deleted in the reverse of the order they are declared in.\<close>

definition Source_destructor :: "Source \<Rightarrow> addr set \<Rightarrow> addr set option" where
  "Source_destructor s live =
     do { l1 \<leftarrow> delete_object (src_consume_cache_task s) live; delete_object (src_cached_data s) l1 }"

text \<open>A source frees what it owns once, and nothing else.\<close>

lemma Source_destructor_frees:
  assumes "{src_cached_data s, src_consume_cache_task s} - {nullptr} \<subseteq> live"
    and "src_cached_data s = src_consume_cache_task s \<longrightarrow> src_cached_data s = nullptr"
  shows "Source_destructor s live = Some (live - ({src_cached_data s, src_consume_cache_task s} - {nullptr}))"
  using assms by (auto simp: Source_destructor_def delete_object_def)

datatype StreamedSource_Encoding = ONE_BYTE | TWO_BYTE | UTF8 | WINDOWS_1252

record StreamedSource =
  streamed_impl :: addr
  streamed_details :: CompilationDetails

definition StreamedSource_impl :: "StreamedSource \<Rightarrow> addr" where "StreamedSource_impl s = streamed_impl s"
definition StreamedSource_compilation_details :: "StreamedSource \<Rightarrow> CompilationDetails" where
  "StreamedSource_compilation_details s = streamed_details s"

record ScriptStreamingTask =
  streaming_data :: addr

definition ScriptStreamingTask_new :: "addr \<Rightarrow> ScriptStreamingTask" where
  "ScriptStreamingTask_new data = \<lparr>streaming_data = data\<rparr>"

section \<open>Compile options\<close>

type_synonym CompileOptions = u32

definition kNoCompileOptions :: CompileOptions where "kNoCompileOptions = 0"
definition kConsumeCodeCache :: CompileOptions where "kConsumeCodeCache = push_bit 0 1"
definition kEagerCompile :: CompileOptions where "kEagerCompile = push_bit 1 1"
definition kProduceCompileHints :: CompileOptions where "kProduceCompileHints = push_bit 2 1"
definition kConsumeCompileHints :: CompileOptions where "kConsumeCompileHints = push_bit 3 1"
definition kFollowCompileHintsMagicComment :: CompileOptions where "kFollowCompileHintsMagicComment = push_bit 4 1"
definition kFollowCompileHintsPerFunctionMagicComment :: CompileOptions where
  "kFollowCompileHintsPerFunctionMagicComment = push_bit 5 1"

definition CompileOptionsIsValid :: "CompileOptions \<Rightarrow> bool" where
  "CompileOptionsIsValid compile_options =
     (if compile_options AND kConsumeCodeCache \<noteq> 0 \<and> compile_options \<noteq> kConsumeCodeCache then False
      else if compile_options AND kEagerCompile \<noteq> 0 \<and> compile_options \<noteq> kEagerCompile then False
      else let produce_and_consume = kProduceCompileHints OR kConsumeCompileHints
           in if compile_options AND produce_and_consume = produce_and_consume then False else True)"

text \<open>A set of options by its bits.\<close>

definition option_bits :: "CompileOptions \<Rightarrow> nat set" where
  "option_bits c = {n. bit c n}"

lemma and_pow_nonzero: "(c :: u32) AND push_bit n 1 \<noteq> 0 \<longleftrightarrow> bit c n"
  by (simp add: bit_iff_and_push_bit_not_eq_0)

text \<open>Valid options are exactly consuming the code cache alone, compiling eagerly alone, or any set of the other
  options that does not both produce and consume compile hints.\<close>

lemma compile_options_valid:
  "CompileOptionsIsValid c \<longleftrightarrow> option_bits c = {0} \<or> option_bits c = {1} \<or> option_bits c \<inter> {0, 1} = {} \<and> \<not> {2, 3} \<subseteq> option_bits c"
proof -
  have pow: "bit (push_bit n 1 :: u32) m \<longleftrightarrow> m = n" if "n < 32" for n m
    using that by (auto simp: bit_push_bit_iff bit_1_iff simp del: push_bit_of_1)
  have eq: "(c :: u32) = d \<longleftrightarrow> (\<forall>m. bit c m \<longleftrightarrow> bit d m)" for c d by (auto intro: bit_eqI)
  have one: "c = push_bit n 1 \<longleftrightarrow> option_bits c = {n}" if "n < 32" for n
    unfolding eq pow [OF that] option_bits_def by auto
  have two: "c AND (push_bit 2 1 OR push_bit 3 1) = push_bit 2 1 OR push_bit 3 1 \<longleftrightarrow> 2 \<in> option_bits c \<and> 3 \<in> option_bits c"
    unfolding eq bit_and_iff bit_or_iff option_bits_def by (auto simp: pow simp del: push_bit_of_1)
  have bit: "bit c n \<longleftrightarrow> n \<in> option_bits c" for n by (simp add: option_bits_def)
  have lt: "(0::nat) < 32" "(1::nat) < 32" by simp_all
  define S where "S = option_bits c"
  have sets: "0 \<in> S \<Longrightarrow> S \<noteq> {1}" "1 \<in> S \<Longrightarrow> S \<noteq> {0}" by auto
  have valid: "CompileOptionsIsValid c \<longleftrightarrow> (if 0 \<in> S \<and> S \<noteq> {0} then False else if 1 \<in> S \<and> S \<noteq> {1} then False
      else if 2 \<in> S \<and> 3 \<in> S then False else True)"
    unfolding CompileOptionsIsValid_def kConsumeCodeCache_def kEagerCompile_def kProduceCompileHints_def
      kConsumeCompileHints_def and_pow_nonzero one [OF lt(1)] one [OF lt(2)] Let_def two bit S_def ..
  consider "S = {0}" | "S = {1}" | "S \<noteq> {0}" "S \<noteq> {1}" by blast
  then have "CompileOptionsIsValid c \<longleftrightarrow> S = {0} \<or> S = {1} \<or> S \<inter> {0, 1} = {} \<and> \<not> {2, 3} \<subseteq> S"
    by cases (simp_all add: valid)
  then show ?thesis by (simp add: S_def)
qed

end
