(* ===== verification/V8_Template.thy ===== *)
theory V8_Template
  imports Prelude
begin

text \<open>
  \<open>v8-template.h\<close>: how property interceptors are described. Callbacks are function pointers; the two signatures a
  setter or definer may have are told apart as the overloads of the header do, and converted by a cast that keeps the
  address.
\<close>

unbundle bit_operations_syntax

section \<open>Intrinsics and flags\<close>

datatype Intrinsic = kArrayProto_entries | kArrayProto_forEach | kArrayProto_keys | kArrayProto_values | kArrayPrototype
  | kAsyncIteratorPrototype | kErrorPrototype | kIteratorPrototype | kMapIteratorPrototype | kObjProto_valueOf
  | kSetIteratorPrototype

datatype Intercepted = kNo | kYes

primrec Intercepted_value :: "Intercepted \<Rightarrow> u32" where
  "Intercepted_value kNo = 1"
| "Intercepted_value kYes = 0"

datatype ConstructorBehavior = kThrow | kAllow

type_synonym PropertyHandlerFlags = u32

definition flags_kNone :: PropertyHandlerFlags where "flags_kNone = 0"
definition flags_kNonMasking :: PropertyHandlerFlags where "flags_kNonMasking = 1"
definition flags_kOnlyInterceptStrings :: PropertyHandlerFlags where "flags_kOnlyInterceptStrings = push_bit 1 1"
definition flags_kHasNoSideEffect :: PropertyHandlerFlags where "flags_kHasNoSideEffect = push_bit 2 1"
definition flags_kInternalNewCallbacksSignatures :: PropertyHandlerFlags where
  "flags_kInternalNewCallbacksSignatures = push_bit 10 1"

definition WithNewSignatureFlag :: "PropertyHandlerFlags \<Rightarrow> PropertyHandlerFlags" where
  "WithNewSignatureFlag flags = flags OR flags_kInternalNewCallbacksSignatures"

text \<open>The flag is a bit of its own: it sets no other and is set for good.\<close>

lemma WithNewSignatureFlag_exact:
  "WithNewSignatureFlag (WithNewSignatureFlag f) = WithNewSignatureFlag f"
  "WithNewSignatureFlag f AND (flags_kNonMasking OR flags_kOnlyInterceptStrings OR flags_kHasNoSideEffect) =
     f AND (flags_kNonMasking OR flags_kOnlyInterceptStrings OR flags_kHasNoSideEffect)"
proof -
  have "flags_kInternalNewCallbacksSignatures AND (flags_kNonMasking OR flags_kOnlyInterceptStrings OR flags_kHasNoSideEffect) = 0"
    by (simp add: flags_kInternalNewCallbacksSignatures_def flags_kNonMasking_def flags_kOnlyInterceptStrings_def
        flags_kHasNoSideEffect_def)
  then show "WithNewSignatureFlag f AND (flags_kNonMasking OR flags_kOnlyInterceptStrings OR flags_kHasNoSideEffect) =
      f AND (flags_kNonMasking OR flags_kOnlyInterceptStrings OR flags_kHasNoSideEffect)"
    by (simp add: WithNewSignatureFlag_def bit.conj_disj_distrib2)
qed (simp add: WithNewSignatureFlag_def or.assoc)

section \<open>Interceptors\<close>

text \<open>A callback with the signature \<open>PropertyCallbackInfo<Boolean>\<close> or \<open>PropertyCallbackInfo<void>\<close>, or none.\<close>

datatype callback_argument = no_callback | boolean_callback addr | void_callback addr

primrec Named_ConvertSetter :: "callback_argument \<Rightarrow> addr" where
  "Named_ConvertSetter no_callback = nullptr"
| "Named_ConvertSetter (boolean_callback v) = v"
| "Named_ConvertSetter (void_callback v) = v"

primrec Named_ConvertDefiner :: "callback_argument \<Rightarrow> addr" where
  "Named_ConvertDefiner no_callback = nullptr"
| "Named_ConvertDefiner (boolean_callback v) = v"
| "Named_ConvertDefiner (void_callback v) = v"

record NamedPropertyHandlerConfiguration =
  named_getter :: addr
  named_setter :: addr
  named_query :: addr
  named_deleter :: addr
  named_enumerator :: addr
  named_definer :: addr
  named_descriptor :: addr
  named_data :: "obj option"
  named_flags :: PropertyHandlerFlags

definition Named_new_all ::
    "addr \<Rightarrow> callback_argument \<Rightarrow> addr \<Rightarrow> addr \<Rightarrow> addr \<Rightarrow> callback_argument \<Rightarrow> addr \<Rightarrow> obj option \<Rightarrow> PropertyHandlerFlags \<Rightarrow>
       NamedPropertyHandlerConfiguration" where
  "Named_new_all getter setter query deleter enumerator definer descriptor data flags =
     \<lparr>named_getter = getter, named_setter = Named_ConvertSetter setter, named_query = query, named_deleter = deleter,
      named_enumerator = enumerator, named_definer = Named_ConvertDefiner definer, named_descriptor = descriptor,
      named_data = data, named_flags = flags\<rparr>"

definition Named_new_query ::
    "addr \<Rightarrow> callback_argument \<Rightarrow> addr \<Rightarrow> addr \<Rightarrow> addr \<Rightarrow> obj option \<Rightarrow> PropertyHandlerFlags \<Rightarrow>
       NamedPropertyHandlerConfiguration" where
  "Named_new_query getter setter query deleter enumerator data flags =
     \<lparr>named_getter = getter, named_setter = Named_ConvertSetter setter, named_query = query, named_deleter = deleter,
      named_enumerator = enumerator, named_definer = nullptr, named_descriptor = nullptr,
      named_data = data, named_flags = flags\<rparr>"

definition Named_new_descriptor ::
    "addr \<Rightarrow> callback_argument \<Rightarrow> addr \<Rightarrow> addr \<Rightarrow> addr \<Rightarrow> callback_argument \<Rightarrow> obj option \<Rightarrow> PropertyHandlerFlags \<Rightarrow>
       NamedPropertyHandlerConfiguration" where
  "Named_new_descriptor getter setter descriptor deleter enumerator definer data flags =
     \<lparr>named_getter = getter, named_setter = Named_ConvertSetter setter, named_query = nullptr, named_deleter = deleter,
      named_enumerator = enumerator, named_definer = Named_ConvertDefiner definer, named_descriptor = descriptor,
      named_data = data, named_flags = flags\<rparr>"

primrec Indexed_ConvertSetter :: "callback_argument \<Rightarrow> addr" where
  "Indexed_ConvertSetter no_callback = nullptr"
| "Indexed_ConvertSetter (boolean_callback v) = v"
| "Indexed_ConvertSetter (void_callback v) = v"

primrec Indexed_ConvertDefiner :: "callback_argument \<Rightarrow> addr" where
  "Indexed_ConvertDefiner no_callback = nullptr"
| "Indexed_ConvertDefiner (boolean_callback v) = v"
| "Indexed_ConvertDefiner (void_callback v) = v"

record IndexedPropertyHandlerConfiguration =
  indexed_getter :: addr
  indexed_setter :: addr
  indexed_query :: addr
  indexed_deleter :: addr
  indexed_enumerator :: addr
  indexed_definer :: addr
  indexed_descriptor :: addr
  indexed_index_of :: addr
  indexed_data :: "obj option"
  indexed_flags :: PropertyHandlerFlags

definition Indexed_new_all ::
    "addr \<Rightarrow> callback_argument \<Rightarrow> addr \<Rightarrow> addr \<Rightarrow> addr \<Rightarrow> callback_argument \<Rightarrow> addr \<Rightarrow> obj option \<Rightarrow> PropertyHandlerFlags \<Rightarrow>
       IndexedPropertyHandlerConfiguration" where
  "Indexed_new_all getter setter query deleter enumerator definer descriptor data flags =
     \<lparr>indexed_getter = getter, indexed_setter = Indexed_ConvertSetter setter, indexed_query = query,
      indexed_deleter = deleter, indexed_enumerator = enumerator, indexed_definer = Indexed_ConvertDefiner definer,
      indexed_descriptor = descriptor, indexed_index_of = nullptr, indexed_data = data, indexed_flags = flags\<rparr>"

definition Indexed_new_query ::
    "addr \<Rightarrow> callback_argument \<Rightarrow> addr \<Rightarrow> addr \<Rightarrow> addr \<Rightarrow> obj option \<Rightarrow> PropertyHandlerFlags \<Rightarrow>
       IndexedPropertyHandlerConfiguration" where
  "Indexed_new_query getter setter query deleter enumerator data flags =
     \<lparr>indexed_getter = getter, indexed_setter = Indexed_ConvertSetter setter, indexed_query = query,
      indexed_deleter = deleter, indexed_enumerator = enumerator, indexed_definer = nullptr,
      indexed_descriptor = nullptr, indexed_index_of = nullptr, indexed_data = data, indexed_flags = flags\<rparr>"

definition Indexed_new_descriptor ::
    "addr \<Rightarrow> callback_argument \<Rightarrow> addr \<Rightarrow> addr \<Rightarrow> addr \<Rightarrow> callback_argument \<Rightarrow> obj option \<Rightarrow> PropertyHandlerFlags \<Rightarrow>
       IndexedPropertyHandlerConfiguration" where
  "Indexed_new_descriptor getter setter descriptor deleter enumerator definer data flags =
     \<lparr>indexed_getter = getter, indexed_setter = Indexed_ConvertSetter setter, indexed_query = nullptr,
      indexed_deleter = deleter, indexed_enumerator = enumerator, indexed_definer = Indexed_ConvertDefiner definer,
      indexed_descriptor = descriptor, indexed_index_of = nullptr, indexed_data = data, indexed_flags = flags\<rparr>"

definition Indexed_new_index_of ::
    "addr \<Rightarrow> callback_argument \<Rightarrow> addr \<Rightarrow> addr \<Rightarrow> addr \<Rightarrow> callback_argument \<Rightarrow> addr \<Rightarrow> addr \<Rightarrow> obj option \<Rightarrow>
       PropertyHandlerFlags \<Rightarrow> IndexedPropertyHandlerConfiguration" where
  "Indexed_new_index_of getter setter query deleter enumerator definer descriptor index_of data flags =
     \<lparr>indexed_getter = getter, indexed_setter = Indexed_ConvertSetter setter, indexed_query = query,
      indexed_deleter = deleter, indexed_enumerator = enumerator, indexed_definer = Indexed_ConvertDefiner definer,
      indexed_descriptor = descriptor, indexed_index_of = index_of, indexed_data = data, indexed_flags = flags\<rparr>"

text \<open>The constructor with an \<open>IndexOf\<close> callback extends the others: without one they agree on every callback.\<close>

lemma configurations_agree:
  "Indexed_new_index_of g s q d e f p nullptr x fl = Indexed_new_all g s q d e f p x fl"
  "Indexed_new_all g s q d e no_callback nullptr x fl = Indexed_new_query g s q d e x fl"
  "Indexed_new_all g s nullptr d e f p x fl = Indexed_new_descriptor g s p d e f x fl"
  "Named_new_all g s q d e no_callback nullptr x fl = Named_new_query g s q d e x fl"
  "Named_new_all g s nullptr d e f p x fl = Named_new_descriptor g s p d e f x fl"
  by (simp_all add: Indexed_new_index_of_def Indexed_new_all_def Indexed_new_query_def Indexed_new_descriptor_def
      Named_new_all_def Named_new_query_def Named_new_descriptor_def)

section \<open>Templates\<close>

datatype NewStringType = kNormal | kInternalized

text \<open>What the inline functions of \<open>Template\<close> call: making a string, which may fail, and the two setters.\<close>

record 's template_api =
  NewFromUtf8 :: "string \<Rightarrow> NewStringType \<Rightarrow> 's \<Rightarrow> obj option \<times> 's"
  template_Set :: "obj \<Rightarrow> obj \<Rightarrow> obj \<Rightarrow> u32 \<Rightarrow> 's \<Rightarrow> 's"
  template_SetNativeDataProperty :: "obj \<Rightarrow> obj \<Rightarrow> addr \<Rightarrow> addr \<Rightarrow> obj option \<Rightarrow> u32 \<Rightarrow> nat \<Rightarrow> nat \<Rightarrow> 's \<Rightarrow> 's"

text \<open>\<open>ToLocalChecked\<close> of an empty handle ends the process.\<close>

definition Template_Set :: "'s template_api \<Rightarrow> obj \<Rightarrow> string \<Rightarrow> obj \<Rightarrow> u32 \<Rightarrow> 's \<Rightarrow> 's option" where
  "Template_Set A this name val attributes s =
     (let (str, s1) = NewFromUtf8 A name kInternalized s in do { n \<leftarrow> str; Some (template_Set A this n val attributes s1) })"

definition Template_SetNativeDataProperty_null ::
    "'s template_api \<Rightarrow> obj \<Rightarrow> obj \<Rightarrow> addr \<Rightarrow> obj option \<Rightarrow> u32 \<Rightarrow> nat \<Rightarrow> nat \<Rightarrow> 's \<Rightarrow> 's" where
  "Template_SetNativeDataProperty_null A this name getter data attribute getter_effect setter_effect s =
     template_SetNativeDataProperty A this name getter nullptr data attribute getter_effect setter_effect s"

text \<open>Casts between classes of handles, without checks, keep the pointer.\<close>

definition FunctionTemplate_Cast :: "obj \<Rightarrow> obj" where "FunctionTemplate_Cast data = data"
definition ObjectTemplate_Cast :: "obj \<Rightarrow> obj" where "ObjectTemplate_Cast data = data"
definition DictionaryTemplate_Cast :: "obj \<Rightarrow> obj" where "DictionaryTemplate_Cast data = data"
definition Signature_Cast :: "obj \<Rightarrow> obj" where "Signature_Cast data = data"

end
