(* ===== verification/V8_Isolate.thy ===== *)
theory V8_Isolate
  imports Prelude
begin

text \<open>
  \<open>v8-isolate.h\<close> and \<open>v8-statistics.h\<close>: how an isolate is configured, entered and measured. Classes are records of
  their fields with the default initialisers; what the library does is an argument. The lemmas show that isolate
  scopes nest, that limits read back as they were set, and that the features counted have numbers without gaps.
\<close>

unbundle bit_operations_syntax

section \<open>Resource constraints\<close>

record ResourceConstraints =
  rc_code_range_size :: u64
  rc_max_old_generation_size :: u64
  rc_max_young_generation_size :: u64
  rc_initial_old_generation_size :: u64
  rc_initial_young_generation_size :: u64
  rc_physical_memory_size :: u64
  rc_stack_limit :: addr

definition ResourceConstraints_default :: ResourceConstraints where
  "ResourceConstraints_default =
     \<lparr>rc_code_range_size = 0, rc_max_old_generation_size = 0, rc_max_young_generation_size = 0,
      rc_initial_old_generation_size = 0, rc_initial_young_generation_size = 0, rc_physical_memory_size = 0,
      rc_stack_limit = nullptr\<rparr>"

definition kMB :: u64 where "kMB = 1048576"

definition stack_limit :: "ResourceConstraints \<Rightarrow> addr" where "stack_limit c = rc_stack_limit c"
definition set_stack_limit :: "addr \<Rightarrow> ResourceConstraints \<Rightarrow> ResourceConstraints" where
  "set_stack_limit val c = c\<lparr>rc_stack_limit := val\<rparr>"
definition code_range_size_in_bytes :: "ResourceConstraints \<Rightarrow> u64" where
  "code_range_size_in_bytes c = rc_code_range_size c"
definition set_code_range_size_in_bytes :: "u64 \<Rightarrow> ResourceConstraints \<Rightarrow> ResourceConstraints" where
  "set_code_range_size_in_bytes limit c = c\<lparr>rc_code_range_size := limit\<rparr>"
definition max_old_generation_size_in_bytes :: "ResourceConstraints \<Rightarrow> u64" where
  "max_old_generation_size_in_bytes c = rc_max_old_generation_size c"
definition set_max_old_generation_size_in_bytes :: "u64 \<Rightarrow> ResourceConstraints \<Rightarrow> ResourceConstraints" where
  "set_max_old_generation_size_in_bytes limit c = c\<lparr>rc_max_old_generation_size := limit\<rparr>"
definition max_young_generation_size_in_bytes :: "ResourceConstraints \<Rightarrow> u64" where
  "max_young_generation_size_in_bytes c = rc_max_young_generation_size c"
definition set_max_young_generation_size_in_bytes :: "u64 \<Rightarrow> ResourceConstraints \<Rightarrow> ResourceConstraints" where
  "set_max_young_generation_size_in_bytes limit c = c\<lparr>rc_max_young_generation_size := limit\<rparr>"
definition initial_old_generation_size_in_bytes :: "ResourceConstraints \<Rightarrow> u64" where
  "initial_old_generation_size_in_bytes c = rc_initial_old_generation_size c"
definition set_initial_old_generation_size_in_bytes :: "u64 \<Rightarrow> ResourceConstraints \<Rightarrow> ResourceConstraints" where
  "set_initial_old_generation_size_in_bytes initial_size c = c\<lparr>rc_initial_old_generation_size := initial_size\<rparr>"
definition initial_young_generation_size_in_bytes :: "ResourceConstraints \<Rightarrow> u64" where
  "initial_young_generation_size_in_bytes c = rc_initial_young_generation_size c"
definition set_initial_young_generation_size_in_bytes :: "u64 \<Rightarrow> ResourceConstraints \<Rightarrow> ResourceConstraints" where
  "set_initial_young_generation_size_in_bytes initial_size c = c\<lparr>rc_initial_young_generation_size := initial_size\<rparr>"
definition physical_memory_size_in_bytes :: "ResourceConstraints \<Rightarrow> u64" where
  "physical_memory_size_in_bytes c = rc_physical_memory_size c"

lemmas constraint_defs = stack_limit_def set_stack_limit_def code_range_size_in_bytes_def set_code_range_size_in_bytes_def
  max_old_generation_size_in_bytes_def set_max_old_generation_size_in_bytes_def max_young_generation_size_in_bytes_def
  set_max_young_generation_size_in_bytes_def initial_old_generation_size_in_bytes_def
  set_initial_old_generation_size_in_bytes_def initial_young_generation_size_in_bytes_def
  set_initial_young_generation_size_in_bytes_def physical_memory_size_in_bytes_def

text \<open>Six limits can be set, each read by its getter alone, in any order; the physical memory is not set directly.\<close>

lemma constraints_independent:
  fixes c :: ResourceConstraints and a b d e f :: u64 and l :: addr
  defines "c1 \<equiv> set_stack_limit l (set_code_range_size_in_bytes a (set_max_old_generation_size_in_bytes b
    (set_max_young_generation_size_in_bytes d (set_initial_old_generation_size_in_bytes e
    (set_initial_young_generation_size_in_bytes f c)))))"
  shows "stack_limit c1 = l" "code_range_size_in_bytes c1 = a" "max_old_generation_size_in_bytes c1 = b"
    "max_young_generation_size_in_bytes c1 = d" "initial_old_generation_size_in_bytes c1 = e"
    "initial_young_generation_size_in_bytes c1 = f" "physical_memory_size_in_bytes c1 = physical_memory_size_in_bytes c"
  by (simp_all add: c1_def constraint_defs)

section \<open>Isolates\<close>

datatype ContextDependants = kNoDependants | kSomeDependants
datatype OnFailure = CRASH_ON_FAILURE | THROW_ON_FAILURE | DUMP_ON_FAILURE
datatype GarbageCollectionType = kFullGarbageCollection | kMinorGarbageCollection
datatype Priority = kBestEffort | kUserVisible | kUserBlocking

record IsolateGroup =
  isolate_group :: addr

definition IsolateGroup_eq :: "IsolateGroup \<Rightarrow> IsolateGroup \<Rightarrow> bool" where
  "IsolateGroup_eq this other \<longleftrightarrow> isolate_group this = isolate_group other"

definition IsolateGroup_neq :: "IsolateGroup \<Rightarrow> IsolateGroup \<Rightarrow> bool" where
  "IsolateGroup_neq this other \<longleftrightarrow> \<not> IsolateGroup_eq this other"

text \<open>Callbacks, blobs and allocators are addresses.\<close>

record CreateParams =
  code_event_handler :: addr
  constraints :: ResourceConstraints
  snapshot_blob :: addr
  counter_lookup_callback :: addr
  create_histogram_callback :: addr
  add_histogram_sample_callback :: addr
  array_buffer_allocator :: addr
  array_buffer_allocator_shared :: addr
  external_references :: addr
  allow_atomics_wait :: bool
  fatal_error_callback :: addr
  oom_error_callback :: addr
  cpp_heap :: addr

definition CreateParams_default :: CreateParams where
  "CreateParams_default =
     \<lparr>code_event_handler = nullptr, constraints = ResourceConstraints_default, snapshot_blob = nullptr,
      counter_lookup_callback = nullptr, create_histogram_callback = nullptr, add_histogram_sample_callback = nullptr,
      array_buffer_allocator = nullptr, array_buffer_allocator_shared = nullptr, external_references = nullptr,
      allow_atomics_wait = True, fatal_error_callback = nullptr, oom_error_callback = nullptr, cpp_heap = nullptr\<rparr>"

definition kMessageLog :: u32 where "kMessageLog = push_bit 0 1"
definition kMessageDebug :: u32 where "kMessageDebug = push_bit 1 1"
definition kMessageInfo :: u32 where "kMessageInfo = push_bit 2 1"
definition kMessageError :: u32 where "kMessageError = push_bit 3 1"
definition kMessageWarning :: u32 where "kMessageWarning = push_bit 4 1"
definition kMessageAll :: u32 where
  "kMessageAll = kMessageLog OR kMessageDebug OR kMessageInfo OR kMessageError OR kMessageWarning"

lemma kMessageAll_mask: "kMessageAll = mask 5"
  by (simp add: kMessageAll_def kMessageLog_def kMessageDebug_def kMessageInfo_def kMessageError_def kMessageWarning_def
      mask_eq_exp_minus_1 One_nat_def)

text \<open>The features an isolate counts, with their numbers.\<close>

definition UseCounterFeature_0 :: "(string \<times> nat) list" where
  "UseCounterFeature_0 =
     [(''kUseAsm'', 0), (''kBreakIterator'', 1), (''kOBSOLETE_LegacyConst'', 2),
      (''kOBSOLETE_MarkDequeOverflow'', 3), (''kOBSOLETE_StoreBufferOverflow'', 4),
      (''kOBSOLETE_SlotsBufferOverflow'', 5), (''kOBSOLETE_ObjectObserve'', 6), (''kForcedGC'', 7),
      (''kSloppyMode'', 8), (''kStrictMode'', 9), (''kOBSOLETE_StrongMode'', 10),
      (''kRegExpPrototypeStickyGetter'', 11), (''kRegExpPrototypeToString'', 12),
      (''kRegExpPrototypeUnicodeGetter'', 13), (''kOBSOLETE_IntlV8Parse'', 14),
      (''kOBSOLETE_IntlPattern'', 15), (''kOBSOLETE_IntlResolved'', 16), (''kOBSOLETE_PromiseChain'', 17),
      (''kOBSOLETE_PromiseAccept'', 18), (''kOBSOLETE_PromiseDefer'', 19),
      (''kHtmlCommentInExternalScript'', 20), (''kHtmlComment'', 21),
      (''kSloppyModeBlockScopedFunctionRedefinition'', 22), (''kForInInitializer'', 23),
      (''kOBSOLETE_ArrayProtectorDirtied'', 24), (''kArraySpeciesModified'', 25),
      (''kArrayPrototypeConstructorModified'', 26), (''kOBSOLETE_ArrayInstanceProtoModified'', 27),
      (''kArrayInstanceConstructorModified'', 28), (''kOBSOLETE_LegacyFunctionDeclaration'', 29),
      (''kOBSOLETE_RegExpPrototypeSourceGetter'', 30), (''kOBSOLETE_RegExpPrototypeOldFlagGetter'', 31),
      (''kDecimalWithLeadingZeroInStrictMode'', 32), (''kLegacyDateParser'', 33),
      (''kDefineGetterOrSetterWouldThrow'', 34), (''kFunctionConstructorReturnedUndefined'', 35),
      (''kAssigmentExpressionLHSIsCallInSloppy'', 36), (''kAssigmentExpressionLHSIsCallInStrict'', 37),
      (''kPromiseConstructorReturnedUndefined'', 38),
      (''kOBSOLETE_ConstructorNonUndefinedPrimitiveReturn'', 39),
      (''kOBSOLETE_LabeledExpressionStatement'', 40),
      (''kOBSOLETE_LineOrParagraphSeparatorAsLineTerminator'', 41), (''kIndexAccessor'', 42),
      (''kErrorCaptureStackTrace'', 43), (''kErrorPrepareStackTrace'', 44), (''kErrorStackTraceLimit'', 45),
      (''kWebAssemblyInstantiation'', 46), (''kDeoptimizerDisableSpeculation'', 47),
      (''kOBSOLETE_ArrayPrototypeSortJSArrayModifiedPrototype'', 48),
      (''kFunctionTokenOffsetTooLongForToString'', 49), (''kWasmSharedMemory'', 50),
      (''kWasmThreadOpcodes'', 51), (''kOBSOLETE_AtomicsNotify'', 52), (''kOBSOLETE_AtomicsWake'', 53),
      (''kCollator'', 54), (''kNumberFormat'', 55), (''kDateTimeFormat'', 56), (''kPluralRules'', 57),
      (''kRelativeTimeFormat'', 58), (''kLocale'', 59), (''kListFormat'', 60), (''kSegmenter'', 61),
      (''kStringLocaleCompare'', 62), (''kOBSOLETE_StringToLocaleUpperCase'', 63),
      (''kStringToLocaleLowerCase'', 64), (''kNumberToLocaleString'', 65), (''kDateToLocaleString'', 66),
      (''kDateToLocaleDateString'', 67), (''kDateToLocaleTimeString'', 68),
      (''kAttemptOverrideReadOnlyOnPrototypeSloppy'', 69), (''kAttemptOverrideReadOnlyOnPrototypeStrict'', 70),
      (''kOBSOLETE_OptimizedFunctionWithOneShotBytecode'', 71), (''kRegExpMatchIsTrueishOnNonJSRegExp'', 72),
      (''kRegExpMatchIsFalseishOnJSRegExp'', 73), (''kOBSOLETE_DateGetTimezoneOffset'', 74),
      (''kStringNormalize'', 75), (''kCallSiteAPIGetFunctionSloppyCall'', 76),
      (''kCallSiteAPIGetThisSloppyCall'', 77), (''kOBSOLETE_RegExpMatchAllWithNonGlobalRegExp'', 78),
      (''kRegExpExecCalledOnSlowRegExp'', 79), (''kRegExpReplaceCalledOnSlowRegExp'', 80),
      (''kDisplayNames'', 81), (''kSharedArrayBufferConstructed'', 82), (''kArrayPrototypeHasElements'', 83),
      (''kObjectPrototypeHasElements'', 84), (''kNumberFormatStyleUnit'', 85), (''kDateTimeFormatRange'', 86),
      (''kDateTimeFormatDateTimeStyle'', 87), (''kBreakIteratorTypeWord'', 88),
      (''kBreakIteratorTypeLine'', 89), (''kInvalidatedArrayBufferDetachingProtector'', 90),
      (''kInvalidatedArrayConstructorProtector'', 91), (''kInvalidatedArrayIteratorLookupChainProtector'', 92)]"

definition UseCounterFeature_1 :: "(string \<times> nat) list" where
  "UseCounterFeature_1 =
     [(''kInvalidatedArraySpeciesLookupChainProtector'', 93),
      (''kInvalidatedIsConcatSpreadableLookupChainProtector'', 94),
      (''kInvalidatedMapIteratorLookupChainProtector'', 95), (''kInvalidatedNoElementsProtector'', 96),
      (''kInvalidatedPromiseHookProtector'', 97), (''kInvalidatedPromiseResolveLookupChainProtector'', 98),
      (''kInvalidatedPromiseSpeciesLookupChainProtector'', 99),
      (''kInvalidatedPromiseThenLookupChainProtector'', 100),
      (''kInvalidatedRegExpSpeciesLookupChainProtector'', 101),
      (''kInvalidatedSetIteratorLookupChainProtector'', 102),
      (''kInvalidatedStringIteratorLookupChainProtector'', 103),
      (''kInvalidatedStringLengthOverflowLookupChainProtector'', 104),
      (''kInvalidatedTypedArraySpeciesLookupChainProtector'', 105), (''kWasmSimdOpcodes'', 106),
      (''kVarRedeclaredCatchBinding'', 107), (''kWasmRefTypes'', 108), (''kWasmBulkMemory'', 109),
      (''kWasmMultiValue'', 110), (''kWasmExceptionHandling'', 111), (''kInvalidatedMegaDOMProtector'', 112),
      (''kFunctionPrototypeArguments'', 113), (''kFunctionPrototypeCaller'', 114),
      (''kTurboFanOsrCompileStarted'', 115), (''kAsyncStackTaggingCreateTaskCall'', 116),
      (''kDurationFormat'', 117), (''kInvalidatedNumberStringNotRegexpLikeProtector'', 118),
      (''kOBSOLETE_RegExpUnicodeSetIncompatibilitiesWithUnicodeMode'', 119),
      (''kOBSOLETE_ImportAssertionDeprecatedSyntax'', 120), (''kLocaleInfoObsoletedGetters'', 121),
      (''kLocaleInfoFunctions'', 122), (''kCompileHintsMagicAll'', 123),
      (''kInvalidatedNoProfilingProtector'', 124), (''kWasmMemory64'', 125), (''kWasmMultiMemory'', 126),
      (''kWasmGC'', 127), (''kWasmImportedStrings'', 128), (''kSourceMappingUrlMagicCommentAtSign'', 129),
      (''kTemporalObject'', 130), (''kWasmModuleCompilation'', 131),
      (''kInvalidatedNoUndetectableObjectsProtector'', 132), (''kWasmJavaScriptPromiseIntegration'', 133),
      (''kWasmReturnCall'', 134), (''kWasmExtendedConst'', 135), (''kWasmRelaxedSimd'', 136),
      (''kWasmTypeReflection'', 137), (''kWasmExnRef'', 138), (''kWasmTypedFuncRef'', 139),
      (''kInvalidatedStringWrapperToPrimitiveProtector'', 140), (''kDocumentAllLegacyCall'', 141),
      (''kDocumentAllLegacyConstruct'', 142), (''kConsoleContext'', 143), (''kWasmImportedStringsUtf8'', 144),
      (''kResizableArrayBuffer'', 145), (''kGrowableSharedArrayBuffer'', 146), (''kArrayByCopy'', 147),
      (''kArrayFromAsync'', 148), (''kIteratorMethods'', 149), (''kPromiseAny'', 150), (''kSetMethods'', 151),
      (''kArrayFindLast'', 152), (''kArrayGroup'', 153), (''kArrayBufferTransfer'', 154),
      (''kPromiseWithResolvers'', 155), (''kAtomicsWaitAsync'', 156),
      (''kExtendingNonExtensibleWithPrivate'', 157), (''kPromiseTry'', 158), (''kStringReplaceAll'', 159),
      (''kStringWellFormed'', 160), (''kWeakReferences'', 161), (''kErrorIsError'', 162),
      (''kInvalidatedTypedArrayLengthLookupChainProtector'', 163), (''kRegExpEscape'', 164),
      (''kFloat16Array'', 165), (''kExplicitResourceManagement'', 166), (''kWasmBranchHinting'', 167),
      (''kWasmMutableGlobals'', 168), (''kUint8ArrayToFromBase64AndHex'', 169), (''kAtomicsPause'', 170),
      (''kTopLevelAwait'', 171), (''kLogicalAssignment'', 172), (''kNullishCoalescing'', 173),
      (''kInvalidatedNoDateTimeConfigurationChangeProtector'', 174), (''kWasmNonTrappingFloatToInt'', 175),
      (''kWasmSignExtensionOps'', 176), (''kRegExpCompile'', 177), (''kRegExpStaticProperties'', 178),
      (''kRegExpStaticPropertiesWithLastMatch'', 179), (''kWithStatement'', 180),
      (''kHtmlWrapperMethods'', 181), (''kWasmCustomDescriptors'', 182),
      (''kOBSOLETE_WasmResizableBuffers'', 183), (''kInvalidatedArrayBufferMutableProtector'', 184),
      (''kHoleyArrayReadthrough'', 185)]"

definition UseCounterFeature :: "(string \<times> nat) list" where
  "UseCounterFeature = UseCounterFeature_0 @ UseCounterFeature_1"

text \<open>The enumerator after the last feature.\<close>

definition kUseCounterFeatureCount :: nat where "kUseCounterFeatureCount = 186"

lemma use_counters_dense: "map snd UseCounterFeature = [0..<kUseCounterFeatureCount]"
  by (simp add: UseCounterFeature_def UseCounterFeature_0_def UseCounterFeature_1_def kUseCounterFeatureCount_def upt_rec One_nat_def)

section \<open>Entering isolates\<close>

record 's isolate_api =
  isolate_Enter :: "addr \<Rightarrow> 's \<Rightarrow> 's"
  isolate_Exit :: "addr \<Rightarrow> 's \<Rightarrow> 's"
  isolate_ThrowError :: "addr \<Rightarrow> obj \<Rightarrow> 's \<Rightarrow> obj \<times> 's"
  isolate_NewFromUtf8Literal :: "addr \<Rightarrow> string \<Rightarrow> nat \<Rightarrow> 's \<Rightarrow> obj \<times> 's"

record Isolate_Scope =
  scope_isolate :: addr

definition Isolate_Scope_new :: "'s isolate_api \<Rightarrow> addr \<Rightarrow> 's \<Rightarrow> Isolate_Scope \<times> 's" where
  "Isolate_Scope_new A isolate s = (\<lparr>scope_isolate = isolate\<rparr>, isolate_Enter A isolate s)"

definition Isolate_Scope_delete :: "'s isolate_api \<Rightarrow> Isolate_Scope \<Rightarrow> 's \<Rightarrow> 's" where
  "Isolate_Scope_delete A sc s = isolate_Exit A (scope_isolate sc) s"

text \<open>A literal of \<open>n\<close> characters has the type \<open>const char[n + 1]\<close>.\<close>

definition ThrowError_literal :: "'s isolate_api \<Rightarrow> addr \<Rightarrow> string \<Rightarrow> 's \<Rightarrow> obj \<times> 's" where
  "ThrowError_literal A isolate message s =
     (let (str, s1) = isolate_NewFromUtf8Literal A isolate message (length message) s in isolate_ThrowError A isolate str s1)"

text \<open>Blocks, each in the scope of an isolate: a tree of scopes with the work done in them.\<close>

datatype 's block = Work "'s \<Rightarrow> 's" | In_scope addr "'s block list"

fun run_block :: "'s isolate_api \<Rightarrow> 's block \<Rightarrow> 's \<Rightarrow> 's" and run_blocks :: "'s isolate_api \<Rightarrow> 's block list \<Rightarrow> 's \<Rightarrow> 's" where
  "run_block A (Work f) s = f s"
| "run_block A (In_scope i bs) s =
     (let (sc, s1) = Isolate_Scope_new A i s in Isolate_Scope_delete A sc (run_blocks A bs s1))"
| "run_blocks A [] s = s"
| "run_blocks A (b # bs) s = run_blocks A bs (run_block A b s)"

text \<open>What the library keeps: the stack of the isolates that were entered.\<close>

definition enters_ok :: "'s isolate_api \<Rightarrow> ('s \<Rightarrow> addr list) \<Rightarrow> bool" where
  "enters_ok A entered \<longleftrightarrow>
     (\<forall>i s. entered (isolate_Enter A i s) = i # entered s) \<and>
     (\<forall>i s. entered s \<noteq> [] \<longrightarrow> hd (entered s) = i \<longrightarrow> entered (isolate_Exit A i s) = tl (entered s))"

fun work_keeps :: "('s \<Rightarrow> addr list) \<Rightarrow> 's block \<Rightarrow> bool" and works_keep :: "('s \<Rightarrow> addr list) \<Rightarrow> 's block list \<Rightarrow> bool" where
  "work_keeps entered (Work f) \<longleftrightarrow> (\<forall>s. entered (f s) = entered s)"
| "work_keeps entered (In_scope i bs) \<longleftrightarrow> works_keep entered bs"
| "works_keep entered [] \<longleftrightarrow> True"
| "works_keep entered (b # bs) \<longleftrightarrow> work_keeps entered b \<and> works_keep entered bs"

lemma isolate_scopes_nest:
  shows "enters_ok A entered \<Longrightarrow> work_keeps entered b \<Longrightarrow> entered (run_block A b s) = entered s"
    and "enters_ok A entered \<Longrightarrow> works_keep entered bs \<Longrightarrow> entered (run_blocks A bs s) = entered s"
proof (induction A b s and A bs s rule: run_block_run_blocks.induct)
  case (2 A i bs s)
  let ?s = "run_blocks A bs (isolate_Enter A i s)"
  have "entered ?s = i # entered s" using 2 by (simp add: Isolate_Scope_new_def enters_ok_def)
  then have "entered (isolate_Exit A i ?s) = entered s"
    using 2(2) [unfolded enters_ok_def, THEN conjunct2, rule_format, of ?s i] by simp
  then show ?case by (simp add: Isolate_Scope_new_def Isolate_Scope_delete_def)
qed auto

section \<open>Statistics\<close>

datatype MeasureMemoryMode = kSummary | kDetailed
datatype MeasureMemoryExecution = kDefault | kEager | kLazy

record MeasureMemory_Result =
  mm_contexts :: "obj list"
  mm_sizes_in_bytes :: "u64 list"
  mm_unattributed_size_in_bytes :: u64
  mm_wasm_code_size_in_bytes :: u64
  mm_wasm_metadata_size_in_bytes :: u64

record 's MeasureMemoryDelegate =
  ShouldMeasure :: "obj \<Rightarrow> 's \<Rightarrow> bool"
  MeasurementComplete :: "MeasureMemory_Result \<Rightarrow> 's \<Rightarrow> 's"

definition MeasureMemoryDelegate_base :: "(obj \<Rightarrow> 's \<Rightarrow> bool) \<Rightarrow> 's MeasureMemoryDelegate" where
  "MeasureMemoryDelegate_base should = \<lparr>ShouldMeasure = should, MeasurementComplete = (\<lambda>result s. s)\<rparr>"

record SharedMemoryStatistics =
  sms_read_only_space_size :: u64
  sms_read_only_space_used_size :: u64
  sms_read_only_space_physical_size :: u64

definition SMS_read_only_space_size :: "SharedMemoryStatistics \<Rightarrow> u64" where "SMS_read_only_space_size s = sms_read_only_space_size s"
definition SMS_read_only_space_used_size :: "SharedMemoryStatistics \<Rightarrow> u64" where "SMS_read_only_space_used_size s = sms_read_only_space_used_size s"
definition SMS_read_only_space_physical_size :: "SharedMemoryStatistics \<Rightarrow> u64" where "SMS_read_only_space_physical_size s = sms_read_only_space_physical_size s"

record HeapStatistics =
  hs_total_heap_size :: u64
  hs_total_heap_size_executable :: u64
  hs_total_physical_size :: u64
  hs_total_available_size :: u64
  hs_used_heap_size :: u64
  hs_heap_size_limit :: u64
  hs_malloced_memory :: u64
  hs_external_memory :: u64
  hs_peak_malloced_memory :: u64
  hs_does_zap_garbage :: bool
  hs_number_of_native_contexts :: u64
  hs_number_of_detached_contexts :: u64
  hs_total_global_handles_size :: u64
  hs_used_global_handles_size :: u64
  hs_total_allocated_bytes :: u64

definition HS_total_heap_size :: "HeapStatistics \<Rightarrow> u64" where "HS_total_heap_size s = hs_total_heap_size s"
definition HS_total_heap_size_executable :: "HeapStatistics \<Rightarrow> u64" where "HS_total_heap_size_executable s = hs_total_heap_size_executable s"
definition HS_total_physical_size :: "HeapStatistics \<Rightarrow> u64" where "HS_total_physical_size s = hs_total_physical_size s"
definition HS_total_available_size :: "HeapStatistics \<Rightarrow> u64" where "HS_total_available_size s = hs_total_available_size s"
definition HS_used_heap_size :: "HeapStatistics \<Rightarrow> u64" where "HS_used_heap_size s = hs_used_heap_size s"
definition HS_heap_size_limit :: "HeapStatistics \<Rightarrow> u64" where "HS_heap_size_limit s = hs_heap_size_limit s"
definition HS_malloced_memory :: "HeapStatistics \<Rightarrow> u64" where "HS_malloced_memory s = hs_malloced_memory s"
definition HS_external_memory :: "HeapStatistics \<Rightarrow> u64" where "HS_external_memory s = hs_external_memory s"
definition HS_peak_malloced_memory :: "HeapStatistics \<Rightarrow> u64" where "HS_peak_malloced_memory s = hs_peak_malloced_memory s"
definition HS_does_zap_garbage :: "HeapStatistics \<Rightarrow> u64" where "HS_does_zap_garbage s = (if hs_does_zap_garbage s then 1 else 0)"
definition HS_number_of_native_contexts :: "HeapStatistics \<Rightarrow> u64" where "HS_number_of_native_contexts s = hs_number_of_native_contexts s"
definition HS_number_of_detached_contexts :: "HeapStatistics \<Rightarrow> u64" where "HS_number_of_detached_contexts s = hs_number_of_detached_contexts s"
definition HS_total_global_handles_size :: "HeapStatistics \<Rightarrow> u64" where "HS_total_global_handles_size s = hs_total_global_handles_size s"
definition HS_used_global_handles_size :: "HeapStatistics \<Rightarrow> u64" where "HS_used_global_handles_size s = hs_used_global_handles_size s"
definition HS_total_allocated_bytes :: "HeapStatistics \<Rightarrow> u64" where "HS_total_allocated_bytes s = hs_total_allocated_bytes s"

record HeapSpaceStatistics =
  hss_space_name :: string
  hss_space_size :: u64
  hss_space_used_size :: u64
  hss_space_available_size :: u64
  hss_physical_space_size :: u64

definition HSS_space_name :: "HeapSpaceStatistics \<Rightarrow> string" where "HSS_space_name s = hss_space_name s"
definition HSS_space_size :: "HeapSpaceStatistics \<Rightarrow> u64" where "HSS_space_size s = hss_space_size s"
definition HSS_space_used_size :: "HeapSpaceStatistics \<Rightarrow> u64" where "HSS_space_used_size s = hss_space_used_size s"
definition HSS_space_available_size :: "HeapSpaceStatistics \<Rightarrow> u64" where "HSS_space_available_size s = hss_space_available_size s"
definition HSS_physical_space_size :: "HeapSpaceStatistics \<Rightarrow> u64" where "HSS_physical_space_size s = hss_physical_space_size s"

record HeapObjectStatistics =
  hos_object_type :: string
  hos_object_sub_type :: string
  hos_object_count :: u64
  hos_object_size :: u64

definition HOS_object_type :: "HeapObjectStatistics \<Rightarrow> string" where "HOS_object_type s = hos_object_type s"
definition HOS_object_sub_type :: "HeapObjectStatistics \<Rightarrow> string" where "HOS_object_sub_type s = hos_object_sub_type s"
definition HOS_object_count :: "HeapObjectStatistics \<Rightarrow> u64" where "HOS_object_count s = hos_object_count s"
definition HOS_object_size :: "HeapObjectStatistics \<Rightarrow> u64" where "HOS_object_size s = hos_object_size s"

record HeapCodeStatistics =
  hcs_code_and_metadata_size :: u64
  hcs_bytecode_and_metadata_size :: u64
  hcs_external_script_source_size :: u64
  hcs_cpu_profiler_metadata_size :: u64

definition HCS_code_and_metadata_size :: "HeapCodeStatistics \<Rightarrow> u64" where "HCS_code_and_metadata_size s = hcs_code_and_metadata_size s"
definition HCS_bytecode_and_metadata_size :: "HeapCodeStatistics \<Rightarrow> u64" where "HCS_bytecode_and_metadata_size s = hcs_bytecode_and_metadata_size s"
definition HCS_external_script_source_size :: "HeapCodeStatistics \<Rightarrow> u64" where "HCS_external_script_source_size s = hcs_external_script_source_size s"
definition HCS_cpu_profiler_metadata_size :: "HeapCodeStatistics \<Rightarrow> u64" where "HCS_cpu_profiler_metadata_size s = hcs_cpu_profiler_metadata_size s"

end
