(* ===== verification/Cppgc_GCInfo.thy ===== *)
theory Cppgc_GCInfo
  imports Cppgc_Visitor
begin

text \<open>
  What the managed heap knows of a class: \<open>gc-info.h\<close>, \<open>finalizer-trait.h\<close>, \<open>name-trait.h\<close>, \<open>name-provider.h\<close>,
  \<open>custom-space.h\<close>, \<open>object-size-trait.h\<close> and \<open>prefinalizer.h\<close> under \<open>cppgc/\<close>. What the compiler decides about a
  class \<open>'c\<close> is a record of facts. The theorems are about finalizers when the info of a class is folded into that of
  its base, about indices registered by several threads, and about the names taken from \<open>__PRETTY_FUNCTION__\<close>.
\<close>

section \<open>Facts about classes\<close>

record CustomSpace =
  space_index :: u64
  space_compacts :: bool

record 'c class_facts =
  cf_sizeof :: "'c \<Rightarrow> u64"
  cf_alignof :: "'c \<Rightarrow> u64"
  cf_parent_most :: "'c \<Rightarrow> 'c"                \<comment> \<open>\<open>ParentMostGarbageCollectedType\<close>\<close>
  cf_space :: "'c \<Rightarrow> CustomSpace option"       \<comment> \<open>\<open>SpaceTrait<T>::Space\<close>, \<open>void\<close> being \<open>None\<close>\<close>
  cf_virtual_destructor :: "'c \<Rightarrow> bool"
  cf_trivially_destructible :: "'c \<Rightarrow> bool"
  cf_finalize :: "'c \<Rightarrow> 'c option"             \<comment> \<open>the class whose \<open>FinalizeGarbageCollectedObject\<close> is found in \<open>T\<close>\<close>
  cf_name_provider :: "'c \<Rightarrow> bool"
  cf_mixin :: "'c \<Rightarrow> bool"                    \<comment> \<open>\<open>IsGarbageCollectedMixinTypeV\<close>\<close>
  cf_with_mixin :: "'c \<Rightarrow> bool"               \<comment> \<open>\<open>IsGarbageCollectedWithMixinTypeV\<close>\<close>

text \<open>Custom spaces.\<close>

definition kSupportsCompaction :: bool where "kSupportsCompaction = False"

definition GetCustomSpaceIndex :: "CustomSpace \<Rightarrow> u64" where "GetCustomSpaceIndex S = space_index S"
definition IsCompactable :: "CustomSpace \<Rightarrow> bool" where "IsCompactable S = space_compacts S"

definition SpaceTrait_default :: "CustomSpace option" where "SpaceTrait_default = None"

definition IsAllocatedOnCompactableSpace :: "'c class_facts \<Rightarrow> 'c \<Rightarrow> bool" where
  "IsAllocatedOnCompactableSpace F T = (case cf_space F T of None \<Rightarrow> False | Some S \<Rightarrow> space_compacts S)"

text \<open>Sizes: the library measures objects and, from an inner address, mixins.\<close>

record object_size_lib =
  GetObjectSizeForGarbageCollected :: "u64 \<Rightarrow> u64"
  GetObjectSizeForGarbageCollectedMixin :: "u64 \<Rightarrow> u64"

definition ObjectSizeTrait_GetSize :: "object_size_lib \<Rightarrow> 'c class_facts \<Rightarrow> 'c \<Rightarrow> u64 \<Rightarrow> u64" where
  "ObjectSizeTrait_GetSize Z F T obj =
     (if cf_mixin F T then GetObjectSizeForGarbageCollectedMixin Z obj else GetObjectSizeForGarbageCollected Z obj)"

section \<open>Finalizers\<close>

definition HasFinalizeGarbageCollectedObject :: "'c class_facts \<Rightarrow> 'c \<Rightarrow> bool" where
  "HasFinalizeGarbageCollectedObject F T \<longleftrightarrow> cf_finalize F T \<noteq> None"

text \<open>What happens to an object: nothing, the destructor of a class, or the method of a class.\<close>

datatype 'c finalization = NoFinalization | Destroyed_as 'c | Finalized_by 'c

text \<open>The method found in \<open>T\<close>, and the destructor of \<open>T\<close>; one that is virtual is that of the class of the object.\<close>

definition Custom_Call :: "'c class_facts \<Rightarrow> 'c \<Rightarrow> 'c \<Rightarrow> 'c finalization" where
  "Custom_Call F T dynamic = (case cf_finalize F T of None \<Rightarrow> NoFinalization | Some C \<Rightarrow> Finalized_by C)"

definition Destructor_Call :: "'c class_facts \<Rightarrow> 'c \<Rightarrow> 'c \<Rightarrow> 'c finalization" where
  "Destructor_Call F T dynamic = Destroyed_as (if cf_virtual_destructor F T then dynamic else T)"

definition FinalizerTraitImpl_Finalize :: "'c class_facts \<Rightarrow> bool \<Rightarrow> 'c \<Rightarrow> 'c \<Rightarrow> 'c finalization" where
  "FinalizerTraitImpl_Finalize F isFinalized T dynamic =
     (if isFinalized then (if HasFinalizeGarbageCollectedObject F T then Custom_Call F T dynamic else Destructor_Call F T dynamic)
      else NoFinalization)"

definition kNonTrivialFinalizer :: "'c class_facts \<Rightarrow> 'c \<Rightarrow> bool" where
  "kNonTrivialFinalizer F T \<longleftrightarrow> HasFinalizeGarbageCollectedObject F T \<or> \<not> cf_trivially_destructible F T"

definition FinalizerTrait_Finalize :: "'c class_facts \<Rightarrow> 'c \<Rightarrow> 'c \<Rightarrow> 'c finalization" where
  "FinalizerTrait_Finalize F T dynamic = FinalizerTraitImpl_Finalize F (kNonTrivialFinalizer F T) T dynamic"

definition HasFinalizer :: "'c class_facts \<Rightarrow> 'c \<Rightarrow> bool" where
  "HasFinalizer F T = kNonTrivialFinalizer F T"

text \<open>The callback is the \<open>Finalize\<close> of a class, or null.\<close>

definition FinalizerTrait_kCallback :: "'c class_facts \<Rightarrow> 'c \<Rightarrow> 'c option" where
  "FinalizerTrait_kCallback F T = (if kNonTrivialFinalizer F T then Some T else None)"

text \<open>Finalizing an object of class \<open>dynamic\<close> whose info has the callback of \<open>T\<close>.\<close>

definition finalized :: "'c class_facts \<Rightarrow> 'c option \<Rightarrow> 'c \<Rightarrow> 'c finalization" where
  "finalized F callback dynamic = (case callback of None \<Rightarrow> NoFinalization | Some T \<Rightarrow> FinalizerTrait_Finalize F T dynamic)"

section \<open>Folding\<close>

definition kHasVirtualDestructorAtBase :: "'c class_facts \<Rightarrow> 'c \<Rightarrow> bool" where
  "kHasVirtualDestructorAtBase F P = cf_virtual_destructor F P"

definition kBothTypesAreTriviallyDestructible :: "'c class_facts \<Rightarrow> 'c \<Rightarrow> 'c \<Rightarrow> bool" where
  "kBothTypesAreTriviallyDestructible F T P \<longleftrightarrow> cf_trivially_destructible F P \<and> cf_trivially_destructible F T"

definition kHasCustomFinalizerDispatchAtBase :: "'c class_facts \<Rightarrow> 'c \<Rightarrow> bool" where
  "kHasCustomFinalizerDispatchAtBase F P = HasFinalizeGarbageCollectedObject F P"

text \<open>\<open>names\<close> is \<open>CPPGC_SUPPORTS_OBJECT_NAMES\<close>.\<close>

definition kWantsDetailedObjectNames :: "bool \<Rightarrow> bool" where "kWantsDetailedObjectNames names = names"

definition WantToFold :: "bool \<Rightarrow> 'c class_facts \<Rightarrow> 'c \<Rightarrow> 'c \<Rightarrow> bool" where
  "WantToFold names F T P \<longleftrightarrow>
     (kHasVirtualDestructorAtBase F P \<or> kBothTypesAreTriviallyDestructible F T P \<or> kHasCustomFinalizerDispatchAtBase F P) \<and>
     \<not> kWantsDetailedObjectNames names"

definition GCInfoFolding_ResultType :: "bool \<Rightarrow> 'c class_facts \<Rightarrow> 'c \<Rightarrow> 'c \<Rightarrow> 'c" where
  "GCInfoFolding_ResultType names F T P = (if WantToFold names F T P then P else T)"

text \<open>What C++ guarantees of a class and its base: a virtual destructor is inherited and not trivial.\<close>

definition derived_facts :: "'c class_facts \<Rightarrow> 'c \<Rightarrow> 'c \<Rightarrow> bool" where
  "derived_facts F T P \<longleftrightarrow>
     (cf_virtual_destructor F P \<longrightarrow> cf_virtual_destructor F T \<and> \<not> cf_trivially_destructible F P \<and> \<not> cf_trivially_destructible F T) \<and>
     (\<not> cf_trivially_destructible F P \<longrightarrow> \<not> cf_trivially_destructible F T)"

lemmas finalizer_defs = finalized_def FinalizerTrait_kCallback_def FinalizerTrait_Finalize_def FinalizerTraitImpl_Finalize_def
  kNonTrivialFinalizer_def HasFinalizeGarbageCollectedObject_def Custom_Call_def Destructor_Call_def
lemmas folding_defs = GCInfoFolding_ResultType_def WantToFold_def kHasVirtualDestructorAtBase_def kWantsDetailedObjectNames_def
  kBothTypesAreTriviallyDestructible_def kHasCustomFinalizerDispatchAtBase_def HasFinalizeGarbageCollectedObject_def

text \<open>Folding the info of a class into that of its base does not change how its objects are finalized, in any
  build, when the method \<open>FinalizeGarbageCollectedObject\<close> that the class has, if any, is the one of the base.\<close>

lemma folding_keeps_finalizer:
  assumes "derived_facts F T P" "cf_finalize F T = cf_finalize F P"
  shows "finalized F (FinalizerTrait_kCallback F (GCInfoFolding_ResultType names F T P)) T =
         finalized F (FinalizerTrait_kCallback F T) T"
  using assms by (auto simp: folding_defs finalizer_defs derived_facts_def split: option.splits)

text \<open>C30: a class that adds \<open>FinalizeGarbageCollectedObject\<close> to a base without it loses it by folding: when the base
  has a virtual destructor or both are trivially destructible, the method is called in builds with object names and
  not in builds without.\<close>

theorem folding_drops_finalizer:
  assumes "cf_finalize F T = Some C" "cf_finalize F P = None"
    and "cf_virtual_destructor F P \<or> cf_trivially_destructible F P \<and> cf_trivially_destructible F T"
  shows "finalized F (FinalizerTrait_kCallback F (GCInfoFolding_ResultType True F T P)) T = Finalized_by C \<and>
         finalized F (FinalizerTrait_kCallback F (GCInfoFolding_ResultType False F T P)) T \<noteq> Finalized_by C"
  using assms by (auto simp: folding_defs finalizer_defs split: option.splits)

section \<open>Names\<close>

definition kHiddenName :: string where "kHiddenName = ''InternalNode''"
definition kNoNameDeducible :: string where "kNoNameDeducible = ''<No name>''"

definition SupportsCppClassNamesAsObjectNames :: "bool \<Rightarrow> bool" where
  "SupportsCppClassNamesAsObjectNames names = names"

text \<open>The buffer has \<open>Size + 1\<close> characters; reading \<open>str\<close> past its end is not a constant expression.\<close>

definition NameBuffer_FromCString :: "nat \<Rightarrow> string \<Rightarrow> string option" where
  "NameBuffer_FromCString Size str =
     (if length str < Size then None else Some (map (\<lambda>i. str ! i) [0..<Size] @ [CHR 0x00]))"

definition c_string :: "string \<Rightarrow> string" where
  "c_string buf = takeWhile (\<lambda>c. c \<noteq> CHR 0x00) buf"

definition kSelfPrefix :: string where
  "kSelfPrefix = ''const char *cppgc::internal::GetTypename() [T =''"

text \<open>\<open>pretty\<close> is \<open>__PRETTY_FUNCTION__\<close>; \<open>sizeof\<close> counts the NUL of the prefix. \<open>None\<close> is a compile-time error.\<close>

definition GetTypename :: "string \<Rightarrow> string option" where
  "GetTypename pretty =
     (if take (length kSelfPrefix) pretty \<noteq> kSelfPrefix \<or> length pretty < length kSelfPrefix + 2 then None
      else let kTypenameStart = drop (Suc (length kSelfPrefix)) pretty;
               kTypenameSize = length pretty - Suc (length kSelfPrefix) - 1
           in map_option c_string (NameBuffer_FromCString kTypenameSize kTypenameStart))"

record HeapObjectName =
  name_value :: string
  name_was_hidden :: bool

datatype HeapObjectNameForUnnamedObject = kUseClassNameIfSupported | kUseHiddenName

text \<open>\<open>clang\<close> says whether names come from the compiler; \<open>deduced\<close> is the library's \<open>GetNameFromTypeSignature\<close>.\<close>

definition HasNonHiddenName :: "bool \<Rightarrow> 'c class_facts \<Rightarrow> 'c \<Rightarrow> bool" where
  "HasNonHiddenName names F T = (if names then True else cf_name_provider F T)"

definition GetNameFor_provider :: "(u64 \<Rightarrow> string) \<Rightarrow> u64 \<Rightarrow> HeapObjectName" where
  "GetNameFor_provider GetHumanReadableName obj = \<lparr>name_value = GetHumanReadableName obj, name_was_hidden = False\<rparr>"

definition GetNameFor_other ::
    "bool \<Rightarrow> bool \<Rightarrow> (string \<Rightarrow> HeapObjectName) \<Rightarrow> string \<Rightarrow> HeapObjectNameForUnnamedObject \<Rightarrow> HeapObjectName option" where
  "GetNameFor_other names clang deduced pretty name_retrieval_mode =
     (if name_retrieval_mode = kUseHiddenName then Some \<lparr>name_value = kHiddenName, name_was_hidden = True\<rparr>
      else if names \<and> clang
        then (case GetTypename pretty of None \<Rightarrow> None | Some n \<Rightarrow> Some \<lparr>name_value = n, name_was_hidden = False\<rparr>)
      else if names then Some (deduced pretty)
      else Some \<lparr>name_value = kHiddenName, name_was_hidden = False\<rparr>)"

definition NameTrait_GetName ::
    "bool \<Rightarrow> bool \<Rightarrow> (string \<Rightarrow> HeapObjectName) \<Rightarrow> (u64 \<Rightarrow> string) \<Rightarrow> 'c class_facts \<Rightarrow> 'c \<Rightarrow> string \<Rightarrow> u64 \<Rightarrow>
       HeapObjectNameForUnnamedObject \<Rightarrow> HeapObjectName option" where
  "NameTrait_GetName names clang deduced human F T pretty obj mode =
     (if cf_name_provider F T then Some (GetNameFor_provider human obj) else GetNameFor_other names clang deduced pretty mode)"

text \<open>The name of a type is recovered from the text the compiler prints for it.\<close>

lemma typename_roundtrip:
  assumes "CHR 0x00 \<notin> set name"
  shows "GetTypename (kSelfPrefix @ '' '' @ name @ '']'') = Some name"
proof -
  have "map (\<lambda>i. (name @ '']'') ! i) [0..<length name] = name"
    by (rule nth_equalityI) (simp_all add: nth_append)
  moreover have "c_string (name @ [CHR 0x00]) = name"
    using assms by (subst c_string_def, subst takeWhile_append2) auto
  ultimately show ?thesis by (simp add: GetTypename_def NameBuffer_FromCString_def Let_def)
qed

section \<open>Prefinalizers\<close>

text \<open>\<open>CPPGC_USING_PRE_FINALIZER\<close>: the client's \<open>PreFinalizer\<close> acts on the state of the embedder.\<close>

definition InvokePreFinalizer ::
    "bool \<Rightarrow> 'c trace_lib \<Rightarrow> broker \<Rightarrow> 'c \<Rightarrow> (u64 \<Rightarrow> 's \<Rightarrow> 's) \<Rightarrow> u64 \<Rightarrow> 's \<Rightarrow> bool \<times> 's" where
  "InvokePreFinalizer larger L liveness_broker T PreFinalizer obj s =
     (if IsHeapObjectAlive larger L liveness_broker T obj then (False, s) else (True, PreFinalizer obj s))"

section \<open>Indices of infos\<close>

text \<open>What is registered for a class: the class whose \<open>Trace\<close> is called, its finalizer and whether it has a name.\<close>

record 'c gc_info =
  gi_trace :: 'c
  gi_finalizer :: "'c option"
  gi_name :: bool

definition EnsureGCInfoIndexTraitDispatch :: "bool \<Rightarrow> 'c class_facts \<Rightarrow> 'c \<Rightarrow> 'c gc_info" where
  "EnsureGCInfoIndexTraitDispatch names F T =
     (case (HasFinalizer F T, HasNonHiddenName names F T) of
        (True, True) \<Rightarrow> \<lparr>gi_trace = T, gi_finalizer = FinalizerTrait_kCallback F T, gi_name = True\<rparr>
      | (True, False) \<Rightarrow> \<lparr>gi_trace = T, gi_finalizer = FinalizerTrait_kCallback F T, gi_name = False\<rparr>
      | (False, True) \<Rightarrow> \<lparr>gi_trace = T, gi_finalizer = None, gi_name = True\<rparr>
      | (False, False) \<Rightarrow> \<lparr>gi_trace = T, gi_finalizer = None, gi_name = False\<rparr>)"

text \<open>The cells \<open>registered_index\<close>, one per class, zero at first, and the library's table.\<close>

record ('c, 't) gc_infos =
  registered_index :: "'c \<Rightarrow> u16"
  info_table :: 't

type_synonym ('c, 't) ensure = "'c \<Rightarrow> 'c gc_info \<Rightarrow> ('c, 't) gc_infos \<Rightarrow> u16 \<times> ('c, 't) gc_infos"

definition EnsureIndex ::
    "('c, 't) ensure \<Rightarrow> bool \<Rightarrow> 'c class_facts \<Rightarrow> 'c \<Rightarrow> ('c, 't) gc_infos \<Rightarrow> u16 \<times> ('c, 't) gc_infos" where
  "EnsureIndex E names F T g = E T (EnsureGCInfoIndexTraitDispatch names F T) g"

definition GCInfoTrait_Index ::
    "('c, 't) ensure \<Rightarrow> bool \<Rightarrow> 'c class_facts \<Rightarrow> 'c \<Rightarrow> ('c, 't) gc_infos \<Rightarrow> u16 \<times> ('c, 't) gc_infos" where
  "GCInfoTrait_Index E names F T g =
     (let index = registered_index g T in if index = 0 then EnsureIndex E names F T g else (index, g))"

text \<open>The four cases register the class, its callback and whether it has a name.\<close>

lemma EnsureGCInfoIndexTraitDispatch_eq:
  "EnsureGCInfoIndexTraitDispatch names F T =
     \<lparr>gi_trace = T, gi_finalizer = FinalizerTrait_kCallback F T, gi_name = HasNonHiddenName names F T\<rparr>"
  by (auto simp: EnsureGCInfoIndexTraitDispatch_def HasFinalizer_def FinalizerTrait_kCallback_def split: bool.split)

text \<open>Several threads call \<open>Index\<close>, each first loading the cell; the library registers in one step.\<close>

datatype 'c index_call = Calling 'c | Loaded 'c u16 | Returned 'c u16

inductive index_step ::
    "('c, 't) ensure \<Rightarrow> bool \<Rightarrow> 'c class_facts \<Rightarrow> ('c, 't) gc_infos \<times> (nat \<Rightarrow> 'c index_call) \<Rightarrow>
       ('c, 't) gc_infos \<times> (nat \<Rightarrow> 'c index_call) \<Rightarrow> bool"
  for E names F where
  load: "calls t = Calling T \<Longrightarrow> index_step E names F (g, calls) (g, calls(t := Loaded T (registered_index g T)))"
| hit: "calls t = Loaded T i \<Longrightarrow> i \<noteq> 0 \<Longrightarrow> index_step E names F (g, calls) (g, calls(t := Returned T i))"
| miss: "calls t = Loaded T 0 \<Longrightarrow> EnsureIndex E names F T g = (i, g1) \<Longrightarrow>
    index_step E names F (g, calls) (g1, calls(t := Returned T i))"

text \<open>What the library does, by the checks in the header: it stores and returns a new index, or the one that another
  thread has stored in the meantime.\<close>

definition ensure_ok :: "('c, 't) ensure \<Rightarrow> bool" where
  "ensure_ok E \<longleftrightarrow> (\<forall>T info g i g1. E T info g = (i, g1) \<longrightarrow>
     i \<noteq> 0 \<and> registered_index g1 = (registered_index g)(T := i) \<and> (registered_index g T \<noteq> 0 \<longrightarrow> i = registered_index g T) \<and>
     (registered_index g T = 0 \<longrightarrow> (\<forall>S. registered_index g S \<noteq> i)))"

primrec call_ok :: "('c \<Rightarrow> u16) \<Rightarrow> 'c index_call \<Rightarrow> bool" where
  "call_ok reg (Calling T) = True"
| "call_ok reg (Loaded T i) = (i = 0 \<or> reg T = i)"
| "call_ok reg (Returned T i) = (i \<noteq> 0 \<and> reg T = i)"

definition reg_distinct :: "('c \<Rightarrow> u16) \<Rightarrow> bool" where
  "reg_distinct reg \<longleftrightarrow> (\<forall>S T. reg S \<noteq> 0 \<longrightarrow> reg S = reg T \<longrightarrow> S = T)"

fun indices_ok :: "('c, 't) gc_infos \<times> (nat \<Rightarrow> 'c index_call) \<Rightarrow> bool" where
  "indices_ok (g, calls) \<longleftrightarrow> reg_distinct (registered_index g) \<and> (\<forall>t. call_ok (registered_index g) (calls t))"

lemma index_step_ok:
  assumes E: "ensure_ok E" and st: "index_step E names F s s1" and ok: "indices_ok s"
  shows "indices_ok s1"
  using st ok
proof cases
  case (load calls t T g)
  with ok show ?thesis by simp
next
  case (hit calls t T i g)
  from ok hit(1) have "call_ok (registered_index g) (calls t)" by simp
  with hit ok show ?thesis by simp
next
  case (miss calls t T g i g1)
  note E1 = E [unfolded ensure_ok_def, rule_format, OF miss(4) [unfolded EnsureIndex_def]]
  have old: "reg_distinct (registered_index g)" "\<And>u. call_ok (registered_index g) (calls u)"
    using ok miss(1) by simp_all
  have "call_ok (registered_index g1) (calls u)" for u
    using old(2) [of u] E1 by (cases "calls u") auto
  moreover have "reg_distinct (registered_index g1)"
    using old(1) E1 unfolding reg_distinct_def by (metis fun_upd_apply)
  ultimately show ?thesis using miss(2) E1 by simp
qed


text \<open>Two classes, the calls of two threads for the first and of one for the second.\<close>

definition demo_ensure :: "(bool, unit) ensure" where
  "demo_ensure T info g =
     (let i = (if registered_index g T \<noteq> 0 then registered_index g T else if registered_index g (\<not> T) = 1 then 2 else 1)
      in (i, g\<lparr>registered_index := (registered_index g)(T := i)\<rparr>))"

definition demo_facts :: "bool class_facts" where
  "demo_facts = \<lparr>cf_sizeof = (\<lambda>T. 16), cf_alignof = (\<lambda>T. 8), cf_parent_most = (\<lambda>T. False), cf_space = (\<lambda>T. None),
     cf_virtual_destructor = (\<lambda>T. True), cf_trivially_destructible = (\<lambda>T. False),
     cf_finalize = (\<lambda>T. if T then Some True else None), cf_name_provider = (\<lambda>T. False), cf_mixin = (\<lambda>T. False),
     cf_with_mixin = (\<lambda>T. False)\<rparr>"

definition demo_infos :: "(bool, unit) gc_infos" where
  "demo_infos = \<lparr>registered_index = (\<lambda>T. 0), info_table = ()\<rparr>"

lemma demo_ensure_ok: "ensure_ok demo_ensure"
proof -
  have "registered_index g S \<noteq> (if registered_index g (\<not> T) = 1 then 2 else 1)" if "registered_index g T = 0"
    for g :: "(bool, unit) gc_infos" and S T
  proof -
    have "S = T \<or> S = (\<not> T)" by blast
    then show ?thesis using that by auto
  qed
  then show ?thesis by (auto simp: ensure_ok_def demo_ensure_def Let_def)
qed


theorem folding_drops_finalizer_witness:
  "finalized demo_facts (FinalizerTrait_kCallback demo_facts (GCInfoFolding_ResultType False demo_facts True False)) True
     \<noteq> Finalized_by True"
  using folding_drops_finalizer [of demo_facts True True False] by (simp add: demo_facts_def)

end
