(* ===== verification/Cppgc_Allocation.thy ===== *)
theory Cppgc_Allocation
  imports Cppgc_GCInfo
begin

text \<open>
  Making managed objects: \<open>cppgc/allocation.h\<close>. The library's four \<open>Allocate\<close> are one function of a request; a
  failing \<open>static_assert\<close> is \<open>None\<close>, as is a constructor that does not return. The header field with the bit of
  construction is four bytes before the object.
\<close>

unbundle bit_operations_syntax

record ('c, 't, 'm) alloc_state =
  gc_infos_of :: "('c, 't) gc_infos"
  header_fields :: "u64 \<Rightarrow> u16"
  other_heap :: 'm

section \<open>Construction\<close>

definition construction_field :: "u64 \<Rightarrow> u64" where
  "construction_field payload = payload - of_int kFullyConstructedBitFieldOffsetFromPayload"

definition MarkObjectAsFullyConstructed :: "u64 \<Rightarrow> ('c, 't, 'm) alloc_state \<Rightarrow> ('c, 't, 'm) alloc_state" where
  "MarkObjectAsFullyConstructed payload s =
     (let a = construction_field payload; val = header_fields s a OR kFullyConstructedBitMask
      in s\<lparr>header_fields := (header_fields s)(a := val)\<rparr>)"

definition fully_constructed :: "('c, 't, 'm) alloc_state \<Rightarrow> u64 \<Rightarrow> bool" where
  "fully_constructed s payload \<longleftrightarrow> header_fields s (construction_field payload) AND kFullyConstructedBitMask \<noteq> 0"

section \<open>Allocation\<close>

record alloc_request =
  rq_size :: u64
  rq_alignment :: "u64 option"
  rq_index :: u16
  rq_space :: "u64 option"

type_synonym ('c, 't, 'm) allocate =
  "alloc_request \<Rightarrow> ('c, 't, 'm) alloc_state \<Rightarrow> u64 \<times> ('c, 't, 'm) alloc_state"

text \<open>The four specialisations of \<open>AllocationDispatcher\<close>.\<close>

definition AllocationDispatcher_request :: "CustomSpace option \<Rightarrow> u64 \<Rightarrow> u16 \<Rightarrow> u64 \<Rightarrow> alloc_request option" where
  "AllocationDispatcher_request Space alignment index sz =
     (case Space of
        None \<Rightarrow>
          if alignment = of_nat kDefaultAlignment
          then Some \<lparr>rq_size = sz, rq_alignment = None, rq_index = index, rq_space = None\<rparr>
          else Some \<lparr>rq_size = sz, rq_alignment = Some alignment, rq_index = index, rq_space = None\<rparr>
      | Some S \<Rightarrow>
          if alignment = of_nat kDefaultAlignment
          then Some \<lparr>rq_size = sz, rq_alignment = None, rq_index = index, rq_space = Some (space_index S)\<rparr>
          else if space_compacts S then None
          else Some \<lparr>rq_size = sz, rq_alignment = Some alignment, rq_index = index, rq_space = Some (space_index S)\<rparr>)"

definition AllocationDispatcher_Invoke ::
    "('c, 't) ensure \<Rightarrow> bool \<Rightarrow> 'c class_facts \<Rightarrow> ('c, 't, 'm) allocate \<Rightarrow> 'c \<Rightarrow> CustomSpace option \<Rightarrow> u64 \<Rightarrow> u64 \<Rightarrow>
       ('c, 't, 'm) alloc_state \<Rightarrow> (u64 \<times> ('c, 't, 'm) alloc_state) option" where
  "AllocationDispatcher_Invoke E names F A GCInfoType Space alignment sz s =
     (let (index, g) = GCInfoTrait_Index E names F GCInfoType (gc_infos_of s)
      in do { rq \<leftarrow> AllocationDispatcher_request Space alignment index sz; Some (A rq (s\<lparr>gc_infos_of := g\<rparr>)) })"

definition kWantedAlignment :: "'c class_facts \<Rightarrow> 'c \<Rightarrow> u64" where
  "kWantedAlignment F T = (if cf_alignof F T < of_nat kDefaultAlignment then of_nat kDefaultAlignment else cf_alignof F T)"

definition MakeGarbageCollectedTraitBase_Allocate ::
    "('c, 't) ensure \<Rightarrow> bool \<Rightarrow> 'c class_facts \<Rightarrow> ('c, 't, 'm) allocate \<Rightarrow> 'c \<Rightarrow> u64 \<Rightarrow>
       ('c, 't, 'm) alloc_state \<Rightarrow> (u64 \<times> ('c, 't, 'm) alloc_state) option" where
  "MakeGarbageCollectedTraitBase_Allocate E names F A T sz s =
     (if cf_with_mixin F T \<and> kLargeObjectSizeThreshold < cf_sizeof F T then None
      else if of_nat kMaxSupportedAlignment < kWantedAlignment F T then None
      else AllocationDispatcher_Invoke E names F A (GCInfoFolding_ResultType names F T (cf_parent_most F T)) (cf_space F T)
             (kWantedAlignment F T) sz s)"

section \<open>\<open>MakeGarbageCollected\<close>\<close>

text \<open>\<open>constructor\<close> is the placement \<open>new\<close> with its arguments.\<close>

type_synonym ('c, 't, 'm) ctor = "u64 \<Rightarrow> ('c, 't, 'm) alloc_state \<Rightarrow> ('c, 't, 'm) alloc_state option"

definition MakeGarbageCollectedTrait_Call ::
    "('c, 't) ensure \<Rightarrow> bool \<Rightarrow> 'c class_facts \<Rightarrow> ('c, 't, 'm) allocate \<Rightarrow> 'c \<Rightarrow> ('c, 't, 'm) ctor \<Rightarrow>
       ('c, 't, 'm) alloc_state \<Rightarrow> (u64 \<times> ('c, 't, 'm) alloc_state) option" where
  "MakeGarbageCollectedTrait_Call E names F A T ctor s =
     do { (memory, s1) \<leftarrow> MakeGarbageCollectedTraitBase_Allocate E names F A T (cf_sizeof F T) s;
          s2 \<leftarrow> ctor memory s1;
          Some (memory, MarkObjectAsFullyConstructed memory s2) }"

record AdditionalBytes =
  additional_value :: u64

definition AdditionalBytes_new :: "u64 \<Rightarrow> AdditionalBytes" where
  "AdditionalBytes_new bytes = \<lparr>additional_value = bytes\<rparr>"

definition MakeGarbageCollectedTrait_Call_additional ::
    "('c, 't) ensure \<Rightarrow> bool \<Rightarrow> 'c class_facts \<Rightarrow> ('c, 't, 'm) allocate \<Rightarrow> 'c \<Rightarrow> AdditionalBytes \<Rightarrow> ('c, 't, 'm) ctor \<Rightarrow>
       ('c, 't, 'm) alloc_state \<Rightarrow> (u64 \<times> ('c, 't, 'm) alloc_state) option" where
  "MakeGarbageCollectedTrait_Call_additional E names F A T additional_bytes ctor s =
     do { (memory, s1) \<leftarrow> MakeGarbageCollectedTraitBase_Allocate E names F A T (cf_sizeof F T + additional_value additional_bytes) s;
          s2 \<leftarrow> ctor memory s1;
          Some (memory, MarkObjectAsFullyConstructed memory s2) }"

definition PostConstructionCallbackTrait_Call :: "u64 \<Rightarrow> ('c, 't, 'm) alloc_state \<Rightarrow> ('c, 't, 'm) alloc_state" where
  "PostConstructionCallbackTrait_Call obj s = s"

text \<open>\<open>post\<close> is the specialisation of the callback trait for the class.\<close>

definition MakeGarbageCollected ::
    "('c, 't) ensure \<Rightarrow> bool \<Rightarrow> 'c class_facts \<Rightarrow> ('c, 't, 'm) allocate \<Rightarrow> 'c \<Rightarrow> ('c, 't, 'm) ctor \<Rightarrow>
       (u64 \<Rightarrow> ('c, 't, 'm) alloc_state \<Rightarrow> ('c, 't, 'm) alloc_state) \<Rightarrow> ('c, 't, 'm) alloc_state \<Rightarrow>
       (u64 \<times> ('c, 't, 'm) alloc_state) option" where
  "MakeGarbageCollected E names F A T ctor post s =
     do { (obj, s1) \<leftarrow> MakeGarbageCollectedTrait_Call E names F A T ctor s; Some (obj, post obj s1) }"

definition MakeGarbageCollected_additional ::
    "('c, 't) ensure \<Rightarrow> bool \<Rightarrow> 'c class_facts \<Rightarrow> ('c, 't, 'm) allocate \<Rightarrow> 'c \<Rightarrow> AdditionalBytes \<Rightarrow> ('c, 't, 'm) ctor \<Rightarrow>
       (u64 \<Rightarrow> ('c, 't, 'm) alloc_state \<Rightarrow> ('c, 't, 'm) alloc_state) \<Rightarrow> ('c, 't, 'm) alloc_state \<Rightarrow>
       (u64 \<times> ('c, 't, 'm) alloc_state) option" where
  "MakeGarbageCollected_additional E names F A T additional_bytes ctor post s =
     do { (obj, s1) \<leftarrow> MakeGarbageCollectedTrait_Call_additional E names F A T additional_bytes ctor s;
          Some (obj, post obj s1) }"

section \<open>What a new object is\<close>

text \<open>The library returns an object that is not constructed yet; a constructor leaves the header of its object alone.\<close>

definition allocates :: "('c, 't, 'm) allocate \<Rightarrow> bool" where
  "allocates A \<longleftrightarrow> (\<forall>rq s p s1. A rq s = (p, s1) \<longrightarrow> \<not> fully_constructed s1 p)"

definition constructs :: "('c, 't, 'm) ctor \<Rightarrow> bool" where
  "constructs ctor \<longleftrightarrow> (\<forall>p s s1. ctor p s = Some s1 \<longrightarrow>
     header_fields s1 (construction_field p) = header_fields s (construction_field p))"

lemma construction_mask: "kFullyConstructedBitMask = 0x8000"
  by (simp add: kFullyConstructedBitMask_def push_bit_eq_mult)

lemma mark_constructs:
  "fully_constructed (MarkObjectAsFullyConstructed p s) p"
  "header_fields (MarkObjectAsFullyConstructed p s) =
     (header_fields s)(construction_field p := header_fields s (construction_field p) OR kFullyConstructedBitMask)"
  by (simp_all add: fully_constructed_def MarkObjectAsFullyConstructed_def Let_def word_ao_absorbs construction_mask
      One_nat_def)

lemma Allocate_request:
  assumes "MakeGarbageCollectedTraitBase_Allocate E names F A T sz s = Some (p, s1)"
  obtains rq s0 where "A rq s0 = (p, s1)" "rq_size rq = sz"
    "rq_alignment rq = (if cf_alignof F T \<le> 8 then None else Some (cf_alignof F T))" "cf_alignof F T \<le> 16"
    "rq_space rq = map_option space_index (cf_space F T)"
proof -
  have al: "kWantedAlignment F T = (if cf_alignof F T \<le> 8 then 8 else cf_alignof F T)"
    by (auto simp: kWantedAlignment_def kDefaultAlignment_def)
  have small: "kWantedAlignment F T \<le> 16"
    using assms by (auto simp: MakeGarbageCollectedTraitBase_Allocate_def kMaxSupportedAlignment_def kDefaultAlignment_def
        split: if_splits)
  obtain index g rq where "AllocationDispatcher_request (cf_space F T) (kWantedAlignment F T) index sz = Some rq"
      "A rq (s\<lparr>gc_infos_of := g\<rparr>) = (p, s1)"
    using assms by (auto simp: MakeGarbageCollectedTraitBase_Allocate_def AllocationDispatcher_Invoke_def
        split: if_splits prod.splits bind_splits)
  then show thesis using small
    by (intro that [of rq "s\<lparr>gc_infos_of := g\<rparr>"])
      (auto simp: AllocationDispatcher_request_def al kDefaultAlignment_def split: option.splits if_splits
        elim: order_trans)
qed

text \<open>C31: an object is in construction while its constructor runs and constructed when it is handed out, and nothing
  else in any header is changed.\<close>

theorem made_object_constructed:
  assumes "allocates A" "constructs ctor"
    and "MakeGarbageCollected E names F A T ctor PostConstructionCallbackTrait_Call s = Some (p, s3)"
  shows "\<exists>s1 s2. ctor p s1 = Some s2 \<and> \<not> fully_constructed s1 p \<and> \<not> fully_constructed s2 p \<and> fully_constructed s3 p \<and>
    header_fields s3 = (header_fields s2)(construction_field p := header_fields s2 (construction_field p) OR kFullyConstructedBitMask)"
proof -
  obtain s1 s2 where s: "MakeGarbageCollectedTraitBase_Allocate E names F A T (cf_sizeof F T) s = Some (p, s1)"
    "ctor p s1 = Some s2" "s3 = MarkObjectAsFullyConstructed p s2"
    using assms(3) by (auto simp: MakeGarbageCollected_def MakeGarbageCollectedTrait_Call_def
        PostConstructionCallbackTrait_Call_def split: bind_splits)
  obtain rq s0 where "A rq s0 = (p, s1)" using Allocate_request [OF s(1)] .
  then have "\<not> fully_constructed s1 p" using assms(1) by (auto simp: allocates_def)
  moreover have "fully_constructed s2 p = fully_constructed s1 p"
    using assms(2) s(2) by (simp add: constructs_def fully_constructed_def)
  ultimately show ?thesis using s mark_constructs [of p s2] by blast
qed

text \<open>The memory requested for an object with additional bytes has the alignment of its class, and covers the object
  exactly when the sum of the sizes is below 2^64: the sum is not checked and wraps.\<close>

lemma additional_bytes_size:
  assumes "MakeGarbageCollectedTrait_Call_additional E names F A T additional ctor s = Some (p, s2)"
  shows "\<exists>rq s0 s1. A rq s0 = (p, s1) \<and>
    (cf_sizeof F T \<le> rq_size rq \<longleftrightarrow> unat (cf_sizeof F T) + unat (additional_value additional) < 2 ^ 64) \<and>
    cf_alignof F T \<le> (case rq_alignment rq of None \<Rightarrow> 8 | Some a \<Rightarrow> a)"
proof -
  obtain s1 where "MakeGarbageCollectedTraitBase_Allocate E names F A T (cf_sizeof F T + additional_value additional) s = Some (p, s1)"
    using assms by (auto simp: MakeGarbageCollectedTrait_Call_additional_def split: bind_splits)
  then obtain rq s0 where "A rq s0 = (p, s1)" "rq_size rq = cf_sizeof F T + additional_value additional"
    "rq_alignment rq = (if cf_alignof F T \<le> 8 then None else Some (cf_alignof F T))"
    by (rule Allocate_request)
  then show ?thesis by (intro exI [of _ rq] exI [of _ s0] exI [of _ s1]) (auto simp: no_olen_add_nat)
qed

section \<open>Witnesses\<close>

text \<open>A bump allocator; the constructor writes nothing.\<close>

definition demo_allocate :: "(bool, unit, u64) allocate" where
  "demo_allocate rq s = (other_heap s + 8, s\<lparr>header_fields := (header_fields s)(construction_field (other_heap s + 8) := 7),
     other_heap := other_heap s + 8 + rq_size rq\<rparr>)"

definition demo_alloc_state :: "(bool, unit, u64) alloc_state" where
  "demo_alloc_state = \<lparr>gc_infos_of = demo_infos, header_fields = (\<lambda>a. 0), other_heap = 0x1000\<rparr>"

lemma demo_allocates: "allocates demo_allocate"
  by (auto simp: allocates_def demo_allocate_def fully_constructed_def construction_mask)

theorem made_object_constructed_witness:
  "\<exists>s3. MakeGarbageCollected demo_ensure False demo_facts demo_allocate True (\<lambda>p. Some) PostConstructionCallbackTrait_Call
      demo_alloc_state = Some (0x1008, s3) \<and> header_fields s3 (construction_field 0x1008) = 0x8007"
proof -
  have "\<exists>s3. MakeGarbageCollected demo_ensure False demo_facts demo_allocate True (\<lambda>p. Some) PostConstructionCallbackTrait_Call
      demo_alloc_state = Some (0x1008, s3) \<and> header_fields s3 (construction_field 0x1008) = 7 OR kFullyConstructedBitMask"
    by (simp add: MakeGarbageCollected_def MakeGarbageCollectedTrait_Call_def MakeGarbageCollectedTraitBase_Allocate_def
        AllocationDispatcher_Invoke_def AllocationDispatcher_request_def demo_facts_def kWantedAlignment_def kDefaultAlignment_def
        kMaxSupportedAlignment_def demo_allocate_def demo_alloc_state_def MarkObjectAsFullyConstructed_def Let_def
        PostConstructionCallbackTrait_Call_def split: prod.split)
  then obtain s3 where s3: "MakeGarbageCollected demo_ensure False demo_facts demo_allocate True (\<lambda>p. Some)
      PostConstructionCallbackTrait_Call demo_alloc_state = Some (0x1008, s3)"
    "header_fields s3 (construction_field 0x1008) = 7 OR kFullyConstructedBitMask" by blast
  have "fully_constructed s3 0x1008"
    using made_object_constructed [OF demo_allocates _ s3(1)] by (auto simp: constructs_def)
  with s3 show ?thesis by (intro exI [of _ s3]) (simp add: construction_mask)
qed

end
