(* ===== verification/Cppgc_Mixed.thy ===== *)
theory Cppgc_Mixed
  imports Cppgc_Visitor V8_Platform
begin

text \<open>
  Where members, persistents and raw pointers meet: the remaining constructors and comparisons of \<open>cppgc/member.h\<close>
  and \<open>cppgc/persistent.h\<close>, the checking and location policies of \<open>pointer-policies.h\<close>, and
  \<open>TaggedUncompressedMember\<close> of \<open>tagged-member.h\<close>, which keeps a bit in the alignment of an uncompressed member.
\<close>

unbundle bit_operations_syntax

section \<open>Checking policies\<close>

text \<open>The check itself, \<open>CheckPointerImpl\<close>, is in the library: it aborts or changes the state of the policy.\<close>

type_synonym 'h check_impl = "u64 \<Rightarrow> bool \<Rightarrow> bool \<Rightarrow> 'h \<Rightarrow> 'h option"

definition CheckPointersImplTrampoline_Call ::
    "'h check_impl \<Rightarrow> bool \<Rightarrow> bool \<Rightarrow> bool \<Rightarrow> u64 \<Rightarrow> 'h \<Rightarrow> 'h option" where
  "CheckPointersImplTrampoline_Call CheckPointerImpl complete_type gc_type kCheckOffHeapAssignments ptr policy =
     (if complete_type then CheckPointerImpl ptr gc_type kCheckOffHeapAssignments policy
      else CheckPointerImpl ptr False kCheckOffHeapAssignments policy)"

definition CheckPointer_storage ::
    "'s storage \<Rightarrow> 'h check_impl \<Rightarrow> bool \<Rightarrow> bool \<Rightarrow> bool \<Rightarrow> 's \<Rightarrow> 'h \<Rightarrow> 'h option" where
  "CheckPointer_storage S C complete_type gc_type off_heap pointer policy =
     (if st_IsCleared S pointer \<or> st_IsSentinel S pointer then Some policy
      else CheckPointersImplTrampoline_Call C complete_type gc_type off_heap (st_Load S pointer) policy)"

definition CheckPointer_raw ::
    "bool \<Rightarrow> 'h check_impl \<Rightarrow> bool \<Rightarrow> bool \<Rightarrow> bool \<Rightarrow> u64 \<Rightarrow> 'h \<Rightarrow> 'h option" where
  "CheckPointer_raw larger C complete_type gc_type off_heap ptr policy =
     (if ptr = 0 \<or> kSentinelPointer larger = ptr then Some policy
      else CheckPointersImplTrampoline_Call C complete_type gc_type off_heap ptr policy)"

definition Disabled_CheckPointer :: "'p \<Rightarrow> 'h \<Rightarrow> 'h option" where
  "Disabled_CheckPointer ptr policy = Some policy"

section \<open>Location policies\<close>

record KeepLocationPolicy =
  keep_loc :: SourceLocation

definition Keep_Location :: "KeepLocationPolicy \<Rightarrow> SourceLocation" where "Keep_Location p = keep_loc p"
definition Keep_default :: KeepLocationPolicy where "Keep_default = \<lparr>keep_loc = SourceLocation_default\<rparr>"
definition Keep_new :: "SourceLocation \<Rightarrow> KeepLocationPolicy" where "Keep_new location = \<lparr>keep_loc = location\<rparr>"

text \<open>Moving copies the location, and the source keeps its own.\<close>

definition Keep_move :: "KeepLocationPolicy \<Rightarrow> KeepLocationPolicy \<times> KeepLocationPolicy" where
  "Keep_move other = (other, other)"

definition Ignore_Location :: "unit \<Rightarrow> SourceLocation" where "Ignore_Location p = SourceLocation_default"
definition Ignore_new :: "SourceLocation \<Rightarrow> unit" where "Ignore_new location = ()"

text \<open>\<open>names\<close> is \<open>CPPGC_SUPPORTS_OBJECT_NAMES\<close>: what the default policy answers for a persistent made at \<open>loc\<close>.\<close>

definition DefaultLocationPolicy_Location :: "bool \<Rightarrow> SourceLocation \<Rightarrow> SourceLocation" where
  "DefaultLocationPolicy_Location names loc =
     (if names then Keep_Location (Keep_new loc) else Ignore_Location (Ignore_new loc))"

section \<open>Members from and against persistents\<close>

definition member_new_reference :: "('s, 'e) member_class \<Rightarrow> u64 \<Rightarrow> u64 \<Rightarrow> ('s, 'e) gc_state \<Rightarrow> ('s, 'e) gc_state" where
  "member_new_reference M this raw G = member_new_raw M this raw G"

text \<open>The atomic constructors store into a slot that may hold anything, here \<open>junk\<close>.\<close>

definition member_new_atomic ::
    "('s, 'e) member_class \<Rightarrow> 's \<Rightarrow> u64 \<Rightarrow> u64 \<Rightarrow> ('s, 'e) gc_state \<Rightarrow> ('s, 'e) gc_state" where
  "member_new_atomic M junk this raw G =
     InitializingWriteBarrier M this raw (put_slot this (st_StoreAtomic (mc_storage M) raw junk) G)"

definition member_new_atomic_null :: "('s, 'e) member_class \<Rightarrow> 's \<Rightarrow> u64 \<Rightarrow> ('s, 'e) gc_state \<Rightarrow> ('s, 'e) gc_state" where
  "member_new_atomic_null M junk this G = put_slot this (st_StoreAtomic (mc_storage M) 0 junk) G"

definition member_new_atomic_sentinel ::
    "('s, 'e) member_class \<Rightarrow> 's \<Rightarrow> u64 \<Rightarrow> ('s, 'e) gc_state \<Rightarrow> ('s, 'e) gc_state" where
  "member_new_atomic_sentinel M junk this G =
     put_slot this (st_StoreAtomic (mc_storage M) (kSentinelPointer (larger_cage (mc_build M))) junk) G"

text \<open>\<open>adjust\<close> converts the pointer to the base class.\<close>

definition member_new_persistent ::
    "('s, 'e) member_class \<Rightarrow> (u64 \<Rightarrow> u64) \<Rightarrow> u64 \<Rightarrow> PersistentBase \<Rightarrow> ('s, 'e) gc_state \<Rightarrow> ('s, 'e) gc_state" where
  "member_new_persistent M adjust this p G = member_new_raw M this (adjust (bp_Get p)) G"

definition member_assign_persistent ::
    "('s, 'e) member_class \<Rightarrow> (u64 \<Rightarrow> u64) \<Rightarrow> u64 \<Rightarrow> PersistentBase \<Rightarrow> ('s, 'e) gc_state \<Rightarrow> ('s, 'e) gc_state option" where
  "member_assign_persistent M adjust this other G = member_assign_raw M this (adjust (bp_Get other)) G"

definition bp_new_member ::
    "region_lib \<Rightarrow> ('s, 'e) member_class \<Rightarrow> (u64 \<Rightarrow> u64) \<Rightarrow> addr \<Rightarrow> u64 \<Rightarrow> ('s, 'e) gc_state \<Rightarrow> cppgc_world \<Rightarrow> cppgc_world option" where
  "bp_new_member L M adjust this member G w =
     do { p \<leftarrow> member_Get M member G; bp_new_raw L (larger_cage (mc_build M)) this (adjust p) w }"

definition bp_assign_member ::
    "region_lib \<Rightarrow> ('s, 'e) member_class \<Rightarrow> (u64 \<Rightarrow> u64) \<Rightarrow> addr \<Rightarrow> u64 \<Rightarrow> ('s, 'e) gc_state \<Rightarrow> cppgc_world \<Rightarrow> cppgc_world option" where
  "bp_assign_member L M adjust this member G w =
     do { p \<leftarrow> member_Get M member G; bp_assign_raw L (larger_cage (mc_build M)) this (adjust p) w }"

definition bp_bool :: "PersistentBase \<Rightarrow> bool" where "bp_bool b \<longleftrightarrow> bp_Get b \<noteq> 0"
definition bp_pointer :: "PersistentBase \<Rightarrow> u64" where "bp_pointer b = bp_Get b"
definition bp_GetFromGC :: "PersistentBase \<Rightarrow> u64" where "bp_GetFromGC b = raw_ptr b"

definition bp_eq_member :: "('s, 'e) member_class \<Rightarrow> PersistentBase \<Rightarrow> u64 \<Rightarrow> ('s, 'e) gc_state \<Rightarrow> bool option" where
  "bp_eq_member M p m G = do { q \<leftarrow> member_Get M m G; Some (bp_Get p = q) }"

definition bp_neq_member :: "('s, 'e) member_class \<Rightarrow> PersistentBase \<Rightarrow> u64 \<Rightarrow> ('s, 'e) gc_state \<Rightarrow> bool option" where
  "bp_neq_member M p m G = do { e \<leftarrow> bp_eq_member M p m G; Some (\<not> e) }"

definition member_eq_bp :: "('s, 'e) member_class \<Rightarrow> u64 \<Rightarrow> PersistentBase \<Rightarrow> ('s, 'e) gc_state \<Rightarrow> bool option" where
  "member_eq_bp M m p G = do { q \<leftarrow> member_Get M m G; Some (q = bp_Get p) }"

definition member_neq_bp :: "('s, 'e) member_class \<Rightarrow> u64 \<Rightarrow> PersistentBase \<Rightarrow> ('s, 'e) gc_state \<Rightarrow> bool option" where
  "member_neq_bp M m p G = do { e \<leftarrow> member_eq_bp M m p G; Some (\<not> e) }"

section \<open>The other comparisons of members\<close>

definition member_pointer :: "('s, 'e) member_class \<Rightarrow> u64 \<Rightarrow> ('s, 'e) gc_state \<Rightarrow> u64 option" where
  "member_pointer M this G = member_Get M this G"

definition member_GetAtomic :: "('s, 'e) member_class \<Rightarrow> u64 \<Rightarrow> ('s, 'e) gc_state \<Rightarrow> u64 option" where
  "member_GetAtomic M this G = GetRawAtomic M this G"

definition member_neq_raw ::
    "('s, 'e) member_class \<Rightarrow> (u64 \<Rightarrow> u64) option \<Rightarrow> u64 \<Rightarrow> u64 \<Rightarrow> ('s, 'e) gc_state \<Rightarrow> bool option" where
  "member_neq_raw M cast member raw G = do { e \<leftarrow> member_eq_raw M cast member raw G; Some (\<not> e) }"

definition raw_eq_member ::
    "('s, 'e) member_class \<Rightarrow> (u64 \<Rightarrow> u64) option \<Rightarrow> u64 \<Rightarrow> u64 \<Rightarrow> ('s, 'e) gc_state \<Rightarrow> bool option" where
  "raw_eq_member M cast raw member G = member_eq_raw M cast member raw G"

definition raw_neq_member ::
    "('s, 'e) member_class \<Rightarrow> (u64 \<Rightarrow> u64) option \<Rightarrow> u64 \<Rightarrow> u64 \<Rightarrow> ('s, 'e) gc_state \<Rightarrow> bool option" where
  "raw_neq_member M cast raw member G = do { e \<leftarrow> raw_eq_member M cast raw member G; Some (\<not> e) }"

definition member_neq_sentinel :: "('s, 'e) member_class \<Rightarrow> u64 \<Rightarrow> ('s, 'e) gc_state \<Rightarrow> bool option" where
  "member_neq_sentinel M member G = do { e \<leftarrow> member_eq_sentinel M member G; Some (\<not> e) }"

definition sentinel_eq_member :: "('s, 'e) member_class \<Rightarrow> u64 \<Rightarrow> ('s, 'e) gc_state \<Rightarrow> bool option" where
  "sentinel_eq_member M member G = member_eq_sentinel M member G"

definition sentinel_neq_member :: "('s, 'e) member_class \<Rightarrow> u64 \<Rightarrow> ('s, 'e) gc_state \<Rightarrow> bool option" where
  "sentinel_neq_member M member G = do { e \<leftarrow> sentinel_eq_member M member G; Some (\<not> e) }"

definition member_neq_null :: "('s, 'e) member_class \<Rightarrow> u64 \<Rightarrow> ('s, 'e) gc_state \<Rightarrow> bool option" where
  "member_neq_null M member G = do { e \<leftarrow> member_eq_null M member G; Some (\<not> e) }"

definition null_eq_member :: "('s, 'e) member_class \<Rightarrow> u64 \<Rightarrow> ('s, 'e) gc_state \<Rightarrow> bool option" where
  "null_eq_member M member G = member_eq_null M member G"

definition null_neq_member :: "('s, 'e) member_class \<Rightarrow> u64 \<Rightarrow> ('s, 'e) gc_state \<Rightarrow> bool option" where
  "null_neq_member M member G = do { e \<leftarrow> null_eq_member M member G; Some (\<not> e) }"

section \<open>Tagged members\<close>

datatype member_tag = Tag1 | Tag2

definition kTagBit :: u64 where "kTagBit = 1"

definition Tagged_new1 :: "('s, 'e) member_class \<Rightarrow> u64 \<Rightarrow> u64 \<Rightarrow> ('s, 'e) gc_state \<Rightarrow> ('s, 'e) gc_state" where
  "Tagged_new1 M this ptr G = member_new_raw M this ptr G"

definition Tagged_new2 :: "('s, 'e) member_class \<Rightarrow> u64 \<Rightarrow> u64 \<Rightarrow> ('s, 'e) gc_state \<Rightarrow> ('s, 'e) gc_state" where
  "Tagged_new2 M this ptr G = member_new_raw M this (ptr OR kTagBit) G"

definition GetUntagged :: "('s, 'e) member_class \<Rightarrow> u64 \<Rightarrow> ('s, 'e) gc_state \<Rightarrow> u64 option" where
  "GetUntagged M this G = do { raw \<leftarrow> member_Get M this G; Some (raw AND NOT kTagBit) }"

definition GetAs :: "('s, 'e) member_class \<Rightarrow> member_tag \<Rightarrow> u64 \<Rightarrow> ('s, 'e) gc_state \<Rightarrow> u64 option" where
  "GetAs M Tag this G =
     do { raw \<leftarrow> member_Get M this G; (case Tag of Tag1 \<Rightarrow> Some raw | Tag2 \<Rightarrow> GetUntagged M this G) }"

definition TryGetAs :: "('s, 'e) member_class \<Rightarrow> member_tag \<Rightarrow> u64 \<Rightarrow> ('s, 'e) gc_state \<Rightarrow> u64 option" where
  "TryGetAs M Tag this G =
     do { raw \<leftarrow> member_Get M this G;
          Some (case Tag of
                  Tag1 \<Rightarrow> if raw AND kTagBit \<noteq> 0 then 0 else raw
                | Tag2 \<Rightarrow> if raw AND kTagBit \<noteq> 0 then raw AND NOT kTagBit else 0) }"

definition SetAs :: "('s, 'e) member_class \<Rightarrow> member_tag \<Rightarrow> u64 \<Rightarrow> u64 \<Rightarrow> ('s, 'e) gc_state \<Rightarrow> ('s, 'e) gc_state option" where
  "SetAs M Tag this pointee G =
     (case Tag of Tag1 \<Rightarrow> member_assign_raw M this pointee G | Tag2 \<Rightarrow> member_assign_raw M this (pointee OR kTagBit) G)"

definition IsTagged :: "('s, 'e) member_class \<Rightarrow> member_tag \<Rightarrow> u64 \<Rightarrow> ('s, 'e) gc_state \<Rightarrow> bool option" where
  "IsTagged M Tag this G =
     do { raw \<leftarrow> member_Get M this G;
          let tag_set = (raw AND kTagBit \<noteq> 0);
          Some (case Tag of Tag1 \<Rightarrow> \<not> tag_set | Tag2 \<Rightarrow> tag_set) }"

text \<open>\<open>temp\<close> is the place of the temporary member.\<close>

definition Tagged_Trace ::
    "('s, 'e) member_class \<Rightarrow> 'c trace_lib \<Rightarrow> ('c, 'v) visitor \<Rightarrow> 'c \<Rightarrow> u64 \<Rightarrow> u64 \<Rightarrow> ('s, 'e) gc_state \<Rightarrow> 'v \<Rightarrow> 'v option" where
  "Tagged_Trace M L V Pointee temp this G v =
     do { raw \<leftarrow> GetRawAtomic M this G;
          let untagged = raw AND NOT kTagBit;
          Trace_member M L V Pointee temp (member_new_raw M temp untagged G) v }"

section \<open>What the comparisons compare\<close>

text \<open>The storage compares as the pointers it holds do: the laws of \<open>member_storage\<close> for a class of members.\<close>

definition storage_compares :: "('s, 'e) member_class \<Rightarrow> (u64 \<Rightarrow> bool) \<Rightarrow> bool" where
  "storage_compares M can_hold \<longleftrightarrow>
     (let S = mc_storage M; sentinel = kSentinelPointer (larger_cage (mc_build M)) in
        (\<forall>p. can_hold p \<longrightarrow> st_Load S (st_of_ptr S p) = p \<and> (st_IsCleared S (st_of_ptr S p) \<longleftrightarrow> p = 0) \<and>
           (st_IsSentinel S (st_of_ptr S p) \<longleftrightarrow> p = sentinel)) \<and>
        (\<forall>p q. can_hold p \<longrightarrow> can_hold q \<longrightarrow>
           (st_eq S (st_of_ptr S p) (st_of_ptr S q) \<longleftrightarrow> p = q) \<and> (st_less S (st_of_ptr S p) (st_of_ptr S q) \<longleftrightarrow> p < q) \<and>
           (st_less_eq S (st_of_ptr S p) (st_of_ptr S q) \<longleftrightarrow> p \<le> q) \<and>
           (st_greater S (st_of_ptr S p) (st_of_ptr S q) \<longleftrightarrow> q < p) \<and>
           (st_greater_eq S (st_of_ptr S p) (st_of_ptr S q) \<longleftrightarrow> q \<le> p)))"

lemma raw_compares: "storage_compares \<lparr>mc_lib = L, mc_build = B, mc_storage = raw_storage (larger_cage B), mc_policy = P\<rparr> (\<lambda>_. True)"
  by (simp add: storage_compares_def raw_storage_def Let_def RP_of_ptr_def RP_Load_def RP_IsCleared_def RP_IsSentinel_def
      RP_eq_def RP_less_def RP_less_eq_def RP_greater_def RP_greater_eq_def)

lemma compressed_relations:
  "CP_eq a b \<longleftrightarrow> a = b" "CP_less a b \<longleftrightarrow> a < b" "CP_less_eq a b \<longleftrightarrow> a \<le> b" "CP_greater a b \<longleftrightarrow> b < a"
  "CP_greater_eq a b \<longleftrightarrow> b \<le> a"
  by (auto simp: CP_eq_def less_CompressedPointer_def less_eq_CompressedPointer_def CP_greater_def CP_less_def
      CP_greater_eq_def CP_less_eq_def CompressedPointer.expand)

lemma compressed_compares:
  assumes "base_ok (larger_cage B) base"
  shows "storage_compares \<lparr>mc_lib = L, mc_build = B, mc_storage = compressed_storage (larger_cage B) base, mc_policy = P\<rparr>
    (holdable (larger_cage B) base)"
proof -
  have base: "cage_base_at (larger_cage B) base = base" using assms by (rule cage_base_at_id)
  note laws = compressed.load_store [of "larger_cage B" base, unfolded base]
    compressed.cleared_iff [of "larger_cage B" base, unfolded base] compressed.sentinel_iff [of "larger_cage B" base, unfolded base]
    compressed.store_inj [of "larger_cage B" base, unfolded base] compressed.store_mono [of "larger_cage B" base, unfolded base]
    compressed.le_iff [of "larger_cage B" base, unfolded base]
  show ?thesis by (simp add: storage_compares_def compressed_storage_def Let_def compressed_relations laws)
qed

text \<open>A member that holds a pointer.\<close>

definition holds_ptr :: "('s, 'e) member_class \<Rightarrow> (u64 \<Rightarrow> bool) \<Rightarrow> u64 \<Rightarrow> u64 \<Rightarrow> ('s, 'e) gc_state \<Rightarrow> bool" where
  "holds_ptr M can_hold a p G \<longleftrightarrow> can_hold p \<and> slots G a = Some (st_of_ptr (mc_storage M) p)"

lemmas comparison_defs = member_eq_def member_neq_def member_eq_raw_def member_neq_raw_def raw_eq_member_def raw_neq_member_def
  member_eq_sentinel_def member_neq_sentinel_def sentinel_eq_member_def sentinel_neq_member_def member_eq_null_def
  member_neq_null_def null_eq_member_def null_neq_member_def member_bool_def member_IsCleared_def member_compare_def
  member_less_def member_less_eq_def member_greater_def member_greater_eq_def bp_eq_member_def bp_neq_member_def
  member_eq_bp_def member_neq_bp_def member_Get_def GetRaw_def GetRawStorage_def

lemma holds_ptrD:
  assumes "storage_compares M can_hold" "holds_ptr M can_hold a p G"
  shows "slots G a = Some (st_of_ptr (mc_storage M) p)" "can_hold p" "st_Load (mc_storage M) (st_of_ptr (mc_storage M) p) = p"
    "st_IsCleared (mc_storage M) (st_of_ptr (mc_storage M) p) \<longleftrightarrow> p = 0"
    "st_IsSentinel (mc_storage M) (st_of_ptr (mc_storage M) p) \<longleftrightarrow> p = kSentinelPointer (larger_cage (mc_build M))"
  using assms by (auto simp: storage_compares_def holds_ptr_def Let_def)

lemma relations_exact:
  assumes "storage_compares M can_hold" "can_hold p" "can_hold q"
  shows "st_eq (mc_storage M) (st_of_ptr (mc_storage M) p) (st_of_ptr (mc_storage M) q) \<longleftrightarrow> p = q"
    "st_less (mc_storage M) (st_of_ptr (mc_storage M) p) (st_of_ptr (mc_storage M) q) \<longleftrightarrow> p < q"
    "st_less_eq (mc_storage M) (st_of_ptr (mc_storage M) p) (st_of_ptr (mc_storage M) q) \<longleftrightarrow> p \<le> q"
    "st_greater (mc_storage M) (st_of_ptr (mc_storage M) p) (st_of_ptr (mc_storage M) q) \<longleftrightarrow> q < p"
    "st_greater_eq (mc_storage M) (st_of_ptr (mc_storage M) p) (st_of_ptr (mc_storage M) q) \<longleftrightarrow> q \<le> p"
  using assms by (auto simp: storage_compares_def Let_def)


text \<open>Checking a stored pointer is checking the pointer.\<close>

lemma CheckPointer_storage_eq:
  assumes "storage_compares M can_hold" "can_hold p"
  shows "CheckPointer_storage (mc_storage M) C complete_type gc_type off_heap (st_of_ptr (mc_storage M) p) h =
    CheckPointer_raw (larger_cage (mc_build M)) C complete_type gc_type off_heap p h"
  using assms by (auto simp: storage_compares_def CheckPointer_storage_def CheckPointer_raw_def Let_def)

section \<open>Tagged members are exact\<close>

lemma tagged_pointer_bits:
  assumes "\<not> bit p 0"
  shows "p AND kTagBit = 0" "(p OR kTagBit) AND kTagBit \<noteq> 0" "p AND NOT kTagBit = p" "(p OR kTagBit) AND NOT kTagBit = p"
proof -
  have pos: "bit p n \<Longrightarrow> 0 < n" for n using assms by (cases n) auto
  have one: "bit (1 :: u64) n \<longleftrightarrow> n = 0" for n by (simp add: bit_1_iff)
  show "p AND kTagBit = 0" by (rule bit_word_eqI) (use assms in \<open>auto simp: kTagBit_def bit_simps one dest: pos\<close>)
  show "p AND NOT kTagBit = p" "(p OR kTagBit) AND NOT kTagBit = p"
    by (rule bit_word_eqI; use assms in \<open>auto simp: kTagBit_def bit_simps one intro: pos\<close>)+
  have "bit ((p OR kTagBit) AND kTagBit) 0" by (simp add: kTagBit_def bit_simps)
  then show "(p OR kTagBit) AND kTagBit \<noteq> 0" by auto
qed

lemma assign_raw_slot:
  assumes "mc_storage M = raw_storage larger" "member_assign_raw M a p G = Some G'"
  shows "slots G' = (slots G)(a \<mapsto> RawPointer p)"
  using assms AssigningBarrier_marker
  by (fastforce simp: assign_raw_eq raw_storage_def RP_StoreAtomic_def split: option.splits)


lemma tagged_new:
  "mc_storage M = raw_storage larger \<Longrightarrow> slots (Tagged_new1 M a p G) = (slots G)(a \<mapsto> RawPointer p)"
  "mc_storage M = raw_storage larger \<Longrightarrow> slots (Tagged_new2 M a p G) = (slots G)(a \<mapsto> RawPointer (p OR kTagBit))"
  by (simp_all add: Tagged_new1_def Tagged_new2_def member_new_raw_def raw_storage_def RP_of_ptr_def)

section \<open>Witnesses\<close>

lemma demo_member_compares: "storage_compares demo_member (\<lambda>_. True)"
  using raw_compares [of demo_barriers demo_build DijkstraWriteBarrierPolicy] by (simp add: demo_member_def demo_build_def)



end
