(* ===== verification/V8_Casts.thy ===== *)
theory V8_Casts
  imports V8_Access
begin

text \<open>
  The classes of the V8 interface and the conversions between handles to them: the \<open>Cast\<close> functions that every class
  under \<open>v8::Data\<close> has, \<open>Local<T>::Cast\<close>, \<open>As\<close>, \<open>UnsafeAs\<close>, the converting constructors of locals and maybe-locals, and
  the check of a new local (\<open>TypeCheckLocal\<close>). A \<open>Cast\<close> returns its argument; with \<open>V8_ENABLE_CHECKS\<close> it first calls
  the library's \<open>CheckCast\<close>, which aborts on a value of another class: \<open>None\<close>.
\<close>

section \<open>The classes\<close>

text \<open>A class is its name and its base class.\<close>

datatype api_class = ApiClass string "api_class option"

fun ancestors :: "api_class \<Rightarrow> api_class list" where
  "ancestors (ApiClass n None) = [ApiClass n None]"
| "ancestors (ApiClass n (Some b)) = ApiClass n (Some b) # ancestors b"

text \<open>\<open>std::is_base_of_v<T, S>\<close>.\<close>

definition is_base_of :: "api_class \<Rightarrow> api_class \<Rightarrow> bool" where
  "is_base_of T S \<longleftrightarrow> T \<in> set (ancestors S)"

definition Data_class :: api_class where "Data_class = ApiClass ''Data'' None"
definition Context_class :: api_class where "Context_class = ApiClass ''Context'' (Some Data_class)"
definition CppHeapExternal_class :: api_class where "CppHeapExternal_class = ApiClass ''CppHeapExternal'' (Some Data_class)"
definition FixedArray_class :: api_class where "FixedArray_class = ApiClass ''FixedArray'' (Some Data_class)"
definition Private_class :: api_class where "Private_class = ApiClass ''Private'' (Some Data_class)"
definition PrimitiveArray_class :: api_class where "PrimitiveArray_class = ApiClass ''PrimitiveArray'' (Some Data_class)"
definition UnboundScript_class :: api_class where "UnboundScript_class = ApiClass ''UnboundScript'' (Some Data_class)"
definition UnboundModuleScript_class :: api_class where "UnboundModuleScript_class = ApiClass ''UnboundModuleScript'' (Some Data_class)"
definition ModuleRequest_class :: api_class where "ModuleRequest_class = ApiClass ''ModuleRequest'' (Some Data_class)"
definition Module_class :: api_class where "Module_class = ApiClass ''Module'' (Some Data_class)"
definition CompileHintsCollector_class :: api_class where "CompileHintsCollector_class = ApiClass ''CompileHintsCollector'' (Some Data_class)"
definition Script_class :: api_class where "Script_class = ApiClass ''Script'' (Some Data_class)"
definition Template_class :: api_class where "Template_class = ApiClass ''Template'' (Some Data_class)"
definition DictionaryTemplate_class :: api_class where "DictionaryTemplate_class = ApiClass ''DictionaryTemplate'' (Some Data_class)"
definition Signature_class :: api_class where "Signature_class = ApiClass ''Signature'' (Some Data_class)"
definition Value_class :: api_class where "Value_class = ApiClass ''Value'' (Some Data_class)"
definition External_class :: api_class where "External_class = ApiClass ''External'' (Some Value_class)"
definition Object_class :: api_class where "Object_class = ApiClass ''Object'' (Some Value_class)"
definition Primitive_class :: api_class where "Primitive_class = ApiClass ''Primitive'' (Some Value_class)"
definition FunctionTemplate_class :: api_class where "FunctionTemplate_class = ApiClass ''FunctionTemplate'' (Some Template_class)"
definition ObjectTemplate_class :: api_class where "ObjectTemplate_class = ApiClass ''ObjectTemplate'' (Some Template_class)"
definition ArrayBuffer_class :: api_class where "ArrayBuffer_class = ApiClass ''ArrayBuffer'' (Some Object_class)"
definition ArrayBufferView_class :: api_class where "ArrayBufferView_class = ApiClass ''ArrayBufferView'' (Some Object_class)"
definition SharedArrayBuffer_class :: api_class where "SharedArrayBuffer_class = ApiClass ''SharedArrayBuffer'' (Some Object_class)"
definition Array_class :: api_class where "Array_class = ApiClass ''Array'' (Some Object_class)"
definition Map_class :: api_class where "Map_class = ApiClass ''Map'' (Some Object_class)"
definition Set_class :: api_class where "Set_class = ApiClass ''Set'' (Some Object_class)"
definition Date_class :: api_class where "Date_class = ApiClass ''Date'' (Some Object_class)"
definition Function_class :: api_class where "Function_class = ApiClass ''Function'' (Some Object_class)"
definition NumberObject_class :: api_class where "NumberObject_class = ApiClass ''NumberObject'' (Some Object_class)"
definition BigIntObject_class :: api_class where "BigIntObject_class = ApiClass ''BigIntObject'' (Some Object_class)"
definition BooleanObject_class :: api_class where "BooleanObject_class = ApiClass ''BooleanObject'' (Some Object_class)"
definition StringObject_class :: api_class where "StringObject_class = ApiClass ''StringObject'' (Some Object_class)"
definition SymbolObject_class :: api_class where "SymbolObject_class = ApiClass ''SymbolObject'' (Some Object_class)"
definition Boolean_class :: api_class where "Boolean_class = ApiClass ''Boolean'' (Some Primitive_class)"
definition Name_class :: api_class where "Name_class = ApiClass ''Name'' (Some Primitive_class)"
definition Numeric_class :: api_class where "Numeric_class = ApiClass ''Numeric'' (Some Primitive_class)"
definition Promise_class :: api_class where "Promise_class = ApiClass ''Promise'' (Some Object_class)"
definition Proxy_class :: api_class where "Proxy_class = ApiClass ''Proxy'' (Some Object_class)"
definition RegExp_class :: api_class where "RegExp_class = ApiClass ''RegExp'' (Some Object_class)"
definition WasmMemoryObject_class :: api_class where "WasmMemoryObject_class = ApiClass ''WasmMemoryObject'' (Some Object_class)"
definition WasmModuleObject_class :: api_class where "WasmModuleObject_class = ApiClass ''WasmModuleObject'' (Some Object_class)"
definition WasmMemoryMapDescriptor_class :: api_class where "WasmMemoryMapDescriptor_class = ApiClass ''WasmMemoryMapDescriptor'' (Some Object_class)"
definition DataView_class :: api_class where "DataView_class = ApiClass ''DataView'' (Some ArrayBufferView_class)"
definition String_class :: api_class where "String_class = ApiClass ''String'' (Some Name_class)"
definition Symbol_class :: api_class where "Symbol_class = ApiClass ''Symbol'' (Some Name_class)"
definition Number_class :: api_class where "Number_class = ApiClass ''Number'' (Some Numeric_class)"
definition BigInt_class :: api_class where "BigInt_class = ApiClass ''BigInt'' (Some Numeric_class)"
definition TypedArray_class :: api_class where "TypedArray_class = ApiClass ''TypedArray'' (Some ArrayBufferView_class)"
definition Integer_class :: api_class where "Integer_class = ApiClass ''Integer'' (Some Number_class)"
definition Uint8Array_class :: api_class where "Uint8Array_class = ApiClass ''Uint8Array'' (Some TypedArray_class)"
definition Uint8ClampedArray_class :: api_class where "Uint8ClampedArray_class = ApiClass ''Uint8ClampedArray'' (Some TypedArray_class)"
definition Int8Array_class :: api_class where "Int8Array_class = ApiClass ''Int8Array'' (Some TypedArray_class)"
definition Uint16Array_class :: api_class where "Uint16Array_class = ApiClass ''Uint16Array'' (Some TypedArray_class)"
definition Int16Array_class :: api_class where "Int16Array_class = ApiClass ''Int16Array'' (Some TypedArray_class)"
definition Uint32Array_class :: api_class where "Uint32Array_class = ApiClass ''Uint32Array'' (Some TypedArray_class)"
definition Int32Array_class :: api_class where "Int32Array_class = ApiClass ''Int32Array'' (Some TypedArray_class)"
definition Float16Array_class :: api_class where "Float16Array_class = ApiClass ''Float16Array'' (Some TypedArray_class)"
definition Float32Array_class :: api_class where "Float32Array_class = ApiClass ''Float32Array'' (Some TypedArray_class)"
definition Float64Array_class :: api_class where "Float64Array_class = ApiClass ''Float64Array'' (Some TypedArray_class)"
definition BigInt64Array_class :: api_class where "BigInt64Array_class = ApiClass ''BigInt64Array'' (Some TypedArray_class)"
definition BigUint64Array_class :: api_class where "BigUint64Array_class = ApiClass ''BigUint64Array'' (Some TypedArray_class)"
definition Int32_class :: api_class where "Int32_class = ApiClass ''Int32'' (Some Integer_class)"
definition Uint32_class :: api_class where "Uint32_class = ApiClass ''Uint32'' (Some Integer_class)"
definition Resolver_class :: api_class where "Resolver_class = ApiClass ''Resolver'' (Some Object_class)"

lemmas class_defs =
  Data_class_def Context_class_def CppHeapExternal_class_def FixedArray_class_def Private_class_def
  PrimitiveArray_class_def UnboundScript_class_def UnboundModuleScript_class_def ModuleRequest_class_def
  Module_class_def CompileHintsCollector_class_def Script_class_def Template_class_def DictionaryTemplate_class_def
  Signature_class_def Value_class_def External_class_def Object_class_def Primitive_class_def
  FunctionTemplate_class_def ObjectTemplate_class_def ArrayBuffer_class_def ArrayBufferView_class_def
  SharedArrayBuffer_class_def Array_class_def Map_class_def Set_class_def Date_class_def Function_class_def
  NumberObject_class_def BigIntObject_class_def BooleanObject_class_def StringObject_class_def SymbolObject_class_def
  Boolean_class_def Name_class_def Numeric_class_def Promise_class_def Proxy_class_def RegExp_class_def
  WasmMemoryObject_class_def WasmModuleObject_class_def WasmMemoryMapDescriptor_class_def DataView_class_def
  String_class_def Symbol_class_def Number_class_def BigInt_class_def TypedArray_class_def Integer_class_def
  Uint8Array_class_def Uint8ClampedArray_class_def Int8Array_class_def Uint16Array_class_def Int16Array_class_def
  Uint32Array_class_def Int32Array_class_def Float16Array_class_def Float32Array_class_def Float64Array_class_def
  BigInt64Array_class_def BigUint64Array_class_def Int32_class_def Uint32_class_def Resolver_class_def

section \<open>Casts of pointers\<close>

text \<open>\<open>cast_checks\<close> is \<open>V8_ENABLE_CHECKS\<close>; the other fields are functions of the library on a value in memory.\<close>

record cast_env =
  cast_checks :: bool
  static_roots :: bool
  CheckCast :: "api_class \<Rightarrow> u64 \<Rightarrow> mem \<Rightarrow> bool"
  IsArgumentsObject :: "u64 \<Rightarrow> mem \<Rightarrow> bool"
  IsSharedArrayBuffer :: "u64 \<Rightarrow> mem \<Rightarrow> bool"
  IsInt32 :: "u64 \<Rightarrow> mem \<Rightarrow> bool"
  IsNumber :: "u64 \<Rightarrow> mem \<Rightarrow> bool"

text \<open>The body that the \<open>Cast\<close> functions share.\<close>

definition class_cast :: "cast_env \<Rightarrow> api_class \<Rightarrow> u64 \<Rightarrow> mem \<Rightarrow> u64 option" where
  "class_cast K T data m = (if cast_checks K \<and> \<not> CheckCast K T data m then None else Some data)"

definition Value_Cast :: "cast_env \<Rightarrow> u64 \<Rightarrow> mem \<Rightarrow> u64 option" where
  "Value_Cast K value m = class_cast K Value_class value m"

text \<open>From a class under \<open>Value\<close> there is nothing to check.\<close>

definition Value_Cast_derived :: "u64 \<Rightarrow> u64" where "Value_Cast_derived value = value"

definition Context_Cast :: "cast_env \<Rightarrow> u64 \<Rightarrow> mem \<Rightarrow> u64 option" where
  "Context_Cast K data m = class_cast K Context_class data m"

definition CppHeapExternal_Cast :: "cast_env \<Rightarrow> u64 \<Rightarrow> mem \<Rightarrow> u64 option" where
  "CppHeapExternal_Cast K data m = class_cast K CppHeapExternal_class data m"

definition FixedArray_Cast :: "cast_env \<Rightarrow> u64 \<Rightarrow> mem \<Rightarrow> u64 option" where
  "FixedArray_Cast K data m = class_cast K FixedArray_class data m"

definition Private_Cast :: "cast_env \<Rightarrow> u64 \<Rightarrow> mem \<Rightarrow> u64 option" where
  "Private_Cast K data m = class_cast K Private_class data m"

definition PrimitiveArray_Cast :: "cast_env \<Rightarrow> u64 \<Rightarrow> mem \<Rightarrow> u64 option" where
  "PrimitiveArray_Cast K data m = class_cast K PrimitiveArray_class data m"

definition ModuleRequest_Cast :: "cast_env \<Rightarrow> u64 \<Rightarrow> mem \<Rightarrow> u64 option" where
  "ModuleRequest_Cast K data m = class_cast K ModuleRequest_class data m"

definition Module_Cast :: "cast_env \<Rightarrow> u64 \<Rightarrow> mem \<Rightarrow> u64 option" where
  "Module_Cast K data m = class_cast K Module_class data m"

definition External_Cast :: "cast_env \<Rightarrow> u64 \<Rightarrow> mem \<Rightarrow> u64 option" where
  "External_Cast K value m = class_cast K External_class value m"

definition Object_Cast :: "cast_env \<Rightarrow> u64 \<Rightarrow> mem \<Rightarrow> u64 option" where
  "Object_Cast K value m = class_cast K Object_class value m"

definition ArrayBuffer_Cast :: "cast_env \<Rightarrow> u64 \<Rightarrow> mem \<Rightarrow> u64 option" where
  "ArrayBuffer_Cast K value m = class_cast K ArrayBuffer_class value m"

definition ArrayBufferView_Cast :: "cast_env \<Rightarrow> u64 \<Rightarrow> mem \<Rightarrow> u64 option" where
  "ArrayBufferView_Cast K value m = class_cast K ArrayBufferView_class value m"

definition SharedArrayBuffer_Cast :: "cast_env \<Rightarrow> u64 \<Rightarrow> mem \<Rightarrow> u64 option" where
  "SharedArrayBuffer_Cast K value m = class_cast K SharedArrayBuffer_class value m"

definition Array_Cast :: "cast_env \<Rightarrow> u64 \<Rightarrow> mem \<Rightarrow> u64 option" where
  "Array_Cast K value m = class_cast K Array_class value m"

definition Map_Cast :: "cast_env \<Rightarrow> u64 \<Rightarrow> mem \<Rightarrow> u64 option" where
  "Map_Cast K value m = class_cast K Map_class value m"

definition Set_Cast :: "cast_env \<Rightarrow> u64 \<Rightarrow> mem \<Rightarrow> u64 option" where
  "Set_Cast K value m = class_cast K Set_class value m"

definition Date_Cast :: "cast_env \<Rightarrow> u64 \<Rightarrow> mem \<Rightarrow> u64 option" where
  "Date_Cast K value m = class_cast K Date_class value m"

definition Function_Cast :: "cast_env \<Rightarrow> u64 \<Rightarrow> mem \<Rightarrow> u64 option" where
  "Function_Cast K value m = class_cast K Function_class value m"

definition NumberObject_Cast :: "cast_env \<Rightarrow> u64 \<Rightarrow> mem \<Rightarrow> u64 option" where
  "NumberObject_Cast K value m = class_cast K NumberObject_class value m"

definition BigIntObject_Cast :: "cast_env \<Rightarrow> u64 \<Rightarrow> mem \<Rightarrow> u64 option" where
  "BigIntObject_Cast K value m = class_cast K BigIntObject_class value m"

definition BooleanObject_Cast :: "cast_env \<Rightarrow> u64 \<Rightarrow> mem \<Rightarrow> u64 option" where
  "BooleanObject_Cast K value m = class_cast K BooleanObject_class value m"

definition StringObject_Cast :: "cast_env \<Rightarrow> u64 \<Rightarrow> mem \<Rightarrow> u64 option" where
  "StringObject_Cast K value m = class_cast K StringObject_class value m"

definition SymbolObject_Cast :: "cast_env \<Rightarrow> u64 \<Rightarrow> mem \<Rightarrow> u64 option" where
  "SymbolObject_Cast K value m = class_cast K SymbolObject_class value m"

definition Boolean_Cast :: "cast_env \<Rightarrow> u64 \<Rightarrow> mem \<Rightarrow> u64 option" where
  "Boolean_Cast K data m = class_cast K Boolean_class data m"

definition Name_Cast :: "cast_env \<Rightarrow> u64 \<Rightarrow> mem \<Rightarrow> u64 option" where
  "Name_Cast K data m = class_cast K Name_class data m"

definition Promise_Cast :: "cast_env \<Rightarrow> u64 \<Rightarrow> mem \<Rightarrow> u64 option" where
  "Promise_Cast K value m = class_cast K Promise_class value m"

definition Proxy_Cast :: "cast_env \<Rightarrow> u64 \<Rightarrow> mem \<Rightarrow> u64 option" where
  "Proxy_Cast K value m = class_cast K Proxy_class value m"

definition RegExp_Cast :: "cast_env \<Rightarrow> u64 \<Rightarrow> mem \<Rightarrow> u64 option" where
  "RegExp_Cast K value m = class_cast K RegExp_class value m"

definition WasmMemoryObject_Cast :: "cast_env \<Rightarrow> u64 \<Rightarrow> mem \<Rightarrow> u64 option" where
  "WasmMemoryObject_Cast K value m = class_cast K WasmMemoryObject_class value m"

definition WasmModuleObject_Cast :: "cast_env \<Rightarrow> u64 \<Rightarrow> mem \<Rightarrow> u64 option" where
  "WasmModuleObject_Cast K value m = class_cast K WasmModuleObject_class value m"

definition WasmMemoryMapDescriptor_Cast :: "cast_env \<Rightarrow> u64 \<Rightarrow> mem \<Rightarrow> u64 option" where
  "WasmMemoryMapDescriptor_Cast K value m = class_cast K WasmMemoryMapDescriptor_class value m"

definition DataView_Cast :: "cast_env \<Rightarrow> u64 \<Rightarrow> mem \<Rightarrow> u64 option" where
  "DataView_Cast K value m = class_cast K DataView_class value m"

definition String_Cast :: "cast_env \<Rightarrow> u64 \<Rightarrow> mem \<Rightarrow> u64 option" where
  "String_Cast K data m = class_cast K String_class data m"

definition Symbol_Cast :: "cast_env \<Rightarrow> u64 \<Rightarrow> mem \<Rightarrow> u64 option" where
  "Symbol_Cast K data m = class_cast K Symbol_class data m"

definition Number_Cast :: "cast_env \<Rightarrow> u64 \<Rightarrow> mem \<Rightarrow> u64 option" where
  "Number_Cast K data m = class_cast K Number_class data m"

definition BigInt_Cast :: "cast_env \<Rightarrow> u64 \<Rightarrow> mem \<Rightarrow> u64 option" where
  "BigInt_Cast K data m = class_cast K BigInt_class data m"

definition TypedArray_Cast :: "cast_env \<Rightarrow> u64 \<Rightarrow> mem \<Rightarrow> u64 option" where
  "TypedArray_Cast K value m = class_cast K TypedArray_class value m"

definition Integer_Cast :: "cast_env \<Rightarrow> u64 \<Rightarrow> mem \<Rightarrow> u64 option" where
  "Integer_Cast K data m = class_cast K Integer_class data m"

definition Uint8Array_Cast :: "cast_env \<Rightarrow> u64 \<Rightarrow> mem \<Rightarrow> u64 option" where
  "Uint8Array_Cast K value m = class_cast K Uint8Array_class value m"

definition Uint8ClampedArray_Cast :: "cast_env \<Rightarrow> u64 \<Rightarrow> mem \<Rightarrow> u64 option" where
  "Uint8ClampedArray_Cast K value m = class_cast K Uint8ClampedArray_class value m"

definition Int8Array_Cast :: "cast_env \<Rightarrow> u64 \<Rightarrow> mem \<Rightarrow> u64 option" where
  "Int8Array_Cast K value m = class_cast K Int8Array_class value m"

definition Uint16Array_Cast :: "cast_env \<Rightarrow> u64 \<Rightarrow> mem \<Rightarrow> u64 option" where
  "Uint16Array_Cast K value m = class_cast K Uint16Array_class value m"

definition Int16Array_Cast :: "cast_env \<Rightarrow> u64 \<Rightarrow> mem \<Rightarrow> u64 option" where
  "Int16Array_Cast K value m = class_cast K Int16Array_class value m"

definition Uint32Array_Cast :: "cast_env \<Rightarrow> u64 \<Rightarrow> mem \<Rightarrow> u64 option" where
  "Uint32Array_Cast K value m = class_cast K Uint32Array_class value m"

definition Int32Array_Cast :: "cast_env \<Rightarrow> u64 \<Rightarrow> mem \<Rightarrow> u64 option" where
  "Int32Array_Cast K value m = class_cast K Int32Array_class value m"

definition Float16Array_Cast :: "cast_env \<Rightarrow> u64 \<Rightarrow> mem \<Rightarrow> u64 option" where
  "Float16Array_Cast K value m = class_cast K Float16Array_class value m"

definition Float32Array_Cast :: "cast_env \<Rightarrow> u64 \<Rightarrow> mem \<Rightarrow> u64 option" where
  "Float32Array_Cast K value m = class_cast K Float32Array_class value m"

definition Float64Array_Cast :: "cast_env \<Rightarrow> u64 \<Rightarrow> mem \<Rightarrow> u64 option" where
  "Float64Array_Cast K value m = class_cast K Float64Array_class value m"

definition BigInt64Array_Cast :: "cast_env \<Rightarrow> u64 \<Rightarrow> mem \<Rightarrow> u64 option" where
  "BigInt64Array_Cast K value m = class_cast K BigInt64Array_class value m"

definition BigUint64Array_Cast :: "cast_env \<Rightarrow> u64 \<Rightarrow> mem \<Rightarrow> u64 option" where
  "BigUint64Array_Cast K value m = class_cast K BigUint64Array_class value m"

definition Int32_Cast :: "cast_env \<Rightarrow> u64 \<Rightarrow> mem \<Rightarrow> u64 option" where
  "Int32_Cast K data m = class_cast K Int32_class data m"

definition Uint32_Cast :: "cast_env \<Rightarrow> u64 \<Rightarrow> mem \<Rightarrow> u64 option" where
  "Uint32_Cast K data m = class_cast K Uint32_class data m"

definition Resolver_Cast :: "cast_env \<Rightarrow> u64 \<Rightarrow> mem \<Rightarrow> u64 option" where
  "Resolver_Cast K value m = class_cast K Resolver_class value m"

text \<open>\<open>T::Cast\<close> as templates call it: the one of the class or the one it inherits; \<open>Data\<close> and classes outside the
  hierarchy have none.\<close>

definition PerformCastCheck :: "cast_env \<Rightarrow> api_class \<Rightarrow> u64 \<Rightarrow> mem \<Rightarrow> unit option" where
  "PerformCastCheck K T data m =
     (if is_base_of Data_class T \<and> Data_class \<noteq> T then do { _ \<leftarrow> class_cast K T data m; Some () } else Some ())"

definition CastCheck_Perform :: "cast_env \<Rightarrow> bool \<Rightarrow> api_class \<Rightarrow> u64 \<Rightarrow> mem \<Rightarrow> unit option" where
  "CastCheck_Perform K PerformCheck T data m = (if PerformCheck then do { _ \<leftarrow> class_cast K T data m; Some () } else Some ())"

text \<open>The check of a new local: handles that embedders are known to make are let through.\<close>

definition TypeCheckLocal :: "cast_env \<Rightarrow> api_class \<Rightarrow> u64 \<Rightarrow> mem \<Rightarrow> unit option" where
  "TypeCheckLocal K T value m =
     (if T = Data_class then Some ()
      else if T = Array_class \<and> IsArgumentsObject K value m then Some ()
      else if T = ArrayBuffer_class \<and> IsSharedArrayBuffer K value m then Some ()
      else do { null \<leftarrow> Value_IsNull (static_roots K) value m;
                if T = Object_class \<and> null then Some ()
                else do { str \<leftarrow> Value_IsString (static_roots K) value m;
                          if T = Object_class \<and> str then Some ()
                          else do { undef \<leftarrow> Value_IsUndefined (static_roots K) value m;
                                    if T = Object_class \<and> undef then Some ()
                                    else if T = Uint32_class \<and> IsInt32 K value m then Some ()
                                    else if T = Object_class \<and> IsNumber K value m then Some ()
                                    else do { _ \<leftarrow> class_cast K T value m; Some () } } } })"

section \<open>Conversions of handles\<close>

text \<open>A handle with its static class; the slot is 0 when it is empty. A conversion that does not compile is \<open>None\<close>.\<close>

record typed_local =
  lc_class :: api_class
  lc_slot :: u64

definition LocalBase_new :: "cast_env \<Rightarrow> api_class \<Rightarrow> u64 \<Rightarrow> mem \<Rightarrow> typed_local option" where
  "LocalBase_new K T location m =
     (if cast_checks K \<and> \<not> IndirectHandle_IsEmpty location
      then do { _ \<leftarrow> TypeCheckLocal K T (IndirectHandle_value location) m; Some \<lparr>lc_class = T, lc_slot = location\<rparr> }
      else Some \<lparr>lc_class = T, lc_slot = location\<rparr>)"

definition LocalBase_convert :: "api_class \<Rightarrow> typed_local \<Rightarrow> typed_local" where
  "LocalBase_convert T other = \<lparr>lc_class = T, lc_slot = lc_slot other\<rparr>"

definition Local_convert :: "api_class \<Rightarrow> typed_local \<Rightarrow> typed_local option" where
  "Local_convert T that = (if is_base_of T (lc_class that) then Some (LocalBase_convert T that) else None)"

definition Local_arrow :: "typed_local \<Rightarrow> u64" where "Local_arrow this = IndirectHandle_value (lc_slot this)"
definition Local_deref :: "typed_local \<Rightarrow> u64" where "Local_deref this = Local_arrow this"

definition Local_Cast :: "cast_env \<Rightarrow> api_class \<Rightarrow> typed_local \<Rightarrow> mem \<Rightarrow> typed_local option" where
  "Local_Cast K T that m =
     (if cast_checks K then
        if IndirectHandle_IsEmpty (lc_slot that) then Some \<lparr>lc_class = T, lc_slot = 0\<rparr>
        else do { _ \<leftarrow> class_cast K T (IndirectHandle_value (lc_slot that)) m; Some (LocalBase_convert T that) }
      else Some (LocalBase_convert T that))"

definition Local_As :: "cast_env \<Rightarrow> api_class \<Rightarrow> typed_local \<Rightarrow> mem \<Rightarrow> typed_local option" where
  "Local_As K S this m = Local_Cast K S this m"

definition Local_UnsafeAs :: "api_class \<Rightarrow> typed_local \<Rightarrow> typed_local" where
  "Local_UnsafeAs S this = LocalBase_convert S this"

definition MaybeLocal_new :: "api_class \<Rightarrow> typed_local \<Rightarrow> typed_local option" where
  "MaybeLocal_new T that = Local_convert T that"

definition MaybeLocal_convert :: "api_class \<Rightarrow> typed_local \<Rightarrow> typed_local option" where
  "MaybeLocal_convert T that = Local_convert T that"

definition MaybeLocal_Cast :: "cast_env \<Rightarrow> api_class \<Rightarrow> typed_local \<Rightarrow> mem \<Rightarrow> typed_local option" where
  "MaybeLocal_Cast K T that m = Local_Cast K T that m"

definition MaybeLocal_As :: "cast_env \<Rightarrow> api_class \<Rightarrow> typed_local \<Rightarrow> mem \<Rightarrow> typed_local option" where
  "MaybeLocal_As K S this m = MaybeLocal_Cast K S this m"

text \<open>The deprecated casts of persistents keep the cell; \<open>slot\<close> is the persistent's.\<close>

definition Persistent_Cast :: "cast_env \<Rightarrow> api_class \<Rightarrow> u64 \<Rightarrow> mem \<Rightarrow> u64 option" where
  "Persistent_Cast K T slot m =
     (if cast_checks K \<and> \<not> IndirectHandle_IsEmpty slot
      then do { _ \<leftarrow> class_cast K T (IndirectHandle_value slot) m; Some slot } else Some slot)"

definition Persistent_As :: "cast_env \<Rightarrow> api_class \<Rightarrow> u64 \<Rightarrow> mem \<Rightarrow> u64 option" where
  "Persistent_As K S slot m =
     (if cast_checks K \<and> \<not> IndirectHandle_IsEmpty slot
      then do { _ \<leftarrow> class_cast K S (IndirectHandle_value slot) m; Some slot } else Some slot)"

section \<open>The hierarchy\<close>

lemma ancestors_simps [simp]:
  "ancestors (ApiClass n b) = ApiClass n b # (case b of None \<Rightarrow> [] | Some c \<Rightarrow> ancestors c)"
  by (cases b) simp_all

lemma ancestors_self [simp]: "c \<in> set (ancestors c)"
  by (cases c) simp

lemma ancestors_trans: "b \<in> set (ancestors c) \<Longrightarrow> a \<in> set (ancestors b) \<Longrightarrow> a \<in> set (ancestors c)"
  by (induction c rule: ancestors.induct) auto

lemma ancestors_size: "b \<in> set (ancestors c) \<Longrightarrow> b = c \<or> size b < size c"
  by (induction c rule: ancestors.induct) auto

text \<open>Inheritance is a partial order.\<close>

lemma is_base_of_order:
  "is_base_of c c" "is_base_of a b \<Longrightarrow> is_base_of b c \<Longrightarrow> is_base_of a c" "is_base_of a b \<Longrightarrow> is_base_of b a \<Longrightarrow> a = b"
proof -
  show "is_base_of c c" by (simp add: is_base_of_def)
  show "is_base_of a b \<Longrightarrow> is_base_of b c \<Longrightarrow> is_base_of a c" by (auto simp: is_base_of_def intro: ancestors_trans)
  show "is_base_of a b \<Longrightarrow> is_base_of b a \<Longrightarrow> a = b" by (fastforce simp: is_base_of_def dest: ancestors_size)
qed

text \<open>Every class of the interface is under \<open>Data\<close>.\<close>

definition api_classes :: "api_class list" where
  "api_classes = [
     Data_class, Context_class, CppHeapExternal_class, FixedArray_class, Private_class, PrimitiveArray_class,
     UnboundScript_class, UnboundModuleScript_class, ModuleRequest_class, Module_class, CompileHintsCollector_class,
     Script_class, Template_class, DictionaryTemplate_class, Signature_class, Value_class, External_class,
     Object_class, Primitive_class, FunctionTemplate_class, ObjectTemplate_class, ArrayBuffer_class,
     ArrayBufferView_class, SharedArrayBuffer_class, Array_class, Map_class, Set_class, Date_class, Function_class,
     NumberObject_class, BigIntObject_class, BooleanObject_class, StringObject_class, SymbolObject_class,
     Boolean_class, Name_class, Numeric_class, Promise_class, Proxy_class, RegExp_class, WasmMemoryObject_class,
     WasmModuleObject_class, WasmMemoryMapDescriptor_class, DataView_class, String_class, Symbol_class, Number_class,
     BigInt_class, TypedArray_class, Integer_class, Uint8Array_class, Uint8ClampedArray_class, Int8Array_class,
     Uint16Array_class, Int16Array_class, Uint32Array_class, Int32Array_class, Float16Array_class,
     Float32Array_class, Float64Array_class, BigInt64Array_class, BigUint64Array_class, Int32_class, Uint32_class,
     Resolver_class]"

lemma api_classes_rooted: "\<forall>c \<in> set api_classes. is_base_of Data_class c"
  by (simp add: api_classes_def is_base_of_def class_defs)

section \<open>Handles stay well typed\<close>

text \<open>What the library says of an object: \<open>actual\<close> is its class, and \<open>CheckCast\<close> tests for it.\<close>

definition check_cast_ok :: "cast_env \<Rightarrow> (u64 \<Rightarrow> mem \<Rightarrow> api_class) \<Rightarrow> bool" where
  "check_cast_ok K actual \<longleftrightarrow> (\<forall>T v m. CheckCast K T v m \<longleftrightarrow> is_base_of T (actual v m))"

definition well_typed :: "(u64 \<Rightarrow> mem \<Rightarrow> api_class) \<Rightarrow> typed_local \<Rightarrow> mem \<Rightarrow> bool" where
  "well_typed actual l m \<longleftrightarrow> lc_slot l = 0 \<or> is_base_of (lc_class l) (actual (lc_slot l) m)"

datatype conversion = Upcast api_class | CastTo api_class | AsClass api_class | MaybeUpcast api_class | MaybeCast api_class
  | MaybeAs api_class

primrec convert :: "cast_env \<Rightarrow> mem \<Rightarrow> conversion \<Rightarrow> typed_local \<Rightarrow> typed_local option" where
  "convert K m (Upcast T) l = Local_convert T l"
| "convert K m (CastTo T) l = Local_Cast K T l m"
| "convert K m (AsClass T) l = Local_As K T l m"
| "convert K m (MaybeUpcast T) l = MaybeLocal_convert T l"
| "convert K m (MaybeCast T) l = MaybeLocal_Cast K T l m"
| "convert K m (MaybeAs T) l = MaybeLocal_As K T l m"

fun convert_all :: "cast_env \<Rightarrow> mem \<Rightarrow> conversion list \<Rightarrow> typed_local \<Rightarrow> typed_local option" where
  "convert_all K m [] l = Some l"
| "convert_all K m (c # cs) l = do { l1 \<leftarrow> convert K m c l; convert_all K m cs l1 }"

lemmas conversion_defs = Local_convert_def LocalBase_convert_def Local_Cast_def Local_As_def MaybeLocal_convert_def
  MaybeLocal_Cast_def MaybeLocal_As_def class_cast_def IndirectHandle_IsEmpty_def IndirectHandle_value_def SlotAsValue_def

lemma convert_slot: "convert K m c l = Some l' \<Longrightarrow> lc_slot l' = lc_slot l"
  by (cases c) (auto simp: conversion_defs split: if_splits)

lemma convert_well_typed:
  assumes "cast_checks K" "check_cast_ok K actual" "well_typed actual l m" "convert K m c l = Some l'"
  shows "well_typed actual l' m"
  using assms is_base_of_order(2)
  by (cases c) (auto simp: conversion_defs well_typed_def check_cast_ok_def split: if_splits)


text \<open>Without checks a cast always succeeds, and so does \<open>UnsafeAs\<close> with them: the handle may be of a wrong class.\<close>

lemma unchecked_cast: "\<not> cast_checks K \<Longrightarrow> Local_Cast K T l m = Some \<lparr>lc_class = T, lc_slot = lc_slot l\<rparr>"
  by (simp add: conversion_defs)

lemma UnsafeAs_eq: "Local_UnsafeAs T l = \<lparr>lc_class = T, lc_slot = lc_slot l\<rparr>"
  by (simp add: Local_UnsafeAs_def LocalBase_convert_def)

text \<open>A new local is checked too, but for the five classes with exceptions.\<close>

lemma LocalBase_new_typed:
  assumes "cast_checks K" "check_cast_ok K actual" "LocalBase_new K T location m = Some l"
    "T \<notin> {Data_class, Array_class, ArrayBuffer_class, Object_class, Uint32_class}"
  shows "well_typed actual l m"
  using assms
  by (auto simp: LocalBase_new_def TypeCheckLocal_def well_typed_def check_cast_ok_def class_cast_def IndirectHandle_IsEmpty_def
      IndirectHandle_value_def SlotAsValue_def split: if_splits bind_splits)

text \<open>A conversion to a base class and back is the identity.\<close>

lemma upcast_downcast:
  assumes "check_cast_ok K actual" "well_typed actual l m" "is_base_of T (lc_class l)"
  shows "convert_all K m [Upcast T, CastTo (lc_class l)] l = Some l"
  using assms by (auto simp: conversion_defs well_typed_def check_cast_ok_def)

section \<open>Witness\<close>

text \<open>Every object is a string.\<close>

definition demo_cast_env :: cast_env where
  "demo_cast_env = \<lparr>cast_checks = True, static_roots = True, CheckCast = (\<lambda>T v m. is_base_of T String_class),
     IsArgumentsObject = (\<lambda>v m. False), IsSharedArrayBuffer = (\<lambda>v m. False), IsInt32 = (\<lambda>v m. False),
     IsNumber = (\<lambda>v m. False)\<rparr>"


end
