(* ===== verification/V8_Tracing.thy ===== *)
theory V8_Tracing
  imports V8_Internals
begin

text \<open>
  The tracing classes of \<open>libplatform/v8-tracing.h\<close>: trace events, the chunks of the trace buffer and the configuration.
  A field that the constructor does not initialise is an option, and reading it while it is \<open>None\<close> is undefined. The
  buffers, writers and the controller are abstract or in the library.
\<close>

section \<open>Trace events\<close>

definition kTraceMaxNumArgs :: nat where "kTraceMaxNumArgs = 2"

text \<open>\<open>ArgValue\<close> is a union of eight bytes.\<close>

type_synonym ArgValue = u64

definition as_uint :: "ArgValue \<Rightarrow> u64" where "as_uint v = v"
definition as_int :: "ArgValue \<Rightarrow> int" where "as_int v = sint v"
definition as_pointer :: "ArgValue \<Rightarrow> u64" where "as_pointer v = v"

record TraceObject =
  to_pid :: "u32 option"
  to_tid :: "u32 option"
  to_phase :: "char option"
  to_name :: "u64 option"
  to_scope :: "u64 option"
  to_category_enabled_flag :: "u64 option"
  to_id :: "u64 option"
  to_bind_id :: "u64 option"
  to_num_args :: u32
  to_arg_names :: "u64 option list"
  to_arg_types :: "byte option list"
  to_arg_values :: "ArgValue option list"
  to_arg_convertables :: "u64 list"
  to_parameter_copy_storage :: u64
  to_flags :: "u32 option"
  to_ts :: "u64 option"
  to_tts :: "u64 option"
  to_duration :: "u64 option"
  to_cpu_duration :: "u64 option"

text \<open>The default constructor; the owning pointers to converters are null.\<close>

definition TraceObject_default :: TraceObject where
  "TraceObject_default =
     \<lparr>to_pid = None, to_tid = None, to_phase = None, to_name = None, to_scope = None, to_category_enabled_flag = None,
      to_id = None, to_bind_id = None, to_num_args = 0, to_arg_names = replicate kTraceMaxNumArgs None,
      to_arg_types = replicate kTraceMaxNumArgs None, to_arg_values = replicate kTraceMaxNumArgs None,
      to_arg_convertables = replicate kTraceMaxNumArgs 0, to_parameter_copy_storage = 0, to_flags = None, to_ts = None,
      to_tts = None, to_duration = None, to_cpu_duration = None\<rparr>"

definition TO_pid :: "TraceObject \<Rightarrow> u32 option" where "TO_pid t = to_pid t"
definition TO_tid :: "TraceObject \<Rightarrow> u32 option" where "TO_tid t = to_tid t"
definition TO_phase :: "TraceObject \<Rightarrow> char option" where "TO_phase t = to_phase t"
definition TO_category_enabled_flag :: "TraceObject \<Rightarrow> u64 option" where "TO_category_enabled_flag t = to_category_enabled_flag t"
definition TO_name :: "TraceObject \<Rightarrow> u64 option" where "TO_name t = to_name t"
definition TO_scope :: "TraceObject \<Rightarrow> u64 option" where "TO_scope t = to_scope t"
definition TO_id :: "TraceObject \<Rightarrow> u64 option" where "TO_id t = to_id t"
definition TO_bind_id :: "TraceObject \<Rightarrow> u64 option" where "TO_bind_id t = to_bind_id t"
definition TO_num_args :: "TraceObject \<Rightarrow> u32" where "TO_num_args t = to_num_args t"
definition TO_arg_names :: "TraceObject \<Rightarrow> u64 option list" where "TO_arg_names t = to_arg_names t"
definition TO_arg_types :: "TraceObject \<Rightarrow> byte option list" where "TO_arg_types t = to_arg_types t"
definition TO_arg_values :: "TraceObject \<Rightarrow> ArgValue option list" where "TO_arg_values t = to_arg_values t"
definition TO_arg_convertables :: "TraceObject \<Rightarrow> u64 list" where "TO_arg_convertables t = to_arg_convertables t"
definition TO_flags :: "TraceObject \<Rightarrow> u32 option" where "TO_flags t = to_flags t"
definition TO_ts :: "TraceObject \<Rightarrow> u64 option" where "TO_ts t = to_ts t"
definition TO_tts :: "TraceObject \<Rightarrow> u64 option" where "TO_tts t = to_tts t"
definition TO_duration :: "TraceObject \<Rightarrow> u64 option" where "TO_duration t = to_duration t"
definition TO_cpu_duration :: "TraceObject \<Rightarrow> u64 option" where "TO_cpu_duration t = to_cpu_duration t"

section \<open>Chunks\<close>

definition kChunkSize :: u64 where "kChunkSize = 64"
definition kRingBufferChunks :: u64 where "kRingBufferChunks = 1024"

text \<open>The addresses of the events; an event is at an index below \<open>kChunkSize\<close>.\<close>

record TraceBufferChunk =
  next_free :: u64
  chunk_events :: "TraceObject list"
  chunk_seq :: u32

definition TBC_IsFull :: "TraceBufferChunk \<Rightarrow> bool" where "TBC_IsFull c \<longleftrightarrow> next_free c = kChunkSize"
definition TBC_seq :: "TraceBufferChunk \<Rightarrow> u32" where "TBC_seq c = chunk_seq c"
definition TBC_size :: "TraceBufferChunk \<Rightarrow> u64" where "TBC_size c = next_free c"

definition TBC_GetEventAt :: "TraceBufferChunk \<Rightarrow> u64 \<Rightarrow> TraceObject option" where
  "TBC_GetEventAt c index = (if unat index < length (chunk_events c) then Some (chunk_events c ! unat index) else None)"

text \<open>\<open>Reset\<close> and \<open>AddTraceEvent\<close> are in the library: a chunk starts empty, and an event takes the next free place.\<close>

record chunk_lib =
  chunk_Reset :: "u32 \<Rightarrow> TraceBufferChunk \<Rightarrow> TraceBufferChunk"
  chunk_AddTraceEvent :: "TraceBufferChunk \<Rightarrow> u64 \<times> TraceBufferChunk"

definition chunk_ok :: "TraceBufferChunk \<Rightarrow> bool" where
  "chunk_ok c \<longleftrightarrow> next_free c \<le> kChunkSize \<and> length (chunk_events c) = unat kChunkSize"

definition chunk_lib_ok :: "chunk_lib \<Rightarrow> bool" where
  "chunk_lib_ok L \<longleftrightarrow>
     (\<forall>seq c. next_free (chunk_Reset L seq c) = 0 \<and> chunk_seq (chunk_Reset L seq c) = seq \<and>
        chunk_events (chunk_Reset L seq c) = chunk_events c) \<and>
     (\<forall>c i c'. next_free c < kChunkSize \<longrightarrow> chunk_AddTraceEvent L c = (i, c') \<longrightarrow>
        i = next_free c \<and> next_free c' = next_free c + 1 \<and> chunk_seq c' = chunk_seq c \<and>
        length (chunk_events c') = length (chunk_events c))"

text \<open>What a buffer does with its chunk: it asks for an event while the chunk is not full. The handles it gets.\<close>

primrec fill_chunk :: "chunk_lib \<Rightarrow> nat \<Rightarrow> TraceBufferChunk \<Rightarrow> u64 list \<times> TraceBufferChunk" where
  "fill_chunk L 0 c = ([], c)"
| "fill_chunk L (Suc n) c =
     (if TBC_IsFull c then ([], c)
      else let (i, c1) = chunk_AddTraceEvent L c; (is, c2) = fill_chunk L n c1 in (i # is, c2))"

section \<open>The configuration\<close>

datatype TraceRecordMode = RECORD_UNTIL_FULL | RECORD_CONTINUOUSLY | RECORD_AS_MUCH_AS_POSSIBLE | ECHO_TO_CONSOLE

record TraceConfig =
  record_mode :: "TraceRecordMode option"
  enable_systrace :: bool
  enable_argument_filter :: bool
  included_categories :: "string list"

definition TraceConfig_new :: TraceConfig where
  "TraceConfig_new = \<lparr>record_mode = None, enable_systrace = False, enable_argument_filter = False, included_categories = []\<rparr>"

definition GetTraceRecordMode :: "TraceConfig \<Rightarrow> TraceRecordMode option" where "GetTraceRecordMode c = record_mode c"
definition GetEnabledCategories :: "TraceConfig \<Rightarrow> string list" where "GetEnabledCategories c = included_categories c"
definition IsSystraceEnabled :: "TraceConfig \<Rightarrow> bool" where "IsSystraceEnabled c = enable_systrace c"
definition IsArgumentFilterEnabled :: "TraceConfig \<Rightarrow> bool" where "IsArgumentFilterEnabled c = enable_argument_filter c"
definition SetTraceRecordMode :: "TraceRecordMode \<Rightarrow> TraceConfig \<Rightarrow> TraceConfig" where
  "SetTraceRecordMode mode c = c\<lparr>record_mode := Some mode\<rparr>"
definition EnableSystrace :: "TraceConfig \<Rightarrow> TraceConfig" where "EnableSystrace c = c\<lparr>enable_systrace := True\<rparr>"
definition EnableArgumentFilter :: "TraceConfig \<Rightarrow> TraceConfig" where
  "EnableArgumentFilter c = c\<lparr>enable_argument_filter := True\<rparr>"

text \<open>Why the pointer to a category is enabled.\<close>

definition ENABLED_FOR_RECORDING :: byte where "ENABLED_FOR_RECORDING = push_bit 0 1"
definition ENABLED_FOR_EVENT_CALLBACK :: byte where "ENABLED_FOR_EVENT_CALLBACK = push_bit 2 1"
definition ENABLED_FOR_ETW_EXPORT :: byte where "ENABLED_FOR_ETW_EXPORT = push_bit 3 1"

section \<open>Properties\<close>

lemma chunk_nat:
  "chunk_ok c \<longleftrightarrow> unat (next_free c) \<le> 64 \<and> length (chunk_events c) = 64"
  "TBC_IsFull c \<longleftrightarrow> unat (next_free c) = 64" "next_free c < kChunkSize \<longleftrightarrow> unat (next_free c) < 64"
  by (simp_all add: chunk_ok_def kChunkSize_def TBC_IsFull_def word_le_nat_alt word_less_nat_alt word_unat_eq_iff)

lemma add_event:
  assumes "chunk_lib_ok L" "unat (next_free c) < 64" "chunk_AddTraceEvent L c = (i, c1)"
  shows "i = next_free c" "unat (next_free c1) = Suc (unat (next_free c))" "chunk_seq c1 = chunk_seq c"
    "length (chunk_events c1) = length (chunk_events c)"
proof -
  have step: "i = next_free c \<and> next_free c1 = next_free c + 1 \<and> chunk_seq c1 = chunk_seq c \<and>
      length (chunk_events c1) = length (chunk_events c)"
    using assms(1,3) chunk_nat(3) [of c] assms(2) unfolding chunk_lib_ok_def by blast
  have "unat (next_free c + 1) = Suc (unat (next_free c))" 
    using assms(2) by (subst unat_add_lem [THEN iffD1]) (simp_all add: One_nat_def)
  with step show "i = next_free c" "unat (next_free c1) = Suc (unat (next_free c))" "chunk_seq c1 = chunk_seq c"
    "length (chunk_events c1) = length (chunk_events c)" by simp_all
qed

text \<open>A chunk hands out its places in order, each once, and is full after 64.\<close>

lemma fill_chunk_exact:
  assumes "chunk_lib_ok L" "chunk_ok c" "fill_chunk L n c = (is, c')"
  shows "chunk_ok c' \<and> map unat is = [unat (next_free c)..<unat (next_free c')] \<and>
    unat (next_free c') = min (unat (next_free c) + n) 64 \<and> chunk_seq c' = chunk_seq c"
  using assms(2,3)
proof (induction n arbitrary: c "is")
  case 0
  then show ?case by (auto simp: chunk_nat)
next
  case (Suc n)
  show ?case
  proof (cases "TBC_IsFull c")
    case True
    then show ?thesis using Suc.prems by (auto simp: chunk_nat)
  next
    case False
    obtain i c1 is2 where c1: "chunk_AddTraceEvent L c = (i, c1)" "fill_chunk L n c1 = (is2, c')" "is = i # is2"
      using Suc.prems(2) False by (auto split: prod.splits)
    have lt: "unat (next_free c) < 64" using False Suc.prems(1) by (simp add: chunk_nat)
    note step = add_event [OF assms(1) lt c1(1)]
    have "chunk_ok c1" using Suc.prems(1) step(2,4) lt by (simp add: chunk_nat)
    note ih = Suc.IH [OF this c1(2)]
    have "[unat (next_free c)..<unat (next_free c')] = unat (next_free c) # [unat (next_free c1)..<unat (next_free c')]"
      using ih step(2) lt by (subst upt_conv_Cons) auto
    then show ?thesis using ih c1(3) step lt by auto
  qed
qed

text \<open>The calls on a configuration.\<close>

datatype config_call = CallMode TraceRecordMode | CallSystrace | CallFilter

primrec run_config :: "config_call \<Rightarrow> TraceConfig \<Rightarrow> TraceConfig" where
  "run_config (CallMode mode) c = SetTraceRecordMode mode c"
| "run_config CallSystrace c = EnableSystrace c"
| "run_config CallFilter c = EnableArgumentFilter c"

definition mode_of :: "config_call \<Rightarrow> TraceRecordMode option" where
  "mode_of call = (case call of CallMode mode \<Rightarrow> Some mode | _ \<Rightarrow> None)"

lemma run_config_simps [simp]:
  "record_mode (run_config call c) = (case mode_of call of None \<Rightarrow> record_mode c | Some mode \<Rightarrow> Some mode)"
  "enable_systrace (run_config call c) \<longleftrightarrow> call = CallSystrace \<or> enable_systrace c"
  "enable_argument_filter (run_config call c) \<longleftrightarrow> call = CallFilter \<or> enable_argument_filter c"
  by (cases call; simp add: SetTraceRecordMode_def EnableSystrace_def EnableArgumentFilter_def mode_of_def)+

text \<open>The flags of a configuration are those that were enabled, but its record mode is read without ever having been
  written unless \<open>SetTraceRecordMode\<close> was called: the constructor leaves it out. After a call it is the last mode set.\<close>

lemma record_mode_uninitialised:
  "IsSystraceEnabled (fold run_config calls TraceConfig_new) = (CallSystrace \<in> set calls) \<and>
   IsArgumentFilterEnabled (fold run_config calls TraceConfig_new) = (CallFilter \<in> set calls) \<and>
   GetTraceRecordMode (fold run_config calls TraceConfig_new) =
     (let modes = List.map_filter mode_of calls in if modes = [] then None else Some (last modes))"
proof -
  have flags: "enable_systrace (fold run_config calls c) \<longleftrightarrow> CallSystrace \<in> set calls \<or> enable_systrace c"
    "enable_argument_filter (fold run_config calls c) \<longleftrightarrow> CallFilter \<in> set calls \<or> enable_argument_filter c" for c
    by (induction calls arbitrary: c) auto
  have mode: "record_mode (fold run_config calls c) =
      (if List.map_filter mode_of calls = [] then record_mode c else Some (last (List.map_filter mode_of calls)))" for c
    by (induction calls arbitrary: c) (auto split: option.split)
  show ?thesis
    unfolding IsSystraceEnabled_def IsArgumentFilterEnabled_def GetTraceRecordMode_def flags mode
    by (simp add: TraceConfig_new_def Let_def)
qed

text \<open>The reasons are different bits.\<close>

lemma category_flags_distinct:
  "distinct [ENABLED_FOR_RECORDING, ENABLED_FOR_EVENT_CALLBACK, ENABLED_FOR_ETW_EXPORT]"
  "0 \<notin> {ENABLED_FOR_RECORDING, ENABLED_FOR_EVENT_CALLBACK, ENABLED_FOR_ETW_EXPORT}"
  by (auto simp: ENABLED_FOR_RECORDING_def ENABLED_FOR_EVENT_CALLBACK_def ENABLED_FOR_ETW_EXPORT_def push_bit_eq_mult
      One_nat_def)

end
