(* ===== verification/V8_Primitive.thy ===== *)
theory V8_Primitive
  imports V8_Access
begin

text \<open>
  Primitive values of \<open>v8-primitive.h\<close>: how numbers and literals are passed to the library, the base classes of external
  strings, and the views of strings. The virtual functions of a resource are the fields of a record; an embedder
  overrides some of them.
\<close>

section \<open>Strings\<close>

definition kMaxLength :: int where
  "kMaxLength = (if kApiSystemPointerSize = 4 then 2 ^ 28 - 16 else 2 ^ 29 - 24)"

definition UNKNOWN_ENCODING :: u32 where "UNKNOWN_ENCODING = 0x1"
definition TWO_BYTE_ENCODING :: u32 where "TWO_BYTE_ENCODING = 0x0"
definition ONE_BYTE_ENCODING :: u32 where "ONE_BYTE_ENCODING = 0x8"

definition WriteFlags_kNone :: u32 where "WriteFlags_kNone = 0"
definition WriteFlags_kNullTerminate :: u32 where "WriteFlags_kNullTerminate = 1"
definition WriteFlags_kReplaceInvalidUtf8 :: u32 where "WriteFlags_kReplaceInvalidUtf8 = 2"

text \<open>The library's function takes the characters and their number. A literal is an array of \<open>N\<close> characters; the
  specialisation for one character is the empty string.\<close>

type_synonym 's new_literal = "string \<Rightarrow> bool \<Rightarrow> int \<Rightarrow> 's \<Rightarrow> u64 \<times> 's"

definition NewFromUtf8Literal :: "'s new_literal \<Rightarrow> u64 \<Rightarrow> string \<Rightarrow> bool \<Rightarrow> 's \<Rightarrow> (u64 \<times> 's) option" where
  "NewFromUtf8Literal L isolate literal internalized s =
     (let N = int (length literal) in
      if N = 1 then Some (String_Empty_local isolate, s)
      else if N = 0 \<or> kMaxLength < N then None
      else Some (L literal internalized (N - 1) s))"

section \<open>Numbers\<close>

text \<open>Integers of at most 32 bits take the fast path; a wider one has no overload of this kind.\<close>

record 's number_lib =
  NewFromInt32 :: "32 word \<Rightarrow> 's \<Rightarrow> u64 \<times> 's"
  NewFromUint32 :: "u32 \<Rightarrow> 's \<Rightarrow> u64 \<times> 's"

definition Number_New_signed :: "'s number_lib \<Rightarrow> 'a::len word \<Rightarrow> 's \<Rightarrow> (u64 \<times> 's) option" where
  "Number_New_signed L value s = (if LENGTH('a) \<le> 32 then Some (NewFromInt32 L (scast value) s) else None)"

definition Number_New_unsigned :: "'s number_lib \<Rightarrow> 'a::len word \<Rightarrow> 's \<Rightarrow> (u64 \<times> 's) option" where
  "Number_New_unsigned L value s = (if LENGTH('a) \<le> 32 then Some (NewFromUint32 L (ucast value) s) else None)"

section \<open>External strings\<close>

definition kDefaultMemoryEstimate :: u64 where "kDefaultMemoryEstimate = - 1"

text \<open>\<open>'r\<close> is the state of the resource, \<open>'u\<close> of a recorder of memory usage; a disposed resource is \<open>None\<close>.\<close>

record ('r, 'u) ExternalStringResourceBase =
  IsCacheable :: "'r \<Rightarrow> bool"
  Unaccount :: "u64 \<Rightarrow> 'r \<Rightarrow> 'r"
  EstimateMemoryUsage :: "'r \<Rightarrow> u64"
  EstimateSharedMemoryUsage :: "(u64 \<Rightarrow> u64 \<Rightarrow> 'u \<Rightarrow> 'u) \<Rightarrow> 'r \<Rightarrow> 'u \<Rightarrow> 'u"
  DisposeResource :: "'r option \<Rightarrow> 'r option"
  Lock :: "'r \<Rightarrow> 'r"
  Unlock :: "'r \<Rightarrow> 'r"

definition ExternalStringResourceBase_base :: "('r, 'u) ExternalStringResourceBase" where
  "ExternalStringResourceBase_base =
     \<lparr>IsCacheable = (\<lambda>r. True), Unaccount = (\<lambda>isolate r. r), EstimateMemoryUsage = (\<lambda>r. kDefaultMemoryEstimate),
      EstimateSharedMemoryUsage = (\<lambda>recorder r u. u), DisposeResource = (\<lambda>r. None), Lock = (\<lambda>r. r), Unlock = (\<lambda>r. r)\<rparr>"

text \<open>The cached pointer of a resource: null until the library's \<open>UpdateDataCache\<close> stores \<open>data()\<close> there.\<close>

record ExternalStringResource =
  cached_ptr :: u64

definition ExternalStringResource_new :: ExternalStringResource where "ExternalStringResource_new = \<lparr>cached_ptr = 0\<rparr>"

text \<open>\<open>ok\<close> is the library's \<open>CheckCachedDataInvariants\<close>, which aborts.\<close>

definition two_byte_cached_data :: "(ExternalStringResource \<Rightarrow> bool) \<Rightarrow> ExternalStringResource \<Rightarrow> u64 option" where
  "two_byte_cached_data ok r = (if ok r then Some (cached_ptr r) else None)"

definition one_byte_cached_data :: "(ExternalStringResource \<Rightarrow> bool) \<Rightarrow> ExternalStringResource \<Rightarrow> u64 option" where
  "one_byte_cached_data ok r = (if ok r then Some (cached_ptr r) else None)"

record 's ExternalResourceVisitor =
  VisitExternalString :: "u64 \<Rightarrow> 's \<Rightarrow> 's"

definition ExternalResourceVisitor_base :: "'s ExternalResourceVisitor" where
  "ExternalResourceVisitor_base = \<lparr>VisitExternalString = (\<lambda>string s. s)\<rparr>"

section \<open>Values and views\<close>

record Utf8Value =
  utf8_str :: u64
  utf8_length :: u64

definition Utf8Value_deref :: "Utf8Value \<Rightarrow> u64" where "Utf8Value_deref v = utf8_str v"
definition Utf8Value_const_deref :: "Utf8Value \<Rightarrow> u64" where "Utf8Value_const_deref v = utf8_str v"
definition Utf8Value_length :: "Utf8Value \<Rightarrow> u64" where "Utf8Value_length v = utf8_length v"

record StringValue =
  value_str :: u64
  value_length :: u32

definition StringValue_deref :: "StringValue \<Rightarrow> u64" where "StringValue_deref v = value_str v"
definition StringValue_const_deref :: "StringValue \<Rightarrow> u64" where "StringValue_const_deref v = value_str v"
definition StringValue_length :: "StringValue \<Rightarrow> u32" where "StringValue_length v = value_length v"

text \<open>A view has one pointer for both widths. With checks, asking for the wrong width aborts.\<close>

record ValueView =
  flat_str :: u64
  view_data :: u64
  view_length :: u32
  view_one_byte :: bool

definition ValueView_data8 :: "bool \<Rightarrow> ValueView \<Rightarrow> u64 option" where
  "ValueView_data8 checks v = (if checks \<and> view_one_byte v \<noteq> True then None else Some (view_data v))"

definition ValueView_data16 :: "bool \<Rightarrow> ValueView \<Rightarrow> u64 option" where
  "ValueView_data16 checks v = (if checks \<and> view_one_byte v \<noteq> False then None else Some (view_data v))"

definition ValueView_length :: "ValueView \<Rightarrow> u32" where "ValueView_length v = view_length v"
definition ValueView_is_one_byte :: "ValueView \<Rightarrow> bool" where "ValueView_is_one_byte v = view_one_byte v"

text \<open>The bytes of a view.\<close>

definition view_bytes :: "ValueView \<Rightarrow> nat" where
  "view_bytes v = (if view_one_byte v then 1 else 2) * unat (view_length v)"

section \<open>Properties\<close>

text \<open>An integer of any type of at most 32 bits arrives in V8 as the number it is, signed types through
  \<open>NewFromInt32\<close> and unsigned through \<open>NewFromUint32\<close>, and no wider type is accepted.\<close>

lemma number_new_exact:
  "(LENGTH('a::len) \<le> 32 \<longrightarrow> (\<exists>n. Number_New_signed L (x :: 'a word) s = Some (NewFromInt32 L n s) \<and> sint n = sint x)) \<and>
   (LENGTH('b::len) \<le> 32 \<longrightarrow> (\<exists>n. Number_New_unsigned L (y :: 'b word) s = Some (NewFromUint32 L n s) \<and> uint n = uint y)) \<and>
   (32 < LENGTH('a) \<longrightarrow> Number_New_signed L x s = None) \<and> (32 < LENGTH('b) \<longrightarrow> Number_New_unsigned L y s = None)"
proof -
  have "sint (scast x :: 32 word) = sint x" if "LENGTH('a) \<le> 32"
    using that by (intro sint_up_scast) (simp add: is_up)
  moreover have "uint (ucast y :: 32 word) = uint y" if "LENGTH('b) \<le> 32"
    using that by (intro uint_up_ucast) (simp add: is_up)
  ultimately show ?thesis by (auto simp: Number_New_signed_def Number_New_unsigned_def)
qed

text \<open>A literal is passed with all its characters but the last, so also those after a NUL.\<close>

lemma literal_exact:
  assumes "literal \<noteq> []" "int (length literal) < kMaxLength"
  shows "NewFromUtf8Literal L isolate (literal @ [CHR 0x00]) internalized s =
    Some (L (literal @ [CHR 0x00]) internalized (int (length literal)) s)"
  using assms by (simp add: NewFromUtf8Literal_def Let_def)

lemma empty_literal: "NewFromUtf8Literal L isolate [c] internalized s = Some (String_Empty_local isolate, s)"
  by (simp add: NewFromUtf8Literal_def)

text \<open>With checks, exactly one of the two pointers of a view can be asked for.\<close>

lemma view_pointer_exact:
  "ValueView_data8 True v \<noteq> None \<longleftrightarrow> ValueView_is_one_byte v" "ValueView_data16 True v \<noteq> None \<longleftrightarrow> \<not> ValueView_is_one_byte v"
  by (simp_all add: ValueView_data8_def ValueView_data16_def ValueView_is_one_byte_def)

section \<open>Witness\<close>

definition demo_numbers :: "int list number_lib" where
  "demo_numbers = \<lparr>NewFromInt32 = (\<lambda>n s. (0, sint n # s)), NewFromUint32 = (\<lambda>n s. (0, uint n # s))\<rparr>"

end
