(* ===== verification/V8_Inspector.thy ===== *)
theory V8_Inspector
  imports V8_Scopes
begin

text \<open>
  The records that \<open>v8-inspector.h\<close> passes between the inspector and its client, and the client. A client is its
  overrides of the virtual functions: a function that is not overridden does what its body in the header does, and that
  body calls other functions of the same client. \<open>'s\<close> is the state of the embedder; handles are slots, owned strings
  are views of their text, null is \<open>None\<close>.
\<close>

section \<open>Strings\<close>

record StringView =
  m_is8Bit :: bool
  m_length :: u64
  m_characters :: u64

definition StringView_default :: StringView where
  "StringView_default = \<lparr>m_is8Bit = True, m_length = 0, m_characters = 0\<rparr>"

definition StringView_8 :: "u64 \<Rightarrow> u64 \<Rightarrow> StringView" where
  "StringView_8 characters len = \<lparr>m_is8Bit = True, m_length = len, m_characters = characters\<rparr>"

definition StringView_16 :: "u64 \<Rightarrow> u64 \<Rightarrow> StringView" where
  "StringView_16 characters len = \<lparr>m_is8Bit = False, m_length = len, m_characters = characters\<rparr>"

definition is8Bit :: "StringView \<Rightarrow> bool" where "is8Bit v = m_is8Bit v"
definition view_size :: "StringView \<Rightarrow> u64" where "view_size v = m_length v"
definition characters8 :: "StringView \<Rightarrow> u64" where "characters8 v = m_characters v"
definition characters16 :: "StringView \<Rightarrow> u64" where "characters16 v = m_characters v"

section \<open>Records\<close>

record V8ContextInfo =
  info_context :: u64
  contextGroupId :: int
  humanReadableName :: StringView
  info_origin :: StringView
  auxData :: StringView
  hasMemoryOnConsole :: bool

definition V8ContextInfo_new :: "u64 \<Rightarrow> int \<Rightarrow> StringView \<Rightarrow> V8ContextInfo" where
  "V8ContextInfo_new ctx grp name =
     \<lparr>info_context = ctx, contextGroupId = grp, humanReadableName = name, info_origin = StringView_default,
      auxData = StringView_default, hasMemoryOnConsole = False\<rparr>"

record V8DebuggerId =
  m_first :: "64 word"
  m_second :: "64 word"

definition V8DebuggerId_default :: V8DebuggerId where "V8DebuggerId_default = \<lparr>m_first = 0, m_second = 0\<rparr>"

record V8StackFrame =
  frame_sourceURL :: StringView
  frame_functionName :: StringView
  frame_lineNumber :: int
  frame_columnNumber :: int
  frame_scriptId :: int

datatype ResultType = kNotRun | kSuccess | kException

record EvaluateResult =
  result_type :: ResultType
  result_value :: u64

record DeepSerializedValue =
  serialized_type :: "StringView option"
  serialized_value :: u64

definition DeepSerializedValue_new :: "StringView option \<Rightarrow> u64 option \<Rightarrow> DeepSerializedValue" where
  "DeepSerializedValue_new type value =
     \<lparr>serialized_type = type, serialized_value = (case value of None \<Rightarrow> 0 | Some v \<Rightarrow> v)\<rparr>"

record DeepSerializationResult =
  serializedValue :: "DeepSerializedValue option"
  errorMessage :: "StringView option"
  isSuccess :: bool

definition DeepSerializationResult_value :: "DeepSerializedValue option \<Rightarrow> DeepSerializationResult" where
  "DeepSerializationResult_value v = \<lparr>serializedValue = v, errorMessage = None, isSuccess = True\<rparr>"

definition DeepSerializationResult_error :: "StringView option \<Rightarrow> DeepSerializationResult" where
  "DeepSerializationResult_error message = \<lparr>serializedValue = None, errorMessage = message, isSuccess = False\<rparr>"

record V8StackTraceId =
  trace_id :: u64
  debugger_id :: "64 word \<times> 64 word"
  should_pause :: bool

datatype ClientTrustLevel = kUntrusted | kFullyTrusted
datatype SessionPauseState = kWaitingForDebugger | kNotWaitingForDebugger

section \<open>The client\<close>

record 's V8InspectorClient =
  ov_runMessageLoopOnPause :: "(int \<Rightarrow> 's \<Rightarrow> 's) option"
  ov_runMessageLoopOnInstrumentationPause :: "(int \<Rightarrow> 's \<Rightarrow> 's) option"
  ov_quitMessageLoopOnPause :: "('s \<Rightarrow> 's) option"
  ov_runIfWaitingForDebugger :: "(int \<Rightarrow> 's \<Rightarrow> 's) option"
  ov_muteMetrics :: "(int \<Rightarrow> 's \<Rightarrow> 's) option"
  ov_unmuteMetrics :: "(int \<Rightarrow> 's \<Rightarrow> 's) option"
  ov_beginUserGesture :: "('s \<Rightarrow> 's) option"
  ov_endUserGesture :: "('s \<Rightarrow> 's) option"
  ov_deepSerialize :: "(u64 \<Rightarrow> int \<Rightarrow> u64 \<Rightarrow> 's \<Rightarrow> DeepSerializationResult option \<times> 's) option"
  ov_valueSubtype :: "(u64 \<Rightarrow> 's \<Rightarrow> StringView option \<times> 's) option"
  ov_descriptionForValueSubtype :: "(u64 \<Rightarrow> u64 \<Rightarrow> 's \<Rightarrow> StringView option \<times> 's) option"
  ov_isInspectableHeapObject :: "(u64 \<Rightarrow> 's \<Rightarrow> bool \<times> 's) option"
  ov_ensureDefaultContextInGroup :: "(int \<Rightarrow> 's \<Rightarrow> u64 \<times> 's) option"
  ov_beginEnsureAllContextsInGroup :: "(int \<Rightarrow> 's \<Rightarrow> 's) option"
  ov_endEnsureAllContextsInGroup :: "(int \<Rightarrow> 's \<Rightarrow> 's) option"
  ov_installAdditionalCommandLineAPI :: "(u64 \<Rightarrow> u64 \<Rightarrow> 's \<Rightarrow> 's) option"
  ov_consoleAPIMessage :: "(int \<Rightarrow> u32 \<Rightarrow> StringView \<Rightarrow> StringView \<Rightarrow> u32 \<Rightarrow> u32 \<Rightarrow> u64 \<Rightarrow> 's \<Rightarrow> 's) option"
  ov_consoleAPIMessage_context :: "(int \<Rightarrow> int \<Rightarrow> u32 \<Rightarrow> StringView \<Rightarrow> StringView \<Rightarrow> u32 \<Rightarrow> u32 \<Rightarrow> u64 \<Rightarrow> 's \<Rightarrow> 's) option"
  ov_memoryInfo :: "(u64 \<Rightarrow> u64 \<Rightarrow> 's \<Rightarrow> u64 \<times> 's) option"
  ov_consoleTime :: "(u64 \<Rightarrow> u64 \<Rightarrow> 's \<Rightarrow> 's) option"
  ov_consoleTimeEnd :: "(u64 \<Rightarrow> u64 \<Rightarrow> 's \<Rightarrow> 's) option"
  ov_consoleTimeStamp :: "(u64 \<Rightarrow> u64 \<Rightarrow> 's \<Rightarrow> 's) option"
  ov_consoleTimeStampWithArgs :: "(u64 \<Rightarrow> u64 \<Rightarrow> local_vector \<Rightarrow> 's \<Rightarrow> 's) option"
  ov_consoleClear :: "(int \<Rightarrow> 's \<Rightarrow> 's) option"
  ov_currentTimeMS :: "('s \<Rightarrow> u64 \<times> 's) option"
  ov_startRepeatingTimer :: "(u64 \<Rightarrow> u64 \<Rightarrow> u64 \<Rightarrow> 's \<Rightarrow> 's) option"
  ov_cancelTimer :: "(u64 \<Rightarrow> 's \<Rightarrow> 's) option"
  ov_canExecuteScripts :: "(int \<Rightarrow> 's \<Rightarrow> bool \<times> 's) option"
  ov_maxAsyncCallStackDepthChanged :: "(int \<Rightarrow> 's \<Rightarrow> 's) option"
  ov_resourceNameToUrl :: "(StringView \<Rightarrow> 's \<Rightarrow> StringView option \<times> 's) option"
  ov_generateUniqueId :: "('s \<Rightarrow> u64 \<times> 's) option"
  ov_dispatchError :: "(u64 \<Rightarrow> u64 \<Rightarrow> u64 \<Rightarrow> 's \<Rightarrow> 's) option"

definition runMessageLoopOnPause :: "'s V8InspectorClient \<Rightarrow> int \<Rightarrow> 's \<Rightarrow> 's" where
  "runMessageLoopOnPause C a s = (case ov_runMessageLoopOnPause C of Some method \<Rightarrow> method a s | None \<Rightarrow> s)"

definition runMessageLoopOnInstrumentationPause :: "'s V8InspectorClient \<Rightarrow> int \<Rightarrow> 's \<Rightarrow> 's" where
  "runMessageLoopOnInstrumentationPause C a s = (case ov_runMessageLoopOnInstrumentationPause C of Some method \<Rightarrow> method a s | None \<Rightarrow> runMessageLoopOnPause C a s)"

definition quitMessageLoopOnPause :: "'s V8InspectorClient \<Rightarrow> 's \<Rightarrow> 's" where
  "quitMessageLoopOnPause C s = (case ov_quitMessageLoopOnPause C of Some method \<Rightarrow> method s | None \<Rightarrow> s)"

definition runIfWaitingForDebugger :: "'s V8InspectorClient \<Rightarrow> int \<Rightarrow> 's \<Rightarrow> 's" where
  "runIfWaitingForDebugger C a s = (case ov_runIfWaitingForDebugger C of Some method \<Rightarrow> method a s | None \<Rightarrow> s)"

definition muteMetrics :: "'s V8InspectorClient \<Rightarrow> int \<Rightarrow> 's \<Rightarrow> 's" where
  "muteMetrics C a s = (case ov_muteMetrics C of Some method \<Rightarrow> method a s | None \<Rightarrow> s)"

definition unmuteMetrics :: "'s V8InspectorClient \<Rightarrow> int \<Rightarrow> 's \<Rightarrow> 's" where
  "unmuteMetrics C a s = (case ov_unmuteMetrics C of Some method \<Rightarrow> method a s | None \<Rightarrow> s)"

definition beginUserGesture :: "'s V8InspectorClient \<Rightarrow> 's \<Rightarrow> 's" where
  "beginUserGesture C s = (case ov_beginUserGesture C of Some method \<Rightarrow> method s | None \<Rightarrow> s)"

definition endUserGesture :: "'s V8InspectorClient \<Rightarrow> 's \<Rightarrow> 's" where
  "endUserGesture C s = (case ov_endUserGesture C of Some method \<Rightarrow> method s | None \<Rightarrow> s)"

definition deepSerialize :: "'s V8InspectorClient \<Rightarrow> u64 \<Rightarrow> int \<Rightarrow> u64 \<Rightarrow> 's \<Rightarrow> DeepSerializationResult option \<times> 's" where
  "deepSerialize C a b c s = (case ov_deepSerialize C of Some method \<Rightarrow> method a b c s | None \<Rightarrow> (None, s))"

definition valueSubtype :: "'s V8InspectorClient \<Rightarrow> u64 \<Rightarrow> 's \<Rightarrow> StringView option \<times> 's" where
  "valueSubtype C a s = (case ov_valueSubtype C of Some method \<Rightarrow> method a s | None \<Rightarrow> (None, s))"

definition descriptionForValueSubtype :: "'s V8InspectorClient \<Rightarrow> u64 \<Rightarrow> u64 \<Rightarrow> 's \<Rightarrow> StringView option \<times> 's" where
  "descriptionForValueSubtype C a b s = (case ov_descriptionForValueSubtype C of Some method \<Rightarrow> method a b s | None \<Rightarrow> (None, s))"

definition isInspectableHeapObject :: "'s V8InspectorClient \<Rightarrow> u64 \<Rightarrow> 's \<Rightarrow> bool \<times> 's" where
  "isInspectableHeapObject C a s = (case ov_isInspectableHeapObject C of Some method \<Rightarrow> method a s | None \<Rightarrow> (True, s))"

definition ensureDefaultContextInGroup :: "'s V8InspectorClient \<Rightarrow> int \<Rightarrow> 's \<Rightarrow> u64 \<times> 's" where
  "ensureDefaultContextInGroup C a s = (case ov_ensureDefaultContextInGroup C of Some method \<Rightarrow> method a s | None \<Rightarrow> (0, s))"

definition beginEnsureAllContextsInGroup :: "'s V8InspectorClient \<Rightarrow> int \<Rightarrow> 's \<Rightarrow> 's" where
  "beginEnsureAllContextsInGroup C a s = (case ov_beginEnsureAllContextsInGroup C of Some method \<Rightarrow> method a s | None \<Rightarrow> s)"

definition endEnsureAllContextsInGroup :: "'s V8InspectorClient \<Rightarrow> int \<Rightarrow> 's \<Rightarrow> 's" where
  "endEnsureAllContextsInGroup C a s = (case ov_endEnsureAllContextsInGroup C of Some method \<Rightarrow> method a s | None \<Rightarrow> s)"

definition installAdditionalCommandLineAPI :: "'s V8InspectorClient \<Rightarrow> u64 \<Rightarrow> u64 \<Rightarrow> 's \<Rightarrow> 's" where
  "installAdditionalCommandLineAPI C a b s = (case ov_installAdditionalCommandLineAPI C of Some method \<Rightarrow> method a b s | None \<Rightarrow> s)"

definition consoleAPIMessage :: "'s V8InspectorClient \<Rightarrow> int \<Rightarrow> u32 \<Rightarrow> StringView \<Rightarrow> StringView \<Rightarrow> u32 \<Rightarrow> u32 \<Rightarrow> u64 \<Rightarrow> 's \<Rightarrow> 's" where
  "consoleAPIMessage C a b c d e f g s = (case ov_consoleAPIMessage C of Some method \<Rightarrow> method a b c d e f g s | None \<Rightarrow> s)"

definition consoleAPIMessage_context :: "'s V8InspectorClient \<Rightarrow> int \<Rightarrow> int \<Rightarrow> u32 \<Rightarrow> StringView \<Rightarrow> StringView \<Rightarrow> u32 \<Rightarrow> u32 \<Rightarrow> u64 \<Rightarrow> 's \<Rightarrow> 's" where
  "consoleAPIMessage_context C a b c d e f g h s = (case ov_consoleAPIMessage_context C of Some method \<Rightarrow> method a b c d e f g h s | None \<Rightarrow> consoleAPIMessage C a c d e f g h s)"

definition memoryInfo :: "'s V8InspectorClient \<Rightarrow> u64 \<Rightarrow> u64 \<Rightarrow> 's \<Rightarrow> u64 \<times> 's" where
  "memoryInfo C a b s = (case ov_memoryInfo C of Some method \<Rightarrow> method a b s | None \<Rightarrow> (0, s))"

definition consoleTime :: "'s V8InspectorClient \<Rightarrow> u64 \<Rightarrow> u64 \<Rightarrow> 's \<Rightarrow> 's" where
  "consoleTime C a b s = (case ov_consoleTime C of Some method \<Rightarrow> method a b s | None \<Rightarrow> s)"

definition consoleTimeEnd :: "'s V8InspectorClient \<Rightarrow> u64 \<Rightarrow> u64 \<Rightarrow> 's \<Rightarrow> 's" where
  "consoleTimeEnd C a b s = (case ov_consoleTimeEnd C of Some method \<Rightarrow> method a b s | None \<Rightarrow> s)"

definition consoleTimeStamp :: "'s V8InspectorClient \<Rightarrow> u64 \<Rightarrow> u64 \<Rightarrow> 's \<Rightarrow> 's" where
  "consoleTimeStamp C a b s = (case ov_consoleTimeStamp C of Some method \<Rightarrow> method a b s | None \<Rightarrow> s)"

definition consoleTimeStampWithArgs :: "'s V8InspectorClient \<Rightarrow> u64 \<Rightarrow> u64 \<Rightarrow> local_vector \<Rightarrow> 's \<Rightarrow> 's" where
  "consoleTimeStampWithArgs C a b c s = (case ov_consoleTimeStampWithArgs C of Some method \<Rightarrow> method a b c s | None \<Rightarrow> s)"

definition consoleClear :: "'s V8InspectorClient \<Rightarrow> int \<Rightarrow> 's \<Rightarrow> 's" where
  "consoleClear C a s = (case ov_consoleClear C of Some method \<Rightarrow> method a s | None \<Rightarrow> s)"

definition currentTimeMS :: "'s V8InspectorClient \<Rightarrow> 's \<Rightarrow> u64 \<times> 's" where
  "currentTimeMS C s = (case ov_currentTimeMS C of Some method \<Rightarrow> method s | None \<Rightarrow> (0, s))"

definition startRepeatingTimer :: "'s V8InspectorClient \<Rightarrow> u64 \<Rightarrow> u64 \<Rightarrow> u64 \<Rightarrow> 's \<Rightarrow> 's" where
  "startRepeatingTimer C a b c s = (case ov_startRepeatingTimer C of Some method \<Rightarrow> method a b c s | None \<Rightarrow> s)"

definition cancelTimer :: "'s V8InspectorClient \<Rightarrow> u64 \<Rightarrow> 's \<Rightarrow> 's" where
  "cancelTimer C a s = (case ov_cancelTimer C of Some method \<Rightarrow> method a s | None \<Rightarrow> s)"

definition canExecuteScripts :: "'s V8InspectorClient \<Rightarrow> int \<Rightarrow> 's \<Rightarrow> bool \<times> 's" where
  "canExecuteScripts C a s = (case ov_canExecuteScripts C of Some method \<Rightarrow> method a s | None \<Rightarrow> (True, s))"

definition maxAsyncCallStackDepthChanged :: "'s V8InspectorClient \<Rightarrow> int \<Rightarrow> 's \<Rightarrow> 's" where
  "maxAsyncCallStackDepthChanged C a s = (case ov_maxAsyncCallStackDepthChanged C of Some method \<Rightarrow> method a s | None \<Rightarrow> s)"

definition resourceNameToUrl :: "'s V8InspectorClient \<Rightarrow> StringView \<Rightarrow> 's \<Rightarrow> StringView option \<times> 's" where
  "resourceNameToUrl C a s = (case ov_resourceNameToUrl C of Some method \<Rightarrow> method a s | None \<Rightarrow> (None, s))"

definition generateUniqueId :: "'s V8InspectorClient \<Rightarrow> 's \<Rightarrow> u64 \<times> 's" where
  "generateUniqueId C s = (case ov_generateUniqueId C of Some method \<Rightarrow> method s | None \<Rightarrow> (0, s))"

definition dispatchError :: "'s V8InspectorClient \<Rightarrow> u64 \<Rightarrow> u64 \<Rightarrow> u64 \<Rightarrow> 's \<Rightarrow> 's" where
  "dispatchError C a b c s = (case ov_dispatchError C of Some method \<Rightarrow> method a b c s | None \<Rightarrow> s)"

text \<open>A client that overrides nothing.\<close>

definition default_client :: "'s V8InspectorClient" where
  "default_client =
     \<lparr>ov_runMessageLoopOnPause = None,
      ov_runMessageLoopOnInstrumentationPause = None,
      ov_quitMessageLoopOnPause = None,
      ov_runIfWaitingForDebugger = None,
      ov_muteMetrics = None,
      ov_unmuteMetrics = None,
      ov_beginUserGesture = None,
      ov_endUserGesture = None,
      ov_deepSerialize = None,
      ov_valueSubtype = None,
      ov_descriptionForValueSubtype = None,
      ov_isInspectableHeapObject = None,
      ov_ensureDefaultContextInGroup = None,
      ov_beginEnsureAllContextsInGroup = None,
      ov_endEnsureAllContextsInGroup = None,
      ov_installAdditionalCommandLineAPI = None,
      ov_consoleAPIMessage = None,
      ov_consoleAPIMessage_context = None,
      ov_memoryInfo = None,
      ov_consoleTime = None,
      ov_consoleTimeEnd = None,
      ov_consoleTimeStamp = None,
      ov_consoleTimeStampWithArgs = None,
      ov_consoleClear = None,
      ov_currentTimeMS = None,
      ov_startRepeatingTimer = None,
      ov_cancelTimer = None,
      ov_canExecuteScripts = None,
      ov_maxAsyncCallStackDepthChanged = None,
      ov_resourceNameToUrl = None,
      ov_generateUniqueId = None,
      ov_dispatchError = None\<rparr>"

lemmas client_defs = runMessageLoopOnPause_def runMessageLoopOnInstrumentationPause_def quitMessageLoopOnPause_def
  runIfWaitingForDebugger_def muteMetrics_def unmuteMetrics_def beginUserGesture_def endUserGesture_def
  deepSerialize_def valueSubtype_def descriptionForValueSubtype_def isInspectableHeapObject_def
  ensureDefaultContextInGroup_def beginEnsureAllContextsInGroup_def endEnsureAllContextsInGroup_def
  installAdditionalCommandLineAPI_def consoleAPIMessage_def consoleAPIMessage_context_def memoryInfo_def
  consoleTime_def consoleTimeEnd_def consoleTimeStamp_def consoleTimeStampWithArgs_def consoleClear_def
  currentTimeMS_def startRepeatingTimer_def cancelTimer_def canExecuteScripts_def maxAsyncCallStackDepthChanged_def
  resourceNameToUrl_def generateUniqueId_def dispatchError_def

section \<open>Properties\<close>

text \<open>A view is 8 bit exactly when it was made from 8-bit characters, and the characters are those it was made from.\<close>

lemma string_views:
  "is8Bit (StringView_8 p n)" "characters8 (StringView_8 p n) = p" "view_size (StringView_8 p n) = n"
  "\<not> is8Bit (StringView_16 p n)" "characters16 (StringView_16 p n) = p" "view_size (StringView_16 p n) = n"
  "is8Bit StringView_default" "view_size StringView_default = 0" "characters8 StringView_default = 0"
  by (simp_all add: StringView_8_def StringView_16_def StringView_default_def is8Bit_def characters8_def characters16_def
      view_size_def)

text \<open>A result is a success exactly when it was made from a value, and then has no message.\<close>

lemma results_exclusive:
  "isSuccess (DeepSerializationResult_value v)" "errorMessage (DeepSerializationResult_value v) = None"
  "\<not> isSuccess (DeepSerializationResult_error e)" "serializedValue (DeepSerializationResult_error e) = None"
  by (simp_all add: DeepSerializationResult_value_def DeepSerializationResult_error_def)

text \<open>A client that only handles pauses gets the pauses of instrumentation too, and one that only handles messages gets
  those that carry a context, without it.\<close>

lemma client_forwards:
  assumes "ov_runMessageLoopOnInstrumentationPause C = None" "ov_consoleAPIMessage_context C = None"
  shows "runMessageLoopOnInstrumentationPause C grp s = runMessageLoopOnPause C grp s"
    "consoleAPIMessage_context C grp ctx level message url line column trace s =
       consoleAPIMessage C grp level message url line column trace s"
  using assms by (simp_all add: runMessageLoopOnInstrumentationPause_def consoleAPIMessage_context_def)

text \<open>A client that overrides nothing is never affected by the inspector.\<close>

lemma default_client_inert:
  "runMessageLoopOnInstrumentationPause default_client grp s = s"
  "consoleAPIMessage_context default_client grp ctx level message url line column trace s = s"
  "canExecuteScripts default_client grp s = (True, s)" "deepSerialize default_client v depth params s = (None, s)"
  "ensureDefaultContextInGroup default_client grp s = (0, s)" "generateUniqueId default_client s = (0, s)"
  by (simp_all add: client_defs default_client_def)

end
