(* ===== verification/V8_Profiler.thy ===== *)
theory V8_Profiler
  imports V8_Handles
begin

text \<open>
  The data of the profilers, \<open>v8-profiler.h\<close>: the enumerations, the records that the library fills or reads, and the
  interfaces that an embedder implements, with the behaviour they have when a function is not overridden. The profilers
  themselves are in the library. A field that no constructor initialises is an option.
\<close>

section \<open>CPU profiles\<close>

record CpuProfileDeoptFrame =
  deopt_script_id :: int
  deopt_position :: u64

record CpuProfileDeoptInfo =
  deopt_reason :: string
  deopt_stack :: "CpuProfileDeoptFrame list"

datatype CpuProfileSource = kUnspecified | kInspector | kSelfProfiling | kInternalSource

definition source_value :: "CpuProfileSource \<Rightarrow> nat" where
  "source_value s = (case s of kUnspecified \<Rightarrow> 0 | kInspector \<Rightarrow> 1 | kSelfProfiling \<Rightarrow> 2 | kInternalSource \<Rightarrow> 3)"

record LineTick =
  tick_line :: int
  tick_column :: int
  tick_hit_count :: u32

datatype SourceType = kScript | kBuiltin | kCallback | kInternalCode | kUnresolved

definition source_type_value :: "SourceType \<Rightarrow> nat" where
  "source_type_value s = (case s of kScript \<Rightarrow> 0 | kBuiltin \<Rightarrow> 1 | kCallback \<Rightarrow> 2 | kInternalCode \<Rightarrow> 3 | kUnresolved \<Rightarrow> 4)"

datatype CpuProfilingMode = kLeafNodeLineNumbers | kCallerLineNumbers
datatype CpuProfilingNamingMode = kStandardNaming | kDebugNaming
datatype CpuProfilingLoggingMode = kLazyLogging | kEagerLogging
datatype CpuProfilingStatus = kStarted | kAlreadyStarted | kErrorTooManyProfilers

record CpuProfilingResult =
  profiling_id :: u32
  profiling_status :: CpuProfilingStatus

text \<open>The delegate of a profile that drops samples: its constructor does not set the id.\<close>

record DiscardedSamplesDelegate =
  delegate_profiler_id :: "u32 option"

definition DiscardedSamplesDelegate_new :: DiscardedSamplesDelegate where
  "DiscardedSamplesDelegate_new = \<lparr>delegate_profiler_id = None\<rparr>"

definition DiscardedSamplesDelegate_GetId :: "DiscardedSamplesDelegate \<Rightarrow> u32 option" where
  "DiscardedSamplesDelegate_GetId d = delegate_profiler_id d"

definition DiscardedSamplesDelegate_SetId :: "u32 \<Rightarrow> DiscardedSamplesDelegate \<Rightarrow> DiscardedSamplesDelegate" where
  "DiscardedSamplesDelegate_SetId i d = d\<lparr>delegate_profiler_id := Some i\<rparr>"

definition kNoSampleLimit :: u32 where "kNoSampleLimit = - 1"

text \<open>The filter context is the cell of a global handle.\<close>

record CpuProfilingOptions =
  options_mode :: CpuProfilingMode
  options_max_samples :: u32
  options_sampling_interval_us :: int
  options_filter_context :: slot
  options_profile_source :: CpuProfileSource

definition CPO_mode :: "CpuProfilingOptions \<Rightarrow> CpuProfilingMode" where "CPO_mode c = options_mode c"
definition CPO_max_samples :: "CpuProfilingOptions \<Rightarrow> u32" where "CPO_max_samples c = options_max_samples c"
definition CPO_sampling_interval_us :: "CpuProfilingOptions \<Rightarrow> int" where
  "CPO_sampling_interval_us c = options_sampling_interval_us c"
definition CPO_profile_source :: "CpuProfilingOptions \<Rightarrow> CpuProfileSource" where
  "CPO_profile_source c = options_profile_source c"
definition CPO_has_filter_context :: "CpuProfilingOptions \<Rightarrow> bool" where
  "CPO_has_filter_context c \<longleftrightarrow> \<not> handle_IsEmpty (options_filter_context c)"

section \<open>Streams\<close>

datatype WriteResult = kContinue | kAbort

record HeapStatsUpdate =
  update_index :: u32
  update_count :: u32
  update_size :: u32

definition HeapStatsUpdate_new :: "u32 \<Rightarrow> u32 \<Rightarrow> u32 \<Rightarrow> HeapStatsUpdate" where
  "HeapStatsUpdate_new i n sz = \<lparr>update_index = i, update_count = n, update_size = sz\<rparr>"

text \<open>What a stream overrides; the other two functions every stream has. \<open>'s\<close> is its state.\<close>

record 's OutputStream =
  EndOfStream :: "'s \<Rightarrow> 's"
  ov_GetChunkSize :: "('s \<Rightarrow> int) option"
  WriteAsciiChunk :: "string \<Rightarrow> 's \<Rightarrow> WriteResult \<times> 's"
  ov_WriteHeapStatsChunk :: "(HeapStatsUpdate list \<Rightarrow> 's \<Rightarrow> WriteResult \<times> 's) option"

definition GetChunkSize :: "'s OutputStream \<Rightarrow> 's \<Rightarrow> int" where
  "GetChunkSize S s = (case ov_GetChunkSize S of Some f \<Rightarrow> f s | None \<Rightarrow> 1024)"

definition WriteHeapStatsChunk :: "'s OutputStream \<Rightarrow> HeapStatsUpdate list \<Rightarrow> 's \<Rightarrow> WriteResult \<times> 's" where
  "WriteHeapStatsChunk S updates s = (case ov_WriteHeapStatsChunk S of Some f \<Rightarrow> f updates s | None \<Rightarrow> (kAbort, s))"

section \<open>Heap snapshots\<close>

datatype EdgeType = kContextVariable | kElement | kProperty | kInternalEdge | kHiddenEdge | kShortcut | kWeak

definition edge_value :: "EdgeType \<Rightarrow> nat" where
  "edge_value e = (case e of kContextVariable \<Rightarrow> 0 | kElement \<Rightarrow> 1 | kProperty \<Rightarrow> 2 | kInternalEdge \<Rightarrow> 3 | kHiddenEdge \<Rightarrow> 4
     | kShortcut \<Rightarrow> 5 | kWeak \<Rightarrow> 6)"

datatype NodeType = kHiddenNode | kArray | kStringNode | kObjectNode | kCode | kClosure | kRegExp | kHeapNumber | kNative
  | kSynthetic | kConsString | kSlicedString | kSymbolNode | kBigIntNode | kObjectShape

definition node_value :: "NodeType \<Rightarrow> nat" where
  "node_value n = (case n of kHiddenNode \<Rightarrow> 0 | kArray \<Rightarrow> 1 | kStringNode \<Rightarrow> 2 | kObjectNode \<Rightarrow> 3 | kCode \<Rightarrow> 4 | kClosure \<Rightarrow> 5
     | kRegExp \<Rightarrow> 6 | kHeapNumber \<Rightarrow> 7 | kNative \<Rightarrow> 8 | kSynthetic \<Rightarrow> 9 | kConsString \<Rightarrow> 10 | kSlicedString \<Rightarrow> 11
     | kSymbolNode \<Rightarrow> 12 | kBigIntNode \<Rightarrow> 13 | kObjectShape \<Rightarrow> 14)"

datatype ControlOption = kContinueSnapshot | kAbortSnapshot
datatype HeapSnapshotMode = kRegular | kExposeInternals
datatype NumericsMode = kHideNumericValues | kExposeNumericValues
datatype EmbedderStackState = kMayContainHeapPointers | kNoHeapPointers

record HeapSnapshotOptions =
  snapshot_control :: u64
  context_name_resolver :: u64
  snapshot_mode :: HeapSnapshotMode
  numerics_mode :: NumericsMode
  snapshot_stack_state :: EmbedderStackState

definition HeapSnapshotOptions_default :: HeapSnapshotOptions where
  "HeapSnapshotOptions_default =
     \<lparr>snapshot_control = 0, context_name_resolver = 0, snapshot_mode = kRegular, numerics_mode = kHideNumericValues,
      snapshot_stack_state = kMayContainHeapPointers\<rparr>"

definition kUnknownObjectId :: u32 where "kUnknownObjectId = 0"
definition kPersistentHandleNoClassId :: "16 word" where "kPersistentHandleNoClassId = 0"

definition kSamplingNoFlags :: u32 where "kSamplingNoFlags = 0"
definition kSamplingForceGC :: u32 where "kSamplingForceGC = push_bit 0 1"
definition kSamplingIncludeObjectsCollectedByMajorGC :: u32 where "kSamplingIncludeObjectsCollectedByMajorGC = push_bit 1 1"
definition kSamplingIncludeObjectsCollectedByMinorGC :: u32 where "kSamplingIncludeObjectsCollectedByMinorGC = push_bit 2 1"

section \<open>Allocation profiles\<close>

record Allocation =
  allocation_size :: u64
  allocation_count :: u32

text \<open>The tree of call sites: name, script name, script id, start position, line, column, node id, children and
  allocations.\<close>

datatype AllocationNode =
  AllocationNode (an_name: u64) (an_script_name: u64) (an_script_id: int) (an_start_position: int) (an_line_number: int)
    (an_column_number: int) (an_node_id: u32) (an_children: "AllocationNode list") (an_allocations: "Allocation list")

record Sample =
  sample_node_id :: u32
  sample_size :: u64
  sample_count :: u32
  sample_id :: u64
  sample_is_live :: bool

section \<open>The embedder's graph\<close>

datatype Detachedness = kUnknown | kAttached | kDetached

text \<open>What a class of nodes overrides.\<close>

record 'n EmbedderNode =
  NodeName :: "'n \<Rightarrow> string"
  SizeInBytes :: "'n \<Rightarrow> u64"
  ov_WrapperNode :: "('n \<Rightarrow> u64) option"
  ov_IsRootNode :: "('n \<Rightarrow> bool) option"
  ov_IsEmbedderNode :: "('n \<Rightarrow> bool) option"
  ov_NamePrefix :: "('n \<Rightarrow> u64) option"
  ov_GetNativeObject :: "('n \<Rightarrow> u64) option"
  ov_GetDetachedness :: "('n \<Rightarrow> Detachedness) option"
  ov_GetAddress :: "('n \<Rightarrow> u64) option"

definition overridden :: "('n \<Rightarrow> 'r) option \<Rightarrow> 'r \<Rightarrow> 'n \<Rightarrow> 'r" where
  "overridden ov dflt n = (case ov of Some f \<Rightarrow> f n | None \<Rightarrow> dflt)"

definition WrapperNode :: "'n EmbedderNode \<Rightarrow> 'n \<Rightarrow> u64" where "WrapperNode N = overridden (ov_WrapperNode N) 0"
definition IsRootNode :: "'n EmbedderNode \<Rightarrow> 'n \<Rightarrow> bool" where "IsRootNode N = overridden (ov_IsRootNode N) False"
definition IsEmbedderNode :: "'n EmbedderNode \<Rightarrow> 'n \<Rightarrow> bool" where "IsEmbedderNode N = overridden (ov_IsEmbedderNode N) True"
definition NamePrefix :: "'n EmbedderNode \<Rightarrow> 'n \<Rightarrow> u64" where "NamePrefix N = overridden (ov_NamePrefix N) 0"
definition GetNativeObject :: "'n EmbedderNode \<Rightarrow> 'n \<Rightarrow> u64" where "GetNativeObject N = overridden (ov_GetNativeObject N) 0"
definition GetDetachedness :: "'n EmbedderNode \<Rightarrow> 'n \<Rightarrow> Detachedness" where
  "GetDetachedness N = overridden (ov_GetDetachedness N) kUnknown"
definition GetAddress :: "'n EmbedderNode \<Rightarrow> 'n \<Rightarrow> u64" where "GetAddress N = overridden (ov_GetAddress N) 0"

definition AddNativeSize :: "(u64 \<Rightarrow> 's \<Rightarrow> 's) option \<Rightarrow> u64 \<Rightarrow> 's \<Rightarrow> 's" where
  "AddNativeSize ov sz s = (case ov of Some f \<Rightarrow> f sz s | None \<Rightarrow> s)"

section \<open>Code events\<close>

datatype CodeEventType = kUnknownType | kBuiltinType | kCallbackType | kEvalType | kFunctionType | kInterpretedFunctionType
  | kHandlerType | kBytecodeHandlerType | kLazyCompileType | kRegExpType | kScriptType | kStubType | kRelocationType

section \<open>Properties\<close>

text \<open>The id of a delegate is undefined until it is set, and then the last one set.\<close>

lemma delegate_id_uninitialised:
  "DiscardedSamplesDelegate_GetId (fold DiscardedSamplesDelegate_SetId ids DiscardedSamplesDelegate_new) =
     (if ids = [] then None else Some (last ids))"
proof (cases ids rule: rev_cases)
  case Nil
  then show ?thesis by (simp add: DiscardedSamplesDelegate_GetId_def DiscardedSamplesDelegate_new_def)
next
  case (snoc rest i)
  then show ?thesis by (simp add: DiscardedSamplesDelegate_GetId_def DiscardedSamplesDelegate_SetId_def)
qed

text \<open>A stream that is made for snapshots only aborts the report of statistics, whatever its state.\<close>

lemma stats_aborted: "ov_WriteHeapStatsChunk S = None \<Longrightarrow> WriteHeapStatsChunk S updates s = (kAbort, s)"
  by (simp add: WriteHeapStatsChunk_def)

text \<open>The values of the enumerations are their positions, so they are told apart by their numbers.\<close>

lemma enumerations_distinct: "inj source_value" "inj source_type_value" "inj edge_value" "inj node_value"
  by (auto simp: inj_def source_value_def source_type_value_def edge_value_def node_value_def
      split: CpuProfileSource.splits SourceType.splits EdgeType.splits NodeType.splits)

end
