(* ===== verification/V8_Embedder.thy ===== *)
theory V8_Embedder
  imports V8_Script V8_Refs V8_Access
begin

text \<open>
  What an embedder gives to V8 and gets from it, in the small headers: the start of the library
  (\<open>v8-initialization.h\<close>), extensions, messages about exceptions and promises, weak callbacks and weak handles, the
  serializers of a snapshot (\<open>v8-snapshot.h\<close>), the visitor of traced references (\<open>v8-cppgc.h\<close>), stack traces,
  microtasks, and the flags and records of callbacks (\<open>v8-callbacks.h\<close>).
\<close>

unbundle bit_operations_syntax

section \<open>Initialisation\<close>

definition config_kPointerCompression :: u32 where "config_kPointerCompression = push_bit 0 1"
definition config_k31BitSmis :: u32 where "config_k31BitSmis = push_bit 1 1"
definition config_kSandbox :: u32 where "config_kSandbox = push_bit 2 1"
definition config_kTargetOsIsAndroid :: u32 where "config_kTargetOsIsAndroid = push_bit 3 1"
definition config_kEnableChecks :: u32 where "config_kEnableChecks = push_bit 4 1"

text \<open>The options of a build.\<close>

record build_options =
  PointerCompressionIsEnabled :: bool
  SmiValuesAre31Bits :: bool
  SandboxIsEnabled :: bool
  kV8TargetOsIsAndroid :: bool
  kV8EnableChecks :: bool

definition kBuildConfiguration :: "build_options \<Rightarrow> u32" where
  "kBuildConfiguration B =
     (if PointerCompressionIsEnabled B then config_kPointerCompression else 0) OR
     (if SmiValuesAre31Bits B then config_k31BitSmis else 0) OR
     (if SandboxIsEnabled B then config_kSandbox else 0) OR
     (if kV8TargetOsIsAndroid B then config_kTargetOsIsAndroid else 0) OR
     (if kV8EnableChecks B then config_kEnableChecks else 0)"

text \<open>The library's \<open>Initialize\<close> gets the configuration of the embedder.\<close>

definition V8_Initialize :: "(u32 \<Rightarrow> 's \<Rightarrow> bool \<times> 's) \<Rightarrow> build_options \<Rightarrow> 's \<Rightarrow> bool \<times> 's" where
  "V8_Initialize Initialize B s = Initialize (kBuildConfiguration B) s"

datatype SandboxMode = kSecure | kInsecure | kInsecurePartialReservationSmiInaccessible
  | kInsecureFullReservationSmiAccessible | kInsecurePartialReservationSmiAccessible

datatype WasmMemoryType = kMemory32 | kMemory64

text \<open>A locker and an unlocker do what the library's \<open>Initialize\<close> does.\<close>

definition Locker_new :: "(u64 \<Rightarrow> 's \<Rightarrow> 's) \<Rightarrow> u64 \<Rightarrow> 's \<Rightarrow> 's" where "Locker_new Initialize isolate s = Initialize isolate s"
definition Unlocker_new :: "(u64 \<Rightarrow> 's \<Rightarrow> 's) \<Rightarrow> u64 \<Rightarrow> 's \<Rightarrow> 's" where "Unlocker_new Initialize isolate s = Initialize isolate s"

section \<open>Extensions\<close>

record Extension =
  ext_name :: u64
  ext_source :: u64
  ext_dep_count :: int
  ext_deps :: u64
  ext_auto_enable :: bool

definition Extension_name :: "Extension \<Rightarrow> u64" where "Extension_name e = ext_name e"
definition Extension_source :: "Extension \<Rightarrow> u64" where "Extension_source e = ext_source e"
definition Extension_dependency_count :: "Extension \<Rightarrow> int" where "Extension_dependency_count e = ext_dep_count e"
definition Extension_dependencies :: "Extension \<Rightarrow> u64" where "Extension_dependencies e = ext_deps e"
definition Extension_set_auto_enable :: "bool \<Rightarrow> Extension \<Rightarrow> Extension" where
  "Extension_set_auto_enable value e = e\<lparr>ext_auto_enable := value\<rparr>"
definition Extension_auto_enable :: "Extension \<Rightarrow> bool" where "Extension_auto_enable e = ext_auto_enable e"
definition Extension_delete :: "(u64 \<Rightarrow> 's \<Rightarrow> 's) \<Rightarrow> Extension \<Rightarrow> 's \<Rightarrow> 's" where
  "Extension_delete delete e s = (if ext_source e = 0 then s else delete (ext_source e) s)"
definition GetNativeFunctionTemplate :: "u64 \<Rightarrow> u64 \<Rightarrow> u64" where "GetNativeFunctionTemplate isolate name = 0"

section \<open>Exceptions and promises\<close>

datatype ExceptionContext = kUnknownContext | kConstructor | kOperation | kAttributeGet | kAttributeSet | kIndexedQuery
  | kIndexedGetter | kIndexedDescriptor | kIndexedSetter | kIndexedDefiner | kIndexedDeleter | kNamedQuery | kNamedGetter
  | kNamedDescriptor | kNamedSetter | kNamedDefiner | kNamedDeleter | kNamedEnumerator

record ExceptionPropagationMessage =
  epm_isolate :: u64
  epm_exception :: u64
  epm_interface_name :: u64
  epm_property_name :: u64
  epm_exception_context :: ExceptionContext

definition ExceptionPropagationMessage_new ::
    "u64 \<Rightarrow> u64 \<Rightarrow> u64 \<Rightarrow> u64 \<Rightarrow> ExceptionContext \<Rightarrow> ExceptionPropagationMessage" where
  "ExceptionPropagationMessage_new isolate exn interface_name property_name exception_context =
     \<lparr>epm_isolate = isolate, epm_exception = exn, epm_interface_name = interface_name, epm_property_name = property_name,
      epm_exception_context = exception_context\<rparr>"

definition EPM_GetIsolate :: "ExceptionPropagationMessage \<Rightarrow> u64" where "EPM_GetIsolate m = epm_isolate m"
definition EPM_GetException :: "ExceptionPropagationMessage \<Rightarrow> u64" where "EPM_GetException m = epm_exception m"
definition EPM_GetInterfaceName :: "ExceptionPropagationMessage \<Rightarrow> u64" where "EPM_GetInterfaceName m = epm_interface_name m"
definition EPM_GetPropertyName :: "ExceptionPropagationMessage \<Rightarrow> u64" where "EPM_GetPropertyName m = epm_property_name m"
definition EPM_GetExceptionContext :: "ExceptionPropagationMessage \<Rightarrow> ExceptionContext" where
  "EPM_GetExceptionContext m = epm_exception_context m"

record TryCatch =
  js_stack_comparable_address :: u64

definition JSStackComparableAddressPrivate :: "TryCatch \<Rightarrow> u64" where
  "JSStackComparableAddressPrivate t = js_stack_comparable_address t"

datatype PromiseState = kPending | kFulfilled | kRejected
datatype PromiseHookType = kInitHook | kResolveHook | kBeforeHook | kAfterHook
datatype PromiseRejectEvent = kPromiseRejectWithNoHandler | kPromiseHandlerAddedAfterReject | kPromiseRejectAfterResolved
  | kPromiseResolveAfterResolved

record PromiseRejectMessage =
  prm_promise :: u64
  prm_event :: PromiseRejectEvent
  prm_value :: u64

definition PromiseRejectMessage_new :: "u64 \<Rightarrow> PromiseRejectEvent \<Rightarrow> u64 \<Rightarrow> PromiseRejectMessage" where
  "PromiseRejectMessage_new promise event value = \<lparr>prm_promise = promise, prm_event = event, prm_value = value\<rparr>"

definition PRM_GetPromise :: "PromiseRejectMessage \<Rightarrow> u64" where "PRM_GetPromise m = prm_promise m"
definition PRM_GetEvent :: "PromiseRejectMessage \<Rightarrow> PromiseRejectEvent" where "PRM_GetEvent m = prm_event m"
definition PRM_GetValue :: "PromiseRejectMessage \<Rightarrow> u64" where "PRM_GetValue m = prm_value m"

datatype MicrotasksScope_Type = kRunMicrotasks | kDoNotRunMicrotasks
datatype CallbackResult = kExceptionResult | kBreakIteration | kContinueIteration

section \<open>Weak callbacks\<close>

definition kInternalFieldsInWeakCallback :: nat where "kInternalFieldsInWeakCallback = 2"
definition kEmbedderFieldsInWeakCallback :: nat where "kEmbedderFieldsInWeakCallback = 2"

datatype WeakCallbackType = kParameter | kInternalFields

text \<open>The callback of the second pass is written through a pointer, here the address of a cell.\<close>

record WeakCallbackInfo =
  wci_isolate :: u64
  wci_parameter :: u64
  wci_callback :: addr
  wci_embedder_fields :: "u64 list"

definition WeakCallbackInfo_new :: "u64 \<Rightarrow> u64 \<Rightarrow> u64 list \<Rightarrow> addr \<Rightarrow> WeakCallbackInfo option" where
  "WeakCallbackInfo_new isolate parameter embedder_fields cb =
     (if length embedder_fields < kEmbedderFieldsInWeakCallback then None
      else Some \<lparr>wci_isolate = isolate, wci_parameter = parameter, wci_callback = cb,
                 wci_embedder_fields = take kEmbedderFieldsInWeakCallback embedder_fields\<rparr>)"

definition WCI_GetIsolate :: "WeakCallbackInfo \<Rightarrow> u64" where "WCI_GetIsolate w = wci_isolate w"
definition WCI_GetParameter :: "WeakCallbackInfo \<Rightarrow> u64" where "WCI_GetParameter w = wci_parameter w"

text \<open>Without checks an index outside the array is read all the same; with checks the library aborts.\<close>

definition WCI_GetInternalField :: "WeakCallbackInfo \<Rightarrow> int \<Rightarrow> u64 option" where
  "WCI_GetInternalField w index =
     (if 0 \<le> index \<and> nat index < length (wci_embedder_fields w) then Some (wci_embedder_fields w ! nat index) else None)"

definition WCI_SetSecondPassCallback :: "WeakCallbackInfo \<Rightarrow> u64 \<Rightarrow> (addr \<rightharpoonup> u64) \<Rightarrow> addr \<rightharpoonup> u64" where
  "WCI_SetSecondPassCallback w cb cells = cells(wci_callback w \<mapsto> cb)"

text \<open>Making handles weak; the library's functions get the cell of the handle, or the variable that holds it.\<close>

record 'g weak_api =
  MakeWeak_data :: "slot \<Rightarrow> u64 \<Rightarrow> u64 \<Rightarrow> WeakCallbackType \<Rightarrow> 'g \<Rightarrow> 'g"
  MakeWeak_location :: "addr \<Rightarrow> 'g ref_world \<Rightarrow> 'g ref_world"
  ClearWeak_cell :: "slot \<Rightarrow> 'g \<Rightarrow> u64 \<times> 'g"
  AnnotateStrongRetainer_cell :: "slot \<Rightarrow> string \<Rightarrow> 'g \<Rightarrow> 'g"

definition persistent_SetWeak_callback ::
    "'g weak_api \<Rightarrow> addr \<Rightarrow> u64 \<Rightarrow> u64 \<Rightarrow> WeakCallbackType \<Rightarrow> 'g ref_world \<Rightarrow> 'g ref_world option" where
  "persistent_SetWeak_callback A this parameter cb type w =
     do { s \<leftarrow> ref_at w this; Some (w\<lparr>ref_state := MakeWeak_data A s parameter cb type (ref_state w)\<rparr>) }"

definition persistent_SetWeak :: "'g weak_api \<Rightarrow> addr \<Rightarrow> 'g ref_world \<Rightarrow> 'g ref_world option" where
  "persistent_SetWeak A this w = do { _ \<leftarrow> ref_at w this; Some (MakeWeak_location A this w) }"

definition persistent_ClearWeak :: "'g weak_api \<Rightarrow> addr \<Rightarrow> 'g ref_world \<Rightarrow> (u64 \<times> 'g ref_world) option" where
  "persistent_ClearWeak A this w =
     do { s \<leftarrow> ref_at w this; let (p, g) = ClearWeak_cell A s (ref_state w); Some (p, w\<lparr>ref_state := g\<rparr>) }"

definition persistent_ClearWeak_void :: "'g weak_api \<Rightarrow> addr \<Rightarrow> 'g ref_world \<Rightarrow> 'g ref_world option" where
  "persistent_ClearWeak_void A this w = map_option snd (persistent_ClearWeak A this w)"

definition persistent_AnnotateStrongRetainer :: "'g weak_api \<Rightarrow> addr \<Rightarrow> string \<Rightarrow> 'g ref_world \<Rightarrow> 'g ref_world option" where
  "persistent_AnnotateStrongRetainer A this label w =
     do { s \<leftarrow> ref_at w this; Some (w\<lparr>ref_state := AnnotateStrongRetainer_cell A s label (ref_state w)\<rparr>) }"

section \<open>Snapshots\<close>

text \<open>The callbacks are function pointers, null when left out, with the data they are given.\<close>

record snapshot_callback =
  sc_callback :: u64
  sc_data :: u64

definition SerializeInternalFieldsCallback :: "u64 option \<Rightarrow> u64 option \<Rightarrow> snapshot_callback" where
  "SerializeInternalFieldsCallback func data_arg =
     \<lparr>sc_callback = (case func of None \<Rightarrow> 0 | Some f \<Rightarrow> f), sc_data = (case data_arg of None \<Rightarrow> 0 | Some d \<Rightarrow> d)\<rparr>"

definition SerializeContextDataCallback :: "u64 option \<Rightarrow> u64 option \<Rightarrow> snapshot_callback" where
  "SerializeContextDataCallback func data_arg =
     \<lparr>sc_callback = (case func of None \<Rightarrow> 0 | Some f \<Rightarrow> f), sc_data = (case data_arg of None \<Rightarrow> 0 | Some d \<Rightarrow> d)\<rparr>"

definition SerializeAPIWrapperCallback :: "u64 option \<Rightarrow> u64 option \<Rightarrow> snapshot_callback" where
  "SerializeAPIWrapperCallback func data_arg =
     \<lparr>sc_callback = (case func of None \<Rightarrow> 0 | Some f \<Rightarrow> f), sc_data = (case data_arg of None \<Rightarrow> 0 | Some d \<Rightarrow> d)\<rparr>"

definition DeserializeInternalFieldsCallback :: "u64 option \<Rightarrow> u64 option \<Rightarrow> snapshot_callback" where
  "DeserializeInternalFieldsCallback func data_arg =
     \<lparr>sc_callback = (case func of None \<Rightarrow> 0 | Some f \<Rightarrow> f), sc_data = (case data_arg of None \<Rightarrow> 0 | Some d \<Rightarrow> d)\<rparr>"

definition DeserializeContextDataCallback :: "u64 option \<Rightarrow> u64 option \<Rightarrow> snapshot_callback" where
  "DeserializeContextDataCallback func data_arg =
     \<lparr>sc_callback = (case func of None \<Rightarrow> 0 | Some f \<Rightarrow> f), sc_data = (case data_arg of None \<Rightarrow> 0 | Some d \<Rightarrow> d)\<rparr>"

definition DeserializeAPIWrapperCallback :: "u64 option \<Rightarrow> u64 option \<Rightarrow> snapshot_callback" where
  "DeserializeAPIWrapperCallback func data_arg =
     \<lparr>sc_callback = (case func of None \<Rightarrow> 0 | Some f \<Rightarrow> f), sc_data = (case data_arg of None \<Rightarrow> 0 | Some d \<Rightarrow> d)\<rparr>"

datatype FunctionCodeHandling = kClear | kKeep

text \<open>The object of the handle is read without asking whether the handle is empty.\<close>

definition AddData_context :: "(u64 \<Rightarrow> u64 \<Rightarrow> 's \<Rightarrow> u64 \<times> 's) \<Rightarrow> u64 \<Rightarrow> u64 \<Rightarrow> mem \<Rightarrow> 's \<Rightarrow> (u64 \<times> 's) option" where
  "AddData_context add ctx object m s = do { a \<leftarrow> ValueAsAddress (IndirectHandle_value object) m; Some (add ctx a s) }"

definition AddData :: "(u64 \<Rightarrow> 's \<Rightarrow> u64 \<times> 's) \<Rightarrow> u64 \<Rightarrow> mem \<Rightarrow> 's \<Rightarrow> (u64 \<times> 's) option" where
  "AddData add object m s = do { a \<leftarrow> ValueAsAddress (IndirectHandle_value object) m; Some (add a s) }"

section \<open>Traced references in the managed heap\<close>

text \<open>\<open>Visit\<close> is what a visitor does with a reference; the base class does nothing.\<close>

definition JSVisitor_Visit :: "addr \<Rightarrow> 'v \<Rightarrow> 'v" where "JSVisitor_Visit ref v = v"

definition JSVisitor_Trace :: "(addr \<Rightarrow> 'v \<Rightarrow> 'v) \<Rightarrow> addr \<Rightarrow> 'g ref_world \<Rightarrow> 'v \<Rightarrow> 'v option" where
  "JSVisitor_Trace Visit ref w v = do { e \<leftarrow> IsEmptyThreadSafe ref w; Some (if e then v else Visit ref v) }"

definition TracedReference_Trace :: "(addr \<Rightarrow> 'v \<Rightarrow> 'v) \<Rightarrow> addr \<Rightarrow> 'g ref_world \<Rightarrow> 'v \<Rightarrow> 'v option" where
  "TracedReference_Trace visitor self w v = JSVisitor_Trace visitor self w v"

text \<open>The descriptor of a traced reference has no object, and its callback is \<open>TracedReference_Trace\<close>.\<close>

definition TracedReference_GetTraceDescriptor :: "u64 \<Rightarrow> u64" where "TracedReference_GetTraceDescriptor self = 0"

definition EmbedderRootsHandler_TryResetRoot :: "slot \<Rightarrow> bool" where "EmbedderRootsHandler_TryResetRoot handle = False"

datatype CppMarkingType = kAtomicMarking | kIncrementalMarking | kIncrementalAndConcurrentMarking
datatype CppSweepingType = kAtomicSweeping | kIncrementalSweeping | kIncrementalAndConcurrentSweeping
datatype StackSupport = kSupportsConservativeStackScan | kNoConservativeStackScan

record 'p CppHeapCreateParams =
  cp_custom_spaces :: "'p list"
  cp_marking_support :: CppMarkingType
  cp_sweeping_support :: CppSweepingType
  cp_stack_start_marker :: "u64 option"

definition CppHeapCreateParams_new :: "'p list \<Rightarrow> 'p CppHeapCreateParams" where
  "CppHeapCreateParams_new custom_spaces =
     \<lparr>cp_custom_spaces = custom_spaces, cp_marking_support = kIncrementalAndConcurrentMarking,
      cp_sweeping_support = kIncrementalAndConcurrentSweeping, cp_stack_start_marker = None\<rparr>"

text \<open>\<open>cppgc/heap.h\<close>: the marker remembers the frame that makes it.\<close>

definition StackStartMarker_new :: "u64 \<Rightarrow> u64" where "StackStartMarker_new frame_address = frame_address"
definition stack_start :: "u64 \<Rightarrow> u64" where "stack_start marker = marker"

definition initial_heap_size_bytes :: u64 where "initial_heap_size_bytes = 0"

record 'p HeapOptions =
  ho_custom_spaces :: "'p list"
  ho_stack_support :: StackSupport
  ho_marking_support :: CppMarkingType
  ho_sweeping_support :: CppSweepingType
  ho_initial_heap_size_bytes :: u64
  ho_stack_start_marker :: "u64 option"

definition HeapOptions_Default :: "'p HeapOptions" where
  "HeapOptions_Default =
     \<lparr>ho_custom_spaces = [], ho_stack_support = kSupportsConservativeStackScan,
      ho_marking_support = kIncrementalAndConcurrentMarking, ho_sweeping_support = kIncrementalAndConcurrentSweeping,
      ho_initial_heap_size_bytes = initial_heap_size_bytes, ho_stack_start_marker = None\<rparr>"

text \<open>\<open>CppHeapExternal\<close>: an object of the managed heap as a JavaScript value; a class that is not managed does not compile.\<close>

definition CppHeapExternal_New :: "bool \<Rightarrow> (u64 \<Rightarrow> u16 \<Rightarrow> 's \<Rightarrow> u64 \<times> 's) \<Rightarrow> u64 \<Rightarrow> u16 \<Rightarrow> 's \<Rightarrow> (u64 \<times> 's) option" where
  "CppHeapExternal_New managed NewImpl value tag s = (if managed then Some (NewImpl value tag s) else None)"

definition CppHeapExternal_Value :: "bool \<Rightarrow> (TagRange \<Rightarrow> 's \<Rightarrow> u64) \<Rightarrow> TagRange \<Rightarrow> 's \<Rightarrow> u64 option" where
  "CppHeapExternal_Value managed ValueImpl tag_range s = (if managed then Some (ValueImpl tag_range s) else None)"

section \<open>Functions and stack frames\<close>

definition Function_NewInstance :: "(u64 \<Rightarrow> u64 list \<Rightarrow> 's \<Rightarrow> u64 \<times> 's) \<Rightarrow> u64 \<Rightarrow> 's \<Rightarrow> u64 \<times> 's" where
  "Function_NewInstance NewInstance ctx s = NewInstance ctx [] s"

text \<open>\<open>location\<close> is the library's \<open>GetLocation\<close>.\<close>

definition StackFrame_GetLineNumber :: "Location \<Rightarrow> int option" where
  "StackFrame_GetLineNumber location = add_int (Location_GetLineNumber location) 1"

definition StackFrame_GetColumn :: "Location \<Rightarrow> int option" where
  "StackFrame_GetColumn location = add_int (Location_GetColumnNumber location) 1"

definition kLineNumber :: u32 where "kLineNumber = 1"
definition kColumnOffset :: u32 where "kColumnOffset = push_bit 1 1 OR kLineNumber"
definition kScriptName :: u32 where "kScriptName = push_bit 2 1"
definition kFunctionName :: u32 where "kFunctionName = push_bit 3 1"
definition kIsEval :: u32 where "kIsEval = push_bit 4 1"
definition kIsConstructor :: u32 where "kIsConstructor = push_bit 5 1"
definition kScriptNameOrSourceURL :: u32 where "kScriptNameOrSourceURL = push_bit 6 1"
definition kScriptId :: u32 where "kScriptId = push_bit 7 1"
definition kExposeFramesAcrossSecurityOrigins :: u32 where "kExposeFramesAcrossSecurityOrigins = push_bit 8 1"
definition kOverview :: u32 where "kOverview = kLineNumber OR kColumnOffset OR kScriptName OR kFunctionName"
definition kDetailed :: u32 where "kDetailed = kOverview OR kIsEval OR kIsConstructor OR kScriptNameOrSourceURL"

text \<open>The state of the machine in a sample.\<close>

datatype StateTag = JS | GC | PARSER | BYTECODE_COMPILER | COMPILER | OTHER | EXTERNAL | ATOMICS_WAIT | IDLE | LOGGING
  | IDLE_EXTERNAL

definition IsExternal :: "StateTag \<Rightarrow> bool" where "IsExternal state \<longleftrightarrow> state = EXTERNAL \<or> state = IDLE_EXTERNAL"
definition IsIdle :: "StateTag \<Rightarrow> bool" where "IsIdle state \<longleftrightarrow> state = IDLE \<or> state = IDLE_EXTERNAL"

record MemoryRange =
  range_start :: u64
  length_in_bytes :: u64

definition MemoryRange_default :: MemoryRange where "MemoryRange_default = \<lparr>range_start = 0, length_in_bytes = 0\<rparr>"

section \<open>Flags of callbacks\<close>

datatype JitEventType = CODE_ADDED | CODE_MOVED | CODE_REMOVED | CODE_ADD_LINE_POS_INFO | CODE_START_LINE_INFO_RECORDING
  | CODE_END_LINE_INFO_RECORDING
datatype PositionType = POSITION | STATEMENT_POSITION
datatype CodeType = BYTE_CODE | JIT_CODE | WASM_CODE

definition kGCTypeScavenge :: u32 where "kGCTypeScavenge = push_bit 0 1"
definition kGCTypeMinorMarkSweep :: u32 where "kGCTypeMinorMarkSweep = push_bit 1 1"
definition kGCTypeMarkSweepCompact :: u32 where "kGCTypeMarkSweepCompact = push_bit 2 1"
definition kGCTypeIncrementalMarking :: u32 where "kGCTypeIncrementalMarking = push_bit 3 1"
definition kGCTypeProcessWeakCallbacks :: u32 where "kGCTypeProcessWeakCallbacks = push_bit 4 1"
definition kGCTypeAll :: u32 where
  "kGCTypeAll = kGCTypeScavenge OR kGCTypeMinorMarkSweep OR kGCTypeMarkSweepCompact OR kGCTypeIncrementalMarking OR
     kGCTypeProcessWeakCallbacks"

definition kNoGCCallbackFlags :: u32 where "kNoGCCallbackFlags = 0"
definition kGCCallbackFlagConstructRetainedObjectInfos :: u32 where "kGCCallbackFlagConstructRetainedObjectInfos = push_bit 1 1"
definition kGCCallbackFlagForced :: u32 where "kGCCallbackFlagForced = push_bit 2 1"
definition kGCCallbackFlagSynchronousPhantomCallbackProcessing :: u32 where
  "kGCCallbackFlagSynchronousPhantomCallbackProcessing = push_bit 3 1"
definition kGCCallbackFlagCollectAllAvailableGarbage :: u32 where "kGCCallbackFlagCollectAllAvailableGarbage = push_bit 4 1"
definition kGCCallbackFlagCollectAllExternalMemory :: u32 where "kGCCallbackFlagCollectAllExternalMemory = push_bit 5 1"
definition kGCCallbackScheduleIdleGarbageCollection :: u32 where "kGCCallbackScheduleIdleGarbageCollection = push_bit 6 1"
definition kGCCallbackFlagLastResort :: u32 where "kGCCallbackFlagLastResort = push_bit 7 1"

record OOMDetails =
  is_heap_oom :: bool
  oom_detail :: u64

definition OOMDetails_default :: OOMDetails where "OOMDetails_default = \<lparr>is_heap_oom = False, oom_detail = 0\<rparr>"

datatype LogEventStatus = kStartEvent | kEndEvent | kLogEvent
datatype CrashKeySize = Size32 | Size64 | Size256 | Size1024
datatype AccessType = ACCESS_GET | ACCESS_SET | ACCESS_HAS | ACCESS_DELETE | ACCESS_KEYS
datatype WasmAsyncSuccess = kWasmSuccess | kWasmFail
datatype ModuleImportPhase = kSourcePhase | kDeferPhase | kEvaluationPhase

record ModifyCodeGenerationFromStringsResult =
  codegen_allowed :: bool
  modified_source :: u64

definition ModifyCodeGenerationFromStringsResult_default :: ModifyCodeGenerationFromStringsResult where
  "ModifyCodeGenerationFromStringsResult_default = \<lparr>codegen_allowed = False, modified_source = 0\<rparr>"

section \<open>Properties\<close>

lemma config_bit: "bit (push_bit n (1 :: u32)) m \<longleftrightarrow> m = n \<and> n < 32"
  by (auto simp: bit_simps bit_1_iff)

lemma config_bits:
  "bit (kBuildConfiguration B) 0 = PointerCompressionIsEnabled B" "bit (kBuildConfiguration B) 1 = SmiValuesAre31Bits B"
  "bit (kBuildConfiguration B) 2 = SandboxIsEnabled B" "bit (kBuildConfiguration B) 3 = kV8TargetOsIsAndroid B"
  "bit (kBuildConfiguration B) 4 = kV8EnableChecks B"
  by (simp_all add: kBuildConfiguration_def config_kPointerCompression_def config_k31BitSmis_def config_kSandbox_def
      config_kTargetOsIsAndroid_def config_kEnableChecks_def bit_or_iff config_bit del: push_bit_of_1 bit_0 push_bit_0_id)

text \<open>The number an embedder passes to the library tells every build option: a library that starts only on its own
  configuration starts exactly when all five options agree.\<close>

lemma build_configuration_exact:
  "fst (V8_Initialize (\<lambda>build_config s. (build_config = kBuildConfiguration L, s)) E s) \<longleftrightarrow>
     PointerCompressionIsEnabled E = PointerCompressionIsEnabled L \<and> SmiValuesAre31Bits E = SmiValuesAre31Bits L \<and>
     SandboxIsEnabled E = SandboxIsEnabled L \<and> kV8TargetOsIsAndroid E = kV8TargetOsIsAndroid L \<and>
     kV8EnableChecks E = kV8EnableChecks L"
proof -
  have "kBuildConfiguration E = kBuildConfiguration L" if
    "PointerCompressionIsEnabled E = PointerCompressionIsEnabled L \<and> SmiValuesAre31Bits E = SmiValuesAre31Bits L \<and>
     SandboxIsEnabled E = SandboxIsEnabled L \<and> kV8TargetOsIsAndroid E = kV8TargetOsIsAndroid L \<and>
     kV8EnableChecks E = kV8EnableChecks L"
    using that by (simp add: kBuildConfiguration_def)
  moreover have "PointerCompressionIsEnabled E = PointerCompressionIsEnabled L \<and> SmiValuesAre31Bits E = SmiValuesAre31Bits L \<and>
     SandboxIsEnabled E = SandboxIsEnabled L \<and> kV8TargetOsIsAndroid E = kV8TargetOsIsAndroid L \<and>
     kV8EnableChecks E = kV8EnableChecks L" if "kBuildConfiguration E = kBuildConfiguration L"
    using config_bits [of E] config_bits [of L] unfolding that by blast
  ultimately show ?thesis unfolding V8_Initialize_def fst_conv by (rule iffI [rotated])
qed

text \<open>A weak callback reads its two fields and no other.\<close>

lemma embedder_fields_exact:
  assumes "WeakCallbackInfo_new isolate parameter [a, b] cb = Some w"
  shows "WCI_GetInternalField w i = (if i = 0 then Some a else if i = 1 then Some b else None)"
    "WCI_GetIsolate w = isolate" "WCI_GetParameter w = parameter"
  using assms by (auto simp: WeakCallbackInfo_new_def kEmbedderFieldsInWeakCallback_def WCI_GetInternalField_def
      WCI_GetIsolate_def WCI_GetParameter_def nth_Cons' One_nat_def split: if_splits)

text \<open>A line is 0, the value for no information, exactly when the location has \<open>-1\<close>.\<close>

lemma stack_frame_lines:
  "StackFrame_GetLineNumber l = Some 0 \<longleftrightarrow> Location_GetLineNumber l = - 1"
  "StackFrame_GetColumn l = Some 0 \<longleftrightarrow> Location_GetColumnNumber l = - 1"
  by (auto simp: StackFrame_GetLineNumber_def StackFrame_GetColumn_def add_int_def INT_MIN_def INT_MAX_def)

text \<open>Asking for a column asks for a line, and the detailed trace has all of the overview.\<close>

lemma trace_options: "kColumnOffset AND kLineNumber = kLineNumber" "kDetailed AND kOverview = kOverview"
  by (rule bit_word_eqI, auto simp: kColumnOffset_def kDetailed_def bit_simps)+

text \<open>Tracing visits the references that are not empty.\<close>

lemma traced_reference_visited:
  assumes "ref_at w ref = Some s"
  shows "TracedReference_Trace Visit ref w v = Some (if s = nullptr then v else Visit ref v)"
  using assms by (simp add: TracedReference_Trace_def JSVisitor_Trace_def IsEmptyThreadSafe_def GetSlotThreadSafe_def)

text \<open>An empty handle cannot be added to a snapshot: its object is read from address 0.\<close>

lemma AddData_empty: "m 0 = None \<Longrightarrow> AddData add 0 m s = None"
proof -
  assume "m 0 = None"
  then have "\<not> mapped 8 0 m" by (auto simp: mapped_iff intro!: exI [of _ 0])
  then have "load_bytes 8 0 m = None" by (simp add: mapped_def)
  then show ?thesis
    by (auto simp: AddData_def IndirectHandle_value_def SlotAsValue_def ValueAsAddress_def load_word_def split: bind_splits)
qed

end
