(* ===== verification/V8_Direct.thy ===== *)
theory V8_Direct
  imports V8_Scopes
begin

text \<open>
  Builds with direct handles (\<open>V8_ENABLE_DIRECT_HANDLE\<close> in \<open>v8-handle-base.h\<close>, \<open>v8-local-handle.h\<close> and
  \<open>v8-internal.h\<close>): a local handle is the address of its object and not of a slot that holds it, and the empty handle
  is 1. Persistent and traced handles are indirect in both builds. A program of handles behaves alike in both.
\<close>

section \<open>Indirect handles\<close>

definition Indirect_Clear :: u64 where "Indirect_Clear = 0"
definition Indirect_repr :: "u64 \<Rightarrow> u64" where "Indirect_repr location = location"

definition kTaggedNullAddress :: u64 where "kTaggedNullAddress = 1"

text \<open>What an indirect handle is represented by in a build with direct handles.\<close>

definition Indirect_repr_direct :: "u64 \<Rightarrow> mem \<Rightarrow> u64 option" where
  "Indirect_repr_direct location m = (if location \<noteq> 0 then load_word location m else Some kTaggedNullAddress)"

section \<open>Values in a build with direct handles\<close>

definition direct_kEmpty :: u64 where "direct_kEmpty = kTaggedNullAddress"

definition direct_ValueAsAddress :: "u64 \<Rightarrow> u64" where "direct_ValueAsAddress value = value"

definition direct_SlotAsValue :: "bool \<Rightarrow> u64 \<Rightarrow> mem \<Rightarrow> u64 option" where
  "direct_SlotAsValue check_null slot m =
     (if check_null \<and> slot = 0 then Some kTaggedNullAddress else load_word slot m)"

definition direct_ValueAsRepr :: "u64 \<Rightarrow> u64" where "direct_ValueAsRepr value = value"
definition direct_ReprAsValue :: "u64 \<Rightarrow> u64" where "direct_ReprAsValue repr = repr"

definition direct_ValueHelper_IsEmpty :: "u64 \<Rightarrow> bool" where
  "direct_ValueHelper_IsEmpty value \<longleftrightarrow> direct_ValueAsRepr value = direct_kEmpty"

definition Indirect_value_direct :: "bool \<Rightarrow> u64 \<Rightarrow> mem \<Rightarrow> u64 option" where
  "Indirect_value_direct check_null location m = direct_SlotAsValue check_null location m"

section \<open>Direct handles\<close>

definition DirectHandle_default :: u64 where "DirectHandle_default = direct_kEmpty"
definition DirectHandle_IsEmpty :: "u64 \<Rightarrow> bool" where "DirectHandle_IsEmpty p \<longleftrightarrow> p = direct_kEmpty"
definition DirectHandle_Clear :: u64 where "DirectHandle_Clear = direct_kEmpty"
definition DirectHandle_ptr :: "u64 \<Rightarrow> u64" where "DirectHandle_ptr p = p"
definition DirectHandle_value :: "u64 \<Rightarrow> u64" where "DirectHandle_value p = p"
definition DirectHandle_repr :: "u64 \<Rightarrow> u64" where "DirectHandle_repr p = p"

text \<open>A handle of either sort, as the templates that compare handles take it.\<close>

datatype any_handle = IndirectH u64 | DirectH u64

fun any_IsEmpty :: "any_handle \<Rightarrow> bool" where
  "any_IsEmpty (IndirectH location) = IndirectHandle_IsEmpty location"
| "any_IsEmpty (DirectH p) = DirectHandle_IsEmpty p"

fun any_ptr :: "any_handle \<Rightarrow> mem \<Rightarrow> u64 option" where
  "any_ptr (IndirectH location) m = IndirectHandle_ptr location m"
| "any_ptr (DirectH p) m = Some (DirectHandle_ptr p)"

definition EqualHandles_any :: "any_handle \<Rightarrow> any_handle \<Rightarrow> mem \<Rightarrow> bool option" where
  "EqualHandles_any lhs rhs m =
     (if any_IsEmpty lhs then Some (any_IsEmpty rhs)
      else if any_IsEmpty rhs then Some False
      else do { x \<leftarrow> any_ptr lhs m; y \<leftarrow> any_ptr rhs m; Some (x = y) })"

section \<open>Local handles\<close>

definition directBase_New :: "u64 \<Rightarrow> u64" where "directBase_New value = value"

definition directBase_New_value :: "u64 \<Rightarrow> u64" where
  "directBase_New_value that = directBase_New (direct_ValueAsAddress that)"

definition directBase_FromSlot :: "u64 \<Rightarrow> mem \<Rightarrow> u64 option" where
  "directBase_FromSlot slot m = (if slot = 0 then Some DirectHandle_default else load_word slot m)"

definition directBase_FromRepr :: "u64 \<Rightarrow> u64" where "directBase_FromRepr repr = repr"
definition LocalBase_FromRepr :: "u64 \<Rightarrow> u64" where "LocalBase_FromRepr repr = repr"

definition Local_FromRepr :: "u64 \<Rightarrow> u64" where "Local_FromRepr repr = LocalBase_FromRepr repr"
definition direct_Local_FromRepr :: "u64 \<Rightarrow> u64" where "direct_Local_FromRepr repr = directBase_FromRepr repr"
definition direct_Local_FromAddress :: "u64 \<Rightarrow> u64" where "direct_Local_FromAddress p = p"
definition direct_Local_New :: "u64 \<Rightarrow> u64" where "direct_Local_New value = directBase_New value"
definition direct_Local_FromSlot :: "u64 \<Rightarrow> mem \<Rightarrow> u64 option" where
  "direct_Local_FromSlot slot m = directBase_FromSlot slot m"

text \<open>A new local from another, and from a persistent or traced handle, in both builds.\<close>

definition direct_Local_New_local :: "u64 \<Rightarrow> u64" where
  "direct_Local_New_local that = directBase_New_value (DirectHandle_value that)"

definition Local_New_indirect :: "'x scope_lib_scheme \<Rightarrow> u64 \<Rightarrow> u64 \<Rightarrow> mem \<Rightarrow> (u64 \<times> mem) option" where
  "Local_New_indirect R isolate that m = LocalBase_New_value R isolate (IndirectHandle_value that) m"

definition direct_Local_New_indirect :: "u64 \<Rightarrow> mem \<Rightarrow> u64 option" where
  "direct_Local_New_indirect that m = do { v \<leftarrow> Indirect_value_direct True that m; Some (directBase_New_value v) }"

definition direct_Local_eq :: "u64 \<Rightarrow> u64 \<Rightarrow> mem \<Rightarrow> bool option" where
  "direct_Local_eq this that m = EqualHandles_any (DirectH this) (DirectH that) m"

definition direct_Local_neq :: "u64 \<Rightarrow> u64 \<Rightarrow> mem \<Rightarrow> bool option" where
  "direct_Local_neq this that m = map_option Not (direct_Local_eq this that m)"

text \<open>Comparison with a persistent or traced handle, the local on the left.\<close>

definition Local_eq_indirect :: "u64 \<Rightarrow> u64 \<Rightarrow> mem \<Rightarrow> bool option" where
  "Local_eq_indirect this that m = EqualHandles_any (IndirectH this) (IndirectH that) m"

definition direct_Local_eq_indirect :: "u64 \<Rightarrow> u64 \<Rightarrow> mem \<Rightarrow> bool option" where
  "direct_Local_eq_indirect this that m = EqualHandles_any (DirectH this) (IndirectH that) m"

definition Local_neq_persistent :: "u64 \<Rightarrow> u64 \<Rightarrow> mem \<Rightarrow> bool option" where
  "Local_neq_persistent this that m = map_option Not (Local_eq_indirect this that m)"

text \<open>The same with the other handle on the left; \<open>local\<close> is of either sort.\<close>

definition persistent_eq_local :: "u64 \<Rightarrow> any_handle \<Rightarrow> mem \<Rightarrow> bool option" where
  "persistent_eq_local this that m = EqualHandles_any (IndirectH this) that m"

definition persistent_neq_local :: "u64 \<Rightarrow> any_handle \<Rightarrow> mem \<Rightarrow> bool option" where
  "persistent_neq_local this that m = map_option Not (persistent_eq_local this that m)"

definition persistent_eq :: "u64 \<Rightarrow> u64 \<Rightarrow> mem \<Rightarrow> bool option" where
  "persistent_eq this that m = EqualHandles_any (IndirectH this) (IndirectH that) m"

definition persistent_neq :: "u64 \<Rightarrow> u64 \<Rightarrow> mem \<Rightarrow> bool option" where
  "persistent_neq this that m = map_option Not (persistent_eq this that m)"

definition traced_eq_local :: "u64 \<Rightarrow> any_handle \<Rightarrow> mem \<Rightarrow> bool option" where
  "traced_eq_local lhs rhs m = EqualHandles_any (IndirectH lhs) rhs m"

definition local_eq_traced :: "any_handle \<Rightarrow> u64 \<Rightarrow> mem \<Rightarrow> bool option" where
  "local_eq_traced lhs rhs m = traced_eq_local rhs lhs m"

definition traced_neq_local :: "u64 \<Rightarrow> any_handle \<Rightarrow> mem \<Rightarrow> bool option" where
  "traced_neq_local lhs rhs m = map_option Not (traced_eq_local lhs rhs m)"

definition local_neq_traced :: "any_handle \<Rightarrow> u64 \<Rightarrow> mem \<Rightarrow> bool option" where
  "local_neq_traced lhs rhs m = map_option Not (traced_eq_local rhs lhs m)"

text \<open>With direct handles a scope has nothing to do for a handle that escapes it.\<close>

definition direct_Escape :: "u64 \<Rightarrow> u64" where "direct_Escape value = value"

section \<open>Persistent handles from handles\<close>

text \<open>\<open>G\<close> is the library's \<open>GlobalizeReference\<close>.\<close>

definition persistent_New_value :: "(u64 \<Rightarrow> u64 \<Rightarrow> mem \<Rightarrow> (u64 \<times> mem) option) \<Rightarrow> u64 \<Rightarrow> u64 \<Rightarrow> mem \<Rightarrow> (u64 \<times> mem) option" where
  "persistent_New_value G isolate that m =
     (if ValueHelper_IsEmpty that then Some (0, m) else do { v \<leftarrow> ValueAsAddress that m; G isolate v m })"

definition direct_persistent_New_value ::
    "(u64 \<Rightarrow> u64 \<Rightarrow> mem \<Rightarrow> (u64 \<times> mem) option) \<Rightarrow> u64 \<Rightarrow> u64 \<Rightarrow> mem \<Rightarrow> (u64 \<times> mem) option" where
  "direct_persistent_New_value G isolate that m =
     (if direct_ValueHelper_IsEmpty that then Some (0, m) else G isolate (direct_ValueAsAddress that) m)"

definition Global_from_local :: "(u64 \<Rightarrow> u64 \<Rightarrow> mem \<Rightarrow> (u64 \<times> mem) option) \<Rightarrow> u64 \<Rightarrow> u64 \<Rightarrow> mem \<Rightarrow> (u64 \<times> mem) option" where
  "Global_from_local G isolate that m = persistent_New_value G isolate (IndirectHandle_value that) m"

definition direct_Global_from_local ::
    "(u64 \<Rightarrow> u64 \<Rightarrow> mem \<Rightarrow> (u64 \<times> mem) option) \<Rightarrow> u64 \<Rightarrow> u64 \<Rightarrow> mem \<Rightarrow> (u64 \<times> mem) option" where
  "direct_Global_from_local G isolate that m = direct_persistent_New_value G isolate (DirectHandle_value that) m"

text \<open>From a persistent handle: the value is read without a check for null.\<close>

definition Global_from_persistent ::
    "(u64 \<Rightarrow> u64 \<Rightarrow> mem \<Rightarrow> (u64 \<times> mem) option) \<Rightarrow> u64 \<Rightarrow> u64 \<Rightarrow> mem \<Rightarrow> (u64 \<times> mem) option" where
  "Global_from_persistent G isolate that m = persistent_New_value G isolate (IndirectHandle_value that) m"

definition direct_Global_from_persistent ::
    "(u64 \<Rightarrow> u64 \<Rightarrow> mem \<Rightarrow> (u64 \<times> mem) option) \<Rightarrow> u64 \<Rightarrow> u64 \<Rightarrow> mem \<Rightarrow> (u64 \<times> mem) option" where
  "direct_Global_from_persistent G isolate that m =
     do { v \<leftarrow> Indirect_value_direct False that m; direct_persistent_New_value G isolate v m }"

section \<open>Programs of local handles\<close>

text \<open>What a program does with its variables of type \<open>Local\<close>: \<open>NewIndirect\<close> is from a persistent or traced handle,
  whose location is given.\<close>

datatype handle_op = NewAddress nat u64 | NewLocal nat nat | NewIndirect nat u64 | TakeSlot nat u64 | CopyLocal nat nat
  | ClearLocal nat

fun step_indirect :: "'x scope_lib_scheme \<Rightarrow> u64 \<Rightarrow> handle_op \<Rightarrow> (nat \<Rightarrow> u64) \<times> mem \<Rightarrow> ((nat \<Rightarrow> u64) \<times> mem) option" where
  "step_indirect R isolate (NewAddress v x) (e, m) = do { (h, m') \<leftarrow> Local_New R isolate x m; Some (e(v := h), m') }"
| "step_indirect R isolate (NewLocal v w) (e, m) = do { (h, m') \<leftarrow> Local_New_local R isolate (e w) m; Some (e(v := h), m') }"
| "step_indirect R isolate (NewIndirect v p) (e, m) = do { (h, m') \<leftarrow> Local_New_indirect R isolate p m; Some (e(v := h), m') }"
| "step_indirect R isolate (TakeSlot v s) (e, m) = Some (e(v := Local_FromSlot s), m)"
| "step_indirect R isolate (CopyLocal v w) (e, m) = Some (e(v := e w), m)"
| "step_indirect R isolate (ClearLocal v) (e, m) = Some (e(v := Indirect_Clear), m)"

text \<open>With direct handles no operation writes to memory.\<close>

fun step_direct :: "handle_op \<Rightarrow> (nat \<Rightarrow> u64) \<Rightarrow> mem \<Rightarrow> (nat \<Rightarrow> u64) option" where
  "step_direct (NewAddress v x) d m = Some (d(v := direct_Local_New x))"
| "step_direct (NewLocal v w) d m = Some (d(v := direct_Local_New_local (d w)))"
| "step_direct (NewIndirect v p) d m = do { h \<leftarrow> direct_Local_New_indirect p m; Some (d(v := h)) }"
| "step_direct (TakeSlot v s) d m = do { h \<leftarrow> direct_Local_FromSlot s m; Some (d(v := h)) }"
| "step_direct (CopyLocal v w) d m = Some (d(v := d w))"
| "step_direct (ClearLocal v) d m = Some (d(v := DirectHandle_Clear))"

fun run_indirect :: "'x scope_lib_scheme \<Rightarrow> u64 \<Rightarrow> handle_op list \<Rightarrow> (nat \<Rightarrow> u64) \<times> mem \<Rightarrow> ((nat \<Rightarrow> u64) \<times> mem) option" where
  "run_indirect R isolate [] s = Some s"
| "run_indirect R isolate (c # cs) s = do { s1 \<leftarrow> step_indirect R isolate c s; run_indirect R isolate cs s1 }"

fun run_direct :: "handle_op list \<Rightarrow> (nat \<Rightarrow> u64) \<Rightarrow> mem \<Rightarrow> (nat \<Rightarrow> u64) option" where
  "run_direct [] d m = Some d"
| "run_direct (c # cs) d m = do { d1 \<leftarrow> step_direct c d m; run_direct cs d1 m }"

text \<open>The addresses and cells a program uses hold objects, and no object has the address of the empty handle.\<close>

fun op_ok :: "u64 set \<Rightarrow> mem \<Rightarrow> handle_op \<Rightarrow> bool" where
  "op_ok E m (NewAddress v x) \<longleftrightarrow> x \<noteq> kTaggedNullAddress"
| "op_ok E m (NewIndirect v p) \<longleftrightarrow> p = 0 \<or> p \<in> E \<and> load_word p m \<noteq> Some kTaggedNullAddress \<and> (load_word p m :: u64 option) \<noteq> None"
| "op_ok E m (TakeSlot v s) \<longleftrightarrow> s = 0 \<or> s \<in> E \<and> load_word s m \<noteq> Some kTaggedNullAddress \<and> (load_word s m :: u64 option) \<noteq> None"
| "op_ok E m _ \<longleftrightarrow> True"

text \<open>The two handles are for the same object, or both empty.\<close>

definition same_object :: "u64 \<Rightarrow> mem \<Rightarrow> u64 \<Rightarrow> bool" where
  "same_object l m d \<longleftrightarrow>
     (if IndirectHandle_IsEmpty l then DirectHandle_IsEmpty d
      else IndirectHandle_ptr l m = Some (DirectHandle_ptr d) \<and> \<not> DirectHandle_IsEmpty d)"

text \<open>The states of the two builds, where \<open>ok S m\<close> says that the cells \<open>S\<close> are in use: every variable has a cell in use
  and the same object in both, and the cells \<open>E\<close> of other handles have not changed.\<close>

definition related ::
    "(u64 set \<Rightarrow> mem \<Rightarrow> bool) \<Rightarrow> u64 set \<Rightarrow> mem \<Rightarrow> (nat \<Rightarrow> u64) \<times> mem \<Rightarrow> (nat \<Rightarrow> u64) \<Rightarrow> bool" where
  "related ok E m0 em d \<longleftrightarrow> (\<exists>S. ok S (snd em) \<and> E \<subseteq> S \<and> (\<forall>v. fst em v = 0 \<or> fst em v \<in> S) \<and>
     (\<forall>v. same_object (fst em v) (snd em) (d v)) \<and> (\<forall>s\<in>E. load_word s (snd em) = (load_word s m0 :: u64 option)))"

section \<open>What a place for handles promises\<close>

text \<open>\<open>ok S m\<close>: the cells \<open>S\<close> are in use. A new handle has a cell of its own, and the other cells keep their contents.\<close>

locale handle_arena =
  fixes R :: "'x scope_lib_scheme" and isolate :: u64 and ok :: "u64 set \<Rightarrow> mem \<Rightarrow> bool"
  assumes fresh: "\<And>S m v h m'. ok S m \<Longrightarrow> CreateHandle R isolate v m = Some (h, m') \<Longrightarrow>
      h \<noteq> 0 \<and> h \<notin> S \<and> load_word h m' = Some v \<and> (\<forall>s\<in>S. load_word s m' = (load_word s m :: u64 option)) \<and> ok (insert h S) m'"
begin

lemma related_same: "related ok E m0 (e, m) d \<Longrightarrow> same_object (e v) m (d v)"
  by (auto simp: related_def)

lemma related_upd:
  assumes "related ok E m0 (e, m) d" "same_object x m y" "x = 0 \<or> x \<in> E \<or> (\<exists>w. x = e w)"
  shows "related ok E m0 (e(v := x), m) (d(v := y))"
proof -
  obtain S where S: "ok S m" "E \<subseteq> S" "\<forall>v. e v = 0 \<or> e v \<in> S" "\<forall>v. same_object (e v) m (d v)"
    "\<forall>s\<in>E. load_word s m = (load_word s m0 :: u64 option)"
    using assms(1) by (auto simp: related_def)
  have "x = 0 \<or> x \<in> S" using assms(3) S(2,3) by blast
  with S assms(2) show ?thesis unfolding related_def by (intro exI [of _ S]) simp
qed

lemma related_create:
  assumes rel: "related ok E m0 (e, m) d" and create: "CreateHandle R isolate x m = Some (h, m')"
    and x: "x \<noteq> kTaggedNullAddress"
  shows "related ok E m0 (e(v := h), m') (d(v := x))"
proof -
  obtain S where S: "ok S m" "E \<subseteq> S" "\<forall>v. e v = 0 \<or> e v \<in> S" "\<forall>v. same_object (e v) m (d v)"
    "\<forall>s\<in>E. load_word s m = (load_word s m0 :: u64 option)"
    using rel by (auto simp: related_def)
  note f = fresh [OF S(1) create]
  have same: "same_object (e w) m' (d w)" for w
    using S(3)[rule_format, of w] S(4)[rule_format, of w] f
    by (simp add: same_object_def IndirectHandle_ptr_def IndirectHandle_IsEmpty_def split: if_splits)
  have "same_object h m' x"
    using f x by (simp add: same_object_def IndirectHandle_ptr_def IndirectHandle_IsEmpty_def DirectHandle_ptr_def
        DirectHandle_IsEmpty_def direct_kEmpty_def)
  with S f same show ?thesis unfolding related_def by (intro exI [of _ "insert h S"]) auto
qed

lemmas step_defs = Local_New_def LocalBase_New_def Local_New_local_def Local_New_indirect_def LocalBase_New_value_def
  ValueHelper_IsEmpty_def ValueAsRepr_def ValueHelper_kEmpty_def IndirectHandle_value_def SlotAsValue_def ValueAsAddress_def
  Local_FromSlot_def LocalBase_FromSlot_def Indirect_Clear_def

lemmas direct_defs = direct_Local_New_def directBase_New_def direct_Local_New_local_def directBase_New_value_def
  direct_ValueAsAddress_def DirectHandle_value_def direct_Local_New_indirect_def Indirect_value_direct_def
  direct_SlotAsValue_def direct_Local_FromSlot_def directBase_FromSlot_def DirectHandle_default_def DirectHandle_Clear_def

lemmas same_defs = same_object_def IndirectHandle_ptr_def IndirectHandle_IsEmpty_def DirectHandle_ptr_def
  DirectHandle_IsEmpty_def direct_kEmpty_def

lemma empty_same: "same_object 0 m direct_kEmpty" by (simp add: same_defs)

lemma empty_same_tagged: "same_object 0 m kTaggedNullAddress" by (simp add: same_defs)

lemma cell_same:
  assumes "related ok E m0 (e, m) d" "s \<in> E" "s \<noteq> 0" "load_word s m0 = Some x" "x \<noteq> kTaggedNullAddress"
  shows "same_object s m x" "load_word s m = Some x"
  using assms by (auto simp: related_def same_defs)

lemma step_related:
  assumes rel: "related ok E m0 (e, m) d" and "op_ok E m0 c" "step_indirect R isolate c (e, m) = Some em"
  shows "\<exists>d1. step_direct c d m0 = Some d1 \<and> related ok E m0 em d1"
  using assms(2,3)
proof (cases c)
  case (NewAddress v x)
  with assms(2,3) related_create [OF rel] show ?thesis by (auto simp: step_defs direct_defs run_simps)
next
  case (NewLocal v w)
  show ?thesis
  proof (cases "e w = 0")
    case True
    then have "d w = kTaggedNullAddress" using related_same [OF rel, of w] by (simp add: same_defs)
    with NewLocal True assms(3) related_upd [OF rel empty_same_tagged] show ?thesis by (auto simp: step_defs direct_defs)
  next
    case False
    then have "load_word (e w) m = Some (d w)" "d w \<noteq> kTaggedNullAddress"
      using related_same [OF rel, of w] by (simp_all add: same_defs)
    with NewLocal False assms(3) related_create [OF rel] show ?thesis by (auto simp: step_defs direct_defs run_simps)
  qed
next
  case (NewIndirect v p)
  show ?thesis
  proof (cases "p = 0")
    case True
    with NewIndirect assms(3) related_upd [OF rel empty_same_tagged] show ?thesis by (auto simp: step_defs direct_defs)
  next
    case False
    with NewIndirect assms(2) obtain x where x: "p \<in> E" "load_word p m0 = Some x" "x \<noteq> kTaggedNullAddress" by auto
    with NewIndirect False assms(3) cell_same [OF rel x(1) False x(2,3)] related_create [OF rel] show ?thesis
      by (auto simp: step_defs direct_defs run_simps)
  qed
next
  case (TakeSlot v s)
  show ?thesis
  proof (cases "s = 0")
    case True
    with TakeSlot assms(3) related_upd [OF rel empty_same] show ?thesis by (auto simp: step_defs direct_defs)
  next
    case False
    with TakeSlot assms(2) obtain x where x: "s \<in> E" "load_word s m0 = Some x" "x \<noteq> kTaggedNullAddress" by auto
    with TakeSlot False assms(3) related_upd [OF rel cell_same(1) [OF rel x(1) False x(2,3)]] show ?thesis
      by (auto simp: step_defs direct_defs)
  qed
next
  case (CopyLocal v w)
  with assms(3) related_upd [OF rel related_same [OF rel]] show ?thesis by auto
next
  case (ClearLocal v)
  with assms(3) related_upd [OF rel empty_same] show ?thesis by (auto simp: step_defs direct_defs)
qed

lemma run_related:
  assumes "related ok E m0 em d" "\<forall>c\<in>set cs. op_ok E m0 c" "run_indirect R isolate cs em = Some em'"
  shows "\<exists>d'. run_direct cs d m0 = Some d' \<and> related ok E m0 em' d'"
  using assms
proof (induction cs arbitrary: em d)
  case (Cons c cs)
  obtain e m where em: "em = (e, m)" by (cases em)
  from Cons.prems(3) obtain em1 where run: "step_indirect R isolate c em = Some em1" "run_indirect R isolate cs em1 = Some em'"
    by (auto split: bind_splits)
  obtain d1 where d1: "step_direct c d m0 = Some d1" "related ok E m0 em1 d1"
    using step_related [OF Cons.prems(1)[unfolded em] _ run(1)[unfolded em]] Cons.prems(2) by auto
  from Cons.IH [OF d1(2) _ run(2)] Cons.prems(2) d1(1) show ?case by auto
qed simp

lemma related_equal:
  assumes "related ok E m0 (e, m) d"
  shows "Local_eq (e v) (e w) m = direct_Local_eq (d v) (d w) m0"
  using related_same [OF assms, of v] related_same [OF assms, of w]
  by (auto simp: Local_eq_def EqualHandles_def direct_Local_eq_def EqualHandles_any_def same_defs split: if_splits)

lemma related_equal_indirect:
  assumes "related ok E m0 (e, m) d" "p = 0 \<or> p \<in> E"
  shows "Local_eq_indirect (e v) p m = direct_Local_eq_indirect (d v) p m0"
proof -
  have "p \<noteq> 0 \<Longrightarrow> load_word p m = (load_word p m0 :: u64 option)" using assms by (auto simp: related_def)
  then show ?thesis
    using related_same [OF assms(1), of v]
    by (auto simp: Local_eq_indirect_def direct_Local_eq_indirect_def EqualHandles_any_def same_defs split: if_splits)
qed

end

section \<open>The current block of a handle scope\<close>

text \<open>A new handle writes to the scope data and to its own slot.\<close>

lemma CreateHandle_frame:
  assumes "CreateHandle R isolate v m = Some (h, m')" "\<And>m. Extend R isolate m = None"
    "apart (GetHandleScopeData isolate) 8 s 8" "apart h 8 s 8"
  shows "load_word s m' = (load_word s m :: u64 option)"
proof -
  obtain m1 where m: "store_word (GetHandleScopeData isolate) (h + 8) m = Some m1" "store_word h v m1 = Some m'"
    using assms(1) by (auto simp: CreateHandle_def Let_def run_simps assms(2) split: if_splits)
  show ?thesis using u64_access.ld_frame [OF m(1) assms(3)] u64_access.ld_frame [OF m(2) assms(4)] by simp
qed

lemma slot_at_inj:
  assumes "slot_at lo i = slot_at lo j" "i < 2 ^ 60" "j < 2 ^ 60"
  shows "i = j"
  using slots_apart [of i j lo] assms by (cases "i = j") (auto simp: apart_def)

text \<open>The cells \<open>E\<close> of other handles are neither in the scope data nor in the block.\<close>

definition cells_apart :: "u64 \<Rightarrow> u64 \<Rightarrow> nat \<Rightarrow> u64 set \<Rightarrow> bool" where
  "cells_apart isolate lo k E \<longleftrightarrow>
     (\<forall>s\<in>E. s \<noteq> 0 \<and> apart (GetHandleScopeData isolate) 8 s 8 \<and> (\<forall>i<k. apart (slot_at lo i) 8 s 8))"

definition arena_ok :: "'x scope_lib_scheme \<Rightarrow> u64 \<Rightarrow> u64 \<Rightarrow> nat \<Rightarrow> u64 set \<Rightarrow> u64 set \<Rightarrow> mem \<Rightarrow> bool" where
  "arena_ok R isolate lo k E S m \<longleftrightarrow>
     (\<forall>m. Extend R isolate m = None) \<and> block_apart isolate lo k \<and> k < 2 ^ 60 \<and> (\<forall>i<k. slot_at lo i \<noteq> 0) \<and>
     cells_apart isolate lo k E \<and> scope_limit isolate m = Some (slot_at lo k) \<and>
     (\<exists>j\<le>k. scope_next isolate m = Some (slot_at lo j) \<and> S \<subseteq> E \<union> slot_at lo ` {..<j})"

lemma arena_fresh:
  assumes ok: "arena_ok R isolate lo k E S m" and create: "CreateHandle R isolate v m = Some (h, m')"
  shows "h \<noteq> 0 \<and> h \<notin> S \<and> load_word h m' = Some v \<and> (\<forall>s\<in>S. load_word s m' = (load_word s m :: u64 option)) \<and>
    arena_ok R isolate lo k E (insert h S) m'"
proof -
  from ok obtain j where j: "j \<le> k" "scope_next isolate m = Some (slot_at lo j)" "S \<subseteq> E \<union> slot_at lo ` {..<j}"
    and a: "\<And>m. Extend R isolate m = None" "block_apart isolate lo k" "k < 2 ^ 60" "\<And>i. i < k \<Longrightarrow> slot_at lo i \<noteq> 0"
    "cells_apart isolate lo k E" "scope_limit isolate m = Some (slot_at lo k)"
    unfolding arena_ok_def by blast
  have "in_block isolate lo k m" using j(1,2) a(6) by (auto simp: in_block_def)
  note e = CreateHandle_effect [OF create a(1,2) this]
  from e(1) obtain i where i: "i < k" "h = slot_at lo i" "scope_next isolate m = Some h"
    "scope_next isolate m' = Some (slot_at lo (Suc i))" by blast
  have "slot_at lo i = slot_at lo j" using i(2,3) j(2) by simp
  then have ij: "i = j" by (rule slot_at_inj [OF _ less_trans [OF i(1) a(3)] le_less_trans [OF j(1) a(3)]])
  have apart: "apart (GetHandleScopeData isolate) 8 s 8 \<and> apart h 8 s 8" if "s \<in> S" for s
  proof (cases "s \<in> E")
    case True
    with a(5) i(1,2) show ?thesis by (simp add: cells_apart_def)
  next
    case False
    with that j(3) obtain n where n: "n < j" "s = slot_at lo n" by auto
    with ij i a(2,3) slots_apart [of i n lo] show ?thesis
      by (auto simp: block_apart_def Let_def apart_sym)
  qed
  have "\<not> apart h 8 h 8" by (simp add: apart_def)
  with apart have "h \<notin> S" by blast
  moreover have "load_word s m' = (load_word s m :: u64 option)" if "s \<in> S" for s
    using CreateHandle_frame [OF create a(1)] apart [OF that] by blast
  moreover have "arena_ok R isolate lo k E (insert h S) m'"
    using a e(2) i ij j by (auto simp: arena_ok_def intro!: exI [of _ "Suc i"])
  ultimately show ?thesis using i(1,2) a(4) e(4) by (simp add: IndirectHandle_ptr_def)
qed

interpretation scope_arena: handle_arena R isolate "arena_ok R isolate lo k E" for R isolate lo k E
  by unfold_locales (rule arena_fresh)

section \<open>Properties\<close>


text \<open>C21: in a build with direct handles a \<open>Global\<close> made from an empty persistent handle reads through a null pointer,
  where the other builds give an empty \<open>Global\<close>; from a handle that is not empty both make the same call.\<close>

theorem global_from_empty:
  assumes "load_word 0 m = (None :: u64 option)"
  shows "Global_from_persistent G isolate 0 m = Some (0, m) \<and> direct_Global_from_persistent G isolate 0 m = None \<and>
    (\<forall>p v. p \<noteq> 0 \<and> load_word p m = Some v \<and> v \<noteq> kTaggedNullAddress \<longrightarrow>
       direct_Global_from_persistent G isolate p m = Global_from_persistent G isolate p m)"
  using assms
  by (auto simp: Global_from_persistent_def direct_Global_from_persistent_def persistent_New_value_def
      direct_persistent_New_value_def Indirect_value_direct_def direct_SlotAsValue_def ValueHelper_IsEmpty_def
      ValueAsRepr_def ValueHelper_kEmpty_def IndirectHandle_value_def SlotAsValue_def ValueAsAddress_def
      direct_ValueHelper_IsEmpty_def direct_ValueAsRepr_def direct_kEmpty_def direct_ValueAsAddress_def)

text \<open>A local read back from its representation is the local, in both builds; an indirect handle is represented as the
  direct local made from it.\<close>

lemma repr_roundtrip:
  "Local_FromRepr (Indirect_repr l) = l" "direct_Local_FromRepr (DirectHandle_repr d) = d"
  "Indirect_repr_direct l m = direct_Local_New_indirect l m"
  by (auto simp: Local_FromRepr_def LocalBase_FromRepr_def Indirect_repr_def direct_Local_FromRepr_def directBase_FromRepr_def
      DirectHandle_repr_def Indirect_repr_direct_def direct_Local_New_indirect_def Indirect_value_direct_def
      direct_SlotAsValue_def directBase_New_value_def directBase_New_def direct_ValueAsAddress_def split: bind_splits)

text \<open>Comparison is symmetric, whatever the sorts of the handles.\<close>

lemma EqualHandles_any_sym: "EqualHandles_any a b m = EqualHandles_any b a m"
  by (cases a; cases b) (auto simp: EqualHandles_any_def split: option.splits bind_splits)

lemma traced_comparisons_sym: "local_eq_traced l t m = traced_eq_local t l m" "local_neq_traced l t m = traced_neq_local t l m"
  by (simp_all add: local_eq_traced_def local_neq_traced_def traced_neq_local_def)

section \<open>Witnesses\<close>


theorem global_from_empty_witness:
  "Global_from_persistent (\<lambda>_ v m. Some (v, m)) 4096 0 (\<lambda>_. None) = Some (0, \<lambda>_. None) \<and>
   direct_Global_from_persistent (\<lambda>_ v m. Some (v, m)) 4096 0 (\<lambda>_. None) = None"
proof -
  have "\<not> mapped 8 0 (\<lambda>_. None)" by (auto simp: mapped_iff intro!: exI [of _ 0])
  then have "load_word 0 (\<lambda>_. None) = (None :: u64 option)" by (simp add: load_word_def mapped_def)
  from global_from_empty [OF this, of "\<lambda>_ v m. Some (v, m)" 4096] show ?thesis by simp
qed

end
