(* ===== verification/V8_Objects.thy ===== *)
theory V8_Objects
  imports V8_Access V8_Util
begin

text \<open>
  The rest of the inline code on objects and contexts: \<open>Wrap\<close> and the accessors that take persistent and traced handles
  (\<open>v8-object.h\<close>), contexts and their scopes (\<open>v8-context.h\<close>), \<open>Maybe<void>\<close> (\<open>v8-maybe.h\<close>), array buffers
  (\<open>v8-array-buffer.h\<close>), and the maps with weak callbacks of two passes, \<open>GlobalValueMap\<close> (\<open>v8-util.h\<close>).
\<close>

section \<open>Wrapping\<close>

text \<open>The library's \<open>Wrap\<close> gets the address of the object.\<close>

type_synonym wrap_lib = "u64 \<Rightarrow> u64 \<Rightarrow> u16 \<Rightarrow> u64 \<Rightarrow> mem \<Rightarrow> mem option"

definition Object_Wrap :: "wrap_lib \<Rightarrow> u64 \<Rightarrow> u64 \<Rightarrow> u64 \<Rightarrow> u16 \<Rightarrow> mem \<Rightarrow> mem option" where
  "Object_Wrap Wrap isolate wrapper wrappable tag m =
     do { ob \<leftarrow> ValueAsAddress wrapper m; Wrap isolate ob tag wrappable m }"

definition Object_Wrap_tag :: "wrap_lib \<Rightarrow> u16 \<Rightarrow> u64 \<Rightarrow> u64 \<Rightarrow> u64 \<Rightarrow> mem \<Rightarrow> mem option" where
  "Object_Wrap_tag Wrap tag isolate wrapper wrappable m =
     do { ob \<leftarrow> ValueAsAddress wrapper m; Wrap isolate ob tag wrappable m }"

definition Object_Wrap_persistent :: "wrap_lib \<Rightarrow> u64 \<Rightarrow> u64 \<Rightarrow> u64 \<Rightarrow> u16 \<Rightarrow> mem \<Rightarrow> mem option" where
  "Object_Wrap_persistent Wrap isolate wrapper wrappable tag m =
     do { ob \<leftarrow> ValueAsAddress (IndirectHandle_value wrapper) m; Wrap isolate ob tag wrappable m }"

definition Object_Wrap_persistent_tag :: "wrap_lib \<Rightarrow> u16 \<Rightarrow> u64 \<Rightarrow> u64 \<Rightarrow> u64 \<Rightarrow> mem \<Rightarrow> mem option" where
  "Object_Wrap_persistent_tag Wrap tag isolate wrapper wrappable m =
     do { ob \<leftarrow> ValueAsAddress (IndirectHandle_value wrapper) m; Wrap isolate ob tag wrappable m }"

definition Object_Wrap_traced :: "wrap_lib \<Rightarrow> u64 \<Rightarrow> u64 \<Rightarrow> u64 \<Rightarrow> u16 \<Rightarrow> mem \<Rightarrow> mem option" where
  "Object_Wrap_traced Wrap isolate wrapper wrappable tag m =
     do { ob \<leftarrow> ValueAsAddress (IndirectHandle_value wrapper) m; Wrap isolate ob tag wrappable m }"

definition Object_Wrap_traced_tag :: "wrap_lib \<Rightarrow> u16 \<Rightarrow> u64 \<Rightarrow> u64 \<Rightarrow> u64 \<Rightarrow> mem \<Rightarrow> mem option" where
  "Object_Wrap_traced_tag Wrap tag isolate wrapper wrappable m =
     do { ob \<leftarrow> ValueAsAddress (IndirectHandle_value wrapper) m; Wrap isolate ob tag wrappable m }"

definition Object_Unwrap_traced :: "u64 \<Rightarrow> u64 \<Rightarrow> TagRange \<Rightarrow> mem \<Rightarrow> u64 option" where
  "Object_Unwrap_traced isolate wrapper tag_range m =
     do { ob \<leftarrow> ValueAsAddress (IndirectHandle_value wrapper) m;
          ReadCppHeapPointerField isolate ob kJSObjectHeaderSize tag_range m }"

definition Object_Unwrap_traced_tag :: "u16 \<Rightarrow> u64 \<Rightarrow> u64 \<Rightarrow> mem \<Rightarrow> u64 option" where
  "Object_Unwrap_traced_tag tag isolate wrapper m =
     (let tag_range = TagRange tag tag in
      do { ob \<leftarrow> ValueAsAddress (IndirectHandle_value wrapper) m;
           ReadCppHeapPointerField isolate ob kJSObjectHeaderSize tag_range m })"

text \<open>The defaults of \<open>Wrappable\<close>.\<close>

definition GetWrapperTypeInfo :: u64 where "GetWrapperTypeInfo = 0"
definition GetHumanReadableName :: string where "GetHumanReadableName = ''internal''"
definition Wrappable_Trace :: "'v \<Rightarrow> 'v" where "Wrappable_Trace visitor = visitor"

section \<open>Objects through persistent and traced handles\<close>

definition kEmbedderDataTypeTagDefault :: u16 where "kEmbedderDataTypeTagDefault = 0"

text \<open>\<open>F\<close> is the library's function on the object.\<close>

definition InternalFieldCount_persistent :: "(u64 \<Rightarrow> mem \<Rightarrow> int option) \<Rightarrow> u64 \<Rightarrow> mem \<Rightarrow> int option" where
  "InternalFieldCount_persistent F ob m = F (IndirectHandle_value ob) m"

definition InternalFieldCount_traced :: "(u64 \<Rightarrow> mem \<Rightarrow> int option) \<Rightarrow> u64 \<Rightarrow> mem \<Rightarrow> int option" where
  "InternalFieldCount_traced F ob m = F (IndirectHandle_value ob) m"

definition GetAlignedPointer_persistent :: "'x access_lib_scheme \<Rightarrow> u64 \<Rightarrow> int \<Rightarrow> u16 \<Rightarrow> mem \<Rightarrow> u64 option" where
  "GetAlignedPointer_persistent R ob index tag m =
     GetAlignedPointerFromInternalField_current R (IndirectHandle_value ob) index tag m"

definition GetAlignedPointer_traced :: "'x access_lib_scheme \<Rightarrow> u64 \<Rightarrow> int \<Rightarrow> u16 \<Rightarrow> mem \<Rightarrow> u64 option" where
  "GetAlignedPointer_traced R ob index tag m =
     GetAlignedPointerFromInternalField_current R (IndirectHandle_value ob) index tag m"

definition GetCreationContext_persistent :: "(u64 \<Rightarrow> u64 \<Rightarrow> mem \<Rightarrow> u64) \<Rightarrow> u64 \<Rightarrow> u64 \<Rightarrow> mem \<Rightarrow> u64" where
  "GetCreationContext_persistent F isolate ob m = F (IndirectHandle_value ob) isolate m"

definition SetNativeDataProperty_null :: "(u64 \<Rightarrow> u64 \<Rightarrow> 'a) \<Rightarrow> u64 \<Rightarrow> 'a" where
  "SetNativeDataProperty_null F getter = F getter 0"

definition GetPrototypeV2 :: "(u64 \<Rightarrow> 's \<Rightarrow> u64 \<times> 's) \<Rightarrow> u64 \<Rightarrow> 's \<Rightarrow> u64 \<times> 's" where
  "GetPrototypeV2 GetPrototype this s = GetPrototype this s"

definition SetPrototypeV2 :: "(u64 \<Rightarrow> u64 \<Rightarrow> u64 \<Rightarrow> 's \<Rightarrow> bool Maybe \<times> 's) \<Rightarrow> u64 \<Rightarrow> u64 \<Rightarrow> u64 \<Rightarrow> 's \<Rightarrow> bool Maybe \<times> 's" where
  "SetPrototypeV2 SetPrototype this ctx prototype s = SetPrototype this ctx prototype s"

definition attr_None :: u32 where "attr_None = 0"
definition attr_ReadOnly :: u32 where "attr_ReadOnly = push_bit 0 1"
definition attr_DontEnum :: u32 where "attr_DontEnum = push_bit 1 1"
definition attr_DontDelete :: u32 where "attr_DontDelete = push_bit 2 1"

definition ALL_PROPERTIES :: u32 where "ALL_PROPERTIES = 0"
definition ONLY_WRITABLE :: u32 where "ONLY_WRITABLE = 1"
definition ONLY_ENUMERABLE :: u32 where "ONLY_ENUMERABLE = 2"
definition ONLY_CONFIGURABLE :: u32 where "ONLY_CONFIGURABLE = 4"
definition SKIP_STRINGS :: u32 where "SKIP_STRINGS = 8"
definition SKIP_SYMBOLS :: u32 where "SKIP_SYMBOLS = 16"

datatype SideEffectType = kHasSideEffect | kHasNoSideEffect | kHasSideEffectToReceiver
datatype KeyCollectionMode = kOwnOnly | kIncludePrototypes
datatype IndexFilter = kIncludeIndices | kSkipIndices
datatype KeyConversionMode = kConvertToString | kKeepNumbers | kNoNumbers
datatype IntegrityLevel = kFrozen | kSealed

section \<open>Contexts\<close>

text \<open>The names are an array at an address; \<open>begin\<close> and \<open>end\<close> are the addresses of its first element and behind its last.\<close>

record ExtensionConfiguration =
  name_count :: int
  names :: u64

definition ExtensionConfiguration_default :: ExtensionConfiguration where
  "ExtensionConfiguration_default = \<lparr>name_count = 0, names = 0\<rparr>"
definition ExtensionConfiguration_new :: "int \<Rightarrow> u64 \<Rightarrow> ExtensionConfiguration" where
  "ExtensionConfiguration_new count a = \<lparr>name_count = count, names = a\<rparr>"
definition ExtensionConfiguration_begin :: "ExtensionConfiguration \<Rightarrow> u64" where
  "ExtensionConfiguration_begin c = names c"
definition ExtensionConfiguration_end :: "ExtensionConfiguration \<Rightarrow> u64" where
  "ExtensionConfiguration_end c = names c + 8 * of_int (name_count c)"

definition kDebugIdIndex :: int where "kDebugIdIndex = 0"

definition GetAlignedPointerFromEmbedderData_untagged :: "(u64 \<Rightarrow> int \<Rightarrow> u16 \<Rightarrow> mem \<Rightarrow> u64 option) \<Rightarrow> u64 \<Rightarrow> int \<Rightarrow> mem \<Rightarrow> u64 option" where
  "GetAlignedPointerFromEmbedderData_untagged Get this index m = Get this index kEmbedderDataTypeTagDefault m"

definition SetAlignedPointerInEmbedderData_untagged :: "(u64 \<Rightarrow> int \<Rightarrow> u64 \<Rightarrow> u16 \<Rightarrow> 's \<Rightarrow> 's) \<Rightarrow> u64 \<Rightarrow> int \<Rightarrow> u64 \<Rightarrow> 's \<Rightarrow> 's" where
  "SetAlignedPointerInEmbedderData_untagged Set this index value s = Set this index value kEmbedderDataTypeTagDefault s"

text \<open>The context of a scope is what its handle refers to.\<close>

record 's context_api =
  context_Enter :: "u64 \<Rightarrow> 's \<Rightarrow> 's"
  context_Exit :: "u64 \<Rightarrow> 's \<Rightarrow> 's"

record Context_Scope =
  scope_context :: u64

definition Context_Scope_new :: "'s context_api \<Rightarrow> u64 \<Rightarrow> 's \<Rightarrow> Context_Scope \<times> 's" where
  "Context_Scope_new A ctx s = (let sc = \<lparr>scope_context = ctx\<rparr> in (sc, context_Enter A (scope_context sc) s))"

definition Context_Scope_delete :: "'s context_api \<Rightarrow> Context_Scope \<Rightarrow> 's \<Rightarrow> 's" where
  "Context_Scope_delete A sc s = context_Exit A (scope_context sc) s"

record BackupIncumbentScope =
  backup_incumbent_context :: u64
  backup_js_stack_address :: u64
  backup_prev :: addr

definition Backup_JSStackComparableAddressPrivate :: "BackupIncumbentScope \<Rightarrow> u64" where
  "Backup_JSStackComparableAddressPrivate b = backup_js_stack_address b"

section \<open>Maybe of void\<close>

datatype MaybeVoid = MaybeVoid (is_valid: bool)

definition MaybeVoid_default :: MaybeVoid where "MaybeVoid_default = MaybeVoid False"
definition MaybeVoid_null :: MaybeVoid where "MaybeVoid_null = MaybeVoid False"
definition MaybeVoid_IsNothing :: "MaybeVoid \<Rightarrow> bool" where "MaybeVoid_IsNothing m \<longleftrightarrow> \<not> is_valid m"
definition MaybeVoid_IsEmpty :: "MaybeVoid \<Rightarrow> bool" where "MaybeVoid_IsEmpty m = MaybeVoid_IsNothing m"
definition MaybeVoid_IsJust :: "MaybeVoid \<Rightarrow> bool" where "MaybeVoid_IsJust m \<longleftrightarrow> is_valid m"
definition MaybeVoid_eq :: "MaybeVoid \<Rightarrow> MaybeVoid \<Rightarrow> bool" where
  "MaybeVoid_eq m n \<longleftrightarrow> MaybeVoid_IsJust m = MaybeVoid_IsJust n"
definition MaybeVoid_neq :: "MaybeVoid \<Rightarrow> MaybeVoid \<Rightarrow> bool" where "MaybeVoid_neq m n \<longleftrightarrow> \<not> MaybeVoid_eq m n"
definition JustVoid :: MaybeVoid where "JustVoid = MaybeVoid True"

section \<open>Array buffers\<close>

datatype ArrayBufferCreationMode = kInternalized | kExternalized
datatype BackingStoreInitializationMode = kZeroInitialized | kUninitialized
datatype BackingStoreOnFailureMode = kReturnNull | kOutOfMemory
datatype AllocationMode = kNormal | kReservation

text \<open>By the build: with the sandbox, on a 32-bit host, and otherwise.\<close>

datatype buffer_build = Sandboxed | Host32 | Host64

definition kMaxByteLength :: "buffer_build \<Rightarrow> nat" where
  "kMaxByteLength b =
     (case b of Sandboxed \<Rightarrow> unat kMaxSafeBufferSizeForSandbox | Host32 \<Rightarrow> 2 ^ 31 - 1 | Host64 \<Rightarrow> 2 ^ 53 - 1)"

definition MaxAllocationSize :: "buffer_build \<Rightarrow> nat" where "MaxAllocationSize b = kMaxByteLength b"
definition Allocator_GetPageAllocator :: u64 where "Allocator_GetPageAllocator = 0"

section \<open>GlobalValueMap\<close>

definition gvm_SetUnique ::
    "'g weak_api \<Rightarrow> PersistentContainerCallbackType \<Rightarrow> 'k \<Rightarrow> slot \<Rightarrow> ('k, 'g) value_map \<Rightarrow> slot \<times> ('k, 'g) value_map" where
  "gvm_SetUnique H ct key persistent m =
     (let g1 = (if ct = kNotWeak then AnnotateRetainer H persistent (cells m)
                else SetWeakCallback H persistent (cells m));
          (v, persistent1) = ClearAndLeak persistent;
          (old_value, impl1) = Traits_Set (impl m) key v;
          (p, g2) = vm_Release H ct old_value g1
      in (p, m\<lparr>impl := impl1, cells := g2\<rparr>))"

definition gvm_Set_local ::
    "'g weak_api \<Rightarrow> PersistentContainerCallbackType \<Rightarrow> 'k \<Rightarrow> obj option \<Rightarrow> ('k, 'g) value_map \<Rightarrow> slot \<times> ('k, 'g) value_map" where
  "gvm_Set_local H ct key value m =
     (let (persistent, g) = persistent_New (handles_api.truncate H) value (cells m)
      in gvm_SetUnique H ct key persistent (m\<lparr>cells := g\<rparr>))"

definition gvm_Set_global ::
    "'g weak_api \<Rightarrow> PersistentContainerCallbackType \<Rightarrow> 'k \<Rightarrow> slot \<Rightarrow> ('k, 'g) value_map \<Rightarrow> slot \<times> ('k, 'g) value_map" where
  "gvm_Set_global H ct key value m = gvm_SetUnique H ct key value m"

definition gvm_Set_reference ::
    "'g weak_api \<Rightarrow> PersistentContainerCallbackType \<Rightarrow> 'k \<Rightarrow> slot \<Rightarrow> ('k, 'g) value_map \<Rightarrow> slot \<times> slot \<times> ('k, 'g) value_map" where
  "gvm_Set_reference H ct key value m = (let reference = Leak value in (reference, gvm_SetUnique H ct key value m))"

text \<open>The second pass does what the traits' \<open>DisposeWeak\<close> does.\<close>

definition gvm_SecondWeakCallback :: "('d \<Rightarrow> 's \<Rightarrow> 's) \<Rightarrow> 'd \<Rightarrow> 's \<Rightarrow> 's" where
  "gvm_SecondWeakCallback DisposeWeak data s = DisposeWeak data s"

text \<open>The default traits: nothing is weak, and the callbacks do nothing.\<close>

definition Default_kCallbackType :: PersistentContainerCallbackType where "Default_kCallbackType = kNotWeak"
definition Default_WeakCallbackParameter :: u64 where "Default_WeakCallbackParameter = 0"
definition Default_MapFromWeakCallbackInfo :: u64 where "Default_MapFromWeakCallbackInfo = 0"
definition Default_KeyFromWeakCallbackInfo :: "'k \<Rightarrow> 'k" where "Default_KeyFromWeakCallbackInfo no_key = no_key"
definition Default_DisposeCallbackData :: "'s \<Rightarrow> 's" where "Default_DisposeCallbackData s = s"
definition DefaultGlobal_kCallbackType :: PersistentContainerCallbackType where "DefaultGlobal_kCallbackType = kNotWeak"
definition DefaultGlobal_WeakCallbackParameter :: u64 where "DefaultGlobal_WeakCallbackParameter = 0"
definition DefaultGlobal_MapFromWeakCallbackInfo :: u64 where "DefaultGlobal_MapFromWeakCallbackInfo = 0"
definition DefaultGlobal_KeyFromWeakCallbackInfo :: "'k \<Rightarrow> 'k" where "DefaultGlobal_KeyFromWeakCallbackInfo no_key = no_key"
definition DefaultGlobal_DisposeCallbackData :: "'s \<Rightarrow> 's" where "DefaultGlobal_DisposeCallbackData s = s"
definition DefaultGlobal_OnWeakCallback :: "'s \<Rightarrow> 's" where "DefaultGlobal_OnWeakCallback s = s"
definition DefaultGlobal_Dispose :: "'g weak_api \<Rightarrow> slot \<Rightarrow> 'g \<Rightarrow> 'g" where
  "DefaultGlobal_Dispose H value g = global_destructor (handles_api.truncate H) value g"
definition DefaultGlobal_DisposeWeak :: "'s \<Rightarrow> 's" where "DefaultGlobal_DisposeWeak s = s"

section \<open>Properties\<close>

text \<open>What the embedder relies on: after \<open>Wrap\<close> the field of the object is read back under the tags that contain its
  own, and no handle has moved.\<close>

definition wrap_ok :: "wrap_lib \<Rightarrow> bool" where
  "wrap_ok Wrap \<longleftrightarrow> (\<forall>isolate ob tag p m m'. Wrap isolate ob tag p m = Some m' \<longrightarrow>
     (\<forall>r. ReadCppHeapPointerField isolate ob kJSObjectHeaderSize r m' = Some (if TagRange_Contains r tag then p else 0)) \<and>
     (\<forall>l. load_word l m = Some ob \<longrightarrow> load_word l m' = Some ob))"

text \<open>An object wrapped through a handle is unwrapped through every handle of it, of any sort.\<close>

lemma wrap_unwrap:
  assumes "wrap_ok Wrap" "load_word h1 m = Some (ob :: u64)" "load_word h2 m = Some ob" "Object_Wrap Wrap isolate h1 p tag m = Some m'"
  shows "Object_Unwrap isolate h2 r m' = Some (if TagRange_Contains r tag then p else 0)"
    "Object_Unwrap_persistent isolate h2 r m' = Some (if TagRange_Contains r tag then p else 0)"
    "Object_Unwrap_traced isolate h2 r m' = Some (if TagRange_Contains r tag then p else 0)"
proof -
  have W: "Wrap isolate ob tag p m = Some m'" using assms(2,4) by (simp add: Object_Wrap_def ValueAsAddress_def)
  have "load_word h2 m' = Some ob"
    "ReadCppHeapPointerField isolate ob kJSObjectHeaderSize r m' = Some (if TagRange_Contains r tag then p else 0)"
    using assms(1,3) W unfolding wrap_ok_def by blast+
  then show "Object_Unwrap isolate h2 r m' = Some (if TagRange_Contains r tag then p else 0)"
    "Object_Unwrap_persistent isolate h2 r m' = Some (if TagRange_Contains r tag then p else 0)"
    "Object_Unwrap_traced isolate h2 r m' = Some (if TagRange_Contains r tag then p else 0)"
    by (simp_all add: Object_Unwrap_def Object_Unwrap_persistent_def Object_Unwrap_traced_def ValueAsAddress_def
        IndirectHandle_value_def SlotAsValue_def)
qed

text \<open>The scope of a context leaves the context it entered, so scopes nest when leaving undoes entering.\<close>

lemma context_scope_nests:
  assumes "\<And>x s. context_Exit A x (context_Enter A x s) = s" "Context_Scope_new A x s = (sc, s1)"
  shows "Context_Scope_delete A sc s1 = s"
  using assms by (auto simp: Context_Scope_new_def Context_Scope_delete_def Let_def)

lemma maybe_void: "MaybeVoid_eq m n \<longleftrightarrow> m = n" "MaybeVoid_IsJust JustVoid" "MaybeVoid_IsNothing MaybeVoid_null"
  "MaybeVoid_IsEmpty m \<longleftrightarrow> \<not> MaybeVoid_IsJust m"
  by (cases m; cases n; auto simp: MaybeVoid_eq_def MaybeVoid_IsJust_def JustVoid_def MaybeVoid_IsNothing_def
      MaybeVoid_null_def MaybeVoid_IsEmpty_def)+

text \<open>Both kinds of map set values alike; they differ in what a weak callback does.\<close>

lemma gvm_set_eq: "gvm_SetUnique = vm_SetUnique" "gvm_Set_local = vm_Set_local" "gvm_Set_global = vm_Set_global"
  "gvm_Set_reference = vm_Set_reference"
  by (intro ext; simp add: gvm_SetUnique_def vm_SetUnique_def gvm_Set_local_def vm_Set_local_def gvm_Set_global_def
      vm_Set_global_def gvm_Set_reference_def vm_Set_reference_def)+

lemma RemoveWeak_effect:
  assumes "weak_ok H" "vm_ok H m"
  shows "map_of (impl (vm_RemoveWeak H k m)) = (map_of (impl m))(k := None)"
    "distinct (map fst (impl (vm_RemoveWeak H k m)))"
    "cell H (cells (vm_RemoveWeak H k m)) = (cell H (cells m))(Traits_Get (impl m) k := None)"
proof -
  obtain s i where i: "Traits_Remove (impl m) k = (s, i)" by fastforce
  note T = Traits_Remove_map [OF i]
  have hk: "handles_ok (handles_api.truncate H)" using assms(1) by (simp add: weak_ok_def)
  have s: "s = 0 \<or> cell H (cells m) s \<noteq> None"
    using T assms(2) by (auto simp: vm_ok_def Traits_Get_map split: option.splits)
  have "cell H (snd (persistent_Reset (handles_api.truncate H) s (cells m))) = (cell H (cells m))(s := None)"
  proof (cases "s = 0")
    case True
    then show ?thesis using assms(1) by (simp add: fun_upd_idem)
  next
    case False
    with s obtain x where "cell H (cells m) s = Some x" by auto
    then have "cell H (DisposeGlobal H s (cells m)) = (cell H (cells m))(s := None)"
      using handles_ok_dispose [OF hk, of "cells m" s x] by simp
    with False show ?thesis by (simp add: persistent_Reset_def handle_IsEmpty_def)
  qed
  then show "map_of (impl (vm_RemoveWeak H k m)) = (map_of (impl m))(k := None)"
    "distinct (map fst (impl (vm_RemoveWeak H k m)))"
    "cell H (cells (vm_RemoveWeak H k m)) = (cell H (cells m))(Traits_Get (impl m) k := None)"
    using T i assms(2) by (auto simp: vm_RemoveWeak_def Let_def vm_ok_def split: prod.splits)
qed

text \<open>C38: the first pass of a weak callback forgets exactly the key whose value has died and frees exactly its storage
  cell; the map stays well formed, every other key keeps its object, and a second pass is asked for. (\<open>OnWeakCallback\<close>
  of the traits does not touch the cells.)\<close>

theorem global_map_weak_callback:
  assumes "weak_ok H" "vm_ok H m" "ct \<noteq> kNotWeak" "\<forall>g. cell H (On g) = cell H g"
    and "gvm_OnWeakCallback H ct On k m = (m', second)"
  shows "second \<and> vm_ok H m' \<and> contents H m' = (contents H m)(k := None) \<and> owned m' = owned m - {vm_GetReference k m} \<and>
    live_cells (handles_api.truncate H) (cells m') =
      live_cells (handles_api.truncate H) (cells m) - {vm_GetReference k m}"
proof -
  let ?s = "Traits_Get (impl m) k"
  note E = RemoveWeak_effect [OF assms(1,2), of k]
  have m': "second" "impl m' = impl (vm_RemoveWeak H k m)" "cell H (cells m') = (cell H (cells m))(?s := None)"
    using assms(3,4,5) E(3) by (auto simp: gvm_OnWeakCallback_def Let_def)
  have other: "t \<noteq> ?s" if "map_of (impl m) k' = Some t" "k' \<noteq> k" "t \<noteq> 0" for k' t
    using that assms(2) by (auto simp: vm_ok_def Traits_Get_map split: option.splits)
  have upd: "map_of (impl m') k' = (if k' = k then None else map_of (impl m) k')" for k' using E(1) m'(2) by simp
  have "vm_ok H m'"
    unfolding vm_ok_def
  proof (intro conjI allI impI)
    show "distinct (map fst (impl m'))" using E(2) m'(2) by simp
    show "cell H (cells m') t \<noteq> None" if "map_of (impl m') k' = Some t" "t \<noteq> 0" for k' t
      using that other assms(2) unfolding upd m'(3) by (auto simp: vm_ok_def split: if_splits)
    show "k' = k''" if "map_of (impl m') k' = Some t" "map_of (impl m') k'' = Some t" "t \<noteq> 0" for k' k'' t
      using that assms(2) unfolding upd vm_ok_def by (auto split: if_splits)
  qed
  moreover have "contents H m' = (contents H m)(k := None)"
  proof
    fix x
    show "contents H m' x = ((contents H m)(k := None)) x"
      using other [of x] cell_0 [OF assms(1), of "cells m"]
      by (cases "map_of (impl m) x"; cases "Traits_Get (impl m) k = 0")
        (auto simp: contents_map [OF assms(1)] upd m'(3))
  qed
  moreover have "owned m' = owned m - {?s}"
    using owned_without [OF assms(2), of k] E(1) m'(2) by (simp add: owned_def)
  ultimately show ?thesis using m' by (auto simp: vm_GetReference_def live_cells_def)
qed

section \<open>Witnesses\<close>

theorem global_map_weak_callback_witness:
  "\<exists>m second. gvm_OnWeakCallback demo_weak kWeakWithParameter (\<lambda>g. g) 7 demo_map = (m, second) \<and>
     contents demo_weak m 7 = None \<and> owned m = {}"
proof -
  obtain m second where m: "gvm_OnWeakCallback demo_weak kWeakWithParameter (\<lambda>g. g) 7 demo_map = (m, second)"
    by fastforce
  have "owned demo_map - {vm_GetReference 7 demo_map} = {}"
    by (simp add: owned_def demo_map_def vm_GetReference_def Traits_Get_map)
  with global_map_weak_callback [OF demo_weak_ok demo_map_ok _ _ m] m show ?thesis by auto
qed

end
