(* ===== verification/Cppgc_Traits.thy ===== *)
theory Cppgc_Traits
  imports Cppgc_Allocation Cppgc_Barrier
begin

text \<open>
  What the managed heap asks of a class at compile time (\<open>cppgc/type-traits.h\<close>, \<open>macros.h\<close>,
  \<open>internal/conditional-stack-allocated.h\<close>), the checks (\<open>internal/logging.h\<close>), the base classes of managed objects
  (\<open>garbage-collected.h\<close>), freeing and resizing by hand (\<open>explicit-management.h\<close>) and the statistics of a heap
  (\<open>heap-statistics.h\<close>, \<open>process-heap-statistics.h\<close>). A trait whose static assertion fails is \<open>None\<close>: the
  program does not compile.
\<close>

section \<open>Types, as the traits see them\<close>

datatype WeaknessTag = StrongMemberTag | WeakMemberTag | UntracedMemberTag

text \<open>The class templates that have a specialisation of a trait.\<close>

datatype holder =
    BasicMember WeaknessTag WriteBarrierPolicy
  | BasicPersistent bool
  | BasicCrossThreadPersistent bool

text \<open>
  A C++ type: the decayed type, whether it is \<open>void\<close>, a reference or const-qualified, whether it is complete, whether
  \<open>Trace\<close> can be called on it and on a const object of it, the markers it declares or inherits, the template it is an
  instance of, and the instances of \<open>BasicMember\<close> among its bases. The flag of a persistent says that its policy is
  the weak one.
\<close>

record cpp_type =
  decayed :: nat
  is_void :: bool
  is_reference :: bool
  is_const :: bool
  complete :: bool
  trace_method :: bool
  const_trace_method :: bool
  gc_marker :: bool
  mixin_marker :: bool
  stack_marker :: bool
  instance_of :: "holder option"
  member_bases :: "(WeaknessTag \<times> WriteBarrierPolicy) list"

definition complete_type :: "bool \<Rightarrow> bool \<Rightarrow> bool option" where
  "complete_type c v = (if c then Some v else None)"

section \<open>Tracing and garbage collection\<close>

definition IsWeak :: "cpp_type \<Rightarrow> bool" where
  "IsWeak T \<longleftrightarrow> \<not> is_reference T \<and> \<not> is_const T \<and>
     (case instance_of T of
        Some (BasicMember w p) \<Rightarrow> w = WeakMemberTag
      | Some (BasicPersistent weak) \<Rightarrow> weak
      | Some (BasicCrossThreadPersistent weak) \<Rightarrow> weak
      | None \<Rightarrow> False)"

definition trace_callable :: "cpp_type \<Rightarrow> bool" where
  "trace_callable T = (if is_const T then const_trace_method T else trace_method T)"

text \<open>Adding const to a reference type changes nothing.\<close>

definition IsTraceMethodConst :: "cpp_type \<Rightarrow> bool" where
  "IsTraceMethodConst T = (if is_reference T then trace_callable T else const_trace_method T)"

definition IsTraceable :: "cpp_type \<Rightarrow> bool option" where
  "IsTraceable T =
     (if \<not> complete T then None
      else if trace_callable T then (if IsTraceMethodConst T then Some True else None)
      else Some False)"

definition HasGarbageCollectedMixinTypeMarker :: "cpp_type \<Rightarrow> bool option" where
  "HasGarbageCollectedMixinTypeMarker T = complete_type (complete T) (mixin_marker T \<and> \<not> is_reference T)"

definition HasGarbageCollectedTypeMarker :: "cpp_type \<Rightarrow> bool option" where
  "HasGarbageCollectedTypeMarker T = complete_type (complete T) (gc_marker T \<and> \<not> is_reference T)"

definition IsGarbageCollectedMixinType :: "cpp_type \<Rightarrow> bool option" where
  "IsGarbageCollectedMixinType T =
     do { gc \<leftarrow> HasGarbageCollectedTypeMarker T; mixin \<leftarrow> HasGarbageCollectedMixinTypeMarker T;
          Some (\<not> gc \<and> mixin) }"

definition IsGarbageCollectedType :: "cpp_type \<Rightarrow> bool option" where
  "IsGarbageCollectedType T = HasGarbageCollectedTypeMarker T"

definition IsGarbageCollectedOrMixinType :: "cpp_type \<Rightarrow> bool option" where
  "IsGarbageCollectedOrMixinType T =
     do { gc \<leftarrow> IsGarbageCollectedType T; mixin \<leftarrow> IsGarbageCollectedMixinType T; Some (gc \<or> mixin) }"

definition IsGarbageCollectedWithMixinType :: "cpp_type \<Rightarrow> bool option" where
  "IsGarbageCollectedWithMixinType T =
     do { gc \<leftarrow> HasGarbageCollectedTypeMarker T; mixin \<leftarrow> HasGarbageCollectedMixinTypeMarker T;
          Some (gc \<and> mixin) }"

section \<open>Members\<close>

text \<open>
  The overload on a pointer to \<open>BasicMember\<close> is chosen for an instance itself and for a class with exactly one such base;
  with two the deduction is ambiguous and the other overload is taken.
\<close>

definition IsSubclassOfBasicMemberTemplate :: "cpp_type \<Rightarrow> WeaknessTag \<Rightarrow> WriteBarrierPolicy \<Rightarrow> bool" where
  "IsSubclassOfBasicMemberTemplate T w p \<longleftrightarrow>
     instance_of T = Some (BasicMember w p) \<or> length (List.filter (\<lambda>b. b = (w, p)) (member_bases T)) = 1"

definition IsMemberType :: "cpp_type \<Rightarrow> bool" where
  "IsMemberType T = IsSubclassOfBasicMemberTemplate T StrongMemberTag DijkstraWriteBarrierPolicy"

definition IsWeakMemberType :: "cpp_type \<Rightarrow> bool" where
  "IsWeakMemberType T = IsSubclassOfBasicMemberTemplate T WeakMemberTag DijkstraWriteBarrierPolicy"

definition IsUntracedMemberType :: "cpp_type \<Rightarrow> bool" where
  "IsUntracedMemberType T = IsSubclassOfBasicMemberTemplate T UntracedMemberTag NoWriteBarrierPolicy"

definition IsMemberOrWeakMemberType :: "cpp_type \<Rightarrow> bool" where
  "IsMemberOrWeakMemberType T \<longleftrightarrow> IsMemberType T \<or> IsWeakMemberType T"

definition IsAnyMemberType :: "cpp_type \<Rightarrow> bool" where
  "IsAnyMemberType T = (case instance_of T of Some (BasicMember w p) \<Rightarrow> True | _ \<Rightarrow> False)"

text \<open>There is no pointer to a reference, so the trait of a reference type does not compile.\<close>

definition IsComplete :: "cpp_type \<Rightarrow> bool option" where
  "IsComplete T = (if is_reference T then None else Some (complete T))"

definition IsDecayedSame :: "cpp_type \<Rightarrow> cpp_type \<Rightarrow> bool" where
  "IsDecayedSame T U \<longleftrightarrow> decayed T = decayed U"

text \<open>\<open>base_of\<close> is the inheritance of the program, every class a base of itself.\<close>

definition IsStrictlyBaseOf :: "(nat \<Rightarrow> nat \<Rightarrow> bool) \<Rightarrow> cpp_type \<Rightarrow> cpp_type \<Rightarrow> bool" where
  "IsStrictlyBaseOf base_of B D \<longleftrightarrow> base_of (decayed B) (decayed D) \<and> \<not> IsDecayedSame B D"

section \<open>Objects of the stack\<close>

text \<open>The marker exists in builds with Clang only.\<close>

definition CPPGC_STACK_ALLOCATED :: "bool \<Rightarrow> cpp_type \<Rightarrow> cpp_type" where
  "CPPGC_STACK_ALLOCATED clang T = (if clang then T\<lparr>stack_marker := True\<rparr> else T)"

definition IsStackAllocatedType :: "cpp_type \<Rightarrow> bool" where
  "IsStackAllocatedType T \<longleftrightarrow> stack_marker T \<and> \<not> is_reference T"

definition RequiresStackAllocated :: "cpp_type \<Rightarrow> bool option" where
  "RequiresStackAllocated T =
     (if is_void T then Some False
      else if IsStackAllocatedType T then Some True
      else do { t \<leftarrow> IsTraceable T; if t then Some True else IsGarbageCollectedOrMixinType T })"

text \<open>The base class of \<open>T\<close>, from the empty class.\<close>

definition ConditionalStackAllocatedBase :: "bool \<Rightarrow> cpp_type \<Rightarrow> cpp_type \<Rightarrow> cpp_type option" where
  "ConditionalStackAllocatedBase clang T empty_class =
     do { r \<leftarrow> RequiresStackAllocated T;
          Some (if r then CPPGC_STACK_ALLOCATED clang empty_class else empty_class) }"

text \<open>The one \<open>operator new\<close> that \<open>CPPGC_DISALLOW_NEW\<close> leaves.\<close>

definition disallow_new_placement :: "u64 \<Rightarrow> u64 \<Rightarrow> u64" where
  "disallow_new_placement n location = location"

section \<open>Checks\<close>

text \<open>\<open>DCheckImpl\<close> is in the library and may return; \<open>FatalImpl\<close> does not return.\<close>

definition CPPGC_DCHECK_MSG :: "bool \<Rightarrow> (string \<Rightarrow> 's \<Rightarrow> 's option) \<Rightarrow> bool \<Rightarrow> string \<Rightarrow> 's \<Rightarrow> 's option" where
  "CPPGC_DCHECK_MSG api_checks DCheckImpl condition message s =
     (if api_checks \<and> \<not> condition then DCheckImpl message s else Some s)"

definition CPPGC_CHECK_MSG :: "bool \<Rightarrow> 's \<Rightarrow> 's option" where
  "CPPGC_CHECK_MSG condition s = (if \<not> condition then None else Some s)"

definition GarbageCollected_delete :: "bool \<Rightarrow> u64 \<Rightarrow> 's \<Rightarrow> 's option" where
  "GarbageCollected_delete checks p s = (if checks then None else Some s)"

definition GarbageCollectedMixin_Trace :: "'v \<Rightarrow> 'v" where
  "GarbageCollectedMixin_Trace visitor = visitor"

section \<open>Freeing and resizing by hand\<close>

definition FreeUnreferencedObject :: "('h \<Rightarrow> u64 \<Rightarrow> 's \<Rightarrow> 's) \<Rightarrow> 'h \<Rightarrow> cpp_type \<Rightarrow> u64 \<Rightarrow> 's \<Rightarrow> 's option" where
  "FreeUnreferencedObject Free heap_handle T ob s =
     do { gc \<leftarrow> IsGarbageCollectedType T; if gc then Some (Free heap_handle ob s) else None }"

definition Resize :: "(u64 \<Rightarrow> u64 \<Rightarrow> 's \<Rightarrow> bool \<times> 's) \<Rightarrow> u64 \<Rightarrow> cpp_type \<Rightarrow> u64 \<Rightarrow> AdditionalBytes \<Rightarrow> 's \<Rightarrow> (bool \<times> 's) option" where
  "Resize R sizeof_T T ob additional_bytes s =
     do { gc \<leftarrow> IsGarbageCollectedType T;
          if gc then Some (R ob (sizeof_T + additional_value additional_bytes) s) else None }"

section \<open>Statistics\<close>

datatype DetailLevel = kBrief | kDetailed

record ObjectStatsEntry =
  ose_allocated_bytes :: u64
  ose_object_count :: u64

record PageStatistics =
  page_committed_size_bytes :: u64
  page_resident_size_bytes :: u64
  page_used_size_bytes :: u64
  object_statistics :: "ObjectStatsEntry list"

record FreeListStatistics =
  bucket_size :: "u64 list"
  free_count :: "u64 list"
  free_size :: "u64 list"

record SpaceStatistics =
  space_name :: string
  space_committed_size_bytes :: u64
  space_resident_size_bytes :: u64
  space_used_size_bytes :: u64
  page_stats :: "PageStatistics list"
  free_list_stats :: FreeListStatistics

record HeapStatistics =
  heap_committed_size_bytes :: u64
  heap_resident_size_bytes :: u64
  heap_used_size_bytes :: u64
  pooled_memory_size_bytes :: u64
  detail_level :: DetailLevel
  space_stats :: "SpaceStatistics list"
  type_names :: "string list"

definition PageStatistics_default :: PageStatistics where
  "PageStatistics_default = \<lparr>page_committed_size_bytes = 0, page_resident_size_bytes = 0, page_used_size_bytes = 0,
     object_statistics = []\<rparr>"

definition FreeListStatistics_default :: FreeListStatistics where
  "FreeListStatistics_default = \<lparr>bucket_size = [], free_count = [], free_size = []\<rparr>"

definition SpaceStatistics_default :: SpaceStatistics where
  "SpaceStatistics_default = \<lparr>space_name = [], space_committed_size_bytes = 0, space_resident_size_bytes = 0,
     space_used_size_bytes = 0, page_stats = [], free_list_stats = FreeListStatistics_default\<rparr>"

text \<open>The detail level has no initial value: it is whatever the storage held.\<close>

definition HeapStatistics_default :: "DetailLevel \<Rightarrow> HeapStatistics" where
  "HeapStatistics_default unset = \<lparr>heap_committed_size_bytes = 0, heap_resident_size_bytes = 0, heap_used_size_bytes = 0,
     pooled_memory_size_bytes = 0, detail_level = unset, space_stats = [], type_names = []\<rparr>"

record ProcessHeapStatistics =
  process_allocated_space :: u64
  process_allocated_object_size :: u64

definition TotalAllocatedObjectSize :: "ProcessHeapStatistics \<Rightarrow> u64" where
  "TotalAllocatedObjectSize p = process_allocated_object_size p"

definition TotalAllocatedSpace :: "ProcessHeapStatistics \<Rightarrow> u64" where
  "TotalAllocatedSpace p = process_allocated_space p"

section \<open>What the traits say together\<close>

text \<open>A complete class is a free mixin, a managed class without mixins, one with mixins, or none of these.\<close>

lemma gc_kinds_exclusive:
  assumes "complete T"
  shows "(IsGarbageCollectedMixinType T = Some True) = (IsGarbageCollectedOrMixinType T = Some True \<and> IsGarbageCollectedType T = Some False)"
    and "IsGarbageCollectedWithMixinType T = Some True \<longrightarrow> IsGarbageCollectedType T = Some True \<and> IsGarbageCollectedMixinType T = Some False"
  using assms
  by (auto simp: IsGarbageCollectedMixinType_def IsGarbageCollectedOrMixinType_def IsGarbageCollectedType_def
      IsGarbageCollectedWithMixinType_def HasGarbageCollectedTypeMarker_def HasGarbageCollectedMixinTypeMarker_def complete_type_def)

text \<open>A trait of an incomplete class never answers: no class can be taken for unmanaged because it was only declared.\<close>

lemma incomplete_never_answers:
  assumes "\<not> complete T"
  shows "IsTraceable T = None" "IsGarbageCollectedType T = None" "IsGarbageCollectedMixinType T = None"
    "IsGarbageCollectedOrMixinType T = None" "IsGarbageCollectedWithMixinType T = None"
  using assms
  by (simp_all add: IsTraceable_def IsGarbageCollectedMixinType_def IsGarbageCollectedOrMixinType_def IsGarbageCollectedType_def
      IsGarbageCollectedWithMixinType_def HasGarbageCollectedTypeMarker_def complete_type_def)

text \<open>An object type counts as traceable only when const objects of it can be traced.\<close>

lemma traceable_is_const:
  "IsTraceable T = Some True \<Longrightarrow> \<not> is_reference T \<Longrightarrow> const_trace_method T"
  by (auto simp: IsTraceable_def IsTraceMethodConst_def split: if_splits)

text \<open>
  An instance of \<open>BasicMember\<close> is of one family at most; a class derived from one is of its family, yet is not
  counted among the member types of \<open>IsAnyMemberTypeV\<close>.
\<close>

lemma member_families_exclusive:
  assumes "instance_of T = Some (BasicMember w p)" "member_bases T = []"
  shows "IsMemberType T = (w = StrongMemberTag \<and> p = DijkstraWriteBarrierPolicy)"
    and "IsWeakMemberType T = (w = WeakMemberTag \<and> p = DijkstraWriteBarrierPolicy)"
    and "IsUntracedMemberType T = (w = UntracedMemberTag \<and> p = NoWriteBarrierPolicy)"
    and "IsAnyMemberType T"
  using assms
  by (auto simp: IsMemberType_def IsWeakMemberType_def IsUntracedMemberType_def IsSubclassOfBasicMemberTemplate_def IsAnyMemberType_def)

lemma subclass_of_member_not_any:
  assumes "instance_of T = None" "member_bases T = [(StrongMemberTag, DijkstraWriteBarrierPolicy)]"
  shows "IsMemberType T" "IsMemberOrWeakMemberType T" "\<not> IsAnyMemberType T"
  using assms
  by (simp_all add: IsMemberType_def IsMemberOrWeakMemberType_def IsSubclassOfBasicMemberTemplate_def IsAnyMemberType_def)

text \<open>A weak member is weak, unless the trait is asked of the const-qualified type.\<close>

lemma weak_member_const_not_weak:
  assumes "instance_of T = Some (BasicMember WeakMemberTag p)" "\<not> is_reference T"
  shows "IsWeak T = (\<not> is_const T)"
  using assms by (simp add: IsWeak_def)

text \<open>Without Clang nothing is marked, and whatever can be traced still asks for it.\<close>

lemma conditional_base_marked:
  assumes "RequiresStackAllocated T = Some True" "\<not> is_reference E"
  shows "\<exists>B. ConditionalStackAllocatedBase clang T E = Some B \<and> IsStackAllocatedType B = (clang \<or> IsStackAllocatedType E)"
  using assms by (auto simp: ConditionalStackAllocatedBase_def CPPGC_STACK_ALLOCATED_def IsStackAllocatedType_def)

text \<open>
  \<open>Resize\<close> asks for less than the class itself needs as soon as the sum wraps: shrinking an object below its class.
\<close>

lemma resize_wraps:
  assumes "IsGarbageCollectedType T = Some True" "unat sizeof_T + unat (additional_value b) \<ge> 2 ^ 64"
  shows "\<exists>n. Resize R sizeof_T T ob b s = Some (R ob n s) \<and> n < sizeof_T"
proof -
  let ?s = "unat sizeof_T" and ?a = "unat (additional_value b)"
  have lt: "?s < 2 ^ 64" "?a < 2 ^ 64" using unsigned_less [of sizeof_T] unsigned_less [of "additional_value b"] by simp_all
  have "(?s + ?a) mod 2 ^ 64 = ?s + ?a - 2 ^ 64"
    using assms(2) lt by (subst le_mod_geq) (assumption, rule mod_less, linarith)
  then have "unat (sizeof_T + additional_value b) < ?s"
    using assms(2) lt by (simp add: unat_word_ariths)
  then show ?thesis using assms(1) by (auto simp: Resize_def word_less_nat_alt)
qed

text \<open>A class that is not managed is refused before the library is called.\<close>

lemma explicit_management_managed_only:
  assumes "IsGarbageCollectedType T \<noteq> Some True"
  shows "FreeUnreferencedObject F h T ob s = None" "Resize R n T ob b s = None"
  using assms by (cases "IsGarbageCollectedType T"; simp add: FreeUnreferencedObject_def Resize_def)+

end
