(* ===== verification/V8_Metrics.thy ===== *)
theory V8_Metrics
  imports V8_Isolate V8_Internals Gv8_Text
begin

text \<open>
  The records of the metrics interface (\<open>v8-metrics.h\<close>), the version of the library (\<open>v8-version.h\<close>,
  \<open>v8-version-string.h\<close>, \<open>v8-value-serializer-version.h\<close>), the policy of
  microtasks (\<open>v8-microtask.h\<close>) and the tags of \<open>v8-embedder-state-scope.h\<close>. Doubles appear only as constants and are kept as rationals.
\<close>

type_synonym i64 = "64 word"

section \<open>Events of the garbage collector\<close>

record GarbageCollectionPhases =
  total_wall_clock_duration_in_us :: i64
  compact_wall_clock_duration_in_us :: i64
  mark_wall_clock_duration_in_us :: i64
  sweep_wall_clock_duration_in_us :: i64
  weak_wall_clock_duration_in_us :: i64

definition GarbageCollectionPhases_default :: GarbageCollectionPhases where
  "GarbageCollectionPhases_default =
     \<lparr>total_wall_clock_duration_in_us = -1, compact_wall_clock_duration_in_us = -1, mark_wall_clock_duration_in_us = -1,
      sweep_wall_clock_duration_in_us = -1, weak_wall_clock_duration_in_us = -1\<rparr>"

record GarbageCollectionSizes =
  bytes_before :: i64
  bytes_after :: i64
  bytes_freed :: i64

definition GarbageCollectionSizes_default :: GarbageCollectionSizes where
  "GarbageCollectionSizes_default = \<lparr>bytes_before = -1, bytes_after = -1, bytes_freed = -1\<rparr>"

record GarbageCollectionLimits =
  bytes_baseline :: i64
  bytes_limit :: i64
  bytes_current :: i64
  bytes_max :: i64

definition GarbageCollectionLimits_default :: GarbageCollectionLimits where
  "GarbageCollectionLimits_default = \<lparr>bytes_baseline = -1, bytes_limit = -1, bytes_current = -1, bytes_max = -1\<rparr>"

record GarbageCollectionFullCycle =
  reason :: "32 word"
  incremental_marking_reason :: "32 word"
  priority :: "Priority option"
  reduce_memory :: bool
  is_loading :: bool
  is_input_handling :: bool
  total :: GarbageCollectionPhases
  total_cpp :: GarbageCollectionPhases
  main_thread :: GarbageCollectionPhases
  main_thread_cpp :: GarbageCollectionPhases
  main_thread_atomic :: GarbageCollectionPhases
  main_thread_atomic_cpp :: GarbageCollectionPhases
  main_thread_incremental :: GarbageCollectionPhases
  main_thread_incremental_cpp :: GarbageCollectionPhases
  objects :: GarbageCollectionSizes
  objects_cpp :: GarbageCollectionSizes
  memory :: GarbageCollectionSizes
  memory_cpp :: GarbageCollectionSizes
  old_generation_consumed :: GarbageCollectionLimits
  global_consumed :: GarbageCollectionLimits
  external_memory_bytes :: i64
  collection_rate_in_percent :: rat
  collection_rate_cpp_in_percent :: rat
  efficiency_in_bytes_per_us :: rat
  efficiency_cpp_in_bytes_per_us :: rat
  main_thread_efficiency_in_bytes_per_us :: rat
  main_thread_efficiency_cpp_in_bytes_per_us :: rat
  collection_weight_in_percent :: rat
  collection_weight_cpp_in_percent :: rat
  main_thread_collection_weight_in_percent :: rat
  main_thread_collection_weight_cpp_in_percent :: rat
  incremental_marking_start_stop_wall_clock_duration_in_us :: i64
  total_duration_since_last_mark_compact :: i64

definition GarbageCollectionFullCycle_default :: GarbageCollectionFullCycle where
  "GarbageCollectionFullCycle_default =
     \<lparr>reason = -1, incremental_marking_reason = -1, priority = None, reduce_memory = False, is_loading = False,
      is_input_handling = False, total = GarbageCollectionPhases_default, total_cpp = GarbageCollectionPhases_default,
      main_thread = GarbageCollectionPhases_default, main_thread_cpp = GarbageCollectionPhases_default,
      main_thread_atomic = GarbageCollectionPhases_default, main_thread_atomic_cpp = GarbageCollectionPhases_default,
      main_thread_incremental = GarbageCollectionPhases_default, main_thread_incremental_cpp = GarbageCollectionPhases_default,
      objects = GarbageCollectionSizes_default, objects_cpp = GarbageCollectionSizes_default,
      memory = GarbageCollectionSizes_default, memory_cpp = GarbageCollectionSizes_default,
      old_generation_consumed = GarbageCollectionLimits_default, global_consumed = GarbageCollectionLimits_default,
      external_memory_bytes = -1, collection_rate_in_percent = -1, collection_rate_cpp_in_percent = -1,
      efficiency_in_bytes_per_us = -1, efficiency_cpp_in_bytes_per_us = -1, main_thread_efficiency_in_bytes_per_us = -1,
      main_thread_efficiency_cpp_in_bytes_per_us = -1, collection_weight_in_percent = -1,
      collection_weight_cpp_in_percent = -1, main_thread_collection_weight_in_percent = -1,
      main_thread_collection_weight_cpp_in_percent = -1, incremental_marking_start_stop_wall_clock_duration_in_us = -1,
      total_duration_since_last_mark_compact = -1\<rparr>"

record IncrementalStep =
  step_wall_clock_duration_in_us :: i64
  step_cpp_wall_clock_duration_in_us :: i64

type_synonym GarbageCollectionFullMainThreadIncrementalMark = IncrementalStep
type_synonym GarbageCollectionFullMainThreadIncrementalSweep = IncrementalStep

definition IncrementalMark_default :: GarbageCollectionFullMainThreadIncrementalMark where
  "IncrementalMark_default = \<lparr>step_wall_clock_duration_in_us = -1, step_cpp_wall_clock_duration_in_us = -1\<rparr>"

definition IncrementalSweep_default :: GarbageCollectionFullMainThreadIncrementalSweep where
  "IncrementalSweep_default = \<lparr>step_wall_clock_duration_in_us = -1, step_cpp_wall_clock_duration_in_us = -1\<rparr>"

text \<open>The last component is there with \<open>CPPGC_YOUNG_GENERATION\<close> only.\<close>

record YoungCycle_cpp =
  young_total_cpp :: GarbageCollectionPhases
  young_objects_cpp :: GarbageCollectionSizes
  young_memory_cpp :: GarbageCollectionSizes
  young_collection_rate_cpp_in_percent :: rat
  young_efficiency_cpp_in_bytes_per_us :: rat
  young_main_thread_efficiency_cpp_in_bytes_per_us :: rat

record GarbageCollectionYoungCycle =
  young_reason :: "32 word"
  young_priority :: "Priority option"
  young_total_wall_clock_duration_in_us :: i64
  young_main_thread_wall_clock_duration_in_us :: i64
  young_collection_rate_in_percent :: rat
  young_efficiency_in_bytes_per_us :: rat
  young_main_thread_efficiency_in_bytes_per_us :: rat
  young_cpp :: "YoungCycle_cpp option"

definition YoungCycle_default :: "bool \<Rightarrow> GarbageCollectionYoungCycle" where
  "YoungCycle_default young_generation =
     \<lparr>young_reason = -1, young_priority = None, young_total_wall_clock_duration_in_us = -1,
      young_main_thread_wall_clock_duration_in_us = -1, young_collection_rate_in_percent = -1,
      young_efficiency_in_bytes_per_us = -1, young_main_thread_efficiency_in_bytes_per_us = -1,
      young_cpp = (if young_generation
        then Some \<lparr>young_total_cpp = GarbageCollectionPhases_default, young_objects_cpp = GarbageCollectionSizes_default,
                   young_memory_cpp = GarbageCollectionSizes_default, young_collection_rate_cpp_in_percent = -1,
                   young_efficiency_cpp_in_bytes_per_us = -1, young_main_thread_efficiency_cpp_in_bytes_per_us = -1\<rparr>
        else None)\<rparr>"

section \<open>Events of WebAssembly\<close>

record WasmModuleDecoded =
  wd_async :: bool
  wd_streamed :: bool
  wd_success :: bool
  wd_module_size_in_bytes :: u64
  wd_function_count :: u64
  wd_wall_clock_duration_in_us :: i64

record WasmModuleCompiled =
  wc_async :: bool
  wc_streamed :: bool
  wc_cached :: bool
  wc_deserialized :: bool
  wc_lazy :: bool
  wc_success :: bool
  wc_code_size_in_bytes :: u64
  wc_liftoff_bailout_count :: u64
  wc_wall_clock_duration_in_us :: i64

record WasmModuleInstantiated =
  wi_async :: bool
  wi_success :: bool
  wi_imported_function_count :: u64
  wi_wall_clock_duration_in_us :: i64

record WasmModulesPerIsolate =
  wasm_count :: u64

section \<open>The recorder\<close>

record ContextId =
  context_id :: u64

definition kEmptyId :: u64 where "kEmptyId = 0"

definition ContextId_default :: ContextId where "ContextId_default = \<lparr>context_id = kEmptyId\<rparr>"

definition ContextId_new :: "u64 \<Rightarrow> ContextId" where "ContextId_new n = \<lparr>context_id = n\<rparr>"

definition ContextId_IsEmpty :: "ContextId \<Rightarrow> bool" where "ContextId_IsEmpty c \<longleftrightarrow> context_id c = kEmptyId"

definition ContextId_Empty :: ContextId where "ContextId_Empty = ContextId_new kEmptyId"

definition ContextId_eq :: "ContextId \<Rightarrow> ContextId \<Rightarrow> bool" where
  "ContextId_eq a b \<longleftrightarrow> context_id a = context_id b"

definition ContextId_ne :: "ContextId \<Rightarrow> ContextId \<Rightarrow> bool" where
  "ContextId_ne a b \<longleftrightarrow> context_id a \<noteq> context_id b"

datatype main_thread_event =
    FullCycle GarbageCollectionFullCycle
  | IncrementalMark GarbageCollectionFullMainThreadIncrementalMark
  | BatchedIncrementalMark "GarbageCollectionFullMainThreadIncrementalMark list"
  | IncrementalSweep GarbageCollectionFullMainThreadIncrementalSweep
  | BatchedIncrementalSweep "GarbageCollectionFullMainThreadIncrementalSweep list"
  | YoungCycle GarbageCollectionYoungCycle
  | ModuleDecoded WasmModuleDecoded
  | ModuleCompiled WasmModuleCompiled
  | ModuleInstantiated WasmModuleInstantiated

text \<open>A recorder that overrides nothing keeps its state.\<close>

definition AddMainThreadEvent :: "main_thread_event \<Rightarrow> ContextId \<Rightarrow> 's \<Rightarrow> 's" where "AddMainThreadEvent e c s = s"
definition AddThreadSafeEvent :: "WasmModulesPerIsolate \<Rightarrow> 's \<Rightarrow> 's" where "AddThreadSafeEvent e s = s"
definition NotifyIsolateDisposal :: "'s \<Rightarrow> 's" where "NotifyIsolateDisposal s = s"

section \<open>Long tasks\<close>

record LongTaskStats =
  gc_full_atomic_wall_clock_duration_us :: i64
  gc_full_incremental_wall_clock_duration_us :: i64
  gc_young_wall_clock_duration_us :: i64
  v8_execute_us :: i64

definition LongTaskStats_default :: LongTaskStats where
  "LongTaskStats_default = \<lparr>gc_full_atomic_wall_clock_duration_us = 0, gc_full_incremental_wall_clock_duration_us = 0,
     gc_young_wall_clock_duration_us = 0, v8_execute_us = 0\<rparr>"

definition LongTaskStats_Reset :: "u64 \<Rightarrow> mem \<Rightarrow> mem option" where
  "LongTaskStats_Reset isolate m = IncrementLongTasksStatsCounter isolate m"

section \<open>Versions\<close>

definition V8_MAJOR_VERSION :: nat where "V8_MAJOR_VERSION = 14"
definition V8_MINOR_VERSION :: nat where "V8_MINOR_VERSION = 8"
definition V8_BUILD_NUMBER :: nat where "V8_BUILD_NUMBER = 178"
definition V8_PATCH_LEVEL :: nat where "V8_PATCH_LEVEL = 21"
definition V8_IS_CANDIDATE_VERSION :: nat where "V8_IS_CANDIDATE_VERSION = 0"

definition V8_CANDIDATE_STRING :: "nat \<Rightarrow> string" where
  "V8_CANDIDATE_STRING candidate = (if candidate \<noteq> 0 then '' (candidate)'' else [])"

text \<open>\<open>V8_S\<close> turns the number into its digits; the embedder's suffix is empty unless the build sets it.\<close>

definition V8_EMBEDDER_STRING :: "string option \<Rightarrow> string" where
  "V8_EMBEDDER_STRING set_by_build = (case set_by_build of Some e \<Rightarrow> e | None \<Rightarrow> [])"

definition V8_VERSION_STRING :: "nat \<Rightarrow> nat \<Rightarrow> nat \<Rightarrow> nat \<Rightarrow> string option \<Rightarrow> nat \<Rightarrow> string" where
  "V8_VERSION_STRING major minor build patch suffix candidate =
     (if patch > 0
      then dec_nat major @ ''.'' @ dec_nat minor @ ''.'' @ dec_nat build @ ''.'' @ dec_nat patch @
           V8_EMBEDDER_STRING suffix @ V8_CANDIDATE_STRING candidate
      else dec_nat major @ ''.'' @ dec_nat minor @ ''.'' @ dec_nat build @
           V8_EMBEDDER_STRING suffix @ V8_CANDIDATE_STRING candidate)"

definition CurrentValueSerializerFormatVersion :: "32 word" where "CurrentValueSerializerFormatVersion = 15"

section \<open>Small enumerations\<close>

datatype MicrotasksPolicy = kExplicit | kScoped | kAuto

definition EmbedderStateTag_EMPTY :: byte where "EmbedderStateTag_EMPTY = 0"
definition EmbedderStateTag_OTHER :: byte where "EmbedderStateTag_OTHER = 1"

section \<open>Facts\<close>

text \<open>Comparing context ids is comparing the contexts they stand for, and the empty id is equal to itself only.\<close>

lemma ContextId_compare:
  "ContextId_eq a b \<longleftrightarrow> a = b" "ContextId_ne a b \<longleftrightarrow> a \<noteq> b" "ContextId_IsEmpty a \<longleftrightarrow> a = ContextId_Empty"
  "ContextId_default = ContextId_Empty"
  by (cases a; cases b; simp add: ContextId_eq_def ContextId_ne_def ContextId_IsEmpty_def ContextId_Empty_def ContextId_new_def ContextId_default_def)+

text \<open>The counter of long tasks changes by one and wraps after the last value.\<close>

lemma LongTaskStats_Reset_counts:
  assumes "load_word (isolate + of_int kIsolateLongTaskStatsCounterOffset) m = Some (n :: u64)"
  shows "LongTaskStats_Reset isolate m = store_word (isolate + of_int kIsolateLongTaskStatsCounterOffset) (n + 1) m"
  using assms by (simp add: LongTaskStats_Reset_def IncrementLongTasksStatsCounter_def)

lemma V8_VERSION_STRING_here:
  "V8_VERSION_STRING V8_MAJOR_VERSION V8_MINOR_VERSION V8_BUILD_NUMBER V8_PATCH_LEVEL None V8_IS_CANDIDATE_VERSION = ''14.8.178.21''"
  by code_simp

end
