(* ===== verification/Spec2Isabelle.thy ===== *)
theory Spec2Isabelle
  imports Gv8_Api V8_Tags V8_Access V8_CallbackInfo V8_Util V8_FastApi V8_Span V8_Refs Cppgc_CrossThread Cppgc_Visitor
    V8_Platform V8_Script V8_Template V8_Isolate Cppgc_Allocation Cppgc_Mixed
    V8_Casts V8_Tracing V8_Primitive V8_Inspector V8_Profiler V8_Embedder V8_Direct V8_Objects
    Cppgc_Traits V8_Metrics
begin

text \<open>
  \<^bold>\<open>The native layer of gv8.\<close>

  gv8 lets a Go program run JavaScript on V8. Its native code has three layers, and the development follows
  them from the outside in.

  \<^item> \<^bold>\<open>The binding\<close>, \<open>src/internal/gv8.cc\<close> and \<open>src/gv8.h\<close>: the C functions that Go calls. Theories \<open>Gv8_*\<close>.
  \<^item> \<^bold>\<open>The V8 headers\<close>, \<open>src/internal/v8/include/v8-*.h\<close>: the code that is compiled into every embedder because
    it is written in the headers. Theories \<open>V8_*\<close>.
  \<^item> \<^bold>\<open>The headers of the managed C++ heap\<close>, \<open>src/internal/v8/include/cppgc/\<close>. Theories \<open>Cppgc_*\<close>.

  The V8 library itself is a binary that is not among the sources. Wherever the code calls it, the call is a
  field of a record that the definitions take as an argument, and what the code relies on is a named predicate
  on that record: \<open>handles_ok\<close> (creating, copying and disposing of storage cells), \<open>weak_ok\<close> (weak callbacks),
  \<open>traced_ok\<close> and \<open>global_api_ok\<close> (the same for handle variables), \<open>refill_ok\<close> and \<open>ct_refill_ok\<close> (new nodes
  for persistents), \<open>host_ok\<close> and \<open>dispatcher_ok\<close> (the Go side that callbacks call). Every such predicate has a
  concrete instance, on which the witnesses run.

  \<^bold>\<open>Conventions.\<close> A definition has the name of the function, class or field it models, with the name of its
  class in front where names repeat (\<open>vm_\<close> value maps, \<open>bp_\<close> persistents, \<open>ct_\<close> cross-thread persistents, \<open>It_\<close>
  and \<open>WI_\<close> iterators, \<open>CP_\<close> and \<open>RP_\<close> member storage). Functions that may have undefined behaviour (reading
  freed memory, releasing twice, running out of an array) return an option, and \<open>None\<close> is that behaviour; C++
  exceptions and error results are values of the result types of \<open>gv8.h\<close>. Machine integers are words of their
  width; addresses of the binding's objects, which only have to differ, are natural numbers. Build options are
  those of the prebuilt library (pointer compression, 31-bit Smis, sandbox), and where the header has both
  branches of an option and the build does not fix it, it is a Boolean argument (\<open>sr\<close> static roots, \<open>larger\<close> the
  larger cage).

  \<^bold>\<open>The binding.\<close> \<open>Gv8_State\<close> has the structs of \<open>gv8.cc\<close> (isolates, contexts, values, scripts, modules,
  snapshot builders) in an explicit C++ heap with the state of the engine; \<open>Gv8_Inv\<close> is the invariant: every
  struct points to live ones, every tracked value is registered once, and every non-empty handle owns a live
  storage cell of its own. \<open>Gv8_Values\<close> models \<open>trackValue\<close>, \<open>wrapValue\<close>, \<open>GV8ValueRelease\<close> and
  \<open>GV8ValueRetain\<close>; \<open>Gv8_Text\<close> errors, source locations and the check of snapshot data; \<open>Gv8_Callbacks\<close> the
  four callbacks by which V8 calls into the binding and through it into Go; \<open>Gv8_Context\<close>, \<open>Gv8_Script\<close>,
  \<open>Gv8_Isolate\<close>, \<open>Gv8_Primitive\<close>, \<open>Gv8_Convert\<close>, \<open>Gv8_Object\<close> and \<open>Gv8_Snapshot\<close> the exported operations.
  Each operation has a lemma that it keeps the invariant; \<open>Gv8_Api\<close> puts them together: what a host can reach by
  any sequence of calls, callbacks included, satisfies the invariant, so that a release is defined exactly on
  null and on live handles. A callback may call the exported functions again; the nesting is bounded by
  a depth, chosen anew for every call; every depth is covered by the theorems, and a greater one never changes a
  result that was defined (the order \<open>le\<close> of \<open>Prelude\<close>). The leaks and the use after free that the model shows are theorems too
  (\<open>ResolveModuleCallback_leaks\<close>, \<open>GV8ObjectCallMethod_leaks\<close>, \<open>callback_after_dispose\<close>).

  \<^bold>\<open>The V8 headers.\<close> \<open>V8_Memory\<close> is byte memory with little-endian words. On it, \<open>V8_Smi\<close> models tagging and
  pointer compression, \<open>V8_Tags\<close> the tags of external pointers and the tables, \<open>V8_Internals\<close> the raw accessors of
  \<open>v8-internal.h\<close>, \<open>V8_Access\<close> the inline accessors of values, objects, contexts and strings, \<open>V8_Scopes\<close> handle
  scopes and locals, \<open>V8_CallbackInfo\<close> the frames of callbacks and return values (with \<open>V8_Double\<close>). Without
  memory, \<open>V8_Maybe\<close>, \<open>V8_Origin\<close>, \<open>V8_Api\<close> have the small types, \<open>V8_Handles\<close> the persistent handles as values
  and \<open>V8_Refs\<close> as variables, traced references included, \<open>V8_Util\<close> the maps of handles, \<open>V8_FastApi\<close> the
  descriptions of fast calls, \<open>V8_Span\<close> spans and wrapped iterators, \<open>V8_Platform\<close> the interface to the host
  (tasks, page permissions, address spaces, time), \<open>V8_Script\<close> sources, compile options and cached data,
  \<open>V8_Template\<close> the configurations of property interceptors, \<open>V8_Isolate\<close> resource constraints, creation
  parameters, scopes and statistics. \<open>V8_Casts\<close> has the hierarchy of API classes and the checked conversions of
  handles between them, \<open>V8_Direct\<close> the handles of builds with direct handles and their agreement with the others,
  \<open>V8_Objects\<close> wrapping, contexts, array buffers and the maps with weak callbacks of two passes,
  \<open>V8_Primitive\<close> numbers by their width and the views of strings. What an embedder implements
  or is given is in \<open>V8_Embedder\<close> (start-up, extensions, weak callbacks, snapshots, traced references, stack
  traces), \<open>V8_Tracing\<close> (events and the trace configuration), \<open>V8_Inspector\<close> (the client of the debugger) and
  \<open>V8_Profiler\<close> (options and values of the profilers). \<open>V8_Metrics\<close> has the records of the metrics interface and the
  version of the library.

  \<^bold>\<open>The managed C++ heap.\<close> \<open>Cppgc_Pointers\<close> models compressed and raw member pointers, \<open>Cppgc_Persistent\<close> the
  regions of roots with their free list and the persistents of one thread, \<open>Cppgc_CrossThread\<close> those that
  threads share, with every interleaving of their locked parts and the collector, \<open>Cppgc_Barrier\<close> the choice of
  write barriers and \<open>Cppgc_Member\<close> the members that use them. \<open>Cppgc_Visitor\<close> is the tracing of members and roots;
  what a visitor does is a parameter, and the theorems say what follows when it marks the objects it is shown.
  \<open>Cppgc_GCInfo\<close> says how a class is registered with the collector (finalizer, name, index) and
  \<open>Cppgc_Allocation\<close> how an object is made; the facts about C++ classes that templates compute with are a record.
  \<open>Cppgc_Mixed\<close> has what members and persistents do with each other, every comparison of a member, the checking
  policies and tagged members. \<open>Cppgc_Traits\<close> has the compile-time traits of classes, freeing and resizing by hand,
  and the statistics; a trait that does not compile is \<open>None\<close>.

  \<^bold>\<open>Groups of lemmas.\<close> The interfaces are locales, each interpreted on the definitions that provide them:
  storage cells and wrappers (\<open>Prelude\<close>), access to words in memory (\<open>V8_Memory\<close>), Smi tagging (\<open>V8_Smi\<close>), the pool
  of nodes (\<open>Cppgc_Persistent\<close>), iteration over a range (\<open>V8_Span\<close>), stores of cells (\<open>V8_Refs\<close>) and the
  place where local handles live (\<open>V8_Direct\<close>). The properties
  are of four sorts: invariants under all operations (the handles of the binding, the roots of the heap, the
  colours of members, the cross-thread regions); refinements of a simple specification (handle variables and
  members are assignments, maps of handles are maps, callback frames show the call); exactness of bit-level code
  (Smis, tags, compressed pointers, fast calls) by word arithmetic; and termination or progress of loops and of
  operations that wait for a lock.

  \<^bold>\<open>Not modelled.\<close> Declarations whose bodies are in the library (most of \<open>v8-isolate.h\<close>, \<open>v8-template.h\<close>,
  \<open>v8-wasm.h\<close>, \<open>v8-value-serializer.h\<close> and of the classes of the profiler and the inspector): there is no code to model. The feature macros of \<open>v8config.h\<close>, the
  comments and the type traits, which have no behaviour at run time. Threads in the binding: \<open>v8::Locker\<close> is taken
  as making its operations sequential. The Go files, scripts and data files, which are in other languages.
\<close>

end
